(* ===== verification/Prelude.thy ===== *)
theory Prelude imports Complex_Main "HOL-Library.Code_Target_Nat" begin

text \<open>
  Shared vocabulary of the development: JavaScript strings, the string operations the
  console and the Pi agent call, the stable sort of \<open>Array.prototype.sort\<close>, results of
  fallible code, and the hint collections of the component theories.

  A JavaScript string is a sequence of 16-bit code units. It is modelled as a list of
  code units (\<open>nat\<close>), so that \<open>length\<close>, \<open>slice\<close> and indexing count what the source
  counts; \<open>js ''abc''\<close> is the literal \<open>"abc"\<close>, and the few non-ASCII literals of the
  source are named constants.
\<close>

named_theorems js_str \<open>facts that evaluate string operations on literals\<close>
named_theorems res_split \<open>case splits of fallible results\<close>

section \<open>Strings\<close>

type_synonym jstr = "nat list"

definition js :: "string \<Rightarrow> jstr" where
  "js s = map of_char s"

definition em_dash :: jstr where "em_dash = [8212]"
definition ellipsis :: jstr where "ellipsis = [8230]"
definition middot :: jstr where "middot = [183]"

lemma js_inject [simp]: "js a = js b \<longleftrightarrow> a = b"
  by (simp add: js_def inj_map_eq_map inj_def)

lemma js_Nil [simp]: "js '''' = []" "js s = [] \<longleftrightarrow> s = ''''" "[] = js s \<longleftrightarrow> s = ''''"
  by (auto simp: js_def)

lemma length_js [simp]: "length (js s) = length s"
  by (simp add: js_def)

lemma js_append: "js (a @ b) = js a @ js b"
  by (simp add: js_def)

lemma take_js [js_str]: "take n (js s) = js (take n s)"
  by (simp add: js_def take_map)

lemma drop_js [js_str]: "drop n (js s) = js (drop n s)"
  by (simp add: js_def drop_map)

lemma js_Cons: "js (c # s) = of_char c # js s"
  by (simp add: js_def)

definition starts_with :: "jstr \<Rightarrow> jstr \<Rightarrow> bool" where
  "starts_with s p \<longleftrightarrow> take (length p) s = p"

definition ends_with :: "jstr \<Rightarrow> jstr \<Rightarrow> bool" where
  "ends_with s p \<longleftrightarrow> starts_with (rev s) (rev p)"

lemma starts_with_append [simp]: "starts_with (p @ s) p"
  by (simp add: starts_with_def)

lemma starts_with_iff: "starts_with s p \<longleftrightarrow> (\<exists>t. s = p @ t)"
  by (auto simp: starts_with_def) (metis append_take_drop_id)

text \<open>\<open>s.split(c)\<close> for a one-character separator: never the empty list.\<close>

fun split_on :: "'a \<Rightarrow> 'a list \<Rightarrow> 'a list list" where
  "split_on c [] = [[]]"
| "split_on c (x # xs) =
     (if x = c then [] # split_on c xs
      else case split_on c xs of [] \<Rightarrow> [[x]] | w # ws \<Rightarrow> (x # w) # ws)"

fun join_with :: "'a list \<Rightarrow> 'a list list \<Rightarrow> 'a list" where
  "join_with sep [] = []"
| "join_with sep [w] = w"
| "join_with sep (w # ws) = w @ sep @ join_with sep ws"

lemma split_on_not_Nil [simp]: "split_on c s \<noteq> []"
  by (cases s) (auto split: list.splits)

lemma join_with_Cons: "ws \<noteq> [] \<Longrightarrow> join_with sep (w # ws) = w @ sep @ join_with sep ws"
  by (cases ws) auto

lemma join_split_on [simp]: "join_with [c] (split_on c s) = s"
proof (induction c s rule: split_on.induct)
  case (2 c x xs)
  obtain w ws where w: "split_on c xs = w # ws"
    using split_on_not_Nil neq_Nil_conv by metis
  show ?case
  proof (cases "x = c")
    case True
    with 2 w show ?thesis by (simp add: join_with_Cons)
  next
    case False
    with 2 w show ?thesis by (cases ws) auto
  qed
qed simp

lemma split_on_parts: "w \<in> set (split_on c s) \<Longrightarrow> c \<notin> set w"
  by (induction c s arbitrary: w rule: split_on.induct) (auto split: if_splits list.splits)

lemma split_on_no_sep: "c \<notin> set s \<Longrightarrow> split_on c s = [s]"
  by (induction s) auto

lemma split_on_append: "c \<notin> set w \<Longrightarrow> split_on c (w @ c # s) = w # split_on c s"
  by (induction w) auto

lemma split_on_join:
  "ws \<noteq> [] \<Longrightarrow> \<forall>w \<in> set ws. c \<notin> set w \<Longrightarrow> split_on c (join_with [c] ws) = ws"
proof (induction ws)
  case (Cons w ws)
  then show ?case
    by (cases "ws = []") (auto simp: split_on_no_sep split_on_append join_with_Cons)
qed simp

text \<open>White space and line terminators of \<open>String.prototype.trim\<close>.\<close>

definition is_space :: "nat \<Rightarrow> bool" where
  "is_space c \<longleftrightarrow> 9 \<le> c \<and> c \<le> 13 \<or> c = 32 \<or> c = 160 \<or> c = 5760 \<or> 8192 \<le> c \<and> c \<le> 8202
     \<or> c \<in> set [8232, 8233, 8239, 8287, 12288, 65279]"

definition trim_start :: "jstr \<Rightarrow> jstr" where
  "trim_start s = dropWhile is_space s"

definition trim_end :: "jstr \<Rightarrow> jstr" where
  "trim_end s = rev (dropWhile is_space (rev s))"

definition trim :: "jstr \<Rightarrow> jstr" where
  "trim s = trim_end (trim_start s)"

lemma trim_eq_Nil_iff: "trim s = [] \<longleftrightarrow> (\<forall>c \<in> set s. is_space c)"
proof -
  have "trim s = [] \<longleftrightarrow> (\<forall>c \<in> set (dropWhile is_space s). is_space c)"
    by (simp add: trim_def trim_end_def trim_start_def)
  also have "\<dots> \<longleftrightarrow> (\<forall>c \<in> set s. is_space c)"
    by (induction s) auto
  finally show ?thesis .
qed

text \<open>ASCII case mapping. \<open>toUpperCase\<close> and \<open>toLowerCase\<close> also map letters beyond ASCII;
  the source applies them to identifiers of the factory, which are ASCII.\<close>

definition up1 :: "nat \<Rightarrow> nat" where
  "up1 c = (if 97 \<le> c \<and> c \<le> 122 then c - 32 else c)"

definition low1 :: "nat \<Rightarrow> nat" where
  "low1 c = (if 65 \<le> c \<and> c \<le> 90 then c + 32 else c)"

definition to_upper :: "jstr \<Rightarrow> jstr" where "to_upper s = map up1 s"
definition to_lower :: "jstr \<Rightarrow> jstr" where "to_lower s = map low1 s"

definition is_digit :: "nat \<Rightarrow> bool" where
  "is_digit c \<longleftrightarrow> 48 \<le> c \<and> c \<le> 57"

text \<open>\<open>\w\<close> of a regular expression without flags.\<close>

definition is_word :: "nat \<Rightarrow> bool" where
  "is_word c \<longleftrightarrow> is_digit c \<or> 65 \<le> c \<and> c \<le> 90 \<or> 97 \<le> c \<and> c \<le> 122 \<or> c = 95"

text \<open>\<open>s.replace(/\/+$/, "")\<close> and its kin: drop the longest suffix of one character.\<close>

definition strip_trailing :: "'a \<Rightarrow> 'a list \<Rightarrow> 'a list" where
  "strip_trailing c s = rev (dropWhile (\<lambda>x. x = c) (rev s))"

lemma strip_trailing_last: "strip_trailing c s = [] \<or> last (strip_trailing c s) \<noteq> c"
  using hd_dropWhile [of "\<lambda>x. x = c" "rev s"] by (auto simp: strip_trailing_def last_rev)

lemma strip_trailing_id: "s = [] \<or> last s \<noteq> c \<Longrightarrow> strip_trailing c s = s"
  by (cases s rule: rev_cases) (auto simp: strip_trailing_def)

text \<open>\<open>xs.slice(-k)\<close>: the last \<open>k\<close> elements, all of them when there are fewer.\<close>

definition slice_last :: "nat \<Rightarrow> 'a list \<Rightarrow> 'a list" where
  "slice_last k xs = drop (length xs - k) xs"

text \<open>The defined elements of a list of optional values.\<close>

fun somes :: "'a option list \<Rightarrow> 'a list" where
  "somes [] = []"
| "somes (None # xs) = somes xs"
| "somes (Some x # xs) = x # somes xs"

lemma set_somes [simp]: "x \<in> set (somes xs) \<longleftrightarrow> Some x \<in> set xs"
  by (induction xs rule: somes.induct) auto

lemma somes_map_Some [simp]: "somes (map (\<lambda>x. Some (f x)) xs) = map f xs"
  by (induction xs) auto

definition contains :: "jstr \<Rightarrow> jstr \<Rightarrow> bool" where
  "contains s p \<longleftrightarrow> (\<exists>i \<in> set [0..<length s + 1]. starts_with (drop i s) p)"

section \<open>Decimal digits\<close>

text \<open>The digits of a non-negative integer, most significant first.\<close>

fun dec_nat :: "nat \<Rightarrow> jstr" where
  "dec_nat n = (if n < 10 then [48 + n] else dec_nat (n div 10) @ [48 + n mod 10])"

declare dec_nat.simps [simp del]

definition dec_int :: "int \<Rightarrow> jstr" where
  "dec_int n = (if n < 0 then 45 # dec_nat (nat (- n)) else dec_nat (nat n))"

text \<open>The value of a digit string.\<close>

definition digits_val :: "jstr \<Rightarrow> nat" where
  "digits_val s = foldl (\<lambda>n c. 10 * n + (c - 48)) 0 s"

lemma dec_nat_digits: "c \<in> set (dec_nat n) \<Longrightarrow> is_digit c"
proof (induction n rule: dec_nat.induct)
  case (1 n)
  then show ?case
    by (subst (asm) dec_nat.simps) (auto simp: is_digit_def split: if_splits)
qed

lemma dec_nat_not_Nil [simp]: "dec_nat n \<noteq> []"
  by (subst dec_nat.simps) simp

lemma digits_val_snoc [simp]: "digits_val (s @ [c]) = 10 * digits_val s + (c - 48)"
  by (simp add: digits_val_def)

lemma digits_val_dec_nat [simp]: "digits_val (dec_nat n) = n"
proof (induction n rule: dec_nat.induct)
  case (1 n)
  show ?case
  proof (cases "n < 10")
    case True
    then show ?thesis by (subst dec_nat.simps) (simp add: digits_val_def)
  next
    case False
    with 1 show ?thesis by (subst dec_nat.simps) simp
  qed
qed

lemma dec_nat_inject [simp]: "dec_nat m = dec_nat n \<longleftrightarrow> m = n"
  by (metis digits_val_dec_nat)

section \<open>Stable sorting\<close>

text \<open>\<open>Array.prototype.sort\<close> is stable: elements the comparator calls equal keep their
  order. \<open>cmp a b\<close> is the comparator's number, as its sign.\<close>

fun insort_cmp :: "('a \<Rightarrow> 'a \<Rightarrow> int) \<Rightarrow> 'a \<Rightarrow> 'a list \<Rightarrow> 'a list" where
  "insort_cmp cmp x [] = [x]"
| "insort_cmp cmp x (y # ys) = (if cmp x y \<le> 0 then x # y # ys else y # insort_cmp cmp x ys)"

definition sort_cmp :: "('a \<Rightarrow> 'a \<Rightarrow> int) \<Rightarrow> 'a list \<Rightarrow> 'a list" where
  "sort_cmp cmp xs = foldr (insort_cmp cmp) xs []"

lemma sort_cmp_simps [simp]:
  "sort_cmp cmp [] = []" "sort_cmp cmp (x # xs) = insort_cmp cmp x (sort_cmp cmp xs)"
  by (simp_all add: sort_cmp_def)

lemma set_insort_cmp [simp]: "set (insort_cmp cmp x ys) = insert x (set ys)"
  by (induction ys) auto

lemma set_sort_cmp [simp]: "set (sort_cmp cmp xs) = set xs"
  by (induction xs) auto

lemma length_insort_cmp [simp]: "length (insort_cmp cmp x ys) = Suc (length ys)"
  by (induction ys) auto

lemma length_sort_cmp [simp]: "length (sort_cmp cmp xs) = length xs"
  by (induction xs) auto

lemma sort_cmp_Nil_iff [simp]: "sort_cmp cmp xs = [] \<longleftrightarrow> xs = []"
  by (metis length_0_conv length_sort_cmp)

lemma distinct_insort_cmp [simp]: "distinct (insort_cmp cmp x ys) \<longleftrightarrow> x \<notin> set ys \<and> distinct ys"
  by (induction ys) auto

lemma distinct_sort_cmp [simp]: "distinct (sort_cmp cmp xs) \<longleftrightarrow> distinct xs"
  by (induction xs) auto

lemma distinct_map_insort_cmp [simp]:
  "distinct (map f (insort_cmp cmp x ys)) \<longleftrightarrow> f x \<notin> f ` set ys \<and> distinct (map f ys)"
  by (induction ys) auto

lemma distinct_map_sort_cmp [simp]: "distinct (map f (sort_cmp cmp xs)) \<longleftrightarrow> distinct (map f xs)"
  by (induction xs) auto

text \<open>The contract of a comparator: a total preorder, as the specification of \<open>sort\<close> asks.\<close>

locale comparator =
  fixes cmp :: "'a \<Rightarrow> 'a \<Rightarrow> int"
  assumes total: "cmp x y \<le> 0 \<or> cmp y x \<le> 0"
    and trans: "cmp x y \<le> 0 \<Longrightarrow> cmp y z \<le> 0 \<Longrightarrow> cmp x z \<le> 0"
begin

lemma sorted_insort:
  "sorted_wrt (\<lambda>a b. cmp a b \<le> 0) ys \<Longrightarrow> sorted_wrt (\<lambda>a b. cmp a b \<le> 0) (insort_cmp cmp x ys)"
proof (induction ys)
  case (Cons y ys)
  show ?case
  proof (cases "cmp x y \<le> 0")
    case True
    with Cons.prems show ?thesis by (auto intro: trans)
  next
    case False
    with total have "cmp y x \<le> 0" by blast
    with False Cons show ?thesis by auto
  qed
qed simp

lemma sorted_sort: "sorted_wrt (\<lambda>a b. cmp a b \<le> 0) (sort_cmp cmp xs)"
  by (induction xs) (auto intro: sorted_insort)

lemma sort_sorted_id: "sorted_wrt (\<lambda>a b. cmp a b \<le> 0) xs \<Longrightarrow> sort_cmp cmp xs = xs"
proof (induction xs)
  case (Cons x xs)
  then have "sort_cmp cmp xs = xs" by simp
  with Cons.prems show ?case by (cases xs) auto
qed simp

lemma sort_idem: "sort_cmp cmp (sort_cmp cmp xs) = sort_cmp cmp xs"
  by (rule sort_sorted_id) (rule sorted_sort)

end

section \<open>Fallible results\<close>

text \<open>A thrown \<open>Error\<close>: its message, and the \<open>code\<close> Node sets on system errors.\<close>

record js_error =
  message :: jstr
  code :: "jstr option"

definition err :: "string \<Rightarrow> js_error" where
  "err m = \<lparr>message = js m, code = None\<rparr>"

definition sys_err :: "string \<Rightarrow> js_error" where
  "sys_err c = \<lparr>message = js c, code = Some (js c)\<rparr>"

lemma err_simps [simp]:
  "message (err m) = js m" "code (err m) = None"
  "message (sys_err c) = js c" "code (sys_err c) = Some (js c)"
  by (simp_all add: err_def sys_err_def)

type_synonym 'a result = "js_error + 'a"

definition bind_r :: "'a result \<Rightarrow> ('a \<Rightarrow> 'b result) \<Rightarrow> 'b result" where
  "bind_r m f = (case m of Inl e \<Rightarrow> Inl e | Inr a \<Rightarrow> f a)"

definition check :: "bool \<Rightarrow> string \<Rightarrow> unit result" where
  "check b m = (if b then Inl (err m) else Inr ())"

lemma bind_r_simps [simp]: "bind_r (Inl e) f = Inl e" "bind_r (Inr a) f = f a"
  by (simp_all add: bind_r_def)

lemma bind_r_Inr_iff: "bind_r m f = Inr b \<longleftrightarrow> (\<exists>a. m = Inr a \<and> f a = Inr b)"
  by (cases m) auto

lemma bind_r_Inl_iff: "bind_r m f = Inl e \<longleftrightarrow> m = Inl e \<or> (\<exists>a. m = Inr a \<and> f a = Inl e)"
  by (cases m) auto

lemma check_Inr_iff [simp]: "check b m = Inr u \<longleftrightarrow> \<not> b"
  by (simp add: check_def)

lemma check_Inl_iff [simp]: "check b m = Inl e \<longleftrightarrow> b \<and> e = err m"
  by (auto simp: check_def)

lemmas bind_r_iff [res_split] = bind_r_Inr_iff bind_r_Inl_iff

end
