(* ===== verification/Js_Number.thy ===== *)
theory Js_Number imports Prelude begin

text \<open>
  JavaScript numbers: IEEE 754 doubles with round-to-nearest, ties to even. A finite
  number is the rational it stands for; \<open>fl\<close> rounds an exact result to the nearest
  double, so sums, quotients and products round where the program's do. The two zeros are
  one value (no code of the repository tells them apart but by \<open>1/x\<close>, which it never
  computes). Also the number parts of the standard library the source calls:
  \<open>Math.floor\<close>, \<open>Math.round\<close>, \<open>toFixed\<close>, \<open>String(n)\<close>, \<open>Number.isSafeInteger\<close> and
  \<open>Intl.NumberFormat("en-US")\<close>.
\<close>

section \<open>Rounding to a double\<close>

datatype jnum = NaN | Inf bool \<comment> \<open>\<open>Inf True\<close> is \<open>+Infinity\<close>\<close> | Fin rat

text \<open>The number of binary digits of an integer.\<close>

fun bits :: "int \<Rightarrow> nat" where
  "bits n = (if n \<le> 0 then 0 else Suc (bits (n div 2)))"

declare bits.simps [simp del]

text \<open>The integer part of the binary logarithm of a positive rational.\<close>

definition ilog2 :: "rat \<Rightarrow> int" where
  "ilog2 x = (if 1 \<le> x then int (bits \<lfloor>x\<rfloor>) - 1 else - int (bits (\<lceil>1 / x\<rceil> - 1)))"

definition round_even :: "rat \<Rightarrow> int" where
  "round_even x = (let f = \<lfloor>x\<rfloor>; d = x - of_int f in
     if d < 1 / 2 then f else if 1 / 2 < d then f + 1 else if even f then f else f + 1)"

definition ulp_exp :: "rat \<Rightarrow> int" where
  "ulp_exp x = max (ilog2 \<bar>x\<bar> - 52) (- 1074)"

definition fl :: "rat \<Rightarrow> jnum" where
  "fl x = (if x = 0 then Fin 0
     else let q = 2 powi ulp_exp x; y = of_int (round_even (x / q)) * q in
       if 2 ^ 1024 \<le> \<bar>y\<bar> then Inf (0 < x) else Fin y)"

lemma bits_le: "0 < n \<Longrightarrow> 2 ^ bits n \<le> 2 * n"
proof (induction n rule: bits.induct)
  case (1 n)
  show ?case
  proof (cases "n = 1")
    case True
    then show ?thesis by (simp add: bits.simps)
  next
    case False
    with 1 have "2 ^ bits (n div 2) \<le> 2 * (n div 2)" by simp
    with "1.prems" show ?thesis by (subst bits.simps) simp
  qed
qed

lemma bits_gt: "n < 2 ^ bits n"
proof (induction n rule: bits.induct)
  case (1 n)
  show ?case
  proof (cases "n \<le> 0")
    case True
    then show ?thesis by (simp add: bits.simps)
  next
    case False
    with 1 have "n div 2 < 2 ^ bits (n div 2)" by simp
    with False show ?thesis by (subst bits.simps) simp
  qed
qed

lemma bits_pos: "0 < n \<Longrightarrow> 0 < bits n"
  by (subst bits.simps) simp

lemma ilog2_bounds:
  assumes "0 < x"
  shows "2 powi ilog2 x \<le> x" and "x < 2 powi (ilog2 x + 1)"
proof -
  have "2 powi ilog2 x \<le> x \<and> x < 2 powi (ilog2 x + 1)"
  proof (cases "1 \<le> x")
    case True
    define n where "n = \<lfloor>x\<rfloor>"
    have n: "0 < n" "of_int n \<le> x" "x < of_int n + 1"
      using True by (auto simp: n_def) (linarith)
    obtain k where k: "bits n = Suc k" using bits_pos [OF n(1)] gr0_conv_Suc by blast
    have "(2::int) ^ k \<le> n" "n + 1 \<le> 2 ^ Suc k"
      using bits_le [OF n(1)] bits_gt [of n] k by auto
    then have "of_int (2 ^ k) \<le> (of_int n :: rat)" "(of_int (n + 1) :: rat) \<le> of_int (2 ^ Suc k)"
      by (simp_all only: of_int_le_iff)
    then have "(2::rat) ^ k \<le> of_int n" "of_int n + 1 \<le> (2::rat) ^ Suc k" by simp_all
    then have b: "2 ^ k \<le> x" "x < 2 ^ Suc k" using n(2,3) by linarith+
    have e: "ilog2 x = int k" "ilog2 x + 1 = int (Suc k)"
      using True k by (simp_all add: ilog2_def n_def)
    have "(2::rat) powi ilog2 x = 2 ^ k" by (simp only: e(1) power_int_of_nat)
    moreover have "(2::rat) powi (ilog2 x + 1) = 2 ^ Suc k" by (simp only: e(2) power_int_of_nat)
    ultimately show ?thesis using b by simp
  next
    case False
    define n where "n = \<lceil>1 / x\<rceil> - 1"
    have "1 < 1 / x" using False assms by simp
    then have n: "0 < n" "of_int n < 1 / x" "1 / x \<le> of_int n + 1"
      by (auto simp: n_def) linarith+
    obtain k where k: "bits n = Suc k" using bits_pos [OF n(1)] gr0_conv_Suc by blast
    have "(2::int) ^ k \<le> n" "n + 1 \<le> 2 ^ Suc k"
      using bits_le [OF n(1)] bits_gt [of n] k by auto
    then have "of_int (2 ^ k) \<le> (of_int n :: rat)" "(of_int (n + 1) :: rat) \<le> of_int (2 ^ Suc k)"
      by (simp_all only: of_int_le_iff)
    then have "(2::rat) ^ k \<le> of_int n" "of_int n + 1 \<le> (2::rat) ^ Suc k" by simp_all
    then have b: "2 ^ k < 1 / x" "1 / x \<le> 2 ^ Suc k" using n(2,3) by linarith+
    have e: "ilog2 x = - int (Suc k)" "ilog2 x + 1 = - int k"
      using False k by (simp_all add: ilog2_def n_def)
    have p: "(2::rat) powi (- int j) = 1 / 2 ^ j" for j
      by (simp add: power_int_minus field_simps)
    have "1 / 2 ^ Suc k \<le> x" "x < 1 / 2 ^ k"
      using b assms by (simp_all add: field_simps)
    moreover have "(2::rat) powi ilog2 x = 1 / 2 ^ Suc k" by (simp only: e(1) p)
    moreover have "(2::rat) powi (ilog2 x + 1) = 1 / 2 ^ k" by (simp only: e(2) p)
    ultimately show ?thesis by simp
  qed
  then show "2 powi ilog2 x \<le> x" and "x < 2 powi (ilog2 x + 1)" by blast+
qed

lemma round_even_int [simp]: "round_even (of_int n) = n"
  by (simp add: round_even_def)

lemma round_even_ge: "of_int n \<le> x \<Longrightarrow> n \<le> round_even x"
proof -
  assume "of_int n \<le> x"
  then have "n \<le> \<lfloor>x\<rfloor>" by (simp add: le_floor_iff)
  then show ?thesis by (auto simp: round_even_def Let_def)
qed

lemma round_even_le: "x \<le> of_int n \<Longrightarrow> round_even x \<le> n"
proof -
  assume a: "x \<le> of_int n"
  then have f: "\<lfloor>x\<rfloor> \<le> n" by (simp add: floor_le_iff)
  show ?thesis
  proof (cases "\<lfloor>x\<rfloor> = n")
    case True
    with a have "x = of_int n" by (metis of_int_floor_le order_antisym)
    then show ?thesis by simp
  next
    case False
    with f show ?thesis by (auto simp: round_even_def Let_def)
  qed
qed

lemma round_even_mono: "x \<le> y \<Longrightarrow> round_even x \<le> round_even y"
proof -
  assume le: "x \<le> y"
  show ?thesis
  proof (cases "\<lfloor>x\<rfloor> = \<lfloor>y\<rfloor>")
    case True
    with le show ?thesis by (auto simp: round_even_def Let_def)
  next
    case False
    with le have "\<lfloor>x\<rfloor> + 1 \<le> \<lfloor>y\<rfloor>" by (meson floor_mono less_le not_less zless_imp_add1_zle)
    moreover have "round_even x \<le> \<lfloor>x\<rfloor> + 1" "\<lfloor>y\<rfloor> \<le> round_even y"
      by (auto simp: round_even_def Let_def)
    ultimately show ?thesis by linarith
  qed
qed

lemma ilog2_less: "0 < x \<Longrightarrow> x < 2 powi n \<Longrightarrow> ilog2 x < n"
proof (rule ccontr)
  assume x: "0 < x" "x < 2 powi n" and "\<not> ilog2 x < n"
  then have "(2::rat) powi n \<le> 2 powi ilog2 x" by (intro power_int_increasing) auto
  with ilog2_bounds(1) [OF x(1)] x(2) show False by linarith
qed

lemma ilog2_ge: "0 < x \<Longrightarrow> 2 powi n \<le> x \<Longrightarrow> n \<le> ilog2 x"
proof (rule ccontr)
  assume x: "0 < x" "2 powi n \<le> x" and "\<not> n \<le> ilog2 x"
  then have "(2::rat) powi (ilog2 x + 1) \<le> 2 powi n" by (intro power_int_increasing) auto
  with ilog2_bounds(2) [OF x(1)] x(2) show False by linarith
qed

text \<open>A number with at most 53 significant binary digits in the exponent range of a double
  is not changed by rounding.\<close>

lemma fl_exact:
  assumes m: "\<bar>m\<bar> < 2 ^ 53" and e: "- 1074 \<le> e"
    and x: "x = of_int m * 2 powi e" and big: "\<bar>x\<bar> < 2 ^ 1024"
  shows "fl x = Fin x"
proof (cases "x = 0")
  case False
  define q where "q = ulp_exp x"
  have m1: "\<bar>of_int m\<bar> < (2::rat) ^ 53"
    using m by (metis of_int_abs of_int_less_numeral_power_cancel_iff)
  have ax: "\<bar>x\<bar> = \<bar>of_int m\<bar> * 2 powi e" by (simp add: x abs_mult)
  have "\<bar>x\<bar> < 2 powi (53 + e)"
    unfolding ax using m1 by (simp add: power_int_add)
  with False have "ilog2 \<bar>x\<bar> < 53 + e" by (intro ilog2_less) auto
  then have qe: "q \<le> e" using e by (simp add: q_def ulp_exp_def)
  have "x / 2 powi q = of_int m * 2 powi (e - q)"
    by (simp add: x power_int_diff)
  also have "\<dots> = of_int (m * 2 ^ nat (e - q))"
    using qe by (simp add: power_int_def)
  finally have r: "round_even (x / 2 powi q) = m * 2 ^ nat (e - q)"
    using round_even_int by metis
  have "of_int (m * 2 ^ nat (e - q)) * 2 powi q = of_int m * (2 powi (e - q) * (2 powi q :: rat))"
    using qe by (simp add: power_int_def)
  also have "\<dots> = x" by (simp add: x power_int_add [symmetric])
  finally have y: "of_int (m * 2 ^ nat (e - q)) * 2 powi q = x" .
  show ?thesis
    using False big by (simp add: fl_def Let_def q_def [symmetric] r y del: of_int_mult)
qed (simp add: fl_def)

lemma fl_int: "\<bar>n\<bar> \<le> 2 ^ 53 \<Longrightarrow> fl (of_int n) = Fin (of_int n)"
proof (cases "\<bar>n\<bar> = 2 ^ 53")
  case True
  then have n: "n = 2 ^ 53 \<or> n = - (2 ^ 53)" by linarith
  have "fl (2 ^ 53) = Fin (2 ^ 53)"
    by (rule fl_exact [of 1 53]) (simp_all add: power_int_def)
  moreover have "fl (- (2 ^ 53)) = Fin (- (2 ^ 53))"
    by (rule fl_exact [of "- 1" 53]) (simp_all add: power_int_def)
  ultimately show ?thesis using n by auto
next
  case False
  assume "\<bar>n\<bar> \<le> 2 ^ 53"
  with False have n: "\<bar>n\<bar> < 2 ^ 53" by simp
  then have "\<bar>of_int n\<bar> < (2::rat) ^ 53"
    by (metis of_int_abs of_int_less_numeral_power_cancel_iff)
  also have "\<dots> \<le> 2 ^ 1024" by (rule power_increasing) auto
  finally show ?thesis using n by (intro fl_exact [of n 0]) auto
qed

text \<open>The integers of the exact range evaluate without any rounding.\<close>

lemma fl_code [code]:
  "fl x = (if of_int \<lfloor>x\<rfloor> = x \<and> \<bar>\<lfloor>x\<rfloor>\<bar> \<le> 9007199254740992 then Fin x
     else if x = 0 then Fin 0
     else let q = 2 powi ulp_exp x; y = of_int (round_even (x / q)) * q in
       if 2 ^ 1024 \<le> \<bar>y\<bar> then Inf (0 < x) else Fin y)"
proof (cases "of_int \<lfloor>x\<rfloor> = x \<and> \<bar>\<lfloor>x\<rfloor>\<bar> \<le> 9007199254740992")
  case True
  then have "fl (of_int \<lfloor>x\<rfloor>) = Fin (of_int \<lfloor>x\<rfloor>)" by (intro fl_int) simp
  with True show ?thesis by (simp only:) simp
next
  case False
  then show ?thesis by (simp only: fl_def if_False)
qed

text \<open>Rounding keeps a number at least a power of two at least that power.\<close>

lemma fl_ge_pow:
  assumes k: "- 1022 \<le> k" and x: "2 powi k \<le> x"
  shows "fl x = Inf True \<or> (\<exists>y. fl x = Fin y \<and> 2 powi k \<le> y)"
proof -
  have "(0::rat) < 2 powi k" by simp
  with x have pos: "0 < x" by linarith
  define e where "e = ilog2 x"
  define q where "q = ulp_exp x"
  have ek: "k \<le> e" unfolding e_def using pos x by (rule ilog2_ge)
  have q: "q = e - 52" using pos k ek by (simp add: q_def ulp_exp_def e_def)
  have "2 powi e \<le> x" unfolding e_def by (rule ilog2_bounds [OF pos])
  then have "2 powi (e - q) \<le> x / 2 powi q" by (simp add: power_int_diff field_simps)
  then have "of_int (2 ^ 52) \<le> x / 2 powi q" by (simp add: q)
  then have "2 ^ 52 \<le> round_even (x / 2 powi q)" by (rule round_even_ge)
  then have "of_int (2 ^ 52) \<le> (of_int (round_even (x / 2 powi q)) :: rat)"
    by (simp only: of_int_le_iff)
  then have "2 ^ 52 * 2 powi q \<le> of_int (round_even (x / 2 powi q)) * (2 powi q :: rat)"
    by (intro mult_right_mono) auto
  moreover have "(2::rat) ^ 52 * 2 powi q = 2 powi e"
    by (simp add: q power_int_diff)
  moreover have "(2::rat) powi k \<le> 2 powi e" using ek by (intro power_int_increasing) auto
  ultimately have "2 powi k \<le> of_int (round_even (x / 2 powi q)) * (2 powi q :: rat)"
    by linarith
  then show ?thesis
    using pos unfolding fl_def Let_def q_def [symmetric] by simp
qed

section \<open>Arithmetic\<close>

definition num_add :: "jnum \<Rightarrow> jnum \<Rightarrow> jnum" where
  "num_add a b = (case (a, b) of
     (Fin x, Fin y) \<Rightarrow> fl (x + y)
   | (Inf p, Inf q) \<Rightarrow> (if p = q then Inf p else NaN)
   | (Inf p, Fin _) \<Rightarrow> Inf p
   | (Fin _, Inf q) \<Rightarrow> Inf q
   | _ \<Rightarrow> NaN)"

fun num_neg :: "jnum \<Rightarrow> jnum" where
  "num_neg NaN = NaN"
| "num_neg (Inf p) = Inf (\<not> p)"
| "num_neg (Fin x) = Fin (- x)"

definition num_sub :: "jnum \<Rightarrow> jnum \<Rightarrow> jnum" where
  "num_sub a b = num_add a (num_neg b)"

definition num_mul :: "jnum \<Rightarrow> jnum \<Rightarrow> jnum" where
  "num_mul a b = (case (a, b) of
     (Fin x, Fin y) \<Rightarrow> fl (x * y)
   | (Inf p, Inf q) \<Rightarrow> Inf (p = q)
   | (Inf p, Fin y) \<Rightarrow> (if y = 0 then NaN else Inf (p = (0 < y)))
   | (Fin x, Inf q) \<Rightarrow> (if x = 0 then NaN else Inf (q = (0 < x)))
   | _ \<Rightarrow> NaN)"

text \<open>The source divides by numbers other than zero only; \<open>x / 0\<close> takes the zero as \<open>+0\<close>.\<close>

definition num_div :: "jnum \<Rightarrow> jnum \<Rightarrow> jnum" where
  "num_div a b = (case (a, b) of
     (Fin x, Fin y) \<Rightarrow> (if y = 0 then if x = 0 then NaN else Inf (0 < x) else fl (x / y))
   | (Inf p, Fin y) \<Rightarrow> Inf (p = (0 \<le> y))
   | (Fin _, Inf _) \<Rightarrow> Fin 0
   | _ \<Rightarrow> NaN)"

text \<open>The remainder has the sign of the dividend and is exact.\<close>

definition rat_rem :: "rat \<Rightarrow> rat \<Rightarrow> rat" where
  "rat_rem x y = (let t = \<lfloor>\<bar>x\<bar> / \<bar>y\<bar>\<rfloor> in sgn x * (\<bar>x\<bar> - of_int t * \<bar>y\<bar>))"

definition num_mod :: "jnum \<Rightarrow> jnum \<Rightarrow> jnum" where
  "num_mod a b = (case (a, b) of
     (Fin x, Fin y) \<Rightarrow> (if y = 0 then NaN else Fin (rat_rem x y))
   | (Fin x, Inf _) \<Rightarrow> Fin x
   | _ \<Rightarrow> NaN)"

text \<open>Comparisons: every comparison with \<open>NaN\<close> is false.\<close>

definition num_lt :: "jnum \<Rightarrow> jnum \<Rightarrow> bool" where
  "num_lt a b = (case (a, b) of
     (Fin x, Fin y) \<Rightarrow> x < y
   | (Inf p, Inf q) \<Rightarrow> \<not> p \<and> q
   | (Inf p, Fin _) \<Rightarrow> \<not> p
   | (Fin _, Inf q) \<Rightarrow> q
   | _ \<Rightarrow> False)"

definition num_eq :: "jnum \<Rightarrow> jnum \<Rightarrow> bool" where
  "num_eq a b \<longleftrightarrow> a \<noteq> NaN \<and> a = b"

definition num_le :: "jnum \<Rightarrow> jnum \<Rightarrow> bool" where
  "num_le a b \<longleftrightarrow> num_lt a b \<or> num_eq a b"

definition num_max :: "jnum \<Rightarrow> jnum \<Rightarrow> jnum" where
  "num_max a b = (if a = NaN \<or> b = NaN then NaN else if num_lt a b then b else a)"

definition num_min :: "jnum \<Rightarrow> jnum \<Rightarrow> jnum" where
  "num_min a b = (if a = NaN \<or> b = NaN then NaN else if num_lt b a then b else a)"

fun num_map :: "(rat \<Rightarrow> int) \<Rightarrow> jnum \<Rightarrow> jnum" where
  "num_map f (Fin x) = Fin (of_int (f x))"
| "num_map f n = n"

definition math_floor :: "jnum \<Rightarrow> jnum" where "math_floor = num_map floor"
definition math_ceil :: "jnum \<Rightarrow> jnum" where "math_ceil = num_map ceiling"

text \<open>\<open>Math.round\<close> rounds halves up.\<close>

definition math_round :: "jnum \<Rightarrow> jnum" where "math_round = num_map (\<lambda>x. \<lfloor>x + 1 / 2\<rfloor>)"

fun math_abs :: "jnum \<Rightarrow> jnum" where
  "math_abs NaN = NaN"
| "math_abs (Inf p) = Inf True"
| "math_abs (Fin x) = Fin \<bar>x\<bar>"

fun is_finite :: "jnum \<Rightarrow> bool" where
  "is_finite (Fin x) = True"
| "is_finite n = False"

fun is_integer :: "jnum \<Rightarrow> bool" where
  "is_integer (Fin x) = (of_int \<lfloor>x\<rfloor> = x)"
| "is_integer n = False"

fun is_safe_integer :: "jnum \<Rightarrow> bool" where
  "is_safe_integer (Fin x) = (of_int \<lfloor>x\<rfloor> = x \<and> \<bar>x\<bar> \<le> 2 ^ 53 - 1)"
| "is_safe_integer n = False"

abbreviation num_int :: "int \<Rightarrow> jnum" where "num_int n \<equiv> Fin (of_int n)"

lemmas num_defs = num_add_def num_sub_def num_mul_def num_div_def num_mod_def num_lt_def
  num_eq_def num_le_def num_max_def num_min_def math_floor_def math_ceil_def math_round_def

lemma num_le_Fin [simp]: "num_le (Fin x) (Fin y) \<longleftrightarrow> x \<le> y" "num_lt (Fin x) (Fin y) \<longleftrightarrow> x < y"
  by (auto simp: num_defs)

lemma num_NaN [simp]:
  "\<not> num_lt NaN a" "\<not> num_lt a NaN" "\<not> num_le NaN a" "\<not> num_le a NaN" "\<not> num_eq NaN a" "\<not> num_eq a NaN"
  by (auto simp: num_defs split: jnum.splits)

lemma is_safe_integerE:
  assumes "is_safe_integer n"
  obtains k where "n = num_int k" "\<bar>k\<bar> \<le> 2 ^ 53 - 1"
proof (cases n)
  case (Fin x)
  with assms have x: "of_int \<lfloor>x\<rfloor> = x" "\<bar>x\<bar> \<le> 2 ^ 53 - 1" by auto
  then have "\<bar>of_int \<lfloor>x\<rfloor>\<bar> \<le> (of_int (2 ^ 53 - 1) :: rat)" by (simp only:) simp
  then have "\<bar>\<lfloor>x\<rfloor>\<bar> \<le> 2 ^ 53 - 1" by (simp only: of_int_abs [symmetric] of_int_le_iff)
  with Fin x(1) that show ?thesis by metis
qed (use assms in auto)

lemma is_safe_integer_int: "\<bar>k\<bar> \<le> 2 ^ 53 - 1 \<Longrightarrow> is_safe_integer (num_int k)"
proof -
  assume "\<bar>k\<bar> \<le> 2 ^ 53 - 1"
  then have "(of_int \<bar>k\<bar> :: rat) \<le> of_int (2 ^ 53 - 1)" by (simp only: of_int_le_iff)
  then show ?thesis by simp
qed

lemma num_add_int: "\<bar>m + n\<bar> \<le> 2 ^ 53 \<Longrightarrow> num_add (num_int m) (num_int n) = num_int (m + n)"
  using fl_int [of "m + n"] by (simp add: num_add_def)

section \<open>Numbers as text\<close>

definition pad0 :: "nat \<Rightarrow> jstr \<Rightarrow> jstr" where
  "pad0 k s = replicate (k - length s) 48 @ s"

text \<open>The position of the decimal point of \<open>x > 0\<close>: \<open>10^(n-1) \<le> x < 10^n\<close>.\<close>

definition dec_point :: "rat \<Rightarrow> int" where
  "dec_point x = (if 1 \<le> x then int (length (dec_nat (nat \<lfloor>x\<rfloor>)))
     else 1 - int (length (dec_nat (nat (\<lceil>1 / x\<rceil> - 1)))))"

text \<open>The \<open>k\<close>-digit decimal closest to \<open>x\<close>, if it reads back as \<open>x\<close>: digits and point.\<close>

definition dec_try :: "rat \<Rightarrow> nat \<Rightarrow> (int \<times> int) option" where
  "dec_try x k = (let n = dec_point x; y = x * 10 powi (int k - n); s = round_even y in
     if fl (of_int s * 10 powi (n - int k)) = Fin x
     then Some (if s = 10 ^ k then (10 ^ (k - 1), n + 1) else (s, n)) else None)"

text \<open>\<open>Number::toString\<close>: the fewest digits that read back as the number; 17 always do.\<close>

fun dec_short :: "rat \<Rightarrow> nat list \<Rightarrow> int \<times> int" where
  "dec_short x [] = (round_even (x * 10 powi (17 - dec_point x)), dec_point x)"
| "dec_short x (k # ks) = (case dec_try x k of Some r \<Rightarrow> r | None \<Rightarrow> dec_short x ks)"

definition dec_layout :: "jstr \<Rightarrow> int \<Rightarrow> jstr" where
  "dec_layout ds n = (let k = int (length ds) in
     if k \<le> n \<and> n \<le> 21 then ds @ replicate (nat (n - k)) 48
     else if 0 < n \<and> n \<le> 21 then take (nat n) ds @ js ''.'' @ drop (nat n) ds
     else if - 6 < n \<and> n \<le> 0 then js ''0.'' @ replicate (nat (- n)) 48 @ ds
     else (let e = (if 0 \<le> n - 1 then js ''e+'' else js ''e-'') @ dec_nat (nat \<bar>n - 1\<bar>) in
       case ds of [] \<Rightarrow> e | [d] \<Rightarrow> d # e | d # r \<Rightarrow> d # js ''.'' @ r @ e))"

definition num_to_string :: "jnum \<Rightarrow> jstr" where
  "num_to_string a = (case a of
     NaN \<Rightarrow> js ''NaN''
   | Inf p \<Rightarrow> (if p then js ''Infinity'' else js ''-Infinity'')
   | Fin x \<Rightarrow>
       (if of_int \<lfloor>x\<rfloor> = x \<and> \<bar>x\<bar> \<le> 2 ^ 53 then dec_int \<lfloor>x\<rfloor>
        else let (s, n) = dec_short \<bar>x\<bar> [1..<18]; t = dec_layout (dec_nat (nat s)) n
          in if x < 0 then 45 # t else t))"

text \<open>\<open>n.toFixed(d)\<close>: exact decimal rounding of the double, halves away from zero.\<close>

definition fixed_digits :: "nat \<Rightarrow> rat \<Rightarrow> jstr" where
  "fixed_digits d x = (let s = pad0 (d + 1) (dec_nat (nat \<lfloor>x * 10 ^ d + 1 / 2\<rfloor>)) in
     if d = 0 then s else take (length s - d) s @ js ''.'' @ drop (length s - d) s)"

definition to_fixed :: "nat \<Rightarrow> jnum \<Rightarrow> jstr" where
  "to_fixed d a = (case a of
     Fin x \<Rightarrow> (if 10 ^ 21 \<le> \<bar>x\<bar> then num_to_string a
       else if x < 0 then 45 # fixed_digits d (- x) else fixed_digits d x)
   | _ \<Rightarrow> num_to_string a)"

text \<open>\<open>Intl.NumberFormat("en-US")\<close>: groups of three, at most three fraction digits, halves
  away from zero.\<close>

fun group3 :: "jstr \<Rightarrow> jstr" where
  "group3 (a # b # c # d # s) = a # b # c # 44 # group3 (d # s)"
| "group3 s = s"

definition group_digits :: "nat \<Rightarrow> jstr" where
  "group_digits n = rev (group3 (rev (dec_nat n)))"

definition fraction :: "nat \<Rightarrow> nat \<Rightarrow> jstr" where
  "fraction d f = (let s = strip_trailing 48 (pad0 d (dec_nat f)) in if s = [] then [] else 46 # s)"

definition en_us :: "jnum \<Rightarrow> jstr" where
  "en_us a = (case a of
     NaN \<Rightarrow> js ''NaN''
   | Inf p \<Rightarrow> (if p then [8734] else [45, 8734])
   | Fin x \<Rightarrow> (let m = nat \<lfloor>\<bar>x\<bar> * 1000 + 1 / 2\<rfloor>
       in (if x < 0 then [45] else []) @ group_digits (m div 1000) @ fraction 3 (m mod 1000)))"

text \<open>The same with \<open>notation: "compact"\<close> and at most one fraction digit: thousands,
  millions, billions and trillions; a value that rounds up to 1000 moves to the next unit.\<close>

definition compact_exp :: "int \<Rightarrow> nat" where
  "compact_exp mag = (if mag < 3 then 0 else if mag < 6 then 3 else if mag < 9 then 6
     else if mag < 12 then 9 else 12)"

definition compact_tenths :: "rat \<Rightarrow> nat \<Rightarrow> nat" where
  "compact_tenths x e = nat \<lfloor>x / 10 ^ e * 10 + 1 / 2\<rfloor>"

definition compact_unit :: "nat \<Rightarrow> jstr" where
  "compact_unit e = (if e = 0 then [] else if e = 3 then js ''K'' else if e = 6 then js ''M''
     else if e = 9 then js ''B'' else js ''T'')"

definition en_us_compact :: "jnum \<Rightarrow> jstr" where
  "en_us_compact a = (case a of
     Fin x \<Rightarrow> (let y = \<bar>x\<bar>; mag = dec_point y - 1; e0 = compact_exp mag;
         e = (if 10 ^ (nat (mag - int e0) + 1) \<le> compact_tenths y e0 div 10
              then compact_exp (mag + 1) else e0);
         m = (if y = 0 then 0 else compact_tenths y e)
       in (if x < 0 then [45] else [])
          @ (if m div 10 < 10000 then dec_nat (m div 10) else group_digits (m div 10))
          @ fraction 1 (m mod 10) @ (if y = 0 then [] else compact_unit e))
   | _ \<Rightarrow> en_us a)"

text \<open>\<open>StringToNumber\<close>: what \<open>Number(s)\<close> reads from a string.\<close>

definition hex_val :: "nat \<Rightarrow> nat option" where
  "hex_val c = (if is_digit c then Some (c - 48) else if 97 \<le> c \<and> c \<le> 102 then Some (c - 87)
     else if 65 \<le> c \<and> c \<le> 70 then Some (c - 55) else None)"

fun radix_val :: "nat \<Rightarrow> nat \<Rightarrow> jstr \<Rightarrow> nat option" where
  "radix_val b n [] = Some n"
| "radix_val b n (c # s) =
     (case hex_val c of Some d \<Rightarrow> if d < b then radix_val b (b * n + d) s else None | None \<Rightarrow> None)"

definition radix_num :: "nat \<Rightarrow> jstr \<Rightarrow> jnum" where
  "radix_num b s = (if s = [] then NaN
     else case radix_val b 0 s of None \<Rightarrow> NaN | Some n \<Rightarrow> fl (of_nat n))"

definition exponent_val :: "jstr \<Rightarrow> int option" where
  "exponent_val s = (case s of [] \<Rightarrow> Some 0
   | c # r \<Rightarrow> (let (neg, ds) = (case r of x # r' \<Rightarrow> if x = 43 then (False, r')
           else if x = 45 then (True, r') else (False, r) | [] \<Rightarrow> (False, r))
       in if (c = 101 \<or> c = 69) \<and> ds \<noteq> [] \<and> (\<forall>d \<in> set ds. is_digit d)
          then Some (if neg then - int (digits_val ds) else int (digits_val ds)) else None))"

definition decimal_num :: "jstr \<Rightarrow> rat option" where
  "decimal_num s = (let ip = takeWhile is_digit s; r = dropWhile is_digit s;
       (fp, r') = (case r of x # t \<Rightarrow> if x = 46 then (takeWhile is_digit t, dropWhile is_digit t)
           else ([], r) | [] \<Rightarrow> ([], []))
     in if ip = [] \<and> fp = [] then None
        else map_option (\<lambda>e. of_nat (digits_val (ip @ fp)) * 10 powi (e - int (length fp)))
          (exponent_val r'))"

definition signed_num :: "jstr \<Rightarrow> jnum" where
  "signed_num s = (if s = js ''Infinity'' then Inf True
     else case decimal_num s of None \<Rightarrow> NaN | Some x \<Rightarrow> fl x)"

definition str_to_num :: "jstr \<Rightarrow> jnum" where
  "str_to_num t = (let s = trim t in case s of
     [] \<Rightarrow> Fin 0
   | c # r \<Rightarrow>
       (if c = 45 then num_neg (signed_num r)
        else if c = 43 then signed_num r
        else if c = 48 \<and> r \<noteq> [] \<and> (hd r = 120 \<or> hd r = 88) then radix_num 16 (tl r)
        else if c = 48 \<and> r \<noteq> [] \<and> (hd r = 111 \<or> hd r = 79) then radix_num 8 (tl r)
        else if c = 48 \<and> r \<noteq> [] \<and> (hd r = 98 \<or> hd r = 66) then radix_num 2 (tl r)
        else signed_num s))"

lemma digit_not_space: "is_digit c \<Longrightarrow> \<not> is_space c"
  by (auto simp: is_digit_def is_space_def)

lemma trim_digits: "\<forall>c \<in> set s. is_digit c \<Longrightarrow> trim s = s"
proof -
  assume a: "\<forall>c \<in> set s. is_digit c"
  then have "dropWhile is_space s = s" "dropWhile is_space (rev s) = rev s"
    using digit_not_space by (cases s, auto, cases s rule: rev_cases, auto)
  then show ?thesis by (simp add: trim_def trim_start_def trim_end_def)
qed

lemma signed_num_digits:
  assumes d: "\<forall>c \<in> set s. is_digit c" and s: "s \<noteq> []"
  shows "signed_num s = fl (of_nat (digits_val s))"
proof -
  have "73 \<notin> set s" using d by (auto simp: is_digit_def)
  then have "s \<noteq> js ''Infinity''" by (auto simp: js_def)
  moreover have t: "takeWhile is_digit s = s" "dropWhile is_digit s = []"
    using d by (simp_all add: takeWhile_eq_all_conv dropWhile_eq_Nil_conv)
  have "decimal_num s = Some (of_nat (digits_val s))"
    unfolding decimal_num_def Let_def t using s by (simp add: exponent_val_def)
  ultimately show ?thesis
    by (simp add: signed_num_def)
qed

text \<open>An integer of a double's exact range reads back from its decimal text.\<close>

lemma str_to_num_dec_nat: "n \<le> 2 ^ 53 \<Longrightarrow> str_to_num (dec_nat n) = Fin (of_nat n)"
proof -
  assume n: "n \<le> 2 ^ 53"
  have d: "\<forall>c \<in> set (dec_nat n). is_digit c" using dec_nat_digits by blast
  obtain c r where cr: "dec_nat n = c # r" using dec_nat_not_Nil neq_Nil_conv by metis
  have c: "c \<noteq> 45" "c \<noteq> 43" using d cr by (auto simp: is_digit_def)
  have r: "r \<noteq> [] \<Longrightarrow> is_digit (hd r)" using d cr by (cases r) auto
  have "str_to_num (dec_nat n) = signed_num (dec_nat n)"
    using c r unfolding str_to_num_def trim_digits [OF d] Let_def
    by (auto simp: is_digit_def cr)
  also have "\<dots> = fl (of_nat n)" using signed_num_digits [OF d] by simp
  also have "\<dots> = Fin (of_nat n)" using fl_int [of "int n"] n by simp
  finally show ?thesis .
qed

lemma str_to_num_num_to_string: "\<bar>k\<bar> \<le> 2 ^ 53 \<Longrightarrow> str_to_num (num_to_string (num_int k)) = num_int k"
proof -
  assume k: "\<bar>k\<bar> \<le> 2 ^ 53"
  then have "\<bar>of_int k\<bar> \<le> (of_int (2 ^ 53) :: rat)" by (simp only: of_int_abs [symmetric] of_int_le_iff)
  then have s: "num_to_string (num_int k) = dec_int k" by (simp add: num_to_string_def)
  show ?thesis
  proof (cases "k < 0")
    case False
    then show ?thesis using k str_to_num_dec_nat [of "nat k"] by (simp add: s dec_int_def)
  next
    case True
    define m where "m = nat (- k)"
    have m: "m \<le> 2 ^ 53" using k by (simp add: m_def)
    have d: "\<forall>c \<in> set (dec_nat m). is_digit c" using dec_nat_digits by blast
    have ne: "dropWhile is_space (rev (dec_nat m) @ [45]) = rev (dec_nat m) @ [45]"
      using d digit_not_space by (cases "rev (dec_nat m)") (auto simp: is_space_def dest: arg_cong [where f = set])
    have "trim (45 # dec_nat m) = 45 # dec_nat m"
      using ne by (simp add: trim_def trim_start_def trim_end_def is_space_def)
    then have "str_to_num (dec_int k) = num_neg (signed_num (dec_nat m))"
      using True by (simp add: dec_int_def m_def str_to_num_def)
    also have "\<dots> = num_neg (fl (of_int (int m)))" using signed_num_digits [OF d] by simp
    also have "\<dots> = num_int k" using m fl_int [of "int m"] True by (simp add: m_def)
    finally show ?thesis by (simp add: s)
  qed
qed

end
