(* ===== verification/Js_Value.thy ===== *)
theory Js_Value imports Js_Number begin

text \<open>
  JavaScript values as the source reads them from JSON: the value type, truthiness,
  property reads, the coercions \<open>Number(v)\<close> and \<open>String(v)\<close>, strict equality, and
  \<open>JSON.stringify\<close> and \<open>JSON.parse\<close>. Property reads see own properties only.
  Objects keep their keys in insertion order.
\<close>

section \<open>Values\<close>

datatype jsval =
    Undef
  | Null
  | JBool bool
  | Num jnum
  | Str jstr
  | Arr "jsval list"
  | Obj "(jstr \<times> jsval) list"

abbreviation int_val :: "int \<Rightarrow> jsval" where "int_val n \<equiv> Num (num_int n)"

fun truthy :: "jsval \<Rightarrow> bool" where
  "truthy Undef = False"
| "truthy Null = False"
| "truthy (JBool b) = b"
| "truthy (Num n) = (n \<noteq> NaN \<and> n \<noteq> Fin 0)"
| "truthy (Str s) = (s \<noteq> [])"
| "truthy (Arr _) = True"
| "truthy (Obj _) = True"

fun nullish :: "jsval \<Rightarrow> bool" where
  "nullish Undef = True"
| "nullish Null = True"
| "nullish _ = False"

text \<open>\<open>a ?? b\<close> and \<open>a || b\<close>.\<close>

definition coalesce :: "jsval \<Rightarrow> jsval \<Rightarrow> jsval" where
  "coalesce a b = (if nullish a then b else a)"

definition js_or :: "jsval \<Rightarrow> jsval \<Rightarrow> jsval" where
  "js_or a b = (if truthy a then a else b)"

fun is_str :: "jsval \<Rightarrow> bool" where
  "is_str (Str _) = True"
| "is_str _ = False"

text \<open>\<open>typeof v === "object"\<close>.\<close>

fun is_object :: "jsval \<Rightarrow> bool" where
  "is_object Null = True"
| "is_object (Arr _) = True"
| "is_object (Obj _) = True"
| "is_object _ = False"

fun is_array :: "jsval \<Rightarrow> bool" where
  "is_array (Arr _) = True"
| "is_array _ = False"

text \<open>\<open>Array.isArray(v) ? v : []\<close>, a guard the console uses throughout.\<close>

fun as_list :: "jsval \<Rightarrow> jsval list" where
  "as_list (Arr xs) = xs"
| "as_list _ = []"

section \<open>Properties\<close>

definition lookup :: "(jstr \<times> jsval) list \<Rightarrow> jstr \<Rightarrow> jsval" where
  "lookup ps k = (case map_of ps k of None \<Rightarrow> Undef | Some v \<Rightarrow> v)"

fun field :: "jsval \<Rightarrow> jstr \<Rightarrow> jsval" where
  "field (Obj ps) k = lookup ps k"
| "field (Arr xs) k = (if k = js ''length'' then int_val (int (length xs)) else Undef)"
| "field (Str s) k = (if k = js ''length'' then int_val (int (length s)) else Undef)"
| "field _ k = Undef"

text \<open>\<open>v.k\<close> throws a \<open>TypeError\<close> on \<open>null\<close> and \<open>undefined\<close>; \<open>v?.k\<close> does not.\<close>

definition get :: "jsval \<Rightarrow> string \<Rightarrow> jsval result" where
  "get v k = (if nullish v then Inl (err ''Cannot read properties of undefined'') else Inr (field v (js k)))"

definition opt_get :: "jsval \<Rightarrow> string \<Rightarrow> jsval" where
  "opt_get v k = field v (js k)"

text \<open>\<open>obj[k] = v\<close>: an existing key keeps its place.\<close>

fun obj_put :: "(jstr \<times> jsval) list \<Rightarrow> jstr \<Rightarrow> jsval \<Rightarrow> (jstr \<times> jsval) list" where
  "obj_put [] k v = [(k, v)]"
| "obj_put ((k', v') # ps) k v = (if k' = k then (k, v) # ps else (k', v') # obj_put ps k v)"

lemma get_simps [simp]:
  "get Undef k = Inl (err ''Cannot read properties of undefined'')"
  "get Null k = Inl (err ''Cannot read properties of undefined'')"
  "get (Obj ps) k = Inr (lookup ps (js k))"
  by (simp_all add: get_def)

lemma opt_get_simps [simp]:
  "opt_get Undef k = Undef" "opt_get Null k = Undef" "opt_get (Obj ps) k = lookup ps (js k)"
  "opt_get (Num n) k = Undef" "opt_get (JBool b) k = Undef"
  by (simp_all add: opt_get_def)

lemma lookup_simps [simp]:
  "lookup [] k = Undef" "lookup ((k', v) # ps) k = (if k' = k then v else lookup ps k)"
  by (simp_all add: lookup_def)

lemma lookup_obj_put [simp]: "lookup (obj_put ps k v) k' = (if k = k' then v else lookup ps k')"
  by (induction ps k v rule: obj_put.induct) auto

section \<open>Coercions\<close>

fun to_str :: "jsval \<Rightarrow> jstr" where
  "to_str Undef = js ''undefined''"
| "to_str Null = js ''null''"
| "to_str (JBool b) = (if b then js ''true'' else js ''false'')"
| "to_str (Num n) = num_to_string n"
| "to_str (Str s) = s"
| "to_str (Arr xs) = join_with [44] (map (\<lambda>x. if nullish x then [] else to_str x) xs)"
| "to_str (Obj _) = js ''[object Object]''"

fun to_num :: "jsval \<Rightarrow> jnum" where
  "to_num Undef = NaN"
| "to_num Null = Fin 0"
| "to_num (JBool b) = Fin (if b then 1 else 0)"
| "to_num (Num n) = n"
| "to_num (Str s) = str_to_num s"
| "to_num v = str_to_num (to_str v)"

text \<open>\<open>Number(v) || 0\<close>.\<close>

definition num_or_0 :: "jsval \<Rightarrow> jnum" where
  "num_or_0 v = (if to_num v = NaN then Fin 0 else to_num v)"

text \<open>\<open>a === b\<close> for values of separate origin: two objects read from different payloads are
  never the same object.\<close>

fun strict_eq :: "jsval \<Rightarrow> jsval \<Rightarrow> bool" where
  "strict_eq (Num a) (Num b) = num_eq a b"
| "strict_eq (Str a) (Str b) = (a = b)"
| "strict_eq (JBool a) (JBool b) = (a = b)"
| "strict_eq Undef Undef = True"
| "strict_eq Null Null = True"
| "strict_eq _ _ = False"

text \<open>\<open>Number.isSafeInteger\<close> and \<open>Number.isFinite\<close> are false on anything but a number.\<close>

fun safe_int_val :: "jsval \<Rightarrow> bool" where
  "safe_int_val (Num n) = is_safe_integer n"
| "safe_int_val _ = False"

fun finite_val :: "jsval \<Rightarrow> bool" where
  "finite_val (Num n) = is_finite n"
| "finite_val _ = False"

lemma strict_eq_Str [simp]: "strict_eq v (Str s) \<longleftrightarrow> v = Str s" "strict_eq (Str s) v \<longleftrightarrow> v = Str s"
  by (cases v; auto)+

lemma num_or_0_not_NaN [simp]: "num_or_0 v \<noteq> NaN"
  by (simp add: num_or_0_def)

lemma safe_int_valE:
  assumes "safe_int_val v"
  obtains k where "v = int_val k" "\<bar>k\<bar> \<le> 2 ^ 53 - 1"
  using assms by (cases v) (auto elim: is_safe_integerE)

lemma to_num_int_val [simp]: "to_num (int_val n) = num_int n"
  by simp

lemma truthy_int_val [simp]: "truthy (int_val n) \<longleftrightarrow> n \<noteq> 0"
  by simp

section \<open>JSON text\<close>

text \<open>\<open>JSON.stringify\<close>: \<open>None\<close> is \<open>undefined\<close>, which an array prints as \<open>null\<close> and an object
  leaves out. A lone surrogate is escaped.\<close>

definition hex_digit :: "nat \<Rightarrow> nat" where
  "hex_digit n = (if n < 10 then 48 + n else 87 + n)"

definition u_escape :: "nat \<Rightarrow> jstr" where
  "u_escape c = [92, 117, hex_digit (c div 4096 mod 16), hex_digit (c div 256 mod 16),
     hex_digit (c div 16 mod 16), hex_digit (c mod 16)]"

definition is_high :: "nat \<Rightarrow> bool" where "is_high c \<longleftrightarrow> 55296 \<le> c \<and> c \<le> 56319"
definition is_low :: "nat \<Rightarrow> bool" where "is_low c \<longleftrightarrow> 56320 \<le> c \<and> c \<le> 57343"

definition quote1 :: "nat \<Rightarrow> jstr" where
  "quote1 c = (if c = 34 then [92, 34] else if c = 92 then [92, 92]
     else if c = 8 then [92, 98] else if c = 12 then [92, 102] else if c = 10 then [92, 110]
     else if c = 13 then [92, 114] else if c = 9 then [92, 116]
     else if c < 32 then u_escape c else [c])"

fun quote_units :: "jstr \<Rightarrow> jstr" where
  "quote_units [] = []"
| "quote_units (c # s) =
     (if is_high c then (case s of d # r \<Rightarrow>
          (if is_low d then c # d # quote_units r else u_escape c @ quote_units s)
        | [] \<Rightarrow> u_escape c)
      else if is_low c then u_escape c @ quote_units s
      else quote1 c @ quote_units s)"

definition quote :: "jstr \<Rightarrow> jstr" where
  "quote s = 34 # quote_units s @ [34]"

fun stringify :: "jsval \<Rightarrow> jstr option" where
  "stringify Undef = None"
| "stringify Null = Some (js ''null'')"
| "stringify (JBool b) = Some (if b then js ''true'' else js ''false'')"
| "stringify (Num n) = Some (if is_finite n then num_to_string n else js ''null'')"
| "stringify (Str s) = Some (quote s)"
| "stringify (Arr xs) = Some (91 # join_with [44]
     (map (\<lambda>x. case stringify x of None \<Rightarrow> js ''null'' | Some t \<Rightarrow> t) xs) @ [93])"
| "stringify (Obj ps) = Some (123 # join_with [44]
     (somes (map (\<lambda>p. map_option (\<lambda>t. quote (fst p) @ 58 # t) (stringify (snd p))) ps)) @ [125])"

text \<open>\<open>JSON.parse\<close>: \<open>None\<close> is the \<open>SyntaxError\<close>. The value parser counts down a fuel of
  twice the text's length plus two, one unit per nested call.\<close>

definition jws :: "jstr \<Rightarrow> jstr" where
  "jws s = dropWhile (\<lambda>c. c = 32 \<or> c = 9 \<or> c = 10 \<or> c = 13) s"

definition hex4 :: "nat list \<Rightarrow> nat option" where
  "hex4 s = (if length s = 4 then radix_val 16 0 s else None)"

definition unescape1 :: "nat \<Rightarrow> nat option" where
  "unescape1 e = (if e = 34 then Some 34 else if e = 92 then Some 92 else if e = 47 then Some 47
     else if e = 98 then Some 8 else if e = 102 then Some 12 else if e = 110 then Some 10
     else if e = 114 then Some 13 else if e = 116 then Some 9 else None)"

function parse_units :: "jstr \<Rightarrow> (jstr \<times> jstr) option" where
  "parse_units [] = None"
| "parse_units (c # s) =
     (if c = 34 then Some ([], s)
      else if c = 92 then
        (case s of [] \<Rightarrow> None
         | e # r \<Rightarrow>
             if e = 117 then
               (case hex4 (take 4 r) of None \<Rightarrow> None
                | Some u \<Rightarrow> map_option (\<lambda>(t, r'). (u # t, r')) (parse_units (drop 4 r)))
             else
               (case unescape1 e of None \<Rightarrow> None
                | Some u \<Rightarrow> map_option (\<lambda>(t, r'). (u # t, r')) (parse_units r)))
      else if c < 32 then None
      else map_option (\<lambda>(t, r'). (c # t, r')) (parse_units s))"
  by pat_completeness auto
termination by (relation "measure length") auto

definition json_number :: "jstr \<Rightarrow> jnum option" where
  "json_number t = (let neg = (t \<noteq> [] \<and> hd t = 45); u = (if neg then tl t else t);
       ip = takeWhile is_digit u; r = dropWhile is_digit u in
     if ip = [] \<or> hd ip = 48 \<and> length ip \<noteq> 1
        \<or> r \<noteq> [] \<and> hd r = 46 \<and> (tl r = [] \<or> \<not> is_digit (hd (tl r))) then None
     else map_option (\<lambda>x. if neg then num_neg (fl x) else fl x) (decimal_num u))"

definition num_char :: "nat \<Rightarrow> bool" where
  "num_char c \<longleftrightarrow> is_digit c \<or> c = 45 \<or> c = 43 \<or> c = 46 \<or> c = 101 \<or> c = 69"

definition expect :: "jstr \<Rightarrow> string \<Rightarrow> jsval \<Rightarrow> (jsval \<times> jstr) option" where
  "expect s w v = (if starts_with s (js w) then Some (v, drop (length w) s) else None)"

fun pval :: "nat \<Rightarrow> jstr \<Rightarrow> (jsval \<times> jstr) option"
  and parr :: "nat \<Rightarrow> jstr \<Rightarrow> (jsval list \<times> jstr) option"
  and pobj :: "nat \<Rightarrow> (jstr \<times> jsval) list \<Rightarrow> jstr \<Rightarrow> (jsval \<times> jstr) option" where
  "pval 0 s = None"
| "pval (Suc n) s = (case jws s of [] \<Rightarrow> None
     | c # r \<Rightarrow>
        (if c = 123 then (case jws r of [] \<Rightarrow> None
            | d # r' \<Rightarrow> if d = 125 then Some (Obj [], r') else pobj n [] r)
         else if c = 91 then (case jws r of [] \<Rightarrow> None
            | d # r' \<Rightarrow> if d = 93 then Some (Arr [], r')
                 else map_option (\<lambda>(vs, t). (Arr vs, t)) (parr n r))
         else if c = 34 then map_option (\<lambda>(t, r'). (Str t, r')) (parse_units r)
         else if c = 116 then expect (c # r) ''true'' (JBool True)
         else if c = 102 then expect (c # r) ''false'' (JBool False)
         else if c = 110 then expect (c # r) ''null'' Null
         else map_option (\<lambda>x. (Num x, dropWhile num_char (c # r)))
                (json_number (takeWhile num_char (c # r)))))"
| "parr 0 s = None"
| "parr (Suc n) s = (case pval n s of None \<Rightarrow> None
     | Some (v, r) \<Rightarrow> (case jws r of [] \<Rightarrow> None
        | d # r' \<Rightarrow> if d = 44 then map_option (\<lambda>(vs, t). (v # vs, t)) (parr n r')
            else if d = 93 then Some ([v], r') else None))"
| "pobj 0 ps s = None"
| "pobj (Suc n) ps s = (case jws s of [] \<Rightarrow> None
     | q # r \<Rightarrow> if q \<noteq> 34 then None
        else (case parse_units r of None \<Rightarrow> None
          | Some (k, r1) \<Rightarrow> (case jws r1 of [] \<Rightarrow> None
             | co # r2 \<Rightarrow> if co \<noteq> 58 then None
                else (case pval n r2 of None \<Rightarrow> None
                  | Some (v, r3) \<Rightarrow> (case jws r3 of [] \<Rightarrow> None
                     | d # r4 \<Rightarrow> if d = 44 then pobj n (obj_put ps k v) r4
                         else if d = 125 then Some (Obj (obj_put ps k v), r4) else None)))))"

definition json_parse :: "jstr \<Rightarrow> jsval option" where
  "json_parse s = (case pval (2 * length s + 2) s of
     Some (v, r) \<Rightarrow> if jws r = [] then Some v else None
   | None \<Rightarrow> None)"

end
