(* ===== verification/Json_Roundtrip.thy ===== *)
theory Json_Roundtrip imports Js_Value begin

text \<open>
  \<open>JSON.parse\<close> reads back what \<open>JSON.stringify\<close> printed, for the values the program
  persists: no \<open>undefined\<close>, numbers whose own text reads back (\<open>num_ok\<close>, which every integer
  of the exact range is), 16-bit code units, objects whose keys are distinct. In particular
  the parser's fuel is enough for every printed text.
\<close>

section \<open>Strings\<close>

lemma hex_val_hex_digit: "n < 16 \<Longrightarrow> hex_val (hex_digit n) = Some n"
  by (auto simp: hex_val_def hex_digit_def is_digit_def)

lemma hex_expand: "c < 65536 \<Longrightarrow>
  16 * (16 * (16 * (c div 4096 mod 16) + c div 256 mod 16) + c div 16 mod 16) + c mod 16 = (c::nat)"
proof -
  assume c: "c < 65536"
  have "c div 4096 < 16" using c by (simp add: less_mult_imp_div_less)
  then have "c div 4096 mod 16 = c div 4096" by simp
  moreover have "16 * (c div 4096) + c div 256 mod 16 = c div 256"
    using div_mult_mod_eq [of "c div 256" 16] by (simp add: div_mult2_eq [symmetric] mult.commute)
  moreover have "16 * (c div 256) + c div 16 mod 16 = c div 16"
    using div_mult_mod_eq [of "c div 16" 16] by (simp add: div_mult2_eq [symmetric] mult.commute)
  moreover have "16 * (c div 16) + c mod 16 = c"
    using div_mult_mod_eq [of c 16] by (simp add: mult.commute)
  ultimately show ?thesis by simp
qed

lemma hex4_u_escape: "c < 65536 \<Longrightarrow> hex4 (drop 2 (u_escape c)) = Some c"
  using hex_expand [of c] by (simp add: hex4_def u_escape_def hex_val_hex_digit)

lemma parse_units_escape:
  "c < 65536 \<Longrightarrow> parse_units (u_escape c @ s) = map_option (\<lambda>(t, r). (c # t, r)) (parse_units s)"
  using hex4_u_escape [of c] by (simp add: u_escape_def)

lemma parse_units_quote1:
  "c < 65536 \<Longrightarrow> parse_units (quote1 c @ s) = map_option (\<lambda>(t, r). (c # t, r)) (parse_units s)"
  by (auto simp: quote1_def parse_units_escape unescape1_def)

lemma parse_units_quote:
  "\<forall>c \<in> set s. c < 65536 \<Longrightarrow> parse_units (quote_units s @ 34 # r) = Some (s, r)"
proof (induction s rule: quote_units.induct)
  case (2 c s)
  then show ?case
    by (auto simp: parse_units_escape parse_units_quote1 is_high_def is_low_def split: list.splits)
qed simp

section \<open>Numbers\<close>

lemma dec_nat_head_0: "hd (dec_nat n) = 48 \<Longrightarrow> length (dec_nat n) = 1"
proof (induction n rule: dec_nat.induct)
  case (1 n)
  show ?case
  proof (cases "n < 10")
    case True
    then show ?thesis by (subst dec_nat.simps) simp
  next
    case False
    from 1(2) False have "hd (dec_nat (n div 10)) = 48" by (subst (asm) dec_nat.simps) simp
    with 1(1) False have "length (dec_nat (n div 10)) = 1" by blast
    then have n: "n div 10 = 0" using \<open>hd (dec_nat (n div 10)) = 48\<close>
      by (cases "n div 10 < 10") (subst (asm) (1 2) dec_nat.simps, auto)+
    with False show ?thesis by simp
  qed
qed

lemma dec_nat_num_char: "c \<in> set (dec_nat n) \<Longrightarrow> num_char c"
  by (auto simp: num_char_def dest: dec_nat_digits)

lemma json_number_dec_nat: "n \<le> 2 ^ 53 \<Longrightarrow> json_number (dec_nat n) = Some (Fin (of_nat n))"
proof -
  assume n: "n \<le> 2 ^ 53"
  have d: "\<forall>c \<in> set (dec_nat n). is_digit c" using dec_nat_digits by blast
  have h: "hd (dec_nat n) \<noteq> 45" using d by (cases "dec_nat n") (auto simp: is_digit_def)
  have t: "takeWhile is_digit (dec_nat n) = dec_nat n" "dropWhile is_digit (dec_nat n) = []"
    using d by (simp_all add: takeWhile_eq_all_conv dropWhile_eq_Nil_conv)
  have "decimal_num (dec_nat n) = Some (of_nat n)"
    unfolding decimal_num_def Let_def t by (simp add: exponent_val_def)
  moreover have "fl (of_nat n) = Fin (of_nat n)" using fl_int [of "int n"] n by simp
  ultimately show ?thesis
    using h dec_nat_head_0 [of n] unfolding json_number_def Let_def by (simp add: t del: One_nat_def)
qed

lemma json_number_dec_int: "\<bar>k\<bar> \<le> 2 ^ 53 \<Longrightarrow> json_number (dec_int k) = Some (num_int k)"
proof (cases "k < 0")
  case False
  moreover assume "\<bar>k\<bar> \<le> 2 ^ 53"
  ultimately show ?thesis using json_number_dec_nat [of "nat k"] by (simp add: dec_int_def)
next
  case True
  define m where "m = nat (- k)"
  assume "\<bar>k\<bar> \<le> 2 ^ 53"
  then have m: "m \<le> 2 ^ 53" "k = - int m" using True by (auto simp: m_def)
  have d: "\<forall>c \<in> set (dec_nat m). is_digit c" using dec_nat_digits by blast
  have t: "takeWhile is_digit (dec_nat m) = dec_nat m" "dropWhile is_digit (dec_nat m) = []"
    using d by (simp_all add: takeWhile_eq_all_conv dropWhile_eq_Nil_conv)
  have "decimal_num (dec_nat m) = Some (of_nat m)"
    unfolding decimal_num_def Let_def t by (simp add: exponent_val_def)
  moreover have "fl (of_nat m) = Fin (of_nat m)" using fl_int [of "int m"] m by simp
  ultimately have "json_number (45 # dec_nat m) = Some (num_neg (Fin (of_nat m)))"
    using dec_nat_head_0 [of m] unfolding json_number_def Let_def by (simp add: t del: One_nat_def)
  then show ?thesis using True by (simp add: dec_int_def m_def)
qed

lemma dec_int_chars: "c \<in> set (dec_int k) \<Longrightarrow> num_char c"
  by (auto simp: dec_int_def num_char_def dest: dec_nat_digits split: if_splits)

lemma dec_int_hd: "hd (dec_int k) = 45 \<or> is_digit (hd (dec_int k))"
  using dec_nat_digits [of "hd (dec_nat n)" n for n]
  by (cases "k < 0") (auto simp: dec_int_def intro: dec_nat_digits)

lemma dec_int_not_Nil [simp]: "dec_int k \<noteq> []"
  by (simp add: dec_int_def)

text \<open>A number whose text is a JSON number that reads back as the number.\<close>

definition num_ok :: "jnum \<Rightarrow> bool" where
  "num_ok a \<longleftrightarrow> is_finite a \<and> json_number (num_to_string a) = Some a
     \<and> (\<forall>c \<in> set (num_to_string a). num_char c)
     \<and> num_to_string a \<noteq> [] \<and> (hd (num_to_string a) = 45 \<or> is_digit (hd (num_to_string a)))"

lemma num_to_string_int: "\<bar>k\<bar> \<le> 2 ^ 53 \<Longrightarrow> num_to_string (num_int k) = dec_int k"
proof -
  assume "\<bar>k\<bar> \<le> 2 ^ 53"
  then have "\<bar>of_int k\<bar> \<le> (of_int (2 ^ 53) :: rat)" by (simp only: of_int_abs [symmetric] of_int_le_iff)
  then show ?thesis by (simp add: num_to_string_def)
qed

lemma num_ok_int: "\<bar>k\<bar> \<le> 2 ^ 53 \<Longrightarrow> num_ok (num_int k)"
  using dec_int_chars dec_int_hd [of k]
  by (simp add: num_ok_def num_to_string_int json_number_dec_int)

fun json_ok :: "jsval \<Rightarrow> bool" where
  "json_ok Undef = False"
| "json_ok Null = True"
| "json_ok (JBool b) = True"
| "json_ok (Num a) = num_ok a"
| "json_ok (Str s) = (\<forall>c \<in> set s. c < 65536)"
| "json_ok (Arr xs) = (\<forall>x \<in> set xs. json_ok x)"
| "json_ok (Obj ps) = (distinct (map fst ps)
     \<and> (\<forall>p \<in> set ps. (\<forall>c \<in> set (fst p). c < 65536) \<and> json_ok (snd p)))"

text \<open>What may follow a printed value: nothing that continues a number.\<close>

definition sep_ok :: "jstr \<Rightarrow> bool" where
  "sep_ok r \<longleftrightarrow> r = [] \<or> \<not> num_char (hd r)"

lemma sep_ok_simps [simp]: "sep_ok []" "sep_ok (44 # r)" "sep_ok (93 # r)" "sep_ok (125 # r)" "sep_ok (10 # r)"
  by (simp_all add: sep_ok_def num_char_def is_digit_def)

lemma takeWhile_num: "\<forall>c \<in> set t. num_char c \<Longrightarrow> sep_ok r \<Longrightarrow> takeWhile num_char (t @ r) = t"
  and dropWhile_num: "\<forall>c \<in> set t. num_char c \<Longrightarrow> sep_ok r \<Longrightarrow> dropWhile num_char (t @ r) = r"
  by (cases r; auto simp: sep_ok_def takeWhile_append dropWhile_append)+

lemma pval_num:
  assumes a: "num_ok a" and r: "sep_ok r" and n: "0 < n"
  shows "pval n (num_to_string a @ r) = Some (Num a, r)"
proof -
  obtain m where n: "n = Suc m" using n gr0_conv_Suc by blast
  obtain c t where ct: "num_to_string a = c # t" using a by (cases "num_to_string a") (auto simp: num_ok_def)
  have c: "c = 45 \<or> is_digit c" and t: "\<forall>c \<in> set (c # t). num_char c"
    and j: "json_number (c # t) = Some a" using a by (auto simp: ct num_ok_def)
  have w: "jws (c # t @ r) = c # t @ r" using c by (auto simp: jws_def is_digit_def)
  show ?thesis
    using c takeWhile_num [OF t r] dropWhile_num [OF t r] j
    by (auto simp: n w ct is_digit_def)
qed

section \<open>Values\<close>

definition text_of :: "jsval \<Rightarrow> jstr" where
  "text_of v = the (stringify v)"

lemma json_ok_stringify: "json_ok v \<Longrightarrow> stringify v = Some (text_of v)"
  by (cases v) (auto simp: text_of_def)

lemma text_of_simps [simp]:
  "text_of Null = js ''null''" "text_of (JBool b) = (if b then js ''true'' else js ''false'')"
  "text_of (Num n) = (if is_finite n then num_to_string n else js ''null'')"
  "text_of (Str s) = quote s"
  by (simp_all add: text_of_def)

lemma jws_id [simp]:
  "jws (123 # s) = 123 # s" "jws (91 # s) = 91 # s" "jws (34 # s) = 34 # s" "jws (44 # s) = 44 # s"
  "jws (93 # s) = 93 # s" "jws (125 # s) = 125 # s" "jws (58 # s) = 58 # s" "jws (116 # s) = 116 # s"
  "jws (102 # s) = 102 # s" "jws (110 # s) = 110 # s" "jws [] = []" "jws [10] = []"
  by (simp_all add: jws_def)

lemma text_of_Arr: "\<forall>x \<in> set xs. json_ok x \<Longrightarrow>
    text_of (Arr xs) = 91 # join_with [44] (map text_of xs) @ [93]"
proof -
  assume a: "\<forall>x \<in> set xs. json_ok x"
  have "map (\<lambda>x. case stringify x of None \<Rightarrow> js ''null'' | Some t \<Rightarrow> t) xs = map text_of xs"
    using a by (auto simp: json_ok_stringify)
  then show ?thesis by (simp add: text_of_def [of "Arr xs"] del: map_eq_conv)
qed

definition entry_text :: "jstr \<times> jsval \<Rightarrow> jstr" where
  "entry_text p = quote (fst p) @ 58 # text_of (snd p)"

lemma somes_entries: "\<forall>p \<in> set ps. json_ok (snd p) \<Longrightarrow>
    somes (map (\<lambda>p. map_option (\<lambda>t. quote (fst p) @ 58 # t) (stringify (snd p))) ps)
    = map entry_text ps"
  by (induction ps) (auto simp: json_ok_stringify entry_text_def)

lemma text_of_Obj: "\<forall>p \<in> set ps. json_ok (snd p) \<Longrightarrow>
    text_of (Obj ps) = 123 # join_with [44] (map entry_text ps) @ [125]"
  by (simp only: text_of_def stringify.simps option.sel somes_entries)

text \<open>A printed value starts with a character that is no white space and closes nothing.\<close>

definition opens :: "jstr \<Rightarrow> bool" where
  "opens s \<longleftrightarrow> s \<noteq> [] \<and> hd s \<notin> set [32, 9, 10, 13, 93, 125]"

lemma opens_append: "opens s \<Longrightarrow> opens (s @ t)"
  by (cases s) (auto simp: opens_def jws_def)

lemma opensE: "opens s \<Longrightarrow> (\<And>c t. s = c # t \<Longrightarrow> jws s = c # t \<Longrightarrow> c \<noteq> 93 \<Longrightarrow> c \<noteq> 125 \<Longrightarrow> thesis) \<Longrightarrow> thesis"
  by (cases s) (auto simp: opens_def jws_def)

lemma opens_num: "num_ok a \<Longrightarrow> opens (num_to_string a)"
  by (auto simp: opens_def num_ok_def is_digit_def)

lemma opens_text_of: "json_ok v \<Longrightarrow> opens (text_of v)"
proof (cases v)
  case (Num a)
  assume "json_ok v"
  with Num show ?thesis using opens_num by (simp add: num_ok_def)
next
  case (Arr xs)
  assume "json_ok v"
  then show ?thesis by (simp add: Arr text_of_Arr) (simp add: opens_def)
next
  case (Obj ps)
  assume "json_ok v"
  then show ?thesis by (simp add: Obj text_of_Obj) (simp add: opens_def)
qed (auto simp: opens_def quote_def js_def jws_def)

lemma opens_join: "ws \<noteq> [] \<Longrightarrow> opens (hd ws) \<Longrightarrow> opens (join_with sep ws)"
  by (cases "(sep, ws)" rule: join_with.cases) (auto intro: opens_append)

definition reads :: "jsval \<Rightarrow> bool" where
  "reads v \<longleftrightarrow> (\<forall>n r. 2 * length (text_of v) \<le> n \<longrightarrow> sep_ok r \<longrightarrow> pval n (text_of v @ r) = Some (v, r))"

lemma readsD: "reads v \<Longrightarrow> 2 * length (text_of v) \<le> n \<Longrightarrow> sep_ok r \<Longrightarrow> pval n (text_of v @ r) = Some (v, r)"
  by (simp add: reads_def)

lemma parr_reads:
  assumes "xs \<noteq> []" "\<forall>x \<in> set xs. reads x"
    "2 * length (join_with [44] (map text_of xs)) + 1 \<le> n"
  shows "parr n (join_with [44] (map text_of xs) @ 93 # r) = Some (xs, r)"
  using assms
proof (induction xs arbitrary: n)
  case (Cons x xs)
  then obtain m where n: "n = Suc m" by (cases n) auto
  show ?case
  proof (cases "xs = []")
    case True
    with Cons.prems show ?thesis
      using readsD [of x m "93 # r"] by (simp add: n)
  next
    case False
    let ?j = "join_with [44] (map text_of xs)"
    have len: "2 * (length (text_of x) + 1 + length ?j) \<le> m"
      using Cons.prems(3) False by (simp add: n join_with_Cons)
    have "pval m (text_of x @ 44 # ?j @ 93 # r) = Some (x, 44 # ?j @ 93 # r)"
      using Cons.prems(2) len by (intro readsD) auto
    moreover have "parr m (?j @ 93 # r) = Some (xs, r)"
      using Cons.prems(2) len False by (intro Cons.IH) auto
    ultimately show ?thesis using False by (simp add: n join_with_Cons)
  qed
qed simp

lemma obj_put_fresh: "k \<notin> fst ` set acc \<Longrightarrow> obj_put acc k v = acc @ [(k, v)]"
  by (induction acc k v rule: obj_put.induct) auto

lemma length_entry: "length (entry_text (k, v)) = length (quote k) + 1 + length (text_of v)"
  by (simp add: entry_text_def)

lemma pobj_reads:
  assumes "ps \<noteq> []" "\<forall>p \<in> set ps. reads (snd p) \<and> (\<forall>c \<in> set (fst p). c < 65536)"
    "distinct (map fst (acc @ ps))"
    "2 * length (join_with [44] (map entry_text ps)) + 1 \<le> n"
  shows "pobj n acc (join_with [44] (map entry_text ps) @ 125 # r) = Some (Obj (acc @ ps), r)"
  using assms
proof (induction ps arbitrary: n acc)
  case (Cons p ps)
  obtain k v where p: "p = (k, v)" by (cases p)
  from Cons.prems obtain m where n: "n = Suc m" by (cases n) auto
  have key: "parse_units (quote_units k @ 34 # s) = Some (k, s)" for s
    using Cons.prems(2) p by (intro parse_units_quote) auto
  have put: "obj_put acc k v = acc @ [(k, v)]"
    using Cons.prems(3) p by (intro obj_put_fresh) auto
  have rv: "reads v" using Cons.prems(2) p by simp
  let ?e = "\<lambda>s. quote k @ 58 # text_of v @ s"
  show ?case
  proof (cases "ps = []")
    case True
    have "pval m (text_of v @ 125 # r) = Some (v, 125 # r)"
      using rv Cons.prems(4) p True by (intro readsD) (auto simp: n length_entry)
    with True show ?thesis by (simp add: n p entry_text_def quote_def key put)
  next
    case False
    let ?j = "join_with [44] (map entry_text ps)"
    have len: "2 * (length (text_of v) + 1 + length ?j) \<le> m"
      using Cons.prems(4) False by (simp add: n p join_with_Cons length_entry)
    have "pval m (text_of v @ 44 # ?j @ 125 # r) = Some (v, 44 # ?j @ 125 # r)"
      using rv len by (intro readsD) auto
    moreover have "pobj m (acc @ [(k, v)]) (?j @ 125 # r) = Some (Obj ((acc @ [(k, v)]) @ ps), r)"
      using Cons.prems(2,3) p len False by (intro Cons.IH) auto
    moreover have "join_with [44] (map entry_text (p # ps)) @ 125 # r = ?e (44 # ?j @ 125 # r)"
      using False by (simp add: p join_with_Cons entry_text_def)
    ultimately show ?thesis
      by (simp add: n quote_def key put p)
  qed
qed simp

lemma reads_Arr:
  assumes ok: "\<forall>x \<in> set xs. json_ok x" and rd: "\<forall>x \<in> set xs. reads x"
  shows "reads (Arr xs)"
  unfolding reads_def text_of_Arr [OF ok]
proof (intro allI impI)
  fix n r
  let ?j = "join_with [44] (map text_of xs)"
  assume "2 * length (91 # ?j @ [93]) \<le> n"
  then obtain m where n: "n = Suc m" and m: "2 * length ?j + 1 \<le> m" by (cases n) auto
  show "pval n ((91 # ?j @ [93]) @ r) = Some (Arr xs, r)"
  proof (cases "xs = []")
    case True
    then show ?thesis by (simp add: n)
  next
    case False
    have "parr m (?j @ 93 # r) = Some (xs, r)" by (rule parr_reads [OF False rd m])
    moreover have "opens (?j @ 93 # r)"
      using False ok by (intro opens_append opens_join) (auto simp: hd_map intro: opens_text_of)
    ultimately show ?thesis by (auto simp: n elim!: opensE)
  qed
qed

lemma reads_Obj:
  assumes ok: "json_ok (Obj ps)" and rd: "\<forall>p \<in> set ps. reads (snd p)"
  shows "reads (Obj ps)"
proof -
  have "\<forall>p \<in> set ps. json_ok (snd p)" using ok by auto
  note t = text_of_Obj [OF this]
  show ?thesis unfolding reads_def t
  proof (intro allI impI)
    fix n r
    let ?j = "join_with [44] (map entry_text ps)"
    assume "2 * length (123 # ?j @ [125]) \<le> n"
    then obtain m where n: "n = Suc m" and m: "2 * length ?j + 1 \<le> m" by (cases n) auto
    show "pval n ((123 # ?j @ [125]) @ r) = Some (Obj ps, r)"
    proof (cases "ps = []")
      case True
      then show ?thesis by (simp add: n)
    next
      case False
      have "pobj m [] (?j @ 125 # r) = Some (Obj ([] @ ps), r)"
        using rd ok m by (intro pobj_reads False) auto
      moreover have "opens (?j @ 125 # r)"
        using False by (intro opens_append opens_join)
          (auto simp: hd_map entry_text_def quote_def opens_def)
      ultimately show ?thesis by (auto simp: n elim!: opensE)
    qed
  qed
qed

lemma reads_word:
  assumes "\<And>m r. pval (Suc m) (text_of v @ r) = Some (v, r)" "text_of v \<noteq> []"
  shows "reads v"
  unfolding reads_def
proof (intro allI impI)
  fix n r assume "2 * length (text_of v) \<le> n"
  with assms(2) have "0 < n" by (cases "text_of v") auto
  then obtain m where "n = Suc m" using gr0_conv_Suc by blast
  then show "pval n (text_of v @ r) = Some (v, r)" using assms(1) by simp
qed

lemma reads_words: "reads Null" "reads (JBool b)"
  by (rule reads_word; simp add: expect_def starts_with_def js_def)+

lemma json_ok_reads: "json_ok v \<Longrightarrow> reads v"
proof (induction v)
  case (Num a)
  then have a: "num_ok a" by simp
  then have "0 < length (num_to_string a)" "text_of (Num a) = num_to_string a"
    by (simp_all add: num_ok_def)
  then show ?case using pval_num [OF a]
    by (simp add: reads_def del: text_of_simps length_greater_0_conv)
next
  case (Str s)
  show ?case unfolding reads_def
  proof (intro allI impI)
    fix n r assume "2 * length (text_of (Str s)) \<le> n"
    then obtain m where "n = Suc m" by (cases n) (auto simp: quote_def)
    with Str show "pval n (text_of (Str s) @ r) = Some (Str s, r)"
      by (simp add: quote_def parse_units_quote)
  qed
next
  case (Arr xs)
  then show ?case by (intro reads_Arr) auto
next
  case (Obj ps)
  then have "reads (snd p)" if "p \<in> set ps" for p
    using that by (cases p) (auto simp: snds.simps)
  then show ?case using Obj.prems by (intro reads_Obj) auto
qed (auto simp: reads_words)

lemma json_parse_stringify:
  assumes "json_ok v" and "stringify v = Some t" and "jws r = []" and "sep_ok r"
  shows "json_parse (t @ r) = Some v"
proof -
  have "t = text_of v" using assms(2) by (simp add: text_of_def)
  then have "pval (2 * length (t @ r) + 2) (t @ r) = Some (v, r)"
    using json_ok_reads [OF assms(1)] assms(4) by (intro readsD [of v, folded \<open>t = text_of v\<close>]) auto
  with assms(3) show ?thesis by (simp add: json_parse_def)
qed

section \<open>The length of JSON text\<close>

text \<open>An upper bound that does not look at the characters.\<close>

fun json_bound :: "jsval \<Rightarrow> nat" where
  "json_bound Undef = 0"
| "json_bound Null = 4"
| "json_bound (JBool b) = 5"
| "json_bound (Num n) = length (num_to_string n) + 4"
| "json_bound (Str s) = 6 * length s + 2"
| "json_bound (Arr xs) = 2 + (\<Sum>x \<leftarrow> xs. json_bound x + 5)"
| "json_bound (Obj ps) = 2 + (\<Sum>p \<leftarrow> ps. 6 * length (fst p) + json_bound (snd p) + 4)"

lemma length_quote1: "length (quote1 c) \<le> 6"
  by (simp add: quote1_def u_escape_def)

lemma length_quote_units: "length (quote_units s) \<le> 6 * length s"
proof (induction s rule: quote_units.induct)
  case (2 c s)
  have u: "length (u_escape c) = 6" by (simp add: u_escape_def)
  have step: "quote_units (c # s) = u_escape c @ quote_units s \<or> quote_units (c # s) = quote1 c @ quote_units s"
    if "\<not> is_high c" using that by simp
  show ?case
  proof (cases "is_high c")
    case False
    have "length (quote_units s) \<le> 6 * length s" using 2(3,4) False by blast
    with step [OF False] u length_quote1 [of c] show ?thesis by auto
  next
    case True
    show ?thesis
    proof (cases s)
      case Nil
      with u True show ?thesis by simp
    next
      case (Cons d r)
      show ?thesis
      proof (cases "is_low d")
        case True
        with 2(1) [OF \<open>is_high c\<close> Cons] Cons \<open>is_high c\<close> show ?thesis by simp
      next
        case False
        have "quote_units (c # s) = u_escape c @ quote_units s" using Cons False True by simp
        with 2(2) [OF True Cons False] u show ?thesis by simp
      qed
    qed
  qed
qed simp

lemma length_quote: "length (quote s) \<le> 6 * length s + 2"
  using length_quote_units [of s] by (simp add: quote_def)

lemma length_join_with: "length (join_with [c] ws) \<le> (\<Sum>w \<leftarrow> ws. length w + 1)"
proof (induction ws)
  case (Cons w ws)
  then show ?case by (cases "ws = []") (auto simp: join_with_Cons)
qed simp

lemma stringify_bound: "stringify v = Some t \<Longrightarrow> length t \<le> json_bound v"
proof (induction v arbitrary: t)
  case (Arr xs)
  let ?f = "\<lambda>x. case stringify x of None \<Rightarrow> js ''null'' | Some t \<Rightarrow> t"
  have "length (?f x) + 1 \<le> json_bound x + 5" if "x \<in> set xs" for x
    using Arr.IH [OF that] by (auto split: option.split)
  then have "(\<Sum>x \<leftarrow> xs. length (?f x) + 1) \<le> (\<Sum>x \<leftarrow> xs. json_bound x + 5)" by (rule sum_list_mono)
  with length_join_with [of 44 "map ?f xs"] Arr.prems show ?case by (auto simp: comp_def)
next
  case (Obj ps)
  let ?e = "\<lambda>p. map_option (\<lambda>t. quote (fst p) @ 58 # t) (stringify (snd p))"
  have b: "(\<Sum>w \<leftarrow> somes (map ?e qs). length w + 1) \<le> (\<Sum>p \<leftarrow> qs. 6 * length (fst p) + json_bound (snd p) + 4)"
    if "set qs \<subseteq> set ps" for qs
    using that
  proof (induction qs)
    case (Cons p qs)
    show ?case
    proof (cases "stringify (snd p)")
      case (Some t)
      have "length t \<le> json_bound (snd p)"
        using Obj.IH [of p "snd p" t] Some Cons.prems by (auto intro: snds.intros)
      with Cons Some length_quote [of "fst p"] show ?thesis by simp
    qed (use Cons in auto)
  qed simp
  from b [OF subset_refl] length_join_with [of 44 "somes (map ?e ps)"] Obj.prems show ?case by auto
qed (use length_quote in auto)

end
