(* ===== verification/Pi_Protocol.thy ===== *)
theory Pi_Protocol imports Json_Roundtrip begin

text \<open>
  \<^verbatim>\<open>agents/pi/src/protocol.mjs\<close>: the request contract, the state directory with its lock and
  receipts, the process inventory and the usage summary.

  The digest \<open>sha\<close> (\<open>node:crypto\<close>) and the URL parser \<open>url\<close> (\<open>new URL\<close>) are parameters.
  The state directory is a map from names relative to it to nodes; a file is its text.
\<close>

section \<open>Paths (\<open>node:path\<close>, POSIX)\<close>

definition is_absolute :: "jstr \<Rightarrow> bool" where
  "is_absolute p \<longleftrightarrow> p \<noteq> [] \<and> hd p = 47"

text \<open>The segments of a path with \<open>.\<close> and \<open>..\<close> resolved; \<open>acc\<close> is the output so far, last
  segment first; \<open>up\<close> keeps a \<open>..\<close> that leaves the start of a relative path.\<close>

fun norm_segs :: "bool \<Rightarrow> jstr list \<Rightarrow> jstr list \<Rightarrow> jstr list" where
  "norm_segs up acc [] = rev acc"
| "norm_segs up acc (s # ss) =
     (if s = [] \<or> s = js ''.'' then norm_segs up acc ss
      else if s = js ''..'' then
        (case acc of
           [] \<Rightarrow> norm_segs up (if up then [s] else []) ss
         | a # as \<Rightarrow> if a = js ''..'' then norm_segs up (if up then s # acc else acc) ss
             else norm_segs up as ss)
      else norm_segs up (s # acc) ss)"

definition path_normalize :: "jstr \<Rightarrow> jstr" where
  "path_normalize p = (if p = [] then js ''.''
     else let abs = is_absolute p; tr = (last p = 47);
         body = join_with [47] (norm_segs (\<not> abs) [] (split_on 47 p))
       in if body = [] then (if abs then js ''/'' else if tr then js ''./'' else js ''.'')
          else (if abs then js ''/'' else []) @ body @ (if tr then js ''/'' else []))"

definition path_join :: "jstr list \<Rightarrow> jstr" where
  "path_join ps = (let qs = filter (\<lambda>p. p \<noteq> []) ps in
     if qs = [] then js ''.'' else path_normalize (join_with [47] qs))"

definition dirname :: "jstr \<Rightarrow> jstr" where
  "dirname p = (case p of [] \<Rightarrow> js ''.''
   | c # r \<Rightarrow> (let segs = split_on 47 (strip_trailing 47 r) in
       if length segs = 1 then (if c = 47 then js ''/'' else js ''.'')
       else let t = c # join_with [47] (butlast segs) in if t = js ''/'' then js ''//'' else t))"

section \<open>The request contract\<close>

definition CONTRACT :: jstr where "CONTRACT = js ''esf/pi/v1''"
definition SUMMARY_LIMIT :: nat where "SUMMARY_LIMIT = 128 * 1024"

text \<open>The parts of a parsed URL the contract looks at.\<close>

record url_parts =
  protocol :: jstr
  username :: jstr
  password :: jstr
  search :: jstr
  hash :: jstr

definition type_err :: "js_error" where
  "type_err = \<lparr>message = js ''The \"path\" argument must be of type string'',
     code = Some (js ''ERR_INVALID_ARG_TYPE'')\<rparr>"

text \<open>Node's path functions and \<open>Hash.update\<close> throw on anything but a string.\<close>

definition str_arg :: "jsval \<Rightarrow> jstr result" where
  "str_arg v = (case v of Str s \<Rightarrow> Inr s | _ \<Rightarrow> Inl type_err)"

definition hex_char :: "nat \<Rightarrow> bool" where
  "hex_char c \<longleftrightarrow> is_digit c \<or> 97 \<le> c \<and> c \<le> 102"

definition digest :: "jsval \<Rightarrow> bool" where
  "digest v = (case v of Str s \<Rightarrow> length s = 64 \<and> (\<forall>c \<in> set s. hex_char c) | _ \<Rightarrow> False)"

text \<open>\<open>v?.includes(x)\<close>: \<open>undefined\<close> (falsy) when \<open>v\<close> is absent, a \<open>TypeError\<close> when \<open>v\<close> has no
  such method. Array membership is \<open>SameValueZero\<close>.\<close>

definition same_zero :: "jsval \<Rightarrow> jsval \<Rightarrow> bool" where
  "same_zero a b \<longleftrightarrow> strict_eq a b \<or> (a = Num NaN \<and> b = Num NaN)"

definition includes_opt :: "jsval \<Rightarrow> jsval \<Rightarrow> bool result" where
  "includes_opt v x = (case v of
     Undef \<Rightarrow> Inr False
   | Null \<Rightarrow> Inr False
   | Arr xs \<Rightarrow> Inr (\<exists>y \<in> set xs. same_zero y x)
   | Str s \<Rightarrow> Inr (contains s (to_str x))
   | _ \<Rightarrow> Inl (err ''includes is not a function''))"

definition first_item :: "jsval \<Rightarrow> jsval" where
  "first_item v = (case v of
     Arr (x # _) \<Rightarrow> x
   | Str (c # _) \<Rightarrow> Str [c]
   | Obj ps \<Rightarrow> lookup ps (js ''0'')
   | _ \<Rightarrow> Undef)"

definition nonneg_finite :: "jsval \<Rightarrow> bool" where
  "nonneg_finite v \<longleftrightarrow> finite_val v \<and> \<not> num_lt (to_num v) (Fin 0)"

text \<open>The first condition of \<open>validateRequest\<close>, whose disjuncts run in order and may throw.\<close>

definition contract_ok :: "(jstr \<Rightarrow> jstr) \<Rightarrow> jsval \<Rightarrow> bool result" where
  "contract_ok sha r =
    (if \<not> truthy r \<or> opt_get r ''contract_version'' \<noteq> Str CONTRACT
        \<or> \<not> truthy (opt_get r ''run_id'') \<or> \<not> is_str (opt_get r ''prompt'')
        \<or> trim (to_str (opt_get r ''prompt'')) = []
        \<or> \<not> digest (opt_get r ''fingerprint'') \<or> \<not> digest (opt_get r ''runner_sha256'')
        \<or> \<not> digest (opt_get r ''runtime_sha256'')
        \<or> opt_get r ''request_id'' \<noteq>
            Str (sha (to_str (opt_get r ''run_id'') @ [0] @ to_str (opt_get r ''prompt'')))
     then Inr False
     else bind_r (str_arg (opt_get r ''repository_dir'')) (\<lambda>repo.
       if \<not> is_absolute repo \<or> path_normalize repo \<noteq> repo then Inr False
       else bind_r (str_arg (opt_get r ''run_id'')) (\<lambda>rid. Inr
         (opt_get r ''state_dir'' =
            Str (path_join [dirname repo, js ''.factory'', js ''pi'', sha rid])
          \<and> safe_int_val (opt_get r ''timeout_ms'')
          \<and> num_lt (Fin 0) (to_num (opt_get r ''timeout_ms''))
          \<and> num_le (to_num (opt_get r ''timeout_ms'')) (Fin 2147483647)
          \<and> (same_zero (int_val 0) (opt_get r ''max_process_restarts'')
             \<or> same_zero (int_val 1) (opt_get r ''max_process_restarts''))
          \<and> opt_get r ''api'' \<in> {Str (js ''openai-completions''), Str (js ''openai-responses'')}))))"

definition endpoint_bad :: "url_parts \<Rightarrow> bool" where
  "endpoint_bad u \<longleftrightarrow> protocol u \<notin> {js ''http:'', js ''https:''} \<or> username u \<noteq> []
     \<or> password u \<noteq> [] \<or> search u \<noteq> [] \<or> hash u \<noteq> []"

definition model_bad :: "jsval \<Rightarrow> jsval \<Rightarrow> bool" where
  "model_bad r m \<longleftrightarrow> \<not> truthy m \<or> \<not> strict_eq (opt_get m ''id'') (opt_get r ''model'')
     \<or> \<not> strict_eq (opt_get m ''api'') (opt_get r ''api'')
     \<or> \<not> safe_int_val (opt_get m ''contextWindow'') \<or> \<not> safe_int_val (opt_get m ''maxTokens'')
     \<or> num_le (to_num (opt_get m ''maxTokens'')) (Fin 0)
     \<or> num_le (to_num (opt_get m ''contextWindow'')) (to_num (opt_get m ''maxTokens''))
     \<or> \<not> strict_eq (opt_get (opt_get m ''input'') ''length'') (int_val 1)
     \<or> first_item (opt_get m ''input'') \<noteq> Str (js ''text'')"

definition COST_KEYS :: "string list" where
  "COST_KEYS = [''input'', ''output'', ''cacheRead'', ''cacheWrite'']"

definition validate_request ::
    "(jstr \<Rightarrow> jstr) \<Rightarrow> (jstr \<Rightarrow> url_parts option) \<Rightarrow> jsval \<Rightarrow> jsval result" where
  "validate_request sha url r =
    bind_r (contract_ok sha r) (\<lambda>ok.
    bind_r (check (\<not> ok) ''invalid Pi request contract'') (\<lambda>_.
    case url (to_str (opt_get r ''base_url'')) of None \<Rightarrow> Inl (err ''Invalid URL'') | Some u \<Rightarrow>
    bind_r (check (endpoint_bad u) ''invalid Pi endpoint'') (\<lambda>_.
    let m = opt_get r ''metadata'' in
    bind_r (check (model_bad r m) ''invalid pinned model definition'') (\<lambda>_.
    bind_r (if opt_get r ''thinking_level'' = Str (js ''off'') then Inr False
            else if \<not> truthy (opt_get m ''reasoning'') then Inr True
            else bind_r (includes_opt (opt_get m ''thinkingLevels'') (opt_get r ''thinking_level''))
                   (\<lambda>b. Inr (\<not> b))) (\<lambda>bad.
    bind_r (check bad ''unsupported model reasoning level'') (\<lambda>_.
    bind_r (check (truthy (opt_get m ''pricingKnown'') \<and> \<not> truthy (opt_get m ''cost''))
              ''known pricing requires rates'') (\<lambda>_.
    bind_r (check (truthy (opt_get m ''cost'')
                   \<and> (\<exists>k \<in> set COST_KEYS. \<not> nonneg_finite (opt_get (opt_get m ''cost'') k)))
              ''invalid model cost'') (\<lambda>_. Inr r))))))))"

section \<open>The state directory\<close>

datatype node = File jstr | Dir | Link | Other

record sdir =
  self :: "node option" \<comment> \<open>the state directory itself\<close>
  ents :: "jstr \<Rightarrow> node option" \<comment> \<open>its entries, by relative path\<close>

definition put_node :: "jstr \<Rightarrow> node \<Rightarrow> sdir \<Rightarrow> sdir" where
  "put_node k n d = d\<lparr>ents := (ents d)(k := Some n)\<rparr>"

definition del_node :: "jstr \<Rightarrow> sdir \<Rightarrow> sdir" where
  "del_node k d = d\<lparr>ents := (ents d)(k := None)\<rparr>"

lemma ents_simps [simp]:
  "ents (put_node k n d) = (ents d)(k := Some n)" "ents (del_node k d) = (ents d)(k := None)"
  "self (put_node k n d) = self d" "self (del_node k d) = self d"
  by (simp_all add: put_node_def del_node_def)

text \<open>The length of a text in UTF-8 bytes (\<open>Buffer.byteLength\<close>, \<open>stat.size\<close>). A surrogate of a
  pair stands for two of the pair's four bytes, a lone one becomes the three of U+FFFD.\<close>

fun utf8_len :: "jstr \<Rightarrow> nat" where
  "utf8_len [] = 0"
| "utf8_len (c # s) =
     (if c < 128 then 1 + utf8_len s else if c < 2048 then 2 + utf8_len s
      else if is_high c then (case s of d # r \<Rightarrow> if is_low d then 4 + utf8_len r else 3 + utf8_len s
             | [] \<Rightarrow> 3)
      else 3 + utf8_len s)"

text \<open>\<open>readJSON\<close>: never through a symbolic link, never beyond the size limit.\<close>

definition read_json :: "sdir \<Rightarrow> jstr \<Rightarrow> nat \<Rightarrow> jsval result" where
  "read_json d name limit = (case ents d name of
     None \<Rightarrow> Inl (sys_err ''ENOENT'')
   | Some Link \<Rightarrow> Inl (sys_err ''ELOOP'')
   | Some (File t) \<Rightarrow>
       if limit < utf8_len t then Inl (err ''invalid or oversized Pi state receipt'')
       else (case json_parse t of None \<Rightarrow> Inl (err ''Unexpected token'') | Some v \<Rightarrow> Inr v)
   | Some _ \<Rightarrow> Inl (err ''invalid or oversized Pi state receipt''))"

text \<open>Where an I/O error of the environment, or a crash of the process, interrupts \<open>writeJSON\<close>:
  opening the temporary file, after some units of it are written, at the rename, or at the
  final sync of the directory.\<close>

datatype fault = NoFault | FailOpen | FailWrite nat | FailRename | FailDirSync

definition json_line :: "jsval \<Rightarrow> jstr" where
  "json_line v = (case stringify v of None \<Rightarrow> js ''undefined'' | Some t \<Rightarrow> t) @ [10]"

definition temp_name :: "jstr \<Rightarrow> nat \<Rightarrow> jstr" where
  "temp_name file pid = file @ js ''.'' @ dec_nat pid @ js ''.tmp''"

definition write_json :: "fault \<Rightarrow> nat \<Rightarrow> sdir \<Rightarrow> jstr \<Rightarrow> jsval \<Rightarrow> nat \<Rightarrow> sdir \<times> unit result" where
  "write_json f pid d file v limit = (let bytes = json_line v; temp = temp_name file pid in
     if limit < utf8_len bytes then (d, Inl (err ''Pi summary exceeds size limit''))
     else if ents d temp \<noteq> None then (d, Inl (sys_err ''EEXIST''))
     else (case f of
         FailOpen \<Rightarrow> (d, Inl (sys_err ''EIO''))
       | FailWrite n \<Rightarrow> (put_node temp (File (take n bytes)) d, Inl (sys_err ''EIO''))
       | FailRename \<Rightarrow> (d, Inl (sys_err ''EIO''))
       | FailDirSync \<Rightarrow> (put_node file (File bytes) d, Inl (sys_err ''EIO''))
       | NoFault \<Rightarrow> (put_node file (File bytes) d, Inr ())))"

section \<open>\<open>prepareState\<close>\<close>

definition LOCK :: jstr where "LOCK = js ''owner.lock''"
definition IDENTITY :: jstr where "IDENTITY = js ''identity.json''"
definition JOURNAL :: jstr where "JOURNAL = js ''journal''"
definition MAIN_JOURNAL :: jstr where "MAIN_JOURNAL = js ''journal/main.jsonl''"
definition USAGE :: jstr where "USAGE = js ''usage.json''"
definition RECOVERY :: jstr where "RECOVERY = js ''recovery.json''"
definition TERMINAL :: jstr where "TERMINAL = js ''terminal.json''"

definition IDENTITY_LIMIT :: nat where "IDENTITY_LIMIT = 4 * 1024 * 1024"

lemmas file_names = LOCK_def IDENTITY_def JOURNAL_def MAIN_JOURNAL_def USAGE_def RECOVERY_def TERMINAL_def

text \<open>\<open>fs.mkdir(dir, {recursive: true})\<close>: an existing directory, or a link to one, is kept.
  A directory that does not exist has no entries, so a new one is empty.\<close>

definition mkdir_p :: "sdir \<Rightarrow> sdir result" where
  "mkdir_p d = (case self d of
     None \<Rightarrow> Inr (d\<lparr>self := Some Dir\<rparr>)
   | Some Dir \<Rightarrow> Inr d
   | Some Link \<Rightarrow> Inr d
   | Some _ \<Rightarrow> Inl (sys_err ''EEXIST''))"

definition journal_bad :: "node \<Rightarrow> bool" where
  "journal_bad n = (case n of File t \<Rightarrow> t = [] | _ \<Rightarrow> True)"

text \<open>The part of \<open>prepareState\<close> that runs under the lock, before the release is returned.\<close>

definition stored_identity :: "sdir \<Rightarrow> jsval result" where
  "stored_identity d = (case read_json d IDENTITY IDENTITY_LIMIT of
     Inl e \<Rightarrow> if code e = Some (js ''ENOENT'') then Inr Undef else Inl e
   | Inr v \<Rightarrow> Inr v)"

definition check_identity :: "fault \<Rightarrow> nat \<Rightarrow> sdir \<Rightarrow> jsval \<Rightarrow> jsval \<Rightarrow> sdir \<times> unit result" where
  "check_identity f pid d r previous =
    (if truthy previous then
       if stringify previous \<noteq> stringify r
       then (d, Inl (err ''Pi session fingerprint or configuration mismatch''))
       else (case ents d MAIN_JOURNAL of
           None \<Rightarrow> (d, Inl (sys_err ''ENOENT''))
         | Some n \<Rightarrow> if journal_bad n then (d, Inl (err ''Pi journal is missing or invalid''))
             else (d, Inr ()))
     else if ents d JOURNAL \<noteq> None then (d, Inl (err ''Pi journal has no session identity''))
     else write_json f pid d IDENTITY r IDENTITY_LIMIT)"

definition adopt_identity :: "fault \<Rightarrow> nat \<Rightarrow> sdir \<Rightarrow> jsval \<Rightarrow> sdir \<times> unit result" where
  "adopt_identity f pid d r = (case stored_identity d of
     Inl e \<Rightarrow> (d, Inl e)
   | Inr previous \<Rightarrow>
      (case check_identity f pid d r previous of
         (d', Inl e) \<Rightarrow> (d', Inl e)
       | (d', Inr _) \<Rightarrow> (del_node TERMINAL d', Inr ())))"

text \<open>On success the caller holds the lock and releases it with \<open>release\<close>; on any failure after
  the lock was taken, the lock is removed again.\<close>

definition prepare_state :: "fault \<Rightarrow> nat \<Rightarrow> sdir \<Rightarrow> jsval \<Rightarrow> sdir \<times> unit result" where
  "prepare_state f pid d r =
    (case mkdir_p d of Inl e \<Rightarrow> (d, Inl e)
     | Inr d1 \<Rightarrow>
        if self d1 \<noteq> Some Dir then (d1, Inl (err ''invalid Pi state directory''))
        else if ents d1 LOCK \<noteq> None then (d1, Inl (sys_err ''EEXIST''))
        else (case adopt_identity f pid (put_node LOCK (File (dec_nat pid)) d1) r of
            (d2, Inr _) \<Rightarrow> (d2, Inr ())
          | (d2, Inl e) \<Rightarrow> (del_node LOCK d2, Inl e)))"

definition release :: "sdir \<Rightarrow> sdir \<times> unit result" where
  "release d = (if ents d LOCK = None then (d, Inl (sys_err ''ENOENT'')) else (del_node LOCK d, Inr ()))"

section \<open>Processes\<close>

text \<open>\<open>s.slice(s.lastIndexOf(c) + 2)\<close>.\<close>

definition after_last2 :: "nat \<Rightarrow> jstr \<Rightarrow> jstr" where
  "after_last2 c s = (if c \<in> set s
     then drop 1 (rev (takeWhile (\<lambda>x. x \<noteq> c) (rev s))) else drop 1 s)"

text \<open>\<open>s.split(/\s+/)\<close>: maximal runs of white space separate.\<close>

function split_ws :: "jstr \<Rightarrow> jstr list" where
  "split_ws [] = [[]]"
| "split_ws (c # s) =
     (if is_space c then [] # split_ws (dropWhile is_space s)
      else case split_ws s of [] \<Rightarrow> [[c]] | w # ws \<Rightarrow> (c # w) # ws)"
  by pat_completeness auto
termination
  by (relation "measure length") (auto simp: le_imp_less_Suc length_dropWhile_le)

definition stat_fields :: "jstr \<Rightarrow> jstr list" where
  "stat_fields stat = split_ws (trim (after_last2 41 stat))"

text \<open>One entry of \<open>/proc\<close>: its name and what reading its \<open>stat\<close> returns. The result maps
  process numbers to start times, later entries replacing earlier ones.\<close>

fun map_set :: "('k \<times> 'v) list \<Rightarrow> 'k \<Rightarrow> 'v \<Rightarrow> ('k \<times> 'v) list" where
  "map_set [] k v = [(k, v)]"
| "map_set ((k', v') # m) k v = (if k' = k then (k, v) # m else (k', v') # map_set m k v)"

fun inventory_loop :: "(nat \<times> jstr) list \<Rightarrow> (jstr \<times> jstr result) list \<Rightarrow> (nat \<times> jstr) list result" where
  "inventory_loop found [] = Inr found"
| "inventory_loop found ((name, stat) # rest) =
     (case stat of Inl e \<Rightarrow> Inl e
      | Inr t \<Rightarrow>
         (let fields = stat_fields t in
          if length fields < 20 then Inl (err ''unreadable process inventory'')
          else inventory_loop (map_set found (digits_val name) (fields ! 19)) rest))"

definition process_inventory :: "(jstr \<times> jstr result) list \<Rightarrow> (nat \<times> jstr) list result" where
  "process_inventory proc =
     inventory_loop [] (filter (\<lambda>(name, _). name \<noteq> [] \<and> (\<forall>c \<in> set name. is_digit c)) proc)"

definition extra_processes :: "(nat \<times> jstr) list \<Rightarrow> (nat \<times> jstr) list \<Rightarrow> nat list" where
  "extra_processes baseline current =
     map fst (filter (\<lambda>(pid, start). map_of baseline pid \<noteq> Some start) current)"

section \<open>The usage summary\<close>

text \<open>\<open>Object.values\<close> of a value that is not \<open>null\<close> or \<open>undefined\<close>.\<close>

definition obj_values :: "jsval \<Rightarrow> jsval list" where
  "obj_values v = (case v of Obj ps \<Rightarrow> map snd ps | Arr xs \<Rightarrow> xs
     | Str s \<Rightarrow> map (\<lambda>c. Str [c]) s | _ \<Rightarrow> [])"

text \<open>\<open>values.every(p)\<close> for a test that can throw: it stops at the first false.\<close>

fun every_r :: "('a \<Rightarrow> bool result) \<Rightarrow> 'a list \<Rightarrow> bool result" where
  "every_r p [] = Inr True"
| "every_r p (x # xs) = bind_r (p x) (\<lambda>b. if b then every_r p xs else Inr False)"

definition USAGE_KEYS :: "string list" where
  "USAGE_KEYS = [''input'', ''output'', ''cacheRead'', ''cacheWrite'', ''totalTokens'']"

definition usage_valid :: "jsval \<Rightarrow> bool result" where
  "usage_valid u = (if nullish u then Inl (err ''Cannot read properties of undefined'')
     else Inr ((\<forall>k \<in> set USAGE_KEYS. safe_int_val (opt_get u k)
                  \<and> num_le (Fin 0) (to_num (opt_get u k)))
               \<and> num_lt (Fin 0) (to_num (opt_get u ''totalTokens''))))"

definition tokens_of :: "jsval \<Rightarrow> string \<Rightarrow> jnum" where
  "tokens_of u k = to_num (opt_get u k)"

definition sum_in :: "jsval list \<Rightarrow> jnum" where
  "sum_in vs = foldl (\<lambda>n u. num_add (num_add (num_add n (tokens_of u ''input''))
     (tokens_of u ''cacheRead'')) (tokens_of u ''cacheWrite'')) (Fin 0) vs"

definition sum_out :: "jsval list \<Rightarrow> jnum" where
  "sum_out vs = foldl (\<lambda>n u. num_add n (tokens_of u ''output'')) (Fin 0) vs"

definition cost_total :: "jsval \<Rightarrow> jsval" where
  "cost_total u = opt_get (opt_get u ''cost'') ''total''"

record usage_summary =
  us_run_id :: jsval
  us_fingerprint :: jsval
  us_complete :: bool
  us_tokens_in :: "jnum option"
  us_tokens_out :: "jnum option"
  us_cost :: "jnum option"
  us_cost_basis :: jstr
  us_recorded_in :: "jnum option"
  us_recorded_out :: "jnum option"
  us_uncertainty :: "jstr option"
  us_models :: jsval
  us_tools :: jsval

definition cost_estimate :: "jsval \<Rightarrow> jsval list \<Rightarrow> bool \<Rightarrow> jnum option" where
  "cost_estimate r values full =
    (if full \<and> truthy (opt_get (opt_get r ''metadata'') ''pricingKnown'')
        \<and> (\<forall>u \<in> set values. nonneg_finite (cost_total u))
     then (let c = foldl (\<lambda>n u. num_add n (to_num (cost_total u))) (Fin 0) values
       in if is_finite c then Some c else None)
     else None)"

definition uncertainty_note :: "bool \<Rightarrow> bool \<Rightarrow> jstr option" where
  "uncertainty_note uncertain valid =
    (if uncertain then Some (js ''interrupted or incomplete provider usage; recorded measurements are a known floor'')
     else if valid then None else Some (js ''provider usage unavailable''))"

text \<open>\<open>ledger?.models ?? {}\<close> and \<open>ledger?.tools ?? {}\<close>.\<close>

definition ledger_part :: "jsval \<Rightarrow> string \<Rightarrow> jsval" where
  "ledger_part ledger k = coalesce (opt_get ledger k) (Obj [])"

definition model_values :: "jsval \<Rightarrow> jsval list" where
  "model_values ledger = obj_values (ledger_part ledger ''models'')"

definition build_summary :: "jsval \<Rightarrow> jsval \<Rightarrow> bool \<Rightarrow> bool \<Rightarrow> usage_summary" where
  "build_summary r ledger uncertain valid =
    (let values = model_values ledger;
         tin = (if valid then Some (sum_in values) else None);
         tout = (if valid then Some (sum_out values) else None);
         full = (\<not> uncertain \<and> valid \<and> is_safe_integer (sum_in values) \<and> is_safe_integer (sum_out values));
         cost = cost_estimate r values full
     in \<lparr>us_run_id = opt_get r ''run_id'', us_fingerprint = opt_get r ''fingerprint'',
          us_complete = full,
          us_tokens_in = (if full then tin else None),
          us_tokens_out = (if full then tout else None),
          us_cost = cost,
          us_cost_basis = (if cost = None then js ''unavailable'' else js ''estimated''),
          us_recorded_in = tin, us_recorded_out = tout,
          us_uncertainty = uncertainty_note uncertain valid,
          us_models = ledger_part ledger ''models'', us_tools = ledger_part ledger ''tools''\<rparr>)"

definition summarize_usage :: "jsval \<Rightarrow> jsval \<Rightarrow> bool \<Rightarrow> usage_summary result" where
  "summarize_usage r ledger uncertain =
     bind_r (if model_values ledger = [] then Inr False else every_r usage_valid (model_values ledger))
       (\<lambda>valid. Inr (build_summary r ledger uncertain valid))"

text \<open>The JSON object the summary is written as.\<close>

definition num_opt :: "jnum option \<Rightarrow> jsval" where
  "num_opt n = (case n of None \<Rightarrow> Null | Some x \<Rightarrow> Num x)"

definition usage_json :: "usage_summary \<Rightarrow> jsval" where
  "usage_json u = Obj [(js ''contract_version'', Str CONTRACT), (js ''run_id'', us_run_id u),
     (js ''fingerprint'', us_fingerprint u), (js ''complete'', JBool (us_complete u)),
     (js ''tokens_in'', num_opt (us_tokens_in u)), (js ''tokens_out'', num_opt (us_tokens_out u)),
     (js ''cost_usd'', num_opt (us_cost u)), (js ''cost_basis'', Str (us_cost_basis u)),
     (js ''recorded_tokens_in'', num_opt (us_recorded_in u)),
     (js ''recorded_tokens_out'', num_opt (us_recorded_out u)),
     (js ''uncertainty'', (case us_uncertainty u of None \<Rightarrow> Null | Some s \<Rightarrow> Str s)),
     (js ''models'', us_models u), (js ''tools'', us_tools u)]"
end
