(* ===== verification/Pi_Protocol_Facts.thy ===== *)
theory Pi_Protocol_Facts imports Pi_Protocol begin

text \<open>
  What \<^verbatim>\<open>agents/pi/src/protocol.mjs\<close> guarantees: accepted requests satisfy the contract and
  name a state directory without traversal, receipts are replaced atomically, the state
  directory is an exclusive lock bound to one request, process identities survive hostile
  process names, and a summary marked complete reports exact token sums.
\<close>

section \<open>Receipts\<close>

lemma temp_name_neq [simp]: "temp_name file pid \<noteq> file" "file \<noteq> temp_name file pid"
  by (auto simp: temp_name_def dest: arg_cong [where f = length])

lemma write_json_cases:
  assumes "write_json f pid d file v limit = (d', res)"
  shows "ents d' file = ents d file \<and> res \<noteq> Inr ()
    \<or> ents d' file = Some (File (json_line v)) \<and> utf8_len (json_line v) \<le> limit"
  using assms by (auto simp: write_json_def Let_def split: if_splits fault.splits)

lemma write_json_frame:
  assumes "write_json f pid d file v limit = (d', res)" "k \<noteq> file" "k \<noteq> temp_name file pid"
  shows "ents d' k = ents d k"
  using assms by (auto simp: write_json_def Let_def split: if_splits fault.splits)

lemma write_json_self [simp]: "self (fst (write_json f pid d file v limit)) = self d"
  by (auto simp: write_json_def Let_def split: fault.splits)

lemma write_json_ok:
  "write_json f pid d file v limit = (d', Inr ()) \<Longrightarrow>
   f = NoFault \<and> d' = put_node file (File (json_line v)) d \<and> utf8_len (json_line v) \<le> limit"
  by (auto simp: write_json_def Let_def split: if_splits fault.splits)

lemma json_parse_line: "json_ok v \<Longrightarrow> json_parse (json_line v) = Some v"
proof -
  assume v: "json_ok v"
  then obtain t where t: "stringify v = Some t" using json_ok_stringify by blast
  have "json_parse (t @ [10]) = Some v"
    by (rule json_parse_stringify [OF v t]) simp_all
  then show ?thesis by (simp add: json_line_def t)
qed

lemma read_written:
  assumes "json_ok v" "ents d file = Some (File (json_line v))" "utf8_len (json_line v) \<le> limit"
  shows "read_json d file limit = Inr v"
  using assms by (simp add: read_json_def json_parse_line)

text \<open>C6: replacing a receipt is atomic. Whatever I/O error or crash interrupts \<open>writeJSON\<close>, the
  receipt holds its old content or the complete new one, new content is within the size
  limit, success means the new content, and no other entry but the temporary file of this
  process changes.\<close>

theorem write_json_atomic:
  assumes "write_json f pid d file v limit = (d', res)"
  shows "ents d' file \<in> {ents d file, Some (File (json_line v))}
    \<and> (ents d' file \<noteq> ents d file \<longrightarrow> utf8_len (json_line v) \<le> limit)
    \<and> (res = Inr () \<longrightarrow> ents d' file = Some (File (json_line v)))
    \<and> (\<forall>k. k \<noteq> file \<longrightarrow> k \<noteq> temp_name file pid \<longrightarrow> ents d' k = ents d k)"
  using write_json_cases [OF assms] write_json_frame [OF assms] by auto

definition ex_dir :: sdir where
  "ex_dir = \<lparr>self = Some Dir, ents = (\<lambda>_. None)\<rparr>"

lemma write_json_atomic_witness:
  "\<exists>d'. write_json (FailWrite 3) 7 ex_dir USAGE (int_val 12) 100 = (d', Inl (sys_err ''EIO''))
     \<and> ents d' USAGE = None"
proof -
  let ?r = "write_json (FailWrite 3) 7 ex_dir USAGE (int_val 12) 100"
  have t: "json_line (int_val 12) = dec_nat 12 @ [10]" by (simp add: json_line_def num_to_string_def dec_int_def)
  have l: "utf8_len (json_line (int_val 12)) = 3" unfolding t by (simp add: dec_nat.simps)
  obtain d' res where r: "?r = (d', res)" by (cases ?r)
  then have res: "res = Inl (sys_err ''EIO'')" using l by (auto simp: write_json_def ex_dir_def)
  have "ents d' USAGE \<in> {ents ex_dir USAGE, Some (File (json_line (int_val 12)))}"
    using write_json_atomic [OF r] by blast
  then show ?thesis
    using r res write_json_cases [OF r] l by (auto simp: write_json_def Let_def ex_dir_def)
qed

lemma read_written_ok:
  "write_json f pid d file v limit = (d', Inr ()) \<Longrightarrow> json_ok v \<Longrightarrow> limit \<le> limit' \<Longrightarrow>
   read_json d' file limit' = Inr v"
  by (drule write_json_ok, rule read_written) auto


section \<open>The state directory as a lock\<close>

definition held :: "sdir \<Rightarrow> bool" where
  "held d \<longleftrightarrow> ents d LOCK \<noteq> None"

lemma lock_names [simp]:
  "LOCK \<noteq> IDENTITY" "LOCK \<noteq> TERMINAL" "IDENTITY \<noteq> TERMINAL" "LOCK \<noteq> MAIN_JOURNAL" "LOCK \<noteq> JOURNAL"
  "IDENTITY \<noteq> MAIN_JOURNAL" "TERMINAL \<noteq> MAIN_JOURNAL" "TERMINAL \<noteq> JOURNAL" "IDENTITY \<noteq> JOURNAL"
  "MAIN_JOURNAL \<noteq> LOCK" "IDENTITY \<noteq> LOCK" "TERMINAL \<noteq> LOCK" "TERMINAL \<noteq> IDENTITY" "JOURNAL \<noteq> LOCK"
  by (simp_all add: file_names)

lemma lock_not_temp [simp]: "LOCK \<noteq> temp_name IDENTITY pid"
proof -
  have "take 2 LOCK \<noteq> take 2 (temp_name IDENTITY pid)"
    by (simp add: LOCK_def IDENTITY_def temp_name_def js_def)
  then show ?thesis by metis
qed

lemma check_identity_frame:
  assumes "check_identity f pid d r v = (d', res)"
  shows "ents d' LOCK = ents d LOCK" "self d' = self d"
  using assms write_json_frame [where k = LOCK] write_json_self [of f pid d IDENTITY r IDENTITY_LIMIT]
  by (auto simp: check_identity_def simp del: write_json_self split: if_splits option.splits)

lemma adopt_identity_frame:
  assumes "adopt_identity f pid d r = (d', res)"
  shows "ents d' LOCK = ents d LOCK" "self d' = self d"
  using assms check_identity_frame
  by (auto simp: adopt_identity_def split: sum.splits prod.splits)

lemma mkdir_p_ents: "mkdir_p d = Inr d1 \<Longrightarrow> ents d1 = ents d"
  by (auto simp: mkdir_p_def split: option.splits node.splits)

lemma prepare_ok:
  "prepare_state f pid d r = (d', Inr ()) \<Longrightarrow>
   \<exists>d1. mkdir_p d = Inr d1 \<and> self d1 = Some Dir \<and> \<not> held d
     \<and> adopt_identity f pid (put_node LOCK (File (dec_nat pid)) d1) r = (d', Inr ())"
  by (auto simp: prepare_state_def held_def dest: mkdir_p_ents
      split: sum.splits if_splits prod.splits unit.splits)

lemma prepare_ok_lock:
  assumes "prepare_state f pid d r = (d', Inr ())"
  shows "\<not> held d" "ents d' LOCK = Some (File (dec_nat pid))" "self d' = Some Dir"
  using prepare_ok [OF assms] adopt_identity_frame by fastforce+

lemma prepare_fail_lock:
  assumes "prepare_state f pid d r = (d', Inl e)"
  shows "ents d' LOCK = ents d LOCK"
  using assms
  by (auto simp: prepare_state_def dest: mkdir_p_ents split: sum.splits if_splits prod.splits unit.splits)

text \<open>The contract of an exclusive lock over a shared state: a try that succeeds found it free
  and leaves it held, a try that fails leaves it as it was, only a held lock is released.\<close>

locale exclusive_lock =
  fixes is_held :: "'s \<Rightarrow> bool"
    and acquire :: "'a \<Rightarrow> 's \<Rightarrow> 's \<times> bool"
    and give_back :: "'s \<Rightarrow> 's \<times> bool"
  assumes acquire_ok: "acquire a s = (s', True) \<Longrightarrow> \<not> is_held s \<and> is_held s'"
    and acquire_fail: "acquire a s = (s', False) \<Longrightarrow> is_held s' = is_held s"
    and give_back_ok: "give_back s = (s', True) \<Longrightarrow> is_held s \<and> \<not> is_held s'"
    and give_back_fail: "give_back s = (s', False) \<Longrightarrow> is_held s' = is_held s"
begin

text \<open>Any interleaving of tries (\<open>Some a\<close>) and releases (\<open>None\<close>) of any number of processes:
  the state reached, and how many of each succeeded.\<close>

fun run :: "'s \<Rightarrow> 'a option list \<Rightarrow> 's \<times> nat \<times> nat" where
  "run s [] = (s, 0, 0)"
| "run s (Some a # ops) =
     (case acquire a s of (s1, ok) \<Rightarrow> case run s1 ops of (s2, m, n) \<Rightarrow> (s2, (if ok then m + 1 else m), n))"
| "run s (None # ops) =
     (case give_back s of (s1, ok) \<Rightarrow> case run s1 ops of (s2, m, n) \<Rightarrow> (s2, m, (if ok then n + 1 else n)))"

lemma balance:
  "run s ops = (s', m, n) \<Longrightarrow> m + (if is_held s then 1 else 0) = n + (if is_held s' then 1 else 0)"
proof (induction s ops arbitrary: s' m n rule: run.induct)
  case (2 s a ops)
  obtain s1 ok where a: "acquire a s = (s1, ok)" by (cases "acquire a s")
  show ?case
    using 2(1) [OF a [symmetric]] 2(2) acquire_ok [of a s s1] acquire_fail [of a s s1] a
    by (cases ok) (auto split: prod.splits if_splits)
next
  case (3 s ops)
  obtain s1 ok where a: "give_back s = (s1, ok)" by (cases "give_back s")
  show ?case
    using 3(1) [OF a [symmetric]] 3(2) give_back_ok [of s s1] give_back_fail [of s s1] a
    by (cases ok) (auto split: prod.splits if_splits)
qed simp

lemma at_most_one_owner: "\<not> is_held s \<Longrightarrow> run s ops = (s', m, n) \<Longrightarrow> n \<le> m \<and> m \<le> n + 1"
  using balance [of s ops s' m n] by (auto split: if_splits)

end

definition ok_of :: "sdir \<times> unit result \<Rightarrow> sdir \<times> bool" where
  "ok_of p = (fst p, snd p = Inr ())"

text \<open>One try of a supervisor: its process number, its request and the faults it meets.\<close>

definition try_prepare :: "fault \<times> nat \<times> jsval \<Rightarrow> sdir \<Rightarrow> sdir \<times> bool" where
  "try_prepare a d = (case a of (f, pid, r) \<Rightarrow> ok_of (prepare_state f pid d r))"

definition try_release :: "sdir \<Rightarrow> sdir \<times> bool" where
  "try_release d = ok_of (release d)"

interpretation owner: exclusive_lock held try_prepare try_release
proof unfold_locales
  fix a :: "fault \<times> nat \<times> jsval" and d d'
  obtain f pid r where a: "a = (f, pid, r)" by (cases a)
  { assume "try_prepare a d = (d', True)"
    then have "prepare_state f pid d r = (d', Inr ())"
      by (auto simp: try_prepare_def ok_of_def a prod_eq_iff)
    then show "\<not> held d \<and> held d'" using prepare_ok_lock by (auto simp: held_def)
  next
    assume "try_prepare a d = (d', False)"
    then obtain e where "prepare_state f pid d r = (d', Inl e)"
      by (cases "prepare_state f pid d r"; cases "snd (prepare_state f pid d r)")
        (auto simp: try_prepare_def ok_of_def a)
    then show "held d' = held d" using prepare_fail_lock by (auto simp: held_def)
  }
next
  fix d d'
  show "try_release d = (d', True) \<Longrightarrow> held d \<and> \<not> held d'"
    by (auto simp: try_release_def ok_of_def release_def held_def split: if_splits)
  show "try_release d = (d', False) \<Longrightarrow> held d' = held d"
    by (auto simp: try_release_def ok_of_def release_def held_def split: if_splits)
qed

text \<open>C5: at most one owner. However the prepare and release steps of any number of
  supervisors interleave, whatever requests they carry and whatever faults they meet, a
  state directory that starts free never has more than one live owner.\<close>

theorem single_owner:
  assumes "\<not> held d" and "owner.run d ops = (d', m, n)"
  shows "n \<le> m \<and> m \<le> n + 1"
  using assms by (rule owner.at_most_one_owner)

text \<open>A held lock is never stolen. Preparing a directory another process owns fails with
  \<open>EEXIST\<close> and changes nothing in it.\<close>

theorem held_lock_respected:
  assumes "held d" and "self d = Some Dir"
  shows "prepare_state f pid d r = (d, Inl (sys_err ''EEXIST''))"
  using assms by (simp add: prepare_state_def mkdir_p_def held_def)

lemma read_json_cong: "ents d name = ents d' name \<Longrightarrow> read_json d name n = read_json d' name n"
  by (simp add: read_json_def)

lemma adopt_identity_ok:
  assumes "adopt_identity f pid d r = (d', Inr ())" and r: "json_ok r" "truthy r"
  shows "\<exists>v. read_json d' IDENTITY IDENTITY_LIMIT = Inr v \<and> truthy v \<and> stringify v = stringify r"
proof -
  from assms(1) obtain d2 previous where prev: "stored_identity d = Inr previous"
    and step: "check_identity f pid d r previous = (d2, Inr ())" and d': "d' = del_node TERMINAL d2"
    by (auto simp: adopt_identity_def split: sum.splits prod.splits)
  have same: "read_json d' IDENTITY n = read_json d2 IDENTITY n" for n
    by (rule read_json_cong) (simp add: d')
  show ?thesis
  proof (cases "truthy previous")
    case True
    with step have d2: "d2 = d" "stringify previous = stringify r"
      by (auto simp: check_identity_def split: if_splits option.splits)
    have "read_json d IDENTITY IDENTITY_LIMIT = Inr previous"
      using prev True by (auto simp: stored_identity_def split: sum.splits if_splits)
    with True d2 same show ?thesis by auto
  next
    case False
    with step have "write_json f pid d IDENTITY r IDENTITY_LIMIT = (d2, Inr ())"
      by (auto simp: check_identity_def split: if_splits)
    then have "read_json d2 IDENTITY IDENTITY_LIMIT = Inr r"
      using r by (intro read_written_ok) auto
    with r same show ?thesis by auto
  qed
qed

lemma adopt_resume:
  assumes "read_json d IDENTITY IDENTITY_LIMIT = Inr v" "truthy v"
    "ents d MAIN_JOURNAL = Some (File t)" "t \<noteq> []"
  shows "snd (adopt_identity f pid d r) = Inr () \<longleftrightarrow> stringify r = stringify v"
  using assms by (auto simp: adopt_identity_def stored_identity_def check_identity_def journal_bad_def)

lemma prepare_unheld:
  "self d = Some Dir \<Longrightarrow> \<not> held d \<Longrightarrow>
   snd (prepare_state f pid d r) = snd (adopt_identity f pid (put_node LOCK (File (dec_nat pid)) d) r)"
  by (simp add: prepare_state_def mkdir_p_def held_def split: prod.splits sum.splits)

text \<open>C8: a session is bound to its request. After a prepare for \<open>r\<close> succeeded and its owner has
  gone, with the identity untouched and a journal written, the next prepare succeeds for
  exactly the requests with the same JSON text; any other configuration is refused.\<close>

theorem session_bound_to_request:
  assumes first: "prepare_state f pid d r = (d1, Inr ())" and r: "json_ok r" "truthy r"
    and later: "self d2 = Some Dir" "\<not> held d2" "ents d2 IDENTITY = ents d1 IDENTITY"
      "ents d2 MAIN_JOURNAL = Some (File t)" "t \<noteq> []"
  shows "snd (prepare_state g pid' d2 r') = Inr () \<longleftrightarrow> stringify r' = stringify r"
proof -
  from prepare_ok [OF first] obtain d0 where
    "adopt_identity f pid (put_node LOCK (File (dec_nat pid)) d0) r = (d1, Inr ())" by blast
  from adopt_identity_ok [OF this r] obtain v where
    v: "read_json d1 IDENTITY IDENTITY_LIMIT = Inr v" "truthy v" "stringify v = stringify r" by blast
  let ?d = "put_node LOCK (File (dec_nat pid')) d2"
  have "read_json ?d IDENTITY IDENTITY_LIMIT = Inr v"
    using v(1) later(3) by (subst read_json_cong [of _ _ d1]) auto
  then have "snd (adopt_identity g pid' ?d r') = Inr () \<longleftrightarrow> stringify r' = stringify v"
    using v(2) later(4,5) by (intro adopt_resume) auto
  then show ?thesis by (simp add: prepare_unheld [OF later(1,2)] v(3))
qed

section \<open>Paths\<close>

definition plain_seg :: "jstr \<Rightarrow> bool" where
  "plain_seg s \<longleftrightarrow> s \<noteq> [] \<and> s \<noteq> js ''.'' \<and> s \<noteq> js ''..'' \<and> 47 \<notin> set s"

lemma norm_segs_plain:
  "\<forall>s \<in> set acc. plain_seg s \<Longrightarrow> \<forall>s \<in> set ss. 47 \<notin> set s \<Longrightarrow> \<forall>s \<in> set (norm_segs False acc ss). plain_seg s"
proof (induction ss arbitrary: acc)
  case (Cons s ss)
  have ss: "\<forall>s \<in> set ss. 47 \<notin> set s" using Cons.prems(2) by simp
  consider "s = [] \<or> s = js ''.''" | "s \<noteq> []" "s \<noteq> js ''.''" "s = js ''..''" | "plain_seg s"
    using Cons.prems(2) by (auto simp: plain_seg_def)
  then show ?case
  proof cases
    case 1
    then show ?thesis using Cons.IH [OF Cons.prems(1) ss] by simp
  next
    case 2
    show ?thesis
    proof (cases acc)
      case Nil
      then have "norm_segs False acc (s # ss) = norm_segs False [] ss" using 2 by simp
      with Cons.IH [of "[]"] ss show ?thesis by simp
    next
      case (Cons a as)
      with Cons.prems(1) have "a \<noteq> js ''..''" by (simp add: plain_seg_def)
      with 2 Cons have "norm_segs False acc (s # ss) = norm_segs False as ss" by simp
      with Cons.IH [of as] ss Cons Cons.prems(1) show ?thesis by simp
    qed
  next
    case 3
    then have "\<forall>s \<in> set (norm_segs False (s # acc) ss). plain_seg s"
      using Cons.prems(1) ss by (intro Cons.IH) auto
    with 3 show ?thesis by (simp add: plain_seg_def)
  qed
qed simp

text \<open>A normalised absolute path is a slash, its plain segments and an optional final slash.\<close>

lemma path_normalize_absolute:
  assumes "is_absolute p"
  shows "\<exists>segs tl. (\<forall>s \<in> set segs. plain_seg s) \<and> tl \<in> {[], [47]}
    \<and> path_normalize p = 47 # join_with [47] segs @ tl"
proof -
  define segs where "segs = norm_segs False [] (split_on 47 p)"
  have "\<forall>s \<in> set segs. plain_seg s"
    unfolding segs_def by (rule norm_segs_plain) (auto dest: split_on_parts)
  moreover have "path_normalize p = 47 # join_with [47] segs @ (if join_with [47] segs \<noteq> [] \<and> last p = 47 then [47] else [])"
    using assms by (simp add: path_normalize_def Let_def segs_def is_absolute_def js_def)
  ultimately show ?thesis by auto
qed

lemma path_join_absolute:
  assumes "is_absolute p"
  shows "path_join (p # qs) = path_normalize (join_with [47] (filter (\<lambda>q. q \<noteq> []) (p # qs)))"
  using assms by (auto simp: path_join_def is_absolute_def)

lemma dirname_absolute: "is_absolute p \<Longrightarrow> is_absolute (dirname p)"
  by (cases p) (auto simp: is_absolute_def dirname_def js_def Let_def)

section \<open>The request contract\<close>

lemma Str_of: "is_str v \<Longrightarrow> v = Str (to_str v)"
  by (cases v) auto

lemma str_arg_Str [simp]: "str_arg (Str s) = Inr s"
  by (simp add: str_arg_def)

lemma str_arg_Inr [simp]: "str_arg v = Inr s \<longleftrightarrow> v = Str s"
  by (auto simp: str_arg_def split: jsval.splits)

lemma validate_accepts:
  "validate_request sha url r = Inr r' \<Longrightarrow> r' = r \<and> contract_ok sha r = Inr True
     \<and> (\<exists>u. url (to_str (opt_get r ''base_url'')) = Some u \<and> \<not> endpoint_bad u)
     \<and> \<not> model_bad r (opt_get r ''metadata'')"
  by (auto simp: validate_request_def bind_r_iff Let_def split: option.splits)

lemma contract_accepts:
  assumes "contract_ok sha r = Inr True"
  shows "\<exists>rid prompt repo t. opt_get r ''run_id'' = Str rid \<and> rid \<noteq> []
    \<and> opt_get r ''prompt'' = Str prompt \<and> trim prompt \<noteq> []
    \<and> opt_get r ''request_id'' = Str (sha (rid @ [0] @ prompt))
    \<and> opt_get r ''repository_dir'' = Str repo \<and> is_absolute repo \<and> path_normalize repo = repo
    \<and> opt_get r ''state_dir'' = Str (path_join [dirname repo, js ''.factory'', js ''pi'', sha rid])
    \<and> opt_get r ''timeout_ms'' = int_val t \<and> 0 < t \<and> t \<le> 2147483647
    \<and> (opt_get r ''max_process_restarts'' = int_val 0 \<or> opt_get r ''max_process_restarts'' = int_val 1)"
proof -
  note a = assms [unfolded contract_ok_def]
  obtain repo rid where s: "opt_get r ''repository_dir'' = Str repo" "opt_get r ''run_id'' = Str rid"
    using a by (auto simp: bind_r_Inr_iff split: if_splits)
  obtain prompt where p: "opt_get r ''prompt'' = Str prompt"
    using a Str_of by (fastforce split: if_splits)
  have "safe_int_val (opt_get r ''timeout_ms'')" using a s by (auto split: if_splits)
  then obtain t where t: "opt_get r ''timeout_ms'' = int_val t" by (rule safe_int_valE)
  have "0 < t" "t \<le> 2147483647" using a s t by (auto split: if_splits)
  moreover have "opt_get r ''max_process_restarts'' = int_val 0 \<or> opt_get r ''max_process_restarts'' = int_val 1"
    using a s by (cases "opt_get r ''max_process_restarts''")
      (auto simp: same_zero_def num_eq_def split: if_splits)
  ultimately show ?thesis using a s p t by (auto split: if_splits)
qed

lemma split_on_append_sep: "split_on c (a @ c # b) = split_on c a @ split_on c b"
proof (induction c a rule: split_on.induct)
  case (2 c x xs)
  obtain w ws where "split_on c xs = w # ws" using split_on_not_Nil neq_Nil_conv by metis
  with 2 show ?case by simp
qed simp

lemma norm_segs_append:
  "norm_segs False acc (ss @ ts) = norm_segs False (rev (norm_segs False acc ss)) ts"
proof (induction ss arbitrary: acc)
  case (Cons s ss)
  then show ?case by (cases acc) simp_all
qed simp

lemma norm_segs_plain_id: "\<forall>s \<in> set ts. plain_seg s \<Longrightarrow> norm_segs False acc ts = rev acc @ ts"
  by (induction ts arbitrary: acc) (auto simp: plain_seg_def)

lemma last_join_plain:
  "ws \<noteq> [] \<Longrightarrow> plain_seg (last ws) \<Longrightarrow> join_with [47] ws \<noteq> [] \<and> last (join_with [47] ws) \<noteq> 47"
proof (induction ws)
  case (Cons w ws)
  show ?case
  proof (cases "ws = []")
    case True
    with Cons.prems have "w \<noteq> []" "47 \<notin> set w" by (auto simp: plain_seg_def)
    with True show ?thesis by (metis join_with.simps(2) last_in_set)
  next
    case False
    with Cons show ?thesis by (simp add: join_with_Cons)
  qed
qed simp

lemma path_join_plain:
  assumes d: "is_absolute d" and ts: "\<forall>s \<in> set ts. plain_seg s" "ts \<noteq> []"
  shows "\<exists>segs. (\<forall>s \<in> set segs. plain_seg s)
    \<and> path_join (d # ts) = 47 # join_with [47] (segs @ ts)"
proof -
  define segs where "segs = norm_segs False [] (split_on 47 d)"
  let ?p = "d @ 47 # join_with [47] ts"
  have plain: "\<forall>s \<in> set segs. plain_seg s"
    unfolding segs_def by (rule norm_segs_plain) (auto dest: split_on_parts)
  have f: "filter (\<lambda>p. p \<noteq> []) (d # ts) = d # ts"
    using d ts by (auto simp: is_absolute_def plain_seg_def filter_id_conv)
  have "split_on 47 ?p = split_on 47 d @ ts"
    using ts by (simp add: split_on_append_sep) (rule split_on_join, auto simp: plain_seg_def)
  then have n: "norm_segs False [] (split_on 47 ?p) = segs @ ts"
    using ts by (simp add: norm_segs_append segs_def norm_segs_plain_id)
  have a: "is_absolute ?p" using d by (cases d) (auto simp: is_absolute_def)
  have l: "join_with [47] ts \<noteq> []" "last ?p \<noteq> 47" "join_with [47] (segs @ ts) \<noteq> []"
    using last_join_plain [of ts] last_join_plain [of "segs @ ts"] ts by auto
  have "path_join (d # ts) = path_normalize (join_with [47] (d # ts))"
    using f by (simp add: path_join_def del: filter.simps)
  also have "\<dots> = path_normalize ?p" using ts by (simp add: join_with_Cons)
  also have "\<dots> = 47 # join_with [47] (segs @ ts)"
    using a l n by (simp add: path_normalize_def Let_def js_def)
  finally show ?thesis using plain by blast
qed

text \<open>What an accepted request looks like. \<open>validateRequest\<close> returns the request itself, and
  only when its identity, prompt, digest, directories, timeout and restart allowance satisfy
  the contract, the endpoint is a plain HTTP(S) address without credentials, query or
  fragment, and the model's window holds more than its output limit.\<close>

theorem accepted_request:
  assumes "validate_request sha url r = Inr r'"
  shows "r' = r \<and> (\<exists>rid prompt repo t u w k.
      opt_get r ''run_id'' = Str rid \<and> rid \<noteq> [] \<and> opt_get r ''prompt'' = Str prompt \<and> trim prompt \<noteq> []
    \<and> opt_get r ''request_id'' = Str (sha (rid @ [0] @ prompt))
    \<and> opt_get r ''repository_dir'' = Str repo \<and> is_absolute repo \<and> path_normalize repo = repo
    \<and> opt_get r ''state_dir'' = Str (path_join [dirname repo, js ''.factory'', js ''pi'', sha rid])
    \<and> opt_get r ''timeout_ms'' = int_val t \<and> 0 < t \<and> t \<le> 2147483647
    \<and> opt_get r ''max_process_restarts'' \<in> {int_val 0, int_val 1}
    \<and> url (to_str (opt_get r ''base_url'')) = Some u \<and> protocol u \<in> {js ''http:'', js ''https:''}
    \<and> username u = [] \<and> password u = [] \<and> search u = [] \<and> hash u = []
    \<and> opt_get (opt_get r ''metadata'') ''contextWindow'' = int_val w
    \<and> opt_get (opt_get r ''metadata'') ''maxTokens'' = int_val k \<and> 0 < k \<and> k < w)"
proof -
  from validate_accepts [OF assms] obtain u where r': "r' = r" and c: "contract_ok sha r = Inr True"
    and u: "url (to_str (opt_get r ''base_url'')) = Some u" "\<not> endpoint_bad u"
    and m: "\<not> model_bad r (opt_get r ''metadata'')" by blast
  obtain w k where wk: "opt_get (opt_get r ''metadata'') ''contextWindow'' = int_val w"
    "opt_get (opt_get r ''metadata'') ''maxTokens'' = int_val k"
    using m by (auto simp: model_bad_def elim!: safe_int_valE)
  have "0 < k" "k < w" using m wk by (auto simp: model_bad_def)
  moreover have "protocol u \<in> {js ''http:'', js ''https:''}" "username u = []" "password u = []"
    "search u = []" "hash u = []"
    using u(2) by (auto simp: endpoint_bad_def)
  ultimately show ?thesis using r' u(1) wk contract_accepts [OF c] by simp
qed

text \<open>The state directory of an accepted request has no traversal: it is an absolute path of
  plain segments (none empty, \<open>.\<close> or \<open>..\<close>) that ends in \<open>.factory/pi/\<close> and the digest of the
  run. The digest function is assumed to print lower-case hexadecimal, as \<open>digest('hex')\<close>.\<close>

theorem state_dir_no_traversal:
  assumes "validate_request sha url r = Inr r'" and "opt_get r ''run_id'' = Str rid"
    and "\<And>x. sha x \<noteq> [] \<and> (\<forall>c \<in> set (sha x). hex_char c)"
  shows "\<exists>segs. (\<forall>s \<in> set segs. plain_seg s) \<and> opt_get r' ''state_dir'' =
     Str (47 # join_with [47] (segs @ [js ''.factory'', js ''pi'', sha rid]))"
proof -
  from validate_accepts [OF assms(1)] have v: "r' = r" "contract_ok sha r = Inr True" by auto
  from contract_accepts [OF v(2)] assms(2) v(1) obtain repo where r': "r' = r" "is_absolute repo"
    and sd: "opt_get r ''state_dir'' = Str (path_join [dirname repo, js ''.factory'', js ''pi'', sha rid])"
    by auto
  have "sha rid \<noteq> js ''.'' \<and> sha rid \<noteq> js ''..'' \<and> 47 \<notin> set (sha rid)"
    using assms(3) [of rid] by (auto simp: js_def hex_char_def is_digit_def)
  then have "\<forall>s \<in> set [js ''.factory'', js ''pi'', sha rid]. plain_seg s"
    using assms(3) by (auto simp: plain_seg_def) (auto simp: js_def)
  from path_join_plain [OF dirname_absolute [OF r'(2)] this] show ?thesis
    using r'(1) sd by auto
qed

section \<open>Processes\<close>

lemma split_ws_word: "w \<noteq> [] \<Longrightarrow> \<forall>c \<in> set w. \<not> is_space c \<Longrightarrow> split_ws w = [w]"
proof (induction w)
  case (Cons c w)
  then show ?case by (cases "w = []") auto
qed simp

lemma split_ws_words:
  "w \<noteq> [] \<Longrightarrow> \<forall>c \<in> set w. \<not> is_space c \<Longrightarrow> s \<noteq> [] \<Longrightarrow> \<not> is_space (hd s) \<Longrightarrow>
   split_ws (w @ 32 # s) = w # split_ws s"
proof (induction w)
  case (Cons c w)
  have sp: "is_space 32" by (simp add: is_space_def)
  have dw: "dropWhile is_space s = s" using Cons.prems by (cases s) auto
  show ?case
  proof (cases "w = []")
    case True
    then show ?thesis using Cons.prems sp dw by simp
  next
    case False
    with Cons show ?thesis by simp
  qed
qed simp

definition word_field :: "jstr \<Rightarrow> bool" where
  "word_field w \<longleftrightarrow> w \<noteq> [] \<and> (\<forall>c \<in> set w. \<not> is_space c \<and> c \<noteq> 41)"

lemma split_ws_join: "fs \<noteq> [] \<Longrightarrow> \<forall>w \<in> set fs. word_field w \<Longrightarrow> split_ws (join_with [32] fs) = fs"
proof (induction fs)
  case (Cons w fs)
  show ?case
  proof (cases "fs = []")
    case True
    with Cons.prems show ?thesis by (simp add: word_field_def split_ws_word)
  next
    case False
    then obtain v vs where v: "fs = v # vs" by (cases fs) auto
    have "join_with [32] fs \<noteq> []" "\<not> is_space (hd (join_with [32] fs))"
      using Cons.prems v by (cases vs; cases v; simp add: word_field_def)+
    with Cons False show ?thesis by (simp add: join_with_Cons word_field_def split_ws_words)
  qed
qed simp

lemma trim_id: "s \<noteq> [] \<Longrightarrow> \<not> is_space (hd s) \<Longrightarrow> \<not> is_space (last s) \<Longrightarrow> trim s = s"
proof -
  assume s: "s \<noteq> []" "\<not> is_space (hd s)" "\<not> is_space (last s)"
  have "dropWhile is_space s = s" using s by (cases s) auto
  moreover have "dropWhile is_space (rev s) = rev s" using s by (cases s rule: rev_cases) auto
  ultimately show ?thesis by (simp add: trim_def trim_start_def trim_end_def)
qed

lemma join_words_ends:
  "fs \<noteq> [] \<Longrightarrow> \<forall>w \<in> set fs. word_field w \<Longrightarrow>
   join_with [32] fs \<noteq> [] \<and> \<not> is_space (hd (join_with [32] fs)) \<and> \<not> is_space (last (join_with [32] fs))
   \<and> 41 \<notin> set (join_with [32] fs)"
proof (induction fs)
  case (Cons w fs)
  have w: "w \<noteq> []" "\<not> is_space (hd w)" "\<not> is_space (last w)" "41 \<notin> set w"
    using Cons.prems by (auto simp: word_field_def)
  show ?case
  proof (cases "fs = []")
    case True
    with w show ?thesis by simp
  next
    case False
    with Cons w show ?thesis by (simp add: join_with_Cons)
  qed
qed simp

text \<open>A hostile process name cannot forge a start time. The kernel prints \<open>pid (comm) f3 f4
  ...\<close>; whatever characters \<open>comm\<close> has, parentheses and spaces included, the fields read are
  those the kernel printed after it.\<close>

theorem stat_fields_robust:
  assumes "fs \<noteq> []" and "\<forall>w \<in> set fs. word_field w" and blank: "\<forall>c \<in> set nl. is_space c"
  shows "stat_fields (pid @ js '' ('' @ comm @ js '') '' @ join_with [32] fs @ nl) = fs"
proof -
  let ?j = "join_with [32] fs"
  have j: "?j \<noteq> []" "\<not> is_space (hd ?j)" "\<not> is_space (last ?j)" "41 \<notin> set ?j"
    using join_words_ends [OF assms(1,2)] by auto
  have nl: "41 \<notin> set nl" using blank by (auto simp: is_space_def)
  let ?s = "pid @ js '' ('' @ comm @ js '') '' @ ?j @ nl"
  have "rev ?s = rev (32 # ?j @ nl) @ 41 # rev (pid @ js '' ('' @ comm)" by (simp add: js_def)
  moreover have "takeWhile (\<lambda>x. x \<noteq> 41) (rev (32 # ?j @ nl) @ 41 # z) = rev (32 # ?j @ nl)" for z
    using j nl by (subst takeWhile_append2) auto
  ultimately have "after_last2 41 ?s = ?j @ nl"
    unfolding after_last2_def by (simp add: js_def)
  moreover have "trim (?j @ nl) = ?j"
  proof -
    have "dropWhile is_space (?j @ nl) = ?j @ nl" using j by (cases ?j) auto
    moreover have "dropWhile is_space (rev nl @ rev ?j) = rev ?j"
      using j blank by (subst dropWhile_append2) (auto, cases ?j rule: rev_cases, auto)
    ultimately show ?thesis by (simp add: trim_def trim_start_def trim_end_def)
  qed
  ultimately show ?thesis using split_ws_join [OF assms(1,2)] by (simp add: stat_fields_def)
qed

text \<open>Recovery sees every process that is not of the baseline. The list of extra processes is
  empty exactly when each current process has the number and the start time of a process of
  the baseline; a reused number shows as extra.\<close>

theorem extra_processes_complete:
  shows "extra_processes baseline current = [] \<longleftrightarrow>
    (\<forall>(pid, start) \<in> set current. map_of baseline pid = Some start)"
  by (auto simp: extra_processes_def filter_empty_conv)

section \<open>The usage summary\<close>

text \<open>The integer a token field holds.\<close>

definition tok :: "jsval \<Rightarrow> string \<Rightarrow> int" where
  "tok u k = (case opt_get u k of Num (Fin x) \<Rightarrow> \<lfloor>x\<rfloor> | _ \<Rightarrow> 0)"

definition tok_ok :: "jsval \<Rightarrow> string \<Rightarrow> bool" where
  "tok_ok u k \<longleftrightarrow> tokens_of u k = num_int (tok u k) \<and> 0 \<le> tok u k \<and> tok u k \<le> 2 ^ 53 - 1"

lemma usage_valid_tok: "usage_valid u = Inr True \<Longrightarrow> k \<in> set USAGE_KEYS \<Longrightarrow> tok_ok u k"
proof -
  assume a: "usage_valid u = Inr True" "k \<in> set USAGE_KEYS"
  then have "safe_int_val (opt_get u k)" and p: "num_le (Fin 0) (to_num (opt_get u k))"
    by (auto simp: usage_valid_def split: if_splits)
  then obtain n where n: "opt_get u k = int_val n" "\<bar>n\<bar> \<le> 2 ^ 53 - 1" by (elim safe_int_valE)
  with p show ?thesis by (simp add: tok_ok_def tok_def tokens_of_def)
qed

lemma every_r_True: "every_r p xs = Inr True \<longleftrightarrow> (\<forall>x \<in> set xs. p x = Inr True)"
proof (induction xs)
  case (Cons x xs)
  then show ?case by (cases "p x") (auto split: if_splits)
qed simp

text \<open>A running sum of doubles follows the exact sum until it leaves the exact range, and then
  stays outside it.\<close>

definition tracks :: "jnum \<Rightarrow> int \<Rightarrow> bool" where
  "tracks acc s \<longleftrightarrow> acc = num_int s \<and> 0 \<le> s \<and> s \<le> 2 ^ 53
     \<or> 2 ^ 53 \<le> s \<and> (acc = Inf True \<or> (\<exists>y. acc = Fin y \<and> 2 ^ 53 \<le> y))"

lemma fl_beyond: "2 ^ 53 \<le> x \<Longrightarrow> fl x = Inf True \<or> (\<exists>y. fl x = Fin y \<and> 2 ^ 53 \<le> y)"
  using fl_ge_pow [of 53 x] by simp

lemma tracks_add:
  assumes "tracks acc s" and n: "0 \<le> n" "n \<le> 2 ^ 53 - 1"
  shows "tracks (num_add acc (num_int n)) (s + n)"
proof -
  from assms(1) consider (exact) "acc = num_int s" "0 \<le> s" "s \<le> 2 ^ 53"
    | (inf) "2 ^ 53 \<le> s" "acc = Inf True"
    | (big) y where "2 ^ 53 \<le> s" "acc = Fin y" "2 ^ 53 \<le> y"
    unfolding tracks_def by blast
  then show ?thesis
  proof cases
    case exact
    show ?thesis
    proof (cases "s + n \<le> 2 ^ 53")
      case True
      then show ?thesis using exact n num_add_int [of s n] by (simp add: tracks_def)
    next
      case False
      then have "of_int (2 ^ 53) \<le> (of_int (s + n) :: rat)" by (simp only: of_int_le_iff)
      then have "2 ^ 53 \<le> of_int s + (of_int n :: rat)" by simp
      from fl_beyond [OF this] False show ?thesis by (simp add: tracks_def num_add_def exact(1))
    qed
  next
    case inf
    with n show ?thesis by (simp add: tracks_def num_add_def)
  next
    case big
    have "(0::rat) \<le> of_int n" using n by simp
    with big have "2 ^ 53 \<le> y + of_int n" by linarith
    from fl_beyond [OF this] big n show ?thesis by (simp add: tracks_def num_add_def)
  qed
qed

lemma tracks_safe: "tracks acc s \<Longrightarrow> is_safe_integer acc \<Longrightarrow> acc = num_int s"
  by (auto simp: tracks_def)

lemma tracks_tok: "tracks acc s \<Longrightarrow> tok_ok u k \<Longrightarrow> tracks (num_add acc (tokens_of u k)) (s + tok u k)"
  unfolding tok_ok_def by (metis tracks_add)

definition exact_in :: "jsval list \<Rightarrow> int" where
  "exact_in vs = (\<Sum>u \<leftarrow> vs. tok u ''input'' + tok u ''cacheRead'' + tok u ''cacheWrite'')"

definition exact_out :: "jsval list \<Rightarrow> int" where
  "exact_out vs = (\<Sum>u \<leftarrow> vs. tok u ''output'')"

lemma tracks_sum_in: "\<forall>u \<in> set vs. usage_valid u = Inr True \<Longrightarrow> tracks (sum_in vs) (exact_in vs)"
proof (induction vs rule: rev_induct)
  case (snoc u vs)
  have "tok_ok u ''input''" "tok_ok u ''cacheRead''" "tok_ok u ''cacheWrite''"
    using snoc.prems by (auto intro: usage_valid_tok simp: USAGE_KEYS_def)
  then have "tracks (sum_in (vs @ [u]))
      (exact_in vs + tok u ''input'' + tok u ''cacheRead'' + tok u ''cacheWrite'')"
    using snoc unfolding sum_in_def by (simp add: tracks_tok)
  then show ?case by (simp add: exact_in_def add.assoc)
qed (simp add: sum_in_def exact_in_def tracks_def)

lemma tracks_sum_out: "\<forall>u \<in> set vs. usage_valid u = Inr True \<Longrightarrow> tracks (sum_out vs) (exact_out vs)"
proof (induction vs rule: rev_induct)
  case (snoc u vs)
  have "tok_ok u ''output''"
    using snoc.prems by (auto intro: usage_valid_tok simp: USAGE_KEYS_def)
  then have "tracks (sum_out (vs @ [u])) (exact_out vs + tok u ''output'')"
    using snoc unfolding sum_out_def by (simp add: tracks_tok)
  then show ?case by (simp add: exact_out_def)
qed (simp add: sum_out_def exact_out_def tracks_def)

lemma summarize_cases:
  assumes "summarize_usage r ledger uncertain = Inr s"
  obtains valid where
    "(if model_values ledger = [] then Inr False else every_r usage_valid (model_values ledger)) = Inr valid"
    "us_complete s = (\<not> uncertain \<and> valid \<and> is_safe_integer (sum_in (model_values ledger))
       \<and> is_safe_integer (sum_out (model_values ledger)))"
    "us_recorded_in s = (if valid then Some (sum_in (model_values ledger)) else None)"
    "us_recorded_out s = (if valid then Some (sum_out (model_values ledger)) else None)"
    "us_tokens_in s = (if us_complete s then us_recorded_in s else None)"
    "us_tokens_out s = (if us_complete s then us_recorded_out s else None)"
    "us_cost s = cost_estimate r (model_values ledger) (us_complete s)"
    "us_cost_basis s = (if us_cost s = None then js ''unavailable'' else js ''estimated'')"
    "us_uncertainty s = uncertainty_note uncertain valid"
  using assms that
  by (auto simp: summarize_usage_def bind_r_Inr_iff build_summary_def Let_def simp del: split_paired_Ex)

lemma cost_estimate_SomeD: "cost_estimate r vs c \<noteq> None \<Longrightarrow>
    c \<and> truthy (opt_get (opt_get r ''metadata'') ''pricingKnown'')"
  by (simp add: cost_estimate_def split: if_splits)

lemma uncertainty_note_True [simp]: "uncertainty_note True v \<noteq> None"
  by (simp add: uncertainty_note_def)

lemma valid_usages:
  "(if vs = [] then Inr False else every_r usage_valid vs) = Inr True \<Longrightarrow>
   \<forall>u \<in> set vs. usage_valid u = Inr True"
  by (simp add: every_r_True split: if_splits)

text \<open>C9: a summary marked complete is exact. When every model's usage is well formed and the
  token sums it reports are marked complete, they are the mathematical sums of the recorded
  integers: no rounding of a double has changed them.\<close>

theorem complete_usage_exact:
  assumes "summarize_usage r ledger uncertain = Inr s" and "us_complete s"
  shows "us_tokens_in s = Some (num_int (exact_in (model_values ledger)))
    \<and> us_tokens_out s = Some (num_int (exact_out (model_values ledger)))
    \<and> \<bar>exact_in (model_values ledger)\<bar> \<le> 2 ^ 53 \<and> \<bar>exact_out (model_values ledger)\<bar> \<le> 2 ^ 53"
proof -
  let ?vs = "model_values ledger"
  from assms(1) show ?thesis
  proof (rule summarize_cases)
    fix valid
    assume v: "(if ?vs = [] then Inr False else every_r usage_valid ?vs) = Inr valid"
      and c: "us_complete s = (\<not> uncertain \<and> valid \<and> is_safe_integer (sum_in ?vs) \<and> is_safe_integer (sum_out ?vs))"
      and r: "us_recorded_in s = (if valid then Some (sum_in ?vs) else None)"
        "us_recorded_out s = (if valid then Some (sum_out ?vs) else None)"
        "us_tokens_in s = (if us_complete s then us_recorded_in s else None)"
        "us_tokens_out s = (if us_complete s then us_recorded_out s else None)"
    have ok: "\<forall>u \<in> set ?vs. usage_valid u = Inr True" using v c assms(2) valid_usages by simp
    have safe: "is_safe_integer (sum_in ?vs)" "is_safe_integer (sum_out ?vs)" using c assms(2) by auto
    have "sum_in ?vs = num_int (exact_in ?vs)" "sum_out ?vs = num_int (exact_out ?vs)"
      using tracks_safe tracks_sum_in [OF ok] tracks_sum_out [OF ok] safe by blast+
    moreover from this have "\<bar>exact_in ?vs\<bar> \<le> 2 ^ 53" "\<bar>exact_out ?vs\<bar> \<le> 2 ^ 53"
      using tracks_sum_in [OF ok] tracks_sum_out [OF ok] safe by (auto simp: tracks_def)
    ultimately show ?thesis using r c assms(2) by simp
  qed
qed

text \<open>Nothing is invented. An uncertain run is never complete and reports no totals and no
  cost, yet keeps what was recorded as a floor; a cost is reported only for a complete
  summary of a model with known pricing, and is labelled an estimate exactly then.\<close>

theorem uncertain_usage_reports_floor:
  assumes "summarize_usage r ledger uncertain = Inr s"
  shows "(uncertain \<longrightarrow> \<not> us_complete s \<and> us_tokens_in s = None \<and> us_tokens_out s = None
      \<and> us_cost s = None \<and> us_uncertainty s \<noteq> None)
    \<and> (us_cost s \<noteq> None \<longrightarrow> us_complete s \<and> truthy (opt_get (opt_get r ''metadata'') ''pricingKnown''))
    \<and> (us_cost_basis s = js ''estimated'' \<longleftrightarrow> us_cost s \<noteq> None)
    \<and> (us_tokens_in s \<noteq> None \<longrightarrow> us_tokens_in s = us_recorded_in s)"
proof (rule summarize_cases [OF assms])
  fix valid
  let ?c = "us_complete s"
  assume c: "?c = (\<not> uncertain \<and> valid \<and> is_safe_integer (sum_in (model_values ledger))
       \<and> is_safe_integer (sum_out (model_values ledger)))"
    and t: "us_tokens_in s = (if ?c then us_recorded_in s else None)"
      "us_tokens_out s = (if ?c then us_recorded_out s else None)"
    and cost: "us_cost s = cost_estimate r (model_values ledger) ?c"
    and basis: "us_cost_basis s = (if us_cost s = None then js ''unavailable'' else js ''estimated'')"
    and note_: "us_uncertainty s = uncertainty_note uncertain valid"
  have reported: "us_cost s \<noteq> None \<longrightarrow> ?c \<and> truthy (opt_get (opt_get r ''metadata'') ''pricingKnown'')"
    unfolding cost using cost_estimate_SomeD by blast
  moreover have "uncertain \<longrightarrow> \<not> ?c" using c by blast
  moreover have "uncertain \<longrightarrow> us_uncertainty s \<noteq> None" using note_ by auto
  moreover have "us_cost_basis s = js ''estimated'' \<longleftrightarrow> us_cost s \<noteq> None" unfolding basis by simp
  ultimately show ?thesis using t by auto
qed

section \<open>Witnesses\<close>

definition ex_identity :: jsval where
  "ex_identity = Obj [(js ''run_id'', Str (js ''run-1'')), (js ''timeout_ms'', int_val 5)]"

lemma ex_identity_ok: "json_ok ex_identity" "truthy ex_identity"
proof -
  have "num_ok (num_int 5)" by (rule num_ok_int) simp
  then show "json_ok ex_identity" by (simp add: ex_identity_def js_def)
  show "truthy ex_identity" by (simp add: ex_identity_def)
qed


lemma single_owner_witness:
  "\<exists>d' m n. owner.run ex_dir [Some (NoFault, 7, ex_identity), Some (NoFault, 8, ex_identity), None] = (d', m, n)
     \<and> n \<le> m \<and> m \<le> n + 1"
proof -
  have h: "\<not> held ex_dir" by (simp add: held_def ex_dir_def)
  obtain d' m n where
    "owner.run ex_dir [Some (NoFault, 7, ex_identity), Some (NoFault, 8, ex_identity), None] = (d', m, n)"
    by (metis prod_cases3)
  with single_owner [OF h this] show ?thesis by blast
qed

lemma held_lock_respected_witness:
  "prepare_state NoFault 8 (put_node LOCK (File (js ''7'')) ex_dir) ex_identity
     = (put_node LOCK (File (js ''7'')) ex_dir, Inl (sys_err ''EEXIST''))"
  by (rule held_lock_respected) (simp_all add: held_def ex_dir_def)

lemma session_bound_to_request_witness:
  "\<exists>d1. prepare_state NoFault 7 ex_dir ex_identity = (d1, Inr ())
    \<and> snd (prepare_state NoFault 8 (put_node MAIN_JOURNAL (File (js ''x'')) (fst (release d1))) Null) \<noteq> Inr ()"
proof -
  have s: "snd (prepare_state NoFault 7 ex_dir ex_identity) = Inr ()" by code_simp
  then obtain d1 where d1: "prepare_state NoFault 7 ex_dir ex_identity = (d1, Inr ())"
    by (metis prod.collapse)
  let ?d2 = "put_node MAIN_JOURNAL (File (js ''x'')) (fst (release d1))"
  have r: "fst (release d1) = del_node LOCK d1"
    using prepare_ok_lock [OF d1] by (simp add: release_def)
  have "snd (prepare_state NoFault 8 ?d2 Null) = Inr () \<longleftrightarrow> stringify Null = stringify ex_identity"
    by (rule session_bound_to_request [OF d1 ex_identity_ok, where t = "js ''x''"])
      (use prepare_ok_lock [OF d1] r in \<open>simp_all add: held_def\<close>)
  moreover have "stringify Null \<noteq> stringify ex_identity" by (simp add: ex_identity_def js_def)
  ultimately show ?thesis using d1 by blast
qed

definition ex_sha :: "jstr \<Rightarrow> jstr" where "ex_sha s = replicate 64 97"

definition ex_url :: "jstr \<Rightarrow> url_parts option" where
  "ex_url s = Some \<lparr>protocol = js ''https:'', username = [], password = [], search = [], hash = []\<rparr>"

definition ex_metadata :: jsval where
  "ex_metadata = Obj [(js ''id'', Str (js ''m'')), (js ''api'', Str (js ''openai-completions'')),
     (js ''contextWindow'', int_val 8000), (js ''maxTokens'', int_val 1000),
     (js ''input'', Arr [Str (js ''text'')])]"

definition ex_request :: jsval where
  "ex_request = Obj [(js ''contract_version'', Str CONTRACT), (js ''run_id'', Str (js ''r1'')),
     (js ''prompt'', Str (js ''do it'')), (js ''fingerprint'', Str (ex_sha [])),
     (js ''runner_sha256'', Str (ex_sha [])), (js ''runtime_sha256'', Str (ex_sha [])),
     (js ''request_id'', Str (ex_sha [])), (js ''repository_dir'', Str (js ''/work/repo'')),
     (js ''state_dir'', Str (js ''/work/.factory/pi/'' @ ex_sha [])), (js ''timeout_ms'', int_val 60000),
     (js ''max_process_restarts'', int_val 1), (js ''api'', Str (js ''openai-completions'')),
     (js ''base_url'', Str (js ''https://model'')), (js ''model'', Str (js ''m'')),
     (js ''thinking_level'', Str (js ''off'')), (js ''metadata'', ex_metadata)]"

lemma ex_request_valid: "validate_request ex_sha ex_url ex_request = Inr ex_request"
  by code_simp

lemma accepted_request_witness:
  "\<exists>repo. opt_get ex_request ''repository_dir'' = Str repo \<and> path_normalize repo = repo"
  using accepted_request [OF ex_request_valid] by blast

lemma state_dir_no_traversal_witness:
  "\<exists>segs. (\<forall>s. s \<in> set segs \<longrightarrow> plain_seg s) \<and> opt_get ex_request ''state_dir'' =
     Str (47 # join_with [47] (segs @ [js ''.factory'', js ''pi'', ex_sha (js ''r1'')]))"
proof -
  have "opt_get ex_request ''run_id'' = Str (js ''r1'')" by (simp add: ex_request_def)
  from state_dir_no_traversal [OF ex_request_valid this]
  show ?thesis by (auto simp: ex_sha_def hex_char_def)
qed

lemma stat_fields_robust_witness:
  "stat_fields (js ''42'' @ js '' ('' @ js ''evil) R 1 1'' @ js '') '' @ join_with [32] [js ''S'', js ''7''] @ [10])
     = [js ''S'', js ''7'']"
  by (rule stat_fields_robust) (auto simp: word_field_def js_def is_space_def)

lemma extra_processes_complete_witness:
  "extra_processes [(1, js ''5''), (2, js ''9'')] [(1, js ''5'')] = []"
  by (subst extra_processes_complete) simp

definition ex_ledger :: jsval where
  "ex_ledger = Obj [(js ''models'', Obj [(js ''m'', Obj [(js ''input'', int_val 10),
     (js ''output'', int_val 4), (js ''cacheRead'', int_val 1), (js ''cacheWrite'', int_val 2),
     (js ''totalTokens'', int_val 17)])])]"

lemma complete_usage_exact_witness:
  "\<exists>s. summarize_usage ex_request ex_ledger False = Inr s \<and> us_tokens_in s = Some (num_int 13)"
proof -
  have "(case summarize_usage ex_request ex_ledger False of Inr s \<Rightarrow> us_complete s | Inl e \<Rightarrow> False)"
    by code_simp
  then obtain s where s: "summarize_usage ex_request ex_ledger False = Inr s" "us_complete s"
    by (auto split: sum.splits)
  moreover have "exact_in (model_values ex_ledger) = 13" by code_simp
  ultimately show ?thesis using complete_usage_exact [OF s] by auto
qed

lemma uncertain_usage_reports_floor_witness:
  "\<exists>s. summarize_usage ex_request ex_ledger True = Inr s \<and> us_tokens_in s = None \<and> us_recorded_in s \<noteq> None"
proof -
  have "(case summarize_usage ex_request ex_ledger True of Inr s \<Rightarrow> us_recorded_in s \<noteq> None | Inl e \<Rightarrow> False)"
    by code_simp
  then obtain s where s: "summarize_usage ex_request ex_ledger True = Inr s" "us_recorded_in s \<noteq> None"
    by (auto split: sum.splits)
  with uncertain_usage_reports_floor [OF s(1)] show ?thesis by auto
qed

end
