(* ===== verification/Utf8.thy ===== *)
theory Utf8 imports Pi_Protocol_Facts begin

text \<open>
  UTF-8 as \<open>Buffer\<close> and the console's percent encoding use it: the bytes of a text (a lone
  surrogate becomes the three bytes of U+FFFD), and the text of bytes (each maximal ill-formed
  part becomes U+FFFD). A text without lone surrogates reads back; JSON text has none.
\<close>

section \<open>Encoding\<close>

definition repl_bytes :: "nat list" where "repl_bytes = [239, 191, 189]"

definition pair_code :: "nat \<Rightarrow> nat \<Rightarrow> nat" where
  "pair_code c d = 65536 + (c - 55296) * 1024 + (d - 56320)"

definition enc3 :: "nat \<Rightarrow> nat list" where
  "enc3 c = [224 + c div 4096, 128 + c div 64 mod 64, 128 + c mod 64]"

definition enc4 :: "nat \<Rightarrow> nat list" where
  "enc4 p = [240 + p div 262144, 128 + p div 4096 mod 64, 128 + p div 64 mod 64, 128 + p mod 64]"

fun utf8_encode :: "jstr \<Rightarrow> nat list" where
  "utf8_encode [] = []"
| "utf8_encode (c # s) =
     (if c < 128 then c # utf8_encode s
      else if c < 2048 then (192 + c div 64) # (128 + c mod 64) # utf8_encode s
      else if is_high c then
        (case s of d # r \<Rightarrow> if is_low d then enc4 (pair_code c d) @ utf8_encode r
             else repl_bytes @ utf8_encode s
         | [] \<Rightarrow> repl_bytes)
      else if is_low c then repl_bytes @ utf8_encode s
      else enc3 c @ utf8_encode s)"

lemma length_utf8_encode: "length (utf8_encode s) = utf8_len s"
proof (induction s rule: utf8_encode.induct)
  case (2 c s)
  show ?case
  proof (cases "\<not> c < 128 \<and> \<not> c < 2048 \<and> is_high c")
    case False
    with 2 show ?thesis by (auto simp: enc3_def repl_bytes_def)
  next
    case True
    with 2(3,4) show ?thesis by (cases s) (simp_all add: enc4_def repl_bytes_def del: utf8_encode.simps(2) utf8_len.simps(2)
        add: utf8_encode.simps(2) [of c] utf8_len.simps(2) [of c])
  qed
qed simp

section \<open>Decoding\<close>

definition is_cont :: "nat \<Rightarrow> bool" where "is_cont b \<longleftrightarrow> 128 \<le> b \<and> b < 192"

text \<open>Whether a second byte may follow a lead byte: no overlong forms, no surrogates, nothing
  beyond U+10FFFF.\<close>

definition second_ok :: "nat \<Rightarrow> nat \<Rightarrow> bool" where
  "second_ok a b \<longleftrightarrow> is_cont b \<and> (a = 224 \<longrightarrow> 160 \<le> b) \<and> (a = 237 \<longrightarrow> b < 160)
     \<and> (a = 240 \<longrightarrow> 144 \<le> b) \<and> (a = 244 \<longrightarrow> b < 144)"

text \<open>The units of a code point.\<close>

definition code_units :: "nat \<Rightarrow> jstr" where
  "code_units p = (if p < 65536 then [p] else [55296 + (p - 65536) div 1024, 56320 + (p - 65536) mod 1024])"

fun utf8_decode :: "nat list \<Rightarrow> jstr" where
  "utf8_decode [] = []"
| "utf8_decode (a # bs) =
     (if a < 128 then a # utf8_decode bs
      else if 194 \<le> a \<and> a < 224 then
        (case bs of b # cs \<Rightarrow> if is_cont b then ((a - 192) * 64 + (b - 128)) # utf8_decode cs
             else 65533 # utf8_decode bs
         | [] \<Rightarrow> [65533])
      else if 224 \<le> a \<and> a < 240 then
        (case bs of b # cs \<Rightarrow> if second_ok a b then
             (case cs of c # ds \<Rightarrow> if is_cont c
                 then ((a - 224) * 4096 + (b - 128) * 64 + (c - 128)) # utf8_decode ds
                 else 65533 # utf8_decode cs
              | [] \<Rightarrow> [65533])
             else 65533 # utf8_decode bs
         | [] \<Rightarrow> [65533])
      else if 240 \<le> a \<and> a < 245 then
        (case bs of b # cs \<Rightarrow> if second_ok a b then
             (case cs of c # ds \<Rightarrow> if is_cont c then
                 (case ds of d # es \<Rightarrow> if is_cont d
                     then code_units ((a - 240) * 262144 + (b - 128) * 4096 + (c - 128) * 64 + (d - 128)) @ utf8_decode es
                     else 65533 # utf8_decode ds
                  | [] \<Rightarrow> [65533])
                 else 65533 # utf8_decode cs
              | [] \<Rightarrow> [65533])
             else 65533 # utf8_decode bs
         | [] \<Rightarrow> [65533])
      else 65533 # utf8_decode bs)"

section \<open>Texts without lone surrogates\<close>

fun wf16 :: "jstr \<Rightarrow> bool" where
  "wf16 [] = True"
| "wf16 (c # s) = (if is_high c then (case s of d # r \<Rightarrow> is_low d \<and> wf16 r | [] \<Rightarrow> False)
     else \<not> is_low c \<and> c < 65536 \<and> wf16 s)"

lemma decode_two: "128 \<le> c \<Longrightarrow> c < 2048 \<Longrightarrow>
   utf8_decode ((192 + c div 64) # (128 + c mod 64) # bs) = c # utf8_decode bs"
proof -
  assume c: "128 \<le> c" "c < 2048"
  then have "2 \<le> c div 64" "c div 64 < 32" "c mod 64 < 64" by auto
  then show ?thesis by (simp add: is_cont_def)
qed

lemma base64_step: "(n::nat) div m = n div (m * 64) * 64 + n div m mod 64"
  by (simp add: div_mult2_eq)

lemma base64_3: "(n::nat) = n div 4096 * 4096 + n div 64 mod 64 * 64 + n mod 64"
proof -
  define q where "q = n div 64"
  have "q = n div 4096 * 64 + q mod 64" using base64_step [of n 64] by (simp add: q_def)
  moreover have "n = q * 64 + n mod 64" by (simp add: q_def)
  ultimately have "n = (n div 4096 * 64 + q mod 64) * 64 + n mod 64" by metis
  then show ?thesis by (simp add: q_def algebra_simps)
qed

lemma base64_4: "(n::nat) = n div 262144 * 262144 + n div 4096 mod 64 * 4096 + n div 64 mod 64 * 64 + n mod 64"
proof -
  define q where "q = n div 4096"
  have "q = n div 262144 * 64 + q mod 64" using base64_step [of n 4096] by (simp add: q_def)
  moreover have "n = q * 4096 + n div 64 mod 64 * 64 + n mod 64" using base64_3 [of n] by (simp add: q_def)
  ultimately have "n = (n div 262144 * 64 + q mod 64) * 4096 + n div 64 mod 64 * 64 + n mod 64" by metis
  then show ?thesis by (simp add: q_def algebra_simps)
qed

lemma decode_three:
  assumes "2048 \<le> c" "c < 65536" "\<not> is_high c" "\<not> is_low c"
  shows "utf8_decode (enc3 c @ bs) = c # utf8_decode bs"
proof -
  define x y z where "x = c div 4096" and "y = c div 64 mod 64" and "z = c mod 64"
  have b: "x < 16" "y < 64" "z < 64" using assms(2) by (auto simp: x_def y_def z_def)
  have c: "c = x * 4096 + y * 64 + z" unfolding x_def y_def z_def by (rule base64_3)
  have "x = 0 \<longrightarrow> 32 \<le> y" using assms(1) b c by auto
  moreover have "x = 13 \<longrightarrow> y < 32" using assms(3,4) b c by (auto simp: is_high_def is_low_def)
  ultimately have "second_ok (224 + x) (128 + y)" using b by (auto simp: second_ok_def is_cont_def)
  then show ?thesis using b unfolding enc3_def x_def [symmetric] y_def [symmetric] z_def [symmetric]
    by (simp add: is_cont_def c)
qed

lemma decode_four:
  assumes "65536 \<le> p" "p < 1114112"
  shows "utf8_decode (enc4 p @ bs) = code_units p @ utf8_decode bs"
proof -
  define w x y z where "w = p div 262144" and "x = p div 4096 mod 64" and "y = p div 64 mod 64" and "z = p mod 64"
  have b: "w < 5" "x < 64" "y < 64" "z < 64" using assms(2) by (auto simp: w_def x_def y_def z_def)
  have p: "p = w * 262144 + x * 4096 + y * 64 + z" unfolding w_def x_def y_def z_def by (rule base64_4)
  have "w = 0 \<longrightarrow> 16 \<le> x" "w = 4 \<longrightarrow> x < 16" using assms b p by auto
  then have "second_ok (240 + w) (128 + x)" using b by (auto simp: second_ok_def is_cont_def)
  then show ?thesis using b unfolding enc4_def w_def [symmetric] x_def [symmetric] y_def [symmetric] z_def [symmetric]
    by (simp add: is_cont_def p)
qed

lemma pair_code_units:
  assumes "is_high c" "is_low d"
  shows "code_units (pair_code c d) = [c, d]" "65536 \<le> pair_code c d" "pair_code c d < 1114112"
proof -
  define a b where "a = c - 55296" and "b = d - 56320"
  have "c = 55296 + a" "d = 56320 + b" "a < 1024" "b < 1024"
    using assms by (auto simp: is_high_def is_low_def a_def b_def)
  then show "code_units (pair_code c d) = [c, d]" "65536 \<le> pair_code c d" "pair_code c d < 1114112"
    by (auto simp: pair_code_def code_units_def)
qed

lemma utf8_decode_encode: "wf16 s \<Longrightarrow> utf8_decode (utf8_encode s) = s"
proof (induction s rule: wf16.induct)
  case (2 c s)
  show ?case
  proof (cases "is_high c")
    case True
    with "2.prems" obtain d r where s: "s = d # r" "is_low d" "wf16 r" by (auto split: list.splits)
    have "\<not> c < 2048" using True by (simp add: is_high_def)
    have "utf8_encode (c # s) = enc4 (pair_code c d) @ utf8_encode r"
      using \<open>\<not> c < 2048\<close> True s by simp
    moreover have "utf8_decode (utf8_encode r) = r" using 2(1) [OF True s(1) s(3)] .
    ultimately show ?thesis
      using decode_four [OF pair_code_units(2,3) [OF True s(2)], of "utf8_encode r"] pair_code_units(1) [OF True s(2)] s
      by simp
  next
    case False
    with "2.prems" have c: "\<not> is_low c" "c < 65536" "wf16 s" by auto
    note IH = 2(2) [OF False c(3)]
    consider "c < 128" | "128 \<le> c" "c < 2048" | "2048 \<le> c" by linarith
    then show ?thesis
    proof cases
      case 1
      with IH show ?thesis by simp
    next
      case 2
      with IH decode_two [OF 2, of "utf8_encode s"] show ?thesis by simp
    next
      case 3
      with IH decode_three [OF 3 c(2) False c(1), of "utf8_encode s"] False c show ?thesis by simp
    qed
  qed
qed simp

lemma wf16_append: "wf16 a \<Longrightarrow> wf16 b \<Longrightarrow> wf16 (a @ b)"
proof (induction a rule: wf16.induct)
  case (2 c s)
  then show ?case by (cases "is_high c") (auto split: list.splits)
qed simp

lemma wf16_small: "\<forall>c \<in> set s. c < 55296 \<Longrightarrow> wf16 s"
  by (induction s) (auto simp: is_high_def is_low_def)

section \<open>JSON text\<close>

lemma wf16_u_escape: "wf16 (u_escape c)"
proof -
  have "hex_digit (n mod 16) < 55296" for n
    using mod_less_divisor [of 16 n] unfolding hex_digit_def by (simp del: mod_less_divisor)
  then show ?thesis by (intro wf16_small) (auto simp: u_escape_def)
qed

lemma wf16_quote1: "\<not> is_high c \<Longrightarrow> \<not> is_low c \<Longrightarrow> c < 65536 \<Longrightarrow> wf16 (quote1 c)"
  by (simp add: quote1_def wf16_u_escape) (auto simp: is_high_def is_low_def)

lemma wf16_quote_units: "\<forall>c \<in> set s. c < 65536 \<Longrightarrow> wf16 (quote_units s)"
proof (induction s rule: quote_units.induct)
  case (2 c s)
  show ?case
  proof (cases "is_high c")
    case False
    have "wf16 (quote_units s)" using 2(3,4) False "2.prems" by auto
    then show ?thesis using False "2.prems" by (auto intro!: wf16_append simp: wf16_u_escape wf16_quote1)
  next
    case True
    show ?thesis
    proof (cases s)
      case Nil
      with True show ?thesis by (simp add: wf16_u_escape)
    next
      case (Cons d r)
      show ?thesis
      proof (cases "is_low d")
        case True
        then show ?thesis using 2(1) [OF \<open>is_high c\<close> Cons True] "2.prems" Cons \<open>is_high c\<close> by simp
      next
        case False
        have "wf16 (quote_units s)" using 2(2) [OF \<open>is_high c\<close> Cons False] "2.prems" by simp
        moreover have "quote_units (c # s) = u_escape c @ quote_units s" using Cons False \<open>is_high c\<close> by simp
        ultimately show ?thesis by (simp add: wf16_append wf16_u_escape del: quote_units.simps)
      qed
    qed
  qed
qed simp

lemma wf16_quote: "\<forall>c \<in> set s. c < 65536 \<Longrightarrow> wf16 (quote s)"
  using wf16_append [OF wf16_quote_units [of s], of "[34]"] by (simp add: quote_def is_high_def is_low_def)

lemma wf16_join: "\<forall>w \<in> set ws. wf16 w \<Longrightarrow> wf16 (join_with [44] ws)"
proof (induction ws)
  case (Cons w ws)
  then show ?case
    by (cases "ws = []") (auto simp: join_with_Cons is_high_def is_low_def intro!: wf16_append)
qed simp

lemma json_text_wf16: "json_ok v \<Longrightarrow> stringify v = Some t \<Longrightarrow> wf16 t"
proof (induction v arbitrary: t)
  case Null
  then show ?case by (auto intro!: wf16_small simp: js_def)
next
  case (JBool b)
  then show ?case by (auto intro!: wf16_small simp: js_def split: if_splits)
next
  case (Num n)
  have "c < 55296" if "num_char c" for c using that by (auto simp: num_char_def is_digit_def)
  with Num show ?case by (auto intro!: wf16_small simp: num_ok_def)
next
  case (Str s)
  then show ?case by (auto intro: wf16_quote)
next
  case (Arr xs)
  have "wf16 (case stringify x of None \<Rightarrow> js ''null'' | Some t \<Rightarrow> t)" if "x \<in> set xs" for x
    using Arr.IH [OF that] Arr.prems(1) that json_ok_stringify [of x] by simp
  then have "wf16 (join_with [44] (map (\<lambda>x. case stringify x of None \<Rightarrow> js ''null'' | Some t \<Rightarrow> t) xs))"
    by (intro wf16_join) auto
  then show ?case using Arr.prems(2) by (auto simp: is_high_def is_low_def intro!: wf16_append)
next
  case (Obj ps)
  have "wf16 w" if "w \<in> set (somes (map (\<lambda>p. map_option (\<lambda>t. quote (fst p) @ 58 # t) (stringify (snd p))) ps))" for w
  proof -
    from that obtain p u where p: "p \<in> set ps" "stringify (snd p) = Some u" "w = quote (fst p) @ 58 # u"
      by (auto simp: eq_commute [of "Some w"])
    have "wf16 u" using Obj.IH [of p "snd p" u] Obj.prems(1) p by (auto intro: snds.intros)
    moreover have "wf16 (quote (fst p))" using Obj.prems(1) p by (intro wf16_quote) auto
    ultimately show ?thesis unfolding p(3) by (intro wf16_append) (auto simp: is_high_def is_low_def)
  qed
  then have "wf16 (join_with [44] (somes (map (\<lambda>p. map_option (\<lambda>t. quote (fst p) @ 58 # t) (stringify (snd p))) ps)))"
    by (intro wf16_join) auto
  then show ?case using Obj.prems(2) by (auto simp: is_high_def is_low_def intro!: wf16_append)
qed simp

end
