(* ===== verification/Pi_Supervisor.thy ===== *)
theory Pi_Supervisor imports Pi_Protocol_Facts begin

text \<open>
  \<^verbatim>\<open>agents/pi/src/supervisor.mjs\<close>: one supervisor owns the state directory, launches the engine
  process, relays its messages, decides about recovery after a crash, and writes the three
  receipts.

  What the environment decides at each await is an argument: the stop notifications that
  arrive meanwhile, the clock, the file digests, the messages and the exit of the child, the
  process inventories. A message is the value the engine sent; it is handled before the exit
  of its sender is.
\<close>

section \<open>State\<close>

text \<open>What the supervisor sends out, in order.\<close>

datatype out =
    Started nat \<comment> \<open>\<open>engine_started\<close>, with the attempt\<close>
  | GuardActive jsval | GuardReleased jsval \<comment> \<open>\<open>shell_guard\<close>\<close>
  | AgentEvent nat jsval \<comment> \<open>\<open>agent_event\<close>\<close>
  | Recovery nat \<comment> \<open>\<open>process_recovery\<close>\<close>
  | TerminalLog jstr nat \<comment> \<open>\<open>terminal\<close>\<close>
  | Ack jsval \<comment> \<open>acknowledgement to the child\<close>
  | SendStop \<comment> \<open>\<open>stop\<close> message to the child\<close>
  | Kill \<comment> \<open>\<open>SIGKILL\<close> after a protocol violation\<close>

record attempt =
  at_number :: nat
  at_code :: jsval
  at_signal :: jsval
  at_active_shell :: bool

text \<open>Who asks for a stop: a signal (\<open>cancel\<close>) or the timer.\<close>

datatype stop_reason = Cancelled | Timeout

definition reason_text :: "stop_reason \<Rightarrow> jstr" where
  "reason_text x = (case x of Cancelled \<Rightarrow> js ''cancelled'' | Timeout \<Rightarrow> js ''timeout'')"

record sup =
  ledger :: jsval
  uncertain :: bool
  restarts :: nat
  stopped :: "stop_reason option"
  attempts :: "attempt list"
  outs :: "out list"

record child =
  terminal :: "jsval option"
  fatal :: "jstr option"
  protocol_error :: "jstr option"
  active_shell :: "jsval list"

record run_result =
  status :: jstr
  error :: jsval

definition emit :: "out list \<Rightarrow> sup \<Rightarrow> sup" where
  "emit os s = s\<lparr>outs := outs s @ os\<rparr>"

lemma emit_simps [simp]:
  "ledger (emit os s) = ledger s" "uncertain (emit os s) = uncertain s" "restarts (emit os s) = restarts s"
  "stopped (emit os s) = stopped s" "attempts (emit os s) = attempts s" "outs (emit os s) = outs s @ os"
  by (simp_all add: emit_def)

text \<open>\<open>stop(reason)\<close>: the first reason is kept; a live child is told, and killed a second later.\<close>

definition stop :: "bool \<Rightarrow> stop_reason \<Rightarrow> sup \<Rightarrow> sup" where
  "stop live reason s = emit (if live then [SendStop] else [])
     (s\<lparr>stopped := (case stopped s of None \<Rightarrow> Some reason | Some x \<Rightarrow> Some x)\<rparr>)"

definition stops :: "stop_reason list \<Rightarrow> sup \<Rightarrow> sup" where
  "stops rs s = fold (stop False) rs s"

section \<open>Messages of the child\<close>

definition new_child :: child where
  "new_child = \<lparr>terminal = None, fatal = None, protocol_error = None, active_shell = []\<rparr>"

text \<open>\<open>Set.prototype.has\<close> and \<open>delete\<close> compare with \<open>SameValueZero\<close>.\<close>

definition shell_has :: "jsval list \<Rightarrow> jsval \<Rightarrow> bool" where
  "shell_has xs v \<longleftrightarrow> (\<exists>x \<in> set xs. same_zero x v)"

definition shell_remove :: "jsval list \<Rightarrow> jsval \<Rightarrow> jsval list" where
  "shell_remove xs v = filter (\<lambda>x. \<not> same_zero x v) xs"

text \<open>The body of the message handler inside its \<open>try\<close>: the new states, or the error thrown.\<close>

definition handle_message :: "jsval \<Rightarrow> sup \<times> child \<Rightarrow> (sup \<times> child) result" where
  "handle_message m sc = (case sc of (s, c) \<Rightarrow>
    let ty = opt_get m ''type''; cid = opt_get m ''call_id'' in
    if \<not> truthy m \<or> \<not> is_object m then Inl (err ''invalid engine message'')
    else if ty = Str (js ''shell-start'') then
      (if \<not> truthy cid \<or> shell_has (active_shell c) cid then Inl (err ''invalid shell ownership'')
       else Inr (emit [GuardActive cid] s, c\<lparr>active_shell := active_shell c @ [cid]\<rparr>))
    else if ty = Str (js ''shell-end'') then
      (if \<not> shell_has (active_shell c) cid then Inl (err ''unknown shell ownership'')
       else Inr (emit [GuardReleased cid] s, c\<lparr>active_shell := shell_remove (active_shell c) cid\<rparr>))
    else if ty = Str (js ''usage-incomplete'') then Inr (s\<lparr>uncertain := True\<rparr>, c)
    else if ty = Str (js ''usage'') then Inr (s\<lparr>ledger := opt_get m ''ledger''\<rparr>, c)
    else if ty = Str (js ''audit'') then
      Inr (emit [AgentEvent (restarts s + 1) (opt_get m ''event'')] s, c)
    else if ty = Str (js ''terminal'') then
      (if terminal c \<noteq> None
          \<or> opt_get (opt_get m ''result'') ''status'' \<notin> {Str (js ''completed''), Str (js ''failed'')}
       then Inl (err ''invalid terminal result'')
       else Inr (s\<lparr>ledger := opt_get (opt_get m ''result'') ''ledger''\<rparr>,
                 c\<lparr>terminal := Some (opt_get m ''result'')\<rparr>))
    else if ty = Str (js ''fatal'') then
      Inr (s, c\<lparr>fatal := Some (to_str (coalesce (opt_get m ''error'') (Str (js ''Pi engine failed''))))\<rparr>)
    else Inl (err ''unknown engine message''))"

text \<open>The handler: an accepted message that carries an id is acknowledged; a rejected one is a
  protocol error and kills the child.\<close>

definition on_message :: "jsval \<Rightarrow> sup \<times> child \<Rightarrow> sup \<times> child" where
  "on_message m sc = (case handle_message m sc of
     Inr (s, c) \<Rightarrow> (if opt_get m ''id'' \<noteq> Undef then emit [Ack (opt_get m ''id'')] s else s, c)
   | Inl e \<Rightarrow> (case sc of (s, c) \<Rightarrow> (emit [Kill] s, c\<lparr>protocol_error := Some (message e)\<rparr>)))"

text \<open>What reaches the supervisor while a child runs.\<close>

datatype child_event = Msg jsval | Stop stop_reason

fun on_event :: "child_event \<Rightarrow> sup \<times> child \<Rightarrow> sup \<times> child" where
  "on_event (Msg m) sc = on_message m sc"
| "on_event (Stop reason) (s, c) = (stop True reason s, c)"

definition on_events :: "child_event list \<Rightarrow> sup \<times> child \<Rightarrow> sup \<times> child" where
  "on_events es sc = fold on_event es sc"

section \<open>One attempt\<close>

record attempt_env =
  elapsed1 :: rat \<comment> \<open>milliseconds since the start, at the head of the loop\<close>
  stops1 :: "stop_reason list" \<comment> \<open>stop notifications while the files are checked\<close>
  journal_stat :: "node result"
  runtime_digest :: "jstr result"
  runner_digest :: "jstr result"
  elapsed2 :: rat
  events :: "child_event list"
  exit_event :: "(jsval \<times> jsval) result" \<comment> \<open>code and signal, or the spawn error\<close>
  stops2 :: "stop_reason list" \<comment> \<open>stop notifications during the second inventory\<close>
  inventory :: "(nat \<times> jstr) list result"

definition timeout_of :: "jsval \<Rightarrow> rat" where
  "timeout_of r = (case opt_get r ''timeout_ms'' of Num (Fin x) \<Rightarrow> x | _ \<Rightarrow> 0)"

definition restart_limit :: "jsval \<Rightarrow> nat" where
  "restart_limit r = (case opt_get r ''max_process_restarts'' of Num (Fin x) \<Rightarrow> nat \<lceil>x\<rceil> | _ \<Rightarrow> 0)"

definition failed :: "string \<Rightarrow> run_result" where
  "failed m = \<lparr>status = js ''failed'', error = Str (js m)\<rparr>"

text \<open>\<open>stopped ??= 'timeout'; result = \<lbrace> status: stopped, error: stopped \<rbrace>\<close>.\<close>

definition stop_result :: "sup \<Rightarrow> sup \<times> run_result" where
  "stop_result s = (let why = (case stopped s of None \<Rightarrow> Timeout | Some x \<Rightarrow> x) in
     (s\<lparr>stopped := Some why\<rparr>, \<lparr>status = reason_text why, error = Str (reason_text why)\<rparr>))"

text \<open>The outer \<open>catch\<close>.\<close>

definition catch :: "sup \<Rightarrow> js_error \<Rightarrow> sup \<times> run_result" where
  "catch s e = (s\<lparr>uncertain := True\<rparr>,
     \<lparr>status = (case stopped s of None \<Rightarrow> js ''failed'' | Some x \<Rightarrow> reason_text x), error = Str (message e)\<rparr>)"

text \<open>The checks before a launch: a recovery needs its journal, every launch the pinned digests.\<close>

definition check_files :: "jsval \<Rightarrow> attempt_env \<Rightarrow> nat \<Rightarrow> unit result" where
  "check_files r env n =
    bind_r (if n = 0 then Inr () else bind_r (journal_stat env) (\<lambda>st.
        check (journal_bad st) ''cannot recover missing Pi journal'')) (\<lambda>_.
    bind_r (runtime_digest env) (\<lambda>h.
    bind_r (check (Str h \<noteq> opt_get r ''runtime_sha256'') ''Pi execution-chain digest mismatch'') (\<lambda>_.
    bind_r (runner_digest env) (\<lambda>h.
    check (Str h \<noteq> opt_get r ''runner_sha256'') ''Pi execution-chain digest mismatch''))))"

text \<open>What happens after the child exited: \<open>None\<close> is another turn of the loop.\<close>

definition after_exit ::
    "jsval \<Rightarrow> (nat \<times> jstr) list \<Rightarrow> attempt_env \<Rightarrow> sup \<times> child \<Rightarrow> sup \<times> run_result option" where
  "after_exit r baseline env sc = (case sc of (s, c) \<Rightarrow>
    if stopped s \<noteq> None then
      (s\<lparr>uncertain := True\<rparr>, Some \<lparr>status = reason_text (the (stopped s)), error = Str (reason_text (the (stopped s)))\<rparr>)
    else if protocol_error c \<noteq> None \<or> (fatal c \<noteq> None \<and> fatal c \<noteq> Some []) then
      (s\<lparr>uncertain := True\<rparr>, Some \<lparr>status = js ''failed'',
         error = Str (case protocol_error c of Some e \<Rightarrow> e | None \<Rightarrow> the (fatal c))\<rparr>)
    else (case terminal c of
      Some t \<Rightarrow>
        (s\<lparr>uncertain := (uncertain s \<or> opt_get t ''status'' \<noteq> Str (js ''completed''))\<rparr>,
         Some \<lparr>status = to_str (opt_get t ''status''), error = opt_get t ''error''\<rparr>)
    | None \<Rightarrow>
       (let s1 = s\<lparr>uncertain := True\<rparr> in
        if active_shell c \<noteq> [] then
          (s1, Some (failed ''engine crashed during shell execution; recovery refused''))
        else (let s2 = stops (stops2 env) s1 in
          case inventory env of
            Inl e \<Rightarrow> (case catch s2 e of (s3, res) \<Rightarrow> (s3, Some res))
          | Inr current \<Rightarrow>
             if extra_processes baseline current \<noteq> [] then
               (s2, Some (failed ''live additional processes remain; recovery refused''))
             else if restart_limit r \<le> restarts s then
               (s2, Some (failed ''Pi process restart allowance exhausted''))
             else (emit [Recovery (restarts s + 1)] (s2\<lparr>restarts := restarts s + 1\<rparr>), None)))))"

definition run_attempt ::
    "jsval \<Rightarrow> (nat \<times> jstr) list \<Rightarrow> attempt_env \<Rightarrow> sup \<Rightarrow> sup \<times> run_result option" where
  "run_attempt r baseline env s =
    (if stopped s \<noteq> None \<or> timeout_of r - elapsed1 env \<le> 0 then
       (case stop_result s of (s', res) \<Rightarrow> (s', Some res))
     else (let s1 = stops (stops1 env) s in
       case check_files r env (restarts s) of
         Inl e \<Rightarrow> (case catch s1 e of (s', res) \<Rightarrow> (s', Some res))
       | Inr _ \<Rightarrow>
          if stopped s1 \<noteq> None \<or> timeout_of r \<le> elapsed2 env then
            (case stop_result s1 of (s', res) \<Rightarrow> (s', Some res))
          else (case on_events (events env) (emit [Started (restarts s + 1)] s1, new_child) of
            (s2, c) \<Rightarrow>
             (case exit_event env of
                Inl e \<Rightarrow> (case catch s2 e of (s', res) \<Rightarrow> (s', Some res))
              | Inr (ec, sig) \<Rightarrow>
                  after_exit r baseline env
                    (s2\<lparr>attempts := attempts s2 @ [\<lparr>at_number = restarts s + 1, at_code = ec,
                        at_signal = sig, at_active_shell = (active_shell c \<noteq> [])\<rparr>]\<rparr>, c)))))"

text \<open>The loop. \<open>env n\<close> is what the environment does in the attempt after \<open>n\<close> restarts.\<close>

lemma run_attempt_again:
  assumes "run_attempt r b e s = (s', None)"
  shows "restarts s < restart_limit r" "restarts s' = Suc (restarts s)"
proof -
  have st: "restarts (stops rs s) = restarts s" for rs s
    unfolding stops_def by (induction rs arbitrary: s) (auto simp: stop_def)
  have hm: "restarts (fst (on_message m sc)) = restarts (fst sc)" for m sc
    by (cases sc) (auto simp: on_message_def handle_message_def Let_def split: sum.splits if_splits)
  have ev: "restarts (fst (on_event e sc)) = restarts (fst sc)" for e sc
    by (cases sc; cases e) (auto simp: hm stop_def)
  have evs: "restarts (fst (on_events es sc)) = restarts (fst sc)" for es sc
    unfolding on_events_def by (induction es arbitrary: sc) (auto simp: ev)
  have ae: "restarts (fst sc) < restart_limit r \<and> restarts s' = Suc (restarts (fst sc))"
    if "after_exit r b e sc = (s', None)" for sc
    using that
    by (cases sc) (auto simp: after_exit_def Let_def st split: option.splits if_splits sum.splits prod.splits)
  obtain s2 c where sc: "on_events (events e) (emit [Started (restarts s + 1)] (stops (stops1 e) s), new_child) = (s2, c)"
    by fastforce
  have r2: "restarts s2 = restarts s"
    using evs [of "events e" "(emit [Started (restarts s + 1)] (stops (stops1 e) s), new_child)"] sc by (simp add: st)
  show "restarts s < restart_limit r" "restarts s' = Suc (restarts s)"
    using assms sc r2
    by (auto simp: run_attempt_def Let_def split: if_splits sum.splits prod.splits dest!: ae)
qed

function sup_loop ::
    "jsval \<Rightarrow> (nat \<times> jstr) list \<Rightarrow> (nat \<Rightarrow> attempt_env) \<Rightarrow> sup \<Rightarrow> sup \<times> run_result" where
  "sup_loop r baseline env s = (case run_attempt r baseline (env (restarts s)) s of
     (s', Some res) \<Rightarrow> (s', res)
   | (s', None) \<Rightarrow> sup_loop r baseline env s')"
  by pat_completeness auto
termination
  by (relation "measure (\<lambda>(r, b, env, s). restart_limit r - restarts s)")
    (auto dest!: sym [where t = "run_attempt _ _ _ _"]
      dest: run_attempt_again(2) intro!: diff_less_mono2 simp: run_attempt_again)

declare sup_loop.simps [simp del]

section \<open>The whole run\<close>

text \<open>\<open>READ_LIMIT\<close> and \<open>WRITE_LIMIT\<close> are the default size limits of \<open>readJSON\<close> and \<open>writeJSON\<close>.\<close>

definition READ_LIMIT :: nat where "READ_LIMIT = SUMMARY_LIMIT"
definition WRITE_LIMIT :: nat where "WRITE_LIMIT = SUMMARY_LIMIT"

definition init_sup :: sup where
  "init_sup = \<lparr>ledger = Obj [(js ''models'', Obj []), (js ''tools'', Obj [])], uncertain = False,
     restarts = 0, stopped = None, attempts = [], outs = []\<rparr>"

text \<open>Whether earlier attempts of the session may have unmetered usage.\<close>

definition initial_uncertain :: "sdir \<Rightarrow> jsval \<Rightarrow> bool result" where
  "initial_uncertain d r = (case read_json d USAGE READ_LIMIT of
     Inl e \<Rightarrow> if code e \<noteq> Some (js ''ENOENT'') then Inl e else Inr (ents d JOURNAL \<noteq> None)
   | Inr previous \<Rightarrow>
      if nullish previous then Inl (err ''Cannot read properties of null'')
      else if opt_get previous ''contract_version'' \<noteq> Str CONTRACT
        \<or> \<not> strict_eq (opt_get previous ''run_id'') (opt_get r ''run_id'')
        \<or> \<not> strict_eq (opt_get previous ''fingerprint'') (opt_get r ''fingerprint'')
      then Inl (err ''Pi usage identity mismatch'')
      else Inr (opt_get previous ''complete'' \<noteq> JBool True))"

record sup_env =
  own_pid :: nat
  prep_fault :: fault
  stops0 :: "stop_reason list" \<comment> \<open>stop notifications before the loop\<close>
  baseline_inventory :: "(nat \<times> jstr) list result"
  attempt_at :: "nat \<Rightarrow> attempt_env"
  run_effect :: "sdir \<Rightarrow> sdir" \<comment> \<open>what the engine and its tools do to the directory\<close>
  usage_fault :: fault
  recovery_fault :: fault
  terminal_fault :: fault

text \<open>The outer \<open>try\<close>.\<close>

definition sup_body :: "jsval \<Rightarrow> sup_env \<Rightarrow> sdir \<Rightarrow> sup \<times> run_result" where
  "sup_body r env d = (let s = stops (stops0 env) init_sup in
     case initial_uncertain d r of
       Inl e \<Rightarrow> catch s e
     | Inr u \<Rightarrow> (let s = s\<lparr>uncertain := u\<rparr> in
         case baseline_inventory env of
           Inl e \<Rightarrow> catch s e
         | Inr b \<Rightarrow> sup_loop r b (attempt_at env) s))"

section \<open>Receipts\<close>

definition base :: "jsval \<Rightarrow> (jstr \<times> jsval) list" where
  "base r = (js ''contract_version'', Str CONTRACT) #
     map (\<lambda>k. (js k, opt_get r k)) [''run_id'', ''request_id'', ''fingerprint'', ''model'']"

definition attempt_json :: "attempt \<Rightarrow> jsval" where
  "attempt_json a = Obj [(js ''attempt'', int_val (int (at_number a))), (js ''code'', at_code a),
     (js ''signal'', at_signal a), (js ''active_shell'', JBool (at_active_shell a))]"

definition recovery_json :: "jsval \<Rightarrow> sup \<Rightarrow> run_result \<Rightarrow> jsval" where
  "recovery_json r s res = Obj (base r @ [(js ''restarts'', int_val (int (restarts s))),
     (js ''attempts'', Arr (map attempt_json (attempts s))), (js ''error'', error res)])"

definition terminal_json :: "jsval \<Rightarrow> sup \<Rightarrow> run_result \<Rightarrow> jsval" where
  "terminal_json r s res = Obj (base r @ [(js ''status'', Str (status res)), (js ''error'', error res),
     (js ''restarts'', int_val (int (restarts s)))])"

text \<open>The second \<open>try\<close> without its \<open>finally\<close>, then with it.\<close>

definition write_receipts :: "jsval \<Rightarrow> sup_env \<Rightarrow> sup \<Rightarrow> run_result \<Rightarrow> sdir \<Rightarrow> sdir \<times> sup \<times> nat result" where
  "write_receipts r env s res d =
    (case summarize_usage r (ledger s) (uncertain s) of Inl e \<Rightarrow> (d, s, Inl e) | Inr u \<Rightarrow>
     case write_json (usage_fault env) (own_pid env) d USAGE (usage_json u) WRITE_LIMIT of
       (d1, Inl e) \<Rightarrow> (d1, s, Inl e) | (d1, Inr _) \<Rightarrow>
     case write_json (recovery_fault env) (own_pid env) d1 RECOVERY (recovery_json r s res) WRITE_LIMIT of
       (d2, Inl e) \<Rightarrow> (d2, s, Inl e) | (d2, Inr _) \<Rightarrow>
     case write_json (terminal_fault env) (own_pid env) d2 TERMINAL (terminal_json r s res) WRITE_LIMIT of
       (d3, Inl e) \<Rightarrow> (d3, s, Inl e) | (d3, Inr _) \<Rightarrow>
     (d3, emit [TerminalLog (status res) (restarts s)] s,
      Inr (if status res = js ''completed'' then 0 else 1)))"

definition finish :: "jsval \<Rightarrow> sup_env \<Rightarrow> sup \<Rightarrow> run_result \<Rightarrow> sdir \<Rightarrow> sdir \<times> sup \<times> nat result" where
  "finish r env s res d = (case write_receipts r env s res d of (d1, s1, out) \<Rightarrow>
     (case release d1 of (d2, Inl e) \<Rightarrow> (d2, s1, Inl e) | (d2, Inr _) \<Rightarrow> (d2, s1, out)))"

definition supervise ::
    "(jstr \<Rightarrow> jstr) \<Rightarrow> (jstr \<Rightarrow> url_parts option) \<Rightarrow> sup_env \<Rightarrow> jsval \<Rightarrow> sdir \<Rightarrow> sdir \<times> sup \<times> nat result" where
  "supervise sha url env request d =
    (case validate_request sha url request of Inl e \<Rightarrow> (d, init_sup, Inl e) | Inr r \<Rightarrow>
     case prepare_state (prep_fault env) (own_pid env) d r of
       (d1, Inl e) \<Rightarrow> (d1, init_sup, Inl e)
     | (d1, Inr _) \<Rightarrow> (case sup_body r env d1 of (s, res) \<Rightarrow> finish r env s res (run_effect env d1)))"
end
