(* ===== verification/Pi_Engine.thy ===== *)
theory Pi_Engine imports Pi_Supervisor begin

text \<open>
  \<^verbatim>\<open>agents/pi/src/engine.mjs\<close>: the audit events derived from two successive views of the
  conversation, the metering of provider streams, the guarded shell tool, and the life cycle
  of one engine process.

  Views come from the library \<open>pi-durable\<close>. What the code compares by reference (a slot's
  output, a compaction failure, the usage document) has a type variable whose equality is the
  reference equality of JavaScript.
\<close>

section \<open>Views\<close>

record 'o slot =
  call_id :: jstr
  slot_name :: jstr
  slot_status :: jstr
  slot_output :: 'o
  slot_entry :: jsval

record entry =
  entry_id :: jstr
  entry_kind :: jstr
  entry_body :: jsval

record run_doc =
  run_task :: jstr
  run_turns :: jsval

record compaction =
  comp_task :: jstr
  comp_trigger :: jsval
  comp_attempt :: jsval

text \<open>The document \<open>pi.live\<close>; an absent field is empty or \<open>None\<close>.\<close>

record 'o live =
  tools :: "'o slot list"
  run :: "run_doc option"
  run_failure :: jsval
  compactions :: "compaction list"
  comp_failure :: "'o option"
  generation :: "nat option" \<comment> \<open>its attempt\<close>

record ('o, 'u) view =
  conversation :: jstr
  entries :: "entry list"
  before :: jsval
  live_doc :: "'o live option"
  usage_doc :: "'u option"

datatype 'o event =
    Snapshot jstr "entry list" jsval
  | Message_end entry | Entry_appended entry
  | Tool_start jstr jstr | Tool_update jstr jstr 'o | Tool_end jstr jstr jsval
  | Run_start jstr jsval | Run_end jstr jsval
  | Compaction_start jstr jsval jsval | Compaction_end jstr | Compaction_failure 'o
  | Message_start nat

definition no_live :: "'o live" where
  "no_live = \<lparr>tools = [], run = None, run_failure = Undef, compactions = [], comp_failure = None,
     generation = None\<rparr>"

definition live_state :: "('o, 'u) view \<Rightarrow> 'o live" where
  "live_state v = (case live_doc v of None \<Rightarrow> no_live | Some l \<Rightarrow> l)"

definition tool_slots :: "'o live \<Rightarrow> (jstr \<times> 'o slot) list" where
  "tool_slots l = foldl (\<lambda>m s. map_set m (call_id s) s) [] (tools l)"

definition view_event :: "('o, 'u) view \<Rightarrow> 'o event" where
  "view_event v = Snapshot (conversation v) (entries v) (before v)"

text \<open>The pieces of \<open>viewEvents\<close>, in the order it pushes them.\<close>

definition entry_event :: "entry \<Rightarrow> 'o event" where
  "entry_event e = (if entry_kind e = js ''pi.assistant'' then Message_end e else Entry_appended e)"

definition entry_events :: "entry list \<Rightarrow> entry list \<Rightarrow> 'o event list" where
  "entry_events old new = map entry_event (filter (\<lambda>e. entry_id e \<notin> entry_id ` set old) new)"

definition status_is :: "'o slot option \<Rightarrow> string \<Rightarrow> bool" where
  "status_is s x = (case s of None \<Rightarrow> False | Some t \<Rightarrow> slot_status t = js x)"

definition slot_events :: "(jstr \<times> 'o slot) list \<Rightarrow> jstr \<times> 'o slot \<Rightarrow> 'o event list" where
  "slot_events old_slots p = (case p of (cid, s) \<Rightarrow>
    (let old = map_of old_slots cid in
      (if slot_status s \<noteq> js ''pending'' \<and> \<not> status_is old ''running'' \<and> \<not> status_is old ''done''
       then [Tool_start cid (slot_name s)] else [])
    @ (case old of None \<Rightarrow> []
       | Some o' \<Rightarrow> if slot_output s \<noteq> slot_output o' then [Tool_update cid (slot_name s) (slot_output s)] else [])
    @ (if slot_status s = js ''done'' \<and> \<not> status_is old ''done''
       then [Tool_end cid (slot_name s) (slot_entry s)] else [])))"

definition run_events :: "'o live \<Rightarrow> 'o live \<Rightarrow> 'o event list" where
  "run_events old new =
    (case (run old, run new) of (None, Some r) \<Rightarrow> [Run_start (run_task r) (run_turns r)] | _ \<Rightarrow> [])
  @ (case (run old, run new) of (Some r, None) \<Rightarrow> [Run_end (run_task r) (run_failure new)] | _ \<Rightarrow> [])"

definition compaction_events :: "'o live \<Rightarrow> 'o live \<Rightarrow> 'o event list" where
  "compaction_events old new =
    map (\<lambda>c. Compaction_start (comp_task c) (comp_trigger c) (comp_attempt c))
      (filter (\<lambda>c. comp_task c \<notin> comp_task ` set (compactions old)) (compactions new))
  @ map (\<lambda>c. Compaction_end (comp_task c))
      (filter (\<lambda>c. comp_task c \<notin> comp_task ` set (compactions new)) (compactions old))"

definition failure_events :: "'o live \<Rightarrow> 'o live \<Rightarrow> 'o event list" where
  "failure_events old new = (case comp_failure new of None \<Rightarrow> []
     | Some f \<Rightarrow> if comp_failure old \<noteq> Some f then [Compaction_failure f] else [])"

definition generation_events :: "'o live \<Rightarrow> 'o live \<Rightarrow> 'o event list" where
  "generation_events old new = (case generation new of None \<Rightarrow> []
     | Some a \<Rightarrow> if generation old \<noteq> Some a then [Message_start a] else [])"

definition view_events :: "('o, 'u) view \<Rightarrow> ('o, 'u) view \<Rightarrow> 'o event list" where
  "view_events previous next =
    (let old = live_state previous; new = live_state next in
       entry_events (entries previous) (entries next)
     @ concat (map (slot_events (tool_slots old)) (tool_slots new))
     @ run_events old new @ compaction_events old new @ failure_events old new
     @ generation_events old new)"

section \<open>The watcher\<close>

text \<open>What is sent to the supervisor: audit events and usage documents. \<open>watch\<close> is the callback
  of \<open>events.start\<close> over a sequence of values; \<open>watch_from\<close> adds what is sent for the first view.\<close>

datatype ('o, 'u) sent = Audit "'o event" | Usage 'u

definition usage_change :: "'u option \<Rightarrow> 'u option \<Rightarrow> ('o, 'u) sent list" where
  "usage_change old new = (case new of None \<Rightarrow> [] | Some u \<Rightarrow> if old \<noteq> Some u then [Usage u] else [])"

fun watch :: "('o, 'u) view \<Rightarrow> ('o, 'u) view list \<Rightarrow> ('o, 'u) sent list" where
  "watch v [] = []"
| "watch v (w # ws) = map Audit (view_events v w) @ usage_change (usage_doc v) (usage_doc w) @ watch w ws"

definition watch_from :: "('o, 'u) view \<Rightarrow> ('o, 'u) view list \<Rightarrow> ('o, 'u) sent list" where
  "watch_from v ws = Audit (view_event v) # usage_change None (usage_doc v) @ watch v ws"

definition audit :: "('o, 'u) view \<Rightarrow> ('o, 'u) view list \<Rightarrow> 'o event list" where
  "audit v ws = concat (map (\<lambda>x. case x of Audit e \<Rightarrow> [e] | Usage _ \<Rightarrow> []) (watch v ws))"

lemma audit_simps [simp]: "audit v [] = []" "audit v (w # ws) = view_events v w @ audit w ws"
proof -
  show "audit v [] = []" by (simp add: audit_def)
  have a: "concat (map (\<lambda>x. case x of Audit e \<Rightarrow> [e] | Usage _ \<Rightarrow> []) (map Audit es)) = es" for es :: "'a event list"
    by (induction es) simp_all
  have u: "concat (map (\<lambda>x. case x of Audit e \<Rightarrow> [e] | Usage _ \<Rightarrow> []) (usage_change a b)) = []" for a b :: "'b option"
    by (cases b) (simp_all add: usage_change_def)
  show "audit v (w # ws) = view_events v w @ audit w ws" 
    unfolding audit_def watch.simps map_append concat_append a u by simp
qed

section \<open>Metering of provider streams\<close>

text \<open>\<open>tracked\<close>: what the wrapper does with the events of one provider stream. The source delivers
  some events and then ends, or throws; \<open>notify\<close> may throw too.\<close>

datatype stream_event = Delta jsval | Done_event jsval | Error_event jsval

datatype track_act = Notify_incomplete | Push stream_event | End_stream | Fatal

definition event_message :: "stream_event \<Rightarrow> jsval" where
  "event_message e = (case e of Delta v \<Rightarrow> Undef
     | Done_event v \<Rightarrow> coalesce (opt_get v ''message'') (opt_get v ''error'')
     | Error_event v \<Rightarrow> coalesce (opt_get v ''message'') (opt_get v ''error''))"

text \<open>\<open>!message?.usage?.totalTokens || event.type === 'error'\<close>, for the two final kinds.\<close>

definition unmetered :: "stream_event \<Rightarrow> bool" where
  "unmetered e = (case e of Delta _ \<Rightarrow> False | Error_event _ \<Rightarrow> True
     | Done_event _ \<Rightarrow> \<not> truthy (opt_get (opt_get (event_message e) ''usage'') ''totalTokens''))"

text \<open>\<open>acks\<close> are the outcomes of the successive notifications, \<open>ok\<close> whether the source ends well.\<close>

fun track :: "bool list \<Rightarrow> bool \<Rightarrow> stream_event list \<Rightarrow> track_act list" where
  "track acks ok [] = (if ok then [End_stream] else [End_stream, Fatal])"
| "track acks ok (e # es) =
     (if unmetered e then
        (case acks of
           False # _ \<Rightarrow> [Notify_incomplete, End_stream, Fatal]
         | True # rest \<Rightarrow> Notify_incomplete # Push e # track rest ok es
         | [] \<Rightarrow> [Notify_incomplete])
      else Push e # track acks ok es)"

section \<open>The guarded shell\<close>

datatype shell_act = Shell_start jstr | Execute jstr | Shell_end jstr

text \<open>One call of the \<open>bash\<close> tool: whether the start is acknowledged, the tool returns, the end is
  acknowledged.\<close>

record bash_env =
  start_ok :: bool
  exec_result :: "jsval result"
  end_ok :: bool

definition guarded_bash :: "jstr \<Rightarrow> bash_env \<Rightarrow> shell_act list \<times> jsval result" where
  "guarded_bash cid e =
    (if \<not> start_ok e then ([Shell_start cid], Inl (err ''notify failed''))
     else ([Shell_start cid, Execute cid, Shell_end cid],
           if end_ok e then exec_result e else Inl (err ''notify failed'')))"

text \<open>The supervisor's side: what the calls send to it.\<close>

definition shell_msg :: "shell_act \<Rightarrow> jsval list" where
  "shell_msg a = (case a of
     Shell_start c \<Rightarrow> [Obj [(js ''type'', Str (js ''shell-start'')), (js ''call_id'', Str c)]]
   | Execute _ \<Rightarrow> []
   | Shell_end c \<Rightarrow> [Obj [(js ''type'', Str (js ''shell-end'')), (js ''call_id'', Str c)]])"

section \<open>One engine process\<close>

text \<open>The awaited steps of \<open>engine\<close>, in order, and the cleanup of its \<open>finally\<close>.\<close>

datatype step = Open_storage | Open_harness | Get_root | Watch | Audit_view | Report_usage
  | Submit | Wait | Audit_submission | Read_usage | Stop_events | Close_harness

record engine_env =
  fails :: "step \<Rightarrow> js_error option" \<comment> \<open>the error a step throws\<close>
  has_usage :: bool \<comment> \<open>the first view has a usage document\<close>
  settled :: jsval
  final_ledger :: jsval

definition engine_steps :: "engine_env \<Rightarrow> step list" where
  "engine_steps e = [Open_storage, Open_harness, Get_root, Watch, Audit_view]
     @ (if has_usage e then [Report_usage] else [])
     @ [Submit, Wait, Audit_submission, Read_usage, Stop_events, Close_harness]"

text \<open>The steps that were tried, and the error that ended them.\<close>

fun run_steps :: "(step \<Rightarrow> js_error option) \<Rightarrow> step list \<Rightarrow> step list \<times> js_error option" where
  "run_steps f [] = ([], None)"
| "run_steps f (s # ss) = (case f s of Some er \<Rightarrow> ([s], Some er)
     | None \<Rightarrow> (case run_steps f ss of (tr, r) \<Rightarrow> (s # tr, r)))"

text \<open>\<open>events\<close> is set once \<open>Watch\<close> returned and unset once \<open>Stop_events\<close> returned, \<open>harness\<close> likewise.\<close>

definition is_set :: "(step \<Rightarrow> js_error option) \<Rightarrow> step list \<Rightarrow> step \<Rightarrow> step \<Rightarrow> bool" where
  "is_set f tr opened closed_by \<longleftrightarrow>
     opened \<in> set tr \<and> f opened = None \<and> \<not> (closed_by \<in> set tr \<and> f closed_by = None)"

definition cleanup :: "(step \<Rightarrow> js_error option) \<Rightarrow> step list \<Rightarrow> step list" where
  "cleanup f tr = (if is_set f tr Watch Stop_events then [Stop_events] else [])
     @ (if is_set f tr Open_harness Close_harness then [Close_harness] else [])"

definition engine_result :: "engine_env \<Rightarrow> jsval" where
  "engine_result e = (let st = opt_get (settled e) ''status''; fin = (st = Str (js ''done'')) in
     Obj [(js ''status'', Str (if fin then js ''completed'' else js ''failed'')),
       (js ''error'', if fin then Undef
          else Str (js ''Pi submission '' @ to_str (coalesce (opt_get (settled e) ''reason'') st))),
       (js ''ledger'', final_ledger e)])"

definition engine :: "(jstr \<Rightarrow> jstr) \<Rightarrow> (jstr \<Rightarrow> url_parts option) \<Rightarrow> engine_env \<Rightarrow> jsval \<Rightarrow> step list \<times> jsval result" where
  "engine sha url e request = (case validate_request sha url request of
     Inl er \<Rightarrow> ([], Inl er)
   | Inr r \<Rightarrow> (case run_steps (fails e) (engine_steps e) of (tr, r) \<Rightarrow>
       (tr @ cleanup (fails e) tr,
        case r of Some er \<Rightarrow> Inl er | None \<Rightarrow> Inr (engine_result e))))"

text \<open>\<open>keepRecentTokens: Math.min(20_000, Math.floor(metadata.contextWindow / 4))\<close> and the other
  settings of the harness that depend on the request.\<close>

record settings =
  max_tokens :: jnum
  reserve_tokens :: jnum
  keep_recent :: jnum

definition harness_settings :: "jsval \<Rightarrow> settings" where
  "harness_settings r = (let m = opt_get r ''metadata''; mt = to_num (opt_get m ''maxTokens'') in
     \<lparr>max_tokens = mt, reserve_tokens = mt,
      keep_recent = num_min (Fin 20000) (math_floor (num_div (to_num (opt_get m ''contextWindow'')) (Fin 4)))\<rparr>)"

end
