(* ===== verification/Pi_Runner.thy ===== *)
theory Pi_Runner imports Utf8 Pi_Engine begin

text \<open>
  \<^verbatim>\<open>agents/pi/src/runner.mjs\<close>: reading the request from the standard input, the channel of the
  engine process with its numbered notifications, and the choice of what the process does.
\<close>

section \<open>The request\<close>

definition REQUEST_LIMIT :: nat where "REQUEST_LIMIT = 4 * 1024 * 1024"

fun read_chunks :: "nat \<Rightarrow> nat list list \<Rightarrow> nat list list \<Rightarrow> nat list list result" where
  "read_chunks n acc [] = Inr acc"
| "read_chunks n acc (c # cs) =
     (let m = n + length c in
      if REQUEST_LIMIT < m then Inl (err ''Pi request exceeds size limit'')
      else read_chunks m (acc @ [c]) cs)"

definition read_request :: "nat list list \<Rightarrow> jsval result" where
  "read_request cs = bind_r (read_chunks 0 [] cs) (\<lambda>bs.
     case json_parse (utf8_decode (concat bs)) of None \<Rightarrow> Inl (err ''Unexpected token'') | Some v \<Rightarrow> Inr v)"

section \<open>The channel\<close>

text \<open>A promise of \<open>notify\<close> settles once: \<open>True\<close> resolved, \<open>False\<close> rejected.\<close>

record channel =
  sequence :: nat
  pending :: "nat list"
  settled_ids :: "(nat \<times> bool) list"
  stop_calls :: nat

definition new_channel :: channel where
  "new_channel = \<lparr>sequence = 0, pending = [], settled_ids = [], stop_calls = 0\<rparr>"

definition settle :: "nat \<Rightarrow> bool \<Rightarrow> channel \<Rightarrow> channel" where
  "settle i b c = (if i \<in> fst ` set (settled_ids c) then c else c\<lparr>settled_ids := settled_ids c @ [(i, b)]\<rparr>)"

definition forget :: "nat \<Rightarrow> channel \<Rightarrow> channel" where
  "forget i c = c\<lparr>pending := filter (\<lambda>j. j \<noteq> i) (pending c)\<rparr>"

text \<open>\<open>notify(type, payload)\<close>: the new state and the message sent.\<close>

definition notify_message :: "nat \<Rightarrow> string \<Rightarrow> (jstr \<times> jsval) list \<Rightarrow> jsval" where
  "notify_message i ty payload = Obj (foldl (\<lambda>o' kv. obj_put o' (fst kv) (snd kv))
     [(js ''type'', Str (js ty)), (js ''id'', int_val (int i))] payload)"

definition notify :: "string \<Rightarrow> (jstr \<times> jsval) list \<Rightarrow> channel \<Rightarrow> channel \<times> jsval" where
  "notify ty payload c = (let i = sequence c + 1 in
     (c\<lparr>sequence := i, pending := pending c @ [i]\<rparr>, notify_message i ty payload))"

text \<open>The callback of \<open>process.send\<close> with an error.\<close>

definition send_failed :: "nat \<Rightarrow> channel \<Rightarrow> channel" where
  "send_failed i c = settle i False (forget i c)"

text \<open>A message of the supervisor. \<open>pending.get(id)?.()\<close> resolves only what is still pending.\<close>

definition find_pending :: "channel \<Rightarrow> jsval \<Rightarrow> nat option" where
  "find_pending c v = List.find (\<lambda>i. same_zero (int_val (int i)) v) (pending c)"

definition on_stop :: "channel \<Rightarrow> channel" where
  "on_stop c = c\<lparr>stop_calls := stop_calls c + 1\<rparr>"

definition receive :: "jsval \<Rightarrow> channel \<Rightarrow> channel" where
  "receive m c =
    (let c1 = (if opt_get m ''type'' = Str (js ''stop'') then on_stop c else c) in
     if opt_get m ''type'' = Str (js ''ack'') then
       (case find_pending c1 (opt_get m ''id'') of
          None \<Rightarrow> c1
        | Some i \<Rightarrow> forget i (settle i True c1))
     else c1)"

definition disconnected :: "channel \<Rightarrow> channel" where
  "disconnected c = on_stop c"

text \<open>\<open>fatal(error)\<close>: a message without a number, then a stop. The text is cut at the limit.\<close>

definition fatal_text :: "js_error \<Rightarrow> jstr" where
  "fatal_text e = take SUMMARY_LIMIT (message e)"

definition send_fatal :: "js_error \<Rightarrow> channel \<Rightarrow> channel \<times> jsval" where
  "send_fatal e c = (on_stop c, Obj [(js ''type'', Str (js ''fatal'')), (js ''error'', Str (fatal_text e))])"

text \<open>The shorthands of the channel.\<close>

definition channel_audit :: "jsval \<Rightarrow> channel \<Rightarrow> channel \<times> jsval" where
  "channel_audit ev = notify ''audit'' [(js ''event'', ev)]"

definition channel_usage :: "jsval \<Rightarrow> channel \<Rightarrow> channel \<times> jsval" where
  "channel_usage l = notify ''usage'' [(js ''ledger'', l)]"

section \<open>What the process does\<close>

datatype action = Print_version jstr | Be_engine jsval | Be_supervisor jsval

definition version_parts :: "jstr \<Rightarrow> jnum \<times> jnum" where
  "version_parts v = (case split_on 46 v of
     a # b # _ \<Rightarrow> (str_to_num a, str_to_num b) | [a] \<Rightarrow> (str_to_num a, NaN) | [] \<Rightarrow> (NaN, NaN))"

definition node_too_old :: "jstr \<Rightarrow> bool" where
  "node_too_old v = (case version_parts v of (major, minor) \<Rightarrow>
     num_lt major (Fin 22) \<or> num_eq major (Fin 22) \<and> num_lt minor (Fin 19))"

definition arg2 :: "jstr list \<Rightarrow> jstr option" where
  "arg2 argv = (if 2 < length argv then Some (argv ! 2) else None)"

definition choose_action :: "jstr \<Rightarrow> jstr list \<Rightarrow> bool \<Rightarrow> jsval result \<Rightarrow> action result" where
  "choose_action version argv has_channel request =
    bind_r (check (node_too_old version) ''Pi requires Node >=22.19'') (\<lambda>_.
    if arg2 argv = Some (js ''--version'')
    then Inr (Print_version (js ''esf-pi/1 pi-durable/1.5.0 node/'' @ version))
    else bind_r request (\<lambda>r.
      if arg2 argv = Some (js ''--engine'') then
        bind_r (check (\<not> has_channel) ''Pi engine must be owned by its supervisor'') (\<lambda>_. Inr (Be_engine r))
      else bind_r (check (length argv \<noteq> 2) ''Pi invocation is fixed'') (\<lambda>_. Inr (Be_supervisor r))))"

text \<open>The engine branch: it reports the terminal result, or the error, and disconnects. \<open>ok1\<close> and
  \<open>ok2\<close> say whether the notifications are acknowledged. The messages sent and the exit code.\<close>

definition engine_main ::
    "jsval result \<Rightarrow> bool \<Rightarrow> bool \<Rightarrow> channel \<Rightarrow> jsval list \<times> nat result" where
  "engine_main outcome ok1 ok2 c =
    (let report = (\<lambda>e c. case notify ''fatal'' [(js ''error'', Str (fatal_text e))] c of (c', m) \<Rightarrow>
        ([m], if ok2 then Inr 1 else Inl (err ''channel closed''))) in
     case outcome of
       Inl e \<Rightarrow> report e c
     | Inr v \<Rightarrow> (case notify ''terminal'' [(js ''result'', v)] c of (c1, m) \<Rightarrow>
         if ok1 then ([m], Inr 0)
         else (case report (err ''channel closed'') (send_failed (sequence c1) c1) of (ms, out) \<Rightarrow> (m # ms, out))))"

end
