(* ===== verification/Pi_Supervisor_Facts.thy ===== *)
theory Pi_Supervisor_Facts imports Pi_Supervisor begin

text \<open>
  What \<^verbatim>\<open>agents/pi/src/supervisor.mjs\<close> guarantees: its log follows a protocol with at most one
  running engine and no recovery over a live shell, the recovery allowance bounds the
  launches, a stop is final, only an engine's own completion yields exit code 0, usage is
  certain only for undisturbed runs, and every exit path gives the lock back.
\<close>

section \<open>The log protocol\<close>

text \<open>The abstract view of a run: how many engines were launched, whether one runs, the shells
  it owns, whether it was told to stop or killed, and whether the terminal record was
  written. \<open>log_step\<close> is what the log may add.\<close>

record log_state =
  launches :: nat
  running :: bool
  guards :: "jsval list"
  doomed :: bool
  closed :: bool

fun log_step :: "out \<Rightarrow> log_state \<Rightarrow> log_state option" where
  "log_step (Started k) m =
     (if \<not> closed m \<and> \<not> running m \<and> guards m = [] \<and> \<not> doomed m \<and> k = launches m + 1
      then Some (m\<lparr>launches := k, running := True\<rparr>) else None)"
| "log_step (GuardActive v) m =
     (if running m \<and> truthy v \<and> \<not> shell_has (guards m) v
      then Some (m\<lparr>guards := guards m @ [v]\<rparr>) else None)"
| "log_step (GuardReleased v) m =
     (if running m \<and> shell_has (guards m) v
      then Some (m\<lparr>guards := shell_remove (guards m) v\<rparr>) else None)"
| "log_step (AgentEvent k _) m = (if running m \<and> k = launches m then Some m else None)"
| "log_step (Recovery k) m =
     (if running m \<and> guards m = [] \<and> \<not> doomed m \<and> k = launches m then Some (m\<lparr>running := False\<rparr>) else None)"
| "log_step (TerminalLog _ k) m =
     (if \<not> closed m \<and> k = (if running m then launches m - 1 else launches m)
      then Some (m\<lparr>running := False, closed := True\<rparr>) else None)"
| "log_step (Ack _) m = (if running m then Some m else None)"
| "log_step _ m = (if running m then Some (m\<lparr>doomed := True\<rparr>) else None)"

fun log_run :: "out list \<Rightarrow> log_state \<Rightarrow> log_state option" where
  "log_run [] m = Some m"
| "log_run (e # es) m = (case log_step e m of None \<Rightarrow> None | Some m' \<Rightarrow> log_run es m')"

lemma log_run_append:
  "log_run (xs @ ys) m = (case log_run xs m of None \<Rightarrow> None | Some m' \<Rightarrow> log_run ys m')"
  by (induction xs arbitrary: m) (auto split: option.splits)

definition log_init :: log_state where
  "log_init = \<lparr>launches = 0, running = False, guards = [], doomed = False, closed = False\<rparr>"

text \<open>The simulation relation while no child runs, and while child \<open>c\<close> runs.\<close>

definition idle_rel :: "sup \<Rightarrow> bool" where
  "idle_rel s \<longleftrightarrow> log_run (outs s) log_init =
     Some \<lparr>launches = restarts s, running = False, guards = [], doomed = False, closed = False\<rparr>"

definition run_rel :: "sup \<Rightarrow> child \<Rightarrow> bool" where
  "run_rel s c \<longleftrightarrow> (\<exists>dm. log_run (outs s) log_init = Some \<lparr>launches = restarts s + 1, running = True,
       guards = active_shell c, doomed = dm, closed = False\<rparr>
     \<and> (dm \<longrightarrow> stopped s \<noteq> None \<or> protocol_error c \<noteq> None))"

lemma handle_message_rel:
  assumes "handle_message m (s, c) = Inr (s', c')" "run_rel s c"
  shows "run_rel s' c'"
  using assms
  by (auto simp: handle_message_def Let_def run_rel_def log_run_append split: if_splits)

lemma on_message_rel:
  assumes "on_message m (s, c) = (s', c')" "run_rel s c"
  shows "run_rel s' c'"
proof (cases "handle_message m (s, c)")
  case (Inl e)
  with assms show ?thesis by (auto simp: on_message_def run_rel_def log_run_append)
next
  case (Inr sc)
  obtain s1 c1 where sc: "sc = (s1, c1)" by (cases sc)
  have "run_rel s1 c1" using handle_message_rel Inr assms(2) sc by blast
  with assms(1) Inr sc show ?thesis
    by (auto simp: on_message_def run_rel_def log_run_append split: if_splits)
qed

lemma stop_facts [simp]:
  "restarts (stop l x s) = restarts s" "attempts (stop l x s) = attempts s" "ledger (stop l x s) = ledger s"
  "uncertain (stop l x s) = uncertain s" "outs (stop l x s) = outs s @ (if l then [SendStop] else [])"
  "stopped (stop l x s) \<noteq> None" "stopped s = Some y \<Longrightarrow> stopped (stop l x s) = Some y"
  by (simp_all add: stop_def split: option.split)

lemma stops_facts [simp]:
  "restarts (stops xs s) = restarts s" "attempts (stops xs s) = attempts s" "ledger (stops xs s) = ledger s"
  "uncertain (stops xs s) = uncertain s" "outs (stops xs s) = outs s"
  unfolding stops_def by (induction xs arbitrary: s) simp_all

lemma stops_stopped:
  "stopped s = Some y \<Longrightarrow> stopped (stops xs s) = Some y"
  "xs \<noteq> [] \<Longrightarrow> stopped (stops xs s) \<noteq> None"
  "stopped (stops xs s) = None \<Longrightarrow> stopped s = None \<and> xs = []"
proof -
  show keep: "stopped (stops xs s) = Some y" if "stopped s = Some y" for xs s y
    using that unfolding stops_def by (induction xs arbitrary: s) simp_all
  show some: "stopped (stops xs s) \<noteq> None" if ne: "xs \<noteq> []" for xs s
  proof -
    obtain x ys where xs: "xs = x # ys" using ne by (cases xs) auto
    obtain y where "stopped (stop False x s) = Some y" using stop_facts(6) by blast
    from keep [OF this, of ys] show ?thesis by (simp add: xs stops_def)
  qed
  assume n: "stopped (stops xs s) = None"
  then have "xs = []" using some by blast
  with n show "stopped s = None \<and> xs = []" by (simp add: stops_def)
qed

lemma on_event_rel:
  assumes "on_event e (s, c) = (s', c')" "run_rel s c"
  shows "run_rel s' c'"
proof (cases e)
  case (Msg m)
  with assms(1) have "on_message m (s, c) = (s', c')" by simp
  then show ?thesis using assms(2) by (rule on_message_rel)
next
  case (Stop x)
  with assms(1) have eq: "s' = stop True x s" "c' = c" by simp_all
  from assms(2) obtain dm where "log_run (outs s) log_init = Some \<lparr>launches = restarts s + 1, running = True,
       guards = active_shell c, doomed = dm, closed = False\<rparr>" unfolding run_rel_def by blast
  then show ?thesis unfolding run_rel_def eq using stop_facts(6)
    by (intro exI [of _ True]) (simp add: log_run_append)
qed

lemma on_events_rel:
  "on_events es (s, c) = (s', c') \<Longrightarrow> run_rel s c \<Longrightarrow> run_rel s' c'"
proof (induction es arbitrary: s c)
  case (Cons e es)
  obtain s1 c1 where e: "on_event e (s, c) = (s1, c1)" by fastforce
  with Cons.prems(1) have "on_events es (s1, c1) = (s', c')" by (simp add: on_events_def)
  with Cons.IH on_event_rel [OF e Cons.prems(2)] show ?case by blast
qed (simp add: on_events_def)

section \<open>The ways one turn of the loop ends\<close>

definition launched :: "attempt_env \<Rightarrow> sup \<Rightarrow> sup \<times> child" where
  "launched e s = on_events (events e) (emit [Started (restarts s + 1)] s, new_child)"

definition may_launch :: "jsval \<Rightarrow> attempt_env \<Rightarrow> sup \<Rightarrow> bool" where
  "may_launch r e s \<longleftrightarrow> stopped s = None \<and> stops1 e = [] \<and> elapsed1 e < timeout_of r \<and> elapsed2 e < timeout_of r
     \<and> check_files r e (restarts s) = Inr ()"

lemma stops_Nil [simp]: "stops [] s = s"
  by (simp add: stops_def)

lemma run_attempt_cases [consumes 1, case_names halted refused late lost exited]:
  assumes "run_attempt r b e s = (s', res)"
  obtains "(s', the res) = stop_result s" "res \<noteq> None" "\<not> may_launch r e s"
  | er where "(s', the res) = catch (stops (stops1 e) s) er" "res \<noteq> None" "\<not> may_launch r e s"
  | "(s', the res) = stop_result (stops (stops1 e) s)" "res \<noteq> None" "\<not> may_launch r e s"
  | s2 c er where "may_launch r e s" "launched e s = (s2, c)" "(s', the res) = catch s2 er" "res \<noteq> None"
  | s2 c ec sig where "may_launch r e s" "launched e s = (s2, c)"
      "after_exit r b e (s2\<lparr>attempts := attempts s2 @ [\<lparr>at_number = restarts s + 1, at_code = ec,
         at_signal = sig, at_active_shell = (active_shell c \<noteq> [])\<rparr>]\<rparr>, c) = (s', res)"
proof -
  let ?s1 = "stops (stops1 e) s"
  have quiet: "may_launch r e s \<and> ?s1 = s"
    if "stopped ?s1 = None" "\<not> timeout_of r - elapsed1 e \<le> 0" "\<not> timeout_of r \<le> elapsed2 e"
      "check_files r e (restarts s) = Inr ()"
    using that stops_stopped(3) [of "stops1 e" s] by (auto simp: may_launch_def)
  have cf: "(\<exists>er. check_files r e (restarts s) = Inl er) \<or> check_files r e (restarts s) = Inr ()"
    by (cases "check_files r e (restarts s)") auto
  consider "stopped s \<noteq> None \<or> timeout_of r - elapsed1 e \<le> 0"
    | er where "\<not> (stopped s \<noteq> None \<or> timeout_of r - elapsed1 e \<le> 0)" "check_files r e (restarts s) = Inl er"
    | "\<not> (stopped s \<noteq> None \<or> timeout_of r - elapsed1 e \<le> 0)" "check_files r e (restarts s) = Inr ()"
      "stopped ?s1 \<noteq> None \<or> timeout_of r \<le> elapsed2 e"
    | "\<not> (stopped s \<noteq> None \<or> timeout_of r - elapsed1 e \<le> 0)" "check_files r e (restarts s) = Inr ()"
      "\<not> (stopped ?s1 \<noteq> None \<or> timeout_of r \<le> elapsed2 e)"
    using cf by blast
  then show thesis
  proof cases
    case 1
    with assms show thesis by (intro that(1)) (auto simp: run_attempt_def may_launch_def split: prod.splits)
  next
    case 2
    with assms show thesis by (intro that(2) [of er]) (auto simp: run_attempt_def Let_def may_launch_def split: prod.splits)
  next
    case 3
    with assms show thesis by (intro that(3)) (auto simp: run_attempt_def Let_def may_launch_def split: prod.splits)
  next
    case 4
    then have q: "may_launch r e s" "?s1 = s" using quiet by auto
    obtain s2 c where l: "launched e s = (s2, c)" by fastforce
    have run: "run_attempt r b e s = (case exit_event e of
        Inl er \<Rightarrow> (case catch s2 er of (s', res) \<Rightarrow> (s', Some res))
      | Inr (ec, sig) \<Rightarrow> after_exit r b e (s2\<lparr>attempts := attempts s2 @ [\<lparr>at_number = restarts s + 1, at_code = ec,
         at_signal = sig, at_active_shell = (active_shell c \<noteq> [])\<rparr>]\<rparr>, c))"
      using 4 l q(2) unfolding run_attempt_def Let_def launched_def by simp
    show thesis
    proof (cases "exit_event e")
      case (Inl er)
      with assms run show thesis by (intro that(4) [OF q(1) l, of er]) (auto split: prod.splits)
    next
      case (Inr es)
      with assms run show thesis by (cases es) (intro that(5) [OF q(1) l], auto)
    qed
  qed
qed

text \<open>Rules for the loop and for the outer \<open>try\<close>: \<open>P\<close> holds before each turn, \<open>Q\<close> at the end.\<close>

lemma sup_loop_rule:
  assumes "sup_loop r b env s = (s', res)" and "P s"
    and "\<And>s s1. P s \<Longrightarrow> run_attempt r b (env (restarts s)) s = (s1, None) \<Longrightarrow> P s1"
    and "\<And>s s1 res. P s \<Longrightarrow> run_attempt r b (env (restarts s)) s = (s1, Some res) \<Longrightarrow> Q s1 res"
  shows "Q s' res"
proof -
  let ?n = "\<lambda>s. restart_limit r - restarts s"
  have "sup_loop r b env s = (s', res) \<Longrightarrow> P s \<Longrightarrow> Q s' res" for s
  proof (induction s rule: measure_induct_rule [where f = ?n])
    case (less s)
    obtain s1 o1 where run: "run_attempt r b (env (restarts s)) s = (s1, o1)" by fastforce
    note loop = less.prems(1) [unfolded sup_loop.simps [of r b env s] run]
    show ?case
    proof (cases o1)
      case None
      with run have "?n s1 < ?n s" using run_attempt_again by (metis diff_less_mono2 lessI)
      with less.IH loop None assms(3) [OF less.prems(2)] run show ?thesis by simp
    next
      case (Some x)
      with loop assms(4) [OF less.prems(2)] run show ?thesis by auto
    qed
  qed
  then show ?thesis using assms(1,2) .
qed

lemma sup_body_rule:
  assumes "sup_body r env d = (s', res)"
    and "\<And>u. initial_uncertain d r = Inr u \<Longrightarrow> P (stops (stops0 env) init_sup\<lparr>uncertain := u\<rparr>)"
    and "\<And>s s1 b. P s \<Longrightarrow> run_attempt r b (attempt_at env (restarts s)) s = (s1, None) \<Longrightarrow> P s1"
    and "\<And>s s1 res b. P s \<Longrightarrow> run_attempt r b (attempt_at env (restarts s)) s = (s1, Some res) \<Longrightarrow> Q s1 res"
    and "\<And>s s1 res e. P s \<or> s = stops (stops0 env) init_sup \<Longrightarrow> catch s e = (s1, res) \<Longrightarrow> Q s1 res"
  shows "Q s' res"
proof (cases "initial_uncertain d r")
  case (Inl e)
  with assms(1) show ?thesis using assms(5) by (auto simp: sup_body_def Let_def)
next
  case (Inr u)
  show ?thesis
  proof (cases "baseline_inventory env")
    case (Inl e)
    with assms(1) Inr show ?thesis using assms(5) [OF disjI1 [OF assms(2) [OF Inr]]] by (simp add: sup_body_def Let_def)
  next
    case (Inr b)
    with assms(1) \<open>initial_uncertain d r = Inr u\<close>
    have "sup_loop r b (attempt_at env) (stops (stops0 env) init_sup\<lparr>uncertain := u\<rparr>) = (s', res)"
      by (simp add: sup_body_def Let_def)
    then show ?thesis using assms(2) [OF \<open>initial_uncertain d r = Inr u\<close>] assms(3,4) by (rule sup_loop_rule)
  qed
qed

section \<open>The log of every run\<close>

definition end_rel :: "sup \<Rightarrow> bool" where
  "end_rel s \<longleftrightarrow> (case log_run (outs s) log_init of None \<Rightarrow> False
     | Some m \<Rightarrow> \<not> closed m \<and> launches m = (if running m then restarts s + 1 else restarts s))"

lemma end_relI: "idle_rel s \<Longrightarrow> end_rel s" "run_rel s c \<Longrightarrow> end_rel s"
  by (auto simp: end_rel_def idle_rel_def run_rel_def)

lemma end_facts:
  "catch s e = (s', res) \<Longrightarrow> outs s' = outs s \<and> restarts s' = restarts s \<and> uncertain s'
     \<and> stopped s' = stopped s \<and> attempts s' = attempts s \<and> ledger s' = ledger s"
  "stop_result s = (s', res) \<Longrightarrow> outs s' = outs s \<and> restarts s' = restarts s \<and> uncertain s' = uncertain s
     \<and> stopped s' \<noteq> None \<and> attempts s' = attempts s \<and> ledger s' = ledger s"
  by (auto simp: catch_def stop_result_def Let_def)

lemma rel_keep:
  "run_rel s c \<Longrightarrow> outs s' = outs s \<Longrightarrow> restarts s' = restarts s \<Longrightarrow> stopped s' = stopped s \<Longrightarrow> run_rel s' c"
  "end_rel s \<Longrightarrow> outs s' = outs s \<Longrightarrow> restarts s' = restarts s \<Longrightarrow> end_rel s'"
  by (auto simp: run_rel_def end_rel_def split: option.splits)

lemma after_exit_again:
  assumes "after_exit r b e (s, c) = (s', None)"
  shows "stopped s = None" "protocol_error c = None" "fatal c = None \<or> fatal c = Some []"
    "terminal c = None" "active_shell c = []" "restarts s < restart_limit r"
    "\<exists>current. inventory e = Inr current \<and> extra_processes b current = []"
    "s' = emit [Recovery (restarts s + 1)] (stops (stops2 e) (s\<lparr>uncertain := True\<rparr>)\<lparr>restarts := restarts s + 1\<rparr>)"
  using assms by (auto simp: after_exit_def Let_def split: if_splits option.splits sum.splits prod.splits)

lemma after_exit_end:
  assumes "after_exit r b e (s, c) = (s', Some res)"
  shows "outs s' = outs s" "restarts s' = restarts s" "attempts s' = attempts s" "ledger s' = ledger s"
  using assms by (auto simp: after_exit_def Let_def catch_def split: if_splits option.splits sum.splits)

lemma launched_rel:
  assumes "launched e s = (s', c)" "idle_rel s"
  shows "run_rel s' c"
proof (rule on_events_rel)
  show "on_events (events e) (emit [Started (restarts s + 1)] s, new_child) = (s', c)"
    using assms(1) by (simp add: launched_def)
  show "run_rel (emit [Started (restarts s + 1)] s) new_child"
    using assms(2) by (auto simp: idle_rel_def run_rel_def log_run_append new_child_def intro!: exI [of _ False])
qed

lemma after_exit_rel:
  assumes "after_exit r b e (s, c) = (s', res)" "run_rel s c"
  shows "if res = None then idle_rel s' else end_rel s'"
proof (cases res)
  case None
  with after_exit_again [of r b e s c s'] assms show ?thesis
    by (auto simp: idle_rel_def run_rel_def log_run_append)
next
  case (Some x)
  with after_exit_end [of r b e s c s' x] assms(1) rel_keep(2) [OF end_relI(2) [OF assms(2)]]
  show ?thesis by simp
qed

lemma run_attempt_rel:
  assumes "run_attempt r b e s = (s', res)" "idle_rel s"
  shows "if res = None then idle_rel s' else end_rel s'"
  using assms(1)
proof (cases rule: run_attempt_cases)
  case halted
  with end_facts(2) [OF halted(1) [symmetric]] rel_keep(2) [OF end_relI(1) [OF assms(2)]] show ?thesis by auto
next
  case (refused er)
  with end_facts(1) [OF refused(1) [symmetric]] rel_keep(2) [OF end_relI(1) [OF assms(2)]] show ?thesis by auto
next
  case late
  with end_facts(2) [OF late(1) [symmetric]] rel_keep(2) [OF end_relI(1) [OF assms(2)]] show ?thesis by auto
next
  case (lost s2 c er)
  with end_facts(1) [OF lost(3) [symmetric]] rel_keep(2) [OF end_relI(2) [OF launched_rel [OF lost(2) assms(2)]]]
  show ?thesis by auto
next
  case (exited s2 c ec sig)
  from launched_rel [OF exited(2) assms(2)] show ?thesis
    by (intro after_exit_rel [OF exited(3)]) (rule rel_keep(1), simp_all)
qed

lemma sup_body_rel: "sup_body r env d = (s', res) \<Longrightarrow> end_rel s'"
proof (erule sup_body_rule [where P = idle_rel])
  show "idle_rel (stops (stops0 env) init_sup\<lparr>uncertain := u\<rparr>)" for u
    by (simp add: idle_rel_def init_sup_def log_init_def)
  show "idle_rel s1" if "idle_rel s" "run_attempt r b (attempt_at env (restarts s)) s = (s1, None)" for s s1 b
    using run_attempt_rel [OF that(2,1)] by simp
  show "end_rel s1" if "idle_rel s" "run_attempt r b (attempt_at env (restarts s)) s = (s1, Some res)" for s s1 res b
    using run_attempt_rel [OF that(2,1)] by simp
  have init: "idle_rel (stops (stops0 env) init_sup)" by (simp add: idle_rel_def init_sup_def log_init_def)
  show "end_rel s1" if "idle_rel s \<or> s = stops (stops0 env) init_sup" "catch s e = (s1, res)" for s s1 res e
    using end_facts(1) [OF that(2)] rel_keep(2) [OF end_relI(1)] that(1) init by metis
qed

lemma finish_outs:
  "finish r env s res d = (d', s', out) \<Longrightarrow> s' = s \<or> s' = emit [TerminalLog (status res) (restarts s)] s"
  by (auto simp: finish_def write_receipts_def split: sum.splits prod.splits)

lemma end_rel_log:
  assumes "end_rel s"
  shows "log_run (outs s) log_init \<noteq> None"
    "log_run (outs (emit [TerminalLog st (restarts s)] s)) log_init \<noteq> None"
  using assms by (auto simp: end_rel_def log_run_append split: option.splits if_splits)

lemma supervise_cases [consumes 1, case_names rejected unprepared run]:
  assumes "supervise sha url env q d = (d', s, out)"
  obtains e where "validate_request sha url q = Inl e" "d' = d" "s = init_sup" "out = Inl e"
  | r e where "validate_request sha url q = Inr r" "prepare_state (prep_fault env) (own_pid env) d r = (d', Inl e)"
      "s = init_sup" "out = Inl e"
  | r d1 s1 res where "validate_request sha url q = Inr r"
      "prepare_state (prep_fault env) (own_pid env) d r = (d1, Inr ())"
      "sup_body r env d1 = (s1, res)" "finish r env s1 res (run_effect env d1) = (d', s, out)"
  using assms by (auto simp: supervise_def split: sum.splits prod.splits)

text \<open>C1: every run's log follows the protocol. Whatever request, environment and engine
  messages: engines start with consecutive numbers, each only after the previous attempt was
  recovered, with no shell left owned and never after a stop was sent or a child killed; a shell is guarded once and released once; agent
  events, acknowledgements and kills only while an engine runs; and the terminal record comes
  last, with the number of recoveries.\<close>

theorem log_protocol:
  "log_run (outs (fst (snd (supervise sha url env q d)))) log_init \<noteq> None"
proof -
  obtain d' s out where run: "supervise sha url env q d = (d', s, out)" by (metis prod.exhaust)
  then show ?thesis
  proof (cases rule: supervise_cases)
    case (run r d1 s1 res)
    with finish_outs [OF run(4)] end_rel_log [OF sup_body_rel [OF run(3)]] \<open>supervise sha url env q d = _\<close>
    show ?thesis by auto
  qed (simp_all add: run init_sup_def)
qed

section \<open>Bounds\<close>

definition is_started :: "out \<Rightarrow> bool" where
  "is_started e = (case e of Started _ \<Rightarrow> True | _ \<Rightarrow> False)"

lemma log_run_launches:
  "log_run es m = Some m' \<Longrightarrow> launches m' = launches m + length (filter is_started es)"
proof (induction es arbitrary: m)
  case (Cons e es)
  then show ?case by (cases e) (auto simp: is_started_def split: option.splits if_splits)
qed simp

lemma end_rel_launches: "end_rel s \<Longrightarrow> length (filter is_started (outs s)) \<le> restarts s + 1"
  using log_run_launches [of "outs s" log_init]
  by (auto simp: end_rel_def log_init_def split: option.splits if_splits)

lemma events_restarts: "on_events es (s, c) = (s', c') \<Longrightarrow> restarts s' = restarts s"
proof (induction es arbitrary: s c)
  case (Cons e es)
  obtain s1 c1 where e: "on_event e (s, c) = (s1, c1)" by fastforce
  have "restarts s1 = restarts s"
    using e by (cases e) (auto simp: on_message_def handle_message_def Let_def split: sum.splits if_splits prod.splits)
  moreover have "on_events es (s1, c1) = (s', c')" using Cons.prems e by (simp add: on_events_def)
  ultimately show ?case using Cons.IH by metis
qed (simp add: on_events_def)

lemma launched_restarts: "launched e s = (s', c) \<Longrightarrow> restarts s' = restarts s"
  unfolding launched_def by (drule events_restarts) simp

lemma run_attempt_restarts:
  assumes "run_attempt r b e s = (s', Some res)"
  shows "restarts s' = restarts s"
  using assms
proof (cases rule: run_attempt_cases)
  case halted then show ?thesis using end_facts(2) by (metis (no_types))
next
  case (refused er) then show ?thesis using end_facts(1) by (metis (no_types) stops_facts(1))
next
  case late then show ?thesis using end_facts(2) by (metis (no_types) stops_facts(1))
next
  case (lost s2 c er) then show ?thesis using end_facts(1) launched_restarts by (metis (no_types))
next
  case (exited s2 c ec sig)
  with after_exit_end(2) [OF exited(3)] launched_restarts [OF exited(2)] show ?thesis by simp
qed

lemma sup_body_restarts:
  assumes "sup_body r env d = (s', res)"
  shows "restarts s' \<le> restart_limit r"
  using assms
proof (rule sup_body_rule [where P = "\<lambda>s. restarts s \<le> restart_limit r"])
  show "restarts (stops (stops0 env) init_sup\<lparr>uncertain := u\<rparr>) \<le> restart_limit r" for u
    by (simp add: init_sup_def)
  show "restarts s1 \<le> restart_limit r"
    if "run_attempt r b (attempt_at env (restarts s)) s = (s1, None)" for s s1 b
    using run_attempt_again [OF that] by simp
  show "restarts s1 \<le> restart_limit r" if "restarts s \<le> restart_limit r"
    "run_attempt r b (attempt_at env (restarts s)) s = (s1, Some res)" for s s1 res b
    using run_attempt_restarts [OF that(2)] that(1) by simp
  show "restarts s1 \<le> restart_limit r"
    if "restarts s \<le> restart_limit r \<or> s = stops (stops0 env) init_sup" "catch s e = (s1, res)" for s s1 res e
    using end_facts(1) [OF that(2)] that(1) by (auto simp: init_sup_def)
qed

lemma validate_restart_limit: "validate_request sha url q = Inr r \<Longrightarrow> restart_limit r \<le> 1"
  using validate_accepts [of sha url q r] contract_accepts [of sha r] by (auto simp: restart_limit_def)

lemma finish_started:
  "finish r env s res d = (d', s', out) \<Longrightarrow> filter is_started (outs s') = filter is_started (outs s)"
  using finish_outs [of r env s res d d' s' out] by (auto simp: is_started_def)

text \<open>C11: a run launches at most two engines. The loop ends after the allowance of one process
  restart that the contract grants at most, whatever the engines, the clock and the
  environment do.\<close>

theorem at_most_two_launches:
  "length (filter is_started (outs (fst (snd (supervise sha url env q d))))) \<le> 2"
proof -
  obtain d' s out where run: "supervise sha url env q d = (d', s, out)" by (metis prod.exhaust)
  then show ?thesis
  proof (cases rule: supervise_cases)
    case (run r d1 s1 res)
    with end_rel_launches [OF sup_body_rel [OF run(3)]] sup_body_restarts [OF run(3)]
      validate_restart_limit [OF run(1)] finish_started [OF run(4)]
      \<open>supervise sha url env q d = _\<close>
    show ?thesis by simp
  qed (simp_all add: run init_sup_def)
qed

section \<open>Recovery\<close>

text \<open>The messages of a child that are rejected, from a given state on.\<close>

fun rejects :: "child_event list \<Rightarrow> sup \<times> child \<Rightarrow> bool" where
  "rejects [] sc = False"
| "rejects (Msg m # es) sc = ((\<exists>e. handle_message m sc = Inl e) \<or> rejects es (on_message m sc))"
| "rejects (Stop x # es) sc = rejects es (on_event (Stop x) sc)"

lemma protocol_error_kept:
  "on_event e (s, c) = (s', c') \<Longrightarrow> protocol_error c \<noteq> None \<Longrightarrow> protocol_error c' \<noteq> None"
  by (cases e) (auto simp: on_message_def handle_message_def Let_def split: sum.splits if_splits prod.splits)

lemma protocol_errors_kept:
  "on_events es (s, c) = (s', c') \<Longrightarrow> protocol_error c \<noteq> None \<Longrightarrow> protocol_error c' \<noteq> None"
proof (induction es arbitrary: s c)
  case (Cons e es)
  obtain s1 c1 where e: "on_event e (s, c) = (s1, c1)" by fastforce
  with Cons.prems(1) have "on_events es (s1, c1) = (s', c')" by (simp add: on_events_def)
  then show ?case using Cons.IH protocol_error_kept [OF e Cons.prems(2)] by blast
qed (simp add: on_events_def)

lemma rejects_error:
  "on_events es (s, c) = (s', c') \<Longrightarrow> rejects es (s, c) \<Longrightarrow> protocol_error c' \<noteq> None"
proof (induction es arbitrary: s c)
  case (Cons e es)
  obtain s1 c1 where e: "on_event e (s, c) = (s1, c1)" by fastforce
  with Cons.prems(1) have rest: "on_events es (s1, c1) = (s', c')" by (simp add: on_events_def)
  show ?case
  proof (cases "rejects es (s1, c1)")
    case True
    with Cons.IH rest show ?thesis by blast
  next
    case False
    with Cons.prems(2) e obtain m er where "e = Msg m" "handle_message m (s, c) = Inl er" by (cases e) auto
    with e have "protocol_error c1 \<noteq> None" by (auto simp: on_message_def)
    with rest show ?thesis by (rule protocol_errors_kept)
  qed
qed simp

text \<open>C4: the engine is restarted only when nothing can be running or lost. Another turn of the
  loop means that the checks passed and the engine was launched and exited without a terminal
  result, a fatal report, a rejected message, a stop or an owned shell, that the second
  inventory has no process beyond the baseline, and that the allowance is not used up; the
  usage is then uncertain for good.\<close>

theorem restart_only_when_safe:
  assumes "run_attempt r b e s = (s', None)"
  shows "\<exists>s2 c current. may_launch r e s \<and> launched e s = (s2, c)
    \<and> stopped s2 = None \<and> terminal c = None \<and> (fatal c = None \<or> fatal c = Some [])
    \<and> \<not> rejects (events e) (emit [Started (restarts s + 1)] s, new_child)
    \<and> active_shell c = [] \<and> inventory e = Inr current \<and> extra_processes b current = []
    \<and> restarts s < restart_limit r \<and> restarts s' = restarts s + 1 \<and> uncertain s'"
  using assms
proof (cases rule: run_attempt_cases)
  case (exited s2 c ec sig)
  note a = after_exit_again [OF exited(3)]
  have "\<not> rejects (events e) (emit [Started (restarts s + 1)] s, new_child)"
    using rejects_error exited(2) a(2) unfolding launched_def by blast
  with a exited(1,2) launched_restarts [OF exited(2)] show ?thesis by auto
qed simp_all

lemma reason_text_simps [simp]:
  "reason_text x \<noteq> js ''completed''" "js ''completed'' \<noteq> reason_text x" "reason_text x \<noteq> js ''failed''"
  by (simp_all add: reason_text_def split: stop_reason.split)

lemma catch_status: "catch s e = (s', res) \<Longrightarrow> status res \<noteq> js ''completed''"
  by (auto simp: catch_def split: option.splits)

lemma stop_result_status: "stop_result s = (s', res) \<Longrightarrow> status res \<noteq> js ''completed''"
  by (auto simp: stop_result_def Let_def)

lemma after_exit_error:
  assumes "after_exit r b e (s, c) = (s', res)" "protocol_error c \<noteq> None"
  shows "\<exists>x. res = Some x \<and> status x \<noteq> js ''completed'' \<and> uncertain s'"
  using assms by (auto simp: after_exit_def split: if_splits)

text \<open>C12: a protocol violation ends the run. When a message of the engine is rejected (an unknown
  type, a second terminal result, a shell guarded twice or released without a guard), the
  attempt ends the run, not completed, with its usage uncertain.\<close>

theorem rejected_message_fatal:
  assumes "run_attempt r b e s = (s', res)" and "may_launch r e s"
    and "rejects (events e) (emit [Started (restarts s + 1)] s, new_child)"
  shows "\<exists>x. res = Some x \<and> status x \<noteq> js ''completed'' \<and> uncertain s'"
  using assms(1)
proof (cases rule: run_attempt_cases)
  case (lost s2 c er)
  with catch_status [OF lost(3) [symmetric]] end_facts(1) [OF lost(3) [symmetric]] show ?thesis by auto
next
  case (exited s2 c ec sig)
  have "protocol_error c \<noteq> None" using rejects_error exited(2) assms(3) unfolding launched_def by blast
  with exited(3) show ?thesis by (rule after_exit_error)
qed (use assms(2) in auto)

section \<open>Completion\<close>

text \<open>The engine reported completion: an accepted terminal message with that status.\<close>

definition reports_completed :: "jsval \<Rightarrow> bool" where
  "reports_completed m \<longleftrightarrow> opt_get m ''type'' = Str (js ''terminal'')
     \<and> opt_get (opt_get m ''result'') ''status'' = Str (js ''completed'')"

definition terminal_msg :: "child_event list \<Rightarrow> jsval \<Rightarrow> bool" where
  "terminal_msg es t \<longleftrightarrow> (\<exists>m. Msg m \<in> set es \<and> opt_get m ''type'' = Str (js ''terminal'') \<and> t = opt_get m ''result'')
     \<and> opt_get t ''status'' \<in> {Str (js ''completed''), Str (js ''failed'')}"

lemma on_event_terminal:
  assumes "on_event e (s, c) = (s', c')" "terminal c' = Some t"
  shows "terminal c = Some t \<or> terminal_msg [e] t"
  using assms by (cases e)
    (auto simp: on_message_def handle_message_def Let_def terminal_msg_def split: sum.splits if_splits prod.splits)

lemma on_events_terminal:
  "on_events es (s, c) = (s', c') \<Longrightarrow> terminal c' = Some t \<Longrightarrow> terminal c = Some t \<or> terminal_msg es t"
proof (induction es arbitrary: s c)
  case (Cons e es)
  obtain s1 c1 where e: "on_event e (s, c) = (s1, c1)" by fastforce
  with Cons.prems(1) have "on_events es (s1, c1) = (s', c')" by (simp add: on_events_def)
  then have "terminal c1 = Some t \<or> terminal_msg es t" using Cons.IH Cons.prems(2) by blast
  then show ?case using on_event_terminal [OF e] by (auto simp: terminal_msg_def)
qed (simp add: on_events_def)

lemma launched_terminal: "launched e s = (s', c) \<Longrightarrow> terminal c = Some t \<Longrightarrow> terminal_msg (events e) t"
  unfolding launched_def by (drule (1) on_events_terminal) (simp add: new_child_def)

lemma after_exit_completed:
  assumes "after_exit r b e (s, c) = (s', Some res)" "status res = js ''completed''"
  shows "stopped s = None" "\<exists>t. terminal c = Some t \<and> to_str (opt_get t ''status'') = js ''completed''"
    "stopped s' = None"
  using assms by (auto simp: after_exit_def Let_def failed_def split: if_splits option.splits sum.splits prod.splits
      dest: catch_status)

definition completed_by :: "jsval \<Rightarrow> sup_env \<Rightarrow> sup \<Rightarrow> bool" where
  "completed_by r env s \<longleftrightarrow> (let e = attempt_at env (restarts s) in
     stopped s = None \<and> attempts s \<noteq> [] \<and> (\<exists>m. Msg m \<in> set (events e) \<and> reports_completed m))"

lemma run_attempt_completed:
  assumes "run_attempt r b (attempt_at env (restarts s)) s = (s', Some res)" "status res = js ''completed''"
  shows "completed_by r env s'"
  using assms(1)
proof (cases rule: run_attempt_cases)
  case (exited s2 c ec sig)
  note x = after_exit_completed [OF exited(3) assms(2)]
  from x(2) obtain t where t: "terminal c = Some t" "to_str (opt_get t ''status'') = js ''completed''" by blast
  from launched_terminal [OF exited(2) t(1)] t(2) have
    "\<exists>m. Msg m \<in> set (events (attempt_at env (restarts s))) \<and> reports_completed m"
    by (auto simp: terminal_msg_def reports_completed_def)
  with x(3) after_exit_end [OF exited(3)] launched_restarts [OF exited(2)]
  show ?thesis by (simp add: completed_by_def)
next
  case (lost s2 c er)
  with catch_status [OF lost(3) [symmetric]] assms(2) show ?thesis by simp
next
  case halted
  with stop_result_status [OF halted(1) [symmetric]] assms(2) show ?thesis by simp
next
  case late
  with stop_result_status [OF late(1) [symmetric]] assms(2) show ?thesis by simp
next
  case (refused er)
  with catch_status [OF refused(1) [symmetric]] assms(2) show ?thesis by simp
qed

lemma sup_body_completed:
  "sup_body r env d = (s', res) \<Longrightarrow> status res = js ''completed'' \<longrightarrow> completed_by r env s'"
  by (erule sup_body_rule [where P = "\<lambda>_. True"]) (auto dest: run_attempt_completed catch_status)

section \<open>Receipts\<close>

lemma receipt_names [simp]:
  "USAGE \<noteq> RECOVERY" "USAGE \<noteq> TERMINAL" "RECOVERY \<noteq> TERMINAL" "LOCK \<noteq> USAGE" "LOCK \<noteq> RECOVERY"
  "RECOVERY \<noteq> USAGE" "TERMINAL \<noteq> USAGE" "TERMINAL \<noteq> RECOVERY" "USAGE \<noteq> LOCK" "RECOVERY \<noteq> LOCK"
  by (simp_all add: file_names)

lemma lock_not_receipt_temp [simp]:
  "LOCK \<noteq> temp_name USAGE pid" "LOCK \<noteq> temp_name RECOVERY pid" "LOCK \<noteq> temp_name TERMINAL pid"
proof -
  have "take 2 LOCK \<noteq> take 2 (temp_name USAGE pid)" "take 2 LOCK \<noteq> take 2 (temp_name RECOVERY pid)"
    "take 2 LOCK \<noteq> take 2 (temp_name TERMINAL pid)"
    by (simp_all add: file_names temp_name_def js_def)
  then show "LOCK \<noteq> temp_name USAGE pid" "LOCK \<noteq> temp_name RECOVERY pid" "LOCK \<noteq> temp_name TERMINAL pid"
    by metis+
qed

lemma write_receipts_ok:
  assumes "write_receipts r env s res d = (d', s', Inr xc)"
  shows "\<exists>u. summarize_usage r (ledger s) (uncertain s) = Inr u
    \<and> ents d' USAGE = Some (File (json_line (usage_json u)))
    \<and> ents d' RECOVERY = Some (File (json_line (recovery_json r s res)))
    \<and> ents d' TERMINAL = Some (File (json_line (terminal_json r s res)))
    \<and> s' = emit [TerminalLog (status res) (restarts s)] s
    \<and> xc = (if status res = js ''completed'' then 0 else 1)"
  using assms
  by (auto simp: write_receipts_def split: sum.splits prod.splits unit.splits dest!: write_json_ok)

lemma write_receipts_lock:
  assumes "write_receipts r env s res d = (d', s', out)"
  shows "ents d' LOCK = ents d LOCK"
  using assms
  by (auto simp: write_receipts_def split: sum.splits prod.splits dest!: write_json_frame [where k = LOCK])

lemma finish_ok:
  assumes "finish r env s res d = (d', s', Inr xc)"
  shows "\<exists>d1. write_receipts r env s res d = (d1, s', Inr xc) \<and> d' = del_node LOCK d1"
  using assms by (auto simp: finish_def release_def split: prod.splits if_splits)

lemma finish_lock: "finish r env s res d = (d', s', out) \<Longrightarrow> ents d' LOCK = None"
  by (auto simp: finish_def release_def split: prod.splits if_splits)

lemma supervise_ok:
  assumes "supervise sha url env q d = (d', s', Inr xc)"
  shows "\<exists>d1 s res u. validate_request sha url q = Inr q
    \<and> prepare_state (prep_fault env) (own_pid env) d q = (d1, Inr ())
    \<and> sup_body q env d1 = (s, res) \<and> summarize_usage q (ledger s) (uncertain s) = Inr u
    \<and> ents d' USAGE = Some (File (json_line (usage_json u)))
    \<and> ents d' RECOVERY = Some (File (json_line (recovery_json q s res)))
    \<and> ents d' TERMINAL = Some (File (json_line (terminal_json q s res)))
    \<and> s' = emit [TerminalLog (status res) (restarts s)] s
    \<and> xc = (if status res = js ''completed'' then 0 else 1)"
  using assms
proof (cases rule: supervise_cases)
  case (run r d1 s res)
  from finish_ok [OF run(4)] obtain d2 where
    w: "write_receipts r env s res (run_effect env d1) = (d2, s', Inr xc)" "d' = del_node LOCK d2" by blast
  from validate_accepts [OF run(1)] have "r = q" by simp
  with run write_receipts_ok [OF w(1)] w(2) show ?thesis by auto
qed simp_all

text \<open>C2: exit code 0 means completion. \<open>supervise\<close> returns 0 only when no stop was requested,
  an engine was launched and exited, its last attempt delivered a terminal message with status
  \<open>completed\<close>, and the terminal receipt left in the state directory says so.\<close>

theorem exit_zero_means_completed:
  assumes "supervise sha url env q d = (d', s, Inr 0)"
  shows "stopped s = None \<and> attempts s \<noteq> []
    \<and> (\<exists>m. Msg m \<in> set (events (attempt_at env (restarts s))) \<and> reports_completed m)
    \<and> (\<exists>res. status res = js ''completed''
         \<and> ents d' TERMINAL = Some (File (json_line (terminal_json q s res))))"
proof -
  from supervise_ok [OF assms] obtain d1 s1 res where body: "sup_body q env d1 = (s1, res)"
    and t: "ents d' TERMINAL = Some (File (json_line (terminal_json q s1 res)))"
    and s: "s = emit [TerminalLog (status res) (restarts s1)] s1"
    and c: "status res = js ''completed''" by (auto split: if_splits)
  have "terminal_json q s res = terminal_json q s1 res" by (simp add: terminal_json_def s)
  with sup_body_completed [OF body] c t show ?thesis by (auto simp: completed_by_def s Let_def)
qed


section \<open>Certain usage\<close>

definition reports_incomplete :: "jsval \<Rightarrow> bool" where
  "reports_incomplete m \<longleftrightarrow> opt_get m ''type'' = Str (js ''usage-incomplete'')"

lemma non_object_type: "\<not> is_object m \<Longrightarrow> opt_get m ''type'' = Undef"
  by (cases m) (auto simp: opt_get_def)

lemma truthy_object: "\<not> truthy m \<Longrightarrow> opt_get m ''type'' = Undef"
  by (cases m) (auto simp: opt_get_def)

lemma on_event_certain:
  assumes "on_event e (s, c) = (s', c')" "\<not> uncertain s'"
  shows "\<not> uncertain s \<and> (\<forall>m. e = Msg m \<longrightarrow> \<not> reports_incomplete m)"
  using assms non_object_type truthy_object
  by (cases e) (auto simp: on_message_def handle_message_def Let_def reports_incomplete_def
      split: sum.splits if_splits prod.splits)

lemma on_events_certain:
  "on_events es (s, c) = (s', c') \<Longrightarrow> \<not> uncertain s' \<Longrightarrow>
   \<not> uncertain s \<and> (\<forall>m. Msg m \<in> set es \<longrightarrow> \<not> reports_incomplete m)"
proof (induction es arbitrary: s c)
  case (Cons e es)
  obtain s1 c1 where e: "on_event e (s, c) = (s1, c1)" by fastforce
  with Cons.prems(1) have "on_events es (s1, c1) = (s', c')" by (simp add: on_events_def)
  then have "\<not> uncertain s1 \<and> (\<forall>m. Msg m \<in> set es \<longrightarrow> \<not> reports_incomplete m)"
    using Cons.IH Cons.prems(2) by blast
  with on_event_certain [OF e] show ?case by auto
qed (simp add: on_events_def)

lemma on_event_attempts: "on_event e (s, c) = (s', c') \<Longrightarrow> attempts s' = attempts s"
  by (cases e) (auto simp: on_message_def handle_message_def Let_def split: sum.splits if_splits prod.splits)

lemma on_events_attempts: "on_events es (s, c) = (s', c') \<Longrightarrow> attempts s' = attempts s"
proof (induction es arbitrary: s c)
  case (Cons e es)
  obtain s1 c1 where e: "on_event e (s, c) = (s1, c1)" by fastforce
  with Cons.prems have "on_events es (s1, c1) = (s', c')" by (simp add: on_events_def)
  with Cons.IH on_event_attempts [OF e] show ?case by metis
qed (simp add: on_events_def)

lemma after_exit_certain:
  assumes "after_exit r b e (s, c) = (s', res)" "\<not> uncertain s'"
  shows "\<not> uncertain s \<and> (\<exists>x. res = Some x \<and> status x = js ''completed'')"
proof -
  have k: "uncertain s2" if "catch s1 er = (s2, x)" for s1 s2 er x using end_facts(1) [OF that] by simp
  show ?thesis using assms
    by (auto simp: after_exit_def Let_def split: if_splits option.splits sum.splits prod.splits dest: k)
qed

text \<open>Before each turn, and at the end.\<close>

definition certain_before :: "jsval \<Rightarrow> sdir \<Rightarrow> sup \<Rightarrow> bool" where
  "certain_before r d s \<longleftrightarrow> uncertain s \<or> (restarts s = 0 \<and> attempts s = [] \<and> initial_uncertain d r = Inr False)"

definition certain_end :: "jsval \<Rightarrow> sup_env \<Rightarrow> sdir \<Rightarrow> sup \<Rightarrow> run_result \<Rightarrow> bool" where
  "certain_end r env d s res \<longleftrightarrow> uncertain s \<or> (restarts s = 0 \<and> initial_uncertain d r = Inr False
     \<and> (attempts s = [] \<or> length (attempts s) = 1 \<and> status res = js ''completed''
          \<and> (\<forall>m. Msg m \<in> set (events (attempt_at env 0)) \<longrightarrow> \<not> reports_incomplete m)))"

lemma run_attempt_certain:
  assumes "run_attempt r b (attempt_at env (restarts s)) s = (s', res)" "certain_before r d s"
  shows "if res = None then certain_before r d s' else certain_end r env d s' (the res)"
  using assms(1)
proof (cases rule: run_attempt_cases)
  case halted
  with end_facts(2) [OF halted(1) [symmetric]] assms(2) show ?thesis
    by (auto simp: certain_before_def certain_end_def)
next
  case (refused er)
  with end_facts(1) [OF refused(1) [symmetric]] show ?thesis by (auto simp: certain_end_def)
next
  case late
  with end_facts(2) [OF late(1) [symmetric]] assms(2) show ?thesis
    by (auto simp: certain_before_def certain_end_def)
next
  case (lost s2 c er)
  with end_facts(1) [OF lost(3) [symmetric]] show ?thesis by (auto simp: certain_end_def)
next
  case (exited s2 c ec sig)
  show ?thesis
  proof (cases "uncertain s'")
    case True
    then show ?thesis by (simp add: certain_before_def certain_end_def)
  next
    case False
    note x = after_exit_certain [OF exited(3) False]
    then obtain y where y: "res = Some y" "status y = js ''completed''" by blast
    note keep = after_exit_end [OF exited(3) [unfolded y(1)]]
    have l: "on_events (events (attempt_at env (restarts s))) (emit [Started (restarts s + 1)] s, new_child) = (s2, c)"
      using exited(2) by (simp add: launched_def)
    from x have u: "\<not> uncertain s2" by simp
    have inc: "\<not> uncertain s \<and> (\<forall>m. Msg m \<in> set (events (attempt_at env (restarts s))) \<longrightarrow> \<not> reports_incomplete m)"
      using on_events_certain [OF l u] by simp
    with assms(2) have s: "restarts s = 0" "attempts s = []" "initial_uncertain d r = Inr False"
      by (auto simp: certain_before_def)
    have "attempts s2 = []" using on_events_attempts [OF l] s by simp
    with keep s y inc launched_restarts [OF exited(2)] show ?thesis by (simp add: certain_end_def)
  qed
qed

lemma sup_body_certain: "sup_body r env d = (s', res) \<Longrightarrow> certain_end r env d s' res"
proof (erule sup_body_rule [where P = "certain_before r d"])
  show "certain_before r d (stops (stops0 env) init_sup\<lparr>uncertain := u\<rparr>)" if "initial_uncertain d r = Inr u" for u
    using that by (cases u) (simp_all add: certain_before_def init_sup_def)
  show "certain_before r d s1" if "certain_before r d s" "run_attempt r b (attempt_at env (restarts s)) s = (s1, None)" for s s1 b
    using run_attempt_certain [OF that(2,1)] by simp
  show "certain_end r env d s1 res" if "certain_before r d s" "run_attempt r b (attempt_at env (restarts s)) s = (s1, Some res)" for s s1 res b
    using run_attempt_certain [OF that(2,1)] by simp
  show "certain_end r env d s1 res" if "catch s e = (s1, res)" for s s1 res e
    using end_facts(1) [OF that] by (simp add: certain_end_def)
qed


section \<open>Stops\<close>

definition stop_pending :: "stop_reason \<Rightarrow> sup \<Rightarrow> bool" where
  "stop_pending x s \<longleftrightarrow> stopped s = Some x \<and> outs s = [] \<and> attempts s = []"

lemma stops_first: "stopped (stops (x # xs) init_sup) = Some x"
proof -
  have "stopped (stop False x init_sup) = Some x" by (simp add: stop_def init_sup_def)
  from stops_stopped(1) [OF this, of xs] show ?thesis by (simp add: stops_def)
qed

lemma stop_pending_init: "stops0 env = x # xs \<Longrightarrow> stop_pending x (stops (stops0 env) init_sup\<lparr>uncertain := u\<rparr>)"
  by (simp add: stop_pending_def stops_first) (simp add: init_sup_def)

lemma sup_body_stopped:
  assumes "sup_body r env d = (s', res)" and x: "stops0 env = x # xs"
  shows "stop_pending x s' \<and> status res = reason_text x"
  using assms(1)
proof (rule sup_body_rule [where P = "stop_pending x"])
  show "stop_pending x (stops (stops0 env) init_sup\<lparr>uncertain := u\<rparr>)" for u using x by (rule stop_pending_init)
  show "stop_pending x s1" if "stop_pending x s" "run_attempt r b (attempt_at env (restarts s)) s = (s1, None)" for s s1 b
    using that by (simp add: run_attempt_def stop_pending_def split: prod.splits)
  show "stop_pending x s1 \<and> status res = reason_text x"
    if "stop_pending x s" "run_attempt r b (attempt_at env (restarts s)) s = (s1, Some res)" for s s1 res b
    using that by (auto simp: run_attempt_def stop_pending_def stop_result_def Let_def)
  show "stop_pending x s1 \<and> status res = reason_text x"
    if "stop_pending x s \<or> s = stops (stops0 env) init_sup" "catch s e = (s1, res)" for s s1 res e
  proof -
    have "stop_pending x s" using that(1) stops_first [of x xs] x by (auto simp: stop_pending_def) (simp_all add: init_sup_def)
    with that(2) show ?thesis by (auto simp: catch_def stop_pending_def)
  qed
qed

text \<open>A stop that arrives first wins. When a signal or the timer asks for a stop before the
  loop, no engine is ever launched, the exit code is 1 and the terminal receipt has the first
  reason as its status.\<close>

theorem stop_before_launch:
  assumes "supervise sha url env q d = (d', s, Inr xc)" and "stops0 env = x # xs"
  shows "attempts s = [] \<and> filter is_started (outs s) = [] \<and> stopped s = Some x \<and> xc = 1
    \<and> (\<exists>res. status res = reason_text x
         \<and> ents d' TERMINAL = Some (File (json_line (terminal_json q s res))))"
proof -
  from supervise_ok [OF assms(1)] obtain d1 s1 res where body: "sup_body q env d1 = (s1, res)"
    and t: "ents d' TERMINAL = Some (File (json_line (terminal_json q s1 res)))"
    and s: "s = emit [TerminalLog (status res) (restarts s1)] s1"
    and c: "xc = (if status res = js ''completed'' then 0 else 1)" by blast
  have "terminal_json q s res = terminal_json q s1 res" by (simp add: terminal_json_def s)
  with sup_body_stopped [OF body assms(2)] c t show ?thesis
    by (auto simp: stop_pending_def s is_started_def)
qed

section \<open>Stale results\<close>

lemma terminal_not_temp [simp]:
  "TERMINAL \<noteq> temp_name USAGE pid" "TERMINAL \<noteq> temp_name RECOVERY pid"
proof -
  have "take 1 TERMINAL \<noteq> take 1 (temp_name USAGE pid)" "take 1 TERMINAL \<noteq> take 1 (temp_name RECOVERY pid)"
    by (simp_all add: file_names temp_name_def js_def)
  then show "TERMINAL \<noteq> temp_name USAGE pid" "TERMINAL \<noteq> temp_name RECOVERY pid" by metis+
qed

lemma adopt_identity_terminal: "adopt_identity f pid d r = (d', Inr ()) \<Longrightarrow> ents d' TERMINAL = None"
  by (auto simp: adopt_identity_def split: sum.splits prod.splits)

lemma prepare_ok_terminal: "prepare_state f pid d r = (d', Inr ()) \<Longrightarrow> ents d' TERMINAL = None"
  using prepare_ok adopt_identity_terminal by blast

lemma write_receipts_terminal:
  assumes "write_receipts r env s res d = (d', s', out)"
  shows "ents d' TERMINAL = ents d TERMINAL \<or> ents d' TERMINAL = Some (File (json_line (terminal_json r s res)))"
proof -
  have ku: "ents d2 TERMINAL = ents d1 TERMINAL"
    if "write_json f pid d1 USAGE v n = (d2, x)" for f pid d1 v n d2 x
    using write_json_frame [OF that(1), of TERMINAL] by simp
  have kr: "ents d2 TERMINAL = ents d1 TERMINAL"
    if "write_json f pid d1 RECOVERY v n = (d2, x)" for f pid d1 v n d2 x
    using write_json_frame [OF that(1), of TERMINAL] by simp
  have t: "ents d2 TERMINAL = ents d1 TERMINAL \<or> ents d2 TERMINAL = Some (File (json_line v))"
    if "write_json f pid d1 TERMINAL v n = (d2, x)" for f pid d1 v n d2 x
    using write_json_cases [OF that] by auto
  show ?thesis using assms
    by (auto simp: write_receipts_def split: sum.splits prod.splits dest!: t ku kr)
qed

text \<open>No stale success. Once a run has taken the state directory, the terminal receipt of an
  earlier run is gone: whatever fails from then on, \<open>terminal.json\<close> is absent or is the
  receipt of this run. What the engine does to the directory is assumed to spare the file.\<close>

theorem no_stale_terminal:
  assumes "supervise sha url env q d = (d', s, out)" and "validate_request sha url q = Inr q"
    and "prepare_state (prep_fault env) (own_pid env) d q = (d1, Inr ())"
    and "\<And>x. ents (run_effect env x) TERMINAL = ents x TERMINAL"
  shows "ents d' TERMINAL = None \<or>
    (\<exists>res. ents d' TERMINAL = Some (File (json_line (terminal_json q s res))))"
  using assms(1)
proof (cases rule: supervise_cases)
  case (run r d2 s1 res)
  with assms(2,3) have r: "r = q" "d2 = d1" by auto
  obtain d3 out1 where w: "write_receipts q env s1 res (run_effect env d1) = (d3, s, out1)"
    and d': "ents d' TERMINAL = ents d3 TERMINAL"
    using run(4) r by (auto simp: finish_def release_def split: prod.splits if_splits)
  have "terminal_json q s res = terminal_json q s1 res"
    using finish_outs [OF run(4)] by (auto simp: terminal_json_def)
  with write_receipts_terminal [OF w] d' prepare_ok_terminal [OF assms(3)] assms(4) show ?thesis by metis
qed (use assms(2,3) in auto)

section \<open>Runs that exist\<close>

text \<open>Bounds on the length of receipts, and complete runs of the model on an example request.\<close>

lemma utf8_len_bound: "utf8_len s \<le> 3 * length s"
proof (induction s rule: utf8_len.induct)
  case (2 c s)
  show ?case
  proof (cases s)
    case Nil
    then show ?thesis by simp
  next
    case (Cons d r)
    show ?thesis
    proof (cases "is_high c \<and> is_low d \<and> 2048 \<le> c")
      case True
      with 2 Cons show ?thesis by simp
    next
      case False
      then have "utf8_len (c # s) \<le> 3 + utf8_len s" using Cons by auto
      moreover have "utf8_len s \<le> 3 * length s"
        using 2 False Cons by (metis not_less)
      ultimately show ?thesis by simp
    qed
  qed
qed simp

lemma json_line_bound: "utf8_len (json_line v) \<le> 3 * (json_bound v + 10)"
proof -
  have "length (json_line v) \<le> json_bound v + 10"
    by (cases "stringify v") (auto simp: json_line_def dest!: stringify_bound)
  then show ?thesis using utf8_len_bound [of "json_line v"] by (meson le_trans mult_le_mono2)
qed

lemma write_json_fits:
  assumes "ents d (temp_name nm pid) = None" "3 * (json_bound v + 10) \<le> limit"
  shows "write_json NoFault pid d nm v limit = (put_node nm (File (json_line v)) d, Inr ())"
  using assms json_line_bound [of v] by (simp add: write_json_def Let_def)


definition ex_attempt :: "child_event list \<Rightarrow> attempt_env" where
  "ex_attempt es = \<lparr>elapsed1 = 1, stops1 = [], journal_stat = Inr (File (js ''x'')),
     runtime_digest = Inr (ex_sha []), runner_digest = Inr (ex_sha []), elapsed2 = 2, events = es,
     exit_event = Inr (int_val 0, Null), stops2 = [], inventory = Inr [(1, js ''7'')]\<rparr>"

definition ex_env :: "stop_reason list \<Rightarrow> child_event list \<Rightarrow> sup_env" where
  "ex_env xs es = \<lparr>own_pid = 7, prep_fault = NoFault, stops0 = xs, baseline_inventory = Inr [(1, js ''7'')],
     attempt_at = (\<lambda>n. ex_attempt es), run_effect = put_node MAIN_JOURNAL (File (js ''x'')),
     usage_fault = NoFault, recovery_fault = NoFault, terminal_fault = NoFault\<rparr>"

definition ex_completed :: jsval where
  "ex_completed = Obj [(js ''type'', Str (js ''terminal'')), (js ''id'', int_val 1),
     (js ''result'', Obj [(js ''status'', Str (js ''completed'')), (js ''ledger'', ex_ledger)])]"

definition ex_ready :: sdir where
  "ex_ready = del_node TERMINAL (put_node IDENTITY (File (json_line ex_request))
     (put_node LOCK (File (dec_nat 7)) ex_dir))"

lemma ex_request_bound: "3 * (json_bound ex_request + 10) \<le> IDENTITY_LIMIT"
  by code_simp

lemma ex_prepare: "prepare_state NoFault 7 ex_dir ex_request = (ex_ready, Inr ())"
proof -
  let ?d = "put_node LOCK (File (dec_nat 7)) ex_dir"
  have "write_json NoFault 7 ?d IDENTITY ex_request IDENTITY_LIMIT
      = (put_node IDENTITY (File (json_line ex_request)) ?d, Inr ())"
    by (rule write_json_fits [OF _ ex_request_bound])
      (simp add: ex_dir_def lock_not_temp [symmetric] del: lock_not_temp)
  then show ?thesis
    by (simp add: prepare_state_def mkdir_p_def ex_dir_def adopt_identity_def stored_identity_def read_json_def
        check_identity_def ex_ready_def)
qed

lemma write_receipts_fits:
  assumes "usage_fault env = NoFault" "recovery_fault env = NoFault" "terminal_fault env = NoFault"
    and "summarize_usage r (ledger s) (uncertain s) = Inr u"
    and "\<And>nm. nm \<in> {USAGE, RECOVERY, TERMINAL} \<Longrightarrow> ents d (temp_name nm (own_pid env)) = None"
    and "3 * (json_bound (usage_json u) + 10) \<le> WRITE_LIMIT"
      "3 * (json_bound (recovery_json r s res) + 10) \<le> WRITE_LIMIT"
      "3 * (json_bound (terminal_json r s res) + 10) \<le> WRITE_LIMIT"
  shows "\<exists>d'. write_receipts r env s res d = (d', emit [TerminalLog (status res) (restarts s)] s,
      Inr (if status res = js ''completed'' then 0 else 1)) \<and> ents d' LOCK = ents d LOCK"
proof -
  have n: "temp_name RECOVERY pid \<noteq> USAGE" "temp_name TERMINAL pid \<noteq> USAGE" "temp_name TERMINAL pid \<noteq> RECOVERY" for pid
    using arg_cong [of "temp_name RECOVERY pid" USAGE "take 1"] arg_cong [of "temp_name TERMINAL pid" USAGE "take 1"]
      arg_cong [of "temp_name TERMINAL pid" RECOVERY "take 1"]
    by (auto simp: file_names temp_name_def js_def)
  let ?p = "own_pid env"
  let ?d1 = "put_node USAGE (File (json_line (usage_json u))) d"
  let ?d2 = "put_node RECOVERY (File (json_line (recovery_json r s res))) ?d1"
  have e: "ents d (temp_name USAGE ?p) = None" "ents ?d1 (temp_name RECOVERY ?p) = None"
    "ents ?d2 (temp_name TERMINAL ?p) = None"
    using assms(5) n by auto
  show ?thesis
    using write_json_fits [OF e(1) assms(6)] write_json_fits [OF e(2) assms(7)] write_json_fits [OF e(3) assms(8)]
    by (simp add: write_receipts_def assms(1-4))
qed

lemma finish_held:
  assumes "ents d LOCK \<noteq> None" "write_receipts r env s res d = (d', s', Inr xc)"
  shows "finish r env s res d = (del_node LOCK d', s', Inr xc)"
  using assms write_receipts_lock [OF assms(2)] by (simp add: finish_def release_def)

lemma sup_body_fresh:
  assumes "ents d USAGE = ents d' USAGE" "ents d JOURNAL = ents d' JOURNAL"
  shows "sup_body r env d = sup_body r env d'"
proof -
  have "initial_uncertain d r = initial_uncertain d' r"
    unfolding initial_uncertain_def read_json_def assms ..
  then show ?thesis by (simp add: sup_body_def)
qed

definition run_fits :: "jsval \<Rightarrow> sup \<times> run_result \<Rightarrow> bool" where
  "run_fits r p = (case p of (s, res) \<Rightarrow>
     (case summarize_usage r (ledger s) (uncertain s) of Inl e \<Rightarrow> False
      | Inr u \<Rightarrow> 3 * (json_bound (usage_json u) + 10) \<le> WRITE_LIMIT)
     \<and> 3 * (json_bound (recovery_json r s res) + 10) \<le> WRITE_LIMIT
     \<and> 3 * (json_bound (terminal_json r s res) + 10) \<le> WRITE_LIMIT)"

lemma sup_body_once:
  assumes "initial_uncertain d r = Inr False" "baseline_inventory env = Inr b"
    "run_attempt r b (attempt_at env 0) (stops (stops0 env) init_sup) = (s, Some res)"
  shows "sup_body r env d = (s, res)"
proof -
  let ?s = "stops (stops0 env) init_sup"
  have "?s\<lparr>uncertain := False\<rparr> = ?s" by (rule sup.equality) (simp_all add: init_sup_def)
  moreover have "restarts ?s = 0" by (simp add: init_sup_def)
  ultimately show ?thesis using assms by (simp add: sup_body_def sup_loop.simps [of r b "attempt_at env" ?s])
qed

definition ex_run :: "stop_reason list \<Rightarrow> child_event list \<Rightarrow> sup \<times> run_result option" where
  "ex_run xs es = run_attempt ex_request [(1, js ''7'')] (ex_attempt es) (stops xs init_sup)"

lemma ex_receipt_names: "nm \<in> {USAGE, RECOVERY, TERMINAL} \<Longrightarrow>
   ents (put_node MAIN_JOURNAL (File t) ex_ready) (temp_name nm 7) = None"
proof -
  assume nm: "nm \<in> {USAGE, RECOVERY, TERMINAL}"
  have d: "dec_nat 7 = [55]" by (simp add: dec_nat.simps)
  show ?thesis using nm by (auto simp: ex_ready_def ex_dir_def temp_name_def d file_names js_def)
qed

lemma ex_supervise:
  assumes "ex_run xs es = (s, Some res)" "run_fits ex_request (s, res)"
  shows "\<exists>d' s'. supervise ex_sha ex_url (ex_env xs es) ex_request ex_dir
    = (d', s', Inr (if status res = js ''completed'' then 0 else 1))"
proof -
  let ?e = "ex_env xs es"
  have "initial_uncertain ex_ready ex_request = Inr False"
    by (simp add: initial_uncertain_def read_json_def ex_ready_def ex_dir_def file_names)
  then have body: "sup_body ex_request ?e ex_ready = (s, res)"
    using assms(1) by (intro sup_body_once [where b = "[(1, js ''7'')]"]) (simp_all add: ex_env_def ex_run_def)
  let ?d = "run_effect ?e ex_ready"
  obtain u where u: "summarize_usage ex_request (ledger s) (uncertain s) = Inr u"
    "3 * (json_bound (usage_json u) + 10) \<le> WRITE_LIMIT"
    using assms(2) by (auto simp: run_fits_def split: sum.splits)
  have "\<exists>d1. write_receipts ex_request ?e s res ?d = (d1, emit [TerminalLog (status res) (restarts s)] s,
      Inr (if status res = js ''completed'' then 0 else 1)) \<and> ents d1 LOCK = ents ?d LOCK"
    using assms(2) u ex_receipt_names
    by (intro write_receipts_fits [where u = u]) (auto simp: run_fits_def ex_env_def)
  then obtain d1 where w: "write_receipts ex_request ?e s res ?d = (d1, emit [TerminalLog (status res) (restarts s)] s,
      Inr (if status res = js ''completed'' then 0 else 1))"
    by blast
  have "ents ?d LOCK \<noteq> None" by (simp add: ex_env_def ex_ready_def)
  from finish_held [OF this w] show ?thesis
    using body ex_prepare ex_request_valid by (simp add: supervise_def ex_env_def)
qed

lemma ex_run_completed: "(case ex_run [] [Msg ex_completed] of
    (s, Some res) \<Rightarrow> status res = js ''completed'' \<and> run_fits ex_request (s, res) | _ \<Rightarrow> False)"
  by code_simp

lemma ex_run_stopped: "(case ex_run [Cancelled] [] of (s, Some res) \<Rightarrow>
    status res = js ''cancelled'' \<and> run_fits ex_request (s, res) | _ \<Rightarrow> False)"
  by code_simp

lemma ex_run_crashed: "snd (ex_run [] []) = None"
  by code_simp

lemma ex_supervise_completed:
  "\<exists>d' s. supervise ex_sha ex_url (ex_env [] [Msg ex_completed]) ex_request ex_dir = (d', s, Inr 0)"
  using ex_run_completed ex_supervise [of "[]" "[Msg ex_completed]"] by (fastforce split: prod.splits option.splits)

lemma ex_supervise_stopped:
  "\<exists>d' s. supervise ex_sha ex_url (ex_env [Cancelled] []) ex_request ex_dir = (d', s, Inr 1)"
  using ex_run_stopped ex_supervise [of "[Cancelled]" "[]"] by (fastforce split: prod.splits option.splits)

lemma restart_only_when_safe_witness:
  "\<exists>c. snd (launched (ex_attempt []) init_sup) = c \<and> active_shell c = []
    \<and> extra_processes [(1, js ''7'')] [(1, js ''7'')] = []"
proof -
  have "run_attempt ex_request [(1, js ''7'')] (ex_attempt []) init_sup = (fst (ex_run [] []), None)"
    using ex_run_crashed by (simp add: ex_run_def prod_eq_iff)
  from restart_only_when_safe [OF this] show ?thesis by (auto simp: ex_attempt_def)
qed

lemma rejected_message_fatal_witness:
  "\<exists>s' x. run_attempt ex_request [] (ex_attempt [Msg Null]) init_sup = (s', Some x) \<and> status x \<noteq> js ''completed''"
proof -
  obtain s' res where run: "run_attempt ex_request [] (ex_attempt [Msg Null]) init_sup = (s', res)" by fastforce
  have "may_launch ex_request (ex_attempt [Msg Null]) init_sup" by code_simp
  moreover have "rejects (events (ex_attempt [Msg Null])) (emit [Started (restarts init_sup + 1)] init_sup, new_child)"
    by (simp add: ex_attempt_def handle_message_def)
  ultimately show ?thesis using rejected_message_fatal [OF run] run by auto
qed

lemma exit_zero_means_completed_witness:
  "\<exists>d' s. supervise ex_sha ex_url (ex_env [] [Msg ex_completed]) ex_request ex_dir = (d', s, Inr 0)
     \<and> stopped s = None \<and> ents d' TERMINAL \<noteq> None"
proof -
  obtain d' s where run: "supervise ex_sha ex_url (ex_env [] [Msg ex_completed]) ex_request ex_dir = (d', s, Inr 0)"
    using ex_supervise_completed by blast
  with exit_zero_means_completed [OF run] show ?thesis by auto
qed



lemma stop_before_launch_witness:
  "\<exists>d' s. supervise ex_sha ex_url (ex_env [Cancelled] []) ex_request ex_dir = (d', s, Inr 1)
     \<and> attempts s = [] \<and> stopped s = Some Cancelled"
proof -
  obtain d' s where run: "supervise ex_sha ex_url (ex_env [Cancelled] []) ex_request ex_dir = (d', s, Inr 1)"
    using ex_supervise_stopped by blast
  have "stops0 (ex_env [Cancelled] []) = Cancelled # []" by (simp add: ex_env_def)
  from stop_before_launch [OF run this] run show ?thesis by auto
qed

lemma no_stale_terminal_witness:
  "\<exists>d' s. supervise ex_sha ex_url (ex_env [] [Msg ex_completed]) ex_request ex_dir = (d', s, Inr 0)
     \<and> (ents d' TERMINAL = None \<or> (\<exists>res. ents d' TERMINAL = Some (File (json_line (terminal_json ex_request s res)))))"
proof -
  let ?e = "ex_env [] [Msg ex_completed]"
  obtain d' s where run: "supervise ex_sha ex_url ?e ex_request ex_dir = (d', s, Inr 0)"
    using ex_supervise_completed by blast
  have "prepare_state (prep_fault ?e) (own_pid ?e) ex_dir ex_request = (ex_ready, Inr ())"
    using ex_prepare by (simp add: ex_env_def)
  moreover have "ents (run_effect ?e x) TERMINAL = ents x TERMINAL" for x by (simp add: ex_env_def file_names)
  ultimately show ?thesis using no_stale_terminal [OF run ex_request_valid] run by blast
qed

end
