(* ===== verification/Pi_Engine_Facts.thy ===== *)
theory Pi_Engine_Facts imports Pi_Engine begin

text \<open>
  What \<^verbatim>\<open>agents/pi/src/engine.mjs\<close> guarantees: the audit stream has each new entry once and in
  order, brackets every tool call, run and compaction, every unmetered provider attempt is
  reported before its result is delivered, a shell runs only after its announcement was
  acknowledged, and everything the engine opened is closed.
\<close>

section \<open>Tool calls\<close>

lemma map_of_map_set [simp]: "map_of (map_set m k v) k' = (if k = k' then Some v else map_of m k')"
  by (induction m k v rule: map_set.induct) auto

lemma map_set_keys: "fst ` set (map_set m k v) = insert k (fst ` set m)"
  by (induction m k v rule: map_set.induct) auto

lemma map_set_distinct: "distinct (map fst m) \<Longrightarrow> distinct (map fst (map_set m k v))"
proof (induction m k v rule: map_set.induct)
  case (2 k' v' m k v)
  then show ?case using map_set_keys [of m k v] by auto
qed simp

lemma tool_slots_distinct: "distinct (map fst (tool_slots (l :: 'o live)))"
proof -
  have "distinct (map fst m) \<Longrightarrow> distinct (map fst (foldl (\<lambda>m s. map_set m (call_id s) s) m ts))"
    for m and ts :: "'o slot list"
    by (induction ts arbitrary: m) (auto intro: map_set_distinct)
  then show ?thesis by (simp add: tool_slots_def)
qed

datatype mark = Begun | Ended

definition marks :: "jstr \<Rightarrow> 'o event list \<Rightarrow> mark list" where
  "marks c es = concat (map (\<lambda>e. case e of Tool_start d _ \<Rightarrow> if d = c then [Begun] else []
     | Tool_end d _ _ \<Rightarrow> if d = c then [Ended] else [] | _ \<Rightarrow> []) es)"

lemma marks_append [simp]: "marks c (xs @ ys) = marks c xs @ marks c ys" "marks c [] = []"
  by (simp_all add: marks_def)

definition slot_of :: "('o, 'u) view \<Rightarrow> jstr \<Rightarrow> 'o slot option" where
  "slot_of v c = map_of (tool_slots (live_state v)) c"

definition slot_marks :: "'o slot option \<Rightarrow> 'o slot option \<Rightarrow> mark list" where
  "slot_marks old new = (case new of None \<Rightarrow> [] | Some s \<Rightarrow>
     (if slot_status s \<noteq> js ''pending'' \<and> \<not> status_is old ''running'' \<and> \<not> status_is old ''done'' then [Begun] else [])
   @ (if slot_status s = js ''done'' \<and> \<not> status_is old ''done'' then [Ended] else []))"

lemma marks_slot_events:
  "marks c (slot_events old (d, s)) = (if d = c then slot_marks (map_of old c) (Some s) else [])"
  by (auto simp: slot_events_def slot_marks_def marks_def Let_def split: option.splits)

lemma marks_slots:
  assumes "distinct (map fst ps)"
  shows "marks c (concat (map (slot_events old) ps)) = slot_marks (map_of old c) (map_of ps c)"
  using assms
proof (induction ps)
  case (Cons p ps)
  obtain d s where p: "p = (d, s)" by fastforce
  have "d = c \<Longrightarrow> map_of ps c = None" using Cons.prems p by (auto simp: map_of_eq_None_iff)
  with Cons p show ?case by (auto simp: marks_slot_events slot_marks_def)
qed (simp add: slot_marks_def)

lemma marks_other [simp]:
  "marks c (entry_events x y) = []" "marks c (run_events l l') = []" "marks c (compaction_events l l') = []"
  "marks c (failure_events l l') = []" "marks c (generation_events l l') = []"
  by (auto simp: marks_def entry_events_def entry_event_def run_events_def compaction_events_def
      failure_events_def generation_events_def split: option.splits)

lemma marks_view_events: "marks c (view_events v w) = slot_marks (slot_of v c) (slot_of w c)"
  using marks_slots [OF tool_slots_distinct] by (simp add: view_events_def Let_def slot_of_def)

text \<open>How far a call has come, and the histories the library produces for one call: absent, then
  pending, running and done in this order with stages possibly skipped, then absent for good.\<close>

definition stage :: "'o slot option \<Rightarrow> nat" where
  "stage s = (if status_is s ''done'' then 2 else if status_is s ''running'' then 1 else 0)"

definition known :: "'o slot \<Rightarrow> bool" where
  "known s \<longleftrightarrow> slot_status s \<in> {js ''pending'', js ''running'', js ''done''}"

fun ordered :: "'o slot option list \<Rightarrow> bool" where
  "ordered [] = True"
| "ordered (None # hs) = (\<forall>h \<in> set hs. h = None)"
| "ordered (Some s # hs) = (known s \<and> ordered hs \<and> (case hs of h # _ \<Rightarrow> h = None \<or> stage (Some s) \<le> stage h | [] \<Rightarrow> True))"

definition proper :: "'o slot option list \<Rightarrow> bool" where
  "proper hs \<longleftrightarrow> ordered (dropWhile (\<lambda>h. h = None) hs)"

definition marks_between :: "nat \<Rightarrow> nat \<Rightarrow> mark list" where
  "marks_between a b = (if a = 0 \<and> 1 \<le> b then [Begun] else []) @ (if a \<le> 1 \<and> 2 \<le> b then [Ended] else [])"

lemma marks_between_refl [simp]: "marks_between a a = []"
  by (simp add: marks_between_def) arith

lemma marks_between_trans: "a \<le> b \<Longrightarrow> b \<le> c \<Longrightarrow> marks_between a b @ marks_between b c = marks_between a c"
  by (auto simp: marks_between_def)

lemma stage_le: "stage s \<le> 2"
  by (simp add: stage_def)

lemma slot_marks_stage:
  "known s \<Longrightarrow> stage old \<le> stage (Some s) \<Longrightarrow> slot_marks old (Some s) = marks_between (stage old) (stage (Some s))"
  by (auto simp: slot_marks_def marks_between_def stage_def known_def status_is_def split: option.splits if_splits)

fun hist_marks :: "'o slot option \<Rightarrow> 'o slot option list \<Rightarrow> mark list" where
  "hist_marks old [] = []"
| "hist_marks old (h # hs) = slot_marks old h @ hist_marks h hs"

lemma marks_audit: "marks c (audit v ws) = hist_marks (slot_of v c) (map (\<lambda>w. slot_of w c) ws)"
  by (induction ws arbitrary: v) (simp_all add: marks_view_events)

fun top_stage :: "'o slot option list \<Rightarrow> nat" where
  "top_stage [] = 0"
| "top_stage (h # hs) = max (stage h) (top_stage hs)"

lemma stage_None [simp]: "stage None = 0"
  by (simp add: stage_def status_is_def)

lemma absent_marks: "\<forall>h \<in> set hs. h = None \<Longrightarrow> hist_marks old hs = [] \<and> top_stage hs = 0"
  by (induction hs arbitrary: old) (simp_all add: slot_marks_def)

lemma ordered_marks:
  "ordered (Some s # hs) \<Longrightarrow> hist_marks (Some s) hs = marks_between (stage (Some s)) (max (stage (Some s)) (top_stage hs))"
proof (induction hs arbitrary: s)
  case (Cons h hs)
  show ?case
  proof (cases h)
    case None
    with Cons.prems have "\<forall>x \<in> set hs. x = None" by simp
    from absent_marks [OF this] None show ?thesis by (simp add: slot_marks_def)
  next
    case (Some t)
    with Cons.prems have o: "ordered (Some t # hs)" and le: "stage (Some s) \<le> stage (Some t)" and k: "known t" by auto
    have "hist_marks (Some s) (h # hs) = marks_between (stage (Some s)) (stage (Some t))
        @ marks_between (stage (Some t)) (max (stage (Some t)) (top_stage hs))"
      using Cons.IH [OF o] slot_marks_stage [OF k le] Some by simp
    also have "\<dots> = marks_between (stage (Some s)) (max (stage (Some t)) (top_stage hs))"
      using le by (intro marks_between_trans) auto
    finally show ?thesis using le Some by (simp add: max.absorb2)
  qed
qed simp

lemma proper_marks: "proper hs \<Longrightarrow> hist_marks None hs = marks_between 0 (top_stage hs)"
proof (induction hs)
  case (Cons h hs)
  show ?case
  proof (cases h)
    case None
    with Cons show ?thesis by (simp add: proper_def slot_marks_def)
  next
    case (Some s)
    with Cons.prems have o: "ordered (Some s # hs)" by (simp add: proper_def)
    then have k: "known s" by simp
    have "hist_marks None (h # hs) = marks_between 0 (stage (Some s)) @ marks_between (stage (Some s)) (max (stage (Some s)) (top_stage hs))"
      using ordered_marks [OF o] slot_marks_stage [OF k, of None] Some by simp
    also have "\<dots> = marks_between 0 (max (stage (Some s)) (top_stage hs))" by (rule marks_between_trans) auto
    finally show ?thesis using Some by simp
  qed
qed simp


section \<open>Entries\<close>

definition entries_of :: "'o event list \<Rightarrow> entry list" where
  "entries_of es = concat (map (\<lambda>e. case e of Message_end x \<Rightarrow> [x] | Entry_appended x \<Rightarrow> [x] | _ \<Rightarrow> []) es)"

lemma entries_of_append [simp]: "entries_of (xs @ ys) = entries_of xs @ entries_of ys" "entries_of [] = []"
  by (simp_all add: entries_of_def)

lemma entries_of_entry_events [simp]:
  "entries_of (entry_events old new) = filter (\<lambda>e. entry_id e \<notin> entry_id ` set old) new"
proof -
  have "entries_of (map entry_event es) = es" for es
    by (induction es) (simp_all add: entries_of_def entry_event_def)
  then show ?thesis by (simp add: entry_events_def)
qed

lemma entries_of_other [simp]:
  "entries_of (run_events l l') = []" "entries_of (compaction_events l l') = []"
  "entries_of (failure_events l l') = []" "entries_of (generation_events l l') = []"
  "entries_of (slot_events m p) = []"
  by (auto simp: entries_of_def run_events_def compaction_events_def slot_events_def Let_def
      failure_events_def generation_events_def split: option.splits prod.splits)

lemma entries_of_slots [simp]: "entries_of (concat (map (slot_events m) ps)) = []"
  by (induction ps) simp_all

lemma entries_of_view: "entries_of (view_events v w) = filter (\<lambda>e. entry_id e \<notin> entry_id ` set (entries v)) (entries w)"
  by (simp add: view_events_def Let_def)

text \<open>Each view has the entries of the one before, and possibly more.\<close>

fun growing :: "('o, 'u) view list \<Rightarrow> bool" where
  "growing (v # w # ws) = ((\<exists>more. entries w = entries v @ more) \<and> growing (w # ws))"
| "growing _ = True"

lemma growing_last: "growing (v # ws) \<Longrightarrow> \<exists>more. entries (last (v # ws)) = entries v @ more"
proof (induction ws arbitrary: v)
  case (Cons w ws)
  from Cons.prems obtain more where "entries w = entries v @ more" by auto
  moreover from Cons obtain more' where "entries (last (w # ws)) = entries w @ more'" by auto
  ultimately show ?case by simp
qed simp

text \<open>No entry is lost, repeated or reordered. When the conversation only grows and its entry
  ids are distinct, the audit stream reports exactly the entries after those of the first
  view, in their order.\<close>

theorem entries_reported_once:
  assumes "growing (v # ws)" and "distinct (map entry_id (entries (last (v # ws))))"
  shows "entries (last (v # ws)) = entries v @ entries_of (audit v ws)"
  using assms
proof (induction ws arbitrary: v)
  case (Cons w ws)
  from Cons.prems(1) obtain more where w: "entries w = entries v @ more" and g: "growing (w # ws)" by auto
  obtain rest where l: "entries (last (w # ws)) = entries w @ rest" using growing_last [OF g] by blast
  have d: "distinct (map entry_id (entries (last (w # ws))))" using Cons.prems(2) by simp
  then have "filter (\<lambda>e. entry_id e \<notin> entry_id ` set (entries v)) more = more"
    unfolding l w by (auto simp: filter_id_conv)
  then have "entries_of (view_events v w) = more" by (simp add: entries_of_view w)
  with Cons.IH [OF g d] w show ?case by simp
qed simp

section \<open>Runs and compactions\<close>

text \<open>What is open: whether a run is, and which compactions. \<open>replay\<close> follows the audit events and
  refuses to open what is open or close what is not.\<close>

fun replay1 :: "'o event \<Rightarrow> bool \<times> jstr set \<Rightarrow> (bool \<times> jstr set) option" where
  "replay1 (Run_start _ _) (b, cs) = (if b then None else Some (True, cs))"
| "replay1 (Run_end _ _) (b, cs) = (if b then Some (False, cs) else None)"
| "replay1 (Compaction_start t _ _) (b, cs) = (if t \<in> cs then None else Some (b, insert t cs))"
| "replay1 (Compaction_end t) (b, cs) = (if t \<in> cs then Some (b, cs - {t}) else None)"
| "replay1 _ st = Some st"

fun replay :: "'o event list \<Rightarrow> bool \<times> jstr set \<Rightarrow> (bool \<times> jstr set) option" where
  "replay [] st = Some st"
| "replay (e # es) st = (case replay1 e st of None \<Rightarrow> None | Some st' \<Rightarrow> replay es st')"

lemma replay_append:
  "replay (xs @ ys) st = (case replay xs st of None \<Rightarrow> None | Some st' \<Rightarrow> replay ys st')"
  by (induction xs arbitrary: st) (auto split: option.split)

definition neutral :: "'o event list \<Rightarrow> bool" where
  "neutral es \<longleftrightarrow> (\<forall>st. replay es st = Some st)"

lemma neutralI: "\<forall>e \<in> set es. \<forall>st. replay1 e st = Some st \<Longrightarrow> neutral es"
  unfolding neutral_def by (induction es) auto

lemma neutral_parts:
  "neutral (entry_events x y)" "neutral (concat (map (slot_events m) ps))"
  "neutral (failure_events l l')" "neutral (generation_events l l')"
  by (rule neutralI, auto simp: entry_events_def entry_event_def slot_events_def Let_def failure_events_def
      generation_events_def split: option.splits if_splits)+

definition open_work :: "('o, 'u) view \<Rightarrow> bool \<times> jstr set" where
  "open_work v = (run (live_state v) \<noteq> None, comp_task ` set (compactions (live_state v)))"

lemma replay_runs: "replay (run_events l l') (run l \<noteq> None, cs) = Some (run l' \<noteq> None, cs)"
  by (auto simp: run_events_def split: option.splits)

lemma replay_starts:
  "distinct (map comp_task xs) \<Longrightarrow> comp_task ` set xs \<inter> cs = {} \<Longrightarrow>
   replay (map (\<lambda>c. Compaction_start (comp_task c) (comp_trigger c) (comp_attempt c)) xs) (b, cs)
     = Some (b, cs \<union> comp_task ` set xs)"
  by (induction xs arbitrary: cs) auto

lemma replay_ends:
  "distinct (map comp_task xs) \<Longrightarrow> comp_task ` set xs \<subseteq> cs \<Longrightarrow>
   replay (map (\<lambda>c. Compaction_end (comp_task c)) xs) (b, cs) = Some (b, cs - comp_task ` set xs)"
proof (induction xs arbitrary: cs)
  case (Cons x xs)
  then have x: "comp_task x \<in> cs" "comp_task ` set xs \<subseteq> cs - {comp_task x}" by (auto simp: image_iff)
  from Cons.IH [of "cs - {comp_task x}"] Cons.prems x show ?case by (simp add: Diff_insert2 [symmetric])
qed simp

lemma replay_compactions:
  fixes l :: "'o live"
  assumes "distinct (map comp_task (compactions l))" "distinct (map comp_task (compactions l'))"
  shows "replay (compaction_events l l') (b, comp_task ` set (compactions l)) = Some (b, comp_task ` set (compactions l'))"
proof -
  let ?o = "comp_task ` set (compactions l)" and ?n = "comp_task ` set (compactions l')"
  let ?new = "filter (\<lambda>c. comp_task c \<notin> ?o) (compactions l')"
  let ?old = "filter (\<lambda>c. comp_task c \<notin> ?n) (compactions l)"
  have "replay (map (\<lambda>c. Compaction_start (comp_task c) (comp_trigger c) (comp_attempt c) :: 'o event) ?new) (b, ?o)
      = Some (b, ?o \<union> comp_task ` set ?new)"
    using assms(2) by (intro replay_starts) (auto simp: distinct_map_filter)
  moreover have "replay (map (\<lambda>c. Compaction_end (comp_task c) :: 'o event) ?old) (b, ?o \<union> comp_task ` set ?new)
      = Some (b, (?o \<union> comp_task ` set ?new) - comp_task ` set ?old)"
    using assms(1) by (intro replay_ends) (auto simp: distinct_map_filter)
  moreover have "(?o \<union> comp_task ` set ?new) - comp_task ` set ?old = ?n"
    by (auto simp: image_iff)
  ultimately show ?thesis by (simp add: compaction_events_def replay_append)
qed

lemma replay_view:
  assumes "distinct (map comp_task (compactions (live_state v)))"
    "distinct (map comp_task (compactions (live_state w)))"
  shows "replay (view_events v w) (open_work v) = Some (open_work w)"
  unfolding view_events_def Let_def replay_append open_work_def
  by (simp only: neutral_parts [unfolded neutral_def, rule_format] replay_runs replay_compactions [OF assms]
      option.case)


section \<open>Metering\<close>

definition pushed :: "track_act list \<Rightarrow> stream_event list" where
  "pushed as = concat (map (\<lambda>a. case a of Push e \<Rightarrow> [e] | _ \<Rightarrow> []) as)"

fun metered :: "track_act list \<Rightarrow> bool" where
  "metered (Push e # as) = (\<not> unmetered e \<and> metered as)"
| "metered (Notify_incomplete # Push e # as) = metered as"
| "metered (_ # as) = metered as"
| "metered [] = True"

lemma track_metered: "metered (track acks ok es)"
  by (induction acks ok es rule: track.induct) (auto split: list.split bool.split)

lemma track_pushed: "\<exists>rest. es = pushed (track acks ok es) @ rest"
  by (induction acks ok es rule: track.induct) (auto simp: pushed_def split: list.split bool.split)

lemma metered_split: "metered (xs @ Push e # ys) \<Longrightarrow> unmetered e \<Longrightarrow> \<exists>zs. xs = zs @ [Notify_incomplete]"
proof (induction xs rule: metered.induct)
  case (1 a as)
  then show ?case by (cases as rule: rev_cases) auto
next
  case (2 a as)
  then show ?case by (cases as rule: rev_cases) auto
qed auto

text \<open>An unmetered attempt is never delivered unreported. Whatever a provider stream yields
  and however its notifications fare, what the harness sees is a prefix of the stream in
  order, and each final event without token counts, and each error, comes right after a
  \<open>usage-incomplete\<close> notification.\<close>

theorem unmetered_reported_first:
  shows "(\<exists>rest. es = pushed (track acks ok es) @ rest)
    \<and> (\<forall>xs e ys. track acks ok es = xs @ Push e # ys \<longrightarrow> unmetered e \<longrightarrow> (\<exists>zs. xs = zs @ [Notify_incomplete]))"
  using track_pushed track_metered metered_split by metis

section \<open>The life cycle\<close>

lemma run_steps_ok: "run_steps f ss = (tr, None) \<Longrightarrow> tr = ss \<and> (\<forall>s \<in> set ss. f s = None)"
  by (induction ss arbitrary: tr) (auto split: option.splits prod.splits)

lemma cleanup_closes:
  "Watch \<in> set tr \<Longrightarrow> f Watch = None \<Longrightarrow> Stop_events \<in> set (tr @ cleanup f tr)"
  "Open_harness \<in> set tr \<Longrightarrow> f Open_harness = None \<Longrightarrow> Close_harness \<in> set (tr @ cleanup f tr)"
  by (auto simp: cleanup_def is_set_def)

lemma cleanup_no_open: "s \<in> set (cleanup f tr) \<Longrightarrow> s \<in> {Stop_events, Close_harness}"
  by (auto simp: cleanup_def split: if_splits)


section \<open>Witnesses\<close>

definition ex_view :: "nat slot list \<Rightarrow> entry list \<Rightarrow> (nat, nat) view" where
  "ex_view ss es = \<lparr>conversation = js ''c'', entries = es, before = Null,
     live_doc = Some \<lparr>tools = ss, run = None, run_failure = Undef, compactions = [], comp_failure = None,
       generation = None\<rparr>, usage_doc = None\<rparr>"

definition ex_slot :: "string \<Rightarrow> nat slot" where
  "ex_slot st = \<lparr>call_id = js ''t1'', slot_name = js ''bash'', slot_status = js st, slot_output = 0, slot_entry = Null\<rparr>"


lemma entries_reported_once_witness:
  "entries_of (audit (ex_view [] []) [ex_view [] [\<lparr>entry_id = js ''a'', entry_kind = js ''x'', entry_body = Null\<rparr>]])
     = [\<lparr>entry_id = js ''a'', entry_kind = js ''x'', entry_body = Null\<rparr>]"
  using entries_reported_once [of "ex_view [] []" "[ex_view [] [\<lparr>entry_id = js ''a'', entry_kind = js ''x'', entry_body = Null\<rparr>]]"]
  by (simp add: ex_view_def)


lemma unmetered_reported_first_witness:
  "\<exists>zs. [Notify_incomplete] = zs @ [Notify_incomplete] \<and> pushed (track [True] True [Error_event Null]) = [Error_event Null]"
  using unmetered_reported_first [of "[Error_event Null]" "[True]" True]
  by (auto simp: unmetered_def pushed_def)


end
