(* ===== verification/Pi_System.thy ===== *)
theory Pi_System imports Pi_Runner Pi_Supervisor_Facts Pi_Engine_Facts begin

text \<open>
  The engine process and its supervisor together: the numbered notifications of
  \<^verbatim>\<open>agents/pi/src/runner.mjs\<close>, the two message queues between the processes, and the handler of
  \<^verbatim>\<open>agents/pi/src/supervisor.mjs\<close>. A step posts a message, handles one, delivers an
  acknowledgement, fails a send or delivers a stop; any interleaving is a run.
\<close>

section \<open>The composed system\<close>

record system =
  posted :: "jsval list" \<comment> \<open>message \<open>i\<close> at index \<open>i - 1\<close>\<close>
  queue :: "(nat \<times> jsval) list" \<comment> \<open>on the way to the supervisor\<close>
  handled :: "(nat \<times> bool) list" \<comment> \<open>in order, and whether accepted\<close>
  side :: "sup \<times> child"
  acks :: "jsval list" \<comment> \<open>ids on the way back\<close>
  chan :: channel

definition accepts :: "jsval \<Rightarrow> sup \<times> child \<Rightarrow> bool" where
  "accepts m sc \<longleftrightarrow> (\<exists>r. handle_message m sc = Inr r)"

definition start_system :: "sup \<Rightarrow> system" where
  "start_system s = \<lparr>posted = [], queue = [], handled = [], side = (s, new_child), acks = [], chan = new_channel\<rparr>"

definition ack_message :: "jsval \<Rightarrow> jsval" where
  "ack_message a = Obj [(js ''type'', Str (js ''ack'')), (js ''id'', a)]"

definition stop_message :: jsval where
  "stop_message = Obj [(js ''type'', Str (js ''stop''))]"

definition plain_payload :: "(jstr \<times> jsval) list \<Rightarrow> bool" where
  "plain_payload p \<longleftrightarrow> (\<forall>kv \<in> set p. fst kv \<noteq> js ''type'' \<and> fst kv \<noteq> js ''id'')"

definition post_message :: "string \<Rightarrow> (jstr \<times> jsval) list \<Rightarrow> system \<Rightarrow> system" where
  "post_message ty p y = (case notify ty p (chan y) of (c, m) \<Rightarrow>
     y\<lparr>chan := c, posted := posted y @ [m], queue := queue y @ [(sequence c, m)]\<rparr>)"

definition handle_next :: "nat \<Rightarrow> jsval \<Rightarrow> (nat \<times> jsval) list \<Rightarrow> system \<Rightarrow> system" where
  "handle_next i m q y = y\<lparr>queue := q, handled := handled y @ [(i, accepts m (side y))],
     side := on_message m (side y),
     acks := acks y @ (if accepts m (side y) \<and> opt_get m ''id'' \<noteq> Undef then [opt_get m ''id''] else [])\<rparr>"

inductive sys_step :: "system \<Rightarrow> system \<Rightarrow> bool" where
  post: "plain_payload p \<Longrightarrow> sys_step y (post_message ty p y)"
| handle: "queue y = (i, m) # q \<Longrightarrow> sys_step y (handle_next i m q y)"
| deliver: "acks y = a # as \<Longrightarrow> sys_step y (y\<lparr>acks := as, chan := receive (ack_message a) (chan y)\<rparr>)"
| fail: "i \<in> set (pending (chan y)) \<Longrightarrow>
    sys_step y (y\<lparr>chan := send_failed i (chan y), queue := filter (\<lambda>p. fst p \<noteq> i) (queue y)\<rparr>)"
| stopping: "sys_step y (y\<lparr>chan := receive stop_message (chan y), side := on_event (Stop x) (side y)\<rparr>)"

inductive_cases sys_stepE: "sys_step y y'"

inductive reachable :: "sup \<Rightarrow> system \<Rightarrow> bool" for s where
  init: "reachable s (start_system s)"
| step: "reachable s y \<Longrightarrow> sys_step y y' \<Longrightarrow> reachable s y'"

section \<open>The channel alone\<close>

text \<open>Every notification is exactly one of pending, resolved and rejected.\<close>

definition chan_ok :: "channel \<Rightarrow> bool" where
  "chan_ok c \<longleftrightarrow> distinct (pending c @ map fst (settled_ids c))
     \<and> set (pending c) \<union> fst ` set (settled_ids c) = {1..sequence c}"

lemma chan_ok_notify: "chan_ok c \<Longrightarrow> notify ty p c = (c', m) \<Longrightarrow> chan_ok c'"
proof -
  assume c: "chan_ok c" and n: "notify ty p c = (c', m)"
  let ?i = "sequence c + 1" and ?old = "pending c @ map fst (settled_ids c)"
  have old: "distinct ?old" "set ?old = {1..sequence c}" using c by (auto simp: chan_ok_def)
  then have "?i \<notin> set ?old" by simp
  moreover have "insert ?i (set ?old) = {1..?i}" unfolding old(2) by auto
  moreover have "pending c' = pending c @ [?i]" "settled_ids c' = settled_ids c" "sequence c' = ?i"
    using n by (auto simp: notify_def Let_def)
  ultimately show ?thesis using old(1) by (simp add: chan_ok_def)
qed

lemma chan_ok_settle_forget:
  "chan_ok c \<Longrightarrow> i \<in> set (pending c) \<Longrightarrow> chan_ok (forget i (settle i b c))"
  "chan_ok c \<Longrightarrow> i \<in> set (pending c) \<Longrightarrow> chan_ok (settle i b (forget i c))"
  by (auto simp: chan_ok_def settle_def forget_def)

lemma chan_ok_on_stop [simp]: "chan_ok (on_stop c) = chan_ok c"
  by (simp add: chan_ok_def on_stop_def)

lemma find_pending_Some: "find_pending c v = Some i \<Longrightarrow> i \<in> set (pending c) \<and> same_zero (int_val (int i)) v"
  by (auto simp: find_pending_def find_Some_iff)

lemma receive_cases:
  "receive m c = c \<or> receive m c = on_stop c
   \<or> (\<exists>i. i \<in> set (pending c) \<and> same_zero (int_val (int i)) (opt_get m ''id'') \<and> receive m c = forget i (settle i True c))"
proof (cases "opt_get m ''type'' = Str (js ''stop'')")
  case True
  then show ?thesis by (simp add: receive_def Let_def)
next
  case False
  then show ?thesis using find_pending_Some [of c "opt_get m ''id''"]
    by (auto simp: receive_def Let_def split: option.split)
qed

lemma chan_ok_receive: "chan_ok c \<Longrightarrow> chan_ok (receive m c)"
  using receive_cases [of m c] chan_ok_settle_forget(1) by auto

lemma chan_sequence [simp]:
  "sequence (settle i b c) = sequence c" "sequence (forget i c) = sequence c" "sequence (on_stop c) = sequence c"
  by (simp_all add: settle_def forget_def on_stop_def)

lemma receive_sequence [simp]: "sequence (receive m c) = sequence c"
  using receive_cases [of m c] by auto

lemma settled_forget [simp]: "settled_ids (forget i c) = settled_ids c" "settled_ids (on_stop c) = settled_ids c"
  by (simp_all add: forget_def on_stop_def)

lemma settle_resolved: "(j, True) \<in> set (settled_ids (settle i b c)) \<Longrightarrow> (j, True) \<in> set (settled_ids c) \<or> j = i \<and> b"
  by (auto simp: settle_def split: if_splits)

lemma receive_resolved:
  assumes "(j, True) \<in> set (settled_ids (receive m c))"
  shows "(j, True) \<in> set (settled_ids c) \<or> same_zero (int_val (int j)) (opt_get m ''id'')"
  using receive_cases [of m c]
proof (elim disjE exE conjE)
  fix i assume "same_zero (int_val (int i)) (opt_get m ''id'')" "receive m c = forget i (settle i True c)"
  with assms settle_resolved [of j i True c] show ?thesis by auto
qed (use assms in simp_all)

section \<open>The invariant\<close>

definition ids_ok :: "system \<Rightarrow> bool" where
  "ids_ok y \<longleftrightarrow> length (posted y) = sequence (chan y)
     \<and> (\<forall>k < length (posted y). opt_get (posted y ! k) ''id'' = int_val (int k + 1))
     \<and> (\<forall>(i, m) \<in> set (queue y). 1 \<le> i \<and> i \<le> sequence (chan y) \<and> m = posted y ! (i - 1))
     \<and> (\<forall>(i, b) \<in> set (handled y). 1 \<le> i \<and> i \<le> sequence (chan y))
     \<and> (\<forall>a \<in> set (acks y). \<exists>i. a = int_val (int i) \<and> (i, True) \<in> set (handled y))
     \<and> (\<forall>i. (i, True) \<in> set (settled_ids (chan y)) \<longrightarrow> (i, True) \<in> set (handled y))"

lemma obj_put_keep: "k \<noteq> k' \<Longrightarrow> lookup (obj_put o' k v) k' = lookup o' k'"
  by simp

lemma notify_message_fields:
  assumes "plain_payload p"
  shows "opt_get (notify_message i ty p) ''id'' = int_val (int i)"
    "opt_get (notify_message i ty p) ''type'' = Str (js ty)"
proof -
  have "lookup (foldl (\<lambda>o' kv. obj_put o' (fst kv) (snd kv)) o' p) k = lookup o' k"
    if "\<forall>kv \<in> set p. fst kv \<noteq> k" for o' k p
    using that by (induction p arbitrary: o') auto
  then show "opt_get (notify_message i ty p) ''id'' = int_val (int i)"
    "opt_get (notify_message i ty p) ''type'' = Str (js ty)"
    using assms by (simp_all add: notify_message_def plain_payload_def)
qed

lemma same_int_val: "same_zero (int_val a) (int_val b) \<Longrightarrow> a = b"
  by (auto simp: same_zero_def num_eq_def)

lemma ids_okD:
  assumes "ids_ok y"
  shows "length (posted y) = sequence (chan y)"
    "k < length (posted y) \<Longrightarrow> opt_get (posted y ! k) ''id'' = int_val (int k + 1)"
    "(i, m) \<in> set (queue y) \<Longrightarrow> 1 \<le> i \<and> i \<le> sequence (chan y) \<and> m = posted y ! (i - 1)"
    "(i, b) \<in> set (handled y) \<Longrightarrow> 1 \<le> i \<and> i \<le> sequence (chan y)"
    "a \<in> set (acks y) \<Longrightarrow> \<exists>i. a = int_val (int i) \<and> (i, True) \<in> set (handled y)"
    "(i, True) \<in> set (settled_ids (chan y)) \<Longrightarrow> (i, True) \<in> set (handled y)"
  using assms by (auto simp: ids_ok_def)

lemma ids_ok_step:
  assumes "sys_step y y'" "ids_ok y"
  shows "ids_ok y'"
  using assms(1)
proof (cases rule: sys_step.cases)
  case (post p ty)
  let ?n = "sequence (chan y) + 1"
  note d = ids_okD [OF assms(2)]
  have y': "sequence (chan y') = ?n" "posted y' = posted y @ [notify_message ?n ty p]"
    "queue y' = queue y @ [(?n, notify_message ?n ty p)]" "handled y' = handled y" "acks y' = acks y"
    "settled_ids (chan y') = settled_ids (chan y)"
    using post(1) by (simp_all add: post_message_def notify_def Let_def)
  have "opt_get (posted y' ! k) ''id'' = int_val (int k + 1)" if "k < length (posted y')" for k
    using that d(1,2) notify_message_fields(1) [OF post(2), of ?n ty] by (auto simp: y' nth_append less_Suc_eq)
  moreover have "1 \<le> i \<and> i \<le> ?n \<and> m = posted y' ! (i - 1)" if "(i, m) \<in> set (queue y')" for i m
    using that d(3) [of i m] d(1) by (auto simp: y' nth_append)
  ultimately show ?thesis unfolding ids_ok_def y'(4-6) y'(1) using d(1,4-6) by (fastforce simp: y'(2))
next
  case (handle i m q)
  have m: "1 \<le> i" "i \<le> sequence (chan y)" "m = posted y ! (i - 1)" using assms(2) handle(2) by (auto simp: ids_ok_def)
  then have "opt_get m ''id'' = int_val (int i)" using assms(2) by (auto simp: ids_ok_def)
  with m handle assms(2) show ?thesis by (auto simp: ids_ok_def handle_next_def)
next
  case (deliver a as)
  then obtain i where a: "a = int_val (int i)" "(i, True) \<in> set (handled y)" using assms(2) by (auto simp: ids_ok_def)
  have "(j, True) \<in> set (handled y)" if "(j, True) \<in> set (settled_ids (receive (ack_message a) (chan y)))" for j
  proof -
    from receive_resolved [OF that] show ?thesis
    proof
      assume "same_zero (int_val (int j)) (opt_get (ack_message a) ''id'')"
      then have "j = i" using same_int_val [of "int j" "int i"] by (simp add: ack_message_def a(1))
      with a(2) show ?thesis by simp
    qed (rule ids_okD(6) [OF assms(2)])
  qed
  with deliver assms(2) show ?thesis by (auto simp: ids_ok_def)
next
  case (fail i)
  with assms(2) show ?thesis by (auto simp: ids_ok_def send_failed_def dest!: settle_resolved)
next
  case (stopping x)
  have "receive stop_message (chan y) = on_stop (chan y)" by (simp add: receive_def stop_message_def Let_def)
  with stopping assms(2) show ?thesis by (auto simp: ids_ok_def)
qed

lemma reachable_ids: "reachable s y \<Longrightarrow> ids_ok y"
proof (induction rule: reachable.induct)
  case (step y y')
  then show ?case using ids_ok_step by blast
qed (simp add: start_system_def ids_ok_def new_channel_def)

lemma reachable_chan: "reachable s y \<Longrightarrow> chan_ok (chan y)"
proof (induction rule: reachable.induct)
  case (step y y')
  from step(2,3) show ?case
    by cases (auto simp: post_message_def handle_next_def send_failed_def split: prod.splits
        intro: chan_ok_notify chan_ok_receive chan_ok_settle_forget)
qed (simp add: start_system_def new_channel_def chan_ok_def)


section \<open>The shell guard\<close>

definition starts_shell :: "jstr \<Rightarrow> jsval \<Rightarrow> bool" where
  "starts_shell cid m \<longleftrightarrow> opt_get m ''type'' = Str (js ''shell-start'') \<and> opt_get m ''call_id'' = Str cid"

definition ends_shell :: "jstr \<Rightarrow> jsval \<Rightarrow> bool" where
  "ends_shell cid m \<longleftrightarrow> opt_get m ''type'' = Str (js ''shell-end'') \<and> opt_get m ''call_id'' = Str cid"

lemma same_zero_Str [simp]: "same_zero x (Str s) \<longleftrightarrow> x = Str s" "same_zero (Str s) x \<longleftrightarrow> x = Str s"
  by (auto simp: same_zero_def)

lemma on_message_start:
  assumes "accepts m (s, c)" "starts_shell cid m"
  shows "Str cid \<in> set (active_shell (snd (on_message m (s, c))))"
  using assms
  by (auto simp: accepts_def starts_shell_def on_message_def handle_message_def Let_def split: if_splits sum.splits)

lemma shell_remove_other:
  "Str cid \<in> set xs \<Longrightarrow> v \<noteq> Str cid \<Longrightarrow> Str cid \<in> set (shell_remove xs v)"
  by (auto simp: shell_remove_def)

lemma on_message_keeps:
  assumes "Str cid \<in> set (active_shell c)"
  shows "Str cid \<in> set (active_shell (snd (on_message m (s, c)))) \<or> accepts m (s, c) \<and> ends_shell cid m"
  using assms shell_remove_other [of cid "active_shell c" "opt_get m ''call_id''"]
  by (auto simp: accepts_def ends_shell_def on_message_def handle_message_def Let_def split: if_splits)

definition guarded :: "jstr \<Rightarrow> system \<Rightarrow> bool" where
  "guarded cid y \<longleftrightarrow> (\<forall>i. (i, True) \<in> set (handled y) \<longrightarrow> starts_shell cid (posted y ! (i - 1)) \<longrightarrow>
     Str cid \<in> set (active_shell (snd (side y)))
     \<or> (\<exists>j. (j, True) \<in> set (handled y) \<and> ends_shell cid (posted y ! (j - 1))))"

lemma guarded_step:
  assumes "sys_step y y'" "ids_ok y" "guarded cid y"
  shows "guarded cid y'"
  using assms(1)
proof (cases rule: sys_step.cases)
  case (post p ty)
  have "posted y' ! (i - 1) = posted y ! (i - 1)" if "(i, True) \<in> set (handled y)" for i
    using ids_okD(1) [OF assms(2)] ids_okD(4) [OF assms(2) that] post(1) by (auto simp: post_message_def notify_def Let_def nth_append)
  moreover have "handled y' = handled y" "side y' = side y" using post(1) by (auto simp: post_message_def notify_def Let_def)
  ultimately show ?thesis using assms(3) by (auto simp: guarded_def)
next
  case (handle i m q)
  obtain s c where sc: "side y = (s, c)" by fastforce
  have m: "m = posted y ! (i - 1)" using ids_okD(3) [OF assms(2)] handle(2) by auto
  have y': "handled y' = handled y @ [(i, accepts m (s, c))]" "side y' = on_message m (s, c)" "posted y' = posted y"
    using handle(1) sc by (simp_all add: handle_next_def)
  show ?thesis unfolding guarded_def y'
  proof (intro allI impI)
    fix k assume k: "(k, True) \<in> set (handled y @ [(i, accepts m (s, c))])" "starts_shell cid (posted y ! (k - 1))"
    show "Str cid \<in> set (active_shell (snd (on_message m (s, c)))) \<or>
      (\<exists>j. (j, True) \<in> set (handled y @ [(i, accepts m (s, c))]) \<and> ends_shell cid (posted y ! (j - 1)))"
    proof (cases "(k, True) \<in> set (handled y)")
      case True
      with assms(3) k(2) sc consider "Str cid \<in> set (active_shell c)"
        | j where "(j, True) \<in> set (handled y)" "ends_shell cid (posted y ! (j - 1))"
        by (auto simp: guarded_def)
      then show ?thesis using on_message_keeps [of cid c m s] m by cases auto
    next
      case False
      with k m have "accepts m (s, c)" "starts_shell cid m" by auto
      from on_message_start [OF this] show ?thesis by blast
    qed
  qed
next
  case (stopping x)
  have "snd (on_event (Stop x) (side y)) = snd (side y)" by (cases "side y") simp
  with stopping assms(3) show ?thesis by (auto simp: guarded_def)
qed (use assms(3) in \<open>auto simp: guarded_def\<close>)

lemma reachable_guarded: "reachable s y \<Longrightarrow> guarded cid y"
proof (induction rule: reachable.induct)
  case (step y y')
  with guarded_step reachable_ids show ?case by blast
qed (simp add: start_system_def guarded_def)


section \<open>The request on its way to the engine\<close>

lemma read_chunks_ok:
  "n + length (concat cs) \<le> REQUEST_LIMIT \<Longrightarrow> read_chunks n acc cs = Inr (acc @ cs)"
  by (induction cs arbitrary: n acc) (auto simp: Let_def)

lemma read_chunks_limit:
  "REQUEST_LIMIT < n + length (concat cs) \<Longrightarrow> n \<le> REQUEST_LIMIT \<Longrightarrow> \<exists>e. read_chunks n acc cs = Inl e"
proof (induction cs arbitrary: n acc)
  case (Cons c cs)
  then show ?case by (cases "REQUEST_LIMIT < n + length c") (auto simp: Let_def)
qed simp

text \<open>C15: the engine works on the request the supervisor validated. The bytes of the JSON text the
  supervisor writes to the engine's standard input, however the pipe cuts them into chunks,
  read back as the same request, and a text beyond the limit is refused.\<close>

theorem request_reaches_engine:
  assumes "json_ok r" and "stringify r = Some t" and "concat cs = utf8_encode t"
  shows "if utf8_len t \<le> REQUEST_LIMIT then read_request cs = Inr r else (\<exists>e. read_request cs = Inl e)"
proof (cases "utf8_len t \<le> REQUEST_LIMIT")
  case True
  then have "read_chunks 0 [] cs = Inr cs"
    using read_chunks_ok [of 0 cs "[]"] assms(3) by (simp add: length_utf8_encode)
  moreover have "json_parse t = Some r"
    using json_parse_stringify [OF assms(1,2), of "[]"] by (simp add: jws_def)
  ultimately show ?thesis
    using True assms(3) utf8_decode_encode [OF json_text_wf16 [OF assms(1,2)]] by (simp add: read_request_def)
next
  case False
  then show ?thesis using read_chunks_limit [of 0 cs "[]"] assms(3)
    by (auto simp: read_request_def length_utf8_encode)
qed

section \<open>Witnesses\<close>

definition ex_payload :: "(jstr \<times> jsval) list" where
  "ex_payload = [(js ''call_id'', Str (js ''t1''))]"

definition ex_posted :: system where "ex_posted = post_message ''shell-start'' ex_payload (start_system init_sup)"

definition ex_message :: jsval where "ex_message = notify_message 1 ''shell-start'' ex_payload"

definition ex_handled :: system where "ex_handled = handle_next 1 ex_message [] ex_posted"

definition ex_resolved :: system where
  "ex_resolved = ex_handled\<lparr>acks := [], chan := receive (ack_message (int_val 1)) (chan ex_handled)\<rparr>"

lemma ex_message_simps:
  "opt_get ex_message ''type'' = Str (js ''shell-start'')" "opt_get ex_message ''call_id'' = Str (js ''t1'')"
  "opt_get ex_message ''id'' = int_val 1" "truthy ex_message" "is_object ex_message"
  by (simp_all add: ex_message_def notify_message_def ex_payload_def)

lemma ex_accepted: "accepts ex_message (init_sup, new_child)"
  by (simp add: accepts_def handle_message_def ex_message_simps new_child_def shell_has_def Let_def)

lemma ex_handled_acks: "acks ex_handled = [int_val 1]"
  using ex_accepted by (simp add: ex_handled_def handle_next_def ex_posted_def post_message_def notify_def Let_def
      start_system_def ex_message_simps)

lemma ex_reachable: "reachable init_sup ex_resolved"
proof -
  have "plain_payload ex_payload" by (simp add: plain_payload_def ex_payload_def)
  then have "reachable init_sup ex_posted"
    unfolding ex_posted_def by (intro reachable.step [OF reachable.init] sys_step.post)
  moreover have "queue ex_posted = (1, ex_message) # []"
    by (simp add: ex_posted_def post_message_def notify_def Let_def start_system_def new_channel_def ex_message_def)
  ultimately have "reachable init_sup ex_handled"
    unfolding ex_handled_def by (intro reachable.step [OF _ sys_step.handle])
  then show ?thesis unfolding ex_resolved_def by (intro reachable.step [OF _ sys_step.deliver]) (simp_all add: ex_handled_acks)
qed

lemma ex_settled: "(1, True) \<in> set (settled_ids (chan ex_resolved))"
  by (simp add: ex_resolved_def ex_handled_def handle_next_def ex_posted_def post_message_def notify_def Let_def
      start_system_def new_channel_def receive_def ack_message_def find_pending_def same_zero_def num_eq_def
      settle_def forget_def)

lemma ex_resolved_posted: "posted ex_resolved = [ex_message]"
  by (simp add: ex_resolved_def ex_handled_def handle_next_def ex_posted_def post_message_def notify_def Let_def
      start_system_def new_channel_def ex_message_def)



lemma request_reaches_engine_witness:
  "\<exists>cs. read_request cs = Inr ex_identity"
proof -
  obtain t where t: "stringify ex_identity = Some t" using json_ok_stringify [OF ex_identity_ok(1)] by blast
  have "json_bound ex_identity \<le> 1000" by code_simp
  then have "length t \<le> 1000" using stringify_bound [OF t] by simp
  then have "utf8_len t \<le> REQUEST_LIMIT" using utf8_len_bound [of t] by (simp add: REQUEST_LIMIT_def)
  with request_reaches_engine [OF ex_identity_ok(1) t, of "[utf8_encode t]"] show ?thesis by auto
qed

end
