(* ===== verification/Repo_Tools_Facts.thy ===== *)
theory Repo_Tools_Facts imports Repo_Tools begin

text \<open>
  What the repository's scripts guarantee: untrusted issue text stays JSON data on one line of
  the prompt, only an allowed label is ever applied and only to an open issue without a
  category, and the search for the licence of a bundled file ends.
\<close>

section \<open>The package walk ends\<close>

lemma length_strip_trailing: "length (strip_trailing c s) \<le> length s"
  using length_dropWhile_le [of "\<lambda>x. x = c" "rev s"] by (simp add: strip_trailing_def del: length_dropWhile_le)

lemma dirname_shorter:
  assumes "dirname p \<noteq> p" "is_absolute p"
  shows "length (dirname p) < length p"
proof -
  obtain r where r: "p = 47 # r" using assms(2) by (cases p) (auto simp: is_absolute_def)
  let ?t = "strip_trailing 47 r"
  have t: "length ?t \<le> length r" by (rule length_strip_trailing)
  show ?thesis
  proof (cases "length (split_on 47 ?t) = 1")
    case True
    then have "dirname p = js ''/''" by (simp add: dirname_def r Let_def)
    with assms(1) r show ?thesis by (cases r) (auto simp: js_def)
  next
    case False
    obtain ws w where ws: "split_on 47 ?t = ws @ [w]" by (metis rev_exhaust split_on_not_Nil)
    with False have ne: "ws \<noteq> []" by auto
    have j: "?t = join_with [47] (ws @ [w])" using join_split_on [of 47 ?t] ws by simp
    have step: "join_with [47] (ws @ [w]) = join_with [47] ws @ 47 # w" using ne
    proof (induction ws)
      case (Cons a ws)
      then show ?case by (cases "ws = []") (auto simp: join_with_Cons)
    qed simp
    have w: "w \<noteq> []" using strip_trailing_last [of 47 r] unfolding j step by auto
    show ?thesis
    proof (cases "join_with [47] ws = []")
      case True
      then have "length (dirname p) \<le> 2" using False ws by (simp add: dirname_def r Let_def js_def)
      moreover have "2 \<le> length ?t" using w unfolding j step by (cases w) auto
      ultimately show ?thesis using t r by simp
    next
      case nonempty: False
      then have "length (dirname p) = Suc (length (join_with [47] ws))"
        using False ws by (simp add: dirname_def r Let_def js_def)
      moreover have "length (join_with [47] ws) < length ?t" unfolding j step by simp
      ultimately show ?thesis using t r by simp
    qed
  qed
qed

lemma find_package_enough: "is_absolute dir \<Longrightarrow> length dir < n \<Longrightarrow> find_package n fs dir \<noteq> None"
proof (induction n arbitrary: dir)
  case (Suc n)
  then show ?case
    using dirname_shorter [of dir] dirname_absolute [of dir]
    by (auto split: sum.split option.split)
qed simp

lemma collect_packages_ends: "\<forall>p \<in> set ps. is_absolute p \<Longrightarrow> collect_packages fs acc ps \<noteq> None"
proof (induction ps arbitrary: acc)
  case (Cons p ps)
  then have "find_package (length (dirname p) + 3) fs (dirname p) \<noteq> None"
    by (intro find_package_enough dirname_absolute) auto
  with Cons show ?case by (auto split: option.splits sum.splits)
qed simp

text \<open>Collecting the notices ends. Whatever the file system holds, the walk from a bundled file
  to its package reaches a package, an error or the root: with resolved paths \<open>writeNotices\<close>
  returns a text or throws.\<close>

theorem notices_end:
  assumes "\<And>f. is_absolute (resolve f)"
  shows "write_notices locale_cmp resolve fs inputs \<noteq> None"
proof -
  have "collect_packages fs [] (map resolve (filter (\<lambda>f. contains f (js ''node_modules/'')) inputs)) \<noteq> None"
    using assms by (intro collect_packages_ends) auto
  then show ?thesis by (auto simp: write_notices_def split: option.splits sum.splits)
qed

section \<open>Labels\<close>

lemma parse_label_ok: "parse_label raw = Inr l \<Longrightarrow> l \<in> set LABELS"
  by (auto simp: parse_label_def split: jsval.splits if_splits option.splits)

lemma label_texts: "\<forall>l \<in> set LABELS. (case stringify (Obj [(js ''label'', Str l)]) of
    Some t \<Rightarrow> parse_label (Str t) = Inr l | None \<Rightarrow> False)"
  by code_simp

text \<open>The classification is a closed set. \<open>parseLabel\<close> accepts nothing but the four labels,
  whatever text a model returns, and accepts the JSON object of each of them.\<close>

theorem labels_closed:
  "(\<forall>raw l. parse_label raw = Inr l \<longrightarrow> l \<in> set LABELS)
   \<and> (\<forall>l \<in> set LABELS. parse_label (Str (the (stringify (Obj [(js ''label'', Str l)])))) = Inr l)"
  using parse_label_ok label_texts by (auto split: option.splits)

text \<open>C19: only one allowed label, only on an open issue without a category. \<open>applyLabel\<close> leaves
  GitHub as it is, or adds exactly the parsed label to an issue it has just seen open and
  without any of the four labels; success after adding means the label was read back.\<close>

theorem apply_label_guarded:
  assumes "apply_label api g raw = (g', res)"
  shows "g' = g \<or> (\<exists>l issue. parse_label raw = Inr l \<and> l \<in> set LABELS \<and> view_issue api g = Inr issue
      \<and> opt_get issue ''state'' = Str (js ''open'') \<and> categorised issue = Inr False
      \<and> g' = fst (add_labels api g [l])
      \<and> (res = Inr () \<longrightarrow> (\<exists>issue' ls. view_issue api g' = Inr issue' \<and> issue_labels issue' = Inr ls
           \<and> some_r (\<lambda>item. bind_r (label_name item) (\<lambda>n. Inr (n = Str l))) ls = Inr True)))"
proof -
  obtain r where r: "bind_r (parse_label raw) (\<lambda>label. bind_r (view_issue api g) (\<lambda>issue.
        bind_r (categorised issue) (\<lambda>stop_now. Inr (label, stop_now)))) = r" by blast
  show ?thesis
  proof (cases "\<exists>l. r = Inr (l, False)")
    case False
    with assms r show ?thesis by (auto simp: apply_label_def split: sum.splits bool.splits)
  next
    case True
    then obtain l issue where l: "parse_label raw = Inr l" and issue: "view_issue api g = Inr issue"
      and c: "categorised issue = Inr False" and r': "r = Inr (l, False)"
      using r by (auto simp: bind_r_Inr_iff)
    have o: "opt_get issue ''state'' = Str (js ''open'')"
      using c by (auto simp: categorised_def split: if_splits)
    show ?thesis
    proof (cases "has_label api g l")
      case (Inl e)
      with assms r r' show ?thesis by (auto simp: apply_label_def)
    next
      case (Inr u)
      obtain g1 a where a: "add_labels api g [l] = (g1, a)" by fastforce
      have g': "g' = g1" using assms r r' Inr a by (auto simp: apply_label_def split: sum.splits)
      have "\<exists>issue' ls. view_issue api g' = Inr issue' \<and> issue_labels issue' = Inr ls
           \<and> some_r (\<lambda>item. bind_r (label_name item) (\<lambda>n. Inr (n = Str l))) ls = Inr True" if "res = Inr ()"
        using assms r r' Inr a that by (auto simp: apply_label_def bind_r_Inr_iff split: sum.splits)
      with l issue c o a g' parse_label_ok [OF l] show ?thesis by auto
    qed
  qed
qed

section \<open>The prompt\<close>

lemma hex_digit_visible: "32 \<le> hex_digit n"
  by (simp add: hex_digit_def)

lemma u_escape_visible: "x \<in> set (u_escape c) \<Longrightarrow> 32 \<le> x"
  using hex_digit_visible by (auto simp: u_escape_def)

lemma quote1_visible: "x \<in> set (quote1 c) \<Longrightarrow> 32 \<le> x"
  using u_escape_visible [of x c] by (simp add: quote1_def split: if_splits) auto

lemma surrogate_visible: "is_high c \<Longrightarrow> 32 \<le> c" "is_low c \<Longrightarrow> 32 \<le> c"
  by (simp_all add: is_high_def is_low_def)

lemma quote_units_visible: "\<forall>c \<in> set s. c < 65536 \<Longrightarrow> \<forall>x \<in> set (quote_units s). 32 \<le> x"
proof (induction s rule: quote_units.induct)
  case (2 c s)
  show ?case
  proof (cases "is_high c")
    case False
    have "\<forall>x \<in> set (quote_units s). 32 \<le> x" using 2(3,4) False "2.prems" by auto
    then show ?thesis using False "2.prems" quote1_visible [of _ c] u_escape_visible [of _ c] by auto
  next
    case True
    show ?thesis
    proof (cases s)
      case Nil
      with True u_escape_visible [of _ c] show ?thesis by auto
    next
      case (Cons d r)
      show ?thesis
      proof (cases "is_low d")
        case low: True
        then show ?thesis using 2(1) [OF True Cons low] "2.prems" Cons True surrogate_visible by auto
      next
        case False
        have "quote_units (c # s) = u_escape c @ quote_units s" using Cons False True by simp
        then show ?thesis using 2(2) [OF True Cons False] "2.prems" u_escape_visible [of _ c]
          by (auto simp del: quote_units.simps)
      qed
    qed
  qed
qed simp

text \<open>C20: untrusted issue text cannot leave its line. Whatever an issue's title and body hold, the
  prompt is the fixed instructions, one line of JSON without any control character, and a
  final line break; the JSON reads back as the title and body, cut to 500 and 12000 units.\<close>

theorem issue_text_contained:
  assumes "prompt_for issue = Inr p" and "\<And>k s. opt_get issue k = Str s \<Longrightarrow> \<forall>c \<in> set s. c < 65536"
  shows "\<exists>line title body. p = PROMPT_HEAD @ line @ [10] \<and> (\<forall>c \<in> set line. 32 \<le> c)
    \<and> json_parse line = Some (Obj [(js ''title'', Str (take 500 title)), (js ''body'', Str (take 12000 body))])
    \<and> opt_get issue ''title'' = Str title"
proof -
  from assms(1) have title: "is_str (opt_get issue ''title'')"
    and body: "nullish (opt_get issue ''body'') \<or> is_str (opt_get issue ''body'')"
    and p: "p = PROMPT_HEAD @ the (stringify (issue_data issue)) @ [10]"
    by (auto simp: prompt_for_def split: if_splits)
  let ?t = "to_str (opt_get issue ''title'')" and ?b = "to_str (js_or (opt_get issue ''body'') (Str []))"
  have t: "opt_get issue ''title'' = Str ?t" using Str_of [OF title] .
  have bt: "\<forall>c \<in> set ?t. c < 65536" using assms(2) t by blast
  have bb: "\<forall>c \<in> set ?b. c < 65536"
  proof (cases "truthy (opt_get issue ''body'')")
    case True
    then have "is_str (opt_get issue ''body'')" using body by (cases "opt_get issue ''body''") auto
    from Str_of [OF this] assms(2) True show ?thesis unfolding js_or_def by auto
  qed (simp add: js_or_def)
  have ok: "json_ok (issue_data issue)"
    using bt bb by (auto simp: issue_data_def js_def dest: in_set_takeD)
  then obtain line where line: "stringify (issue_data issue) = Some line" using json_ok_stringify by blast
  have "json_parse line = Some (issue_data issue)"
    using json_parse_stringify [OF ok line, of "[]"] by (simp add: jws_def)
  moreover have "\<forall>c \<in> set line. 32 \<le> c"
  proof -
    have "\<forall>c \<in> set (quote_units (take n s)). 32 \<le> c" if "\<forall>c \<in> set s. c < 65536" for n s
      using that by (intro quote_units_visible) (auto dest: in_set_takeD)
    moreover have "\<forall>c \<in> set (quote_units (js ''title'')). 32 \<le> c" "\<forall>c \<in> set (quote_units (js ''body'')). 32 \<le> c"
      by (rule quote_units_visible, simp add: js_def)+
    ultimately show ?thesis using line bt bb by (auto simp: issue_data_def quote_def)
  qed
  ultimately show ?thesis using p line t by (auto simp: issue_data_def)
qed

section \<open>Witnesses\<close>

definition no_files :: files where
  "no_files = \<lparr>read_text = (\<lambda>_. Inl (sys_err ''ENOENT'')), list_dir = (\<lambda>_. Inr []), regular = (\<lambda>_. Inr False)\<rparr>"

lemma notices_end_witness:
  "write_notices (\<lambda>a b. 0) (\<lambda>f. 47 # f) no_files [js ''node_modules/x/a.js''] \<noteq> None"
  by (rule notices_end) (simp add: is_absolute_def)

definition ex_github :: "(jstr list) github" where
  "ex_github = \<lparr>view_issue = (\<lambda>g. Inr (Obj [(js ''state'', Str (js ''open'')), (js ''labels'', Arr (map Str g))])),
     has_label = (\<lambda>g l. Inr ()), add_labels = (\<lambda>g ls. (g @ ls, Inr ()))\<rparr>"

lemma apply_label_guarded_witness:
  "\<exists>l. l \<in> set LABELS \<and> fst (apply_label ex_github [js ''p1''] (Str (js ''{\"label\":\"bug\"}''))) = [js ''p1'', l]"
proof -
  obtain g' res where run: "apply_label ex_github [js ''p1''] (Str (js ''{\"label\":\"bug\"}'')) = (g', res)" by fastforce
  have "g' \<noteq> [js ''p1'']"
  proof -
    have "length (fst (apply_label ex_github [js ''p1''] (Str (js ''{\"label\":\"bug\"}'')))) = 2" by code_simp
    then show ?thesis using run by auto
  qed
  with apply_label_guarded [OF run] run show ?thesis by (auto simp: ex_github_def)
qed

lemma issue_text_contained_witness:
  "\<exists>p line. prompt_for (Obj [(js ''title'', Str [10, 34])]) = Inr p \<and> p = PROMPT_HEAD @ line @ [10] \<and> 10 \<notin> set line"
proof -
  obtain p where p: "prompt_for (Obj [(js ''title'', Str [10, 34])]) = Inr p"
    by (simp add: prompt_for_def)
  have "\<forall>c \<in> set s. c < 65536" if "opt_get (Obj [(js ''title'', Str [10, 34])]) k = Str s" for k s
    using that by (auto split: if_splits)
  from issue_text_contained [OF p this] p show ?thesis by fastforce
qed

lemma labels_closed_witness:
  "parse_label (Str (the (stringify (Obj [(js ''label'', Str (js ''bug''))])))) = Inr (js ''bug'')"
  using labels_closed by (simp add: LABELS_def)

end
