(* ===== verification/Console_Url.thy ===== *)
theory Console_Url imports Utf8 begin

text \<open>
  The addresses of the console: percent encoding (\<open>encodeURIComponent\<close>, \<open>decodeURIComponent\<close>,
  \<open>URLSearchParams\<close>), the hash routes of \<^verbatim>\<open>internal/console/web/src/routes.js\<close>, and the
  request URLs of \<^verbatim>\<open>internal/console/web/src/lib/api.js\<close>.
\<close>

section \<open>Percent encoding\<close>

definition is_alpha :: "nat \<Rightarrow> bool" where
  "is_alpha c \<longleftrightarrow> 65 \<le> c \<and> c \<le> 90 \<or> 97 \<le> c \<and> c \<le> 122"

text \<open>What \<open>encodeURIComponent\<close> keeps: letters, digits and \<open>- _ . ! ~ * ' ( )\<close>.\<close>

definition uri_plain :: "nat \<Rightarrow> bool" where
  "uri_plain c \<longleftrightarrow> is_alpha c \<or> is_digit c \<or> c \<in> {45, 95, 46, 33, 126, 42, 39, 40, 41}"

definition hex_upper :: "nat \<Rightarrow> nat" where
  "hex_upper n = (if n < 10 then 48 + n else 55 + n)"

definition pct :: "nat \<Rightarrow> jstr" where
  "pct b = [37, hex_upper (b div 16), hex_upper (b mod 16)]"

definition pct_bytes :: "nat list \<Rightarrow> jstr" where
  "pct_bytes bs = concat (map pct bs)"

text \<open>\<open>None\<close> is the \<open>URIError\<close> on a lone surrogate.\<close>

definition encode_unit :: "nat \<Rightarrow> jstr" where
  "encode_unit c = (if uri_plain c then [c] else pct_bytes (utf8_encode [c]))"

fun encode_uri :: "jstr \<Rightarrow> jstr option" where
  "encode_uri [] = Some []"
| "encode_uri (c # s) =
     (if is_high c then
        (case s of d # r \<Rightarrow> if is_low d
             then map_option (\<lambda>t. pct_bytes (utf8_encode [c, d]) @ t) (encode_uri r) else None
         | [] \<Rightarrow> None)
      else if is_low c then None
      else map_option (\<lambda>t. encode_unit c @ t) (encode_uri s))"

text \<open>The pieces of an encoded text: a byte, or a unit that stands for itself.\<close>

datatype piece = Byte nat | Unit nat

fun pieces :: "jstr \<Rightarrow> piece list option" where
  "pieces [] = Some []"
| "pieces (c # s) =
     (if c = 37 then (case s of a # b # r \<Rightarrow>
          (case (hex_val a, hex_val b) of
             (Some x, Some y) \<Rightarrow> map_option (Cons (Byte (16 * x + y))) (pieces r)
           | _ \<Rightarrow> None)
        | _ \<Rightarrow> None)
      else map_option (Cons (Unit c)) (pieces s))"

fun join_pieces :: "piece list \<Rightarrow> jstr option" where
  "join_pieces [] = Some []"
| "join_pieces (Unit c # ps) = map_option (Cons c) (join_pieces ps)"
| "join_pieces (Byte a # ps) =
     (if a < 128 then map_option (Cons a) (join_pieces ps)
      else if 194 \<le> a \<and> a < 224 then
        (case ps of Byte b # qs \<Rightarrow> if is_cont b
             then map_option (Cons ((a - 192) * 64 + (b - 128))) (join_pieces qs) else None
         | _ \<Rightarrow> None)
      else if 224 \<le> a \<and> a < 240 then
        (case ps of Byte b # Byte c # qs \<Rightarrow> if second_ok a b \<and> is_cont c
             then map_option (Cons ((a - 224) * 4096 + (b - 128) * 64 + (c - 128))) (join_pieces qs) else None
         | _ \<Rightarrow> None)
      else if 240 \<le> a \<and> a < 245 then
        (case ps of Byte b # Byte c # Byte d # qs \<Rightarrow> if second_ok a b \<and> is_cont c \<and> is_cont d
             then map_option (\<lambda>t. code_units ((a - 240) * 262144 + (b - 128) * 4096 + (c - 128) * 64 + (d - 128)) @ t)
                    (join_pieces qs) else None
         | _ \<Rightarrow> None)
      else None)"

definition decode_uri :: "jstr \<Rightarrow> jstr option" where
  "decode_uri s = (case pieces s of None \<Rightarrow> None | Some ps \<Rightarrow> join_pieces ps)"

section \<open>Routes\<close>

definition PAGES :: "jstr list" where
  "PAGES = map js [''overview'', ''dispatch'', ''runs'', ''changes'', ''reviews'', ''security'',
     ''operations'', ''settings'']"

record nav_item =
  item_id :: jstr
  item_label :: jstr
  item_icon :: jstr

definition nav :: "string \<Rightarrow> string \<Rightarrow> string \<Rightarrow> nav_item" where
  "nav i l c = \<lparr>item_id = js i, item_label = js l, item_icon = js c\<rparr>"

definition NAV_GROUPS :: "(jstr \<times> nav_item list) list" where
  "NAV_GROUPS =
    [(js ''Factory'',
      [nav ''overview'' ''Overview'' ''LayoutDashboard'', nav ''dispatch'' ''Dispatch'' ''Send'',
       nav ''runs'' ''Runs'' ''Play'', nav ''changes'' ''Changes'' ''GitBranch'',
       nav ''reviews'' ''Reviews'' ''ClipboardCheck'']),
     (js ''Governance'',
      [nav ''security'' ''Security'' ''ShieldCheck'', nav ''operations'' ''Operations'' ''Server'',
       nav ''settings'' ''Settings'' ''Settings''])]"

record route =
  route_view :: jstr
  route_id :: jstr

definition to_route :: "jstr \<Rightarrow> jstr \<Rightarrow> route" where
  "to_route v i = \<lparr>route_view = v, route_id = i\<rparr>"

definition valid_detail_id :: "jstr \<Rightarrow> bool" where
  "valid_detail_id i \<longleftrightarrow> i \<noteq> [] \<and> 47 \<notin> set i \<and> 92 \<notin> set i \<and> i \<noteq> js ''.'' \<and> i \<noteq> js ''..'' \<and> length i \<le> 200"

text \<open>\<open>replace(/^#\/?/, "")\<close> and \<open>replace(/\/+$/, "")\<close>.\<close>

definition strip_hash :: "jstr \<Rightarrow> jstr" where
  "strip_hash h = (case h of c # r \<Rightarrow> if c = 35 then (case r of d # s \<Rightarrow> if d = 47 then s else r | [] \<Rightarrow> []) else h
     | [] \<Rightarrow> [])"

definition route_from_hash :: "jstr \<Rightarrow> route" where
  "route_from_hash h = (let value = strip_trailing 47 (strip_hash h) in
     if value = [] then to_route (js ''overview'') []
     else let parts = split_on 47 value; head = hd parts; rest = tl parts;
         i = (if rest = [] then [] else case decode_uri (join_with [47] rest) of None \<Rightarrow> [] | Some t \<Rightarrow> t)
       in if head = js ''runs'' then
            (if valid_detail_id i then to_route (js ''run'') i else to_route (js ''runs'') [])
          else if head = js ''changes'' then
            (if valid_detail_id i then to_route (js ''change'') i else to_route (js ''changes'') [])
          else to_route (if head \<in> set PAGES then head else js ''overview'') [])"

definition href_for :: "jstr \<Rightarrow> jstr \<Rightarrow> jstr option" where
  "href_for v i =
    (if v = js ''run'' then map_option (\<lambda>t. js ''#/runs/'' @ t) (encode_uri i)
     else if v = js ''change'' then map_option (\<lambda>t. js ''#/changes/'' @ t) (encode_uri i)
     else Some (js ''#/'' @ v))"

text \<open>\<open>navigate\<close>: the new hash of the window.\<close>

definition navigate :: "jstr \<Rightarrow> jstr \<Rightarrow> jstr \<Rightarrow> jstr option" where
  "navigate v i h = map_option (\<lambda>next. if h \<noteq> next then next else h) (href_for v i)"

definition active_nav_item :: "jstr \<Rightarrow> jstr" where
  "active_nav_item v = (if v = js ''run'' then js ''runs'' else if v = js ''change'' then js ''changes'' else v)"

section \<open>Request URLs\<close>

definition BASE :: jstr where "BASE = js ''/api/v1/console''"

text \<open>\<open>application/x-www-form-urlencoded\<close>: a space is a plus; a lone surrogate becomes U+FFFD.\<close>

definition form_plain :: "nat \<Rightarrow> bool" where
  "form_plain b \<longleftrightarrow> is_alpha b \<or> is_digit b \<or> b \<in> {42, 45, 46, 95}"

definition form_byte :: "nat \<Rightarrow> jstr" where
  "form_byte b = (if b = 32 then [43] else if form_plain b then [b] else pct b)"

definition form_encode :: "jstr \<Rightarrow> jstr" where
  "form_encode s = concat (map form_byte (utf8_encode s))"

definition skipped :: "jsval \<Rightarrow> bool" where
  "skipped v \<longleftrightarrow> v = Undef \<or> v = Null \<or> v = Str []"

text \<open>The pairs of the query, in order. \<open>append\<close> for the items of an array, \<open>set\<close> otherwise; the
  keys of an object are distinct.\<close>

definition query_set :: "(jstr \<times> jstr) list \<Rightarrow> jstr \<Rightarrow> jstr \<Rightarrow> (jstr \<times> jstr) list" where
  "query_set q k v = (if k \<in> fst ` set q
     then (let (before_k, rest) = (takeWhile (\<lambda>p. fst p \<noteq> k) q, dropWhile (\<lambda>p. fst p \<noteq> k) q)
       in before_k @ (k, v) # filter (\<lambda>p. fst p \<noteq> k) rest)
     else q @ [(k, v)])"

definition add_param :: "(jstr \<times> jstr) list \<Rightarrow> jstr \<times> jsval \<Rightarrow> (jstr \<times> jstr) list" where
  "add_param q p = (case p of (k, v) \<Rightarrow>
     if skipped v then q
     else (case v of
         Arr xs \<Rightarrow> q @ map (\<lambda>x. (k, to_str x)) (filter (\<lambda>x. \<not> skipped x) xs)
       | _ \<Rightarrow> query_set q k (to_str v)))"

definition query_pairs :: "(jstr \<times> jsval) list \<Rightarrow> (jstr \<times> jstr) list" where
  "query_pairs params = foldl add_param [] params"

definition query_text :: "(jstr \<times> jstr) list \<Rightarrow> jstr" where
  "query_text q = (if q = [] then []
     else 63 # join_with [38] (map (\<lambda>(k, v). form_encode k @ 61 # form_encode v) q))"

text \<open>\<open>pathname\<close> is the path the URL parser makes of an absolute path.\<close>

definition build_url :: "(jstr \<Rightarrow> jstr) \<Rightarrow> jstr \<Rightarrow> (jstr \<times> jsval) list \<Rightarrow> jstr" where
  "build_url pathname path params = pathname (BASE @ path) @ query_text (query_pairs params)"

end
