(* ===== verification/Console_Url_Facts.thy ===== *)
theory Console_Url_Facts imports Console_Url begin

text \<open>
  What the addresses of the console guarantee: a percent-encoded text decodes to itself and
  holds no separator, every route parsed from a hash is a page or has a one-segment id, links
  and routes are inverse, and a query decodes to exactly the parameters that were given.
\<close>

section \<open>Percent encoding\<close>

lemma hex_val_upper [simp]: "n < 16 \<Longrightarrow> hex_val (hex_upper n) = Some n"
  by (auto simp: hex_upper_def hex_val_def is_digit_def)

lemma pieces_pct: "b < 256 \<Longrightarrow> pieces (pct b @ s) = map_option (Cons (Byte b)) (pieces s)"
proof -
  assume b: "b < 256"
  then have "b div 16 < 16" "b mod 16 < 16" by auto
  then show ?thesis by (simp add: pct_def)
qed

lemma pieces_pct_bytes:
  "\<forall>b \<in> set bs. b < 256 \<Longrightarrow> pieces (pct_bytes bs @ s) = map_option (\<lambda>ps. map Byte bs @ ps) (pieces s)"
proof (induction bs)
  case Nil
  then show ?case by (cases "pieces s") (simp_all add: pct_bytes_def)
next
  case (Cons b bs)
  then show ?case by (cases "pieces s") (simp_all add: pct_bytes_def pieces_pct)
qed

lemma utf8_bytes: "\<forall>c \<in> set s. c < 65536 \<Longrightarrow> b \<in> set (utf8_encode s) \<Longrightarrow> b < 256"
proof (induction s rule: utf8_encode.induct)
  case (2 c s)
  have e3: "\<forall>b \<in> set (enc3 c). b < 256" using "2.prems"(1) by (auto simp: enc3_def)
  have e4: "\<forall>b \<in> set (enc4 (pair_code c d)). b < 256" if "is_high c" "is_low d" for d
    using pair_code_units(3) [OF that] by (auto simp: enc4_def)
  have rb: "\<forall>b \<in> set repl_bytes. b < 256" by (simp add: repl_bytes_def)
  show ?case
  proof (cases "\<not> c < 128 \<and> \<not> c < 2048 \<and> is_high c")
    case False
    with 2 e3 rb show ?thesis by (auto split: if_splits)
  next
    case True
    show ?thesis
    proof (cases s)
      case Nil
      with True "2.prems" rb show ?thesis by auto
    next
      case (Cons d r)
      show ?thesis
      proof (cases "is_low d")
        case low: True
        with True Cons have "utf8_encode (c # s) = enc4 (pair_code c d) @ utf8_encode r" by simp
        with "2.prems" 2(3) True Cons low e4 [OF _ low] show ?thesis by auto
      next
        case False
        with True Cons have "utf8_encode (c # s) = repl_bytes @ utf8_encode s" by simp
        with "2.prems" 2(4) True Cons False rb show ?thesis by (auto simp del: utf8_encode.simps)
      qed
    qed
  qed
qed simp

text \<open>The pieces of one unit, and of a surrogate pair, join to it.\<close>

lemma join_bytes_unit:
  assumes "c < 65536" "\<not> is_high c" "\<not> is_low c"
  shows "join_pieces (map Byte (utf8_encode [c]) @ ps) = map_option (Cons c) (join_pieces ps)"
proof -
  consider "c < 128" | "128 \<le> c" "c < 2048" | "2048 \<le> c" by linarith
  then show ?thesis
  proof cases
    case 1
    then show ?thesis by simp
  next
    case 2
    then have "2 \<le> c div 64" "c div 64 < 32" "c mod 64 < 64" by auto
    then show ?thesis using 2 by (simp add: is_cont_def)
  next
    case 3
    define x y z where "x = c div 4096" and "y = c div 64 mod 64" and "z = c mod 64"
    have b: "x < 16" "y < 64" "z < 64" using assms(1) by (auto simp: x_def y_def z_def)
    have c: "c = x * 4096 + y * 64 + z" unfolding x_def y_def z_def by (rule base64_3)
    have "x = 0 \<longrightarrow> 32 \<le> y" using 3 b c by auto
    moreover have "x = 13 \<longrightarrow> y < 32" using assms(2,3) b c by (auto simp: is_high_def is_low_def)
    ultimately have s: "second_ok (224 + x) (128 + y)" using b by (auto simp: second_ok_def is_cont_def)
    have "utf8_encode [c] = [224 + x, 128 + y, 128 + z]"
      using 3 assms(2,3) by (simp add: enc3_def x_def y_def z_def)
    then show ?thesis using b s by (simp add: is_cont_def c)
  qed
qed

lemma join_bytes_pair:
  assumes "is_high c" "is_low d"
  shows "join_pieces (map Byte (utf8_encode [c, d]) @ ps) = map_option (\<lambda>t. c # d # t) (join_pieces ps)"
proof -
  let ?p = "pair_code c d"
  note pu = pair_code_units [OF assms]
  define w x y z where "w = ?p div 262144" and "x = ?p div 4096 mod 64" and "y = ?p div 64 mod 64" and "z = ?p mod 64"
  have b: "w < 5" "x < 64" "y < 64" "z < 64" using pu(3) by (auto simp: w_def x_def y_def z_def)
  have p: "?p = w * 262144 + x * 4096 + y * 64 + z" unfolding w_def x_def y_def z_def by (rule base64_4)
  have "w = 0 \<longrightarrow> 16 \<le> x" "w = 4 \<longrightarrow> x < 16" using pu(2,3) b p by auto
  then have s: "second_ok (240 + w) (128 + x)" using b by (auto simp: second_ok_def is_cont_def)
  have "\<not> c < 128" "\<not> c < 2048" using assms(1) by (auto simp: is_high_def)
  then have "utf8_encode [c, d] = [240 + w, 128 + x, 128 + y, 128 + z]"
    using assms by (simp add: enc4_def w_def x_def y_def z_def)
  moreover have "code_units (w * 262144 + x * 4096 + y * 64 + z) = [c, d]" using pu(1) p by metis
  ultimately show ?thesis using b s by (cases "join_pieces ps") (simp_all add: is_cont_def del: utf8_encode.simps)
qed

lemma decode_unit:
  assumes "c < 65536" "\<not> is_high c" "\<not> is_low c"
  shows "decode_uri (encode_unit c @ s) = map_option (Cons c) (decode_uri s)"
proof (cases "uri_plain c")
  case True
  then have "c \<noteq> 37" by (auto simp: uri_plain_def is_alpha_def is_digit_def)
  with True show ?thesis by (auto simp: decode_uri_def encode_unit_def split: option.splits)
next
  case False
  have "\<forall>b \<in> set (utf8_encode [c]). b < 256" using utf8_bytes [of "[c]"] assms(1) by auto
  then show ?thesis using False join_bytes_unit [OF assms]
    by (auto simp: decode_uri_def encode_unit_def pieces_pct_bytes split: option.splits simp del: utf8_encode.simps)
qed

lemma decode_pair:
  assumes "is_high c" "is_low d"
  shows "decode_uri (pct_bytes (utf8_encode [c, d]) @ s) = map_option (\<lambda>t. c # d # t) (decode_uri s)"
proof -
  have "\<forall>b \<in> set (utf8_encode [c, d]). b < 256"
    using utf8_bytes [of "[c, d]"] assms by (auto simp: is_high_def is_low_def)
  then show ?thesis using join_bytes_pair [OF assms]
    by (auto simp: decode_uri_def pieces_pct_bytes split: option.splits simp del: utf8_encode.simps)
qed

lemma encode_uri_wf: "wf16 s \<Longrightarrow> encode_uri s \<noteq> None"
proof (induction s rule: encode_uri.induct)
  case (2 c s)
  then show ?case by (cases "is_high c") (auto split: list.splits)
qed simp

lemma decode_encode_append:
  "wf16 s \<Longrightarrow> encode_uri s = Some t \<Longrightarrow> decode_uri (t @ r) = map_option (\<lambda>u. s @ u) (decode_uri r)"
proof (induction s arbitrary: t rule: encode_uri.induct)
  case (2 c s)
  show ?case
  proof (cases "is_high c")
    case True
    with "2.prems" obtain d q u where s: "s = d # q" "is_low d" "wf16 q" "encode_uri q = Some u"
      and t: "t = pct_bytes (utf8_encode [c, d]) @ u" by (auto split: list.splits simp del: utf8_encode.simps)
    show ?thesis using 2(1) [OF True s(1,2,3,4)] decode_pair [OF True s(2), of "u @ r"] s(1) t
      by (simp add: option.map_comp comp_def)
  next
    case False
    with "2.prems" have c: "\<not> is_low c" "c < 65536" "wf16 s" by auto
    with "2.prems" False obtain u where u: "encode_uri s = Some u" "t = encode_unit c @ u" by auto
    show ?thesis using 2(2) [OF False c(1) c(3) u(1)] decode_unit [OF c(2) False c(1), of "u @ r"] u(2)
      by (simp add: option.map_comp comp_def)
  qed
next
  case 1
  then show ?case by (cases "decode_uri r") simp_all
qed

lemma decode_encode_uri: "wf16 s \<Longrightarrow> encode_uri s = Some t \<Longrightarrow> decode_uri t = Some s"
  using decode_encode_append [of s t "[]"] by (simp add: decode_uri_def)

text \<open>The characters of an encoded text.\<close>

definition uri_char :: "nat \<Rightarrow> bool" where
  "uri_char c \<longleftrightarrow> uri_plain c \<or> c = 37"

lemma pct_chars: "b < 256 \<Longrightarrow> c \<in> set (pct b) \<Longrightarrow> uri_char c"
proof -
  assume b: "b < 256" and c: "c \<in> set (pct b)"
  have "uri_plain (hex_upper n)" if "n < 16" for n
    using that by (auto simp: hex_upper_def uri_plain_def is_digit_def is_alpha_def)
  moreover have "b div 16 < 16" "b mod 16 < 16" using b by auto
  ultimately show ?thesis using c by (auto simp: pct_def uri_char_def)
qed

lemma pct_bytes_chars: "\<forall>b \<in> set bs. b < 256 \<Longrightarrow> c \<in> set (pct_bytes bs) \<Longrightarrow> uri_char c"
  using pct_chars by (auto simp: pct_bytes_def)

lemma encode_uri_chars: "wf16 s \<Longrightarrow> encode_uri s = Some t \<Longrightarrow> c \<in> set t \<Longrightarrow> uri_char c"
proof (induction s arbitrary: t rule: encode_uri.induct)
  case (2 a s)
  show ?case
  proof (cases "is_high a")
    case True
    with "2.prems" obtain d q u where s: "s = d # q" "is_low d" "wf16 q" "encode_uri q = Some u"
      and t: "t = pct_bytes (utf8_encode [a, d]) @ u" by (auto split: list.splits simp del: utf8_encode.simps)
    have "\<forall>b \<in> set (utf8_encode [a, d]). b < 256"
      using utf8_bytes [of "[a, d]"] True s(2) by (auto simp: is_high_def is_low_def)
    with pct_bytes_chars 2(1) [OF True s(1,2,3,4)] "2.prems"(3) t show ?thesis by auto
  next
    case False
    with "2.prems" have a: "\<not> is_low a" "a < 65536" "wf16 s" by auto
    with "2.prems" False obtain u where u: "encode_uri s = Some u" "t = encode_unit a @ u" by auto
    have "\<forall>b \<in> set (utf8_encode [a]). b < 256" using utf8_bytes [of "[a]"] a(2) by auto
    then have "c \<in> set (encode_unit a) \<Longrightarrow> uri_char c"
      using pct_bytes_chars by (auto simp: encode_unit_def uri_char_def simp del: utf8_encode.simps split: if_splits)
    with 2(2) [OF False a(1) a(3) u(1)] "2.prems"(3) u(2) show ?thesis by auto
  qed
qed simp

lemma uri_char_simps [simp]: "\<not> uri_char 47" "\<not> uri_char 92" "\<not> uri_char 35" "\<not> uri_char 63" "\<not> uri_char 38"
  by (simp_all add: uri_char_def uri_plain_def is_alpha_def is_digit_def)

lemma encode_uri_not_Nil: "encode_uri s = Some t \<Longrightarrow> s \<noteq> [] \<Longrightarrow> t \<noteq> []"
proof (cases s)
  case (Cons c r)
  assume e: "encode_uri s = Some t"
  have "utf8_encode [c] \<noteq> []" by (auto simp: enc3_def repl_bytes_def)
  then have u: "encode_unit c \<noteq> []" by (simp add: encode_unit_def pct_bytes_def pct_def)
  have "pct_bytes (utf8_encode [c, d]) \<noteq> []" if "is_high c" "is_low d" for d
    using that by (simp add: pct_bytes_def pct_def enc4_def)
  with e u Cons show ?thesis by (auto split: if_splits list.splits simp del: utf8_encode.simps)
qed simp

section \<open>Routes\<close>

lemma strip_trailing_uri: "\<forall>c \<in> set t. uri_char c \<Longrightarrow> t \<noteq> [] \<Longrightarrow> strip_trailing 47 (a @ t) = a @ t"
  by (rule strip_trailing_id) (metis last_appendR last_in_set uri_char_simps(1))

lemma route_of_segments:
  assumes h: "h \<in> {js ''runs'', js ''changes''}" and t: "\<forall>c \<in> set t. uri_char c" "t \<noteq> []"
  shows "split_on 47 (h @ 47 # t) = [h, t]" "strip_trailing 47 (h @ 47 # t) = h @ 47 # t"
proof -
  have "47 \<notin> set h" using h by (auto simp: js_def)
  moreover have "47 \<notin> set t" using t(1) by auto
  ultimately show "split_on 47 (h @ 47 # t) = [h, t]" by (simp add: split_on_append split_on_no_sep)
  show "strip_trailing 47 (h @ 47 # t) = h @ 47 # t"
    using strip_trailing_uri [OF t, of "h @ [47]"] by simp
qed

lemma route_detail:
  assumes i: "valid_detail_id i" "wf16 i" and t: "encode_uri i = Some t"
    and h: "h = js ''runs'' \<and> v = js ''run'' \<or> h = js ''changes'' \<and> v = js ''change''"
  shows "route_from_hash (js ''#/'' @ h @ 47 # t) = to_route v i"
proof -
  have t': "\<forall>c \<in> set t. uri_char c" "t \<noteq> []"
    using encode_uri_chars [OF i(2) t] encode_uri_not_Nil [OF t] i(1) by (auto simp: valid_detail_id_def)
  have s: "strip_hash (js ''#/'' @ h @ 47 # t) = h @ 47 # t" by (simp add: strip_hash_def js_def)
  have ne: "h @ 47 # t \<noteq> []" by simp
  show ?thesis
    using h i(1) decode_encode_uri [OF i(2) t] route_of_segments [of h t] t'
    unfolding route_from_hash_def s Let_def by auto
qed

text \<open>C21: links and routes are inverse. The link to a run or change leads back to that run or
  change, whatever characters its id has, and the link to a page leads to the page.\<close>

theorem links_round_trip:
  assumes "valid_detail_id i" and "wf16 i" and "p \<in> set PAGES"
  shows "map_option route_from_hash (href_for (js ''run'') i) = Some (to_route (js ''run'') i)
    \<and> map_option route_from_hash (href_for (js ''change'') i) = Some (to_route (js ''change'') i)
    \<and> map_option route_from_hash (href_for p j) = Some (to_route p [])"
proof -
  obtain t where t: "encode_uri i = Some t" using encode_uri_wf [OF assms(2)] by blast
  have "js ''#/runs/'' @ t = js ''#/'' @ js ''runs'' @ 47 # t" "js ''#/changes/'' @ t = js ''#/'' @ js ''changes'' @ 47 # t"
    by (simp_all add: js_def)
  then have "map_option route_from_hash (href_for (js ''run'') i) = Some (to_route (js ''run'') i)"
    "map_option route_from_hash (href_for (js ''change'') i) = Some (to_route (js ''change'') i)"
    using route_detail [OF assms(1,2) t, of "js ''runs''" "js ''run''"]
      route_detail [OF assms(1,2) t, of "js ''changes''" "js ''change''"] by (simp_all add: href_for_def t)
  moreover have "\<forall>p \<in> set PAGES. p \<noteq> js ''run'' \<and> p \<noteq> js ''change'' \<and> route_from_hash (js ''#/'' @ p) = to_route p []"
    by code_simp
  then have "map_option route_from_hash (href_for p j) = Some (to_route p [])"
    using assms(3) by (simp add: href_for_def)
  ultimately show ?thesis by blast
qed

text \<open>C22: no address smuggles a path. Whatever the hash of the window is, the view is a page, a run
  or a change; exactly runs and changes have an id, and it is one path segment: without slash
  or backslash, no dot segment, at most 200 units.\<close>

theorem routes_are_safe:
  "route_view (route_from_hash h) \<in> set PAGES \<union> {js ''run'', js ''change''}
   \<and> (route_id (route_from_hash h) = [] \<or> valid_detail_id (route_id (route_from_hash h)))
   \<and> (route_id (route_from_hash h) \<noteq> [] \<longleftrightarrow> route_view (route_from_hash h) \<in> {js ''run'', js ''change''})"
proof -
  have p: "js ''overview'' \<in> set PAGES" "js ''runs'' \<in> set PAGES" "js ''changes'' \<in> set PAGES"
    "js ''run'' \<notin> set PAGES" "js ''change'' \<notin> set PAGES"
    by (auto simp: PAGES_def)
  have v: "valid_detail_id i \<Longrightarrow> i \<noteq> []" for i by (simp add: valid_detail_id_def)
  show ?thesis
    using p v by (auto simp: route_from_hash_def to_route_def Let_def)
qed

section \<open>Queries\<close>

text \<open>How a server reads a query.\<close>

fun form_bytes :: "jstr \<Rightarrow> nat list" where
  "form_bytes [] = []"
| "form_bytes (c # s) =
     (if c = 43 then 32 # form_bytes s
      else if c = 37 then (case s of a # b # r \<Rightarrow>
          (case (hex_val a, hex_val b) of
             (Some x, Some y) \<Rightarrow> (16 * x + y) # form_bytes r
           | _ \<Rightarrow> 37 # form_bytes s)
        | _ \<Rightarrow> 37 # form_bytes s)
      else c # form_bytes s)"

definition form_decode :: "jstr \<Rightarrow> jstr" where
  "form_decode s = utf8_decode (form_bytes s)"

definition parse_pair :: "jstr \<Rightarrow> jstr \<times> jstr" where
  "parse_pair s = (form_decode (takeWhile (\<lambda>c. c \<noteq> 61) s), form_decode (drop 1 (dropWhile (\<lambda>c. c \<noteq> 61) s)))"

definition parse_query :: "jstr \<Rightarrow> (jstr \<times> jstr) list" where
  "parse_query s = (case s of [] \<Rightarrow> [] | _ # r \<Rightarrow> map parse_pair (split_on 38 r))"

lemma form_bytes_byte: "b < 256 \<Longrightarrow> form_bytes (form_byte b @ s) = b # form_bytes s"
proof -
  assume b: "b < 256"
  then have h: "hex_val (hex_upper (b div 16)) = Some (b div 16)" "hex_val (hex_upper (b mod 16)) = Some (b mod 16)"
    by auto
  show ?thesis
  proof (cases "b = 32 \<or> form_plain b")
    case True
    then show ?thesis by (auto simp: form_byte_def form_plain_def is_alpha_def is_digit_def)
  next
    case False
    then show ?thesis using h by (simp add: form_byte_def pct_def)
  qed
qed

lemma form_bytes_encode: "\<forall>b \<in> set bs. b < 256 \<Longrightarrow> form_bytes (concat (map form_byte bs)) = bs"
  by (induction bs) (auto simp: form_bytes_byte)

lemma wf16_units: "wf16 s \<Longrightarrow> \<forall>c \<in> set s. c < 65536"
proof (induction s rule: wf16.induct)
  case (2 c s)
  then show ?case by (cases "is_high c") (auto simp: is_high_def is_low_def split: list.splits)
qed simp

lemma form_decode_encode: "wf16 s \<Longrightarrow> form_decode (form_encode s) = s"
  using utf8_bytes [OF wf16_units] utf8_decode_encode
  by (simp add: form_decode_def form_encode_def form_bytes_encode)

lemma uri_char_no_sep: "uri_char c \<Longrightarrow> c \<noteq> 61 \<and> c \<noteq> 38"
  by (auto simp: uri_char_def uri_plain_def is_alpha_def is_digit_def)

lemma form_encode_chars: "wf16 s \<Longrightarrow> c \<in> set (form_encode s) \<Longrightarrow> c \<noteq> 61 \<and> c \<noteq> 38"
proof -
  assume s: "wf16 s" and c: "c \<in> set (form_encode s)"
  then obtain b where b: "b \<in> set (utf8_encode s)" "c \<in> set (form_byte b)" by (auto simp: form_encode_def)
  have "b < 256" using utf8_bytes [OF wf16_units [OF s] b(1)] .
  then have "c \<in> set (pct b) \<Longrightarrow> c \<noteq> 61 \<and> c \<noteq> 38" using pct_chars uri_char_no_sep by blast
  moreover have "form_plain b \<Longrightarrow> b \<noteq> 61 \<and> b \<noteq> 38" by (auto simp: form_plain_def is_alpha_def is_digit_def)
  ultimately show ?thesis using b(2) by (simp add: form_byte_def split: if_splits)
qed

lemma parse_pair_text: "wf16 k \<Longrightarrow> wf16 v \<Longrightarrow> parse_pair (form_encode k @ 61 # form_encode v) = (k, v)"
proof -
  assume kv: "wf16 k" "wf16 v"
  have n: "\<forall>c \<in> set (form_encode k). c \<noteq> 61" using form_encode_chars [OF kv(1)] by blast
  then have "takeWhile (\<lambda>c. c \<noteq> 61) (form_encode k @ 61 # form_encode v) = form_encode k"
    "dropWhile (\<lambda>c. c \<noteq> 61) (form_encode k @ 61 # form_encode v) = 61 # form_encode v"
    by (simp_all add: takeWhile_append dropWhile_append)
  then show ?thesis using form_decode_encode kv by (simp add: parse_pair_def)
qed

lemma parse_query_text:
  assumes "\<forall>(k, v) \<in> set q. wf16 k \<and> wf16 v"
  shows "parse_query (query_text q) = q"
proof (cases "q = []")
  case True
  then show ?thesis by (simp add: query_text_def parse_query_def)
next
  case False
  let ?f = "\<lambda>(k, v). form_encode k @ 61 # form_encode v"
  have "\<forall>w \<in> set (map ?f q). 38 \<notin> set w"
    using assms form_encode_chars by (fastforce split: prod.splits)
  then have "split_on 38 (join_with [38] (map ?f q)) = map ?f q"
    using False by (intro split_on_join) auto
  moreover have "map parse_pair (map ?f q) = q"
    using assms parse_pair_text by (induction q) auto
  ultimately show ?thesis using False by (simp add: query_text_def parse_query_def)
qed

text \<open>The pairs a list of parameters stands for.\<close>

definition expand :: "jstr \<times> jsval \<Rightarrow> (jstr \<times> jstr) list" where
  "expand p = (case p of (k, v) \<Rightarrow> if skipped v then []
     else (case v of Arr xs \<Rightarrow> map (\<lambda>x. (k, to_str x)) (filter (\<lambda>x. \<not> skipped x) xs) | _ \<Rightarrow> [(k, to_str v)]))"

lemma expand_keys: "q \<in> set (expand p) \<Longrightarrow> fst q = fst p"
  by (auto simp: expand_def split: prod.splits if_splits jsval.splits)

lemma query_set_fresh: "k \<notin> fst ` set q \<Longrightarrow> query_set q k v = q @ [(k, v)]"
  by (simp add: query_set_def)

lemma add_param_expand: "fst p \<notin> fst ` set q \<Longrightarrow> add_param q p = q @ expand p"
  by (cases p; cases "snd p") (auto simp: add_param_def expand_def query_set_fresh)

lemma query_pairs_expand: "distinct (map fst ps) \<Longrightarrow> query_pairs ps = concat (map expand ps)"
proof (induction ps rule: rev_induct)
  case (snoc p ps)
  then have "query_pairs ps = concat (map expand ps)" by simp
  moreover have "fst p \<notin> fst ` set (concat (map expand ps))"
    using snoc.prems by (auto dest!: expand_keys simp: image_iff)
  ultimately show ?case using add_param_expand [of p] by (simp add: query_pairs_def)
qed (simp add: query_pairs_def)

text \<open>C23: a query says what was asked. A server that decodes the query of a request URL reads
  exactly the given parameters, without the empty ones and with arrays unfolded, in order; no
  value can add, hide or change another parameter.\<close>

theorem query_says_what_was_asked:
  assumes "distinct (map fst ps)" and "\<forall>(k, v) \<in> set (concat (map expand ps)). wf16 k \<and> wf16 v"
  shows "\<exists>q. build_url pathname path ps = pathname (BASE @ path) @ q \<and> parse_query q = concat (map expand ps)"
  using parse_query_text [OF assms(2)] query_pairs_expand [OF assms(1)] by (simp add: build_url_def)

section \<open>Witnesses\<close>

lemma links_round_trip_witness:
  "map_option route_from_hash (href_for (js ''run'') (js ''a%2Fb'' @ [233])) = Some (to_route (js ''run'') (js ''a%2Fb'' @ [233]))"
proof -
  have "valid_detail_id (js ''a%2Fb'' @ [233])" "wf16 (js ''a%2Fb'' @ [233])" "js ''runs'' \<in> set PAGES" by code_simp+
  from links_round_trip [OF this] show ?thesis by blast
qed

lemma query_says_what_was_asked_witness:
  "\<exists>q. build_url id (js ''/runs'') [(js ''q'', Str (js ''a&b=c'')), (js ''x'', Null)] = BASE @ js ''/runs'' @ q
     \<and> parse_query q = [(js ''q'', js ''a&b=c'')]"
proof -
  let ?ps = "[(js ''q'', Str (js ''a&b=c'')), (js ''x'', Null)]"
  have e: "concat (map expand ?ps) = [(js ''q'', js ''a&b=c'')]" by (simp add: expand_def skipped_def)
  have "wf16 (js ''q'') \<and> wf16 (js ''a&b=c'')" by code_simp
  then have "\<forall>(k, v) \<in> set (concat (map expand ?ps)). wf16 k \<and> wf16 v" unfolding e by simp
  from query_says_what_was_asked [OF _ this, of id "js ''/runs''"] show ?thesis unfolding e by simp
qed

end
