(* ===== verification/Console_Api.thy ===== *)
theory Console_Api imports Console_Url begin

text \<open>
  The console's client state: the token store and requests of
  \<^verbatim>\<open>internal/console/web/src/lib/api.js\<close>, the session of \<^verbatim>\<open>lib/session.jsx\<close>, the workspace
  settings of \<^verbatim>\<open>lib/workspace.jsx\<close>, and the data hook of \<^verbatim>\<open>lib/hooks.js\<close>.

  The network, the clock and the browser's storage are arguments; the effects of a React
  component are the transitions of its state.
\<close>

section \<open>Browser storage\<close>

text \<open>Each access of a storage may throw.\<close>

record storage =
  items :: "jstr \<Rightarrow> jstr option"
  can_read :: bool
  can_write :: bool

definition get_item :: "storage \<Rightarrow> jstr \<Rightarrow> jstr option result" where
  "get_item st k = (if can_read st then Inr (items st k) else Inl (err ''SecurityError''))"

definition set_item :: "storage \<Rightarrow> jstr \<Rightarrow> jstr \<Rightarrow> storage" where
  "set_item st k v = (if can_write st then st\<lparr>items := (items st)(k := Some v)\<rparr> else st)"

definition remove_item :: "storage \<Rightarrow> jstr \<Rightarrow> storage" where
  "remove_item st k = (if can_write st then st\<lparr>items := (items st)(k := None)\<rparr> else st)"

section \<open>The token\<close>

definition TOKEN_KEY :: jstr where "TOKEN_KEY = js ''esf-console-token''"

record token_state =
  memory_token :: "jstr option" \<comment> \<open>\<open>null\<close> before the first \<open>setToken\<close>\<close>
  session_storage :: storage

definition get_token :: "token_state \<Rightarrow> jstr" where
  "get_token s = (case memory_token s of Some t \<Rightarrow> t
   | None \<Rightarrow> (case get_item (session_storage s) TOKEN_KEY of Inr (Some t) \<Rightarrow> t | _ \<Rightarrow> []))"

definition set_token :: "jstr \<Rightarrow> token_state \<Rightarrow> token_state" where
  "set_token t s = s\<lparr>memory_token := Some t,
     session_storage := (if t \<noteq> [] then set_item (session_storage s) TOKEN_KEY t
       else remove_item (session_storage s) TOKEN_KEY)\<rparr>"

definition clear_token :: "token_state \<Rightarrow> token_state" where
  "clear_token s = set_token [] s"

section \<open>Requests\<close>

record api_error =
  api_message :: jstr
  api_status :: nat
  api_code :: jstr

text \<open>What \<open>fetch\<close> yields: a failure with its name, or a response with its status and the outcomes
  of reading its body as JSON and as text.\<close>

datatype fetched =
    Failed jstr
  | Response (resp_status: nat) (resp_json: "jsval option") (resp_text: jstr)

datatype request_error = Aborted | Api api_error | Bad_body

record request_options =
  req_params :: "(jstr \<times> jsval) list"
  req_method :: jstr
  req_text :: bool
  req_token :: "jstr option" \<comment> \<open>\<open>undefined\<close> or a candidate\<close>

definition default_options :: request_options where
  "default_options = \<lparr>req_params = [], req_method = js ''GET'', req_text = False, req_token = None\<rparr>"

definition is_ok :: "nat \<Rightarrow> bool" where "is_ok n \<longleftrightarrow> 200 \<le> n \<and> n \<le> 299"

definition bearer :: "token_state \<Rightarrow> jstr option \<Rightarrow> jstr" where
  "bearer s tkn = (case tkn of Some t \<Rightarrow> t | None \<Rightarrow> get_token s)"

definition request_headers :: "token_state \<Rightarrow> jstr \<Rightarrow> jstr option \<Rightarrow> (jstr \<times> jstr) list" where
  "request_headers s accept tkn = (js ''Accept'', accept) #
     (if bearer s tkn \<noteq> [] then [(js ''Authorization'', js ''Bearer '' @ bearer s tkn)] else [])"

text \<open>What is sent: the URL, the method and the headers.\<close>

record sent_request =
  sent_url :: jstr
  sent_method :: jstr
  sent_headers :: "(jstr \<times> jstr) list"

definition build_request ::
    "(jstr \<Rightarrow> jstr) \<Rightarrow> token_state \<Rightarrow> jstr \<Rightarrow> request_options \<Rightarrow> sent_request" where
  "build_request pathname s path o' =
    \<lparr>sent_url = build_url pathname path (req_params o'), sent_method = req_method o',
     sent_headers = request_headers s (if req_text o' then js ''text/plain'' else js ''application/json'') (req_token o')\<rparr>"

definition error_body :: "nat \<Rightarrow> jsval option \<Rightarrow> api_error" where
  "error_body n body = (let b = (case body of None \<Rightarrow> Obj [] | Some v \<Rightarrow> v) in
     \<lparr>api_message = to_str (js_or (opt_get b ''error'') (Str (js ''Request failed (HTTP '' @ dec_nat n @ js '').''))),
      api_status = n, api_code = to_str (js_or (opt_get b ''code'') (Str []))\<rparr>)"

definition network_error :: api_error where
  "network_error = \<lparr>api_message = js ''The console server could not be reached.'', api_status = 0,
     api_code = js ''network''\<rparr>"

text \<open>The result, and whether the \<open>esf:unauthorized\<close> event is dispatched. An error body \<open>null\<close> is
  JSON whose fields cannot be read.\<close>

definition failed_response :: "nat \<Rightarrow> jsval option \<Rightarrow> request_error" where
  "failed_response n body = (if body = Some Null then Bad_body else Api (error_body n body))"

definition request :: "request_options \<Rightarrow> fetched \<Rightarrow> (request_error + jsval) \<times> bool" where
  "request o' f = (case f of
     Failed nm \<Rightarrow> (Inl (if nm = js ''AbortError'' then Aborted else Api network_error), False)
   | Response n body txt \<Rightarrow>
      if \<not> is_ok n then
        (Inl (failed_response n body), n = 401 \<and> req_token o' \<in> {None, Some []} \<and> body \<noteq> Some Null)
      else if req_text o' then (Inr (Str txt), False)
      else (case body of None \<Rightarrow> (Inl Bad_body, False) | Some v \<Rightarrow> (Inr v, False)))"

text \<open>\<open>requestBlob\<close>: the same without the event; \<open>bytes\<close> are the body's.\<close>

definition request_blob :: "nat list \<Rightarrow> fetched \<Rightarrow> (request_error + nat list) \<times> bool" where
  "request_blob bytes f = (case f of
     Failed nm \<Rightarrow> (Inl (if nm = js ''AbortError'' then Aborted else Api network_error), False)
   | Response n body txt \<Rightarrow>
      if \<not> is_ok n then (Inl (failed_response n body), False) else (Inr bytes, False))"

definition api_get_options :: "(jstr \<times> jsval) list \<Rightarrow> request_options" where
  "api_get_options ps = default_options\<lparr>req_params := ps\<rparr>"

definition api_text_options :: "(jstr \<times> jsval) list \<Rightarrow> request_options" where
  "api_text_options ps = default_options\<lparr>req_params := ps, req_text := True\<rparr>"

definition verify_options :: "jstr \<Rightarrow> request_options" where
  "verify_options candidate = default_options\<lparr>req_token := Some candidate\<rparr>"

section \<open>The session\<close>

datatype session_status = Loading | Authenticated | Unauthenticated

record session =
  sess_status :: session_status
  sess_data :: "jsval option"
  sess_error :: jstr

definition loading_session :: session where
  "loading_session = \<lparr>sess_status = Loading, sess_data = None, sess_error = []\<rparr>"

definition error_status :: "request_error \<Rightarrow> nat option" where
  "error_status e = (case e of Api a \<Rightarrow> Some (api_status a) | _ \<Rightarrow> None)"

definition error_message :: "request_error \<Rightarrow> jstr" where
  "error_message e = (case e of Api a \<Rightarrow> api_message a | Aborted \<Rightarrow> js ''The operation was aborted.''
     | Bad_body \<Rightarrow> js ''Unexpected token'')"

definition login_error :: "jstr \<Rightarrow> request_error \<Rightarrow> jstr" where
  "login_error t e = (if t \<noteq> [] then
       (if error_status e = Some 401 then js ''That access token was rejected.''
        else if error_message e \<noteq> [] then error_message e else js ''Unable to verify the session.'')
     else [])"

text \<open>The provider with its token store \<open>'t\<close>: the state, the store, the verifications under way.\<close>

record 't provider =
  sess :: session
  store :: 't
  verifying :: "jstr list"

definition begin_load :: "jstr \<Rightarrow> 't provider \<Rightarrow> 't provider" where
  "begin_load t p = p\<lparr>sess := loading_session, verifying := verifying p @ [t]\<rparr>"

definition load_ok :: "(jstr \<Rightarrow> 't \<Rightarrow> 't) \<Rightarrow> jstr \<Rightarrow> jsval \<Rightarrow> 't provider \<Rightarrow> 't provider" where
  "load_ok set_tok t v p = p\<lparr>store := set_tok t (store p),
     sess := \<lparr>sess_status = Authenticated, sess_data = Some v, sess_error = []\<rparr>,
     verifying := remove1 t (verifying p)\<rparr>"

definition load_failed :: "(jstr \<Rightarrow> 't \<Rightarrow> 't) \<Rightarrow> jstr \<Rightarrow> request_error \<Rightarrow> 't provider \<Rightarrow> 't provider" where
  "load_failed set_tok t e p = p\<lparr>store := set_tok [] (store p),
     sess := \<lparr>sess_status = Unauthenticated, sess_data = None, sess_error = login_error t e\<rparr>,
     verifying := remove1 t (verifying p)\<rparr>"

definition on_unauthorized :: "(jstr \<Rightarrow> 't \<Rightarrow> 't) \<Rightarrow> 't provider \<Rightarrow> 't provider" where
  "on_unauthorized set_tok p = p\<lparr>store := set_tok [] (store p),
     sess := \<lparr>sess_status = Unauthenticated, sess_data = None,
       sess_error = js ''The session expired. Enter the access token again.''\<rparr>\<rparr>"

definition logout :: "(jstr \<Rightarrow> 't \<Rightarrow> 't) \<Rightarrow> 't provider \<Rightarrow> 't provider" where
  "logout set_tok p = p\<lparr>store := set_tok [] (store p),
     sess := \<lparr>sess_status = Unauthenticated, sess_data = None, sess_error = []\<rparr>\<rparr>"

definition login :: "jstr \<Rightarrow> 't provider \<Rightarrow> 't provider" where
  "login t p = begin_load (trim t) p"

text \<open>Mounting probes the stored token, or the anonymous session.\<close>

definition mount :: "('t \<Rightarrow> jstr) \<Rightarrow> 't \<Rightarrow> 't provider" where
  "mount get_tok s = begin_load (get_tok s) \<lparr>sess = loading_session, store = s, verifying = []\<rparr>"

text \<open>What can happen to a mounted provider.\<close>

datatype session_event = Login jstr | Verified jstr jsval | Refused jstr request_error | Expired | Logout

fun session_step :: "(jstr \<Rightarrow> 't \<Rightarrow> 't) \<Rightarrow> session_event \<Rightarrow> 't provider \<Rightarrow> 't provider" where
  "session_step set_tkn (Login t) p = login t p"
| "session_step set_tkn (Verified t v) p = load_ok set_tkn t v p"
| "session_step set_tkn (Refused t e) p = load_failed set_tkn t e p"
| "session_step set_tkn Expired p = on_unauthorized set_tkn p"
| "session_step set_tkn Logout p = logout set_tkn p"

definition session_run :: "(jstr \<Rightarrow> 't \<Rightarrow> 't) \<Rightarrow> session_event list \<Rightarrow> 't provider \<Rightarrow> 't provider" where
  "session_run set_tkn es p = fold (session_step set_tkn) es p"

section \<open>Workspace settings\<close>

definition WINDOW_OPTIONS :: "(jstr \<times> jstr) list" where
  "WINDOW_OPTIONS = [(js ''24h'', js ''24 hours''), (js ''7d'', js ''7 days''), (js ''30d'', js ''30 days''),
     (js ''90d'', js ''90 days''), (js ''all'', js ''All time'')]"

definition DEFAULT_WINDOW :: jstr where "DEFAULT_WINDOW = js ''30d''"

definition read_stored :: "storage \<Rightarrow> jstr \<Rightarrow> jsval \<Rightarrow> jsval" where
  "read_stored st k fallback = (case get_item st k of
     Inr (Some t) \<Rightarrow> (if t = [] then fallback else case json_parse t of Some v \<Rightarrow> v | None \<Rightarrow> fallback)
   | _ \<Rightarrow> fallback)"

definition write_stored :: "storage \<Rightarrow> jstr \<Rightarrow> jsval \<Rightarrow> storage" where
  "write_stored st k v = set_item st k (case stringify v of None \<Rightarrow> js ''undefined'' | Some t \<Rightarrow> t)"

record workspace =
  ws_window :: jsval
  ws_auto_refresh :: jsval
  ws_nonce :: nat
  local_storage :: storage

definition init_workspace :: "storage \<Rightarrow> workspace" where
  "init_workspace st = (let v = read_stored st (js ''esf-console-window'') (Str DEFAULT_WINDOW) in
     \<lparr>ws_window = (if v \<in> (\<lambda>p. Str (fst p)) ` set WINDOW_OPTIONS then v else Str DEFAULT_WINDOW),
      ws_auto_refresh = read_stored st (js ''esf-console-auto-refresh'') (JBool True),
      ws_nonce = 0, local_storage = st\<rparr>)"

definition set_window :: "jsval \<Rightarrow> workspace \<Rightarrow> workspace" where
  "set_window v w = w\<lparr>ws_window := v, local_storage := write_stored (local_storage w) (js ''esf-console-window'') v\<rparr>"

definition set_auto_refresh :: "jsval \<Rightarrow> workspace \<Rightarrow> workspace" where
  "set_auto_refresh v w = w\<lparr>ws_auto_refresh := v,
     local_storage := write_stored (local_storage w) (js ''esf-console-auto-refresh'') v\<rparr>"

definition refresh_all :: "workspace \<Rightarrow> workspace" where
  "refresh_all w = w\<lparr>ws_nonce := ws_nonce w + 1\<rparr>"

section \<open>The data hook\<close>

text \<open>\<open>useApi\<close>: the visible state, whether the component is mounted, the number of the last
  request, whether polling is on, the effect runs (number, stopped) and the timers: one per
  run that is waiting, with the stage it is in.\<close>

record hook_state =
  hook_data :: "jsval option"
  hook_error :: "request_error option"
  hook_loading :: bool

datatype timer = Poll nat | Hidden_retry nat

record hook =
  shown :: hook_state
  alive :: bool
  request_id :: nat
  stopped_runs :: "nat list"
  in_flight :: "nat list"
  timers :: "timer list"

definition init_hook :: "bool \<Rightarrow> hook" where
  "init_hook enabled = \<lparr>shown = \<lparr>hook_data = None, hook_error = None, hook_loading = enabled\<rparr>, alive = True,
     request_id = 0, stopped_runs = [], in_flight = [], timers = []\<rparr>"

definition load :: "nat \<Rightarrow> bool \<Rightarrow> hook \<Rightarrow> hook" where
  "load i spinner h = h\<lparr>shown := (if spinner then (shown h)\<lparr>hook_loading := True\<rparr> else shown h),
     in_flight := in_flight h @ [i]\<rparr>"

text \<open>The body of the effect, and its cleanup.\<close>

definition run_effect_hook :: "bool \<Rightarrow> hook \<Rightarrow> hook" where
  "run_effect_hook enabled h =
    (if \<not> enabled then h\<lparr>shown := (shown h)\<lparr>hook_loading := False\<rparr>\<rparr>
     else load (request_id h + 1) True (h\<lparr>request_id := request_id h + 1\<rparr>))"

definition timer_of :: "timer \<Rightarrow> nat" where
  "timer_of t = (case t of Poll i \<Rightarrow> i | Hidden_retry i \<Rightarrow> i)"

definition cleanup_run :: "nat \<Rightarrow> hook \<Rightarrow> hook" where
  "cleanup_run i h = h\<lparr>stopped_runs := stopped_runs h @ [i], timers := filter (\<lambda>t. timer_of t \<noteq> i) (timers h)\<rparr>"

definition unmount :: "hook \<Rightarrow> hook" where
  "unmount h = h\<lparr>alive := False\<rparr>"

definition ignored :: "nat \<Rightarrow> hook \<Rightarrow> bool" where
  "ignored i h \<longleftrightarrow> \<not> alive h \<or> i \<noteq> request_id h"

definition schedule :: "bool \<Rightarrow> nat \<Rightarrow> hook \<Rightarrow> hook" where
  "schedule polling i h = (if i \<notin> set (stopped_runs h) \<and> polling then h\<lparr>timers := timers h @ [Poll i]\<rparr> else h)"

text \<open>The outcome of the request of run \<open>i\<close>.\<close>

definition settle_load :: "bool \<Rightarrow> nat \<Rightarrow> request_error + jsval \<Rightarrow> hook \<Rightarrow> hook" where
  "settle_load polling i out h =
    (let h' = h\<lparr>in_flight := remove1 i (in_flight h)\<rparr> in
     case out of
       Inr v \<Rightarrow> if ignored i h then h'
         else schedule polling i (h'\<lparr>shown := \<lparr>hook_data = Some v, hook_error = None, hook_loading = False\<rparr>\<rparr>)
     | Inl e \<Rightarrow> if e = Aborted \<or> ignored i h then h'
         else schedule polling i (h'\<lparr>shown := (shown h)\<lparr>hook_error := Some e, hook_loading := False\<rparr>\<rparr>))"

text \<open>A timer fires; \<open>hidden\<close> is the visibility of the document at that moment.\<close>

definition fire :: "bool \<Rightarrow> timer \<Rightarrow> hook \<Rightarrow> hook" where
  "fire hidden t h = (let h' = h\<lparr>timers := remove1 t (timers h)\<rparr> in
     case t of
       Poll i \<Rightarrow> if hidden then h'\<lparr>timers := timers h' @ [Hidden_retry i]\<rparr> else load i False h'
     | Hidden_retry i \<Rightarrow> load i False h')"

text \<open>\<open>useLocalStorage\<close>, \<open>useDocumentTitle\<close>, \<open>useDebounced\<close> and \<open>useInterval\<close>: the stored value, the title, the
  value after a delay, and the delay an interval runs with.\<close>

definition stored_initial :: "storage \<Rightarrow> jstr \<Rightarrow> jsval \<Rightarrow> jsval" where
  "stored_initial st k initial = (case get_item st k of
     Inr (Some t) \<Rightarrow> (case json_parse t of Some v \<Rightarrow> v | None \<Rightarrow> initial)
   | _ \<Rightarrow> initial)"

definition document_title :: "jstr \<Rightarrow> jstr" where
  "document_title t = (if t \<noteq> [] then t @ [32] @ middot @ js '' ESF Console'' else js ''ESF Console'')"

text \<open>Changes arrive as (time, value); \<open>now\<close> is when the debounced value is read.\<close>

fun debounced :: "nat \<Rightarrow> nat \<Rightarrow> 'a \<Rightarrow> (nat \<times> 'a) list \<Rightarrow> 'a" where
  "debounced delay now v [] = v"
| "debounced delay now v ((t, x) # rest) =
     debounced delay now (if (case rest of (t', _) # _ \<Rightarrow> t + delay \<le> t' | [] \<Rightarrow> t + delay \<le> now) then x else v) rest"

definition interval_delay :: "nat option \<Rightarrow> nat option" where
  "interval_delay d = (case d of None \<Rightarrow> None | Some n \<Rightarrow> if n = 0 then None else Some n)"

end
