(* ===== verification/Console_Api_Facts.thy ===== *)
theory Console_Api_Facts imports Console_Api begin

text \<open>
  What the console's client state guarantees: the session and its token agree whatever the
  storage does, a rejected credential is announced exactly once, settings survive a reload,
  and a data hook never goes back to the answer of an older request.
\<close>

section \<open>The token store\<close>

text \<open>What the session relies on: the token last set is the one read, even when the browser's
  storage throws.\<close>

locale token_store =
  fixes get_tkn :: "'t \<Rightarrow> jstr" and set_tkn :: "jstr \<Rightarrow> 't \<Rightarrow> 't"
  assumes get_set: "get_tkn (set_tkn t s) = t"
begin

definition agrees :: "session_event list \<Rightarrow> 't provider \<Rightarrow> bool" where
  "agrees es p \<longleftrightarrow> (case sess_status (sess p) of
     Authenticated \<Rightarrow> (\<exists>v. sess_data (sess p) = Some v \<and> Verified (get_tkn (store p)) v \<in> set es)
   | Unauthenticated \<Rightarrow> sess_data (sess p) = None \<and> get_tkn (store p) = []
   | Loading \<Rightarrow> sess_data (sess p) = None)"

lemma agrees_step: "agrees es p \<Longrightarrow> agrees (es @ [e]) (session_step set_tkn e p)"
  by (cases e) (auto simp: agrees_def login_def begin_load_def loading_session_def load_ok_def load_failed_def
      on_unauthorized_def logout_def get_set)

lemma agrees_run: "agrees es (session_run set_tkn es (mount get_tkn s))"
proof (induction es rule: rev_induct)
  case Nil
  show ?case by (simp add: session_run_def agrees_def mount_def begin_load_def loading_session_def)
next
  case (snoc e es)
  from agrees_step [OF this, of e] show ?case by (simp add: session_run_def)
qed

end

interpretation tokens: token_store get_token set_token
  by unfold_locales (simp add: get_token_def set_token_def)

text \<open>C25: the session and the token agree. After any interleaving of logins, verifications,
  refusals, expiries and logouts, and whatever the storage throws, an authenticated session
  holds the answer that verified exactly the token now in use, and an unauthenticated one has
  no data and no token.\<close>

theorem session_token_agree:
  assumes "p = session_run set_token es (mount get_token s)"
  shows "(sess_status (sess p) = Authenticated \<longrightarrow>
      (\<exists>v. sess_data (sess p) = Some v \<and> Verified (get_token (store p)) v \<in> set es))
    \<and> (sess_status (sess p) = Unauthenticated \<longrightarrow> sess_data (sess p) = None \<and> get_token (store p) = [])"
  using tokens.agrees_run [of es s] assms by (auto simp: tokens.agrees_def)

section \<open>Rejected credentials\<close>

text \<open>A 401 is announced exactly when the stored credential was rejected. The
  \<open>esf:unauthorized\<close> event follows a 401 of a request without a candidate token whose error body
  can be read, and nothing else; a blob request never announces it.\<close>

theorem unauthorized_announced:
  "(snd (request o' f) \<longleftrightarrow> (\<exists>b t. f = Response 401 b t \<and> b \<noteq> Some Null) \<and> req_token o' \<in> {None, Some []})
   \<and> \<not> snd (request_blob bytes f)"
  by (cases f) (auto simp: request_def request_blob_def is_ok_def split: option.splits)

section \<open>Settings\<close>

lemma stored_round_trip:
  assumes "can_write st" "can_read st" "json_ok v"
  shows "read_stored (write_stored st k v) k d = v"
proof -
  obtain t where t: "stringify v = Some t" using json_ok_stringify [OF assms(3)] by blast
  have "json_parse t = Some v" using json_parse_stringify [OF assms(3) t, of "[]"] by (simp add: jws_def)
  moreover from this have "t \<noteq> []" by (auto simp: json_parse_def jws_def)
  ultimately show ?thesis
    using assms(1,2) t by (simp add: read_stored_def write_stored_def get_item_def set_item_def)
qed

text \<open>Settings survive a reload, and never break one. Whatever the storage holds, a new
  workspace has one of the offered windows; with a working storage the window and the
  refresh switch are those set last.\<close>

theorem settings_survive_reload:
  "(\<exists>o' \<in> set WINDOW_OPTIONS. ws_window (init_workspace st) = Str (fst o'))
   \<and> (can_read (local_storage w) \<and> can_write (local_storage w) \<and> i \<in> fst ` set WINDOW_OPTIONS \<longrightarrow>
        ws_window (init_workspace (local_storage (set_auto_refresh (JBool b) (set_window (Str i) w)))) = Str i
      \<and> ws_auto_refresh (init_workspace (local_storage (set_auto_refresh (JBool b) (set_window (Str i) w)))) = JBool b)"
proof -
  have d: "js ''30d'' \<in> fst ` set WINDOW_OPTIONS" by (simp add: WINDOW_OPTIONS_def)
  have a: "\<exists>o' \<in> set WINDOW_OPTIONS. ws_window (init_workspace st) = Str (fst o')"
    using d by (auto simp: init_workspace_def Let_def DEFAULT_WINDOW_def)
  have b: "ws_window (init_workspace (local_storage (set_auto_refresh (JBool b) (set_window (Str i) w)))) = Str i
      \<and> ws_auto_refresh (init_workspace (local_storage (set_auto_refresh (JBool b) (set_window (Str i) w)))) = JBool b"
    if s: "can_read (local_storage w)" "can_write (local_storage w)" and i: "i \<in> fst ` set WINDOW_OPTIONS"
  proof -
    let ?s1 = "write_stored (local_storage w) (js ''esf-console-window'') (Str i)"
    let ?s2 = "write_stored ?s1 (js ''esf-console-auto-refresh'') (JBool b)"
    have "\<forall>i \<in> fst ` set WINDOW_OPTIONS. json_ok (Str i)" by (simp add: WINDOW_OPTIONS_def js_def)
    then have "read_stored ?s1 (js ''esf-console-window'') d = Str i" for d
      using i s by (intro stored_round_trip) blast+
    then have "read_stored ?s2 (js ''esf-console-window'') d = Str i" for d
      using s by (simp add: read_stored_def write_stored_def get_item_def set_item_def)
    moreover have "read_stored ?s2 (js ''esf-console-auto-refresh'') d = JBool b" for d
      using s by (intro stored_round_trip) (simp_all add: write_stored_def set_item_def)
    ultimately show ?thesis using i
      by (auto simp: init_workspace_def set_auto_refresh_def set_window_def Let_def image_iff)
  qed
  from a b show ?thesis by blast
qed

section \<open>The data hook\<close>

text \<open>The runs of a mounted hook. The list records the numbers of the requests whose data was
  shown, in order.\<close>

inductive hook_reach :: "bool \<Rightarrow> hook \<Rightarrow> nat list \<Rightarrow> bool" for polling where
  start: "hook_reach polling (init_hook b) []"
| effect: "hook_reach polling h hist \<Longrightarrow> hook_reach polling (run_effect_hook b h) hist"
| cleanup: "hook_reach polling h hist \<Longrightarrow> hook_reach polling (cleanup_run (request_id h) h) hist"
| unmount: "hook_reach polling h hist \<Longrightarrow> hook_reach polling (unmount h) hist"
| data: "hook_reach polling h hist \<Longrightarrow> i \<in> set (in_flight h) \<Longrightarrow>
    hook_reach polling (settle_load polling i (Inr v) h) (hist @ (if ignored i h then [] else [i]))"
| failure: "hook_reach polling h hist \<Longrightarrow> i \<in> set (in_flight h) \<Longrightarrow> hook_reach polling (settle_load polling i (Inl e) h) hist"
| timer: "hook_reach polling h hist \<Longrightarrow> t \<in> set (timers h) \<Longrightarrow> hook_reach polling (fire hidden t h) hist"

lemma request_id_simps [simp]:
  "request_id (run_effect_hook b h) = (if b then request_id h + 1 else request_id h)"
  "request_id (cleanup_run i h) = request_id h" "request_id (unmount h) = request_id h"
  "request_id (settle_load p i out h) = request_id h" "request_id (fire hid t h) = request_id h"
  by (auto simp: run_effect_hook_def load_def cleanup_run_def unmount_def settle_load_def schedule_def fire_def
      Let_def split: sum.split timer.split)

lemma hook_log: "hook_reach polling h hist \<Longrightarrow> sorted hist \<and> (\<forall>i \<in> set hist. i \<le> request_id h)"
proof (induction rule: hook_reach.induct)
  case (data h hist i v)
  then show ?case by (auto simp: sorted_append ignored_def)
qed (auto intro: le_SucI)

definition data_shown :: "hook \<Rightarrow> jsval option" where
  "data_shown h = hook_data (shown h)"

lemma data_shown_simps:
  "data_shown (run_effect_hook b h) = data_shown h" "data_shown (cleanup_run i h) = data_shown h"
  "data_shown (unmount h) = data_shown h" "data_shown (settle_load p i (Inl e) h) = data_shown h"
  "data_shown (fire hid t h) = data_shown h"
  "data_shown (settle_load p i (Inr v) h) = (if ignored i h then data_shown h else Some v)"
  by (auto simp: data_shown_def run_effect_hook_def load_def cleanup_run_def unmount_def settle_load_def
      schedule_def fire_def Let_def split: timer.split)

text \<open>C27: data never goes back. In every run of the hook, of effects, cleanups, unmounting, timers
  and answers that arrive in any order, the requests whose data was shown have ascending
  numbers, each the latest when its answer arrived, and an answer that is ignored leaves what
  is shown.\<close>

theorem hook_data_never_goes_back:
  assumes "hook_reach polling h hist"
  shows "sorted hist \<and> (\<forall>i \<in> set hist. i \<le> request_id h)
    \<and> (\<forall>i v. i \<noteq> request_id h \<or> \<not> alive h \<longrightarrow> data_shown (settle_load polling i (Inr v) h) = data_shown h)"
  using hook_log [OF assms] data_shown_simps(6) by (auto simp: ignored_def)

text \<open>A hidden document still polls: the retry of a hidden tab requests without looking at the
  visibility again.\<close>

lemma hidden_tab_polls:
  assumes "timers h = [Poll i]"
  shows "in_flight (fire True (Hidden_retry i) (fire True (Poll i) h)) = in_flight h @ [i]"
  using assms by (simp add: fire_def load_def)

section \<open>Witnesses\<close>

definition ex_store :: token_state where
  "ex_store = \<lparr>memory_token = None, session_storage = \<lparr>items = (\<lambda>_. Some (js ''old'')), can_read = True, can_write = False\<rparr>\<rparr>"

lemma session_token_agree_witness:
  "\<exists>v. sess_data (sess (session_run set_token [Refused (js ''old'') Aborted, Login (js '' t ''), Verified (js ''t'') Null]
      (mount get_token ex_store))) = Some v"
proof -
  let ?p = "session_run set_token [Refused (js ''old'') Aborted, Login (js '' t ''), Verified (js ''t'') Null]
      (mount get_token ex_store)"
  have "sess_status (sess ?p) = Authenticated" by (simp add: session_run_def load_ok_def)
  with session_token_agree [of ?p "[Refused (js ''old'') Aborted, Login (js '' t ''), Verified (js ''t'') Null]" ex_store]
  show ?thesis by auto
qed

lemma unauthorized_announced_witness:
  "snd (request default_options (Response 401 None [])) \<and> \<not> snd (request_blob [] (Response 401 None []))"
  using unauthorized_announced [of default_options "Response 401 None []" "[]"] by (simp add: default_options_def)

lemma settings_survive_reload_witness:
  "\<exists>st. ws_window (init_workspace (local_storage (set_auto_refresh (JBool False) (set_window (Str (js ''7d'')) (init_workspace st))))) = Str (js ''7d'')"
proof -
  let ?w = "init_workspace \<lparr>items = (\<lambda>_. None), can_read = True, can_write = True\<rparr>"
  have "can_read (local_storage ?w)" "can_write (local_storage ?w)" by (simp_all add: init_workspace_def Let_def)
  moreover have "js ''7d'' \<in> fst ` set WINDOW_OPTIONS" by (simp add: WINDOW_OPTIONS_def)
  ultimately show ?thesis using settings_survive_reload [of _ ?w "js ''7d''" False] by blast
qed

lemma hook_data_never_goes_back_witness:
  "sorted [1::nat] \<and> data_shown (settle_load False 1 (Inr Null)
     (run_effect_hook True (settle_load False 1 (Inr (JBool True)) (run_effect_hook True (init_hook True))))) = Some (JBool True)"
proof -
  let ?h1 = "run_effect_hook True (init_hook True)"
  have "1 \<in> set (in_flight ?h1)" by (simp add: run_effect_hook_def load_def init_hook_def)
  from hook_reach.data [OF hook_reach.effect [OF hook_reach.start] this, of False "JBool True"]
  have "hook_reach False (settle_load False 1 (Inr (JBool True)) ?h1) ([] @ (if ignored 1 ?h1 then [] else [1]))" .
  moreover have i: "\<not> ignored 1 ?h1" by (simp add: ignored_def run_effect_hook_def load_def init_hook_def)
  ultimately have "hook_reach False (run_effect_hook True (settle_load False 1 (Inr (JBool True)) ?h1)) [1]"
    using hook_reach.effect by simp
  from hook_data_never_goes_back [OF this] i show ?thesis
    by (simp add: data_shown_simps)
qed

end
