(* ===== verification/Js_Date.thy ===== *)
theory Js_Date imports Js_Value begin

text \<open>
  The part of \<open>Date\<close> the console uses: \<open>new Date(v).getTime()\<close>, \<open>getUTCFullYear\<close>,
  \<open>toISOString\<close> and the two \<open>Intl.DateTimeFormat\<close> layouts. A text in the date-time
  format of the language standard is read here; any other text is read by the engine's own
  parser, which the standard leaves open, and the local time zone belongs to the machine:
  both are fields of the environment record \<open>clock\<close>.
\<close>

record clock =
  legacy :: "jstr \<Rightarrow> jnum"  \<comment> \<open>the engine's parser for texts outside the standard's format\<close>
  zone :: "int \<Rightarrow> int"      \<comment> \<open>local offset from UTC in milliseconds at a time in milliseconds\<close>
  meridiem_gap :: jstr      \<comment> \<open>the space the locale data puts before AM and PM\<close>

section \<open>The proleptic Gregorian calendar\<close>

definition day_ms :: int where "day_ms = 86400000"

text \<open>Days since 1970-01-01 of a civil date, and back.\<close>

definition days_from_civil :: "int \<Rightarrow> int \<Rightarrow> int \<Rightarrow> int" where
  "days_from_civil y m d =
     (let y' = (if m \<le> 2 then y - 1 else y); e = y' div 400; yoe = y' mod 400;
          doy = (153 * ((m + 9) mod 12) + 2) div 5 + d - 1
      in e * 146097 + yoe * 365 + yoe div 4 - yoe div 100 + doy - 719468)"

definition civil_from_days :: "int \<Rightarrow> int \<times> int \<times> int" where
  "civil_from_days z =
     (let z' = z + 719468; e = z' div 146097; doe = z' mod 146097;
          yoe = (doe - doe div 1460 + doe div 36524 - doe div 146096) div 365;
          doy = doe - (365 * yoe + yoe div 4 - yoe div 100);
          mp = (5 * doy + 2) div 153; d = doy - (153 * mp + 2) div 5 + 1;
          m = (if mp < 10 then mp + 3 else mp - 9)
      in (yoe + e * 400 + (if m \<le> 2 then 1 else 0), m, d))"

definition leap_year :: "int \<Rightarrow> bool" where
  "leap_year y \<longleftrightarrow> y mod 4 = 0 \<and> (y mod 100 \<noteq> 0 \<or> y mod 400 = 0)"

definition month_days :: "int \<Rightarrow> int \<Rightarrow> int" where
  "month_days y m = (if m = 2 then (if leap_year y then 29 else 28)
     else if m \<in> set [4, 6, 9, 11] then 30 else 31)"

section \<open>Reading\<close>

text \<open>A fixed number of digits, and a literal character.\<close>

definition digits_n :: "nat \<Rightarrow> jstr \<Rightarrow> (int \<times> jstr) option" where
  "digits_n n s = (if length (take n s) = n \<and> list_all is_digit (take n s)
     then Some (int (digits_val (take n s)), drop n s) else None)"

definition after_char :: "nat \<Rightarrow> jstr \<Rightarrow> jstr option" where
  "after_char c s = (case s of [] \<Rightarrow> None | d # r \<Rightarrow> if d = c then Some r else None)"

text \<open>\<open>HH:mm\<close> with the optional \<open>:ss\<close> and fraction, in milliseconds. \<open>24:00\<close> is midnight.\<close>

definition iso_fraction :: "jstr \<Rightarrow> int \<times> jstr" where
  "iso_fraction s = (case after_char 46 s of None \<Rightarrow> (0, s)
     | Some r \<Rightarrow> let ds = takeWhile is_digit r in
         if ds = [] then (0, s) else (int (digits_val (take 3 (ds @ [48, 48]))), dropWhile is_digit r))"

definition iso_seconds :: "jstr \<Rightarrow> (int \<times> jstr) option" where
  "iso_seconds s = (case after_char 58 s of None \<Rightarrow> Some (0, s)
     | Some r \<Rightarrow> (case digits_n 2 r of None \<Rightarrow> None
         | Some (n, r') \<Rightarrow> (case iso_fraction r' of (f, r'') \<Rightarrow>
             if n \<le> 59 then Some (n * 1000 + f, r'') else None)))"

definition iso_hm :: "jstr \<Rightarrow> (int \<times> int \<times> jstr) option" where
  "iso_hm s = (case digits_n 2 s of None \<Rightarrow> None
     | Some (h, r) \<Rightarrow> (case after_char 58 r of None \<Rightarrow> None
         | Some r' \<Rightarrow> (case digits_n 2 r' of None \<Rightarrow> None
             | Some (m, r'') \<Rightarrow> if m \<le> 59 then Some (h, m, r'') else None)))"

definition iso_time :: "jstr \<Rightarrow> (int \<times> jstr) option" where
  "iso_time s = (case iso_hm s of None \<Rightarrow> None
     | Some (h, m, r) \<Rightarrow> (case iso_seconds r of None \<Rightarrow> None
         | Some (sm, r') \<Rightarrow> if h \<le> 23 \<or> h = 24 \<and> m = 0 \<and> sm = 0
             then Some (h * 3600000 + m * 60000 + sm, r') else None))"

text \<open>The offset at the end: \<open>Z\<close>, \<open>\<plusminus>HH:mm\<close>, or nothing, which means local time.\<close>

definition iso_offset :: "jstr \<Rightarrow> int option option" where
  "iso_offset s = (if s = [] then Some None else if s = [90] then Some (Some 0)
     else if hd s = 43 \<or> hd s = 45 then
       (case iso_hm (tl s) of None \<Rightarrow> None
        | Some (h, m, r) \<Rightarrow> if r = [] \<and> h \<le> 23
            then Some (Some ((if hd s = 45 then - 1 else 1) * (h * 3600000 + m * 60000))) else None)
     else None)"

definition iso_date :: "jstr \<Rightarrow> (int \<times> jstr) option" where
  "iso_date s = (case digits_n 4 s of None \<Rightarrow> None
     | Some (y, r) \<Rightarrow> (case after_char 45 r of None \<Rightarrow> None
         | Some r1 \<Rightarrow> (case digits_n 2 r1 of None \<Rightarrow> None
             | Some (m, r2) \<Rightarrow> (case after_char 45 r2 of None \<Rightarrow> None
                 | Some r3 \<Rightarrow> (case digits_n 2 r3 of None \<Rightarrow> None
                     | Some (d, r4) \<Rightarrow>
                         if 1 \<le> m \<and> m \<le> 12 \<and> 1 \<le> d \<and> d \<le> month_days y m
                         then Some (days_from_civil y m d * day_ms, r4) else None)))))"

text \<open>The UTC time of a local time; at a change of offset the earlier one is taken.\<close>

definition from_local :: "clock \<Rightarrow> int \<Rightarrow> int" where
  "from_local ck t = t - zone ck (t - zone ck t)"

definition iso_ms :: "clock \<Rightarrow> jstr \<Rightarrow> int option" where
  "iso_ms ck s = (case iso_date s of None \<Rightarrow> None
     | Some (d, r) \<Rightarrow>
         if r = [] then Some d
         else (case after_char 84 r of None \<Rightarrow> None
           | Some r' \<Rightarrow> (case iso_time r' of None \<Rightarrow> None
               | Some (t, r'') \<Rightarrow> (case iso_offset r'' of None \<Rightarrow> None
                   | Some (Some z) \<Rightarrow> Some (d + t - z)
                   | Some None \<Rightarrow> Some (from_local ck (d + t))))))"

definition MAX_MS :: int where "MAX_MS = 8640000000000000"

definition time_clip :: "jnum \<Rightarrow> jnum" where
  "time_clip n = (case n of Fin x \<Rightarrow>
      (if \<bar>x\<bar> \<le> of_int MAX_MS then num_int (if 0 \<le> x then \<lfloor>x\<rfloor> else \<lceil>x\<rceil>) else NaN)
    | _ \<Rightarrow> NaN)"

text \<open>\<open>new Date(v).getTime()\<close>; an array or object is read as its text.\<close>

definition date_text :: "clock \<Rightarrow> jstr \<Rightarrow> jnum" where
  "date_text ck s = (case iso_ms ck s of Some t \<Rightarrow> time_clip (num_int t) | None \<Rightarrow> time_clip (legacy ck s))"

definition date_ms :: "clock \<Rightarrow> jsval \<Rightarrow> jnum" where
  "date_ms ck v = (case v of Str s \<Rightarrow> date_text ck s
     | Arr xs \<Rightarrow> date_text ck (to_str v) | Obj ps \<Rightarrow> date_text ck (to_str v)
     | _ \<Rightarrow> time_clip (to_num v))"

lemma time_clip_cases: "time_clip n = NaN \<or> (\<exists>t. time_clip n = num_int t \<and> \<bar>t\<bar> \<le> MAX_MS)"
proof (cases n)
  case (Fin x)
  show ?thesis
  proof (cases "\<bar>x\<bar> \<le> of_int MAX_MS")
    case True
    then have "\<bar>if 0 \<le> x then \<lfloor>x\<rfloor> else \<lceil>x\<rceil>\<bar> \<le> MAX_MS"
      by (auto simp: abs_le_iff floor_le_iff ceiling_le_iff) linarith+
    with True Fin show ?thesis by (auto simp: time_clip_def)
  qed (simp add: time_clip_def Fin)
qed (auto simp: time_clip_def)

lemma date_ms_clip: "\<exists>n. date_ms ck v = time_clip n"
  by (cases v) (auto simp: date_ms_def date_text_def split: option.splits)

lemma date_ms_cases: obtains "date_ms ck v = NaN" | t where "date_ms ck v = num_int t" "\<bar>t\<bar> \<le> MAX_MS"
  using date_ms_clip [of ck v] time_clip_cases by metis

section \<open>Writing\<close>

definition utc_year :: "int \<Rightarrow> int" where
  "utc_year t = fst (civil_from_days (t div day_ms))"

definition pad_int :: "nat \<Rightarrow> int \<Rightarrow> jstr" where
  "pad_int n k = pad0 n (dec_nat (nat k))"

text \<open>\<open>toISOString\<close>: years outside four digits carry a sign and six digits.\<close>

definition iso_string :: "int \<Rightarrow> jstr" where
  "iso_string t = (case civil_from_days (t div day_ms) of (y, m, d) \<Rightarrow> let r = t mod day_ms in
     (if 0 \<le> y \<and> y \<le> 9999 then pad_int 4 y else (if y < 0 then [45] else [43]) @ pad_int 6 \<bar>y\<bar>)
       @ [45] @ pad_int 2 m @ [45] @ pad_int 2 d @ [84]
       @ pad_int 2 (r div 3600000) @ [58] @ pad_int 2 (r div 60000 mod 60) @ [58]
       @ pad_int 2 (r div 1000 mod 60) @ [46] @ pad_int 3 (r mod 1000) @ [90])"

definition month_name :: "int \<Rightarrow> jstr" where
  "month_name m = js ([''Jan'', ''Feb'', ''Mar'', ''Apr'', ''May'', ''Jun'', ''Jul'',
     ''Aug'', ''Sep'', ''Oct'', ''Nov'', ''Dec''] ! nat (m - 1))"

text \<open>\<open>Jan 05, 2026, 03:04 PM\<close> and \<open>Jan 5\<close>, in local time.\<close>

definition intl_date_time :: "clock \<Rightarrow> int \<Rightarrow> jstr" where
  "intl_date_time ck t = (let l = t + zone ck t; r = l mod day_ms; h = r div 3600000 in
     case civil_from_days (l div day_ms) of (y, m, d) \<Rightarrow>
       month_name m @ js '' '' @ pad_int 2 d @ js '', '' @ dec_int y @ js '', ''
         @ pad_int 2 (if h mod 12 = 0 then 12 else h mod 12) @ js '':'' @ pad_int 2 (r div 60000 mod 60)
         @ meridiem_gap ck @ (if h < 12 then js ''AM'' else js ''PM''))"

definition intl_date :: "clock \<Rightarrow> int \<Rightarrow> jstr" where
  "intl_date ck t = (let l = t + zone ck t in
     case civil_from_days (l div day_ms) of (y, m, d) \<Rightarrow> month_name m @ js '' '' @ dec_int d)"

definition utc_clock :: clock where
  "utc_clock = \<lparr>legacy = (\<lambda>s. NaN), zone = (\<lambda>t. 0), meridiem_gap = js '' ''\<rparr>"

end
