(* ===== verification/Console_Format.thy ===== *)
theory Console_Format imports Js_Date begin

text \<open>
  \<open>internal/console/web/src/lib/format.js\<close>: the formatting helpers every screen of the
  console shares, the vocabulary of run states and change statuses, and the reader of
  unified diffs. An options object is passed as its values; the defaults of the source are
  the constants \<open>dash\<close>, \<open>not_reported\<close> and the numbers at the calls.
\<close>

abbreviation dash :: jstr where "dash \<equiv> em_dash"

definition not_reported :: jstr where "not_reported = js ''Not reported''"

section \<open>Lookup in literal objects, and \<open>switch\<close>\<close>

type_synonym 'a table = "(jstr \<times> 'a) list"

definition table :: "(string \<times> string) list \<Rightarrow> jstr table" where
  "table t = map (\<lambda>(k, v). (js k, js v)) t"

text \<open>\<open>TABLE[v]\<close>: the key is the text of the value.\<close>

definition table_get :: "'a table \<Rightarrow> jsval \<Rightarrow> 'a option" where
  "table_get t v = map_of t (to_str v)"

text \<open>\<open>switch (v)\<close> over string cases: strict equality, the first match.\<close>

fun switch :: "jsval \<Rightarrow> (string list \<times> 'a) list \<Rightarrow> 'a \<Rightarrow> 'a" where
  "switch v [] d = d"
| "switch v ((cs, r) # t) d = (if v \<in> set (map (\<lambda>c. Str (js c)) cs) then r else switch v t d)"

section \<open>Numbers\<close>

definition unreported :: "jsval \<Rightarrow> bool" where
  "unreported v \<longleftrightarrow> nullish v \<or> to_num v = NaN"

definition format_number :: "bool \<Rightarrow> jstr \<Rightarrow> jsval \<Rightarrow> jstr" where
  "format_number short fb v =
     (if unreported v then fb else if short then en_us_compact (to_num v) else en_us (to_num v))"

definition format_percent :: "nat \<Rightarrow> jstr \<Rightarrow> jsval \<Rightarrow> jstr" where
  "format_percent digits fb v =
     (if unreported v then fb
      else let pct = num_mul (to_num v) (Fin 100) in
        to_fixed (if num_le (Fin 10) pct \<or> pct = Fin 0 then 0 else digits) pct @ js ''%'')"

definition format_delta :: "nat \<Rightarrow> jstr \<Rightarrow> jsval \<Rightarrow> jstr" where
  "format_delta digits suffix v =
     (if unreported v then []
      else (if num_lt (Fin 0) (to_num v) then js ''+'' else []) @ to_fixed digits (to_num v) @ suffix)"

definition unit_text :: "jnum \<Rightarrow> string \<Rightarrow> jstr" where
  "unit_text n u = num_to_string n @ js u"

definition two_units :: "jnum \<Rightarrow> string \<Rightarrow> jnum \<Rightarrow> string \<Rightarrow> jstr" where
  "two_units a u b w = (if truthy (Num b) then unit_text a u @ js '' '' @ unit_text b w else unit_text a u)"

definition format_duration :: "jstr \<Rightarrow> jsval \<Rightarrow> jstr" where
  "format_duration fb ms =
     (if unreported ms then fb
      else let total = num_max (Fin 0) (to_num ms); seconds = num_div total (Fin 1000) in
        if num_lt total (Fin 1000) then unit_text (math_round total) ''ms''
        else if num_lt seconds (Fin 60) then
          (if num_lt seconds (Fin 10) then to_fixed 1 seconds @ js ''s''
           else unit_text (math_round seconds) ''s'')
        else let minutes = math_floor (num_div seconds (Fin 60));
                 rest = math_round (num_mod seconds (Fin 60)) in
          if num_lt minutes (Fin 60) then two_units minutes ''m'' rest ''s''
          else let hours = math_floor (num_div minutes (Fin 60)) in
            if num_lt hours (Fin 24) then two_units hours ''h'' (num_mod minutes (Fin 60)) ''m''
            else two_units (math_floor (num_div hours (Fin 24))) ''d'' (num_mod hours (Fin 24)) ''h'')"

function byte_scale :: "jnum \<Rightarrow> nat \<Rightarrow> jnum \<times> nat" where
  "byte_scale sz unit = (if num_le (Fin 1024) sz \<and> unit < 3
     then byte_scale (num_div sz (Fin 1024)) (unit + 1) else (sz, unit))"
  by pat_completeness auto
termination by (relation "measure (\<lambda>(s, u). 3 - u)") auto

declare byte_scale.simps [simp del]

definition format_bytes :: "jstr \<Rightarrow> jsval \<Rightarrow> jstr" where
  "format_bytes fb v =
     (if unreported v then fb
      else if num_lt (to_num v) (Fin 1024) then num_to_string (to_num v) @ js '' B''
      else case byte_scale (num_div (to_num v) (Fin 1024)) 0 of (sz, unit) \<Rightarrow>
        (if num_lt sz (Fin 10) then to_fixed 1 sz else num_to_string (math_round sz))
          @ js '' '' @ js ([''KiB'', ''MiB'', ''GiB'', ''TiB''] ! unit))"

definition format_usd :: "jstr \<Rightarrow> nat \<Rightarrow> jsval \<Rightarrow> jstr" where
  "format_usd fb digits v =
     (if unreported v then fb
      else if to_num v = Fin 0 then js ''$0.00''
      else if num_lt (to_num v) (fl (1 / 100)) then js ''$'' @ to_fixed 4 (to_num v)
      else js ''$'' @ to_fixed digits (to_num v))"

section \<open>Times\<close>

definition time_of :: "jnum \<Rightarrow> int" where
  "time_of n = (case n of Fin x \<Rightarrow> \<lfloor>x\<rfloor> | _ \<Rightarrow> 0)"

definition format_date_time :: "clock \<Rightarrow> jstr \<Rightarrow> jsval \<Rightarrow> jstr" where
  "format_date_time ck fb v =
     (if \<not> truthy v \<or> date_ms ck v = NaN then fb else intl_date_time ck (time_of (date_ms ck v)))"

definition format_date :: "clock \<Rightarrow> jstr \<Rightarrow> jsval \<Rightarrow> jstr" where
  "format_date ck fb v =
     (if \<not> truthy v \<or> date_ms ck v = NaN then fb else intl_date ck (time_of (date_ms ck v)))"

definition time_ago :: "clock \<Rightarrow> jnum \<Rightarrow> jsval \<Rightarrow> jstr" where
  "time_ago ck now v =
     (if \<not> truthy v \<or> date_ms ck v = NaN then dash
      else let seconds = math_floor (num_div (num_max (Fin 0) (num_sub now (date_ms ck v))) (Fin 1000));
               minutes = math_floor (num_div seconds (Fin 60));
               hours = math_floor (num_div minutes (Fin 60));
               days = math_floor (num_div hours (Fin 24));
               months = math_floor (num_div days (Fin 30)) in
        if num_lt seconds (Fin 45) then js ''just now''
        else if num_lt minutes (Fin 60) then unit_text minutes ''m ago''
        else if num_lt hours (Fin 24) then unit_text hours ''h ago''
        else if num_lt days (Fin 30) then unit_text days ''d ago''
        else if num_lt months (Fin 12) then unit_text months ''mo ago''
        else unit_text (math_floor (num_div months (Fin 12))) ''y ago'')"

section \<open>Text\<close>

definition short_sha :: "nat \<Rightarrow> jsval \<Rightarrow> jstr" where
  "short_sha n v = (if truthy v then take n (to_str v) else [])"

definition drop_prefix :: "string \<Rightarrow> jstr \<Rightarrow> jstr" where
  "drop_prefix p s = (if starts_with s (js p) then drop (length p) s else s)"

definition drop_suffix :: "string \<Rightarrow> jstr \<Rightarrow> jstr" where
  "drop_suffix p s = (if ends_with s (js p) then take (length s - length p) s else s)"

text \<open>\<open>replace(/^git@([^:]+):/, "$1/")\<close>.\<close>

definition scp_host :: "jstr \<Rightarrow> jstr" where
  "scp_host s = (if starts_with s (js ''git@'') then
       let r = drop 4 s; h = takeWhile (\<lambda>c. c \<noteq> 58) r; t = dropWhile (\<lambda>c. c \<noteq> 58) r in
         if h \<noteq> [] \<and> t \<noteq> [] then h @ [47] @ tl t else s
     else s)"

definition path_parts :: "jstr \<Rightarrow> jstr list" where
  "path_parts s = filter (\<lambda>w. w \<noteq> []) (split_on 47 s)"

definition http_prefix :: "jstr \<Rightarrow> jstr" where
  "http_prefix s = (if starts_with s (js ''http://'') then drop 7 s
     else if starts_with s (js ''https://'') then drop 8 s else s)"

definition repo_label :: "jsval \<Rightarrow> jstr" where
  "repo_label v =
     (if \<not> truthy v then js ''Unknown repository''
      else if starts_with (to_str v) (js ''local:'') then
        let name = join_with [47] (slice_last 2 (path_parts (strip_trailing 47 (drop 6 (to_str v)))))
        in if name = [] then js ''Local repository'' else name
      else drop_suffix ''.git'' (scp_host (drop_prefix ''ssh://'' (http_prefix (to_str v)))))"

definition truncate_text :: "nat \<Rightarrow> jsval \<Rightarrow> jstr" where
  "truncate_text n v = (if \<not> truthy v then []
     else if length (to_str v) \<le> n then to_str v
     else trim_end (take (n - 1) (to_str v)) @ ellipsis)"

text \<open>Runs of \<open>_\<close> and \<open>-\<close> become one space; the first letter of every word is raised.\<close>

fun unsnake :: "jstr \<Rightarrow> jstr" where
  "unsnake [] = []"
| "unsnake [c] = (if c = 95 \<or> c = 45 then [32] else [c])"
| "unsnake (c # d # s) = (if c = 95 \<or> c = 45 then
       (if d = 95 \<or> d = 45 then unsnake (d # s) else 32 # unsnake (d # s))
     else c # unsnake (d # s))"

fun raise_words :: "bool \<Rightarrow> jstr \<Rightarrow> jstr" where
  "raise_words inside [] = []"
| "raise_words inside (c # s) =
     (if is_word c \<and> \<not> inside then up1 c else c) # raise_words (is_word c) s"

definition title_case :: "jsval \<Rightarrow> jstr" where
  "title_case v = (if truthy v then raise_words False (unsnake (to_str v)) else [])"

text \<open>\<open>split(/[\s@._-]+/).filter(Boolean)\<close> leaves the runs of other characters.\<close>

definition name_sep :: "nat \<Rightarrow> bool" where
  "name_sep c \<longleftrightarrow> is_space c \<or> c \<in> set [64, 46, 95, 45]"

fun runs_of :: "('a \<Rightarrow> bool) \<Rightarrow> 'a list \<Rightarrow> 'a list list" where
  "runs_of sep [] = []"
| "runs_of sep (c # s) = (if sep c then runs_of sep s
     else (case s of [] \<Rightarrow> [[c]]
       | d # r \<Rightarrow> if sep d then [c] # runs_of sep s
                  else (case runs_of sep s of [] \<Rightarrow> [[c]] | w # ws \<Rightarrow> (c # w) # ws)))"

definition initials :: "jsval \<Rightarrow> jstr" where
  "initials v = (if \<not> truthy v then js ''OP''
     else concat (map (\<lambda>w. to_upper (take 1 w)) (take 2 (runs_of name_sep (to_str v)))))"

section \<open>States, statuses and tones\<close>

definition RUN_STATE_LABELS :: "jstr table" where
  "RUN_STATE_LABELS = table
     [(''REQUESTED'', ''Requested''), (''RUNNING'', ''Running''), (''PAUSED'', ''Awaiting review''),
      (''SUCCEEDED'', ''Succeeded''), (''AGENT_FAILED'', ''Agent failed''),
      (''VERIFICATION_FAILED'', ''Verification failed''), (''CANCELLED'', ''Cancelled''),
      (''INFRASTRUCTURE_FAILED'', ''Infrastructure failed''), (''INVALID_REQUEST'', ''Invalid request''),
      (''BLOCKED'', ''Blocked by agent''), (''QUARANTINED'', ''Quarantined''),
      (''GATE_TAMPERED'', ''Gate tampered''), (''EGRESS_UNVERIFIED'', ''Egress unverified''),
      (''REJECTED'', ''Rejected by reviewer'')]"

definition run_state_label :: "jsval \<Rightarrow> jstr" where
  "run_state_label st = (case table_get RUN_STATE_LABELS st of Some l \<Rightarrow> l
     | None \<Rightarrow> title_case (js_or st (Str (js ''Unknown''))))"

definition run_state_tone :: "jsval \<Rightarrow> jstr" where
  "run_state_tone st = js (switch st
     [([''SUCCEEDED''], ''success''),
      ([''RUNNING'', ''REQUESTED''], ''info''),
      ([''PAUSED''], ''warning''),
      ([''QUARANTINED'', ''GATE_TAMPERED'', ''EGRESS_UNVERIFIED''], ''security''),
      ([''REJECTED'', ''VERIFICATION_FAILED'', ''AGENT_FAILED'', ''INFRASTRUCTURE_FAILED'',
        ''INVALID_REQUEST''], ''danger''),
      ([''BLOCKED'', ''CANCELLED''], ''muted'')] ''muted'')"

definition change_status_label :: "jsval \<Rightarrow> jstr" where
  "change_status_label st = switch st
     [([''OPEN''], js ''In progress''), ([''IN_REVIEW''], js ''In review''),
      ([''DONE''], js ''Approved''), ([''ABANDONED''], js ''Abandoned'')]
     (title_case (js_or st (Str (js ''Unknown''))))"

definition change_status_tone :: "jsval \<Rightarrow> jstr" where
  "change_status_tone st = js (switch st
     [([''DONE''], ''success''), ([''IN_REVIEW''], ''warning''), ([''OPEN''], ''info''),
      ([''ABANDONED''], ''muted'')] ''muted'')"

definition cleanup_tone :: "jsval \<Rightarrow> jstr" where
  "cleanup_tone c = (let oc = opt_get c ''outcome'' in
     if \<not> truthy c \<or> \<not> truthy oc then js ''muted''
     else if oc = Str (js ''SUCCESS'') \<and> truthy (opt_get c ''verified'') then js ''success''
     else if oc = Str (js ''SKIPPED'') then js ''warning''
     else js ''danger'')"

definition severity_tone :: "jsval \<Rightarrow> jstr" where
  "severity_tone v = js (switch (Str (to_lower (to_str (js_or v (Str [])))))
     [([''critical'', ''high''], ''danger''), ([''medium''], ''warning''), ([''low''], ''info'')] ''muted'')"

definition window_label :: "jsval \<Rightarrow> jstr" where
  "window_label v = (case table_get (table [(''24h'', ''Last 24 hours''), (''7d'', ''Last 7 days''),
       (''30d'', ''Last 30 days''), (''90d'', ''Last 90 days''), (''all'', ''All time'')]) v of
     Some l \<Rightarrow> l | None \<Rightarrow> js ''Last 30 days'')"

definition is_inflight :: "jsval \<Rightarrow> bool" where
  "is_inflight st \<longleftrightarrow> st = Str (js ''RUNNING'') \<or> st = Str (js ''REQUESTED'') \<or> st = Str (js ''PAUSED'')"

section \<open>Percentiles\<close>

text \<open>The sign of \<open>a - b\<close>: the difference of two different doubles never rounds to zero.\<close>

definition rat_order :: "rat \<Rightarrow> rat \<Rightarrow> int" where
  "rat_order a b = (if a < b then - 1 else if b < a then 1 else 0)"

definition finite_numbers :: "jsval list \<Rightarrow> rat list" where
  "finite_numbers vs = somes (map (\<lambda>v. case v of Num (Fin x) \<Rightarrow> Some x | _ \<Rightarrow> None) vs)"

text \<open>\<open>numbers[i]\<close>: \<open>undefined\<close>, and so \<open>NaN\<close> in arithmetic, outside the array.\<close>

definition num_at :: "rat list \<Rightarrow> jnum \<Rightarrow> jsval" where
  "num_at ns i = (case i of Fin x \<Rightarrow>
      (if 0 \<le> x \<and> x < of_nat (length ns) \<and> of_int \<lfloor>x\<rfloor> = x then Num (Fin (ns ! nat \<lfloor>x\<rfloor>)) else Undef)
    | _ \<Rightarrow> Undef)"

definition percentile :: "jsval \<Rightarrow> jnum \<Rightarrow> jsval" where
  "percentile vs p =
     (let ns = sort_cmp rat_order (finite_numbers (as_list vs)) in
      if ns = [] then Null
      else let index = num_mul (num_int (int (length ns) - 1)) p;
               lower = math_floor index; upper = math_ceil index in
        if num_eq lower upper then num_at ns lower
        else let a = to_num (num_at ns lower); b = to_num (num_at ns upper) in
          Num (num_add a (num_mul (num_sub b a) (num_sub index lower))))"

section \<open>Unified diffs\<close>

datatype row_type = HunkRow | AddRow | DelRow | ContextRow

record diff_row =
  row_type :: row_type
  row_text :: jstr

record diff_file =
  diff_path :: jstr
  file_additions :: nat
  file_deletions :: nat
  rows :: "diff_row list"

record diff =
  diff_files :: "diff_file list"
  additions :: nat
  deletions :: nat
  binary :: bool

text \<open>\<open>line.match(/^diff --git a\/(.+?) b\/(.+)$/)[2]\<close>: what follows the first \<open>" b/"\<close>
  after at least one character. A dot matches no line terminator.\<close>

definition is_newline :: "nat \<Rightarrow> bool" where
  "is_newline c \<longleftrightarrow> c \<in> set [10, 13, 8232, 8233]"

fun git_target :: "jstr \<Rightarrow> jstr option" where
  "git_target [] = None"
| "git_target (c # s) = (if is_newline c then None
     else if starts_with s (js '' b/'') \<and> drop 3 s \<noteq> [] \<and> \<not> list_ex is_newline (drop 3 s)
       then Some (drop 3 s)
     else git_target s)"

definition diff_header_path :: "jstr \<Rightarrow> jstr" where
  "diff_header_path line =
     (if starts_with line (js ''diff --git a/'') then
        (case git_target (drop 13 line) of Some p \<Rightarrow> p | None \<Rightarrow> drop 11 line)
      else drop 11 line)"

text \<open>The state of the loop: the result so far and \<open>inHunk\<close>. \<open>file\<close> is the last file
  pushed, \<open>null\<close> when there is none.\<close>

definition on_last :: "(diff_file \<Rightarrow> diff_file) \<Rightarrow> diff \<Rightarrow> diff" where
  "on_last f d = d\<lparr>diff_files := butlast (diff_files d) @ [f (last (diff_files d))]\<rparr>"

definition push_row :: "row_type \<Rightarrow> jstr \<Rightarrow> diff_file \<Rightarrow> diff_file" where
  "push_row t s f = f\<lparr>rows := rows f @ [\<lparr>row_type = t, row_text = s\<rparr>],
     file_additions := file_additions f + (if t = AddRow then 1 else 0),
     file_deletions := file_deletions f + (if t = DelRow then 1 else 0)\<rparr>"

definition add_row :: "row_type \<Rightarrow> jstr \<Rightarrow> diff \<Rightarrow> diff" where
  "add_row t s d = on_last (push_row t s)
     (d\<lparr>additions := additions d + (if t = AddRow then 1 else 0),
        deletions := deletions d + (if t = DelRow then 1 else 0)\<rparr>)"

definition diff_line :: "diff \<times> bool \<Rightarrow> jstr \<Rightarrow> diff \<times> bool" where
  "diff_line st line = (case st of (d, in_hunk) \<Rightarrow>
     if starts_with line (js ''diff --git '') then
       (d\<lparr>diff_files := diff_files d @
          [\<lparr>diff_path = diff_header_path line, file_additions = 0, file_deletions = 0, rows = []\<rparr>]\<rparr>, False)
     else if diff_files d = [] then (d, in_hunk)
     else if starts_with line (js ''Binary files '') \<or> starts_with line (js ''GIT binary patch'') then
       (d\<lparr>binary := True\<rparr>, in_hunk)
     else if \<not> in_hunk \<and> (starts_with line (js ''+++ '') \<or> starts_with line (js ''--- '')
         \<or> starts_with line (js ''index '')) then (d, in_hunk)
     else if starts_with line (js ''@@'') then (add_row HunkRow line d, True)
     else if starts_with line (js ''+'') then (add_row AddRow (drop 1 line) d, in_hunk)
     else if starts_with line (js ''-'') then (add_row DelRow (drop 1 line) d, in_hunk)
     else (add_row ContextRow (if starts_with line (js '' '') then drop 1 line else line) d, in_hunk))"

definition empty_diff :: diff where
  "empty_diff = \<lparr>diff_files = [], additions = 0, deletions = 0, binary = False\<rparr>"

definition parse_unified_diff :: "jstr \<Rightarrow> diff" where
  "parse_unified_diff text =
     (if text = [] then empty_diff else fst (foldl diff_line (empty_diff, False) (split_on 10 text)))"

record patch_summary =
  patch_files :: "(jstr \<times> nat \<times> nat) list"
  patch_additions :: nat
  patch_deletions :: nat
  patch_binary :: bool

definition patch_summary_from_text :: "jstr \<Rightarrow> patch_summary" where
  "patch_summary_from_text text = (let d = parse_unified_diff text in
     \<lparr>patch_files = map (\<lambda>f. (diff_path f, file_additions f, file_deletions f)) (diff_files d),
      patch_additions = additions d, patch_deletions = deletions d, patch_binary = binary d\<rparr>)"

end
