(* ===== verification/Console_Format_Facts.thy ===== *)
theory Console_Format_Facts imports Console_Format begin

text \<open>
  What the formatting helpers promise: the diff reader recovers every file, hunk and line of
  a printed patch and its totals agree with its rows, percentiles do not depend on the
  order of the samples, and shortened texts fit. The first section checks the model on the
  inputs of the repository's own tests.
\<close>

section \<open>The repository's examples\<close>

lemma fl_half: "\<bar>n\<bar> < 2 ^ 53 \<Longrightarrow> fl (of_int n / 2) = Fin (of_int n / 2)"
proof -
  assume n: "\<bar>n\<bar> < 2 ^ 53"
  then have "\<bar>of_int n\<bar> < (2::rat) ^ 53"
    by (metis of_int_abs of_int_less_numeral_power_cancel_iff)
  also have "(2::rat) ^ 53 \<le> 2 ^ 1024" by (rule power_increasing) auto
  finally have b: "\<bar>of_int n\<bar> < (2::rat) ^ 1024" .
  have "\<bar>of_int n / 2\<bar> \<le> (\<bar>of_int n\<bar> :: rat)" by simp
  with b have "\<bar>of_int n / 2 :: rat\<bar> < 2 ^ 1024" by linarith
  then show ?thesis using n by (intro fl_exact [of n "- 1"]) (simp_all add: power_int_def)
qed

lemma fl_halves:
  "fl 0 = Fin 0" "fl 1 = Fin 1"
  "(numeral n :: int) \<le> 2 ^ 53 \<Longrightarrow> fl (numeral n) = Fin (numeral n)"
  using fl_int [of 0] fl_int [of 1] fl_int [of "numeral n"] by simp_all

lemmas duration_defs = format_duration_def unreported_def num_div_def num_mod_def rat_rem_def num_max_def
  math_round_def math_floor_def Let_def fl_halves two_units_def unit_text_def num_to_string_def
  dec_int_def dec_nat.simps js_def

text \<open>The rounded seconds can reach 60: no carry into the minutes.\<close>

lemma duration_carry:
  "format_duration dash (int_val 59500) = js ''60s''"
  "format_duration dash (Num (Fin (478125 / 4))) = js ''1m 60s''"
proof -
  have big: "x \<le> 1000 \<Longrightarrow> x < (2::rat) ^ 1024" for x
    using one_le_power [of "2::rat" 1014] by (simp add: power_add [of 2 10 1014, simplified])
  have f: "fl (3825 / 32) = Fin (3825 / 32)" "fl (255 / 128) = Fin (255 / 128)"
    using fl_exact [of 3825 "- 5" "3825 / 32"] fl_exact [of 255 "- 7" "255 / 128"] big [of "3825 / 32"] big [of "255 / 128"]
    by (simp_all add: power_int_def power_one_over)
  have g: "\<lfloor>255 / 128 :: rat\<rfloor> = 1" "\<lfloor>1921 / 32 :: rat\<rfloor> = 60" by (simp_all add: floor_eq_iff)
  show "format_duration dash (int_val 59500) = js ''60s''"
    using fl_half [of 119]
    by (simp add: duration_defs)
  show "format_duration dash (Num (Fin (478125 / 4))) = js ''1m 60s''"
    by (simp add: duration_defs f g)
qed

lemma text_examples:
  "repo_label (Str (js ''https://github.com/acme/api.git'')) = js ''github.com/acme/api''"
  "repo_label (Str (js ''local:/home/ops/repos/tooling'')) = js ''repos/tooling''"
  "initials (Str (js ''Factory Operator'')) = js ''FO''"
  "truncate_text 4 (Str (js ''abcdef'')) = js ''abc'' @ ellipsis"
  "title_case (Str (js ''not_yet-known'')) = js ''Not Yet Known''"
  by code_simp+

lemma time_examples:
  "iso_ms utc_clock (js ''2026-10-27T12:34:00Z'') = Some 1793104440000"
  "intl_date_time utc_clock 1793104440000 = js ''Oct 27, 2026, 12:34 PM''"
  "iso_string 1793104440000 = js ''2026-10-27T12:34:00.000Z''"
  by code_simp+

section \<open>Unified diffs\<close>

lemma starts_with_Cons [simp]:
  "starts_with (c # s) (d # p) \<longleftrightarrow> c = d \<and> starts_with s p"
  "starts_with [] (d # p) \<longleftrightarrow> False" "starts_with s []"
  by (auto simp: starts_with_def)

text \<open>A printed patch: the lines git writes for a modified text file.\<close>

record patch =
  p_path :: jstr
  p_index :: jstr
  p_rows :: "diff_row list"

definition row_line :: "diff_row \<Rightarrow> jstr" where
  "row_line r = (case row_type r of HunkRow \<Rightarrow> row_text r | AddRow \<Rightarrow> 43 # row_text r
     | DelRow \<Rightarrow> 45 # row_text r | ContextRow \<Rightarrow> 32 # row_text r)"

definition patch_lines :: "patch \<Rightarrow> jstr list" where
  "patch_lines p =
     [js ''diff --git a/'' @ p_path p @ js '' b/'' @ p_path p, js ''index '' @ p_index p,
      js ''--- a/'' @ p_path p, js ''+++ b/'' @ p_path p] @ map row_line (p_rows p)"

definition count_rows :: "row_type \<Rightarrow> diff_row list \<Rightarrow> nat" where
  "count_rows t rs = length (filter (\<lambda>r. row_type r = t) rs)"

definition patch_file :: "patch \<Rightarrow> diff_file" where
  "patch_file p = \<lparr>diff_path = p_path p, file_additions = count_rows AddRow (p_rows p),
     file_deletions = count_rows DelRow (p_rows p), rows = p_rows p\<rparr>"

definition plain_path :: "jstr \<Rightarrow> bool" where
  "plain_path p \<longleftrightarrow> p \<noteq> [] \<and> \<not> list_ex is_newline p \<and> \<not> contains p (js '' b/'')"

definition row_ok :: "diff_row \<Rightarrow> bool" where
  "row_ok r \<longleftrightarrow> 10 \<notin> set (row_text r) \<and> (row_type r = HunkRow \<longrightarrow> starts_with (row_text r) (js ''@@''))"

definition patch_ok :: "patch \<Rightarrow> bool" where
  "patch_ok p \<longleftrightarrow> plain_path (p_path p) \<and> 10 \<notin> set (p_index p) \<and> list_all row_ok (p_rows p)
     \<and> (p_rows p = [] \<or> row_type (hd (p_rows p)) = HunkRow)"

lemma count_rows_simps [simp]:
  "count_rows t [] = 0" "count_rows t (r # rs) = (if row_type r = t then 1 else 0) + count_rows t rs"
  by (simp_all add: count_rows_def)

lemma contains_iff: "contains s p \<longleftrightarrow> (\<exists>i. i \<le> length s \<and> starts_with (drop i s) p)"
proof -
  have "set [0..<length s + 1] = {i. i \<le> length s}" by auto
  then show ?thesis by (auto simp: contains_def simp del: set_upt upt_Suc)
qed

lemma contains_Cons: "contains (c # s) p \<longleftrightarrow> starts_with (c # s) p \<or> contains s p"
proof
  assume "contains (c # s) p"
  then obtain i where "i \<le> length (c # s)" "starts_with (drop i (c # s)) p" by (auto simp: contains_iff)
  then show "starts_with (c # s) p \<or> contains s p" by (cases i) (auto simp: contains_iff)
next
  assume "starts_with (c # s) p \<or> contains s p"
  then show "contains (c # s) p"
    unfolding contains_iff by (metis drop0 drop_Suc_Cons length_Cons not_less_eq_eq zero_le)
qed

lemma contains_start: "starts_with s p \<Longrightarrow> contains s p"
  by (metis contains_iff drop0 zero_le)

lemma not_split_early:
  "\<not> starts_with q (js '' b/'') \<Longrightarrow> q \<noteq> [] \<Longrightarrow> \<not> starts_with (q @ js '' b/'' @ p) (js '' b/'')"
  by (cases q rule: list.exhaust; cases "tl q" rule: list.exhaust; cases "tl (tl q)" rule: list.exhaust)
     (auto simp: starts_with_def js_def)

lemma git_target_path:
  "q \<noteq> [] \<Longrightarrow> \<not> list_ex is_newline q \<Longrightarrow> \<not> contains q (js '' b/'') \<Longrightarrow> p \<noteq> [] \<Longrightarrow> \<not> list_ex is_newline p
   \<Longrightarrow> git_target (q @ js '' b/'' @ p) = Some p"
proof (induction q)
  case (Cons c q)
  show ?case
  proof (cases "q = []")
    case True
    with Cons.prems show ?thesis by (simp add: js_Cons)
  next
    case False
    with Cons.prems have n: "\<not> starts_with (q @ js '' b/'' @ p) (js '' b/'')"
      by (intro not_split_early) (auto simp: contains_Cons contains_start)
    with Cons False show ?thesis by (simp add: contains_Cons)
  qed
qed simp

lemma header_path:
  "plain_path p \<Longrightarrow> diff_header_path (js ''diff --git a/'' @ p @ js '' b/'' @ p) = p"
  using git_target_path [of p p] by (simp add: diff_header_path_def plain_path_def)

lemma header_line:
  "plain_path (p_path p) \<Longrightarrow> diff_line (d, h) (js ''diff --git a/'' @ p_path p @ js '' b/'' @ p_path p) =
     (d\<lparr>diff_files := diff_files d @ [\<lparr>diff_path = p_path p, file_additions = 0, file_deletions = 0, rows = []\<rparr>]\<rparr>, False)"
proof -
  have "starts_with (js ''diff --git a/'' @ s) (js ''diff --git '')" for s
    using starts_with_append [of "js ''diff --git ''" "js ''a/'' @ s"] by (simp add: js_append [symmetric] flip: append_assoc)
  then show "plain_path (p_path p) \<Longrightarrow> ?thesis" by (simp add: diff_line_def header_path)
qed

lemma skipped_lines:
  "diff_files d \<noteq> [] \<Longrightarrow> diff_line (d, False) (js ''index '' @ s) = (d, False)"
  "diff_files d \<noteq> [] \<Longrightarrow> diff_line (d, False) (js ''--- a/'' @ s) = (d, False)"
  "diff_files d \<noteq> [] \<Longrightarrow> diff_line (d, False) (js ''+++ b/'' @ s) = (d, False)"
  by (simp_all add: diff_line_def js_Cons)

lemma row_line_step:
  assumes "diff_files d \<noteq> []" "row_ok r" "h \<or> row_type r = HunkRow"
  shows "diff_line (d, h) (row_line r) = (add_row (row_type r) (row_text r) d, True)"
proof (cases "row_type r")
  case HunkRow
  with assms(2) obtain s where "row_text r = js ''@@'' @ s" by (auto simp: row_ok_def starts_with_iff)
  with HunkRow assms(1) show ?thesis by (simp add: row_line_def diff_line_def js_Cons)
qed (use assms in \<open>simp_all add: row_line_def diff_line_def js_Cons\<close>)

lemma rows_loop:
  "list_all row_ok rs \<Longrightarrow> h \<or> rs = [] \<or> row_type (hd rs) = HunkRow \<Longrightarrow>
   \<exists>h'. foldl diff_line (\<lparr>diff_files = fs @ [\<lparr>diff_path = p, file_additions = a, file_deletions = b, rows = qs\<rparr>],
        additions = m, deletions = n, binary = z\<rparr>, h) (map row_line rs) =
     (\<lparr>diff_files = fs @ [\<lparr>diff_path = p, file_additions = a + count_rows AddRow rs,
          file_deletions = b + count_rows DelRow rs, rows = qs @ rs\<rparr>],
       additions = m + count_rows AddRow rs, deletions = n + count_rows DelRow rs, binary = z\<rparr>, h')"
proof (induction rs arbitrary: h a b qs m n)
  case (Cons r rs)
  define f where "f = \<lparr>diff_path = p, file_additions = a + (if row_type r = AddRow then 1 else 0),
    file_deletions = b + (if row_type r = DelRow then 1 else 0), rows = qs @ [r]\<rparr>"
  have "diff_line (\<lparr>diff_files = fs @ [\<lparr>diff_path = p, file_additions = a, file_deletions = b, rows = qs\<rparr>],
        additions = m, deletions = n, binary = z\<rparr>, h) (row_line r) =
      (\<lparr>diff_files = fs @ [f], additions = m + (if row_type r = AddRow then 1 else 0),
        deletions = n + (if row_type r = DelRow then 1 else 0), binary = z\<rparr>, True)"
    using Cons.prems by (subst row_line_step) (auto simp: add_row_def on_last_def push_row_def f_def)
  moreover obtain h' where "foldl diff_line (\<lparr>diff_files = fs @ [f], additions = m + (if row_type r = AddRow then 1 else 0),
        deletions = n + (if row_type r = DelRow then 1 else 0), binary = z\<rparr>, True) (map row_line rs) =
     (\<lparr>diff_files = fs @ [\<lparr>diff_path = p, file_additions = a + count_rows AddRow (r # rs),
          file_deletions = b + count_rows DelRow (r # rs), rows = qs @ r # rs\<rparr>],
       additions = m + count_rows AddRow (r # rs), deletions = n + count_rows DelRow (r # rs), binary = z\<rparr>, h')"
    using Cons.IH [of True "a + (if row_type r = AddRow then 1 else 0)" "b + (if row_type r = DelRow then 1 else 0)"
      "qs @ [r]" "m + (if row_type r = AddRow then 1 else 0)" "n + (if row_type r = DelRow then 1 else 0)"] Cons.prems(1)
    unfolding f_def count_rows_simps add.assoc [symmetric] by auto
  ultimately show ?case by (simp only: list.map foldl.simps) blast
qed simp

lemma patch_loop:
  assumes "patch_ok p"
  shows "\<exists>h'. foldl diff_line (d, h) (patch_lines p) =
     (d\<lparr>diff_files := diff_files d @ [patch_file p], additions := additions d + count_rows AddRow (p_rows p),
       deletions := deletions d + count_rows DelRow (p_rows p)\<rparr>, h')"
proof -
  have pp: "plain_path (p_path p)" using assms by (simp add: patch_ok_def)
  have "list_all row_ok (p_rows p)" "False \<or> p_rows p = [] \<or> row_type (hd (p_rows p)) = HunkRow"
    using assms by (simp_all add: patch_ok_def)
  from rows_loop [OF this, of "diff_files d" "p_path p" 0 0 "[]" "additions d" "deletions d" "binary d"]
  show ?thesis
    by (cases d) (simp add: patch_lines_def header_line [OF pp] skipped_lines patch_file_def)
qed

lemma patches_loop:
  "list_all patch_ok ps \<Longrightarrow> \<exists>h'. foldl diff_line (d, h) (concat (map patch_lines ps)) =
     (d\<lparr>diff_files := diff_files d @ map patch_file ps,
       additions := additions d + sum_list (map (\<lambda>p. count_rows AddRow (p_rows p)) ps),
       deletions := deletions d + sum_list (map (\<lambda>p. count_rows DelRow (p_rows p)) ps)\<rparr>, h')"
proof (induction ps arbitrary: d h)
  case (Cons p ps)
  define d1 where "d1 = d\<lparr>diff_files := diff_files d @ [patch_file p], additions := additions d + count_rows AddRow (p_rows p),
       deletions := deletions d + count_rows DelRow (p_rows p)\<rparr>"
  from Cons.prems obtain h1 where "foldl diff_line (d, h) (patch_lines p) = (d1, h1)"
    using patch_loop [of p d h] by (auto simp: d1_def)
  moreover from Cons.prems Cons.IH [of d1 h1] show ?case
    by (auto simp: calculation) (simp add: d1_def add.assoc)
qed simp

lemma patch_lines_no_newline: "patch_ok p \<Longrightarrow> l \<in> set (patch_lines p) \<Longrightarrow> 10 \<notin> set l"
  by (auto simp: patch_lines_def patch_ok_def plain_path_def row_line_def row_ok_def js_def
      list_ex_iff is_newline_def list_all_iff split: row_type.splits)


definition example_patch :: patch where
  "example_patch = \<lparr>p_path = js ''scripts/run.sh'', p_index = js ''1111111..2222222 100644'',
     p_rows = [\<lparr>row_type = HunkRow, row_text = js ''@@ -1 +1 @@''\<rparr>,
       \<lparr>row_type = DelRow, row_text = js ''-- counter;''\<rparr>,
       \<lparr>row_type = AddRow, row_text = js ''++ counter;''\<rparr>]\<rparr>"


section \<open>Totals of any text\<close>

definition file_agrees :: "diff_file \<Rightarrow> bool" where
  "file_agrees f \<longleftrightarrow> file_additions f = count_rows AddRow (rows f) \<and> file_deletions f = count_rows DelRow (rows f)"

definition diff_agrees :: "diff \<Rightarrow> bool" where
  "diff_agrees d \<longleftrightarrow> list_all file_agrees (diff_files d)
     \<and> additions d = sum_list (map file_additions (diff_files d))
     \<and> deletions d = sum_list (map file_deletions (diff_files d))"

lemma count_rows_append [simp]: "count_rows t (rs @ qs) = count_rows t rs + count_rows t qs"
  by (simp add: count_rows_def)

lemma diff_agrees_add_row:
  assumes "diff_agrees d" "diff_files d \<noteq> []"
  shows "diff_agrees (add_row t s d)"
proof -
  obtain fs f where "diff_files d = fs @ [f]" using assms(2) by (metis append_butlast_last_id)
  with assms(1) show ?thesis
    by (simp add: diff_agrees_def add_row_def on_last_def push_row_def file_agrees_def)
qed

lemma diff_agrees_line: "diff_agrees (fst st) \<Longrightarrow> diff_agrees (fst (diff_line st l))"
  by (cases st) (auto simp: diff_line_def diff_agrees_add_row; simp add: diff_agrees_def file_agrees_def)

text \<open>The totals the patch viewer prints are those of the rows it shows, for every text
  that can be given to it: each file's counts are its added and deleted rows, and the
  totals are the sums over the files.\<close>

theorem diff_totals:
  "diff_agrees (parse_unified_diff t)
   \<and> patch_files (patch_summary_from_text t) =
       map (\<lambda>f. (diff_path f, count_rows AddRow (rows f), count_rows DelRow (rows f))) (diff_files (parse_unified_diff t))"
proof -
  have "diff_agrees (fst (foldl diff_line (empty_diff, False) ls))" for ls
    by (induction ls rule: rev_induct)
       (simp_all add: diff_agrees_line, simp add: diff_agrees_def empty_diff_def)
  then have a: "diff_agrees (parse_unified_diff t)"
    by (simp add: parse_unified_diff_def) (simp add: diff_agrees_def empty_diff_def)
  then show ?thesis
    by (auto simp: patch_summary_from_text_def Let_def diff_agrees_def list_all_iff file_agrees_def)
qed

text \<open>A newline at the end of the patch, as git writes it, adds an empty context row to the
  last file.\<close>

lemma split_on_snoc: "split_on c (s @ [c]) = split_on c s @ [[]]"
  by (induction c s rule: split_on.induct) (auto split: list.splits)

lemma final_newline_row:
  assumes "diff_files (parse_unified_diff t) \<noteq> []"
  shows "parse_unified_diff (t @ [10]) = add_row ContextRow [] (parse_unified_diff t)"
proof -
  have t: "t \<noteq> []" using assms by (auto simp: parse_unified_diff_def empty_diff_def)
  obtain d h where d: "foldl diff_line (empty_diff, False) (split_on 10 t) = (d, h)" by fastforce
  with assms t show ?thesis
    by (simp add: parse_unified_diff_def split_on_snoc diff_line_def js_Cons)
qed

text \<open>A path with \<open>" b/"\<close> inside is shown cut.\<close>

lemma cut_path:
  "map diff_path (diff_files (parse_unified_diff (js ''diff --git a/x b/y b/x b/y''))) = [js ''y b/x b/y'']"
  by code_simp

section \<open>Percentiles\<close>

interpretation samples: comparator rat_order
  by unfold_locales (auto simp: rat_order_def split: if_splits)

lemma length_somes: "length (somes xs) \<le> length xs"
  by (induction xs rule: somes.induct) auto

lemma length_finite_numbers: "length (finite_numbers vs) \<le> length vs"
  unfolding finite_numbers_def by (rule length_somes [THEN order_trans]) simp

lemma sorted_ends:
  assumes "sorted_wrt (\<lambda>a b. rat_order a b \<le> 0) ns" "ns \<noteq> []"
  shows "hd ns = Min (set ns)" "last ns = Max (set ns)"
proof -
  have s: "sorted ns" using assms(1)
    by (rule sorted_wrt_mono_rel [rotated]) (auto simp: rat_order_def split: if_splits)
  show "hd ns = Min (set ns)"
    using s assms(2) by (cases ns) (auto intro!: Min_eqI [symmetric])
  show "last ns = Max (set ns)"
    using s assms(2) by (cases ns rule: rev_cases) (auto simp: sorted_append intro!: Max_eqI [symmetric])
qed

lemma num_at_int: "0 \<le> i \<Longrightarrow> i < int (length ns) \<Longrightarrow> num_at ns (num_int i) = Num (Fin (ns ! nat i))"
  by (simp add: num_at_def)

text \<open>Percentiles of the reported samples. The answer is \<open>null\<close> exactly when no finite
  number is reported; otherwise the 0th percentile is the least and the 100th the greatest
  of the finite numbers, wherever they stand among other values.\<close>

theorem percentile_extremes:
  assumes "int (length vs) \<le> 2 ^ 53"
  shows "(percentile (Arr vs) p = Null \<longleftrightarrow> finite_numbers vs = [])
   \<and> percentile (Arr vs) (Fin 0) = (if finite_numbers vs = [] then Null else Num (Fin (Min (set (finite_numbers vs)))))
   \<and> percentile (Arr vs) (Fin 1) = (if finite_numbers vs = [] then Null else Num (Fin (Max (set (finite_numbers vs)))))"
proof (cases "finite_numbers vs = []")
  case False
  define ns where "ns = sort_cmp rat_order (finite_numbers vs)"
  have ns: "ns \<noteq> []" "set ns = set (finite_numbers vs)" using False by (simp_all add: ns_def)
  have ends: "ns ! 0 = Min (set (finite_numbers vs))" "ns ! (length ns - 1) = Max (set (finite_numbers vs))"
    using sorted_ends [OF samples.sorted_sort, of "finite_numbers vs"] False ns
    by (simp_all add: ns_def hd_conv_nth last_conv_nth)
  have len: "0 < int (length ns)" "int (length ns) \<le> 2 ^ 53"
    using ns(1) assms length_finite_numbers [of vs] by (simp_all add: ns_def)
  define k where "k = int (length ns) - 1"
  have k: "0 \<le> k" "k < int (length ns)" "k \<le> 2 ^ 53" "nat k = length ns - 1" using len by (auto simp: k_def)
  have i: "num_mul (num_int k) (Fin 1) = num_int k" "num_mul (num_int k) (Fin 0) = num_int 0"
    using fl_int [of k] k by (simp_all add: num_mul_def fl_def)
  have e: "num_eq (Fin x) (Fin x)" for x by (simp add: num_eq_def)
  have "percentile (Arr vs) p \<noteq> Null"
    using ns(1) by (auto simp: percentile_def Let_def ns_def [symmetric] num_at_def split: jnum.splits)
  moreover have "percentile (Arr vs) (Fin 0) = Num (Fin (ns ! 0))"
    using ns(1) num_at_int [of 0 ns] len
    by (simp add: e percentile_def Let_def ns_def [symmetric] k_def [symmetric] i math_floor_def math_ceil_def del: of_int_diff of_int_of_nat_eq)
  moreover have "percentile (Arr vs) (Fin 1) = Num (Fin (ns ! (length ns - 1)))"
    using ns(1) num_at_int [of k ns] k
    by (simp add: e percentile_def Let_def ns_def [symmetric] k_def [symmetric] i math_floor_def math_ceil_def del: of_int_diff of_int_of_nat_eq)
  ultimately show ?thesis using False ends by simp
qed (simp add: percentile_def)

theorem percentile_extremes_witness:
  "percentile (Arr [int_val 3, Null, int_val 1, Str (js ''9'')]) (Fin 0) = int_val 1
   \<and> percentile (Arr [int_val 3, Null, int_val 1, Str (js ''9'')]) (Fin 1) = int_val 3"
  using percentile_extremes [of "[int_val 3, Null, int_val 1, Str (js ''9'')]" NaN]
  by (simp add: finite_numbers_def)

section \<open>Shortened texts\<close>

lemma length_trim_end: "length (trim_end s) \<le> length s"
  using length_dropWhile_le [of is_space "rev s"] by (simp add: trim_end_def)

lemma truncate_fits:
  assumes "0 < n"
  shows "length (truncate_text n v) \<le> n"
proof -
  have "length (trim_end (take (n - 1) (to_str v))) \<le> n - 1"
    using length_trim_end [of "take (n - 1) (to_str v)"] by simp
  with assms show ?thesis by (auto simp: truncate_text_def ellipsis_def)
qed

end
