(* ===== verification/Console_Runs.thy ===== *)
theory Console_Runs imports Console_Format Console_Url begin

text \<open>
  \<open>components/runs/utils.js\<close>: the status language of the runs ledger and the run viewer.
  A \<open>{tone, label, detail}\<close> object is the record \<open>meta\<close>. Facets arrive as objects with
  \<open>value\<close> and \<open>count\<close>; the record \<open>facet\<close> holds the two fields, read off an entry that is
  an object (on \<open>null\<close> the source throws). The locale's collation \<open>localeCompare\<close> is the
  argument \<open>lc\<close>.
\<close>

abbreviation lit :: "string \<Rightarrow> jsval" where "lit s \<equiv> Str (js s)"

record meta =
  m_tone :: jstr
  m_label :: jstr
  m_detail :: jsval

definition meta_of :: "string \<Rightarrow> string \<Rightarrow> string \<Rightarrow> meta" where
  "meta_of t l d = \<lparr>m_tone = js t, m_label = js l, m_detail = lit d\<rparr>"

section \<open>Pages and sorting\<close>

definition DEFAULT_PAGE_SIZE :: int where "DEFAULT_PAGE_SIZE = 25"
definition PAGE_SIZES :: "int list" where "PAGE_SIZES = [25, 50, 100]"
definition DEFAULT_SORT :: jstr where "DEFAULT_SORT = js ''-started_at''"

definition arrow :: jstr where "arrow = [32, 8594, 32]"

definition SORT_OPTIONS :: "(jstr \<times> jstr) list" where
  "SORT_OPTIONS = table [(''-started_at'', ''Newest first''), (''+started_at'', ''Oldest first''),
      (''-completed_at'', ''Recently completed''), (''-duration'', ''Longest duration''),
      (''+duration'', ''Shortest duration'')]
     @ [(js ''+run_id'', js ''Run ID A'' @ arrow @ js ''Z''), (js ''-run_id'', js ''Run ID Z'' @ arrow @ js ''A'')]"

section \<open>Status summaries\<close>

definition OUTCOMES :: "(jstr \<times> jstr) table" where
  "OUTCOMES = map (\<lambda>(k, l, t). (js k, js l, js t))
     [(''SUCCESS'', ''Success'', ''success''), (''SUCCEEDED'', ''Succeeded'', ''success''),
      (''PASSED'', ''Passed'', ''success''), (''APPROVED'', ''Approved'', ''success''),
      (''FAILED'', ''Failed'', ''danger''), (''ERROR'', ''Error'', ''danger''),
      (''REJECTED'', ''Rejected'', ''danger''), (''TIMED_OUT'', ''Timed out'', ''warning''),
      (''PENDING'', ''Pending'', ''warning''), (''CANCELLED'', ''Cancelled'', ''muted''),
      (''SKIPPED'', ''Skipped'', ''muted''), (''UNKNOWN'', ''Unknown'', ''muted'')]"

text \<open>The pair of label and tone.\<close>

definition outcome_meta :: "jsval \<Rightarrow> jstr \<times> jstr" where
  "outcome_meta v = (if nullish v \<or> v = Str [] then (not_reported, js ''muted'')
     else case map_of OUTCOMES (to_upper (to_str v)) of Some m \<Rightarrow> m | None \<Rightarrow> (title_case v, js ''muted''))"

definition plural :: "jnum \<Rightarrow> string \<Rightarrow> jstr" where
  "plural n s = (if n = Fin 1 then [] else js s)"

definition sandboxes :: "jnum \<Rightarrow> jstr" where
  "sandboxes n = num_to_string n @ js '' sandbox'' @ plural n ''es'' @ js '' remaining.''"

definition cleanup_meta :: "jsval \<Rightarrow> meta" where
  "cleanup_meta c =
     (let oc = opt_get c ''outcome''; n = num_or_0 (opt_get c ''remaining_sandboxes'') in
      if \<not> truthy c \<or> \<not> truthy oc then
        meta_of ''muted'' ''Not reported'' ''No cleanup evidence was recorded for this run.''
      else if oc = lit ''SUCCESS'' \<and> truthy (opt_get c ''verified'') then
        \<lparr>m_tone = js ''success'', m_label = js ''Verified'', m_detail = Str (js ''Cleanup verified; '' @ sandboxes n)\<rparr>
      else if oc = lit ''SUCCESS'' then
        meta_of ''warning'' ''Unverified'' ''Cleanup reported success but was not verified.''
      else if oc = lit ''SKIPPED'' then
        \<lparr>m_tone = js ''warning'', m_label = js ''Skipped'',
         m_detail = js_or (opt_get c ''error'') (lit ''Sandbox cleanup was skipped.'')\<rparr>
      else
        \<lparr>m_tone = js ''danger'', m_label = title_case oc,
         m_detail = js_or (opt_get c ''error'') (Str (js ''Cleanup failed; '' @ sandboxes n))\<rparr>)"

definition security_stop :: "jstr \<Rightarrow> meta option" where
  "security_stop st =
     (if st = js ''GATE_TAMPERED'' then
        Some (meta_of ''danger'' ''Gate tampered'' ''The patch modified a deterministic gate program.'')
      else if st = js ''EGRESS_UNVERIFIED'' then
        Some (meta_of ''danger'' ''Egress unverified''
          ''The egress probe could not verify the network boundary; the run is a security stop.'')
      else if st = js ''QUARANTINED'' then
        Some (meta_of ''danger'' ''Quarantined'' ''The run was quarantined by a hardening control.'')
      else None)"

definition max_severity_detail :: "jsval \<Rightarrow> jsval" where
  "max_severity_detail h = (if truthy (opt_get h ''max_severity'')
     then Str (js ''Maximum severity: '' @ title_case (opt_get h ''max_severity'') @ js ''.'')
     else lit ''Behavior scan recorded findings.'')"

definition hardening_meta :: "jsval \<Rightarrow> meta" where
  "hardening_meta h =
     (let findings = num_or_0 (opt_get h ''findings''); egress = num_or_0 (opt_get h ''egress_violations'');
          modified = as_list (opt_get h ''gate_modified''); tripped = truthy (opt_get h ''tripped'') in
      if \<not> truthy h \<or> \<not> truthy (opt_get h ''measured'') then
        meta_of ''muted'' ''Not measured''
          ''No hardening evidence is recorded for this run; this is not a clean result.''
      else if opt_get h ''behavior_measured'' \<noteq> JBool True \<and> \<not> tripped then
        meta_of ''warning'' ''Behavior not measured''
          ''Other hardening controls ran, but the behavior scan is absent (the monitor may be disabled). This is not a clean scan.''
      else if tripped then
        meta_of ''danger'' ''Tripped'' ''A hardening rule tripped and the run failed closed.''
      else if num_lt (Fin 0) egress then
        \<lparr>m_tone = js ''danger'', m_label = num_to_string egress @ js '' egress violation'' @ plural egress ''s'',
         m_detail = lit ''The egress probe proved at least one network invariant false.''\<rparr>
      else if num_lt (Fin 0) findings then
        \<lparr>m_tone = js ''warning'', m_label = num_to_string findings @ js '' finding'' @ plural findings ''s'',
         m_detail = max_severity_detail h\<rparr>
      else if modified \<noteq> [] then
        meta_of ''security'' ''Gate modified'' ''The patch modified a deterministic gate program.''
      else if \<not> truthy (opt_get h ''gate_checked'') then
        meta_of ''warning'' ''Gate not checked'' ''Behavior scan is clean, but gate integrity was not measured.''
      else
        meta_of ''success'' ''Clean'' ''No behavior findings, egress violations or gate modifications recorded.'')"

definition security_meta :: "jsval \<Rightarrow> jsval \<Rightarrow> meta" where
  "security_meta h st = (case security_stop (to_upper (to_str (js_or st (Str [])))) of
     Some m \<Rightarrow> m | None \<Rightarrow> hardening_meta h)"

definition one_of :: "jstr \<Rightarrow> string list \<Rightarrow> bool" where
  "one_of s ws \<longleftrightarrow> s \<in> set (map js ws)"

definition review_outcome :: "jsval \<Rightarrow> jstr" where
  "review_outcome run = to_lower (trim (to_str (js_or (opt_get run ''review_outcome'') (Str []))))"

definition review_meta :: "jsval \<Rightarrow> meta" where
  "review_meta run = (let oc = review_outcome run in
     if \<not> truthy run then meta_of ''muted'' ''Not reported'' ''''
     else if oc \<noteq> [] then
       (if one_of oc [''approved'', ''approve'', ''passed''] then
          meta_of ''success'' ''Approved'' ''A human reviewer approved this run.''
        else if one_of oc [''rejected'', ''reject'', ''denied''] then
          meta_of ''danger'' ''Rejected'' ''A human reviewer rejected this run.''
        else if one_of oc [''timeout'', ''timed_out'', ''expired''] then
          meta_of ''warning'' ''Review timed out'' ''The review gate expired without a decision.''
        else if one_of oc [''pending'', ''awaiting'', ''awaiting_review''] then
          meta_of ''warning'' ''Awaiting review'' ''A human decision is required before this run completes.''
        else \<lparr>m_tone = js ''info'', m_label = title_case (Str oc),
              m_detail = Str (js ''Recorded review outcome: '' @ oc @ js ''.'')\<rparr>)
     else if opt_get run ''factory_result'' = lit ''PAUSED'' then
       meta_of ''warning'' ''Awaiting review'' ''The run is paused at the human review gate.''
     else if truthy (opt_get run ''review_configured'') then
       meta_of ''info'' ''Configured'' ''A review gate is configured for this run.''
     else meta_of ''muted'' ''Not required'' ''No human review gate was configured.'')"

definition is_review_pending :: "jsval \<Rightarrow> bool" where
  "is_review_pending run \<longleftrightarrow> truthy run \<and>
     (opt_get run ''factory_result'' = lit ''PAUSED''
      \<or> (let s = to_lower (to_str (js_or (opt_get run ''review_outcome'') (Str []))) in
          contains s (js ''pending'') \<or> contains s (js ''awaiting'')))"

text \<open>\<open>None\<close> is \<open>null\<close>.\<close>

definition duration_ns :: "jsval \<Rightarrow> jstr option" where
  "duration_ns v = (if is_finite (to_num v)
     then Some (format_duration dash (Num (num_div (to_num v) (Fin 1000000)))) else None)"

definition ARTIFACT_KIND_LABELS :: "jstr table" where
  "ARTIFACT_KIND_LABELS = table [(''text'', ''Text''), (''json'', ''JSON''), (''log'', ''Log''),
     (''patch'', ''Patch''), (''other'', ''Other'')]"

definition ARTIFACT_KIND_VARIANTS :: "jstr table" where
  "ARTIFACT_KIND_VARIANTS = table [(''text'', ''outline''), (''json'', ''info''), (''log'', ''muted''),
     (''patch'', ''primary''), (''other'', ''outline'')]"

definition artifact_kind_label :: "jsval \<Rightarrow> jstr" where
  "artifact_kind_label k = (case table_get ARTIFACT_KIND_LABELS k of Some l \<Rightarrow> l
     | None \<Rightarrow> title_case (js_or k (lit ''Other'')))"

definition artifact_kind_variant :: "jsval \<Rightarrow> jstr" where
  "artifact_kind_variant k = (case table_get ARTIFACT_KIND_VARIANTS k of Some l \<Rightarrow> l | None \<Rightarrow> js ''outline'')"

section \<open>Downloads\<close>

text \<open>What a download does to the page, in order. An object URL stands for its number; the
  revocation runs when the timer fires.\<close>

datatype dom_act =
    Create_url nat "nat list"
  | Append_link nat jstr
  | Click nat
  | Remove_link nat
  | Later_revoke nat

definition download_bytes :: "nat \<Rightarrow> jstr \<Rightarrow> nat list \<Rightarrow> dom_act list" where
  "download_bytes u filename bytes =
     [Create_url u bytes, Append_link u filename, Click u, Remove_link u, Later_revoke u]"

text \<open>The bytes of \<open>blob\<close>, a \<open>Blob\<close> or something to make one of; a missing one is empty.\<close>

definition download_blob :: "nat \<Rightarrow> jstr \<Rightarrow> nat list option \<Rightarrow> dom_act list" where
  "download_blob u filename blob = download_bytes u filename (case blob of Some b \<Rightarrow> b | None \<Rightarrow> [])"

definition download_text :: "nat \<Rightarrow> jstr \<Rightarrow> jsval \<Rightarrow> dom_act list" where
  "download_text u filename t = download_bytes u filename (utf8_encode (to_str (coalesce t (Str []))))"

section \<open>Audit details\<close>

definition entries_of :: "jsval \<Rightarrow> (jstr \<times> jsval) list" where
  "entries_of v = (case v of Obj ps \<Rightarrow> ps
     | Arr xs \<Rightarrow> zip (map dec_nat [0..<length xs]) xs | _ \<Rightarrow> [])"

definition audit_part :: "jstr \<times> jsval \<Rightarrow> jstr option" where
  "audit_part p = (case p of (k, v) \<Rightarrow>
     if nullish v \<or> v = Str [] then None
     else Some (k @ [61] @ (case v of Str s \<Rightarrow> s
       | _ \<Rightarrow> (case stringify v of Some t \<Rightarrow> t | None \<Rightarrow> js ''undefined''))))"

definition describe_audit_detail :: "jsval \<Rightarrow> jstr" where
  "describe_audit_detail d = (if nullish d then []
     else if \<not> is_object d then to_str d
     else join_with ([32] @ middot @ [32]) (somes (map audit_part (entries_of d))))"

section \<open>Facets\<close>

record facet =
  f_value :: jsval
  f_count :: jsval

definition facet_of :: "jsval \<Rightarrow> facet" where
  "facet_of v = \<lparr>f_value = opt_get v ''value'', f_count = opt_get v ''count''\<rparr>"

definition sum_facet_counts :: "facet list \<Rightarrow> jnum" where
  "sum_facet_counts fs = foldl (\<lambda>t f. num_add t (num_or_0 (f_count f))) (Fin 0) fs"

text \<open>The sign of \<open>a - b\<close> where neither is \<open>NaN\<close>: different doubles differ by more than
  nothing, equal infinities give \<open>NaN\<close>, which counts as no difference.\<close>

definition num_cmp :: "jnum \<Rightarrow> jnum \<Rightarrow> int" where
  "num_cmp a b = (if num_lt a b then - 1 else if num_lt b a then 1 else 0)"

definition facet_order :: "(jstr \<Rightarrow> jstr \<Rightarrow> int) \<Rightarrow> facet \<Rightarrow> facet \<Rightarrow> int" where
  "facet_order lc l r = (let d = num_cmp (num_or_0 (f_count r)) (num_or_0 (f_count l)) in
     if d \<noteq> 0 then d else lc (to_str (f_value l)) (to_str (f_value r)))"

definition sort_facets :: "(jstr \<Rightarrow> jstr \<Rightarrow> int) \<Rightarrow> facet list \<Rightarrow> facet list" where
  "sort_facets lc fs = sort_cmp (facet_order lc) fs"

definition offered :: "jsval \<Rightarrow> facet list \<Rightarrow> bool" where
  "offered v fs \<longleftrightarrow> list_ex (\<lambda>f. strict_eq (f_value f) v) fs"

definition offer :: "facet list \<Rightarrow> jsval \<Rightarrow> facet list" where
  "offer fs v = (if offered v fs then fs else fs @ [\<lparr>f_value = v, f_count = Null\<rparr>])"

record choice =
  c_value :: jsval
  c_label :: jsval

record state_choice = choice +
  c_count :: jsval
  c_tone :: jstr

definition state_facet_options :: "(jstr \<Rightarrow> jstr \<Rightarrow> int) \<Rightarrow> facet list \<Rightarrow> jsval list \<Rightarrow> state_choice list" where
  "state_facet_options lc fs selected =
     map (\<lambda>f. \<lparr>c_value = f_value f, c_label = Str (run_state_label (f_value f)),
               c_count = f_count f, c_tone = run_state_tone (f_value f)\<rparr>)
       (foldl offer (sort_facets lc fs) selected)"

definition with_count :: "jsval \<Rightarrow> jsval \<Rightarrow> jsval" where
  "with_count label n = (if nullish n then label
     else Str (to_str label @ [32] @ middot @ [32] @ format_number False dash n))"

definition offer_selected :: "facet list \<Rightarrow> jsval \<Rightarrow> facet list" where
  "offer_selected fs selected = (if truthy selected then offer fs selected else fs)"

definition build_select_options ::
  "(jstr \<Rightarrow> jstr \<Rightarrow> int) \<Rightarrow> facet list \<Rightarrow> jsval \<Rightarrow> jsval \<Rightarrow> (jsval \<Rightarrow> jsval) \<Rightarrow> choice list" where
  "build_select_options lc fs selected all_label map_label =
     \<lparr>c_value = Str [], c_label = all_label\<rparr> #
     map (\<lambda>f. \<lparr>c_value = f_value f, c_label = with_count (map_label (f_value f)) (f_count f)\<rparr>)
       (offer_selected (sort_facets lc fs) selected)"

definition distinguishing_repo_label :: "jsval \<Rightarrow> jstr" where
  "distinguishing_repo_label v =
     (let raw = to_str (js_or v (Str []));
          path = strip_trailing 47 (drop 6 raw);
          label = join_with [47] (slice_last (if starts_with path [47] then 3 else 2) (path_parts path)) in
      if starts_with raw (js ''local:'') \<and> label \<noteq> [] then label else repo_label (Str raw))"

definition repository_label :: "jstr list \<Rightarrow> jsval \<Rightarrow> jstr" where
  "repository_label bases v = (if 1 < count_list bases (repo_label v)
     then distinguishing_repo_label v else repo_label v)"

definition repository_select_options :: "(jstr \<Rightarrow> jstr \<Rightarrow> int) \<Rightarrow> facet list \<Rightarrow> jsval \<Rightarrow> choice list" where
  "repository_select_options lc fs selected =
     (let es = offer_selected (sort_facets lc fs) selected; bases = map (\<lambda>f. repo_label (f_value f)) es in
      \<lparr>c_value = Str [], c_label = lit ''All repositories''\<rparr> #
      map (\<lambda>f. \<lparr>c_value = f_value f, c_label = with_count (Str (repository_label bases (f_value f))) (f_count f)\<rparr>) es)"

end
