(* ===== verification/Console_Flows.thy ===== *)
theory Console_Flows imports Console_Runs begin

text \<open>
  The derivation helpers of the other screens: \<open>components/flows/helpers.js\<close> (changes and
  the review queue), \<open>components/ops/data.js\<close> (defensive coercers of the governance
  screens), \<open>components/ui/tones.js\<close> and \<open>components/layout/links.js\<close>.
\<close>

section \<open>Facets of a list payload\<close>

definition CHANGE_STATUS_ORDER :: "jstr list" where
  "CHANGE_STATUS_ORDER = map js [''OPEN'', ''IN_REVIEW'', ''DONE'', ''ABANDONED'']"

definition facet_list :: "jsval \<Rightarrow> string \<Rightarrow> jsval list" where
  "facet_list facets key = as_list (opt_get facets key)"

text \<open>\<open>map.set(k, v)\<close>: an existing key keeps its place.\<close>

fun map_put :: "('k \<times> 'v) list \<Rightarrow> 'k \<Rightarrow> 'v \<Rightarrow> ('k \<times> 'v) list" where
  "map_put [] k v = [(k, v)]"
| "map_put ((k', v') # m) k v = (if k' = k then (k, v) # m else (k', v') # map_put m k v)"

definition entry_value :: "jsval \<Rightarrow> jstr" where
  "entry_value e = (case opt_get e ''value'' of Str s \<Rightarrow> s | _ \<Rightarrow> [])"

definition facet_map :: "jsval \<Rightarrow> string \<Rightarrow> (jstr \<times> jnum) list" where
  "facet_map facets key = foldl (\<lambda>m e. if entry_value e = [] then m
       else map_put m (entry_value e) (num_or_0 (opt_get e ''count''))) [] (facet_list facets key)"

definition option_order :: "(jstr \<Rightarrow> jstr \<Rightarrow> int) \<Rightarrow> jstr \<times> jnum \<Rightarrow> jstr \<times> jnum \<Rightarrow> int" where
  "option_order lc l r = (let d = num_cmp (snd r) (snd l) in if d \<noteq> 0 then d else lc (fst l) (fst r))"

definition facet_options :: "(jstr \<Rightarrow> jstr \<Rightarrow> int) \<Rightarrow> jsval \<Rightarrow> string \<Rightarrow> (jstr \<times> jnum) list" where
  "facet_options lc facets key = sort_cmp (option_order lc)
     (map (\<lambda>e. (entry_value e, num_or_0 (opt_get e ''count'')))
       (filter (\<lambda>e. entry_value e \<noteq> []) (facet_list facets key)))"

section \<open>Changes\<close>

text \<open>The label, tone and hint of a change's review state, as \<open>meta\<close>.\<close>

definition review_state_meta :: "jsval \<Rightarrow> meta" where
  "review_state_meta change = switch (opt_get change ''status'')
     [([''IN_REVIEW''], meta_of ''warning'' ''Awaiting decision'' ''This change is waiting in the human review queue.''),
      ([''DONE''], meta_of ''success'' ''Resolved''
         ''The change reached its terminal approved state; the list payload does not report the review outcome.''),
      ([''OPEN''], meta_of ''muted'' ''No decision pending'' ''The change is not waiting for a human decision.''),
      ([''ABANDONED''], meta_of ''muted'' ''No decision pending'' ''The change was abandoned before a decision.'')]
     (meta_of ''muted'' ''Not reported'' ''The durable record has no review state.'')"

record spend =
  tokens :: jnum
  cost :: jnum
  reported :: bool
  tokens_label :: jstr
  tokens_compact_label :: jstr
  cost_label :: jstr

definition positive :: "jnum \<Rightarrow> bool" where "positive n \<longleftrightarrow> num_lt (Fin 0) n"

definition spend_of :: "jnum \<Rightarrow> jnum \<Rightarrow> bool \<Rightarrow> spend" where
  "spend_of t c r = \<lparr>tokens = t, cost = c, reported = r,
     tokens_label = (if positive t then format_number False dash (Num t) else not_reported),
     tokens_compact_label = (if positive t then format_number True dash (Num t) else not_reported),
     cost_label = (if r then format_usd not_reported 2 (Num c) else not_reported)\<rparr>"

definition total_tokens :: "jsval \<Rightarrow> jnum" where "total_tokens c = num_or_0 (opt_get c ''total_tokens'')"
definition total_cost :: "jsval \<Rightarrow> jnum" where "total_cost c = num_or_0 (opt_get c ''total_cost_usd'')"

definition change_spend :: "jsval \<Rightarrow> spend" where
  "change_spend change = spend_of (total_tokens change) (total_cost change)
     (positive (total_tokens change) \<or> positive (total_cost change))"

definition spend_step :: "jnum \<times> jnum \<times> bool \<Rightarrow> jsval \<Rightarrow> jnum \<times> jnum \<times> bool" where
  "spend_step st c = (case st of (t, k, r) \<Rightarrow>
     (num_add t (total_tokens c), num_add k (total_cost c),
      r \<or> positive (to_num (opt_get c ''total_tokens'')) \<or> positive (to_num (opt_get c ''total_cost_usd''))))"

definition page_spend :: "jsval \<Rightarrow> spend" where
  "page_spend changes = (case foldl spend_step (Fin 0, Fin 0, False) (as_list changes) of
     (t, k, r) \<Rightarrow> spend_of t k r)"

definition token_value :: "jsval \<Rightarrow> jnum option" where
  "token_value v = (if nullish v \<or> v = Str [] then None
     else if is_finite (to_num v) then Some (to_num v) else None)"

definition some_or_0 :: "jnum option \<Rightarrow> jnum" where
  "some_or_0 n = (case n of Some x \<Rightarrow> x | None \<Rightarrow> Fin 0)"

definition run_token_total :: "jsval \<Rightarrow> jnum option" where
  "run_token_total run =
     (let i = token_value (opt_get run ''tokens_in''); k = token_value (opt_get run ''tokens_out'') in
      if i = None \<and> k = None then None else Some (num_add (some_or_0 i) (some_or_0 k)))"

definition latest_run :: "jsval \<Rightarrow> jsval" where
  "latest_run runs = (case as_list runs of [] \<Rightarrow> Null | r # rs \<Rightarrow> r)"

definition activations :: "jsval \<Rightarrow> jsval list" where
  "activations change = as_list (opt_get change ''activations'')"

definition activation_reason :: "jsval \<Rightarrow> jsval \<Rightarrow> jsval" where
  "activation_reason change run_id =
     js_or (case List.find (\<lambda>a. strict_eq (opt_get a ''run_id'') run_id) (activations change) of
        Some a \<Rightarrow> opt_get a ''reason'' | None \<Rightarrow> Undef) (Str [])"

text \<open>\<open>Set.has\<close> compares like \<open>===\<close>, but finds \<open>NaN\<close>, which no JSON payload holds.\<close>

definition known_runs :: "jsval \<Rightarrow> jsval list" where
  "known_runs runs = filter truthy (map (\<lambda>r. opt_get r ''run_id'') (as_list runs))"

definition missing_activation_runs :: "jsval \<Rightarrow> jsval \<Rightarrow> jsval list" where
  "missing_activation_runs change runs = filter (\<lambda>a. truthy (opt_get a ''run_id'')
     \<and> \<not> list_ex (\<lambda>k. strict_eq k (opt_get a ''run_id'')) (known_runs runs)) (activations change)"

section \<open>The review queue\<close>

definition DAY_MS :: rat where "DAY_MS = 86400000"

definition waiting_tone :: "jsval \<Rightarrow> jstr" where
  "waiting_tone w = js (if \<not> is_finite (to_num w) then ''muted''
     else if num_le (Fin (7 * DAY_MS)) (to_num w) then ''danger''
     else if num_le (Fin DAY_MS) (to_num w) then ''warning'' else ''info'')"

definition waiting_hint :: "jsval \<Rightarrow> jstr" where
  "waiting_hint w = (if \<not> is_finite (to_num w) then js ''Waiting time not reported.''
     else if num_le (Fin (7 * DAY_MS)) (to_num w)
       then js ''Waiting longer than a week '' @ em_dash @ js '' escalate this decision.''
     else if num_le (Fin DAY_MS) (to_num w) then js ''Waiting longer than a day.'' else js ''Recently queued.'')"

definition review_kind_meta :: "jsval \<Rightarrow> jstr \<times> jstr" where
  "review_kind_meta k = (if k = lit ''paused_run'' then (js ''Paused run'', js ''info'')
     else (js ''In review'', js ''warning''))"

definition of_change :: "jsval \<Rightarrow> string \<Rightarrow> jsval" where "of_change i k = opt_get (opt_get i ''change'') k"
definition of_run :: "jsval \<Rightarrow> string \<Rightarrow> jsval" where "of_run i k = opt_get (opt_get i ''run'') k"

definition repository_of :: "jsval \<Rightarrow> jsval" where
  "repository_of i = js_or (js_or (of_change i ''repository'') (of_run i ''repository'')) (Str [])"

definition scope_of :: "jsval \<Rightarrow> jsval" where
  "scope_of i = js_or (js_or (of_change i ''scope'') (of_run i ''scope'')) (Str [])"

definition revision_of :: "jsval \<Rightarrow> jsval" where
  "revision_of i = js_or (js_or (of_run i ''requested_revision'') (of_change i ''requested_revision'')) (Str [])"

definition waiting :: "jsval \<Rightarrow> jnum" where "waiting i = to_num (opt_get i ''waiting_ms'')"

definition older :: "jsval option \<Rightarrow> jsval \<Rightarrow> jsval option" where
  "older acc i = (if \<not> is_finite (waiting i) then acc
     else case acc of None \<Rightarrow> Some i | Some j \<Rightarrow> if num_lt (waiting j) (waiting i) then Some i else acc)"

definition queue_oldest :: "jsval \<Rightarrow> jsval option" where
  "queue_oldest items = foldl older None (as_list items)"

definition pluralize :: "jsval \<Rightarrow> jstr \<Rightarrow> jstr \<Rightarrow> jstr" where
  "pluralize n singular several =
     format_number False dash n @ [32] @ (if to_num n = Fin 1 then singular else several)"

section \<open>Defensive coercers\<close>

definition as_object :: "jsval \<Rightarrow> (jstr \<times> jsval) list" where
  "as_object v = (case v of Obj ps \<Rightarrow> ps | _ \<Rightarrow> [])"

definition has :: "jsval \<Rightarrow> string \<Rightarrow> bool" where
  "has v k \<longleftrightarrow> map_of (as_object v) (js k) \<noteq> None"

definition as_number :: "jsval \<Rightarrow> jnum option" where
  "as_number v = (case v of Num n \<Rightarrow> if is_finite n then Some n else None | _ \<Rightarrow> None)"

definition as_boolean :: "jsval \<Rightarrow> bool option" where
  "as_boolean v = (case v of JBool b \<Rightarrow> Some b | _ \<Rightarrow> None)"

definition text_or :: "jsval \<Rightarrow> jstr \<Rightarrow> jstr" where
  "text_or v fb = (if nullish v \<or> v = Str [] then fb else to_str v)"

text \<open>\<open>validTime\<close> gives the time in milliseconds.\<close>

definition valid_time :: "clock \<Rightarrow> jsval \<Rightarrow> int option" where
  "valid_time ck v = (if \<not> truthy v then None
     else case date_ms ck v of Fin x \<Rightarrow> (if utc_year \<lfloor>x\<rfloor> < 1970 then None else Some \<lfloor>x\<rfloor>) | _ \<Rightarrow> None)"

definition time_ago_or :: "clock \<Rightarrow> jnum \<Rightarrow> jsval \<Rightarrow> jstr \<Rightarrow> jstr" where
  "time_ago_or ck now v fb = (case valid_time ck v of Some t \<Rightarrow> time_ago ck now (Str (iso_string t)) | None \<Rightarrow> fb)"

definition date_time_or :: "clock \<Rightarrow> jsval \<Rightarrow> jstr \<Rightarrow> jstr" where
  "date_time_or ck v fb = (case valid_time ck v of Some t \<Rightarrow> format_date_time ck dash v | None \<Rightarrow> fb)"

record window_info =
  w_key :: jstr
  w_label :: jstr
  w_start :: jsval
  w_end :: jsval

definition when_valid :: "clock \<Rightarrow> jsval \<Rightarrow> jsval" where
  "when_valid ck v = (if valid_time ck v = None then Null else v)"

definition window_info_of :: "clock \<Rightarrow> jsval \<Rightarrow> window_info" where
  "window_info_of ck v = (let s = as_object v in
     \<lparr>w_key = text_or (lookup s (js ''key'')) [],
      w_label = text_or (lookup s (js ''label'')) (js ''Selected window''),
      w_start = when_valid ck (lookup s (js ''start'')), w_end = when_valid ck (lookup s (js ''end''))\<rparr>)"

section \<open>Tones and links\<close>

definition TONES :: "string list" where
  "TONES = [''success'', ''warning'', ''danger'', ''security'', ''info'', ''primary'', ''accent'']"

definition tone_map :: "(string \<Rightarrow> string) \<Rightarrow> string \<Rightarrow> jstr table" where
  "tone_map f muted = table (map (\<lambda>t. (t, f t)) TONES @ [(''muted'', muted)])"

definition TONE_TEXT :: "jstr table" where
  "TONE_TEXT = tone_map (\<lambda>t. ''text-'' @ t) ''text-muted-foreground''"

definition TONE_SOFT :: "jstr table" where
  "TONE_SOFT = tone_map (\<lambda>t. ''bg-'' @ t @ ''/10'') ''bg-muted''"

definition TONE_BORDER :: "jstr table" where
  "TONE_BORDER = tone_map (\<lambda>t. ''border-'' @ t @ ''/25'') ''border-border''"

definition TONE_DOT :: "jstr table" where
  "TONE_DOT = tone_map (\<lambda>t. ''bg-'' @ t) ''bg-muted-foreground/50''"

definition TONE_CHIP :: "jstr table" where
  "TONE_CHIP = tone_map (\<lambda>t. ''border border-'' @ t @ ''/25 bg-'' @ t @ ''/10 text-'' @ t)
     ''border border-border bg-muted text-muted-foreground''"

text \<open>\<open>map[tone] || map[fallback] || map.muted\<close>; no class in the maps is empty.\<close>

definition tone_class :: "jstr table \<Rightarrow> jsval \<Rightarrow> jstr \<Rightarrow> jstr option" where
  "tone_class m tone fb = (case table_get m tone of Some c \<Rightarrow> Some c
     | None \<Rightarrow> (case map_of m fb of Some c \<Rightarrow> Some c | None \<Rightarrow> map_of m (js ''muted'')))"

definition normalize_href :: "jsval \<Rightarrow> jstr \<Rightarrow> jstr" where
  "normalize_href href fb = (let v = trim (to_str href) in
     if \<not> truthy href \<or> v = [] then fb
     else if starts_with v (js ''#'') then v
     else if starts_with v (js ''/'') then js ''#'' @ v
     else js ''#/'' @ v)"

end
