(* ===== verification/Console_Runs_Facts.thy ===== *)
theory Console_Runs_Facts imports Console_Flows "HOL-Library.Multiset" begin

text \<open>
  What the status language of the runs, changes and reviews promises: nothing is called a
  success without its evidence, the filter menus offer every reported and every selected
  value in a sorted order, totals are reported only when something was reported, and the
  oldest item of a queue is its oldest.
\<close>

section \<open>Evidence\<close>

lemma m_tone_meta_of [simp]: "m_tone (meta_of t l d) = js t"
  by (simp add: meta_of_def)

lemma security_stop_tone: "security_stop s = Some m \<Longrightarrow> m_tone m \<noteq> js ''success''"
  by (auto simp: security_stop_def split: if_splits)

definition clean_evidence :: "jsval \<Rightarrow> bool" where
  "clean_evidence h \<longleftrightarrow> truthy (opt_get h ''measured'') \<and> opt_get h ''behavior_measured'' = JBool True
     \<and> \<not> truthy (opt_get h ''tripped'') \<and> \<not> positive (num_or_0 (opt_get h ''egress_violations''))
     \<and> \<not> positive (num_or_0 (opt_get h ''findings'')) \<and> as_list (opt_get h ''gate_modified'') = []
     \<and> truthy (opt_get h ''gate_checked'')"

lemma opt_get_truthy: "opt_get v k \<noteq> Undef \<Longrightarrow> truthy (opt_get v k) \<Longrightarrow> truthy v"
  by (cases v) (auto simp: opt_get_def split: if_splits)

lemma truthy_opt_get: "truthy (opt_get v k) \<Longrightarrow> truthy v"
  by (rule opt_get_truthy) auto

lemma hardening_success: "m_tone (hardening_meta h) = js ''success'' \<longleftrightarrow> clean_evidence h"
  using truthy_opt_get [of h "''measured''"]
  by (auto simp: hardening_meta_def Let_def clean_evidence_def positive_def)

lemma cleanup_success:
  "m_tone (cleanup_meta c) = js ''success'' \<longleftrightarrow> opt_get c ''outcome'' = lit ''SUCCESS'' \<and> truthy (opt_get c ''verified'')"
  using truthy_opt_get [of c "''outcome''"] by (auto simp: cleanup_meta_def Let_def)

lemma review_success:
  "m_tone (review_meta r) = js ''success'' \<longleftrightarrow> one_of (review_outcome r) [''approved'', ''approve'', ''passed'']"
proof -
  have "truthy r" if "review_outcome r \<noteq> []"
  proof (rule ccontr)
    assume "\<not> truthy r"
    then have "opt_get r ''review_outcome'' = Undef" by (cases r) (auto simp: opt_get_def js_def)
    then have "review_outcome r = []" by (simp add: review_outcome_def js_or_def trim_def trim_start_def trim_end_def to_lower_def)
    with that show False by simp
  qed
  then show ?thesis
    by (cases "review_outcome r = []") (auto simp: review_meta_def Let_def one_of_def)
qed

text \<open>Nothing is called a success without its evidence. The security summary of a run is
  a success exactly when the run was not stopped by a security state and every hardening
  control reported a measured, empty result; a cleanup exactly when it succeeded and was
  verified; a review exactly when an approval is recorded. Missing fields are never clean.\<close>

theorem success_needs_evidence:
  "(m_tone (security_meta h st) = js ''success''
      \<longleftrightarrow> security_stop (to_upper (to_str (js_or st (Str [])))) = None \<and> clean_evidence h)
   \<and> (m_tone (cleanup_meta c) = js ''success''
      \<longleftrightarrow> opt_get c ''outcome'' = lit ''SUCCESS'' \<and> truthy (opt_get c ''verified''))
   \<and> (m_tone (review_meta r) = js ''success''
      \<longleftrightarrow> one_of (review_outcome r) [''approved'', ''approve'', ''passed''])"
  using security_stop_tone
  by (auto simp: security_meta_def hardening_success cleanup_success review_success split: option.splits)

text \<open>A proved egress violation is shown as a mere gap when the behavior scan is missing and
  no rule tripped.\<close>

lemma violation_hidden:
  "security_meta (Obj [(js ''measured'', JBool True), (js ''egress_violations'', int_val 2)]) (lit ''SUCCEEDED'')
   = hardening_meta (Obj [(js ''measured'', JBool True), (js ''egress_violations'', int_val 2)])
   \<and> m_tone (hardening_meta (Obj [(js ''measured'', JBool True), (js ''egress_violations'', int_val 2)])) = js ''warning''
   \<and> m_label (hardening_meta (Obj [(js ''measured'', JBool True), (js ''egress_violations'', int_val 2)])) = js ''Behavior not measured''"
  by code_simp

text \<open>The two summaries of a cleanup that succeeded unverified disagree on its tone.\<close>

lemma unverified_cleanup_tones:
  "cleanup_tone (Obj [(js ''outcome'', lit ''SUCCESS'')]) = js ''danger''
   \<and> m_tone (cleanup_meta (Obj [(js ''outcome'', lit ''SUCCESS'')])) = js ''warning''"
  by code_simp

text \<open>Two checkouts in directories of the same name cannot be told apart.\<close>

lemma repositories_alike:
  "map c_label (repository_select_options (\<lambda>a b. 0)
     [\<lparr>f_value = lit ''local:/a/x/y/z'', f_count = Null\<rparr>, \<lparr>f_value = lit ''local:/b/x/y/z'', f_count = Null\<rparr>] (Str []))
   = [lit ''All repositories'', lit ''x/y/z'', lit ''x/y/z'']"
  by code_simp

section \<open>Facets\<close>

lemma num_cmp_total: "num_cmp a b \<le> 0 \<or> num_cmp b a \<le> 0"
  by (cases a; cases b) (auto simp: num_cmp_def num_lt_def)

lemma num_cmp_trans: "b \<noteq> NaN \<Longrightarrow> num_cmp a b \<le> 0 \<Longrightarrow> num_cmp b c \<le> 0 \<Longrightarrow> num_cmp a c \<le> 0"
  by (cases a; cases b; cases c) (auto simp: num_cmp_def num_lt_def split: if_splits)

lemma num_cmp_eq_0: "a \<noteq> NaN \<Longrightarrow> b \<noteq> NaN \<Longrightarrow> num_cmp a b = 0 \<longleftrightarrow> a = b"
  by (cases a; cases b) (auto simp: num_cmp_def num_lt_def split: if_splits)

lemma num_cmp_flip: "num_cmp b a = - num_cmp a b"
  by (cases a; cases b) (auto simp: num_cmp_def num_lt_def split: if_splits)

text \<open>Descending numbers, then a second order among equal ones: the order of all facets.\<close>

lemma lex_comparator:
  assumes lc: "comparator lc" and num: "\<And>x. key x \<noteq> NaN"
  shows "comparator (\<lambda>l r. let d = num_cmp (key r) (key l) in if d \<noteq> 0 then d else lc (name l) (name r))"
proof
  fix x y z
  have eq: "num_cmp (key u) (key v) = 0 \<longleftrightarrow> key u = key v" for u v using num num_cmp_eq_0 by blast
  note flip = num_cmp_flip [of "key x" "key y"] num_cmp_flip [of "key y" "key z"]
  show "(let d = num_cmp (key y) (key x) in if d \<noteq> 0 then d else lc (name x) (name y)) \<le> 0
      \<or> (let d = num_cmp (key x) (key y) in if d \<noteq> 0 then d else lc (name y) (name x)) \<le> 0"
    using flip(1) comparator.total [OF lc, of "name x" "name y"] by (auto simp: Let_def)
  assume xy: "(let d = num_cmp (key y) (key x) in if d \<noteq> 0 then d else lc (name x) (name y)) \<le> 0"
    and yz: "(let d = num_cmp (key z) (key y) in if d \<noteq> 0 then d else lc (name y) (name z)) \<le> 0"
  have "num_cmp (key y) (key x) \<le> 0" "num_cmp (key z) (key y) \<le> 0"
    using xy yz by (auto simp: Let_def split: if_splits)
  then have le: "num_cmp (key z) (key x) \<le> 0" using num_cmp_trans [OF num] by blast
  show "(let d = num_cmp (key z) (key x) in if d \<noteq> 0 then d else lc (name x) (name z)) \<le> 0"
  proof (cases "key z = key x")
    case True
    then have "key y = key x" using xy yz flip by (auto simp: Let_def eq split: if_splits)
    with True xy yz show ?thesis
      using comparator.trans [OF lc, of "name x" "name y" "name z"] eq [of z x] eq [of y x] eq [of z y] by (simp add: Let_def)
  next
    case False
    with le eq [of z x] show ?thesis by (simp add: Let_def)
  qed
qed

lemma facet_comparator: "comparator lc \<Longrightarrow> comparator (facet_order lc)"
  using lex_comparator [of lc "\<lambda>f. num_or_0 (f_count f)" "\<lambda>f. to_str (f_value f)"]
  by (simp add: facet_order_def [abs_def])

text \<open>Code-unit order, the collation of ASCII texts.\<close>

fun text_order :: "jstr \<Rightarrow> jstr \<Rightarrow> int" where
  "text_order [] [] = 0"
| "text_order [] (_ # _) = - 1"
| "text_order (_ # _) [] = 1"
| "text_order (a # s) (b # t) = (if a < b then - 1 else if b < a then 1 else text_order s t)"

lemma text_order_Cons: "text_order (a # s) (b # t) \<le> 0 \<longleftrightarrow> a < b \<or> a = b \<and> text_order s t \<le> 0"
  by auto

lemma text_order_trans: "text_order a b \<le> 0 \<Longrightarrow> text_order b c \<le> 0 \<Longrightarrow> text_order a c \<le> 0"
proof (induction a b arbitrary: c rule: text_order.induct)
  case 1
  then show ?case by (cases c) simp_all
next
  case (2 v va)
  then show ?case by (cases c) simp_all
next
  case (3 v va)
  then show ?case by simp
next
  case (4 a s b t)
  show ?case
  proof (cases c)
    case (Cons d u)
    from 4 show ?thesis unfolding Cons text_order_Cons by (metis linorder_neqE_nat order.strict_trans)
  qed (use 4 in simp)
qed

lemma text_order_total: "text_order a b \<le> 0 \<or> text_order b a \<le> 0"
  by (induction a b rule: text_order.induct) simp_all

interpretation texts: comparator text_order
  by (rule comparator.intro) (fact text_order_total text_order_trans)+

interpretation facets: comparator "facet_order text_order"
  by (rule facet_comparator) (rule texts.comparator_axioms)

lemma mset_insort_cmp [simp]: "mset (insort_cmp cmp x ys) = add_mset x (mset ys)"
  by (induction ys) auto

lemma mset_sort_cmp [simp]: "mset (sort_cmp cmp xs) = mset xs"
  by (induction xs) auto

lemma offer_prefix: "\<exists>t. foldl offer fs vs = fs @ t \<and> f_value ` set t \<subseteq> set vs"
proof (induction vs rule: rev_induct)
  case (snoc v vs)
  then obtain t where t: "foldl offer fs vs = fs @ t" "f_value ` set t \<subseteq> set vs" by blast
  have "foldl offer fs (vs @ [v]) = (if offered v (fs @ t) then fs @ t else fs @ t @ [\<lparr>f_value = v, f_count = Null\<rparr>])"
    by (simp only: foldl_append foldl_Cons foldl_Nil t offer_def append_assoc)
  moreover have "f_value ` set (t @ [\<lparr>f_value = v, f_count = Null\<rparr>]) \<subseteq> set (vs @ [v])" "f_value ` set t \<subseteq> set (vs @ [v])"
    using t(2) by auto
  ultimately show ?case by metis
qed simp

lemma offered_foldl: "offered v fs \<Longrightarrow> offered v (foldl offer fs vs)"
proof -
  obtain t where "foldl offer fs vs = fs @ t" using offer_prefix by blast
  then show "offered v fs \<Longrightarrow> ?thesis" by (auto simp: offered_def)
qed

lemma offer_offered: "strict_eq v v \<Longrightarrow> offered v (offer fs v)"
  by (simp add: offer_def offered_def)

lemma selected_offered: "v \<in> set vs \<Longrightarrow> strict_eq v v \<Longrightarrow> offered v (foldl offer fs vs)"
  by (induction vs arbitrary: fs) (auto simp: offer_offered offered_foldl)

text \<open>The state filter offers every reported state, highest count first, and keeps every
  selected state visible: the first options are the reported facets, each once, in an order
  in which no count is followed by a greater one; what follows was selected; and a selected
  state that the search narrowed away is still offered.\<close>

theorem state_options_complete:
  assumes "comparator lc"
  shows "\<exists>sorted_facets added.
    map c_value (state_facet_options lc fs selected) = map f_value (sorted_facets @ added)
    \<and> mset sorted_facets = mset fs \<and> f_value ` set added \<subseteq> set selected
    \<and> sorted_wrt (\<lambda>a b. \<not> num_lt (num_or_0 (f_count a)) (num_or_0 (f_count b))) sorted_facets
    \<and> (\<forall>s. Str s \<in> set selected \<longrightarrow> Str s \<in> c_value ` set (state_facet_options lc fs selected))"
proof -
  define es where "es = sort_facets lc fs"
  obtain t where t: "foldl offer es selected = es @ t" "f_value ` set t \<subseteq> set selected"
    using offer_prefix by blast
  have "sorted_wrt (\<lambda>a b. facet_order lc a b \<le> 0) es"
    unfolding es_def sort_facets_def by (rule comparator.sorted_sort [OF facet_comparator [OF assms]])
  then have "sorted_wrt (\<lambda>a b. \<not> num_lt (num_or_0 (f_count a)) (num_or_0 (f_count b))) es"
    by (rule sorted_wrt_mono_rel [rotated]) (auto simp: facet_order_def num_cmp_def num_lt_def Let_def split: if_splits jnum.splits)
  moreover have "Str s \<in> c_value ` set (state_facet_options lc fs selected)" if s: "Str s \<in> set selected" for s
  proof -
    obtain f where "f \<in> set (foldl offer es selected)" "f_value f = Str s"
      using selected_offered [OF s, of es] by (auto simp: offered_def list_ex_iff)
    then show ?thesis
      by (force simp: state_facet_options_def es_def [symmetric] image_image)
  qed
  moreover have "map c_value (state_facet_options lc fs selected) = map f_value (es @ t)"
    by (simp add: state_facet_options_def es_def [symmetric] t)
  ultimately show ?thesis using t(2) by (intro exI [of _ es] exI [of _ t]) (auto simp: es_def sort_facets_def)
qed

theorem state_options_complete_witness:
  "comparator text_order \<and> (\<exists>sorted_facets added.
    map c_value (state_facet_options text_order [\<lparr>f_value = lit ''PAUSED'', f_count = int_val 2\<rparr>] [lit ''RUNNING'']) = map f_value (sorted_facets @ added)
    \<and> mset sorted_facets = mset [\<lparr>f_value = lit ''PAUSED'', f_count = int_val 2\<rparr>] \<and> f_value ` set added \<subseteq> set [lit ''RUNNING'']
    \<and> sorted_wrt (\<lambda>a b. \<not> num_lt (num_or_0 (f_count a)) (num_or_0 (f_count b))) sorted_facets
    \<and> (\<forall>s. Str s \<in> set [lit ''RUNNING''] \<longrightarrow>
        Str s \<in> c_value ` set (state_facet_options text_order [\<lparr>f_value = lit ''PAUSED'', f_count = int_val 2\<rparr>] [lit ''RUNNING''])))"
  using texts.comparator_axioms
    state_options_complete [OF texts.comparator_axioms, of "[\<lparr>f_value = lit ''PAUSED'', f_count = int_val 2\<rparr>]" "[lit ''RUNNING'']"]
  by blast

section \<open>Totals\<close>

lemma spend_loop:
  "snd (snd (foldl spend_step (t, k, r) cs)) \<longleftrightarrow> r \<or> (\<exists>c \<in> set cs. reported (change_spend c))"
  by (induction cs arbitrary: t k r)
     (auto simp: spend_step_def change_spend_def spend_of_def total_tokens_def total_cost_def positive_def num_or_0_def)

lemma page_spend_reported: "reported (page_spend changes) \<longleftrightarrow> (\<exists>c \<in> set (as_list changes). reported (change_spend c))"
  using spend_loop [of "Fin 0" "Fin 0" False "as_list changes"]
  by (auto simp: page_spend_def spend_of_def split: prod.splits)

lemma tokens_missing: "run_token_total run = None \<longleftrightarrow>
    token_value (opt_get run ''tokens_in'') = None \<and> token_value (opt_get run ''tokens_out'') = None"
  by (simp add: run_token_total_def Let_def)

section \<open>The oldest item\<close>

lemma older_loop:
  "(case acc of None \<Rightarrow> True | Some a \<Rightarrow> is_finite (waiting a)) \<Longrightarrow>
   (case foldl older acc is of
      None \<Rightarrow> acc = None \<and> (\<forall>i \<in> set is. \<not> is_finite (waiting i))
    | Some a \<Rightarrow> is_finite (waiting a) \<and> (a \<in> set is \<or> acc = Some a)
        \<and> (\<forall>i \<in> set is \<union> set_option acc. is_finite (waiting i) \<longrightarrow> \<not> num_lt (waiting a) (waiting i)))"
proof (induction "is" arbitrary: acc)
  case Nil
  then show ?case by (cases acc) (auto simp: num_lt_def split: jnum.splits)
next
  case (Cons i "is")
  have lt: "num_lt x z" if "num_lt x y" "\<not> num_lt z y" "is_finite x" "is_finite y" "is_finite z" for x y z
    using that by (cases x; cases y; cases z) auto
  have asym: "\<not> num_lt y x" if "num_lt x y" for x y
    using that by (cases x; cases y) (auto simp: num_lt_def)
  have tr: "num_lt x z" if "num_lt x y" "num_lt y z" for x y z
    using that by (cases x; cases y; cases z) (auto simp: num_lt_def)
  have step: "older acc i = acc \<and> (\<not> is_finite (waiting i) \<or> (\<exists>j. acc = Some j \<and> \<not> num_lt (waiting j) (waiting i)))
      \<or> older acc i = Some i \<and> is_finite (waiting i) \<and> (\<forall>j. acc = Some j \<longrightarrow> num_lt (waiting j) (waiting i))"
    by (auto simp: older_def split: option.splits)
  have inv: "case older acc i of None \<Rightarrow> True | Some a \<Rightarrow> is_finite (waiting a)"
    using Cons.prems step by (auto split: option.splits)
  show ?case using Cons.IH [OF inv] Cons.prems step
    by (auto split: option.splits dest: lt tr asym)
qed

text \<open>The oldest item of the review queue is an item of the queue that has waited at least
  as long as every item whose waiting time is reported; there is none exactly when no
  waiting time is reported.\<close>

theorem oldest_is_oldest:
  "case queue_oldest (Arr items) of
     None \<Rightarrow> filter (\<lambda>i. is_finite (waiting i)) items = []
   | Some a \<Rightarrow> a \<in> set items \<and> is_finite (waiting a)
       \<and> filter (\<lambda>i. is_finite (waiting i) \<and> num_lt (waiting a) (waiting i)) items = []"
  using older_loop [of None items] by (auto simp: queue_oldest_def filter_empty_conv split: option.splits)

end
