(* ===== verification/Console_View.thy ===== *)
theory Console_View imports Console_Flows begin

text \<open>
  What a component of the console returns: the tree of its JSX expression. A node has the
  tag or the component's name, its properties and its children; as in React, the node of a
  component is not expanded. Left out are the properties that only style or drive the page:
  \<open>className\<close>, \<open>style\<close>, \<open>key\<close>, \<open>ref\<close>, ids of \<open>useId\<close>, icons, and event handlers,
  which are operations on the component's state here. Where the data choose a style, the
  choice is kept under a name of its own. A property that holds a tree is a child node
  named after the property with a dot in front; a fragment is a node without a tag.
\<close>

datatype view =
    Text jstr
  | Node string "(string \<times> jsval) list" "view list"
  | Blank
  | Invalid  \<comment> \<open>an object as a child, on which React throws\<close>

abbreviation label :: "string \<Rightarrow> view" where "label s \<equiv> Text (js s)"

text \<open>A value between braces.\<close>

fun child :: "jsval \<Rightarrow> view" where
  "child (Str s) = (if s = [] then Blank else Text s)"
| "child (Num n) = Text (num_to_string n)"
| "child (Arr xs) = Node '''' [] (map child xs)"
| "child (Obj ps) = Invalid"
| "child _ = Blank"

text \<open>\<open>condition ? view : null\<close>.\<close>

definition shown_if :: "bool \<Rightarrow> view \<Rightarrow> view" where
  "shown_if c v = (if c then v else Blank)"

definition slot :: "string \<Rightarrow> view list \<Rightarrow> view" where
  "slot p vs = Node (CHR ''.'' # p) [] vs"

definition fragment :: "view list \<Rightarrow> view" where
  "fragment vs = Node [] [] vs"

definition tag :: "string \<Rightarrow> view list \<Rightarrow> view" where
  "tag t vs = Node t [] vs"

text \<open>A button: its properties and its text.\<close>

definition button :: "(string \<times> jsval) list \<Rightarrow> string \<Rightarrow> view" where
  "button ps s = Node ''Button'' ps [Text (js s)]"

text \<open>All nodes of a tree, and the text it shows.\<close>

fun nodes :: "view \<Rightarrow> (string \<times> (string \<times> jsval) list) list" where
  "nodes (Node t ps vs) = (t, ps) # concat (map nodes vs)"
| "nodes _ = []"

fun shown :: "view \<Rightarrow> jstr" where
  "shown (Text s) = s"
| "shown (Node t ps vs) = concat (map shown vs)"
| "shown _ = []"

definition attr :: "(string \<times> jsval) list \<Rightarrow> string \<Rightarrow> jsval" where
  "attr ps k = (case map_of ps k of Some v \<Rightarrow> v | None \<Rightarrow> Undef)"

lemma shown_if_simps [simp]: "shown_if True v = v" "shown_if False v = Blank"
  by (simp_all add: shown_if_def)

end
