(* ===== verification/Console_Lists.thy ===== *)
theory Console_Lists imports Console_View Console_Api begin

text \<open>
  The lists of the console: the cursor pager and its footer (\<open>flows/pagination.jsx\<close>), the
  multi-value facet menu (\<open>runs/facet-multi-select.jsx\<close>), the runs ledger
  (\<open>pages/runs.jsx\<close>) and the patch viewer (\<open>runs/run-patch.jsx\<close>). Each has the record of its
  state, one function per handler, and the tree it renders.
\<close>

definition num_text :: "jnum \<Rightarrow> jstr" where
  "num_text n = format_number False dash (Num n)"

section \<open>The cursor pager\<close>

record pager =
  p_key :: jstr
  p_cursor :: jstr
  p_history :: "jstr list"

definition first_page :: "jstr \<Rightarrow> pager" where
  "first_page k = \<lparr>p_key = k, p_cursor = [], p_history = []\<rparr>"

definition current_pager :: "jstr \<Rightarrow> pager \<Rightarrow> pager" where
  "current_pager k p = (if p_key p = k then p else first_page k)"

text \<open>The effect that runs after the filters changed.\<close>

definition sync_pager :: "jstr \<Rightarrow> pager \<Rightarrow> pager" where
  "sync_pager k p = (if p_key p = k then p else first_page k)"

text \<open>\<open>goNext\<close> uses the pager of the render, \<open>goPrev\<close> the stored one.\<close>

definition go_next :: "jstr \<Rightarrow> jstr \<Rightarrow> pager \<Rightarrow> pager" where
  "go_next k next_cursor p = (if next_cursor = [] then p
     else \<lparr>p_key = k, p_cursor = next_cursor,
           p_history = p_history (current_pager k p) @ [p_cursor (current_pager k p)]\<rparr>)"

definition go_prev :: "jstr \<Rightarrow> pager \<Rightarrow> pager" where
  "go_prev k p = (let b = current_pager k p in
     if p_history b = [] then first_page k
     else \<lparr>p_key = k, p_cursor = last (p_history b), p_history = butlast (p_history b)\<rparr>)"

definition reset_pager :: "jstr \<Rightarrow> pager \<Rightarrow> pager" where
  "reset_pager k p = first_page k"

definition page_index :: "jstr \<Rightarrow> pager \<Rightarrow> nat" where
  "page_index k p = length (p_history (current_pager k p)) + 1"

definition can_prev :: "jstr \<Rightarrow> pager \<Rightarrow> bool" where
  "can_prev k p \<longleftrightarrow> p_history (current_pager k p) \<noteq> []"

definition PAGE_SIZE_OPTIONS :: "choice list" where
  "PAGE_SIZE_OPTIONS = map (\<lambda>n. \<lparr>c_value = Str (num_to_string (num_int n)),
     c_label = Str (num_to_string (num_int n) @ js '' / page'')\<rparr>) PAGE_SIZES"

definition choice_val :: "choice \<Rightarrow> jsval" where
  "choice_val c = Obj [(js ''value'', c_value c), (js ''label'', c_label c)]"

definition en_dash :: jstr where "en_dash = [8211]"

definition range_label :: "jsval \<Rightarrow> jsval \<Rightarrow> jstr \<Rightarrow> jstr" where
  "range_label page item_count noun =
     (let offset = num_or_0 (opt_get page ''offset''); total = num_or_0 (opt_get page ''total''); n = num_or_0 item_count in
      if \<not> truthy (Num n) then js ''0 '' @ noun
      else num_text (num_add offset (num_int 1)) @ en_dash @ num_text (num_add offset n) @ js '' of ''
        @ num_text total @ [32] @ noun)"

record pagination_props =
  pg_page :: jsval
  pg_item_count :: jsval
  pg_noun :: jstr
  pg_index :: nat
  pg_count :: jnum
  pg_range_text :: jstr
  pg_size :: jsval
  pg_size_options :: "choice list option"
  pg_prev_disabled :: bool
  pg_next_disabled :: bool
  pg_loading :: bool

definition pagination :: "pagination_props \<Rightarrow> view list \<Rightarrow> view" where
  "pagination p children = tag ''div''
     ([tag ''p'' [Text (if pg_range_text p \<noteq> [] then pg_range_text p
         else range_label (pg_page p) (pg_item_count p) (pg_noun p))]] @ children @
      [tag ''div''
        [case pg_size_options p of None \<Rightarrow> Blank
         | Some cs \<Rightarrow> Node ''Select'' [(''ariaLabel'', lit ''Rows per page''), (''value'', Str (to_str (pg_size p))),
             (''options'', Arr (map choice_val cs)), (''disabled'', JBool (pg_loading p))] [],
         shown_if (num_lt (num_int 1) (pg_count p)) (tag ''span'' [label ''Page '', Text (num_text (num_int (int (pg_index p)))),
           label '' / '', Text (num_text (pg_count p))]),
         button [(''disabled'', JBool (pg_prev_disabled p \<or> pg_loading p)), (''aria-label'', lit ''Previous page'')] ''Prev'',
         button [(''disabled'', JBool (pg_next_disabled p \<or> pg_loading p)), (''aria-label'', lit ''Next page'')] ''Next'']])"

section \<open>The facet menu\<close>

datatype menu_event = Toggle_open | Pointer_outside | Pointer_inside | Menu_key string

text \<open>The panel's state and whether the trigger is focused by the event. The document
  listeners exist only while the panel is open.\<close>

fun menu_step :: "menu_event \<Rightarrow> bool \<Rightarrow> bool \<times> bool" where
  "menu_step Toggle_open is_open = (\<not> is_open, False)"
| "menu_step Pointer_outside is_open = (False, False)"
| "menu_step Pointer_inside is_open = (is_open, False)"
| "menu_step (Menu_key k) is_open = (if is_open \<and> k = ''Escape'' then (False, True) else (is_open, False))"

definition toggle_value :: "jsval \<Rightarrow> jsval list \<Rightarrow> jsval list" where
  "toggle_value v vs = (if list_ex (strict_eq v) vs then filter (\<lambda>i. \<not> strict_eq i v) vs else vs @ [v])"

definition option_view :: "jsval list \<Rightarrow> (jsval \<Rightarrow> jstr) option \<Rightarrow> state_choice \<Rightarrow> view" where
  "option_view vs tone_for c = Node ''button''
     [(''type'', lit ''button''), (''role'', lit ''option''), (''aria-selected'', JBool (list_ex (strict_eq (c_value c)) vs))]
     [Node ''span'' [(''aria-hidden'', lit ''true'')] [],
      case tone_for of Some f \<Rightarrow> Node ''StatusDot'' [(''tone'', Str (f (c_value c))), (''size'', lit ''xs'')] [] | None \<Rightarrow> Blank,
      tag ''span'' [child (c_label c)],
      shown_if (\<not> nullish (c_count c)) (tag ''span'' [Text (format_number False dash (c_count c))])]"

definition clear_button :: "jsval list \<Rightarrow> view" where
  "clear_button vs = shown_if (vs \<noteq> []) (Node ''button'' [(''type'', lit ''button'')] [label ''Clear''])"

definition facet_multi_select ::
  "jstr \<Rightarrow> jsval \<Rightarrow> state_choice list \<Rightarrow> jsval list \<Rightarrow> (jsval \<Rightarrow> jstr) option \<Rightarrow> bool \<Rightarrow> view" where
  "facet_multi_select name aria_label options vs tone_for is_open = tag ''div''
     [Node ''button'' [(''type'', lit ''button''), (''aria-haspopup'', lit ''listbox''), (''aria-expanded'', JBool is_open),
         (''aria-label'', js_or aria_label (Str (name @ js '' filter'')))]
        [tag ''span'' [tag ''span'' [Text name]],
         shown_if (vs \<noteq> []) (tag ''span'' [child (int_val (int (length vs)))])],
      shown_if is_open (Node ''div'' [(''role'', lit ''listbox''), (''aria-label'', Str (name @ js '' filter values'')),
          (''aria-multiselectable'', lit ''true'')]
        [tag ''div'' [tag ''span'' [Text name], clear_button vs],
         tag ''div'' (if options \<noteq> [] then map (option_view vs tone_for) options
           else [tag ''p'' [label ''No values available.'']])])]"

section \<open>The runs ledger\<close>

record run_query =
  q_search :: jstr
  q_states :: "jsval list"
  q_harness :: jsval
  q_repository :: jsval
  q_scope :: jsval
  q_sort :: jsval
  q_limit :: jnum
  q_offset :: jnum
  q_window :: jsval

definition initial_query :: "jsval \<Rightarrow> run_query" where
  "initial_query w = \<lparr>q_search = [], q_states = [], q_harness = Str [], q_repository = Str [], q_scope = Str [],
     q_sort = Str DEFAULT_SORT, q_limit = num_int DEFAULT_PAGE_SIZE, q_offset = num_int 0, q_window = w\<rparr>"

text \<open>The two effects.\<close>

definition sync_search :: "jstr \<Rightarrow> run_query \<Rightarrow> run_query" where
  "sync_search debounced_search q = (if q_search q = debounced_search then q
     else q\<lparr>q_search := debounced_search, q_offset := num_int 0\<rparr>)"

definition sync_window :: "jsval \<Rightarrow> run_query \<Rightarrow> run_query" where
  "sync_window w q = (if strict_eq (q_window q) w then q else q\<lparr>q_window := w, q_offset := num_int 0\<rparr>)"

definition effective_offset :: "jsval \<Rightarrow> run_query \<Rightarrow> jnum" where
  "effective_offset w q = (if strict_eq (q_window q) w then q_offset q else num_int 0)"

definition or_undef :: "jsval \<Rightarrow> jsval" where "or_undef v = js_or v Undef"

definition run_params :: "jsval \<Rightarrow> run_query \<Rightarrow> (jstr \<times> jsval) list" where
  "run_params w q = (let offset = effective_offset w q in
     [(js ''window'', w), (js ''limit'', Num (q_limit q)),
      (js ''cursor'', if num_lt (num_int 0) offset then Str (num_to_string offset) else Undef),
      (js ''query'', or_undef (Str (q_search q))),
      (js ''state'', if q_states q \<noteq> [] then Arr (q_states q) else Undef),
      (js ''harness'', or_undef (q_harness q)), (js ''repository'', or_undef (q_repository q)),
      (js ''scope'', or_undef (q_scope q)), (js ''sort'', js_or (q_sort q) (Str DEFAULT_SORT))])"

datatype query_change =
    Set_search jstr | Set_states "jsval list" | Set_harness jsval | Set_repository jsval | Set_scope jsval
  | Set_sort jsval | Set_limit jsval

fun change_query :: "query_change \<Rightarrow> run_query \<Rightarrow> run_query" where
  "change_query (Set_search s) q = q\<lparr>q_search := s, q_offset := num_int 0\<rparr>"
| "change_query (Set_states vs) q = q\<lparr>q_states := vs, q_offset := num_int 0\<rparr>"
| "change_query (Set_harness v) q = q\<lparr>q_harness := v, q_offset := num_int 0\<rparr>"
| "change_query (Set_repository v) q = q\<lparr>q_repository := v, q_offset := num_int 0\<rparr>"
| "change_query (Set_scope v) q = q\<lparr>q_scope := v, q_offset := num_int 0\<rparr>"
| "change_query (Set_sort v) q = q\<lparr>q_sort := v, q_offset := num_int 0\<rparr>"
| "change_query (Set_limit v) q = q\<lparr>q_limit := to_num v, q_offset := num_int 0\<rparr>"

definition clear_filters :: "run_query \<Rightarrow> run_query" where
  "clear_filters q = q\<lparr>q_search := [], q_states := [], q_harness := Str [], q_repository := Str [], q_scope := Str [],
     q_sort := Str DEFAULT_SORT, q_offset := num_int 0\<rparr>"

text \<open>A filter chip, with what removing it does to the query; the search chip also empties
  the search field.\<close>

record chip =
  chip_key :: jstr
  chip_label :: jstr
  chip_title :: jsval
  chip_remove :: query_change

definition quoted :: "jstr \<Rightarrow> jstr" where "quoted s = [8220] @ s @ [8221]"

definition chip_of :: "jstr \<Rightarrow> jstr \<Rightarrow> jsval \<Rightarrow> query_change \<Rightarrow> chip" where
  "chip_of k l t c = \<lparr>chip_key = k, chip_label = l, chip_title = t, chip_remove = c\<rparr>"

definition active_filters :: "run_query \<Rightarrow> chip list" where
  "active_filters q =
     (if q_search q = [] then []
      else [chip_of (js ''search'') (js ''Search '' @ quoted (truncate_text 26 (Str (q_search q)))) (Str (q_search q)) (Set_search [])])
     @ map (\<lambda>st. chip_of (js ''state:'' @ to_str st) (run_state_label st) Undef
              (Set_states (filter (\<lambda>v. \<not> strict_eq v st) (q_states q)))) (q_states q)
     @ (if truthy (q_harness q)
        then [chip_of (js ''harness'') (js ''Harness '' @ to_str (q_harness q)) Undef (Set_harness (Str []))] else [])
     @ (if truthy (q_repository q)
        then [chip_of (js ''repository'') (js ''Repository '' @ truncate_text 28 (q_repository q)) (q_repository q) (Set_repository (Str []))]
        else [])
     @ (if truthy (q_scope q)
        then [chip_of (js ''scope'') (js ''Scope '' @ to_str (q_scope q)) Undef (Set_scope (Str []))] else [])"

text \<open>What the page derives from the answer.\<close>

record run_page =
  rp_total :: jnum
  rp_offset :: jnum
  rp_count :: jnum
  rp_current :: jnum
  rp_start :: jnum
  rp_end :: jnum

definition run_page_of :: "jsval \<Rightarrow> jsval \<Rightarrow> run_query \<Rightarrow> run_page" where
  "run_page_of data w q =
     (let page = opt_get data ''page''; total = num_or_0 (opt_get page ''total''); size = q_limit q;
          off = (if is_finite (to_num (opt_get page ''offset'')) then to_num (opt_get page ''offset'') else effective_offset w q);
          step = num_max (num_int 1) size in
      \<lparr>rp_total = total, rp_offset = off,
       rp_count = num_max (num_int 1) (math_ceil (num_div total step)),
       rp_current = num_add (math_floor (num_div off step)) (num_int 1),
       rp_start = (if total = num_int 0 then num_int 0 else num_add off (num_int 1)),
       rp_end = num_min (num_add off size) total\<rparr>)"

definition prev_page :: "run_page \<Rightarrow> run_query \<Rightarrow> run_query" where
  "prev_page p q = q\<lparr>q_offset := num_max (num_int 0) (num_sub (rp_offset p) (q_limit q))\<rparr>"

definition next_page :: "jsval \<Rightarrow> run_query \<Rightarrow> run_query" where
  "next_page data q = q\<lparr>q_offset := num_or_0 (opt_get (opt_get data ''page'') ''next_cursor'')\<rparr>"

definition facets_of :: "jsval \<Rightarrow> string \<Rightarrow> facet list" where
  "facets_of data k = map facet_of (as_list (opt_get (opt_get data ''facets'') k))"

definition fetching :: "bool \<Rightarrow> jsval \<Rightarrow> bool" where
  "fetching loading data \<longleftrightarrow> loading \<and> truthy data"

definition scan_errors_text :: "jsval \<Rightarrow> jstr" where
  "scan_errors_text index = (if num_lt (num_int 0) (to_num (opt_get index ''scan_errors''))
     then [32] @ middot @ [32] @ format_number False dash (opt_get index ''scan_errors'') @ js '' scan errors'' else [])"

definition runs_header :: "clock \<Rightarrow> jnum \<Rightarrow> jsval \<Rightarrow> jsval \<Rightarrow> bool \<Rightarrow> jsval \<Rightarrow> jsval \<Rightarrow> view" where
  "runs_header ck now w data refreshing updated_at index =
     (let total = num_or_0 (opt_get (opt_get data ''page'') ''total'') in
      Node ''PageHeader'' [(''eyebrow'', lit ''Factory ledger''), (''title'', lit ''Runs''),
          (''description'', lit ''Every factory activation across repositories, harnesses and scopes, with the durable evidence behind each result.'')]
       [slot ''meta'' [tag ''span'' [Text (window_label w)], Node ''span'' [(''aria-hidden'', lit ''true'')] [Text middot],
          tag ''span'' [Text (if truthy data then num_text total else dash), label '' run'',
            Text (if total = num_int 1 then [] else js ''s'')],
          shown_if (truthy updated_at) (tag ''span'' [label ''Updated '', Text (time_ago ck now updated_at)]),
          shown_if refreshing (tag ''span'' [Text (js ''Refreshing'' @ ellipsis)]),
          shown_if (truthy index) (tag ''span'' [label ''Index '', Text (format_number False dash (opt_get index ''runs'')),
            label '' runs / '', Text (format_number False dash (opt_get index ''changes'')), label '' changes'',
            Text (scan_errors_text index)])],
        slot ''actions'' [button [(''loading'', JBool refreshing)] ''Refresh'']])"

definition empty_runs :: "jsval \<Rightarrow> run_query \<Rightarrow> view" where
  "empty_runs w q = (let filtered = (active_filters q \<noteq> []) in
     Node ''TableEmpty'' [(''colSpan'', int_val 10), (''title'', lit ''No runs match these filters''),
       (''description'', Str (if filtered then js ''Adjust or clear the active filters to widen the search.''
          else js ''No runs were recorded in '' @ to_lower (window_label w) @ js ''.''))]
       [slot ''action'' [shown_if filtered (button [] ''Clear filters'')]])"

definition chip_val :: "chip \<Rightarrow> jsval" where
  "chip_val c = Obj [(js ''key'', Str (chip_key c)), (js ''label'', Str (chip_label c)), (js ''title'', chip_title c)]"

definition state_choice_val :: "state_choice \<Rightarrow> jsval" where
  "state_choice_val c = Obj [(js ''value'', c_value c), (js ''label'', c_label c), (js ''count'', c_count c), (js ''tone'', Str (c_tone c))]"

definition runs_toolbar_node :: "(jstr \<Rightarrow> jstr \<Rightarrow> int) \<Rightarrow> jsval \<Rightarrow> run_page \<Rightarrow> jstr \<Rightarrow> run_query \<Rightarrow> view" where
  "runs_toolbar_node lc data p search_text q = Node ''RunsToolbar''
     [(''search'', Str search_text), (''total'', Num (rp_total p)),
      (''stateOptions'', Arr (map state_choice_val (state_facet_options lc (facets_of data ''states'') (q_states q)))),
      (''harnessOptions'', Arr (map choice_val (build_select_options lc (facets_of data ''harnesses'') (q_harness q) (lit ''All harnesses'') (\<lambda>v. v)))),
      (''repositoryOptions'', Arr (map choice_val (repository_select_options lc (facets_of data ''repositories'') (q_repository q)))),
      (''scopeOptions'', Arr (map choice_val (build_select_options lc (facets_of data ''scopes'') (q_scope q) (lit ''All scopes'') (\<lambda>v. v)))),
      (''activeFilterCount'', int_val (int (length (active_filters q))))] []"

definition runs_footer :: "jsval \<Rightarrow> run_page \<Rightarrow> run_query \<Rightarrow> view" where
  "runs_footer data p q = tag ''CardFooter''
     [tag ''span'' [label ''Showing '', Text (num_text (rp_start p)), Text en_dash, Text (num_text (rp_end p)), label '' of '',
        Text (num_text (rp_total p))],
      tag ''div'' [tag ''label'' [label ''Rows'',
          Node ''Select'' [(''ariaLabel'', lit ''Rows per page''), (''value'', Str (num_to_string (q_limit q))),
            (''options'', Arr (map (\<lambda>n. let t = Str (num_to_string (num_int n)) in
               Obj [(js ''value'', t), (js ''label'', t)]) PAGE_SIZES))] []],
        tag ''span'' [label ''Page '', child (Num (rp_current p)), label '' of '', child (Num (rp_count p))],
        button [(''disabled'', JBool (rp_offset p = num_int 0)), (''aria-label'', lit ''Previous page'')] ''Prev'',
        button [(''disabled'', JBool (\<not> truthy (opt_get (opt_get data ''page'') ''next_cursor''))),
          (''aria-label'', lit ''Next page'')] ''Next'']]"

definition error_text :: "request_error \<Rightarrow> string \<Rightarrow> jsval" where
  "error_text e fb = js_or (Str (error_message e)) (lit fb)"

definition runs_page :: "(jstr \<Rightarrow> jstr \<Rightarrow> int) \<Rightarrow> clock \<Rightarrow> jnum \<Rightarrow> jsval \<Rightarrow> jsval \<Rightarrow> request_error option \<Rightarrow> bool
    \<Rightarrow> jsval \<Rightarrow> jstr \<Rightarrow> run_query \<Rightarrow> view" where
  "runs_page lc ck now w data err_opt loading updated_at search_text q =
     (let p = run_page_of data w q; runs = as_list (opt_get data ''runs'');
          header = runs_header ck now w data (fetching loading data) updated_at (opt_get data ''index'') in
      if \<not> truthy data \<and> loading then
        tag ''div'' [header, Node ''RunsStats'' [(''loading'', JBool True)] [],
          Node ''TableSkeleton'' [(''rows'', int_val 8), (''columns'', int_val 9)] []]
      else case (truthy data, err_opt) of
        (False, Some e) \<Rightarrow> tag ''div'' [header, tag ''Card'' [Node ''EmptyState'' [(''title'', lit ''Runs could not be loaded''),
            (''description'', error_text e ''The console server did not respond.'')] [slot ''action'' [button [] ''Try again'']]]]
      | _ \<Rightarrow> tag ''div'' [header,
          case err_opt of None \<Rightarrow> Blank
          | Some e \<Rightarrow> Node ''div'' [(''role'', lit ''status'')]
              [tag ''span'' [label ''The latest refresh failed: '', Text (error_message e)], button [] ''Retry''],
          Node ''RunsStats'' [(''data'', data), (''windowKey'', w), (''searchActive'', JBool (q_search q \<noteq> []))] [],
          tag ''Card'' [runs_toolbar_node lc data p search_text q,
            Node ''ActiveFilterChips'' [(''chips'', Arr (map chip_val (active_filters q)))] [],
            Node ''RunsTable'' [(''runs'', Arr runs)] [slot ''empty'' [shown_if (runs = []) (empty_runs w q)]],
            runs_footer data p q]])"

section \<open>The patch viewer\<close>

text \<open>\<open>/^@@ -(\d+)(?:,\d+)? \+(\d+)(?:,\d+)? @@/\<close>: the first line numbers of a hunk.\<close>

definition digits_of :: "jstr \<Rightarrow> (jnum \<times> jstr) option" where
  "digits_of s = (let ds = takeWhile is_digit s in
     if ds = [] then None else Some (str_to_num ds, dropWhile is_digit s))"

definition skip_count :: "jstr \<Rightarrow> jstr" where
  "skip_count s = (case s of c # r \<Rightarrow> if c = 44 \<and> takeWhile is_digit r \<noteq> [] then dropWhile is_digit r else s | [] \<Rightarrow> [])"

definition hunk_start :: "jstr \<Rightarrow> (jnum \<times> jnum) option" where
  "hunk_start s = (if \<not> starts_with s (js ''@@ -'') then None
     else case digits_of (drop 4 s) of None \<Rightarrow> None
       | Some (a, r) \<Rightarrow> let r1 = skip_count r in
           if \<not> starts_with r1 (js '' +'') then None
           else (case digits_of (drop 2 r1) of None \<Rightarrow> None
             | Some (c, r2) \<Rightarrow> if starts_with (skip_count r2) (js '' @@'') then Some (a, c) else None))"

record numbered =
  n_type :: row_type
  n_text :: jstr
  old_no :: "jnum option"
  new_no :: "jnum option"

definition bump :: "jnum option \<Rightarrow> jnum option" where
  "bump n = map_option (\<lambda>k. num_add k (num_int 1)) n"

fun annotate_from :: "jnum option \<Rightarrow> jnum option \<Rightarrow> diff_row list \<Rightarrow> numbered list" where
  "annotate_from a b [] = []"
| "annotate_from a b (r # rs) = (case row_type r of
     HunkRow \<Rightarrow> \<lparr>n_type = HunkRow, n_text = row_text r, old_no = None, new_no = None\<rparr> #
       (case hunk_start (row_text r) of Some (x, y) \<Rightarrow> annotate_from (Some x) (Some y) rs | None \<Rightarrow> annotate_from a b rs)
   | AddRow \<Rightarrow> \<lparr>n_type = AddRow, n_text = row_text r, old_no = None, new_no = b\<rparr> # annotate_from a (bump b) rs
   | DelRow \<Rightarrow> \<lparr>n_type = DelRow, n_text = row_text r, old_no = a, new_no = None\<rparr> # annotate_from (bump a) b rs
   | ContextRow \<Rightarrow> \<lparr>n_type = ContextRow, n_text = row_text r, old_no = a, new_no = b\<rparr> # annotate_from (bump a) (bump b) rs)"

definition annotate_lines :: "diff_row list \<Rightarrow> numbered list" where
  "annotate_lines rs = annotate_from None None rs"

definition number_child :: "jnum option \<Rightarrow> view" where
  "number_child n = (case n of Some k \<Rightarrow> child (Num k) | None \<Rightarrow> Blank)"

definition diff_row_view :: "numbered \<Rightarrow> view" where
  "diff_row_view r = (if n_type r = HunkRow then tag ''tr'' [Node ''td'' [(''colSpan'', int_val 4)] [Text (n_text r)]]
     else tag ''tr'' [tag ''td'' [number_child (old_no r)], tag ''td'' [number_child (new_no r)],
       tag ''td'' [Text (case n_type r of AddRow \<Rightarrow> [43] | DelRow \<Rightarrow> [8722] | _ \<Rightarrow> [32])],
       tag ''td'' [Text (if n_text r = [] then [32] else n_text r)]])"

definition diff_table :: "diff_row list \<Rightarrow> view" where
  "diff_table rs = tag ''div'' [tag ''table'' [tag ''tbody'' (map diff_row_view (annotate_lines rs))]]"

text \<open>The set of expanded paths, as a list without repetition.\<close>

definition initial_expanded :: "diff \<Rightarrow> jstr list" where
  "initial_expanded d = (case diff_files d of [] \<Rightarrow> [] | f # fs \<Rightarrow> [diff_path f])"

definition toggle_path :: "jstr \<Rightarrow> jstr list \<Rightarrow> jstr list" where
  "toggle_path p ps = (if p \<in> set ps then filter (\<lambda>q. q \<noteq> p) ps else ps @ [p])"

definition expand_all :: "diff \<Rightarrow> jstr list" where
  "expand_all d = remdups (map diff_path (diff_files d))"

definition minus_sign :: jstr where "minus_sign = [8722]"

definition file_view :: "jstr list \<Rightarrow> diff_file \<Rightarrow> view" where
  "file_view expanded f = (let is_open = diff_path f \<in> set expanded in
     tag ''div'' [Node ''button'' [(''type'', lit ''button''), (''aria-expanded'', JBool is_open)]
        [Node ''span'' [(''title'', Str (diff_path f))] [Text (diff_path f)],
         tag ''span'' [label ''+'', child (int_val (int (file_additions f)))],
         tag ''span'' [Text minus_sign, child (int_val (int (file_deletions f)))]],
      shown_if is_open (diff_table (rows f))])"

definition small_badge :: "string \<Rightarrow> string \<Rightarrow> view" where
  "small_badge variant s = Node ''Badge'' [(''variant'', lit variant), (''size'', lit ''xs'')] [label s]"

definition patch_totals :: "jsval \<Rightarrow> diff \<Rightarrow> view" where
  "patch_totals detail d = tag ''div''
     [tag ''span'' [tag ''span'' [Text (num_text (num_int (int (length (diff_files d)))))], label '' files''],
      tag ''span'' [label ''+'', Text (num_text (num_int (int (additions d))))],
      tag ''span'' [Text minus_sign, Text (num_text (num_int (int (deletions d))))],
      shown_if (truthy (opt_get detail ''bytes'')) (tag ''span'' [Text (format_bytes dash (opt_get detail ''bytes''))]),
      shown_if (truthy (opt_get detail ''truncated'')) (small_badge ''warning'' ''Patch truncated''),
      shown_if (binary d \<or> truthy (opt_get detail ''binary'')) (small_badge ''warning'' ''Binary diff''),
      tag ''div'' [button [] ''Expand all'', button [] ''Collapse all'']]"

definition compact_empty :: "string \<Rightarrow> jsval \<Rightarrow> view list \<Rightarrow> view" where
  "compact_empty title description vs =
     Node ''EmptyState'' [(''compact'', JBool True), (''title'', lit title), (''description'', description)] vs"

definition patch_body :: "jsval \<Rightarrow> diff \<Rightarrow> bool \<Rightarrow> request_error option \<Rightarrow> bool \<Rightarrow> jstr list \<Rightarrow> view list" where
  "patch_body detail d loading err_opt can_retry expanded =
     (if \<not> truthy (opt_get detail ''available'') then
        [compact_empty ''No patch recorded'' (lit ''No deliverable diff exists for this run. That is expected for runs that never produced a change, and reported honestly for the rest.'') []]
      else if loading then
        [tag ''div'' [Node ''SkeletonText'' [(''lines'', int_val 2)] [], tag ''Skeleton'' []]]
      else case err_opt of
        Some e \<Rightarrow> [compact_empty ''Patch could not be loaded''
            (error_text e ''The patch text could not be read from the console API.'')
            [slot ''action'' [shown_if can_retry (button [] ''Retry'')]]]
      | None \<Rightarrow> if diff_files d = [] then [compact_empty ''Patch is empty'' (lit ''The stored patch contains no file diffs.'') []]
          else [patch_totals detail d, tag ''div'' (map (file_view expanded) (diff_files d))])"

definition patch_header :: "jsval \<Rightarrow> diff \<Rightarrow> bool \<Rightarrow> bool \<Rightarrow> view" where
  "patch_header detail d can_download downloading = (let available = truthy (opt_get detail ''available'') in
     Node ''CardHeader'' [(''title'', lit ''Deliverable patch''),
        (''description'', Str (if truthy (opt_get detail ''path'')
           then js ''Unified diff recorded at '' @ to_str (opt_get detail ''path'') @ js ''.''
           else js ''Unified diff recorded for this run.''))]
       [slot ''actions''
         [shown_if available (Node ''Badge'' [(''variant'', lit ''muted''), (''size'', lit ''xs'')]
            [Text (format_number False dash (js_or (int_val (int (length (diff_files d))))
               (js_or (opt_get (opt_get detail ''files'') ''length'') (int_val 0)))), label '' files'']),
          shown_if (available \<and> can_download) (button [(''loading'', JBool downloading)] ''Download'')]])"

definition patch_card :: "jsval \<Rightarrow> jstr \<Rightarrow> bool \<Rightarrow> request_error option \<Rightarrow> bool \<Rightarrow> bool \<Rightarrow> bool \<Rightarrow> jstr list \<Rightarrow> view" where
  "patch_card detail patch_text loading err_opt can_retry can_download downloading expanded =
     (let d = parse_unified_diff patch_text in tag ''Card''
       [patch_header detail d can_download downloading,
        Node ''CardBody'' [(''padded'', JBool False)] (patch_body detail d loading err_opt can_retry expanded),
        shown_if (truthy (opt_get detail ''available'') \<and> \<not> loading \<and> err_opt = None \<and> diff_files d \<noteq> [])
          (tag ''CardFooter'' [tag ''span''
            [label ''Patch rendered from the same unified diff the CLI records; additions and deletions are parsed, not estimated.'']])])"

end
