(* ===== verification/Console_Charts.thy ===== *)
theory Console_Charts imports Console_View begin

text \<open>
  The hand-drawn charts: \<open>components/charts/chart-utils.js\<close> (axis and path geometry),
  \<open>stacked-bar-chart.jsx\<close> (layout, pointer and keyboard selection, tooltip),
  \<open>outcome-donut.jsx\<close> and \<open>breakdown-bars.jsx\<close>. Geometry is computed in doubles, with
  the rounding of the source's order of operations.
\<close>

section \<open>Shared geometry\<close>

abbreviation fin :: "int \<Rightarrow> jnum" where "fin k \<equiv> Fin (of_int k)"

definition clamp :: "jnum \<Rightarrow> jnum \<Rightarrow> jnum \<Rightarrow> jnum" where
  "clamp v lo hi = (if \<not> is_finite v then lo else num_min hi (num_max lo v))"

text \<open>\<open>Math.pow(10, Math.floor(Math.log10(x)))\<close> with the exact logarithm.\<close>

definition pow10_below :: "rat \<Rightarrow> jnum" where
  "pow10_below x = fl (10 powi (dec_point x - 1))"

definition nice_step :: "jnum \<Rightarrow> jnum" where
  "nice_step raw =
     (let safe = (case raw of Fin x \<Rightarrow> if 0 < x then x else 1 | _ \<Rightarrow> 1);
          power = pow10_below safe; n = num_div (Fin safe) power in
      num_mul (if num_le n (fin 1) then fin 1 else if num_le n (fin 2) then fin 2
               else if num_le n (fin 5) then fin 5 else fin 10) power)"

record axis =
  ticks :: "jnum list"
  ax_max :: jnum
  ax_step :: jnum

text \<open>\<open>for (let value = 0; value <= top; value += step)\<close>: \<open>None\<close> if it never ends.\<close>

partial_function (option) tick_loop :: "jnum \<Rightarrow> jnum \<Rightarrow> jnum \<Rightarrow> jnum list option" where
  "tick_loop v hi st = (if num_le v hi
     then Option.bind (tick_loop (num_add v st) hi st) (\<lambda>vs. Some (v # vs)) else Some [])"

definition axis_step :: "jnum \<Rightarrow> jnum \<Rightarrow> jnum" where
  "axis_step safe_max count =
     num_max (fin 1) (math_round (nice_step (num_div safe_max (num_max (fin 1) count))))"

definition axis_ticks :: "jsval \<Rightarrow> jnum \<Rightarrow> axis option" where
  "axis_ticks max_value count =
     (let safe_max = num_max (fin 1) (math_ceil (num_or_0 max_value)); st = axis_step safe_max count;
          hi = num_mul (math_ceil (num_div safe_max st)) st in
      map_option (\<lambda>vs. \<lparr>ticks = vs, ax_max = hi, ax_step = st\<rparr>) (tick_loop (fin 0) hi st))"

definition scaled_text :: "jnum \<Rightarrow> string \<Rightarrow> jstr" where
  "scaled_text s u = (if is_integer s then num_to_string s else to_fixed 1 s) @ js u"

definition format_axis_count :: "jsval \<Rightarrow> jstr" where
  "format_axis_count v = (let n = num_or_0 v in
     if num_le (fin 1000000) (math_abs n) then scaled_text (num_div n (fin 1000000)) ''m''
     else if num_le (fin 1000) (math_abs n) then scaled_text (num_div n (fin 1000)) ''k''
     else num_to_string (math_round n))"

definition path_text :: "(string \<times> jnum) list \<Rightarrow> jstr" where
  "path_text ps = concat (map (\<lambda>(s, n). js s @ num_to_string n) ps)"

definition top_rounded_bar :: "jnum \<Rightarrow> jnum \<Rightarrow> jsval \<Rightarrow> jsval \<Rightarrow> jnum \<Rightarrow> jstr" where
  "top_rounded_bar x y width height radius =
     (let w = num_max (Fin (1 / 2)) (num_or_0 width); h = num_max (fin 0) (num_or_0 height);
          r = num_max (fin 0) (num_min (num_min radius (num_div w (fin 2))) h);
          base = num_add y h in
      if num_le h (Fin (1 / 2)) then []
      else if r = fin 0 then
        path_text [(''M'', x), ('','', y), (''h'', w), (''v'', h), (''h'', num_neg w)] @ js ''Z''
      else
        path_text [(''M'', x), ('','', base), (''V'', num_add y r), (''a'', r), ('','', r), ('' 0 0 1 '', r),
          ('','', num_neg r), (''h'', num_sub w (num_mul (fin 2) r)), (''a'', r), ('','', r), ('' 0 0 1 '', r),
          ('','', r), (''V'', base)] @ js ''Z'')"

definition x_label_step :: "jnum \<Rightarrow> jnum \<Rightarrow> jnum \<Rightarrow> jnum" where
  "x_label_step count plot_width min_spacing =
     (let capacity = num_max (fin 2) (math_floor (num_div plot_width (num_max (fin 24) min_spacing))) in
      num_max (fin 1) (math_ceil (num_div count capacity)))"

definition element_width :: "jnum \<Rightarrow> jnum" where
  "element_width client_width = num_max (fin 0) (math_round client_width)"

section \<open>Throughput\<close>

record chart_series =
  s_key :: string
  s_label :: jstr
  s_color :: jstr
  s_opacity :: jnum

definition series_of :: "string \<Rightarrow> string \<Rightarrow> string \<Rightarrow> jnum \<Rightarrow> chart_series" where
  "series_of k l c opa = \<lparr>s_key = k, s_label = js l, s_color = js c, s_opacity = opa\<rparr>"

definition THROUGHPUT_SERIES :: "chart_series list" where
  "THROUGHPUT_SERIES =
     [series_of ''succeeded'' ''Succeeded'' ''var(--success)'' (fin 1),
      series_of ''failed'' ''Failed'' ''var(--danger)'' (fin 1),
      series_of ''security'' ''Security'' ''var(--security)'' (fin 1),
      series_of ''other'' ''Other'' ''var(--muted-foreground)'' (Fin (3 / 4))]"

definition point_num :: "jsval \<Rightarrow> string \<Rightarrow> jnum" where
  "point_num p k = num_or_0 (opt_get p k)"

definition sum_key :: "string \<Rightarrow> jsval list \<Rightarrow> jnum" where
  "sum_key k ps = foldl (\<lambda>t p. num_add t (point_num p k)) (fin 0) ps"

text \<open>The totals object: \<open>total\<close>, then one key per series.\<close>

definition throughput_totals :: "jsval list \<Rightarrow> (string \<times> jnum) list" where
  "throughput_totals ps = (''total'', sum_key ''total'' ps) #
     map (\<lambda>s. (s_key s, sum_key (s_key s) ps)) THROUGHPUT_SERIES"

definition stacked_chart_legend :: "jsval list \<Rightarrow> view" where
  "stacked_chart_legend ps = Node ''div'' [] (map (\<lambda>s. Node ''span'' []
     [Node ''span'' [(''aria-hidden'', lit ''true'')] [], Node ''span'' [] [Text (s_label s)],
      Node ''span'' [] [Text (format_number False dash (Num (sum_key (s_key s) ps)))]]) THROUGHPUT_SERIES)"

definition PAD_TOP :: jnum where "PAD_TOP = fin 12"
definition PAD_RIGHT :: jnum where "PAD_RIGHT = fin 6"
definition PAD_BOTTOM :: jnum where "PAD_BOTTOM = fin 22"
definition PAD_LEFT :: jnum where "PAD_LEFT = fin 34"
definition DEFAULT_HEIGHT :: jnum where "DEFAULT_HEIGHT = fin 232"

record layout =
  plot_width :: jnum
  plot_height :: jnum
  band :: jnum
  bar_width :: jnum
  baseline :: jnum
  scale :: axis
  label_every :: jnum

text \<open>\<open>None\<close> is \<open>null\<close>, or an axis that never ends.\<close>

definition chart_layout :: "jsval list \<Rightarrow> jnum \<Rightarrow> jnum \<Rightarrow> layout option" where
  "chart_layout points width height =
     (if points = [] \<or> num_le width (fin 0) then None
      else let count = fin (int (length points));
               pw = num_max (fin 1) (num_sub (num_sub width PAD_LEFT) PAD_RIGHT);
               ph = num_max (fin 1) (num_sub (num_sub height PAD_TOP) PAD_BOTTOM);
               max_total = foldl num_max (fin 1) (map (\<lambda>p. point_num p ''total'') points);
               bw = num_div pw count in
        map_option (\<lambda>ax. \<lparr>plot_width = pw, plot_height = ph, band = bw,
            bar_width = clamp (num_mul bw (fl (62 / 100))) (Fin (5 / 2)) (fin 34),
            baseline = num_add PAD_TOP ph, scale = ax, label_every = x_label_step count pw (fin 62)\<rparr>)
          (axis_ticks (Num max_total) (fin 4)))"

definition x_for :: "layout \<Rightarrow> jnum \<Rightarrow> jnum" where
  "x_for l i = num_add (num_add PAD_LEFT (num_mul (band l) i)) (num_div (num_sub (band l) (bar_width l)) (fin 2))"

definition y_for :: "layout \<Rightarrow> jnum \<Rightarrow> jnum" where
  "y_for l v = num_sub (baseline l) (num_mul (num_div v (ax_max (scale l))) (plot_height l))"

definition active_point :: "jsval list \<Rightarrow> int option \<Rightarrow> jsval option" where
  "active_point points i = (case i of None \<Rightarrow> None
     | Some k \<Rightarrow> if 0 \<le> k \<and> k < int (length points) then Some (points ! nat k) else None)"

definition announce :: "jsval option \<Rightarrow> jstr" where
  "announce p = (case p of None \<Rightarrow> []
     | Some q \<Rightarrow>
        (let parts = map (\<lambda>s. s_label s @ [32] @ format_number False dash (opt_get q (s_key s)))
               (filter (\<lambda>s. num_lt (fin 0) (to_num (opt_get q (s_key s)))) THROUGHPUT_SERIES) in
         to_str (opt_get q ''label'') @ js '': ''
           @ format_number False dash (js_or (opt_get q ''total'') (int_val 0)) @ js '' runs''
           @ (if parts = [] then js ''; no runs'' else js ''; '' @ join_with (js '', '') parts) @ js ''.''))"

text \<open>The pointer's bucket, from the box of the chart and the pointer's position.\<close>

definition index_from_event :: "layout option \<Rightarrow> int \<Rightarrow> jnum \<Rightarrow> jnum \<Rightarrow> jnum \<Rightarrow> jnum option" where
  "index_from_event l count rect_left rect_width client_x = (case l of None \<Rightarrow> None
     | Some lay \<Rightarrow> if \<not> truthy (Num rect_width) then None
         else Some (clamp (math_floor (num_div (num_sub (num_sub client_x rect_left) PAD_LEFT) (band lay)))
                (fin 0) (fin (count - 1))))"

definition index_of_num :: "jnum \<Rightarrow> int" where
  "index_of_num n = (case n of Fin x \<Rightarrow> \<lfloor>x\<rfloor> | _ \<Rightarrow> 0)"

datatype chart_event = Pointer_move jnum jnum jnum | Pointer_leave | Focus | Blur | Key string

definition chart_key :: "int \<Rightarrow> string \<Rightarrow> int option \<Rightarrow> int option" where
  "chart_key count k i =
     (if count = 0 then i
      else let current = (case i of None \<Rightarrow> count - 1 | Some j \<Rightarrow> j) in
        if k = ''ArrowLeft'' then Some (max 0 (current - 1))
        else if k = ''ArrowRight'' then Some (min (count - 1) (current + 1))
        else if k = ''Home'' then Some 0
        else if k = ''End'' then Some (count - 1)
        else if k = ''Escape'' then None else i)"

fun chart_step :: "layout option \<Rightarrow> int \<Rightarrow> chart_event \<Rightarrow> int option \<Rightarrow> int option" where
  "chart_step l count (Pointer_move rl rw cx) i =
     (case index_from_event l count rl rw cx of None \<Rightarrow> i | Some n \<Rightarrow> Some (index_of_num n))"
| "chart_step l count Pointer_leave i = None"
| "chart_step l count Focus i = (case i of None \<Rightarrow> Some (max 0 (count - 1)) | Some j \<Rightarrow> Some j)"
| "chart_step l count Blur i = None"
| "chart_step l count (Key k) i = chart_key count k i"

definition tooltip_left :: "layout option \<Rightarrow> jnum \<Rightarrow> int option \<Rightarrow> jnum" where
  "tooltip_left l width i = (case (l, i) of
     (Some lay, Some k) \<Rightarrow> clamp (num_add PAD_LEFT (num_mul (band lay) (num_add (fin k) (Fin (1 / 2)))))
       (fin 100) (num_max (fin 100) (num_sub width (fin 100)))
   | _ \<Rightarrow> fin 0)"

section \<open>The stacked chart\<close>

definition tick_view :: "layout \<Rightarrow> jnum \<Rightarrow> jnum \<Rightarrow> view" where
  "tick_view l width tick = (let y = y_for l tick in Node ''g'' []
     [Node ''line'' [(''x1'', Num PAD_LEFT), (''x2'', Num (num_sub width PAD_RIGHT)), (''y1'', Num y), (''y2'', Num y),
        (''strokeOpacity'', Num (if tick = fin 0 then fl (95 / 100) else fl (55 / 100)))] [],
      Node ''text'' [(''x'', Num (num_sub PAD_LEFT (fin 8))), (''y'', Num (num_add y (fin 3)))]
        [Text (format_axis_count (Num tick))]])"

definition cursor_view :: "layout \<Rightarrow> int option \<Rightarrow> view" where
  "cursor_view l i = (case i of None \<Rightarrow> Blank
     | Some k \<Rightarrow> Node ''rect'' [(''x'', Num (num_add PAD_LEFT (num_mul (band l) (fin k)))), (''y'', Num PAD_TOP),
         (''width'', Num (band l)), (''height'', Num (plot_height l))] [])"

record segment =
  g_y :: jnum
  g_height :: jnum
  g_color :: jstr
  g_opacity :: jnum

definition segment_step :: "layout \<Rightarrow> jsval \<Rightarrow> jnum \<times> segment list \<Rightarrow> chart_series \<Rightarrow> jnum \<times> segment list" where
  "segment_step l p st s = (case st of (stacked, gs) \<Rightarrow>
     (let v = point_num p (s_key s); upper = y_for l (num_add stacked v); lower = y_for l stacked in
      if num_le v (fin 0) then (stacked, gs)
      else (num_add stacked v, gs @ [\<lparr>g_y = upper, g_height = num_max (Fin (3 / 4)) (num_sub lower upper),
             g_color = s_color s, g_opacity = s_opacity s\<rparr>])))"

definition segments :: "layout \<Rightarrow> jsval \<Rightarrow> segment list" where
  "segments l p = snd (foldl (segment_step l p) (fin 0, []) THROUGHPUT_SERIES)"

definition bar_view :: "layout \<Rightarrow> nat \<Rightarrow> jsval \<Rightarrow> view" where
  "bar_view l i p = (let x = x_for l (fin (int i)); gs = segments l p in
     if point_num p ''total'' = fin 0 then
       Node ''line'' [(''x1'', Num x), (''x2'', Num (num_add x (bar_width l))),
         (''y1'', Num (baseline l)), (''y2'', Num (baseline l))] []
     else Node ''g'' [] (map (\<lambda>(j, g). Node ''path''
       [(''d'', Str (top_rounded_bar x (g_y g) (Num (bar_width l)) (Num (g_height g))
           (if j + 1 = length gs then fin 2 else fin 0))),
        (''fill'', Str (g_color g)), (''opacity'', Num (g_opacity g))] []) (enumerate 0 gs)))"

definition label_shown :: "layout \<Rightarrow> int \<Rightarrow> int \<Rightarrow> bool" where
  "label_shown l count i \<longleftrightarrow> num_mod (fin i) (label_every l) = fin 0
     \<or> i = count - 1 \<and> num_lt (num_mul (label_every l) (fl (55 / 100))) (num_mod (fin (count - 1)) (label_every l))"

definition x_label_view :: "layout \<Rightarrow> jnum \<Rightarrow> int \<Rightarrow> nat \<Rightarrow> jsval \<Rightarrow> view" where
  "x_label_view l height count i p = shown_if (label_shown l count (int i))
     (Node ''text'' [(''x'', Num (num_add (x_for l (fin (int i))) (num_div (bar_width l) (fin 2)))),
        (''y'', Num (num_sub height (fin 6)))] [child (js_or (opt_get p ''label'') (opt_get p ''date''))])"

definition chart_svg :: "jsval list \<Rightarrow> jnum \<Rightarrow> jnum \<Rightarrow> layout \<Rightarrow> int option \<Rightarrow> view" where
  "chart_svg points width height l i =
     Node ''svg'' [(''width'', Num width), (''height'', Num height), (''aria-hidden'', lit ''true'')]
       (map (tick_view l width) (ticks (scale l)) @ [cursor_view l i]
        @ map (\<lambda>(j, p). bar_view l j p) (enumerate 0 points)
        @ map (\<lambda>(j, p). x_label_view l height (int (length points)) j p) (enumerate 0 points))"

definition reported_row :: "bool \<Rightarrow> string \<Rightarrow> jstr \<Rightarrow> view" where
  "reported_row c l t = shown_if c (Node ''p'' [] [Node ''span'' [] [label l], Node ''span'' [] [Text t]])"

definition tooltip_view :: "jsval \<Rightarrow> view" where
  "tooltip_view p = (let p50 = num_lt (fin 0) (to_num (opt_get p ''p50_duration_ms''));
                         spent = num_lt (fin 0) (to_num (opt_get p ''cost_usd'')) in
     Node ''div'' [(''aria-hidden'', lit ''true'')]
       [Node ''div'' [] [Node ''p'' [] [child (opt_get p ''label'')],
          Node ''p'' [] [Text (format_number False dash (js_or (opt_get p ''total'') (int_val 0))), label '' runs'']],
        Node ''ul'' [] (map (\<lambda>s. Node ''li'' [] [Node ''span'' [] [Node ''span'' [(''aria-hidden'', lit ''true'')] [],
            Node ''span'' [] [Text (s_label s)]],
            Node ''span'' [] [Text (format_number False dash (Num (point_num p (s_key s))))]]) THROUGHPUT_SERIES),
        shown_if (p50 \<or> spent) (Node ''div'' []
          [reported_row p50 ''p50 duration'' (format_duration dash (opt_get p ''p50_duration_ms'')),
           reported_row spent ''Reported cost'' (format_usd not_reported 2 (opt_get p ''cost_usd''))])])"

definition UNIT_LABEL :: "jstr table" where
  "UNIT_LABEL = table [(''hour'', ''hour''), (''day'', ''day''), (''month'', ''month'')]"

definition stacked_bar_chart ::
  "jsval list \<Rightarrow> jsval \<Rightarrow> jnum \<Rightarrow> jsval \<Rightarrow> jstr \<Rightarrow> jnum \<Rightarrow> int option \<Rightarrow> view" where
  "stacked_bar_chart points granularity height aria_label empty_label width i =
     (let l = chart_layout points width height; ap = active_point points i in
      Node ''div'' [(''tabIndex'', int_val (if points = [] then - 1 else 0)), (''role'', lit ''group''),
          (''aria-label'', js_or aria_label (Str (js ''Stacked throughput chart by ''
             @ (case table_get UNIT_LABEL granularity of Some u \<Rightarrow> u | None \<Rightarrow> js ''bucket''))))]
        [case l of Some lay \<Rightarrow> chart_svg points width height lay i
         | None \<Rightarrow> Node ''div'' [(''aria-hidden'', lit ''true'')] [],
         case ap of Some p \<Rightarrow> tooltip_view p | None \<Rightarrow> Blank,
         Node ''p'' [(''aria-live'', lit ''polite'')]
           [Text (if ap = None then empty_label else announce ap)]])"

section \<open>The outcome donut\<close>

definition TONE_COLOR :: "jstr table" where
  "TONE_COLOR = table [(''success'', ''var(--success)''), (''warning'', ''var(--warning)''), (''danger'', ''var(--danger)''),
     (''security'', ''var(--security)''), (''info'', ''var(--info)''), (''primary'', ''var(--primary)''),
     (''muted'', ''var(--muted-foreground)'')]"

text \<open>\<open>2 * Math.PI * RADIUS\<close> with the double \<open>Math.PI\<close>.\<close>

definition DONUT_RADIUS :: jnum where "DONUT_RADIUS = fin 62"
definition DONUT_STROKE :: jnum where "DONUT_STROKE = fin 15"
definition MATH_PI :: jnum where "MATH_PI = Fin (884279719003555 / 281474976710656)"
definition CIRCUMFERENCE :: jnum where
  "CIRCUMFERENCE = num_mul (num_mul (fin 2) MATH_PI) DONUT_RADIUS"

record slice =
  sl_value :: jsval
  sl_count :: jnum
  sl_share :: jnum
  sl_length :: jnum
  sl_offset :: jnum
  sl_color :: jstr

definition donut_sum :: "jsval list \<Rightarrow> jsval \<Rightarrow> jnum" where
  "donut_sum outcomes given = (if is_finite (to_num given) \<and> num_lt (fin 0) (to_num given)
     then to_num given else sum_key ''count'' outcomes)"

definition slice_of :: "jnum \<Rightarrow> jnum \<Rightarrow> jsval \<Rightarrow> slice" where
  "slice_of whole offset oc =
     (let n = point_num oc ''count''; share = (if num_lt (fin 0) whole then num_div n whole else fin 0);
          v = opt_get oc ''value'' in
      \<lparr>sl_value = v, sl_count = n, sl_share = share, sl_length = num_mul share CIRCUMFERENCE,
       sl_offset = offset,
       sl_color = (case map_of TONE_COLOR (run_state_tone v) of Some c \<Rightarrow> c
         | None \<Rightarrow> js ''var(--muted-foreground)'')\<rparr>)"

fun slices_from :: "jnum \<Rightarrow> jnum \<Rightarrow> jsval list \<Rightarrow> slice list" where
  "slices_from whole offset [] = []"
| "slices_from whole offset (oc # ocs) = (let s = slice_of whole offset oc in
     s # slices_from whole (num_add offset (sl_length s)) ocs)"

definition slices :: "jsval list \<Rightarrow> jsval \<Rightarrow> slice list" where
  "slices outcomes given = slices_from (donut_sum outcomes given) (fin 0) outcomes"

definition slice_total :: "slice list \<Rightarrow> jnum" where
  "slice_total ss = foldl (\<lambda>t s. num_add t (sl_count s)) (fin 0) ss"

definition donut_label :: "slice list \<Rightarrow> jstr" where
  "donut_label ss = (if ss = [] then js ''Outcome mix: no results in this window.''
     else js ''Outcome mix across '' @ format_number False dash (Num (slice_total ss)) @ js '' runs: ''
       @ join_with (js ''; '') (map (\<lambda>s. run_state_label (sl_value s) @ [32] @ format_number False dash (Num (sl_count s))
           @ js '' runs ('' @ format_percent 1 dash (Num (sl_share s)) @ js '')'') ss) @ js ''.'')"

definition arc_view :: "nat option \<Rightarrow> nat \<times> slice \<Rightarrow> view" where
  "arc_view active p = (case p of (i, s) \<Rightarrow>
     (let gap = (if num_lt (fin 3) (sl_length s) then fl (12 / 10) else fin 0);
          drawn = num_max (fin 0) (num_sub (sl_length s) gap); on = (active = Some i) in
      Node ''circle'' [(''stroke'', Str (sl_color s)),
        (''strokeWidth'', Num (if on then num_add DONUT_STROKE (fin 3) else DONUT_STROKE)),
        (''strokeDasharray'', Str (num_to_string drawn @ [32] @ num_to_string (num_sub CIRCUMFERENCE drawn))),
        (''strokeDashoffset'', Num (num_neg (sl_offset s))),
        (''opacity'', Num (if active = None \<or> on then fin 1 else fl (32 / 100)))] []))"

definition active_slice :: "slice list \<Rightarrow> nat option \<Rightarrow> slice option" where
  "active_slice ss i = (case i of Some k \<Rightarrow> if k < length ss then Some (ss ! k) else None | None \<Rightarrow> None)"

definition donut_center :: "slice list \<Rightarrow> nat option \<Rightarrow> view list" where
  "donut_center ss i = (case active_slice ss i of
     Some s \<Rightarrow> [Node ''span'' [] [Text (format_percent 1 dash (Num (sl_share s)))],
       Node ''span'' [(''title'', Str (run_state_label (sl_value s)))] [Text (run_state_label (sl_value s))],
       Node ''span'' [] [Text (format_number False dash (Num (sl_count s))), label '' runs'']]
   | None \<Rightarrow> [Node ''span'' [] [Text (format_number False dash (Num (slice_total ss)))],
       Node ''span'' [] [label ''Runs'']])"

definition legend_row :: "slice \<Rightarrow> view" where
  "legend_row s = Node ''li'' [] [Node ''div'' []
     [Node ''span'' [(''aria-hidden'', lit ''true'')] [],
      Node ''span'' [(''title'', Str (run_state_label (sl_value s)))] [Text (run_state_label (sl_value s))],
      Node ''span'' [] [Text (format_number False dash (Num (sl_count s)))],
      Node ''span'' [] [Text (format_percent 1 dash (Num (sl_share s)))]]]"

definition outcome_donut :: "jsval list \<Rightarrow> jsval \<Rightarrow> nat option \<Rightarrow> view" where
  "outcome_donut outcomes given i = (let ss = slices outcomes given in
     Node ''div'' []
       [Node ''div'' [(''role'', lit ''img''), (''aria-label'', Str (donut_label ss))]
          [Node ''svg'' [(''aria-hidden'', lit ''true'')]
             [Node ''circle'' [(''stroke'', lit ''var(--muted)''), (''strokeWidth'', Num DONUT_STROKE)] [],
              Node ''g'' [] (map (arc_view i) (enumerate 0 ss))],
           Node ''div'' [] (donut_center ss i)],
        Node ''ul'' [(''aria-label'', lit ''Outcome breakdown'')] (map legend_row ss)])"

section \<open>Ranked bars\<close>

definition with_cost :: "jsval list \<Rightarrow> jsval \<Rightarrow> bool" where
  "with_cost items show_cost = (if show_cost = Undef
     then list_ex (\<lambda>i. num_lt (fin 0) (to_num (opt_get i ''cost_usd''))) items else truthy show_cost)"

definition max_runs :: "jsval list \<Rightarrow> jnum" where
  "max_runs items = foldl num_max (fin 1) (map (\<lambda>i. point_num i ''runs'') items)"

definition bar_percent :: "jnum \<Rightarrow> jnum \<Rightarrow> jnum" where
  "bar_percent runs most = num_max (num_mul (num_div runs most) (fin 100)) (Fin (3 / 2))"

definition success_title :: "jsval \<Rightarrow> jstr" where
  "success_title item = (let s = to_num (opt_get item ''success_rate'') in
     if is_finite s then format_percent 1 dash (Num s) @ js '' of finished runs succeeded''
     else js ''No finished runs'')"

definition success_text :: "jsval \<Rightarrow> jstr" where
  "success_text item = (if num_lt (fin 0) (point_num item ''runs'')
     then format_percent 1 dash (opt_get item ''success_rate'') else dash)"

definition success_warns :: "jsval \<Rightarrow> bool" where
  "success_warns item \<longleftrightarrow> (let s = to_num (opt_get item ''success_rate'') in
     is_finite s \<and> num_lt s (Fin (1 / 2)) \<and> num_lt (fin 0) (point_num item ''runs''))"

definition when_positive :: "jsval \<Rightarrow> (jsval \<Rightarrow> jstr) \<Rightarrow> jstr" where
  "when_positive v f = (if num_lt (fin 0) (to_num v) then f v else dash)"

definition bar_row :: "(jsval \<Rightarrow> jsval) \<Rightarrow> bool \<Rightarrow> jnum \<Rightarrow> jsval \<Rightarrow> view" where
  "bar_row label_of costs most item = Node ''li'' []
     ([Node ''div'' [] [Node ''span'' [(''aria-hidden'', lit ''true''),
          (''width'', Str (num_to_string (bar_percent (point_num item ''runs'') most) @ js ''%''))] [],
        Node ''span'' [(''title'', label_of item)] [child (label_of item)]],
       Node ''span'' [] [Text (format_number False dash (Num (point_num item ''runs'')))],
       Node ''span'' [(''title'', Str (success_title item)), (''warning'', JBool (success_warns item))]
         [Text (success_text item)],
       Node ''span'' [] [Text (when_positive (opt_get item ''p50_duration_ms'') (format_duration dash))]]
      @ (if costs then [Node ''span'' [] [Text (when_positive (opt_get item ''cost_usd'') (format_usd not_reported 2))]] else []))"

definition bar_header :: "bool \<Rightarrow> view" where
  "bar_header costs = Node ''div'' [] (map (\<lambda>s. Node ''span'' [] [label s])
     ([''Name'', ''Runs'', ''Success'', ''p50''] @ (if costs then [''Cost''] else [])))"

definition breakdown_bars :: "jsval list \<Rightarrow> (jsval \<Rightarrow> jsval) \<Rightarrow> jstr \<Rightarrow> jsval \<Rightarrow> view" where
  "breakdown_bars items label_of empty_label show_cost =
     (if items = [] then Node ''p'' [] [Text empty_label]
      else let costs = with_cost items show_cost in
        Node ''div'' [] [bar_header costs, Node ''ul'' [] (map (bar_row label_of costs (max_runs items)) items)])"

end
