(* ===== verification/Console_Lists_Facts.thy ===== *)
theory Console_Lists_Facts imports Console_Lists Console_Charts Console_Format_Facts begin

text \<open>
  What the lists promise: the cursor pager is a stack of visited pages, a changed filter
  always restarts at the first page, removing a filter chip removes that filter and nothing
  else, a range label stays within the total, the line numbers of the patch viewer are
  those of the hunk headers, and a chart's selected bucket exists.
\<close>

section \<open>The pager is a stack\<close>

datatype pager_event = Next jstr | Prev | Filters jstr | Reset

text \<open>The screen: the key of its filters, and the pager.\<close>

fun pager_step :: "jstr \<times> pager \<Rightarrow> pager_event \<Rightarrow> jstr \<times> pager" where
  "pager_step (k, p) (Next c) = (k, go_next k c p)"
| "pager_step (k, p) Prev = (k, go_prev k p)"
| "pager_step (k, p) (Filters k') = (k', sync_pager k' p)"
| "pager_step (k, p) Reset = (k, reset_pager k p)"

text \<open>The specification: the cursors of the visited pages, the first page's being empty.\<close>

fun stack_step :: "jstr \<times> jstr list \<Rightarrow> pager_event \<Rightarrow> jstr \<times> jstr list" where
  "stack_step (k, vs) (Next c) = (k, if c = [] then vs else vs @ [c])"
| "stack_step (k, vs) Prev = (k, if length vs = 1 then [[]] else butlast vs)"
| "stack_step (k, vs) (Filters k') = (k', if k' = k then vs else [[]])"
| "stack_step (k, vs) Reset = (k, [[]])"

definition visited :: "jstr \<times> pager \<Rightarrow> jstr list" where
  "visited s = (case s of (k, p) \<Rightarrow> p_history (current_pager k p) @ [p_cursor (current_pager k p)])"

definition pager_abs :: "jstr \<times> pager \<Rightarrow> jstr \<times> jstr list" where
  "pager_abs s = (fst s, visited s)"

lemma current_pager_key [simp]: "p_key (current_pager k p) = k"
  by (simp add: current_pager_def first_page_def)

lemma current_pager_id [simp]: "p_key p = k \<Longrightarrow> current_pager k p = p"
  by (simp add: current_pager_def)

lemma pager_step_key: "p_key (snd s) = fst s \<Longrightarrow> p_key (snd (pager_step s e)) = fst (pager_step s e)"
  by (cases "(s, e)" rule: pager_step.cases)
     (auto simp: go_next_def go_prev_def sync_pager_def reset_pager_def first_page_def Let_def)

lemma pager_step_abs:
  "p_key (snd s) = fst s \<Longrightarrow> pager_abs (pager_step s e) = stack_step (pager_abs s) e"
  by (cases "(s, e)" rule: pager_step.cases)
     (auto simp: pager_abs_def visited_def go_next_def go_prev_def sync_pager_def reset_pager_def first_page_def Let_def butlast_append)

lemma pager_run:
  "p_key (snd s) = fst s \<Longrightarrow>
   pager_abs (foldl pager_step s es) = foldl stack_step (pager_abs s) es
   \<and> p_key (snd (foldl pager_step s es)) = fst (foldl pager_step s es)"
  by (induction es arbitrary: s) (simp_all add: pager_step_abs pager_step_key)

text \<open>C34: The cursor pager implements a stack of visited pages. After any sequence of next,
  previous, filter change and reset, the cursor it asks for is the top of the specified
  stack, the page number is its height, and "Previous" is offered exactly above the first
  page. So "Previous" undoes "Next", and a filter change starts over, for good.\<close>

theorem pager_is_stack:
  "(let s = foldl pager_step (k, first_page k) es; t = foldl stack_step (k, [[]]) es in
     fst s = fst t \<and> p_cursor (current_pager (fst s) (snd s)) = last (snd t)
     \<and> page_index (fst s) (snd s) = length (snd t) \<and> can_prev (fst s) (snd s) = (1 < length (snd t)))"
proof -
  have key: "p_key (snd (k, first_page k)) = fst (k, first_page k)" by (simp add: first_page_def)
  have "pager_abs (k, first_page k) = (k, [[]])"
    by (simp add: pager_abs_def visited_def current_pager_def first_page_def)
  then have "foldl stack_step (k, [[]]) es = pager_abs (foldl pager_step (k, first_page k) es)"
    using pager_run [OF key, of es] by simp
  then show ?thesis
    by (auto simp: pager_abs_def visited_def Let_def page_index_def can_prev_def split: prod.splits)
qed

section \<open>Filters and pages\<close>

lemma cursor_param:
  "lookup (run_params w q) (js ''cursor'') =
     (if num_lt (num_int 0) (effective_offset w q) then Str (num_to_string (effective_offset w q)) else Undef)"
  by (simp add: run_params_def Let_def)

lemma no_offset: "q_offset q = num_int 0 \<Longrightarrow> lookup (run_params w q) (js ''cursor'') = Undef"
  by (simp add: cursor_param effective_offset_def)

text \<open>A changed filter starts at the first page. The request that follows any change of a
  filter, of the sort order or the page size, a cleared filter, a new search text or a new
  time window carries no cursor.\<close>

theorem filters_restart_paging:
  "lookup (run_params w (change_query c q)) (js ''cursor'') = Undef
   \<and> lookup (run_params w (clear_filters q)) (js ''cursor'') = Undef
   \<and> (if q_search q = s then sync_search s q = q else lookup (run_params w (sync_search s q)) (js ''cursor'') = Undef)
   \<and> (if strict_eq (q_window q) w then sync_window w q = q else lookup (run_params w q) (js ''cursor'') = Undef)"
proof -
  have "q_offset (change_query c q) = num_int 0" by (cases c) simp_all
  moreover have "q_offset (clear_filters q) = num_int 0" by (simp add: clear_filters_def)
  ultimately show ?thesis
    by (auto simp: no_offset sync_search_def sync_window_def) (simp add: cursor_param effective_offset_def)
qed

definition state_key :: "jsval \<Rightarrow> jstr" where "state_key v = js ''state:'' @ to_str v"

lemma key_cases [simp]:
  "chip_key (chip_of k l t c) = k" "chip_remove (chip_of k l t c) = c"
  by (simp_all add: chip_of_def)

lemma state_keys [simp]:
  "js ''state:'' @ s \<noteq> js ''search''" "js ''state:'' @ s \<noteq> js ''harness''"
  "js ''state:'' @ s \<noteq> js ''repository''" "js ''state:'' @ s \<noteq> js ''scope''"
  "js ''search'' \<noteq> js ''state:'' @ s" "js ''harness'' \<noteq> js ''state:'' @ s"
  "js ''repository'' \<noteq> js ''state:'' @ s" "js ''scope'' \<noteq> js ''state:'' @ s"
  by (auto simp: js_def)

lemma state_chips_filter:
  assumes "\<forall>v \<in> set vs. is_str v" "is_str st"
  shows "filter (\<lambda>v. \<not> strict_eq v st) vs = filter (\<lambda>v. to_str v \<noteq> to_str st) vs"
  using assms by (intro filter_cong) (auto elim!: is_str.elims)

text \<open>Removing a filter chip removes that filter and nothing else. For a query whose states
  are texts, the chips after the removal of one are the others, in their order; and after
  "Clear all" there is none.\<close>

theorem chip_removal:
  assumes "\<forall>v \<in> set (q_states q). is_str v" and "c \<in> set (active_filters q)"
  shows "map chip_key (active_filters (change_query (chip_remove c) q))
      = filter (\<lambda>k. k \<noteq> chip_key c) (map chip_key (active_filters q))
    \<and> active_filters (clear_filters q) = []"
proof -
  note filter_False [simp]
  have clear: "active_filters (clear_filters q) = []"
    by (simp add: active_filters_def clear_filters_def)
  consider (search) "c = chip_of (js ''search'') (js ''Search '' @ quoted (truncate_text 26 (Str (q_search q)))) (Str (q_search q)) (Set_search [])" "q_search q \<noteq> []"
    | (state) st where "st \<in> set (q_states q)" "c = chip_of (js ''state:'' @ to_str st) (run_state_label st) Undef
              (Set_states (filter (\<lambda>v. \<not> strict_eq v st) (q_states q)))"
    | (harness) "c = chip_of (js ''harness'') (js ''Harness '' @ to_str (q_harness q)) Undef (Set_harness (Str []))" "truthy (q_harness q)"
    | (repository) "c = chip_of (js ''repository'') (js ''Repository '' @ truncate_text 28 (q_repository q)) (q_repository q) (Set_repository (Str []))" "truthy (q_repository q)"
    | (scope) "c = chip_of (js ''scope'') (js ''Scope '' @ to_str (q_scope q)) Undef (Set_scope (Str []))" "truthy (q_scope q)"
    using assms(2) by (auto simp: active_filters_def split: if_splits)
  then show ?thesis
  proof cases
    case (state st)
    have "is_str st" using state(1) assms(1) by blast
    from state_chips_filter [OF assms(1) this] show ?thesis
      using clear by (simp add: state active_filters_def clear_filters_def filter_map o_def)
  qed (simp_all add: active_filters_def clear_filters_def filter_map o_def)
qed

definition example_query :: run_query where
  "example_query = (initial_query (lit ''7d''))\<lparr>q_states := [lit ''PAUSED'', lit ''RUNNING''], q_harness := lit ''pi''\<rparr>"

theorem chip_removal_witness:
  "map chip_key (active_filters (change_query (Set_states [lit ''RUNNING'']) example_query))
     = [js ''state:RUNNING'', js ''harness'']"
proof -
  have s: "\<forall>v \<in> set (q_states example_query). is_str v" by (simp add: example_query_def)
  define c where "c = active_filters example_query ! 0"
  have c: "c \<in> set (active_filters example_query)" "chip_key c = js ''state:PAUSED''"
      "chip_remove c = Set_states [lit ''RUNNING'']"
    by (simp_all add: c_def example_query_def initial_query_def active_filters_def chip_of_def js_append [symmetric])
  show ?thesis using chip_removal [OF s c(1)] unfolding c
    by (simp add: example_query_def initial_query_def active_filters_def chip_of_def js_append [symmetric])
qed

section \<open>Line numbers\<close>

definition counts_old :: "diff_row \<Rightarrow> bool" where
  "counts_old r \<longleftrightarrow> row_type r = DelRow \<or> row_type r = ContextRow"

definition counts_new :: "diff_row \<Rightarrow> bool" where
  "counts_new r \<longleftrightarrow> row_type r = AddRow \<or> row_type r = ContextRow"

definition row_at :: "nat \<Rightarrow> nat \<Rightarrow> diff_row list \<Rightarrow> nat \<Rightarrow> numbered" where
  "row_at a c body i =
     \<lparr>n_type = row_type (body ! i), n_text = row_text (body ! i),
      old_no = (if counts_old (body ! i) then Some (num_int (int (a + length (filter counts_old (take i body))))) else None),
      new_no = (if counts_new (body ! i) then Some (num_int (int (c + length (filter counts_new (take i body))))) else None)\<rparr>"

lemma bump_int: "int a + 1 \<le> 2 ^ 53 \<Longrightarrow> bump (Some (num_int (int a))) = Some (num_int (int (Suc a)))"
  using num_add_int [of "int a" 1] by (simp add: bump_def add.commute)

lemma row_at_0:
  "row_at a c (r # body) 0 = \<lparr>n_type = row_type r, n_text = row_text r,
     old_no = (if counts_old r then Some (num_int (int a)) else None),
     new_no = (if counts_new r then Some (num_int (int c)) else None)\<rparr>"
  by (simp add: row_at_def)

lemma annotate_body:
  "list_all (\<lambda>r. row_type r \<noteq> HunkRow) body \<Longrightarrow> int (a + length body) \<le> 2 ^ 53 \<Longrightarrow> int (c + length body) \<le> 2 ^ 53
   \<Longrightarrow> annotate_from (Some (num_int (int a))) (Some (num_int (int c))) body = map (row_at a c body) [0..<length body]"
proof (induction body arbitrary: a c)
  case (Cons r body)
  have at: "map (row_at a c (r # body)) [0..<length (r # body)] =
      row_at a c (r # body) 0 # map (row_at (a + (if counts_old r then 1 else 0)) (c + (if counts_new r then 1 else 0)) body) [0..<length body]"
    by (simp add: upt_conv_Cons map_Suc_upt [symmetric] row_at_def del: upt_Suc)
  have "bump (Some (num_int (int a))) = Some (num_int (int (Suc a)))" "bump (Some (num_int (int c))) = Some (num_int (int (Suc c)))"
    using Cons.prems by (intro bump_int; simp)+
  then have b: "bump (Some (Fin (of_nat a))) = Some (Fin (of_nat (Suc a)))" "bump (Some (Fin (of_nat c))) = Some (Fin (of_nat (Suc c)))"
    by (simp_all del: of_nat_Suc)
  show ?case
    using Cons.prems Cons.IH [of a "Suc c"] Cons.IH [of "Suc a" c] Cons.IH [of "Suc a" "Suc c"]
    unfolding at row_at_0 by (cases "row_type r") (simp_all add: b counts_old_def counts_new_def del: of_nat_Suc)
qed simp

definition hunk_header :: "nat \<Rightarrow> nat \<Rightarrow> nat \<Rightarrow> nat \<Rightarrow> jstr \<Rightarrow> jstr" where
  "hunk_header a b c d s = js ''@@ -'' @ dec_nat a @ js '','' @ dec_nat b @ js '' +'' @ dec_nat c @ js '','' @ dec_nat d
     @ js '' @@'' @ s"

lemma digits_split:
  "\<not> is_digit x \<Longrightarrow> takeWhile is_digit (dec_nat n @ x # s) = dec_nat n"
  "\<not> is_digit x \<Longrightarrow> dropWhile is_digit (dec_nat n @ x # s) = x # s"
  using dec_nat_digits by (simp_all add: takeWhile_append dropWhile_append)

lemma digits_of_nat: "\<not> is_digit x \<Longrightarrow> n \<le> 2 ^ 53 \<Longrightarrow> digits_of (dec_nat n @ x # s) = Some (num_int (int n), x # s)"
  by (simp add: digits_of_def digits_split str_to_num_dec_nat)

lemma skip_count_nat: "\<not> is_digit x \<Longrightarrow> skip_count (44 # dec_nat n @ x # s) = x # s"
  by (simp add: skip_count_def digits_split)

lemma hunk_start_header:
  assumes "a \<le> 2 ^ 53" "c \<le> 2 ^ 53"
  shows "hunk_start (hunk_header a b c d s) = Some (num_int (int a), num_int (int c))"
proof -
  have nd: "\<not> is_digit 44" "\<not> is_digit 32" by (simp_all add: is_digit_def)
  show ?thesis
    by (simp add: hunk_start_def hunk_header_def js_Cons digits_of_nat [OF nd(1) assms(1)] digits_of_nat [OF nd(1) assms(2)]
        skip_count_nat [OF nd(2)])
qed

lemma annotate_append:
  "\<exists>x y. annotate_from a b (rs @ qs) = annotate_from a b rs @ annotate_from x y qs"
  by (induction a b rs rule: annotate_from.induct) (auto split: row_type.splits option.splits)

lemma length_annotate [simp]: "length (annotate_from a b rs) = length rs"
  by (induction a b rs rule: annotate_from.induct) (auto split: row_type.splits option.splits)

text \<open>The line numbers of the patch viewer are those of the files. Behind any rows, the rows
  of a hunk with the header \<open>@@ -a,b +c,d @@\<close> are numbered from \<open>a\<close> in the old and from
  \<open>c\<close> in the new file: a row's number is the start plus the earlier rows of the hunk that
  belong to that file, and an added (deleted) row has no old (new) number.\<close>

theorem line_numbers:
  assumes "list_all (\<lambda>r. row_type r \<noteq> HunkRow) body" "int (a + length body) \<le> 2 ^ 53" "int (c + length body) \<le> 2 ^ 53"
  shows "drop (Suc (length pre)) (annotate_lines (pre @ \<lparr>row_type = HunkRow, row_text = hunk_header a b c d s\<rparr> # body))
    = map (row_at a c body) [0..<length body]"
proof -
  let ?h = "\<lparr>row_type = HunkRow, row_text = hunk_header a b c d s\<rparr>"
  obtain x y where "annotate_lines (pre @ ?h # body) = annotate_from None None pre @ annotate_from x y (?h # body)"
    using annotate_append unfolding annotate_lines_def by blast
  moreover have "hunk_start (hunk_header a b c d s) = Some (num_int (int a), num_int (int c))"
    using assms by (intro hunk_start_header) simp_all
  ultimately show ?thesis using annotate_body [OF assms] by simp
qed

definition example_body :: "diff_row list" where
  "example_body = [\<lparr>row_type = ContextRow, row_text = js ''x''\<rparr>, \<lparr>row_type = DelRow, row_text = js ''y''\<rparr>,
     \<lparr>row_type = AddRow, row_text = js ''z''\<rparr>]"

theorem line_numbers_witness:
  "drop 1 (annotate_lines (\<lparr>row_type = HunkRow, row_text = hunk_header 10 2 12 2 []\<rparr> # example_body))
    = map (row_at 10 12 example_body) [0..<3] \<and> new_no (row_at 10 12 example_body 2) = Some (num_int 13)"
proof -
  have "drop (Suc (length ([] :: diff_row list))) (annotate_lines ([] @ \<lparr>row_type = HunkRow, row_text = hunk_header 10 2 12 2 []\<rparr> # example_body))
    = map (row_at 10 12 example_body) [0..<length example_body]"
    by (rule line_numbers) (simp_all add: example_body_def)
  moreover have "length example_body = 3" by (simp add: example_body_def)
  ultimately show ?thesis by (simp add: row_at_def) (simp add: example_body_def counts_new_def)
qed

section \<open>The selected bucket\<close>

definition in_range :: "int \<Rightarrow> int option \<Rightarrow> bool" where
  "in_range count i \<longleftrightarrow> (case i of None \<Rightarrow> True | Some k \<Rightarrow> 0 \<le> k \<and> k < count)"

lemma clamp_range:
  assumes "0 \<le> m"
  shows "\<exists>x. clamp v (fin 0) (fin m) = Fin x \<and> 0 \<le> x \<and> x \<le> of_int m"
  using assms by (cases v) (auto simp: clamp_def num_max_def num_min_def)

lemma chart_key_cases:
  "chart_key count k i \<in> {i, None, Some 0, Some (count - 1),
     Some (max 0 ((case i of None \<Rightarrow> count - 1 | Some j \<Rightarrow> j) - 1)),
     Some (min (count - 1) ((case i of None \<Rightarrow> count - 1 | Some j \<Rightarrow> j) + 1))}"
  unfolding chart_key_def Let_def by simp

lemma chart_key_range:
  assumes "0 < count" "in_range count i"
  shows "in_range count (chart_key count k i)"
proof -
  define j where "j = (case i of None \<Rightarrow> count - 1 | Some j \<Rightarrow> j)"
  have "0 \<le> j" "j < count" using assms by (auto simp: j_def in_range_def split: option.splits)
  then have "\<forall>m \<in> {i, None, Some 0, Some (count - 1), Some (max 0 (j - 1)), Some (min (count - 1) (j + 1))}. in_range count m"
    using assms by (simp add: in_range_def)
  with chart_key_cases [of count k i] show ?thesis unfolding j_def by blast
qed

lemma chart_step_range:
  assumes "0 < count" "in_range count i"
  shows "in_range count (chart_step l count e i)"
proof (cases e)
  case (Pointer_move rl rw cx)
  show ?thesis
  proof (cases "index_from_event l count rl rw cx")
    case (Some n)
    then obtain v where n: "n = clamp v (fin 0) (fin (count - 1))"
      by (auto simp: index_from_event_def split: option.splits if_splits)
    obtain x where "n = Fin x" "0 \<le> x" "x \<le> of_int (count - 1)"
      using clamp_range [of "count - 1" v] assms(1) n by auto
    then have "0 \<le> \<lfloor>x\<rfloor>" "\<lfloor>x\<rfloor> \<le> count - 1" by (simp_all add: floor_le_iff) linarith
    with Some \<open>n = Fin x\<close> show ?thesis by (simp add: Pointer_move in_range_def index_of_num_def)
  qed (use assms in \<open>simp add: Pointer_move\<close>)
next
  case (Key k)
  with chart_key_range [OF assms] show ?thesis by simp
qed (use assms in \<open>auto simp: in_range_def split: option.splits\<close>)

text \<open>A chart's selected bucket exists. Whatever pointer, focus and keyboard events follow
  each other on a chart with buckets, nothing or one of its buckets is selected, so the
  tooltip and the announcement are those of a bucket of the chart.\<close>

theorem chart_selection_exists:
  assumes "points \<noteq> []"
  shows "in_range (int (length points)) (foldl (\<lambda>i e. chart_step l (int (length points)) e i) None es)
    \<and> (foldl (\<lambda>i e. chart_step l (int (length points)) e i) None es = None
       \<or> active_point points (foldl (\<lambda>i e. chart_step l (int (length points)) e i) None es) \<noteq> None)"
proof -
  have "in_range (int (length points)) (foldl (\<lambda>i e. chart_step l (int (length points)) e i) i es)"
    if "in_range (int (length points)) i" for i
    using that
  proof (induction es arbitrary: i)
    case (Cons e es)
    from Cons.IH [OF chart_step_range [OF _ Cons.prems]] assms show ?case by simp
  qed simp
  then have "in_range (int (length points)) (foldl (\<lambda>i e. chart_step l (int (length points)) e i) None es)"
    by (simp add: in_range_def)
  then show ?thesis by (auto simp: in_range_def active_point_def split: option.splits)
qed

theorem chart_selection_exists_witness:
  "active_point [Null, lit ''b''] (foldl (\<lambda>i e. chart_step None 2 e i) None [Focus, Key ''ArrowLeft'']) = Some Null"
  using chart_selection_exists [of "[Null, lit ''b'']" None "[Focus, Key ''ArrowLeft'']"]
  by (simp add: chart_key_def active_point_def)

end
