(* ===== verification/Console_Dispatch.thy ===== *)
theory Console_Dispatch imports Console_Lists begin

text \<open>
  The dispatch page (\<open>pages/dispatch.jsx\<close>): the form of a run request, its validation against
  the operator's catalog, and the shell command it generates. The catalog is the API's
  answer; a list of it is read with \<open>as_list\<close>, since \<open>x || []\<close> keeps an array and replaces
  an absent value.
\<close>

section \<open>The command\<close>

text \<open>\<open>'...'\<close> with every quote written as quote, backslash, quote, quote.\<close>

definition shell_quote :: "jstr \<Rightarrow> jstr" where
  "shell_quote s = [39] @ concat (map (\<lambda>c. if c = 39 then [39, 92, 39, 39] else [c]) s) @ [39]"

record form =
  fm_repository :: jstr
  fm_revision :: jstr
  fm_task :: jstr
  fm_scope :: jstr
  fm_harness :: jstr
  fm_verification :: jstr
  fm_model :: jstr
  fm_egress :: jstr
  fm_workspace :: jstr
  fm_review :: bool
  fm_wait :: bool
  fm_touched :: bool

definition empty_form :: form where
  "empty_form = \<lparr>fm_repository = [], fm_revision = [], fm_task = [], fm_scope = [], fm_harness = [], fm_verification = [],
     fm_model = [], fm_egress = [], fm_workspace = [], fm_review = False, fm_wait = True, fm_touched = False\<rparr>"

text \<open>A line of the command with a quoted value.\<close>

definition flag_line :: "string \<Rightarrow> jsval \<Rightarrow> jstr" where
  "flag_line opt v = js ''  --'' @ js opt @ [32] @ shell_quote (to_str v)"

definition flag_if :: "string \<Rightarrow> jsval \<Rightarrow> jstr list" where
  "flag_if opt v = (if truthy v then [flag_line opt v] else [])"

text \<open>The effective scope, harness and profile are those of the form or of the catalog.\<close>

definition command_lines :: "form \<Rightarrow> jsval \<Rightarrow> jsval \<Rightarrow> jsval \<Rightarrow> jstr list" where
  "command_lines f scope harness profile =
     [js ''factory run'', flag_line ''repo'' (Str (fm_repository f)), flag_line ''rev'' (Str (fm_revision f))]
     @ flag_if ''task'' (Str (trim (fm_task f)))
     @ flag_if ''agent'' harness @ flag_if ''verification'' profile @ flag_if ''scope'' scope
     @ flag_if ''model'' (Str (fm_model f)) @ flag_if ''egress'' (Str (fm_egress f))
     @ flag_if ''workspace'' (Str (fm_workspace f))
     @ (if fm_review f then [js ''  --review''] else [])
     @ (if fm_wait f then [] else [js ''  --wait=false''])"

definition workflow_command :: "form \<Rightarrow> jsval \<Rightarrow> jsval \<Rightarrow> jsval \<Rightarrow> jstr" where
  "workflow_command f scope harness profile =
     join_with [32, 92, 10] (command_lines f scope harness profile) @ [10]"

section \<open>Catalog and defaults\<close>

definition catalog_list :: "jsval \<Rightarrow> string \<Rightarrow> jsval list" where
  "catalog_list data k = as_list (opt_get data k)"

definition first_name :: "jsval list \<Rightarrow> jsval" where
  "first_name es = js_or (case es of [] \<Rightarrow> Undef | e # _ \<Rightarrow> opt_get e ''name'') (Str [])"

definition find_named :: "jsval \<Rightarrow> jsval list \<Rightarrow> jsval option" where
  "find_named v es = List.find (\<lambda>e. strict_eq (opt_get e ''name'') v) es"

definition default_scope :: "jsval list \<Rightarrow> jsval" where
  "default_scope scopes = js_or (case find_named (lit ''default'') scopes of None \<Rightarrow> Undef | Some e \<Rightarrow> opt_get e ''name'')
     (first_name scopes)"

record choice_state =
  eff_scope :: jsval
  eff_harness :: jsval
  eff_profile :: jsval

definition defaults :: "jsval \<Rightarrow> choice_state" where
  "defaults data = \<lparr>eff_scope = default_scope (catalog_list data ''scopes''),
     eff_harness = first_name (catalog_list data ''harnesses''),
     eff_profile = first_name (catalog_list data ''verification_profiles'')\<rparr>"

definition effective :: "jsval \<Rightarrow> form \<Rightarrow> choice_state" where
  "effective data f = \<lparr>eff_scope = js_or (Str (fm_scope f)) (eff_scope (defaults data)),
     eff_harness = js_or (Str (fm_harness f)) (eff_harness (defaults data)),
     eff_profile = js_or (Str (fm_verification f)) (eff_profile (defaults data))\<rparr>"

definition selected_list :: "jsval \<Rightarrow> form \<Rightarrow> string \<Rightarrow> jsval list" where
  "selected_list data f k = (case find_named (eff_scope (effective data f)) (catalog_list data ''scopes'') of
     None \<Rightarrow> [] | Some e \<Rightarrow> as_list (opt_get e k))"

definition prefix_allows :: "jsval list \<Rightarrow> jstr \<Rightarrow> bool" where
  "prefix_allows ps s \<longleftrightarrow> ps = [] \<or> list_ex (\<lambda>p. starts_with s (to_str p)) ps"

definition repository_allowed :: "jsval \<Rightarrow> form \<Rightarrow> bool" where
  "repository_allowed data f \<longleftrightarrow> fm_repository f \<noteq> []
     \<and> prefix_allows (catalog_list data ''repositories'') (fm_repository f)
     \<and> prefix_allows (selected_list data f ''repositories'') (fm_repository f)"

definition harness_allowed :: "jsval \<Rightarrow> form \<Rightarrow> bool" where
  "harness_allowed data f \<longleftrightarrow> truthy (eff_harness (effective data f))
     \<and> (selected_list data f ''harnesses'' = []
        \<or> list_ex (\<lambda>h. same_zero h (eff_harness (effective data f))) (selected_list data f ''harnesses''))"

section \<open>Validation\<close>

text \<open>\<open>/^[0-9a-f]{40}$/\<close>.\<close>

definition revision_ok :: "jstr \<Rightarrow> bool" where
  "revision_ok s \<longleftrightarrow> length s = 40 \<and> list_all (\<lambda>c. is_digit c \<or> (97 \<le> c \<and> c \<le> 102)) s"

definition scope_text :: "string \<Rightarrow> jsval \<Rightarrow> form \<Rightarrow> jstr" where
  "scope_text what data f = js what @ js '' is not allowed in scope '' @ to_str (eff_scope (effective data f)) @ js ''.''"

definition repository_error :: "jsval \<Rightarrow> form \<Rightarrow> jstr" where
  "repository_error data f =
     (if fm_repository f = [] then js ''Repository is required.''
      else if \<not> repository_allowed data f then
        (if selected_list data f ''repositories'' \<noteq> [] then scope_text ''Repository'' data f
         else js ''Repository does not start with an allowed prefix.'')
      else [])"

definition revision_error :: "form \<Rightarrow> jstr" where
  "revision_error f = (if fm_revision f = [] then js ''Exact revision is required.''
     else if revision_ok (fm_revision f) then [] else js ''Use the full 40-character commit SHA.'')"

definition task_error :: "form \<Rightarrow> jstr" where
  "task_error f = (if trim (fm_task f) = [] then js ''Task text is required.''
     else if length (trim (fm_task f)) < 12 then js ''Describe the change and its acceptance criteria.'' else [])"

definition harness_error :: "jsval \<Rightarrow> form \<Rightarrow> jstr" where
  "harness_error data f = (if \<not> truthy (eff_harness (effective data f)) then js ''No harness is configured.''
     else if \<not> harness_allowed data f then scope_text ''Harness'' data f else [])"

definition profile_error :: "jsval \<Rightarrow> form \<Rightarrow> jstr" where
  "profile_error data f = (if truthy (eff_profile (effective data f)) then []
     else js ''No verification profile is configured.'')"

definition form_errors :: "jsval \<Rightarrow> form \<Rightarrow> (string \<times> jstr) list" where
  "form_errors data f = [(''repository'', repository_error data f), (''revision'', revision_error f),
     (''task'', task_error f), (''harness'', harness_error data f), (''verification'', profile_error data f)]"

definition valid_form :: "jsval \<Rightarrow> form \<Rightarrow> bool" where
  "valid_form data f \<longleftrightarrow> list_all (\<lambda>(k, e). e = []) (form_errors data f)"

definition generated :: "jsval \<Rightarrow> form \<Rightarrow> jstr" where
  "generated data f = (let e = effective data f in workflow_command f (eff_scope e) (eff_harness e) (eff_profile e))"

text \<open>What the page shows as the command, and what its copy button copies.\<close>

definition command_shown :: "jsval \<Rightarrow> form \<Rightarrow> jstr" where
  "command_shown data f = (if valid_form data f then generated data f
     else js ''# Complete the required fields to generate the command.'')"

definition command_copied :: "jsval \<Rightarrow> form \<Rightarrow> jstr" where
  "command_copied data f = (if valid_form data f then generated data f else [])"

section \<open>Editing\<close>

datatype form_event =
    Type_task jstr | Type_repository jstr | Type_revision jstr
  | Pick_scope jstr | Pick_harness jstr | Pick_profile jstr | Pick_model jstr | Pick_egress jstr | Pick_workspace jstr
  | Check_review bool | Check_wait bool

fun edit :: "form_event \<Rightarrow> form \<Rightarrow> form" where
  "edit (Type_task s) f = f\<lparr>fm_task := s, fm_touched := True\<rparr>"
| "edit (Type_repository s) f = f\<lparr>fm_repository := s, fm_touched := True\<rparr>"
| "edit (Type_revision s) f = f\<lparr>fm_revision := to_lower (trim s), fm_touched := True\<rparr>"
| "edit (Pick_scope s) f = f\<lparr>fm_scope := s\<rparr>"
| "edit (Pick_harness s) f = f\<lparr>fm_harness := s\<rparr>"
| "edit (Pick_profile s) f = f\<lparr>fm_verification := s\<rparr>"
| "edit (Pick_model s) f = f\<lparr>fm_model := s\<rparr>"
| "edit (Pick_egress s) f = f\<lparr>fm_egress := s\<rparr>"
| "edit (Pick_workspace s) f = f\<lparr>fm_workspace := s\<rparr>"
| "edit (Check_review b) f = f\<lparr>fm_review := b\<rparr>"
| "edit (Check_wait b) f = f\<lparr>fm_wait := b\<rparr>"

text \<open>\<open>applyTemplate\<close>. The fields of a run are texts; a field that is not is \<open>None\<close> here, a
  state the next render throws on.\<close>

definition template_text :: "jsval \<Rightarrow> jstr option" where
  "template_text v = (case v of Str s \<Rightarrow> Some s | _ \<Rightarrow> None)"

definition apply_template :: "jsval \<Rightarrow> jsval \<Rightarrow> form \<Rightarrow> form option" where
  "apply_template data r f =
     (case (template_text (js_or (opt_get r ''repository'') (Str [])),
            template_text (js_or (opt_get r ''baseline_sha'') (js_or (opt_get r ''requested_revision'') (Str []))),
            template_text (js_or (opt_get r ''scope'') (eff_scope (defaults data))),
            template_text (js_or (opt_get r ''agent_harness'') (eff_harness (defaults data))),
            template_text (js_or (opt_get r ''verification_profile'') (eff_profile (defaults data)))) of
        (Some re, Some rv, Some sc, Some ha, Some ve) \<Rightarrow>
          Some (f\<lparr>fm_repository := re, fm_revision := rv, fm_scope := sc, fm_harness := ha, fm_verification := ve, fm_touched := True\<rparr>)
      | _ \<Rightarrow> None)"

section \<open>The page\<close>

definition STAGES :: "(string \<times> string) list" where
  "STAGES =
    [(''Intake advisory'', ''Optional typed readiness advice. It never changes the run result or the task text.''),
     (''Policy and resource validation'', ''Repository allowlist, scope, harness, verification profile, budgets and egress are resolved once.''),
     (''Isolated provisioning'', ''One fresh CubeSandbox microVM, the resolved template, workspace preparation and an exact checkout.''),
     (''Agent execution'', ''The named harness runs one task with no host network path and no credential beyond its grant.''),
     (''Deterministic gates'', ''Repository-owned build and test commands decide the verification result, never the model.''),
     (''Human review gate'', ''When configured, the run pauses with evidence and previews until an operator decides.''),
     (''Patch and evidence'', ''The deliverable patch, conditions, logs, security evidence and an auditable manifest are preserved.''),
     (''Verified cleanup'', ''The sandbox is destroyed and the remaining inventory is checked before the run is final.'')]"

text \<open>\<open>Field\<close> with its control.\<close>

definition form_field :: "string \<Rightarrow> jsval \<Rightarrow> jstr \<Rightarrow> view list \<Rightarrow> view" where
  "form_field l hint e control = tag ''label''
     ([tag ''span'' [label l, shown_if (truthy hint) (tag ''span'' [child hint])]] @ control
      @ [shown_if (e \<noteq> []) (tag ''span'' [Text e])])"

definition touched_error :: "form \<Rightarrow> jstr \<Rightarrow> jstr" where
  "touched_error f e = (if fm_touched f then e else [])"

definition select_of :: "string \<Rightarrow> jsval \<Rightarrow> choice list \<Rightarrow> view" where
  "select_of l v cs = Node ''Select'' [(''ariaLabel'', lit l), (''value'', v), (''options'', Arr (map choice_val cs))] []"

definition choice_of :: "jsval \<Rightarrow> jsval \<Rightarrow> choice" where
  "choice_of v l = \<lparr>c_value = v, c_label = l\<rparr>"

definition name_choice :: "jsval \<Rightarrow> choice" where
  "name_choice e = choice_of (opt_get e ''name'') (opt_get e ''name'')"

definition harness_choice :: "jsval \<Rightarrow> choice" where
  "harness_choice e = choice_of (opt_get e ''name'') (Str (to_str (opt_get e ''name'')
     @ (if truthy (opt_get e ''type'') then [32] @ middot @ [32] @ to_str (opt_get e ''type'') else [])))"

definition profile_choice :: "jsval \<Rightarrow> choice" where
  "profile_choice e = (let n = length (as_list (opt_get e ''steps'')) in
     choice_of (opt_get e ''name'') (Str (to_str (opt_get e ''name'') @ [32] @ middot @ [32] @ dec_nat n @ js '' gate''
       @ (if n = 1 then [] else js ''s''))))"

definition model_choice :: "jsval \<Rightarrow> choice" where
  "model_choice e = choice_of (opt_get e ''name'') (Str (to_str (opt_get e ''name'') @ [32] @ middot @ [32]
     @ to_str (js_or (opt_get e ''model'') (opt_get e ''provider''))))"

definition repository_field :: "jsval \<Rightarrow> form \<Rightarrow> view" where
  "repository_field data f =
     (let allowed = catalog_list data ''repositories''; n = length allowed in
      form_field ''Repository''
        (Str (if n \<noteq> 0 then dec_nat n @ js '' allowlisted prefix'' @ (if n = 1 then [] else js ''es'') else js ''No allowlist configured''))
        (touched_error f (repository_error data f))
        [Node ''Input'' [(''value'', Str (fm_repository f)), (''placeholder'', lit ''https://github.com/org/repo''),
            (''list'', lit ''dispatch-repositories'')] [],
         Node ''datalist'' [(''id'', lit ''dispatch-repositories'')] (map (\<lambda>p. Node ''option'' [(''value'', p)] []) allowed)])"

definition policy_fields :: "jsval \<Rightarrow> form \<Rightarrow> view" where
  "policy_fields data f = (let e = effective data f in tag ''div''
     [form_field ''Scope'' (Str (if catalog_list data ''scopes'' \<noteq> [] then [] else js ''not configured'')) []
        [select_of ''Scope'' (eff_scope e) (map name_choice (catalog_list data ''scopes''))],
      form_field ''Agent harness'' Undef (touched_error f (harness_error data f))
        [select_of ''Agent harness'' (eff_harness e) (map harness_choice (catalog_list data ''harnesses''))],
      form_field ''Verification profile'' Undef (touched_error f (profile_error data f))
        [select_of ''Verification profile'' (eff_profile e) (map profile_choice (catalog_list data ''verification_profiles''))],
      form_field ''Model override'' (lit ''optional'') []
        [select_of ''Model override'' (Str (fm_model f)) (choice_of (Str []) (lit ''Harness default'') # map model_choice (catalog_list data ''models''))],
      form_field ''Egress policy'' (lit ''optional'') []
        [select_of ''Egress policy'' (Str (fm_egress f)) (choice_of (Str []) (lit ''Scope default'') # map name_choice (catalog_list data ''egress''))],
      form_field ''Workspace'' (lit ''optional'') []
        [select_of ''Workspace'' (Str (fm_workspace f)) (choice_of (Str []) (lit ''Scope default'') # map name_choice (catalog_list data ''workspaces''))]])"

definition check_box :: "bool \<Rightarrow> view" where
  "check_box b = Node ''input'' [(''type'', lit ''checkbox''), (''checked'', JBool b)] []"

definition request_card :: "jsval \<Rightarrow> request_error option \<Rightarrow> form \<Rightarrow> view" where
  "request_card data failed f = tag ''Card''
     [Node ''CardHeader'' [(''title'', lit ''Run request''),
        (''description'', lit ''Task text and the exact revision are the only caller-controlled inputs. Every other value is operator policy.'')] [],
      tag ''CardBody''
       [form_field ''Task'' (Str (dec_nat (length (trim (fm_task f))) @ js '' characters'')) (touched_error f (task_error f))
          [Node ''textarea'' [(''value'', Str (fm_task f)), (''placeholder'', lit
             ''Describe the change, its constraints and the acceptance criteria the deterministic gates should prove.''),
             (''invalid'', JBool (fm_touched f \<and> task_error f \<noteq> []))] []],
        tag ''div'' [repository_field data f,
          form_field ''Revision'' (lit ''full commit SHA'') (touched_error f (revision_error f))
            [Node ''Input'' [(''value'', Str (fm_revision f)), (''placeholder'', lit ''40-character SHA'')] []]],
        policy_fields data f,
        tag ''div'' [tag ''label'' [check_box (fm_review f), label ''Pause for human review ('', tag ''span'' [label ''--review''], label '')''],
          tag ''label'' [check_box (fm_wait f), label ''Wait for completion in the terminal'']],
        case failed of None \<Rightarrow> Blank
          | Some e \<Rightarrow> tag ''p'' [label ''The operator catalog could not be loaded: '', Text (error_message e)],
        shown_if (catalog_list data ''warnings'' \<noteq> []) (tag ''div'' [tag ''p'' [label ''Configuration warnings''],
          tag ''ul'' (map (\<lambda>w. tag ''li'' [child w]) (take 3 (catalog_list data ''warnings'')))])]]"

definition command_card :: "jsval \<Rightarrow> form \<Rightarrow> view" where
  "command_card data f = tag ''Card''
     [Node ''CardHeader'' [(''title'', lit ''Generated command''),
        (''description'', lit ''Run this on the factory host as an authenticated operator.'')] [],
      tag ''CardBody'' [tag ''div'' [tag ''pre'' [tag ''code'' [Text (command_shown data f)]],
          Node ''CopyButton'' [(''value'', Str (command_copied data f)), (''label'', lit ''Copy'')] []],
        tag ''p'' [label ''Nothing is submitted by this page. The console is a read-only evidence and command surface; the CLI remains the audited action boundary.''],
        shown_if (\<not> valid_form data f \<and> fm_touched f) (tag ''ul''
          (map (\<lambda>(k, e). tag ''li'' [Text (middot @ [32] @ e)]) (filter (\<lambda>(k, e). e \<noteq> []) (form_errors data f))))]]"

definition recent_row :: "clock \<Rightarrow> jnum \<Rightarrow> jsval \<Rightarrow> view" where
  "recent_row ck now r = (let dot = Text ([32] @ middot @ [32]) in tag ''li''
     [tag ''div'' [tag ''p'' [Text (repo_label (opt_get r ''repository''))],
        tag ''p'' [child (opt_get r ''agent_harness''), dot, child (opt_get r ''verification_profile''), dot,
          child (opt_get r ''factory_result''), dot,
          Text (time_ago ck now (js_or (opt_get r ''completed_at'') (opt_get r ''started_at'')))]],
      Node ''Button'' [(''aria-label'', Str (js ''Use configuration from '' @ to_str (opt_get r ''run_id'')))] [label ''Use'']])"

definition recent_card :: "clock \<Rightarrow> jnum \<Rightarrow> bool \<Rightarrow> jsval \<Rightarrow> view" where
  "recent_card ck now loading overview = (let runs = as_list (opt_get overview ''recent_runs'') in tag ''Card''
     [Node ''CardHeader'' [(''title'', lit ''Recent run configuration''),
        (''description'', lit ''Reuse a repository, revision and harness that already ran.'')] [],
      Node ''CardBody'' [(''padded'', JBool False)]
       [if loading then tag ''div'' [tag ''Skeleton'' [], tag ''Skeleton'' []]
        else if runs = [] then Node ''EmptyState'' [(''compact'', JBool True), (''title'', lit ''No recent runs''),
          (''description'', lit ''Run evidence will appear here once the factory has executed a task.'')] []
        else tag ''ul'' (map (recent_row ck now) (take 5 runs))]])"

definition stage_view :: "nat \<times> string \<times> string \<Rightarrow> view" where
  "stage_view s = (case s of (n, title, description) \<Rightarrow> tag ''li''
     [tag ''div'' [tag ''span'' [Text (pad0 2 (dec_nat (n + 1)))], tag ''p'' [label title]], tag ''p'' [label description]])"

definition stages_card :: view where
  "stages_card = tag ''Card''
     [Node ''CardHeader'' [(''title'', lit ''What happens to a dispatched task''),
        (''description'', lit ''The factory workflow, in order. Each stage records evidence that survives the sandbox.'')] [],
      tag ''CardBody'' [tag ''ol'' (map stage_view (enumerate 0 STAGES))]]"

definition dispatch_page ::
  "clock \<Rightarrow> jnum \<Rightarrow> jsval \<Rightarrow> request_error option \<Rightarrow> bool \<Rightarrow> jsval \<Rightarrow> form \<Rightarrow> view" where
  "dispatch_page ck now data failed recent_loading overview f = tag ''div''
     [Node ''PageHeader'' [(''eyebrow'', lit ''Factory workflow''), (''title'', lit ''Dispatch a governed task''),
        (''description'', lit ''Compose the exact run request this factory will accept. The console generates the authenticated CLI command; it never submits work itself.'')]
        [slot ''actions'' [Node ''Badge'' [(''variant'', lit ''outline'')] [label ''Read-only surface'']]],
      tag ''div'' [request_card data failed f, tag ''div'' [command_card data f, recent_card ck now recent_loading overview]],
      stages_card,
      tag ''p'' [Text (js ''Current factory version '' @ to_str (js_or (opt_get data ''factory_version'') (Str em_dash))
        @ [32] @ middot @ [32] @ dec_nat (length (catalog_list data ''harnesses'')) @ js '' harnesses ''
        @ middot @ [32] @ dec_nat (length (catalog_list data ''verification_profiles'')) @ js '' verification profiles ''
        @ middot @ [32] @ dec_nat (length (catalog_list data ''scopes'')) @ js '' scopes ''
        @ middot @ [32] @ dec_nat (length (catalog_list data ''repositories''))
        @ js '' approved repository prefixes. Decisions and cancellation stay in the CLI; see the operator guide.'')]]"

end
