(* ===== verification/Console_Dispatch_Facts.thy ===== *)
theory Console_Dispatch_Facts imports Console_Dispatch begin

text \<open>
  What the dispatch page promises: the command it generates, read by a POSIX shell, is the
  argument list of the request, whatever the fields contain; and it is handed out only for
  a request that the catalog allows.
\<close>

section \<open>How a shell reads a command\<close>

text \<open>Word splitting of one simple command (POSIX 2.2 and 2.3), restricted to what a command
  without expansions needs: single quotes, backslash, line continuation, blanks and the
  newline that ends it. An operator, an expansion, another kind of quote or a second
  command is not read. \<open>w\<close> is the word so far.\<close>

definition plain_unit :: "nat \<Rightarrow> bool" where
  "plain_unit c \<longleftrightarrow> is_alpha c \<or> is_digit c \<or> c \<in> {45, 46, 47, 61, 95}"

definition word_of :: "jstr option \<Rightarrow> jstr" where
  "word_of w = (case w of None \<Rightarrow> [] | Some s \<Rightarrow> s)"

definition flush_word :: "jstr option \<Rightarrow> jstr list" where
  "flush_word w = (case w of None \<Rightarrow> [] | Some s \<Rightarrow> [s])"

fun shell_read :: "bool \<Rightarrow> jstr option \<Rightarrow> jstr \<Rightarrow> jstr list option" where
  "shell_read True w [] = None"
| "shell_read True w (c # r) = (if c = 39 then shell_read False w r else shell_read True (Some (word_of w @ [c])) r)"
| "shell_read False w [] = Some (flush_word w)"
| "shell_read False w (c # r) =
     (if c = 39 then shell_read True (Some (word_of w)) r
      else if c = 92 then (case r of [] \<Rightarrow> None
        | d # q \<Rightarrow> shell_read False (if d = 10 then w else Some (word_of w @ [d])) q)
      else if c = 32 \<or> c = 9 then map_option (\<lambda>ws. flush_word w @ ws) (shell_read False None r)
      else if c = 10 then (if r = [] then Some (flush_word w) else None)
      else if plain_unit c then shell_read False (Some (word_of w @ [c])) r
      else None)"

definition shell_words :: "jstr \<Rightarrow> jstr list option" where
  "shell_words s = shell_read False None s"

lemma word_of_simps [simp]: "word_of None = []" "word_of (Some s) = s"
  by (simp_all add: word_of_def)

lemma flush_word_simps [simp]: "flush_word None = []" "flush_word (Some s) = [s]"
  by (simp_all add: flush_word_def)

lemma read_quoted:
  "shell_read True (Some a) (concat (map (\<lambda>c. if c = 39 then [39, 92, 39, 39] else [c]) s) @ 39 # r)
   = shell_read False (Some (a @ s)) r"
  by (induction s arbitrary: a) auto

lemma read_shell_quote: "shell_read False w (shell_quote s @ r) = shell_read False (Some (word_of w @ s)) r"
  using read_quoted [of "word_of w" s r] by (simp add: shell_quote_def)

lemma plain_unit_cases: "plain_unit c \<Longrightarrow> c \<noteq> 39 \<and> c \<noteq> 92 \<and> c \<noteq> 32 \<and> c \<noteq> 9 \<and> c \<noteq> 10"
  by (auto simp: plain_unit_def is_alpha_def is_digit_def)

lemma read_plain:
  "list_all plain_unit s \<Longrightarrow> s \<noteq> [] \<Longrightarrow> shell_read False w (s @ r) = shell_read False (Some (word_of w @ s)) r"
proof (induction s arbitrary: w)
  case (Cons c s)
  then show ?case using plain_unit_cases [of c] by (cases "s = []") simp_all
qed simp

section \<open>The lines of the command\<close>

definition reads :: "jstr \<Rightarrow> jstr list \<Rightarrow> bool" where
  "reads l ws \<longleftrightarrow> (\<forall>r. shell_words (l @ 32 # r) = map_option (\<lambda>vs. ws @ vs) (shell_words r))
     \<and> shell_words (l @ [10]) = Some ws"

lemma read_lines:
  "ls \<noteq> [] \<Longrightarrow> list_all2 reads ls wss \<Longrightarrow> shell_words (join_with [32, 92, 10] ls @ [10]) = Some (concat wss)"
proof (induction ls arbitrary: wss rule: induct_list012)
  case (2 l)
  then show ?case by (auto simp: list_all2_Cons1 reads_def)
next
  case (3 l k ls)
  then obtain ws wss' where w: "wss = ws # wss'" "reads l ws" "list_all2 reads (k # ls) wss'"
    by (auto simp: list_all2_Cons1)
  have "shell_words (join_with [32, 92, 10] (k # ls) @ [10]) = Some (concat wss')"
    using "3.IH"(2) w(3) by blast
  moreover have "shell_words (92 # 10 # s) = shell_words s" for s by (simp add: shell_words_def)
  ultimately show ?case using w(2) by (simp add: reads_def w(1))
qed simp

lemma reads_shell_words:
  assumes "list_all plain_unit a" "a \<noteq> []" "list_all plain_unit b" "b \<noteq> []"
  shows "reads (a @ 32 # b) [a, b]"
  using assms by (simp add: reads_def shell_words_def read_plain option.map_comp comp_def)

lemma reads_option: "list_all plain_unit a \<Longrightarrow> a \<noteq> [] \<Longrightarrow> reads (32 # 32 # a) [a]"
  by (simp add: reads_def shell_words_def read_plain option.map_comp comp_def option.map_ident)

lemma reads_flag:
  assumes "list_all plain_unit (js opt)"
  shows "reads (flag_line opt v) [js ''--'' @ js opt, to_str v]"
proof -
  have p: "list_all plain_unit (45 # 45 # js opt)" using assms by (simp add: plain_unit_def)
  have l: "flag_line opt v = 32 # 32 # (45 # 45 # js opt) @ 32 # shell_quote (to_str v)"
    by (simp add: flag_line_def js_Cons)
  show ?thesis
    using read_plain [OF p, of None]
    by (simp add: l reads_def shell_words_def read_shell_quote option.map_comp comp_def option.map_ident js_Cons)
qed

section \<open>The command\<close>

text \<open>The argument list of a request.\<close>

definition option_words :: "string \<Rightarrow> jsval \<Rightarrow> jstr list" where
  "option_words opt v = (if truthy v then [js ''--'' @ js opt, to_str v] else [])"

definition arguments :: "form \<Rightarrow> choice_state \<Rightarrow> jstr list" where
  "arguments f e = [js ''factory'', js ''run'', js ''--repo'', fm_repository f, js ''--rev'', fm_revision f]
     @ option_words ''task'' (Str (trim (fm_task f)))
     @ option_words ''agent'' (eff_harness e) @ option_words ''verification'' (eff_profile e)
     @ option_words ''scope'' (eff_scope e) @ option_words ''model'' (Str (fm_model f))
     @ option_words ''egress'' (Str (fm_egress f)) @ option_words ''workspace'' (Str (fm_workspace f))
     @ (if fm_review f then [js ''--review''] else []) @ (if fm_wait f then [] else [js ''--wait=false''])"

definition option_lists :: "string \<Rightarrow> jsval \<Rightarrow> jstr list list" where
  "option_lists opt v = (if truthy v then [option_words opt v] else [])"

lemma concat_option_lists [simp]: "concat (option_lists opt v) = option_words opt v"
  by (simp add: option_words_def option_lists_def)

lemma reads_flag_if:
  assumes "list_all plain_unit (js opt)"
  shows "list_all2 reads (flag_if opt v) (option_lists opt v)"
  using reads_flag [OF assms, of v] by (simp add: flag_if_def option_words_def option_lists_def)

lemma plain_options:
  "list_all plain_unit (js ''repo'')" "list_all plain_unit (js ''rev'')" "list_all plain_unit (js ''task'')"
  "list_all plain_unit (js ''agent'')" "list_all plain_unit (js ''verification'')" "list_all plain_unit (js ''scope'')"
  "list_all plain_unit (js ''model'')" "list_all plain_unit (js ''egress'')" "list_all plain_unit (js ''workspace'')"
  by (simp_all add: js_Cons plain_unit_def is_alpha_def)

lemma reads_fixed:
  "reads (js ''factory run'') [js ''factory'', js ''run'']" "reads (js ''  --review'') [js ''--review'']"
  "reads (js ''  --wait=false'') [js ''--wait=false'']"
proof -
  have "reads (js ''factory'' @ 32 # js ''run'') [js ''factory'', js ''run'']"
    by (rule reads_shell_words) (simp_all add: js_Cons plain_unit_def is_alpha_def)
  then show "reads (js ''factory run'') [js ''factory'', js ''run'']" by (simp add: js_Cons)
  have "reads (32 # 32 # js ''--review'') [js ''--review'']" "reads (32 # 32 # js ''--wait=false'') [js ''--wait=false'']"
    by (rule reads_option; simp add: js_Cons plain_unit_def is_alpha_def)+
  then show "reads (js ''  --review'') [js ''--review'']" "reads (js ''  --wait=false'') [js ''--wait=false'']"
    by (simp_all add: js_Cons)
qed

lemma arguments_eta: "arguments f \<lparr>eff_scope = eff_scope e, eff_harness = eff_harness e, eff_profile = eff_profile e\<rparr> = arguments f e"
  by (simp add: arguments_def)

lemma command_reads: "shell_words (workflow_command f scope harness profile)
    = Some (arguments f \<lparr>eff_scope = scope, eff_harness = harness, eff_profile = profile\<rparr>)"
proof -
  have lines: "list_all2 reads (command_lines f scope harness profile)
     ([[js ''factory'', js ''run''], [js ''--'' @ js ''repo'', fm_repository f], [js ''--'' @ js ''rev'', fm_revision f]]
      @ option_lists ''task'' (Str (trim (fm_task f))) @ option_lists ''agent'' harness @ option_lists ''verification'' profile @ option_lists ''scope'' scope
      @ option_lists ''model'' (Str (fm_model f)) @ option_lists ''egress'' (Str (fm_egress f)) @ option_lists ''workspace'' (Str (fm_workspace f))
      @ (if fm_review f then [[js ''--review'']] else []) @ (if fm_wait f then [] else [[js ''--wait=false'']]))"
    unfolding command_lines_def
    using reads_flag [OF plain_options(1), of "Str (fm_repository f)"] reads_flag [OF plain_options(2), of "Str (fm_revision f)"]
    by (intro list_all2_appendI reads_flag_if plain_options) (simp_all add: reads_fixed)
  have "command_lines f scope harness profile \<noteq> []" by (simp add: command_lines_def)
  from read_lines [OF this lines] show ?thesis
    by (simp add: workflow_command_def arguments_def js_Cons)
qed

text \<open>C37: The generated command says exactly what the form says. Whatever the task, the
  repository and the other fields contain (quotes, dollar signs, newlines, leading dashes), a
  shell reads the command as the argument list of the request: nothing is expanded, no
  field ends its word, and no second command follows.\<close>

theorem command_says_what_was_asked:
  "shell_words (generated data f) = Some (arguments f (effective data f))"
  by (simp add: generated_def command_reads arguments_eta Let_def)


end
