(* ===== verification/Console_Portfolio.thy ===== *)
theory Console_Portfolio imports Console_Lists begin

text \<open>
  The change portfolio (\<open>pages/changes.jsx\<close>) and the review queue (\<open>pages/reviews.jsx\<close>), with
  the pieces of \<open>components/flows\<close> they are built of: the metric rail, the status chips, the
  notice, the error panel, the refresh control, the command row and the queue item. A render
  that throws, as \<open>encodeURIComponent\<close> does on a lone surrogate, is \<open>Invalid\<close>.
\<close>

section \<open>Shared pieces\<close>

record stat =
  st_label :: string
  st_value :: jstr
  st_tone :: jsval
  st_muted :: bool
  st_sub :: jstr
  st_subtitle :: jsval
  st_hint :: jstr

definition stat_of :: "string \<Rightarrow> jstr \<Rightarrow> jstr \<Rightarrow> string \<Rightarrow> stat" where
  "stat_of l v sub hint = \<lparr>st_label = l, st_value = v, st_tone = Undef, st_muted = False, st_sub = sub,
     st_subtitle = Undef, st_hint = js hint\<rparr>"

definition stat_skeleton :: "nat \<Rightarrow> view" where
  "stat_skeleton n = Node ''Card'' [(''role'', lit ''status''), (''aria-label'', lit ''Loading summary metrics'')]
     [tag ''div'' (replicate n (tag ''div'' [tag ''div'' [], tag ''div'' []]))]"

text \<open>The colour of a value: muted, that of its tone, or the foreground.\<close>

definition stat_class :: "stat \<Rightarrow> jstr" where
  "stat_class s = (if st_muted s then js ''text-muted-foreground''
     else case table_get TONE_TEXT (st_tone s) of Some c \<Rightarrow> c | None \<Rightarrow> js ''text-foreground'')"

definition stat_box :: "stat \<Rightarrow> view \<Rightarrow> view" where
  "stat_box s v = tag ''div''
     [tag ''div'' [Node ''p'' [(''title'', js_or (Str (st_hint s)) Undef)] [label (st_label s)]],
      Node ''div'' [(''color'', Str (stat_class s))] [tag ''span'' [v]],
      shown_if (st_sub s \<noteq> []) (Node ''p'' [(''title'', js_or (st_subtitle s) Undef)] [Text (st_sub s)])]"

definition stat_cell :: "stat \<Rightarrow> view" where "stat_cell s = stat_box s (Text (st_value s))"

definition stat_panel :: "string \<Rightarrow> view list \<Rightarrow> view" where
  "stat_panel l vs = Node ''Card'' [(''as'', lit ''section''), (''aria-label'', js_or (lit l) (lit ''Summary metrics'')),
     (''role'', lit ''region'')] [tag ''div'' vs]"

definition stat_strip :: "string \<Rightarrow> stat list \<Rightarrow> view" where "stat_strip l ss = stat_panel l (map stat_cell ss)"

record chip_option =
  co_value :: jstr
  co_label :: jstr
  co_count :: jnum
  co_tone :: jstr

definition chip_disabled :: "jstr list \<Rightarrow> chip_option \<Rightarrow> bool" where
  "chip_disabled selected o' \<longleftrightarrow> co_value o' \<notin> set selected \<and> co_count o' = num_int 0"

definition facet_chip :: "jstr list \<Rightarrow> chip_option \<Rightarrow> view" where
  "facet_chip selected o' = Node ''button''
     [(''type'', lit ''button''), (''aria-pressed'', JBool (co_value o' \<in> set selected)),
      (''disabled'', JBool (chip_disabled selected o')),
      (''title'', if chip_disabled selected o' then lit ''No records with this value in the current window.''
         else Str (co_label o' @ js '': '' @ num_text (co_count o')))]
     [Node ''StatusDot'' [(''tone'', js_or (Str (co_tone o')) (lit ''muted''))] [], tag ''span'' [Text (co_label o')],
      tag ''span'' [Text (num_text (co_count o'))]]"

definition facet_chips :: "string \<Rightarrow> chip_option list \<Rightarrow> jstr list \<Rightarrow> view" where
  "facet_chips l os selected = Node ''div'' [(''role'', lit ''group''), (''aria-label'', lit l)] (map (facet_chip selected) os)"

definition notice_tone :: "jsval \<Rightarrow> jsval" where
  "notice_tone t = (if table_get TONE_TEXT t \<noteq> None then t else lit ''warning'')"

definition notice :: "string \<Rightarrow> string \<Rightarrow> view list \<Rightarrow> view" where
  "notice t title body = Node ''div'' [(''role'', lit ''note''), (''tone'', notice_tone (lit t))]
     [tag ''div'' [shown_if (title \<noteq> []) (tag ''p'' [label title]), shown_if (body \<noteq> []) (tag ''div'' body)]]"

text \<open>The network error of the API client has the code "network" and no status.\<close>

definition error_status_text :: "jsval \<Rightarrow> jsval \<Rightarrow> jstr" where
  "error_status_text st ec = (if truthy st then js ''HTTP '' @ to_str st
     else if ec = lit ''network'' then js ''Network error'' else [])"

definition status_val :: "request_error \<Rightarrow> jsval" where
  "status_val e = (case e of Api a \<Rightarrow> int_val (int (api_status a)) | _ \<Rightarrow> Undef)"

definition code_val :: "request_error \<Rightarrow> jsval" where
  "code_val e = (case e of Api a \<Rightarrow> Str (api_code a) | _ \<Rightarrow> Undef)"

definition error_panel :: "request_error \<Rightarrow> string \<Rightarrow> string \<Rightarrow> bool \<Rightarrow> view" where
  "error_panel e title retry_label can_retry = (let m = Str (error_message e); st = status_val e; ec = code_val e in Node ''Card'' [(''role'', lit ''alert'')]
     [tag ''div'' [tag ''p'' [label title],
        tag ''p'' [child (js_or m (lit ''The console did not return a response.''))],
        tag ''div'' [shown_if (error_status_text st ec \<noteq> []) (Node ''Badge'' [(''variant'', lit ''muted'')] [Text (error_status_text st ec)]),
          shown_if (truthy ec) (tag ''span'' [child ec])]],
      shown_if can_retry (button [] retry_label)])"

definition refresh_control :: "clock \<Rightarrow> jnum \<Rightarrow> jsval \<Rightarrow> bool \<Rightarrow> view" where
  "refresh_control ck now updated_at loading = tag ''div''
     [tag ''span'' [Text (if truthy updated_at then js ''Updated '' @ time_ago ck now updated_at else js ''Not yet refreshed'')],
      button [(''aria-label'', lit ''Refresh this view''), (''aria-busy'', if loading then JBool True else Undef)] ''Refresh'']"

definition command_row :: "string \<Rightarrow> jsval \<Rightarrow> string \<Rightarrow> jsval \<Rightarrow> view" where
  "command_row l cmd t hint = Node ''div'' [(''tone'', if table_get TONE_TEXT (lit t) \<noteq> None then lit t else lit ''muted'')]
     [tag ''div'' [tag ''p'' [label l],
        if truthy cmd then Node ''code'' [(''title'', cmd)] [child cmd] else tag ''p'' [label ''Command not reported''],
        shown_if (truthy hint) (tag ''p'' [child hint])],
      shown_if (truthy cmd) (Node ''CopyButton'' [(''value'', cmd), (''label'', lit l)] [])]"

record definition_row =
  dr_label :: string
  dr_value :: view
  dr_title :: jsval
  dr_copy :: jsval

definition definition_list :: "definition_row list \<Rightarrow> view" where
  "definition_list rs = tag ''dl'' (map (\<lambda>r. tag ''div'' [tag ''dt'' [label (dr_label r)],
     Node ''dd'' [(''title'', js_or (dr_title r) Undef)] [tag ''span'' [dr_value r],
       shown_if (truthy (dr_copy r)) (Node ''CopyButton'' [(''value'', dr_copy r), (''label'', lit (dr_label r))] [])]]) rs)"

section \<open>The change portfolio\<close>

definition CHANGE_SORT_OPTIONS :: "choice list" where
  "CHANGE_SORT_OPTIONS = map (\<lambda>(v, l). \<lparr>c_value = lit v, c_label = lit l\<rparr>)
     [(''-updated_at'', ''Recently updated''), (''+updated_at'', ''Least recently updated''), (''-created_at'', ''Newest created''),
      (''+created_at'', ''Oldest created''), (''-attempts'', ''Most attempts''), (''+attempts'', ''Fewest attempts'')]"

definition COLUMNS :: int where "COLUMNS = 9"

record change_filters =
  cf_query :: jstr
  cf_statuses :: "jstr list"
  cf_repository :: jstr
  cf_scope :: jstr
  cf_sort :: jstr
  cf_limit :: jnum

definition initial_filters :: change_filters where
  "initial_filters = \<lparr>cf_query = [], cf_statuses = [], cf_repository = [], cf_scope = [], cf_sort = js ''-updated_at'',
     cf_limit = num_int 25\<rparr>"

text \<open>\<open>dq\<close> is the debounced query, \<open>w\<close> the window of the workspace.\<close>

definition change_filter_key :: "jstr \<Rightarrow> jsval \<Rightarrow> change_filters \<Rightarrow> jstr" where
  "change_filter_key dq w f = join_with [124] [dq, join_with [44] (cf_statuses f), cf_repository f, cf_scope f, cf_sort f,
     num_to_string (cf_limit f), to_str w]"

definition change_params :: "jstr \<Rightarrow> jsval \<Rightarrow> change_filters \<Rightarrow> pager \<Rightarrow> (jstr \<times> jsval) list" where
  "change_params dq w f p = [(js ''window'', w), (js ''query'', Str dq), (js ''status'', Arr (map Str (cf_statuses f))),
     (js ''repository'', Str (cf_repository f)), (js ''scope'', Str (cf_scope f)), (js ''sort'', Str (cf_sort f)),
     (js ''limit'', Num (cf_limit f)), (js ''cursor'', Str (p_cursor (current_pager (change_filter_key dq w f) p)))]"

definition toggle_status :: "jstr \<Rightarrow> change_filters \<Rightarrow> change_filters" where
  "toggle_status v f = f\<lparr>cf_statuses := (if v \<in> set (cf_statuses f) then filter (\<lambda>x. x \<noteq> v) (cf_statuses f)
     else cf_statuses f @ [v])\<rparr>"

definition clear_change_filters :: "change_filters \<Rightarrow> change_filters" where
  "clear_change_filters f = f\<lparr>cf_query := [], cf_statuses := [], cf_repository := [], cf_scope := []\<rparr>"

definition filters_active :: "jstr \<Rightarrow> change_filters \<Rightarrow> bool" where
  "filters_active dq f \<longleftrightarrow> dq \<noteq> [] \<or> cf_statuses f \<noteq> [] \<or> cf_repository f \<noteq> [] \<or> cf_scope f \<noteq> []"

definition page_total :: "jsval \<Rightarrow> jnum" where
  "page_total data = num_or_0 (opt_get (opt_get data ''page'') ''total'')"

definition page_count :: "jnum \<Rightarrow> jnum \<Rightarrow> jnum" where
  "page_count n per_page = num_max (num_int 1) (math_ceil (num_div n per_page))"

definition status_counts :: "jsval \<Rightarrow> (jstr \<times> jnum) list" where
  "status_counts data = facet_map (opt_get data ''facets'') ''statuses''"

text \<open>\<open>statusCounts.get(value) || 0\<close>; no count of the map is \<open>NaN\<close>.\<close>

definition status_count :: "jsval \<Rightarrow> string \<Rightarrow> jnum" where
  "status_count data st = (case map_of (status_counts data) (js st) of Some n \<Rightarrow> n | None \<Rightarrow> num_int 0)"

definition status_options :: "jsval \<Rightarrow> chip_option list" where
  "status_options data = map (\<lambda>v. \<lparr>co_value = v, co_label = change_status_label (Str v),
     co_count = (case map_of (status_counts data) v of Some n \<Rightarrow> n | None \<Rightarrow> num_int 0),
     co_tone = change_status_tone (Str v)\<rparr>) CHANGE_STATUS_ORDER"

definition counted_options :: "(jstr \<Rightarrow> jstr \<Rightarrow> int) \<Rightarrow> jsval \<Rightarrow> string \<Rightarrow> string \<Rightarrow> choice list" where
  "counted_options lc data k all_label = \<lparr>c_value = Str [], c_label = lit all_label\<rparr> #
     map (\<lambda>(v, n). \<lparr>c_value = Str v, c_label = Str (v @ js '' ('' @ num_text n @ js '')'')\<rparr>)
       (facet_options lc (opt_get data ''facets'') k)"

definition repository_options :: "(jstr \<Rightarrow> jstr \<Rightarrow> int) \<Rightarrow> jsval \<Rightarrow> choice list" where
  "repository_options lc data = counted_options lc data ''repositories'' ''All repositories''"

definition scope_options :: "(jstr \<Rightarrow> jstr \<Rightarrow> int) \<Rightarrow> jsval \<Rightarrow> choice list" where
  "scope_options lc data = counted_options lc data ''scopes'' ''All scopes''"

definition count_noun :: "jnum \<Rightarrow> string \<Rightarrow> jstr" where
  "count_noun n s = pluralize (Num n) (js s) (js s @ [115])"

definition change_stats :: "jsval \<Rightarrow> jsval \<Rightarrow> stat list" where
  "change_stats data w =
     (let changes = as_list (opt_get data ''changes''); sp = page_spend (opt_get data ''changes'');
          abandoned = status_count data ''ABANDONED'' in
      [stat_of ''Changes in view'' (num_text (page_total data)) (window_label w)
         ''Changes whose last update falls inside the selected window, after every active filter.'',
       (stat_of ''In review'' (num_text (status_count data ''IN_REVIEW'')) (js ''awaiting decision'')
         ''Status facet count for the window and search, across all repositories and scopes.'')\<lparr>st_tone := lit ''warning''\<rparr>,
       (stat_of ''In progress'' (num_text (status_count data ''OPEN'')) (js ''status OPEN'')
         ''Changes that are still open for execution or rework.'')\<lparr>st_tone := lit ''info''\<rparr>,
       (stat_of ''Approved'' (num_text (status_count data ''DONE'')) (js ''status DONE'')
         ''Changes that reached the approved terminal state.'')\<lparr>st_tone := lit ''success''\<rparr>,
       (stat_of ''Abandoned'' (num_text abandoned)
         (js (if abandoned = num_int 0 then ''none in window'' else ''closed without decision''))
         ''Changes abandoned before approval.'')\<lparr>st_muted := (abandoned = num_int 0)\<rparr>,
       (stat_of ''Page tokens'' (if positive (tokens sp) then tokens_compact_label sp else not_reported)
         (count_noun (num_int (int (length changes))) ''change'' @ js '' loaded'')
         ''Sum of total_tokens over the changes on this page. Zero means the artifacts did not report token usage, not that usage was zero.'')
         \<lparr>st_muted := (tokens sp = num_int 0)\<rparr>,
       (stat_of ''Page cost'' (cost_label sp) (js ''reported cost only'')
         ''Sum of total_cost_usd over the changes on this page. The console never estimates cost.'')
         \<lparr>st_muted := \<not> reported sp\<rparr>])"

definition spend_cell :: "spend \<Rightarrow> view" where
  "spend_cell sp = (if \<not> reported sp then tag ''span'' [label ''Not reported'']
     else tag ''div'' [tag ''span'' [Text (if positive (tokens sp) then format_number False dash (Num (tokens sp)) @ js '' tok''
         else js ''tokens not reported'')],
       tag ''span'' [Text (cost_label sp)]])"

definition change_row :: "clock \<Rightarrow> jnum \<Rightarrow> jsval \<Rightarrow> view" where
  "change_row ck now c = (case encode_uri (to_str (opt_get c ''change_id'')) of None \<Rightarrow> Invalid
     | Some i \<Rightarrow> (let review = review_state_meta c; preview = truncate_text 92 (opt_get c ''task_preview'') in
      tag ''TR''
       [tag ''TD'' [tag ''div'' [tag ''div''
          [Node ''a'' [(''href'', Str (js ''#/changes/'' @ i)), (''title'', opt_get c ''change_id''),
             (''aria-label'', Str (js ''Open change '' @ to_str (opt_get c ''change_id'')))] [child (opt_get c ''change_id'')],
           shown_if (\<not> truthy (opt_get c ''has_evidence''))
             (Node ''span'' [(''title'', lit ''No retained run evidence for this change'')] [])],
          shown_if (preview \<noteq> []) (Node ''p'' [(''title'', opt_get c ''task_preview'')] [Text preview])]],
        tag ''TD'' [Node ''StatusPill'' [(''kind'', lit ''change''), (''state'', opt_get c ''status'')] []],
        tag ''TD'' [tag ''div'' [Node ''span'' [(''title'', opt_get c ''repository'')] [Text (repo_label (opt_get c ''repository''))],
          tag ''span'' [child (js_or (opt_get c ''scope'') (lit ''no scope''))]]],
        Node ''TD'' [(''numeric'', JBool True), (''muted'', JBool (\<not> truthy (opt_get c ''attempts''))),
          (''title'', lit ''Recorded activation attempts'')] [Text (format_number False dash (opt_get c ''attempts''))],
        tag ''TD'' [if truthy (opt_get c ''last_result'')
          then Node ''StatusPill'' [(''kind'', lit ''run''), (''state'', opt_get c ''last_result'')] []
          else tag ''span'' [label ''No runs'']],
        Node ''TD'' [(''numeric'', JBool True)] [spend_cell (change_spend c)],
        Node ''TD'' [(''muted'', JBool True)] [Node ''span'' [(''title'', Str (format_date_time ck dash (opt_get c ''updated_at'')))]
          [Text (time_ago ck now (opt_get c ''updated_at''))]],
        tag ''TD'' [Node ''Badge'' [(''variant'', Str (m_tone review)), (''title'', m_detail review)] [Text (m_label review)]],
        tag ''TD'' []]))"

definition dot_sep :: view where "dot_sep = Node ''span'' [(''aria-hidden'', lit ''true'')] [Text middot]"

definition changes_header :: "clock \<Rightarrow> jnum \<Rightarrow> jsval \<Rightarrow> jsval \<Rightarrow> bool \<Rightarrow> jsval \<Rightarrow> bool \<Rightarrow> view" where
  "changes_header ck now w data loading updated_at auto = Node ''PageHeader''
     [(''eyebrow'', lit ''Factory''), (''title'', lit ''Changes''),
      (''description'', lit ''Durable work items with their attempts, aggregate spend and review state. Open a change to inspect its activation runs and retained evidence.'')]
     [slot ''actions'' [Node ''Button'' [(''href'', lit ''#/reviews'')] [label ''Review queue''],
        refresh_control ck now (js_or (opt_get data ''generated_at'') updated_at) loading],
      slot ''meta'' [Node ''Badge'' [(''variant'', lit ''muted'')] [label ''Window: '', Text (window_label w)],
        tag ''span'' [Text (if truthy data then count_noun (page_total data) ''change'' @ [32]
            @ js (if to_num (opt_get (opt_get data ''page'') ''total'') = num_int 1 then ''matches'' else ''match'')
          else js ''Loading changes'' @ ellipsis)],
        dot_sep, tag ''span'' [label (if auto then ''Auto-refresh every 30s'' else ''Auto-refresh paused'')]]]"

definition changes_toolbar :: "(jstr \<Rightarrow> jstr \<Rightarrow> int) \<Rightarrow> jsval \<Rightarrow> change_filters \<Rightarrow> view" where
  "changes_toolbar lc data f = tag ''div''
     [Node ''SearchInput'' [(''value'', Str (cf_query f)),
        (''placeholder'', Str (js ''Search changes by ID, task or repository'' @ ellipsis))] [],
      Node ''span'' [(''aria-hidden'', lit ''true'')] [],
      facet_chips ''Filter by change status'' (status_options data) (cf_statuses f),
      tag ''div'' (map (\<lambda>(l, v, cs). Node ''Select'' [(''ariaLabel'', lit l), (''value'', Str v), (''options'', Arr (map choice_val cs))] [])
        [(''Filter by repository'', cf_repository f, repository_options lc data),
         (''Filter by scope'', cf_scope f, scope_options lc data), (''Sort changes'', cf_sort f, CHANGE_SORT_OPTIONS)])]"

definition active_summary :: "jstr \<Rightarrow> jsval \<Rightarrow> change_filters \<Rightarrow> view" where
  "active_summary dq data f = (let dot = middot @ [32] in tag ''div''
     [tag ''span'' [Text (count_noun (page_total data) ''change'' @ js '' match these filters'')],
      shown_if (cf_statuses f \<noteq> []) (tag ''span'' [Text (dot @ join_with (js '', '') (map (\<lambda>s. change_status_label (Str s)) (cf_statuses f)))]),
      shown_if (cf_repository f \<noteq> []) (Node ''span'' [(''title'', Str (cf_repository f))] [Text (dot @ repo_label (Str (cf_repository f)))]),
      shown_if (cf_scope f \<noteq> []) (tag ''span'' [Text (dot @ js ''scope '' @ cf_scope f)]),
      shown_if (dq \<noteq> []) (tag ''span'' [Text (dot @ quoted dq)]),
      button [] ''Clear filters''])"

definition changes_empty :: "bool \<Rightarrow> view" where
  "changes_empty active = Node ''TableEmpty'' [(''colSpan'', int_val COLUMNS),
      (''title'', lit (if active then ''No changes match these filters'' else ''No changes recorded in this window'')),
      (''description'', lit (if active
         then ''Broaden the search, clear the status, repository or scope filters, or widen the window in the top bar.''
         else ''The artifact store has no changes whose last update falls inside the selected window.''))]
     [slot ''action'' [if active then button [] ''Clear filters''
        else tag ''div'' [button [] ''Search all time'', Node ''Button'' [(''href'', lit ''#/reviews'')] [label ''Open review queue'']]]]"

definition changes_head :: view where
  "changes_head = tag ''THead'' [tag ''TR'' (map (\<lambda>l. tag ''TH'' [label l])
     [''Change'', ''Status'', ''Repository'', ''Attempts'', ''Last result'', ''Spend'', ''Updated'', ''Review'']
     @ [tag ''TH'' [tag ''span'' [label ''Open change'']]])]"

definition changes_table :: "clock \<Rightarrow> jnum \<Rightarrow> jsval \<Rightarrow> bool \<Rightarrow> bool \<Rightarrow> view" where
  "changes_table ck now data loading active = (let cs = as_list (opt_get data ''changes'') in
     Node ''div'' [(''aria-busy'', if loading then JBool True else Undef)]
       [tag ''Table'' [changes_head, tag ''tbody''
          (if cs = [] then [changes_empty active] else map (change_row ck now) cs)]])"

definition changes_footer :: "jstr \<Rightarrow> jsval \<Rightarrow> jsval \<Rightarrow> bool \<Rightarrow> change_filters \<Rightarrow> pager \<Rightarrow> view" where
  "changes_footer dq w data loading f p = (let k = change_filter_key dq w f; page = opt_get data ''page'' in
     pagination \<lparr>pg_page = page, pg_item_count = int_val (int (length (as_list (opt_get data ''changes'')))),
       pg_noun = js ''changes'', pg_index = page_index k p, pg_count = page_count (page_total data) (cf_limit f),
       pg_range_text = [], pg_size = Num (cf_limit f), pg_size_options = Some PAGE_SIZE_OPTIONS,
       pg_prev_disabled = (\<not> can_prev k p), pg_next_disabled = (\<not> truthy (opt_get page ''next_cursor'')), pg_loading = loading\<rparr> [])"

definition refresh_failed :: "request_error option \<Rightarrow> jsval \<Rightarrow> jstr \<Rightarrow> view" where
  "refresh_failed err_opt data tail = (case err_opt of None \<Rightarrow> Blank
     | Some e \<Rightarrow> shown_if (truthy data) (tag ''div'' [notice ''warning'' ''Refresh failed'' [Text (error_message e @ tail)]]))"

definition changes_page :: "(jstr \<Rightarrow> jstr \<Rightarrow> int) \<Rightarrow> clock \<Rightarrow> jnum \<Rightarrow> jsval \<Rightarrow> jsval \<Rightarrow> request_error option \<Rightarrow> bool \<Rightarrow> jsval \<Rightarrow> bool
    \<Rightarrow> jstr \<Rightarrow> change_filters \<Rightarrow> pager \<Rightarrow> view" where
  "changes_page lc ck now w data err_opt loading updated_at auto dq f p =
     (let initial = loading \<and> \<not> truthy data; active = filters_active dq f in
      tag ''div'' [changes_header ck now w data loading updated_at auto,
        case (err_opt, truthy data) of
          (Some e, False) \<Rightarrow> error_panel e ''The change portfolio could not be loaded'' ''Retry'' True
        | _ \<Rightarrow> tag ''div''
           [if initial then stat_skeleton 7 else stat_strip ''Change portfolio summary'' (change_stats data w),
            tag ''Card'' [changes_toolbar lc data f, shown_if active (active_summary dq data f),
              refresh_failed err_opt data (js '' Showing evidence generated ''
                @ (if truthy (opt_get data ''generated_at'') then time_ago ck now (opt_get data ''generated_at'') else js ''recently'') @ js ''.''),
              if initial then Node ''TableSkeleton'' [(''rows'', int_val 8), (''columns'', int_val 8)] []
              else changes_table ck now data loading active,
              changes_footer dq w data loading f p],
            tag ''p'' [label ''Evidence source: changes/*.json in the durable artifact store. Status chips count every change in the selected window and search across all repositories and scopes; token and cost figures cover the changes loaded on this page and are never estimated.'']]])"

section \<open>The review queue\<close>

definition REVIEW_PAGE_SIZE :: int where "REVIEW_PAGE_SIZE = 25"

definition review_params :: "string \<Rightarrow> pager \<Rightarrow> (jstr \<times> jsval) list" where
  "review_params kind p = [(js ''limit'', int_val REVIEW_PAGE_SIZE), (js ''cursor'', Str (p_cursor (current_pager (js kind) p)))]"

definition queue_skeleton :: "nat \<Rightarrow> view" where
  "queue_skeleton n = (let bars = \<lambda>k. tag ''div'' (replicate k (tag ''div'' [])) in
     Node ''div'' [(''role'', lit ''status''), (''aria-label'', lit ''Loading review queue'')]
       (replicate n (tag ''div'' [tag ''div'' [bars 2, bars 3, bars 2]])))"

definition item_key :: "jsval \<Rightarrow> nat \<Rightarrow> jstr" where
  "item_key i n = (let k = join_with [58] (map to_str (filter truthy
       [opt_get i ''kind'', opt_get (opt_get i ''change'') ''change_id'', opt_get (opt_get i ''run'') ''run_id'',
        opt_get i ''waiting_since''])) in
     if k = [] then js ''item-'' @ dec_nat n else k)"

text \<open>What the page derives from the answer.\<close>

definition review_items :: "jsval \<Rightarrow> jsval list" where "review_items data = as_list (opt_get data ''items'')"
definition count_all :: "jsval \<Rightarrow> jnum" where "count_all data = num_or_0 (opt_get data ''total'')"
definition count_in_review :: "jsval \<Rightarrow> jnum" where "count_in_review data = num_or_0 (opt_get data ''pending_review'')"
definition count_paused :: "jsval \<Rightarrow> jnum" where "count_paused data = num_or_0 (opt_get data ''paused_runs'')"
definition live_available :: "jsval \<Rightarrow> bool" where "live_available data = truthy (opt_get data ''live_available'')"
definition unknown_live :: "jsval \<Rightarrow> jnum" where "unknown_live data = num_or_0 (opt_get data ''unknown_live_runs'')"

definition wanted_kind :: "string \<Rightarrow> string" where
  "wanted_kind kind = (if kind = ''paused'' then ''paused_run'' else kind)"

definition filtered_items :: "string \<Rightarrow> jsval \<Rightarrow> jsval list" where
  "filtered_items kind data = (if kind = ''all'' then review_items data
     else filter (\<lambda>i. opt_get i ''kind'' = lit (wanted_kind kind)) (review_items data))"

definition filter_count :: "string \<Rightarrow> jsval \<Rightarrow> jnum" where
  "filter_count kind data = (if kind = ''in_review'' then count_in_review data else count_paused data)"

definition coverage_known :: "jsval \<Rightarrow> bool" where
  "coverage_known data \<longleftrightarrow> live_available data \<and> unknown_live data = num_int 0"

definition review_stats :: "clock \<Rightarrow> jsval \<Rightarrow> nat \<Rightarrow> stat list" where
  "review_stats ck data page_no =
     (let paused = count_paused data; live = live_available data; unknown = (unknown_live data \<noteq> num_int 0);
          oldest = queue_oldest (opt_get data ''items'') in
      [stat_of ''Queue depth'' (num_text (count_all data)) (count_noun (count_all data) ''item'' @ js '' awaiting a decision'')
         ''Every in-review change plus every paused run reported by the review index.'',
       (stat_of ''Changes in review'' (num_text (count_in_review data)) (js ''status IN_REVIEW'')
         ''Durable change records whose status is IN_REVIEW.'')\<lparr>st_tone := lit ''warning''\<rparr>,
       (stat_of ''Paused live runs'' (num_text paused) (js (if live then ''live orchestration'' else ''live feed unavailable''))
         ''Runs paused in the live workflow engine. Zero while the live feed is unavailable means unknown, not verified clear.'')
         \<lparr>st_tone := lit (if paused \<noteq> num_int 0 then ''info'' else ''muted''), st_muted := (paused = num_int 0)\<rparr>,
       (case oldest of
          None \<Rightarrow> (stat_of (if 1 < page_no then ''Oldest on this page'' else ''Oldest waiting'') em_dash (js ''no items loaded'')
            ''Waiting time is measured from the recorded waiting_since timestamp and the review index clock.'')
            \<lparr>st_tone := lit ''muted'', st_muted := True\<rparr>
        | Some i \<Rightarrow> (stat_of (if 1 < page_no then ''Oldest on this page'' else ''Oldest waiting'')
            (format_duration dash (opt_get i ''waiting_ms''))
            (js ''since '' @ format_date_time ck dash (opt_get i ''waiting_since''))
            ''Waiting time is measured from the recorded waiting_since timestamp and the review index clock.'')
            \<lparr>st_tone := Str (waiting_tone (opt_get i ''waiting_ms'')), st_subtitle := opt_get i ''waiting_since''\<rparr>),
       (stat_of ''Live feed'' (if \<not> truthy data then em_dash else js (if live then if unknown then ''Partial'' else ''Available'' else ''Unavailable''))
         (js (if live then if unknown then ''some run states unknown'' else ''paused runs included'' else ''durable records only''))
         ''Whether the console could query live orchestration state. Unavailable means paused runs may be missing from this queue.'')
         \<lparr>st_tone := lit (if unknown then ''warning'' else if live then ''success'' else ''muted''), st_muted := \<not> live\<rparr>])"

definition review_tabs :: "jsval \<Rightarrow> (string \<times> string \<times> jnum) list" where
  "review_tabs data = [(''all'', ''All'', count_all data), (''in_review'', ''In review'', count_in_review data),
     (''paused'', ''Paused runs'', count_paused data)]"

definition review_range :: "string \<Rightarrow> jsval \<Rightarrow> jstr" where
  "review_range kind data =
     (let n = num_int (int (length (review_items data))); offset = num_or_0 (opt_get (opt_get data ''page'') ''offset'') in
      if \<not> truthy data then []
      else if kind = ''all'' then
        (if review_items data = [] then js ''0 review items''
         else num_text (num_add offset (num_int 1)) @ en_dash @ num_text (num_add offset n) @ js '' of ''
           @ num_text (count_all data) @ js '' review items'')
      else num_text (num_int (int (length (filtered_items kind data)))) @ js '' of '' @ num_text n @ js '' on this page ''
        @ middot @ [32] @ num_text (filter_count kind data) @ [32]
        @ js (if kind = ''in_review'' then ''in review'' else ''paused'') @ js '' in queue'')"

definition live_sandbox :: "jsval \<Rightarrow> view" where
  "live_sandbox live = (if truthy (opt_get live ''sandbox_destroyed'') then label ''Sandbox already destroyed.''
     else if truthy (opt_get live ''sandbox_id'') then
       fragment [label ''Sandbox '', tag ''span'' [child (opt_get live ''sandbox_id'')], label ''.'']
     else Blank)"

definition preview_link :: "jsval \<Rightarrow> view" where
  "preview_link v = Node ''a'' [(''href'', js_or (opt_get v ''url'') (lit ''#'')), (''target'', lit ''_blank''),
      (''rel'', lit ''noreferrer noopener''),
      (''title'', lit ''Run-provided preview link; it may not be reachable from this browser.'')]
     [label ''Preview'', Text (if truthy (opt_get v ''port'') then js '' :'' @ to_str (opt_get v ''port'') else [])]"

text \<open>A link to a detail page: empty without an id, \<open>None\<close> where encoding throws.\<close>

definition detail_href :: "string \<Rightarrow> jsval \<Rightarrow> jstr option" where
  "detail_href path i = (if truthy i then map_option (\<lambda>t. js path @ t) (encode_uri (to_str i)) else Some [])"

definition queue_badges :: "jsval \<Rightarrow> jsval \<Rightarrow> jsval \<Rightarrow> jsval \<Rightarrow> jsval \<Rightarrow> view" where
  "queue_badges i run live scope harness = tag ''div''
     [Node ''Badge'' [(''variant'', lit (if opt_get i ''kind'' = lit ''paused_run'' then ''info'' else ''warning''))]
        [Text (fst (review_kind_meta (opt_get i ''kind'')))],
      if truthy (opt_get run ''factory_result'')
        then Node ''StatusPill'' [(''kind'', lit ''run''), (''state'', opt_get run ''factory_result''), (''size'', lit ''xs'')] []
        else Node ''Badge'' [(''variant'', lit ''muted'')] [label ''Run evidence unavailable''],
      shown_if (truthy live) (Node ''Badge'' [(''variant'', lit ''info'')] [label ''Live orchestration'']),
      shown_if (truthy scope) (Node ''Badge'' [(''variant'', lit ''outline''), (''title'', lit ''Factory scope'')] [label ''scope '', child scope]),
      shown_if (truthy harness) (tag ''span'' [label ''harness '', child harness]),
      shown_if (truthy run \<and> is_finite (to_num (opt_get run ''duration_ms'')))
        (tag ''span'' [label ''run '', Text (format_duration dash (opt_get run ''duration_ms''))])]"

definition queue_commands :: "jsval \<Rightarrow> view" where
  "queue_commands i = (if opt_get i ''actionable'' = JBool False then
       tag ''p'' [tag ''span'' [label ''No live gate.''], label '' '',
         child (js_or (opt_get i ''note'') (lit ''This durable record has no paused workflow to answer.''))]
     else fragment [command_row ''Approve'' (opt_get i ''approve_command'') ''success'' Undef,
       command_row ''Reject'' (opt_get i ''reject_command'') ''danger''
         (if opt_get i ''kind'' = lit ''in_review'' then Str (js ''Replace the '' @ ellipsis @ js '' placeholder with a decision note.'') else Undef)])"

definition live_line :: "jsval \<Rightarrow> view" where
  "live_line live = tag ''p''
     [shown_if (truthy (opt_get live ''current_step''))
        (fragment [label ''Current step '', tag ''span'' [child (opt_get live ''current_step'')], label ''. '']),
      shown_if (truthy (opt_get live ''state'')) (fragment [label ''State '', tag ''span'' [child (opt_get live ''state'')], label ''. '']),
      live_sandbox live,
      shown_if (truthy (opt_get live ''query_error'')) (tag ''span'' [label '' '', child (opt_get live ''query_error'')])]"

definition queue_links :: "jsval \<Rightarrow> jsval \<Rightarrow> jstr \<Rightarrow> jstr \<Rightarrow> view" where
  "queue_links change run_id change_href run_href = tag ''div''
     [if change_href \<noteq> [] then Node ''a'' [(''href'', Str change_href), (''title'', opt_get change ''change_id'')] [child (opt_get change ''change_id'')]
      else tag ''span'' [label ''No change record''],
      shown_if (run_href \<noteq> []) (Node ''a'' [(''href'', Str run_href), (''title'', run_id)] [label ''run '', child run_id])]"

definition queue_item :: "clock \<Rightarrow> jnum \<Rightarrow> bool \<Rightarrow> jsval \<Rightarrow> view" where
  "queue_item ck now is_oldest i =
     (let run = js_or (opt_get i ''run'') Null; change = js_or (opt_get i ''change'') Null; live = js_or (opt_get i ''live'') Null;
          repository = js_or (repository_of i) (js_or (opt_get live ''repository'') (Str []));
          scope = js_or (scope_of i) (js_or (opt_get live ''scope'') (Str [])); revision = revision_of i;
          harness = js_or (opt_get run ''agent_harness'') (js_or (opt_get live ''harness'') (Str []));
          previews = as_list (opt_get i ''previews'');
          run_id = js_or (opt_get run ''run_id'') (opt_get live ''run_id'') in
      case (detail_href ''#/changes/'' (opt_get change ''change_id''), detail_href ''#/runs/'' run_id) of
        (Some change_href, Some run_href) \<Rightarrow> Node ''Card'' [(''as'', lit ''li'')]
          [tag ''div'' [Node ''span'' [(''tone'', Str (waiting_tone (opt_get i ''waiting_ms''))),
               (''title'', Str (waiting_hint (opt_get i ''waiting_ms'')))] [Text (format_duration dash (opt_get i ''waiting_ms''))],
             shown_if is_oldest (Node ''Badge'' [(''variant'', lit ''warning'')] [label ''Oldest'']),
             tag ''div'' [tag ''p'' [label ''waiting time''], Node ''p'' [(''title'', Str (format_date_time ck dash (opt_get i ''waiting_since'')))]
               [label ''since '', Text (time_ago ck now (opt_get i ''waiting_since''))]]],
           tag ''div'' [queue_badges i run live scope harness, queue_links change run_id change_href run_href,
             tag ''p'' [Node ''span'' [(''title'', repository)] [Text (repo_label repository)],
               shown_if (truthy revision) (Node ''span'' [(''title'', revision)] [label ''rev '', Text (short_sha 7 revision)])],
             shown_if (truthy (opt_get i ''detail'')) (tag ''p'' [child (opt_get i ''detail'')]),
             shown_if (truthy live) (live_line live),
             shown_if (previews \<noteq> []) (tag ''div'' (map preview_link previews))],
           tag ''div'' [queue_commands i]]
      | _ \<Rightarrow> Invalid)"

definition queue_clear :: "bool \<Rightarrow> view" where
  "queue_clear known = Node ''EmptyState''
     [(''title'', lit (if known then ''The review queue is clear'' else ''No confirmed review items'')),
      (''description'', lit (if known
        then ''No change is awaiting a human decision and no live run is paused for review. New items appear here as soon as a run reaches its review gate.''
        else ''No durable change is awaiting a human decision. Some live run states could not be checked, so additional review gates may be waiting.''))]
     [slot ''action'' [tag ''div'' [Node ''Button'' [(''href'', lit ''#/changes'')] [label ''Browse changes''],
        Node ''Button'' [(''href'', lit ''#/runs'')] [label ''View runs'']]]]"

definition queue_page_empty :: view where
  "queue_page_empty = Node ''EmptyState'' [(''compact'', JBool True), (''title'', lit ''This page is empty''),
      (''description'', lit ''The queue changed while you were paging. Return to the first page to reload the oldest items.'')]
     [slot ''action'' [button [] ''Back to first page'']]"

definition queue_filter_empty :: "string \<Rightarrow> jsval \<Rightarrow> view" where
  "queue_filter_empty kind data =
     (let n = filter_count kind data; l = (if kind = ''paused'' then ''paused run'' else ''in-review change'');
          more = truthy (opt_get (opt_get data ''page'') ''next_cursor'') in
      Node ''EmptyState'' [(''compact'', JBool True),
        (''title'', lit (if kind = ''paused'' then ''No paused runs on this page'' else ''No in-review changes on this page'')),
        (''description'', Str (if num_lt (num_int 0) n
           then js ''The queue reports '' @ count_noun n l @ js ''. '' @ js (if more then ''Continue to the next page to find them.''
             else ''None of them fall on this page; return to the first page.'')
           else js ''No '' @ js l @ js '' is reported by the queue right now.''))]
       [slot ''action'' [tag ''div'' [button [] (if more then ''Next page'' else ''Back to first page''), button [] ''Show all'']]])"

text \<open>The list below the tabs. The queue counts as empty by its total, the page by its items.\<close>

definition queue_body :: "clock \<Rightarrow> jnum \<Rightarrow> string \<Rightarrow> jsval \<Rightarrow> bool \<Rightarrow> nat \<Rightarrow> view" where
  "queue_body ck now kind data loading page_no =
     (if loading \<and> \<not> truthy data then queue_skeleton 3
      else if \<not> truthy data then Blank
      else if count_all data = num_int 0 then queue_clear (coverage_known data)
      else if review_items data = [] then queue_page_empty
      else if filtered_items kind data = [] then queue_filter_empty kind data
      else Node ''ol'' [(''aria-label'', lit ''Review queue, oldest first'')]
        (map (\<lambda>(n, i). queue_item ck now (kind = ''all'' \<and> page_no = 1 \<and> n = 0) i) (enumerate 0 (filtered_items kind data))))"

definition queue_notices :: "clock \<Rightarrow> jnum \<Rightarrow> jsval \<Rightarrow> request_error option \<Rightarrow> view list" where
  "queue_notices ck now data err_opt =
     [shown_if (truthy data \<and> \<not> live_available data) (notice ''warning'' ''Live orchestration state unavailable''
        [label ''Paused live runs cannot be listed right now, so this queue shows durable change review records only. Treat the paused-run count as unknown rather than zero.'',
         shown_if (truthy (opt_get data ''live_error'')) (tag ''span'' [child (opt_get data ''live_error'')])]),
      shown_if (num_lt (num_int 0) (unknown_live data)) (notice ''warning'' ''Live review coverage is incomplete''
        [label ''Status is unknown for '', Text (count_noun (unknown_live data) ''live run''),
         label ''. Additional review gates may be waiting; the paused-run count includes confirmed gates only. Check the factory CLI before treating this queue as clear.'']),
      refresh_failed err_opt data (js '' Showing the last queue snapshot''
        @ (if truthy (opt_get data ''generated_at'') then js '' generated '' @ time_ago ck now (opt_get data ''generated_at'') else [])
        @ js ''.'')]"

definition reviews_header :: "clock \<Rightarrow> jnum \<Rightarrow> jsval \<Rightarrow> bool \<Rightarrow> jsval \<Rightarrow> bool \<Rightarrow> view" where
  "reviews_header ck now data loading updated_at auto = Node ''PageHeader''
     [(''eyebrow'', lit ''Factory''), (''title'', lit ''Reviews''),
      (''description'', lit ''Human decisions waiting in the factory. Waiting time is the lead metric; every decision is executed in the authenticated CLI and copied from here, never run by the console.'')]
     [slot ''actions'' [Node ''Button'' [(''href'', lit ''#/changes'')] [label ''Changes''],
        refresh_control ck now (js_or (opt_get data ''generated_at'') updated_at) loading],
      slot ''meta'' [Node ''Badge'' [(''variant'', lit ''muted'')] [label ''Oldest decision first''],
        tag ''span'' [Text (if truthy data then count_noun (count_all data) ''item'' @ js '' in queue'' else js ''Loading queue'' @ ellipsis)],
        shown_if (truthy data) (fragment [dot_sep, tag ''span'' [Text (num_text (count_in_review data) @ js '' in review'')],
          dot_sep, tag ''span'' [Text (num_text (count_paused data) @ js '' paused'')]]),
        dot_sep, tag ''span'' [label (if auto then ''Auto-refresh every 15s'' else ''Auto-refresh paused'')],
        shown_if (truthy (opt_get data ''generated_at'')) (fragment [dot_sep,
          Node ''span'' [(''title'', Str (format_date_time ck dash (opt_get data ''generated_at'')))]
            [label ''Generated '', Text (time_ago ck now (opt_get data ''generated_at''))]])]]"

definition reviews_footer :: "string \<Rightarrow> jsval \<Rightarrow> bool \<Rightarrow> pager \<Rightarrow> view" where
  "reviews_footer kind data loading p = pagination
     \<lparr>pg_page = opt_get data ''page'', pg_item_count = int_val (int (length (review_items data))), pg_noun = js ''review items'',
      pg_index = page_index (js kind) p, pg_count = page_count (count_all data) (num_int REVIEW_PAGE_SIZE),
      pg_range_text = review_range kind data, pg_size = Undef, pg_size_options = None,
      pg_prev_disabled = (\<not> can_prev (js kind) p),
      pg_next_disabled = (\<not> truthy (opt_get (opt_get data ''page'') ''next_cursor'')), pg_loading = loading\<rparr> []"

definition tab_val :: "string \<times> string \<times> jnum \<Rightarrow> jsval" where
  "tab_val t = (case t of (i, l, n) \<Rightarrow> Obj [(js ''id'', lit i), (js ''label'', lit l), (js ''count'', Num n)])"

definition reviews_page :: "clock \<Rightarrow> jnum \<Rightarrow> string \<Rightarrow> jsval \<Rightarrow> request_error option \<Rightarrow> bool \<Rightarrow> jsval \<Rightarrow> bool \<Rightarrow> pager \<Rightarrow> view" where
  "reviews_page ck now kind data err_opt loading updated_at auto p =
     (let page_no = page_index (js kind) p in
      tag ''div'' [reviews_header ck now data loading updated_at auto,
        case (err_opt, truthy data) of
          (Some e, False) \<Rightarrow> error_panel e ''The review queue could not be loaded'' ''Retry'' True
        | _ \<Rightarrow> tag ''div''
           ((if loading \<and> \<not> truthy data then stat_skeleton 5 else stat_strip ''Review queue summary'' (review_stats ck data page_no))
            # queue_notices ck now data err_opt @
            [tag ''Card''
              [tag ''div'' [Node ''Tabs'' [(''tabs'', Arr (map tab_val (review_tabs data))), (''value'', lit kind)] [],
                 tag ''div'' [tag ''span'' [label ''Oldest first'']]],
               shown_if (kind \<noteq> ''all'') (tag ''div''
                 [tag ''span'' [label ''Kind filter applies to the loaded page. Queue totals come from the review index and reset pagination to the first page.''],
                  button [] ''Show all'']),
               queue_body ck now kind data loading page_no,
               reviews_footer kind data loading p],
             tag ''p'' [label ''Evidence source: durable change records with status IN_REVIEW plus paused runs queried from live orchestration. Waiting time is measured from the recorded waiting_since timestamp; the console does not track SLAs or mutate state.'']])])"

end
