(* ===== verification/Console_Portfolio_Facts.thy ===== *)
theory Console_Portfolio_Facts imports Console_Portfolio begin

text \<open>
  What the change portfolio and the review queue promise: every changed filter starts at
  the first page, and the queue is called clear only when the console could check all of it.
\<close>

section \<open>The key of a filter set\<close>

lemma split_on_key_part: "split_on c (a @ c # b) = split_on c a @ split_on c b"
  by (induction a) (auto split: list.splits simp: append_eq_Cons_conv)

text \<open>The texts an operator picks from a menu hold no separator; the search text may.\<close>

definition plain_filters :: "jsval \<Rightarrow> change_filters \<Rightarrow> bool" where
  "plain_filters w f \<longleftrightarrow> list_all (\<lambda>s. s \<noteq> [] \<and> 44 \<notin> set s \<and> 124 \<notin> set s) (cf_statuses f) \<and> 124 \<notin> set (cf_repository f)
     \<and> 124 \<notin> set (cf_scope f) \<and> 124 \<notin> set (cf_sort f) \<and> 124 \<notin> set (num_to_string (cf_limit f)) \<and> 124 \<notin> set (to_str w)"

lemma join_set: "c \<in> set (join_with sep ws) \<Longrightarrow> c \<in> set sep \<or> (\<exists>w \<in> set ws. c \<in> set w)"
  by (induction sep ws rule: join_with.induct) auto

lemma join_statuses_inj:
  fixes xs ys :: "jstr list"
  assumes "list_all (\<lambda>s. s \<noteq> [] \<and> 44 \<notin> set s \<and> P s) xs" "list_all (\<lambda>s. s \<noteq> [] \<and> 44 \<notin> set s \<and> P s) ys"
    "join_with [44] xs = join_with [44] ys"
  shows "xs = ys"
proof -
  have split: "zs \<noteq> [] \<Longrightarrow> split_on 44 (join_with [44] zs) = zs" if "list_all (\<lambda>s. s \<noteq> [] \<and> 44 \<notin> set s \<and> P s) zs" for zs
    using that by (intro split_on_join) (simp_all add: list_all_iff)
  have empty: "zs = []" if "list_all (\<lambda>s. s \<noteq> [] \<and> 44 \<notin> set s \<and> P s) zs" "join_with [44] zs = []" for zs
    using that by (cases zs rule: remdups_adj.cases) simp_all
  show ?thesis
  proof (cases "xs = [] \<or> ys = []")
    case True
    then have "join_with [44] xs = []" using assms(3) by auto
    with assms empty show ?thesis by metis
  next
    case False
    with split [OF assms(1)] split [OF assms(2)] assms(3) show ?thesis by metis
  qed
qed

lemma key_split:
  assumes "plain_filters w f"
  shows "split_on 124 (change_filter_key dq w f) = split_on 124 dq @ [join_with [44] (cf_statuses f), cf_repository f,
     cf_scope f, cf_sort f, num_to_string (cf_limit f), to_str w]"
proof -
  have "124 \<notin> set (join_with [44] (cf_statuses f))"
    using assms join_set [of "124 :: nat" "[44]" "cf_statuses f"] by (auto simp: plain_filters_def list_all_iff)
  with assms show ?thesis
    by (simp add: change_filter_key_def plain_filters_def split_on_key_part split_on_no_sep)
qed

lemma key_inj:
  assumes "plain_filters w f" "plain_filters v g" "change_filter_key dq w f = change_filter_key eq v g"
  shows "dq = eq \<and> cf_statuses f = cf_statuses g \<and> cf_repository f = cf_repository g \<and> cf_scope f = cf_scope g
     \<and> cf_sort f = cf_sort g \<and> num_to_string (cf_limit f) = num_to_string (cf_limit g) \<and> to_str w = to_str v"
proof -
  have e: "split_on 124 dq @ [join_with [44] (cf_statuses f), cf_repository f, cf_scope f, cf_sort f, num_to_string (cf_limit f), to_str w]
    = split_on 124 eq @ [join_with [44] (cf_statuses g), cf_repository g, cf_scope g, cf_sort g, num_to_string (cf_limit g), to_str v]"
    using key_split [OF assms(1), of dq] key_split [OF assms(2), of eq] assms(3) by simp
  then have "split_on 124 dq = split_on 124 eq" "join_with [44] (cf_statuses f) = join_with [44] (cf_statuses g)"
    by (simp_all add: append_eq_append_conv)
  moreover from this(1) have "dq = eq" by (metis join_split_on)
  ultimately show ?thesis
    using e join_statuses_inj [of "\<lambda>s. 124 \<notin> set s" "cf_statuses f" "cf_statuses g"] assms(1,2) by (simp add: plain_filters_def)
qed

text \<open>A changed filter of the portfolio starts at the first page. Wherever the pager stood
  under the old search text, statuses, repository, scope, sort order, page size and window,
  the first request under different ones carries no cursor.\<close>

theorem portfolio_restarts_paging:
  assumes "plain_filters w f" "plain_filters v g" "p_key p = change_filter_key dq w f"
    and "(dq, cf_statuses f, cf_repository f, cf_scope f, cf_sort f, num_to_string (cf_limit f), to_str w)
      \<noteq> (eq, cf_statuses g, cf_repository g, cf_scope g, cf_sort g, num_to_string (cf_limit g), to_str v)"
  shows "lookup (change_params eq v g p) (js ''cursor'') = Str [] \<and> page_index (change_filter_key eq v g) p = 1"
proof -
  have "p_key p \<noteq> change_filter_key eq v g"
    using key_inj [OF assms(1,2), of dq eq] assms(3,4) by auto
  then show ?thesis
    by (simp add: change_params_def current_pager_def first_page_def page_index_def js_Cons)
qed

definition example_pager :: pager where
  "example_pager = \<lparr>p_key = change_filter_key [] (lit ''7d'') initial_filters, p_cursor = js ''50'', p_history = [[], js ''25'']\<rparr>"

theorem portfolio_restarts_paging_witness:
  "lookup (change_params [] (lit ''7d'') (toggle_status (js ''OPEN'') initial_filters) example_pager) (js ''cursor'') = Str []"
proof -
  have d: "cf_limit initial_filters = num_int 25" "num_to_string (num_int 25) = js ''25''"
    by (simp add: initial_filters_def, code_simp)
  have f: "plain_filters (lit ''7d'') initial_filters"
    using d by (simp add: plain_filters_def initial_filters_def js_Cons)
  have g: "plain_filters (lit ''7d'') (toggle_status (js ''OPEN'') initial_filters)"
    using d by (simp add: plain_filters_def toggle_status_def initial_filters_def js_Cons)
  show ?thesis
    using portfolio_restarts_paging [OF f g, of example_pager "[]" "[]"]
    by (simp add: example_pager_def toggle_status_def initial_filters_def)
qed

section \<open>When the queue is clear\<close>

fun says_clear :: "view \<Rightarrow> bool" where
  "says_clear (Node t ps vs) \<longleftrightarrow> (t = ''EmptyState'' \<and> attr ps ''title'' = lit ''The review queue is clear'') \<or> list_ex says_clear vs"
| "says_clear _ \<longleftrightarrow> False"

lemma says_clear_simps [simp]:
  "says_clear (shown_if c v) \<longleftrightarrow> c \<and> says_clear v" "says_clear (fragment vs) \<longleftrightarrow> list_ex says_clear vs"
  "says_clear (slot k vs) \<longleftrightarrow> list_ex says_clear vs"
  "t \<noteq> ''EmptyState'' \<Longrightarrow> says_clear (tag t vs) \<longleftrightarrow> list_ex says_clear vs"
  "\<not> says_clear (button ps t)"
  by (simp_all add: shown_if_def fragment_def slot_def tag_def button_def)

lemma says_clear_child [simp]: "\<not> says_clear (child v)"
  by (induction v rule: child.induct) (auto simp: list_ex_iff)

lemma quiet_pieces [simp]:
  "\<not> says_clear (stat_skeleton n)" "\<not> says_clear (stat_strip l ss)" "\<not> says_clear (refresh_control ck now u b)"
  "\<not> says_clear (error_panel e a d c)" "\<not> says_clear (command_row l cmd t h)" "\<not> says_clear dot_sep"
  "\<not> says_clear (queue_skeleton n)"
  by (auto simp: stat_skeleton_def stat_strip_def stat_panel_def stat_box_def stat_cell_def refresh_control_def error_panel_def command_row_def dot_sep_def
      queue_skeleton_def Let_def list_ex_iff in_set_replicate)

lemma quiet_notice [simp]: "says_clear (notice t title body) \<longleftrightarrow> list_ex says_clear body"
  by (auto simp: notice_def list_ex_iff)

lemma quiet_queue_item [simp]: "\<not> says_clear (queue_item ck now b i)"
  by (auto simp: queue_item_def Let_def queue_badges_def queue_links_def live_line_def live_sandbox_def preview_link_def
      queue_commands_def list_ex_iff split: option.splits)

lemma quiet_header [simp]: "\<not> says_clear (reviews_header ck now data loading u auto)"
  by (simp add: reviews_header_def)

lemma quiet_pagination [simp]: "\<not> says_clear (pagination p [])"
  by (auto simp: pagination_def split: option.splits)

lemma quiet_notices [simp]: "\<not> list_ex says_clear (queue_notices ck now data err_opt)"
  by (auto simp: queue_notices_def refresh_failed_def split: option.splits)

lemma body_clear: "says_clear (queue_body ck now kind data loading n)
    \<longleftrightarrow> truthy data \<and> count_all data = num_int 0 \<and> coverage_known data"
  by (auto simp: queue_body_def queue_clear_def queue_page_empty_def queue_filter_empty_def Let_def attr_def list_ex_iff js_def)

text \<open>C39: The review queue is called clear exactly when it is known to be: an answer is there,
  its total is zero, the live feed is available and the state of no live run is unknown.
  A failed first request, a feed that is down or partly unknown runs never show an empty
  queue as clear, whatever filter is chosen.\<close>

theorem clear_only_when_known:
  "says_clear (reviews_page ck now kind data err_opt loading updated_at auto p)
   \<longleftrightarrow> truthy data \<and> count_all data = num_int 0 \<and> live_available data \<and> unknown_live data = num_int 0"
  by (auto simp: reviews_page_def Let_def body_clear coverage_known_def reviews_footer_def split: option.splits bool.splits)

end
