(* ===== verification/Console_Ui.thy ===== *)
theory Console_Ui imports Console_Lists "HOL-Library.Word" begin

text \<open>
  The building blocks of \<open>components/ui\<close> that hold a state or choose a meaning: status pills
  and badges, the tab list, the toasts, the copy button, avatars, the metric tile with its
  sparkline, the select and the search input. Cards, spinners, skeletons, tables and headers
  only arrange their children.
\<close>

section \<open>Status pills and badges\<close>

definition run_pill :: "jsval \<Rightarrow> jstr \<times> jstr" where
  "run_pill st = (run_state_label st, run_state_tone st)"

definition change_pill :: "jsval \<Rightarrow> jstr \<times> jstr" where
  "change_pill st = (change_status_label st, change_status_tone st)"

definition or_tone :: "jstr \<Rightarrow> string \<Rightarrow> jstr" where
  "or_tone t fb = (if t = js ''muted'' then js fb else t)"

definition proper_object :: "jsval \<Rightarrow> bool" where
  "proper_object v \<longleftrightarrow> v \<noteq> Null \<and> is_object v"

definition cleanup_pill :: "jsval \<Rightarrow> jstr \<times> jstr" where
  "cleanup_pill st =
     (let is_obj = proper_object st; oc = (if is_obj then opt_get st ''outcome'' else st);
          verified = (if is_obj then opt_get st ''verified'' else Undef) in
      if \<not> truthy oc then (not_reported, js ''muted'')
      else let tone = cleanup_tone (if is_obj then st else Obj [(js ''outcome'', oc), (js ''verified'', JBool True)]);
               v = to_upper (to_str oc) in
        if v = js ''SUCCESS'' then
          (if verified = JBool False then (js ''Cleanup unverified'', js ''warning'')
           else if verified = JBool True then (js ''Cleanup verified'', js ''success'')
           else (js ''Cleanup succeeded'', or_tone tone ''success''))
        else if v = js ''SKIPPED'' then (js ''Cleanup skipped'', js ''warning'')
        else (js ''Cleanup '' @ to_lower (title_case oc), or_tone tone ''danger''))"

definition review_pill :: "jsval \<Rightarrow> jstr \<times> jstr" where
  "review_pill st = switch (Str (to_upper (to_str (coalesce st (Str [])))))
     [([''APPROVED'', ''PASSED'', ''SUCCESS'', ''SUCCEEDED''], (js ''Approved'', js ''success'')),
      ([''REJECTED'', ''FAILED'', ''DENIED''], (js ''Rejected'', js ''danger'')),
      ([''PENDING'', ''AWAITING'', ''AWAITING_REVIEW'', ''REVIEW'', ''IN_REVIEW'', ''PAUSED''], (js ''Awaiting review'', js ''warning'')),
      ([''CANCELLED'', ''SKIPPED'', ''NONE'', ''''], (js ''Not required'', js ''muted''))]
     (title_case st, js ''muted'')"

definition severity_pill :: "jsval \<Rightarrow> jstr \<times> jstr" where
  "severity_pill st = (let v = to_lower (to_str (coalesce st (Str []))) in
     if v = [] \<or> v = js ''none'' then (js (if v = js ''none'' then ''No findings'' else ''Unknown''), js ''muted'')
     else (title_case st, or_tone (severity_tone st) ''info''))"

definition pill_meta :: "jstr \<Rightarrow> jsval \<Rightarrow> jstr \<times> jstr" where
  "pill_meta kind = (if kind = js ''change'' then change_pill else if kind = js ''cleanup'' then cleanup_pill
     else if kind = js ''review'' then review_pill else if kind = js ''severity'' then severity_pill else run_pill)"

definition known_tone :: "jstr \<Rightarrow> jstr" where
  "known_tone t = (if map_of TONE_TEXT t \<noteq> None then t else js ''muted'')"

definition status_pill :: "jstr \<Rightarrow> jsval \<Rightarrow> view" where
  "status_pill kind st = (case pill_meta kind st of (l, t) \<Rightarrow>
     let raw = (if proper_object st then js_or (opt_get st ''outcome'') (Str []) else st) in
     Node ''span'' [(''title'', if truthy raw then Str (js ''State: '' @ to_str raw) else Undef), (''tone'', Str (known_tone t))]
       [Node ''StatusDot'' [(''tone'', Str (known_tone t))] [], tag ''span'' [Text l]])"

definition BADGE_TONE :: "jstr table" where
  "BADGE_TONE = table [(''default'', ''muted''), (''muted'', ''muted''), (''primary'', ''primary''), (''success'', ''success''),
     (''warning'', ''warning''), (''danger'', ''danger''), (''security'', ''security''), (''info'', ''info''), (''outline'', ''muted'')]"

definition badge_tone :: "jsval \<Rightarrow> jstr \<Rightarrow> jstr" where
  "badge_tone dot variant = (case dot of Str s \<Rightarrow> s | _ \<Rightarrow> (case map_of BADGE_TONE variant of Some t \<Rightarrow> t | None \<Rightarrow> js ''muted''))"

definition badge :: "jsval \<Rightarrow> jstr \<Rightarrow> jsval \<Rightarrow> view list \<Rightarrow> view" where
  "badge dot variant title children = Node ''span'' [(''title'', title), (''variant'', Str variant)]
     [shown_if (truthy dot) (Node ''StatusDot'' [(''tone'', Str (badge_tone dot variant))] []), tag ''span'' children]"

section \<open>Tabs\<close>

record tab =
  tb_id :: jsval
  tb_label :: jsval
  tb_count :: jsval
  tb_disabled :: bool

text \<open>The index a key moves to from the tab \<open>i\<close>; \<open>None\<close>: nothing changes.\<close>

definition tab_move :: "tab list \<Rightarrow> string \<Rightarrow> nat \<Rightarrow> nat option" where
  "tab_move ts k i =
     (if k \<notin> {''ArrowLeft'', ''ArrowRight'', ''Home'', ''End''} \<or> ts = [] then None
      else let n = length ts;
               j = (if k = ''ArrowLeft'' then (i + n - 1) mod n else if k = ''ArrowRight'' then (i + 1) mod n
                    else if k = ''Home'' then 0 else n - 1) in
        if tb_disabled (ts ! j) then None else Some j)"

definition tab_view :: "jsval \<Rightarrow> tab \<Rightarrow> view" where
  "tab_view v t = (let active = strict_eq (tb_id t) v in
     Node ''button'' [(''type'', lit ''button''), (''role'', lit ''tab''), (''aria-selected'', JBool active),
       (''tabIndex'', int_val (if active then 0 else - 1)), (''disabled'', JBool (tb_disabled t))]
      [tag ''span'' [child (tb_label t)],
       shown_if (\<not> nullish (tb_count t) \<and> tb_count t \<noteq> Str [])
         (tag ''span'' [case tb_count t of Num n \<Rightarrow> Text (num_text n) | c \<Rightarrow> child c])])"

definition tabs_view :: "jsval \<Rightarrow> tab list \<Rightarrow> view" where
  "tabs_view v ts = Node ''div'' [(''role'', lit ''tablist'')] (map (tab_view v) ts)"

section \<open>Toasts\<close>

record toast =
  to_id :: nat
  to_tone :: jsval
  to_title :: jstr
  to_message :: jstr
  to_duration :: jsval

record toaster =
  next_id :: nat
  toasts :: "toast list"

definition no_toasts :: toaster where "no_toasts = \<lparr>next_id = 1, toasts = []\<rparr>"

definition toast_input :: "jsval \<Rightarrow> (jstr \<times> jsval) list \<Rightarrow> jsval" where
  "toast_input m opts = (if truthy m \<and> is_object m then m
     else Obj (foldl (\<lambda>ps (k, v). obj_put ps k v) [(js ''message'', m)] opts))"

definition text_if :: "jsval \<Rightarrow> jstr" where "text_if v = (if truthy v then to_str v else [])"

definition toast_entry :: "nat \<Rightarrow> jsval \<Rightarrow> toast" where
  "toast_entry i v = \<lparr>to_id = i, to_tone = js_or (opt_get v ''tone'') (lit ''default''), to_title = text_if (opt_get v ''title''),
     to_message = text_if (opt_get v ''message''), to_duration = coalesce (opt_get v ''duration'') (int_val 4200)\<rparr>"

definition push_toast :: "jsval \<Rightarrow> (jstr \<times> jsval) list \<Rightarrow> toaster \<Rightarrow> toaster" where
  "push_toast m opts t = \<lparr>next_id = next_id t + 1,
     toasts = slice_last 3 (toasts t) @ [toast_entry (next_id t) (toast_input m opts)]\<rparr>"

definition dismiss :: "nat \<Rightarrow> toaster \<Rightarrow> toaster" where
  "dismiss i t = t\<lparr>toasts := filter (\<lambda>x. to_id x \<noteq> i) (toasts t)\<rparr>"

text \<open>The timer of a toast: \<open>None\<close> without one, else its delay.\<close>

definition toast_timer :: "toast \<Rightarrow> jsval option" where
  "toast_timer x = (if truthy (to_duration x) then Some (to_duration x) else None)"

text \<open>What happens to the stack of toasts, in any order: a call of \<open>toast\<close>, a dismissal or an elapsed timer.\<close>

inductive toaster_reach :: "toaster \<Rightarrow> bool" where
  start: "toaster_reach no_toasts"
| push: "toaster_reach t \<Longrightarrow> toaster_reach (push_toast m opts t)"
| drop: "toaster_reach t \<Longrightarrow> toaster_reach (dismiss i t)"

definition toast_view :: "toast \<Rightarrow> view" where
  "toast_view x = Node ''div'' [(''role'', lit (if to_tone x = lit ''danger'' then ''alert'' else ''status''))]
     [tag ''div'' [shown_if (to_title x \<noteq> []) (tag ''p'' [Text (to_title x)]),
        shown_if (to_message x \<noteq> []) (tag ''p'' [Text (to_message x)])],
      Node ''button'' [(''type'', lit ''button''), (''aria-label'', lit ''Dismiss notification'')] []]"

definition toasts_view :: "toaster \<Rightarrow> view" where
  "toasts_view t = Node ''div'' [(''aria-live'', lit ''polite''), (''aria-atomic'', lit ''false'')]
     (map (\<lambda>x. tag ''div'' [toast_view x]) (toasts t))"

section \<open>Copying\<close>

datatype clipboard = No_clipboard | Write_rejects | Write_ok
datatype exec_copy = Exec_throws | Exec_returns bool

text \<open>The text that was copied; \<open>None\<close>: nothing, and no confirmation.\<close>

definition copy :: "clipboard \<Rightarrow> exec_copy \<Rightarrow> jsval \<Rightarrow> jstr option" where
  "copy c e v = (let s = to_str (coalesce v (Str [])) in
     if s = [] then None
     else if c = Write_ok then Some s
     else (case e of Exec_throws \<Rightarrow> None | Exec_returns ok \<Rightarrow> if ok then Some s else None))"

definition copy_button :: "bool \<Rightarrow> jsval \<Rightarrow> view" where
  "copy_button copied l = (let title = (if copied then js ''Copied'' else js ''Copy '' @ to_str (js_or l (lit ''value''))) in
     Node ''button'' [(''type'', lit ''button''), (''title'', Str title), (''aria-label'', Str title)]
      [Node ''span'' [(''role'', lit ''status''), (''aria-live'', lit ''polite'')] [Text (if copied then js ''Copied to clipboard'' else [])]])"

section \<open>Avatars\<close>

text \<open>\<open>for (const c of s)\<close> walks over code points.\<close>

fun code_points :: "jstr \<Rightarrow> nat list" where
  "code_points [] = []"
| "code_points (c # s) = (case s of [] \<Rightarrow> [c]
     | d # r \<Rightarrow> if is_high c \<and> is_low d then pair_code c d # code_points r else c # code_points s)"

definition AVATAR_TONES :: "string list" where
  "AVATAR_TONES = [''primary'', ''info'', ''security'', ''success'', ''warning'']"

text \<open>\<open>>>> 0\<close> takes the value modulo 2^32; before it, the sum stays below 2^53 and is exact.\<close>

definition tone_hash :: "jstr \<Rightarrow> 32 word" where
  "tone_hash s = foldl (\<lambda>h c. h * 31 + of_nat c) 0 (code_points s)"

definition tone_index :: "jsval \<Rightarrow> nat" where
  "tone_index nm = unat (tone_hash (to_str (js_or nm (Str [])))) mod length AVATAR_TONES"

definition avatar :: "jsval \<Rightarrow> jsval \<Rightarrow> view" where
  "avatar nm title = (let l = js_or nm (lit ''Operator'') in
     Node ''span'' [(''role'', lit ''img''), (''aria-label'', l), (''title'', js_or title l), (''tone'', lit (AVATAR_TONES ! tone_index l))]
       [Text (initials l)])"

section \<open>The metric tile\<close>

record delta_info =
  de_text :: jstr
  de_tone :: jsval

text \<open>\<open>normalizeDelta\<close>. The minus signs are U+002D and U+2212.\<close>

definition normalize_delta :: "jsval \<Rightarrow> delta_info option" where
  "normalize_delta delta =
     (if nullish delta \<or> delta = Str [] then None
      else let raw = (if is_object delta then coalesce (opt_get delta ''value'') (coalesce (opt_get delta ''label'') (Str [])) else delta);
               forced = (if is_object delta then js_or (opt_get delta ''tone'') (Str []) else Str []);
               s = (case raw of Num n \<Rightarrow> format_delta 1 (js ''pp'') raw | _ \<Rightarrow> trim (to_str raw)) in
        if s = [] then None
        else Some \<lparr>de_text = s, de_tone = js_or forced (lit (if hd s = 45 \<or> hd s = 8722 then ''danger''
          else if hd s = 43 then ''success'' else ''muted''))\<rparr>)"

definition SPARK_WIDTH :: jnum where "SPARK_WIDTH = num_int 100"
definition SPARK_HEIGHT :: jnum where "SPARK_HEIGHT = num_int 32"
definition SPARK_INSET :: jnum where "SPARK_INSET = num_int 2"

definition spark_points :: "jsval \<Rightarrow> jnum list" where
  "spark_points v = filter is_finite (map to_num (as_list v))"

fun num_min_list :: "jnum list \<Rightarrow> jnum" where
  "num_min_list [] = Inf True"
| "num_min_list (x # xs) = num_min x (num_min_list xs)"

fun num_max_list :: "jnum list \<Rightarrow> jnum" where
  "num_max_list [] = Inf False"
| "num_max_list (x # xs) = num_max x (num_max_list xs)"

definition two_places :: "jnum \<Rightarrow> jnum" where "two_places x = str_to_num (to_fixed 2 x)"

definition spark_coord :: "jnum list \<Rightarrow> nat \<Rightarrow> jnum \<times> jnum" where
  "spark_coord ps i =
     (let lo = num_min_list ps; d = num_sub (num_max_list ps) lo; range = (if truthy (Num d) then d else num_int 1);
          inner = num_mul SPARK_INSET (num_int 2);
          x = num_add SPARK_INSET (num_div (num_mul (num_int (int i)) (num_sub SPARK_WIDTH inner)) (num_int (int (length ps) - 1)));
          y = num_sub (num_sub SPARK_HEIGHT SPARK_INSET)
                (num_mul (num_div (num_sub (ps ! i) lo) range) (num_sub SPARK_HEIGHT inner)) in
      (two_places x, two_places y))"

definition point_text :: "jnum \<times> jnum \<Rightarrow> jstr" where
  "point_text p = num_to_string (fst p) @ [44] @ num_to_string (snd p)"

definition spark_line :: "(jnum \<times> jnum) list \<Rightarrow> jstr" where
  "spark_line cs = join_with [32] (map (\<lambda>(i, c). js (if i = 0 then ''M'' else ''L'') @ point_text c) (enumerate 0 cs))"

definition spark_area :: "(jnum \<times> jnum) list \<Rightarrow> jstr" where
  "spark_area cs = spark_line cs @ js '' L'' @ num_to_string (fst (last cs)) @ [44] @ num_to_string SPARK_HEIGHT
     @ js '' L'' @ num_to_string (fst (hd cs)) @ [44] @ num_to_string SPARK_HEIGHT @ js '' Z''"

definition sparkline :: "jsval \<Rightarrow> view" where
  "sparkline v = (let ps = spark_points v in
     if length ps < 2 then Blank
     else let cs = map (spark_coord ps) [0..<length ps] in
       Node ''svg'' [(''aria-hidden'', lit ''true''), (''viewBox'', lit ''0 0 100 32''), (''preserveAspectRatio'', lit ''none'')]
         [Node ''path'' [(''d'', Str (spark_area cs)), (''fill'', lit ''currentColor'')] [],
          Node ''path'' [(''d'', Str (spark_line cs)), (''fill'', lit ''none''), (''stroke'', lit ''currentColor'')] []])"

record kpi_tile =
  kp_label :: jsval
  kp_value :: jsval
  kp_hint :: jsval
  kp_delta :: jsval
  kp_tone :: jsval
  kp_spark :: jsval
  kp_footer :: "view option"
  kp_href :: jsval
  kp_loading :: bool

definition kpi_tile_view :: "kpi_tile \<Rightarrow> view" where
  "kpi_tile_view k = (if kp_loading k then tag ''KpiSkeleton'' []
     else let tone = (if table_get TONE_TEXT (kp_tone k) \<noteq> None then kp_tone k else lit ''muted''); has_spark = (as_list (kp_spark k) \<noteq> []);
        body = Node ''div'' [(''tone'', tone)]
          [tag ''p'' [child (kp_label k)],
           tag ''div'' [tag ''span'' [if nullish (kp_value k) \<or> kp_value k = Str [] then Text em_dash else child (kp_value k)],
             case normalize_delta (kp_delta k) of None \<Rightarrow> Blank
             | Some d \<Rightarrow> Node ''span'' [(''tone'', de_tone d)] [Text (de_text d)]],
           shown_if (truthy (kp_hint k)) (tag ''p'' [child (kp_hint k)]),
           shown_if has_spark (tag ''div'' [sparkline (kp_spark k)]),
           case kp_footer k of Some f \<Rightarrow> tag ''div'' [f] | None \<Rightarrow> shown_if (\<not> has_spark) (tag ''div'' [])] in
      tag ''Card'' [if truthy (kp_href k) then Node ''a'' [(''href'', kp_href k)] [body] else body])"

section \<open>Fields\<close>

definition select_view :: "jsval \<Rightarrow> jsval \<Rightarrow> jsval \<Rightarrow> bool \<Rightarrow> choice list \<Rightarrow> view" where
  "select_view l aria v dis cs = tag ''div''
     [shown_if (truthy l) (tag ''label'' [child l]),
      tag ''div'' [Node ''select'' [(''aria-label'', js_or aria (if truthy l then Undef else lit ''Select option'')), (''value'', v),
          (''disabled'', JBool dis)]
        (map (\<lambda>c. Node ''option'' [(''value'', c_value c)] [child (c_label c)]) cs)]]"

text \<open>A key in the search input: whether it clears the text and is kept from the page.\<close>

definition clears_search :: "string \<Rightarrow> jstr \<Rightarrow> bool" where
  "clears_search k v \<longleftrightarrow> k = ''Escape'' \<and> v \<noteq> []"

definition search_field :: "jstr \<Rightarrow> jstr \<Rightarrow> jsval \<Rightarrow> view" where
  "search_field v placeholder aria = tag ''div''
     [Node ''input'' [(''type'', lit ''text''), (''value'', Str v), (''placeholder'', Str placeholder),
        (''aria-label'', js_or aria (Str placeholder))] [],
      shown_if (v \<noteq> []) (Node ''button'' [(''type'', lit ''button''), (''aria-label'', lit ''Clear search'')] [])]"

definition button_view :: "bool \<Rightarrow> bool \<Rightarrow> jsval \<Rightarrow> view list \<Rightarrow> view" where
  "button_view loading dis href children =
     (let body = [shown_if loading (tag ''Spinner'' []), shown_if (children \<noteq> []) (tag ''span'' children)];
          busy = (''aria-busy'', if loading then JBool True else Undef) in
      if truthy href then Node ''a'' [(''href'', href), (''aria-disabled'', if dis \<or> loading then JBool True else Undef), busy] body
      else Node ''button'' [(''type'', lit ''button''), (''disabled'', JBool (dis \<or> loading)), busy] body)"

definition empty_state :: "jsval \<Rightarrow> jsval \<Rightarrow> view list \<Rightarrow> view" where
  "empty_state title description action = tag ''div''
     [tag ''div'' [shown_if (truthy title) (tag ''p'' [child title]), shown_if (truthy description) (tag ''p'' [child description])],
      shown_if (action \<noteq> []) (tag ''div'' action)]"

definition page_header :: "jsval \<Rightarrow> jsval \<Rightarrow> jsval \<Rightarrow> view list \<Rightarrow> jsval \<Rightarrow> jsval \<Rightarrow> view list \<Rightarrow> view" where
  "page_header eyebrow title description actions back_href back_label meta_items = tag ''header''
     [shown_if (truthy back_href) (Node ''a'' [(''href'', back_href)] [child back_label]),
      tag ''div'' [tag ''div'' [shown_if (truthy eyebrow) (tag ''p'' [child eyebrow]), tag ''h1'' [child title],
          shown_if (truthy description) (tag ''p'' [child description]), shown_if (meta_items \<noteq> []) (tag ''div'' meta_items)],
        shown_if (actions \<noteq> []) (tag ''div'' actions)]]"

end
