(* ===== verification/Console_Ui_Facts.thy ===== *)
theory Console_Ui_Facts imports Console_Ui begin

text \<open>
  The stack of toasts is bounded and in order of arrival, and the keys of a tab list reach every
  tab.
\<close>

section \<open>Toasts\<close>

definition toaster_ok :: "toaster \<Rightarrow> bool" where
  "toaster_ok t \<longleftrightarrow> length (toasts t) \<le> 4 \<and> sorted_wrt (<) (map to_id (toasts t)) \<and> (\<forall>x \<in> set (toasts t). to_id x < next_id t)"

lemma kept_subset: "set (slice_last 3 (toasts t)) \<subseteq> set (toasts t)"
  by (simp add: slice_last_def set_drop_subset)

lemma toaster_ok_push:
  assumes "toaster_ok t"
  shows "toaster_ok (push_toast m opts t)"
proof -
  have "\<forall>x \<in> set (slice_last 3 (toasts t)). to_id x < next_id t" using assms kept_subset by (fastforce simp: toaster_ok_def)
  moreover have "sorted_wrt (<) (map to_id (slice_last 3 (toasts t)))"
    using assms by (simp add: toaster_ok_def slice_last_def sorted_wrt_drop flip: drop_map)
  moreover have "length (slice_last 3 (toasts t)) \<le> 3" by (simp add: slice_last_def)
  ultimately show ?thesis by (auto simp: toaster_ok_def push_toast_def toast_entry_def sorted_wrt_append)
qed

lemma toaster_ok_dismiss: "toaster_ok t \<Longrightarrow> toaster_ok (dismiss i t)"
  by (auto simp: toaster_ok_def dismiss_def sorted_wrt_map intro: le_trans [OF length_filter_le] sorted_wrt_filter)

lemma toaster_reach_ok: "toaster_reach t \<Longrightarrow> toaster_ok t"
  by (induction rule: toaster_reach.induct) (auto simp: toaster_ok_push toaster_ok_dismiss, simp add: toaster_ok_def no_toasts_def)

lemma sorted_ids_distinct: "toaster_ok t \<Longrightarrow> distinct (map to_id (toasts t))"
  using strict_sorted_iff [of "map to_id (toasts t)"] by (simp add: toaster_ok_def)

text \<open>However toasts are shown, dismissed and timed out, at most four are on screen, in the
  order they were raised and under ids of their own; a new one is last, displaces only the oldest of
  four, and dismissing it by the id \<open>toast\<close> returned gives the stack back.\<close>

theorem toasts_bounded:
  assumes "toaster_reach t"
  shows "length (toasts t) \<le> 4 \<and> sorted_wrt (<) (map to_id (toasts t)) \<and> distinct (map to_id (toasts t))
    \<and> to_id (last (toasts (push_toast m opts t))) = next_id t
    \<and> toasts (dismiss (next_id t) (push_toast m opts t)) = (if length (toasts t) = 4 then tl (toasts t) else toasts t)"
proof -
  have ok: "toaster_ok t" using assms by (rule toaster_reach_ok)
  then have fresh: "filter (\<lambda>x. to_id x \<noteq> next_id t) ys = ys" if "set ys \<subseteq> set (toasts t)" for ys
    using that ok by (intro filter_True) (fastforce simp: toaster_ok_def)
  have "slice_last 3 (toasts t) = (if length (toasts t) = 4 then tl (toasts t) else toasts t)"
    using ok by (auto simp: slice_last_def toaster_ok_def drop_Suc)
  then show ?thesis
    using ok sorted_ids_distinct [OF ok] fresh [OF kept_subset]
    by (simp add: toaster_ok_def push_toast_def dismiss_def toast_entry_def)
qed

theorem toasts_bounded_witness:
  "length (toasts (push_toast (lit ''Saved'') [] no_toasts)) \<le> 4
    \<and> toasts (dismiss 2 (push_toast (lit ''Copied'') [] (push_toast (lit ''Saved'') [] no_toasts)))
      = toasts (push_toast (lit ''Saved'') [] no_toasts)"
proof -
  let ?t = "push_toast (lit ''Saved'') [] no_toasts"
  have "toaster_reach ?t" by (intro toaster_reach.intros)
  from toasts_bounded [OF this, of "lit ''Copied''" "[]"] show ?thesis
    by (simp add: push_toast_def no_toasts_def slice_last_def numeral_2_eq_2)
qed

section \<open>Tabs\<close>

definition arrows :: "tab list \<Rightarrow> string \<Rightarrow> nat \<Rightarrow> nat \<Rightarrow> nat" where
  "arrows ts k n i = ((\<lambda>j. case tab_move ts k j of None \<Rightarrow> j | Some j' \<Rightarrow> j') ^^ n) i"

lemma arrow_right: "\<lbrakk>i < length ts; list_all (\<lambda>t. \<not> tb_disabled t) ts\<rbrakk> \<Longrightarrow> tab_move ts ''ArrowRight'' i = Some ((i + 1) mod length ts)"
  by (auto simp: tab_move_def Let_def list_all_length)

lemma arrow_left: "\<lbrakk>i < length ts; list_all (\<lambda>t. \<not> tb_disabled t) ts\<rbrakk>
    \<Longrightarrow> tab_move ts ''ArrowLeft'' i = Some ((i + length ts - 1) mod length ts)"
  by (auto simp: tab_move_def Let_def list_all_length)

lemma arrows_right:
  assumes "i < length ts" "list_all (\<lambda>t. \<not> tb_disabled t) ts"
  shows "arrows ts ''ArrowRight'' n i = (i + n) mod length ts"
proof (induction n)
  case 0
  then show ?case using assms by (simp add: arrows_def)
next
  case (Suc n)
  have "ts \<noteq> []" "0 < length ts" using assms(1) by auto
  then show ?case using Suc assms(2)
    by (simp add: arrows_def arrow_right mod_Suc_eq)
qed

text \<open>In a tab list without disabled tabs the right arrow reaches every tab from every other,
  in as many presses as they are apart around the list, and the left arrow takes each press back.\<close>

theorem tabs_all_reachable:
  assumes "list_all (\<lambda>t. \<not> tb_disabled t) ts" "i < length ts" "j < length ts"
  shows "arrows ts ''ArrowRight'' ((j + length ts - i) mod length ts) i = j
    \<and> (\<forall>j'. tab_move ts ''ArrowRight'' i = Some j' \<longrightarrow> tab_move ts ''ArrowLeft'' j' = Some i)"
proof -
  let ?n = "length ts"
  have "(i + (j + ?n - i) mod ?n) mod ?n = (i + (j + ?n - i)) mod ?n" by (rule mod_add_right_eq)
  also have "\<dots> = j" using assms(2,3) by simp
  finally have "arrows ts ''ArrowRight'' ((j + ?n - i) mod ?n) i = j" using assms arrows_right by simp
  moreover have "tab_move ts ''ArrowLeft'' ((i + 1) mod ?n) = Some i"
  proof -
    have b: "(i + 1) mod ?n < ?n" by (rule mod_less_divisor) (use assms(2) in linarith)
    have "((i + 1) mod ?n + ?n - 1) mod ?n = i"
      using assms(2) by (cases "Suc i = ?n") auto
    then show ?thesis using arrow_left [OF b assms(1)] by simp
  qed
  ultimately show ?thesis using assms arrow_right by simp
qed

definition tab_of :: "string \<Rightarrow> tab" where
  "tab_of s = \<lparr>tb_id = lit s, tb_label = lit s, tb_count = Undef, tb_disabled = False\<rparr>"

theorem tabs_all_reachable_witness:
  "arrows [tab_of ''all'', tab_of ''live'', tab_of ''paused''] ''ArrowRight'' 2 2 = 1"
  proof -
  let ?ts = "[tab_of ''all'', tab_of ''live'', tab_of ''paused'']"
  have "list_all (\<lambda>t. \<not> tb_disabled t) ?ts" by (simp add: tab_of_def)
  from tabs_all_reachable [OF this, of 2 1] show ?thesis by (simp flip: numeral_2_eq_2 One_nat_def)
qed

end
