(* ===== verification/Console_Ops.thy ===== *)
theory Console_Ops imports Console_Portfolio Console_Ui begin

text \<open>
  The building blocks of the governance screens (\<open>components/ops\<close>): the tri-state chips,
  notices, sections, definition lists, metric bands, the generic configuration table, the
  limits grid, the harness table, the verification profiles and the section navigation.
\<close>

section \<open>Chips\<close>

record chip_style =
  on_label :: string
  off_label :: string
  unknown_label :: string
  tone_on :: string
  tone_off :: string
  tone_unknown :: string

definition chip_default :: chip_style where
  "chip_default = \<lparr>on_label = ''On'', off_label = ''Off'', unknown_label = ''Unknown'', tone_on = ''success'',
     tone_off = ''muted'', tone_unknown = ''muted''\<rparr>"

definition styled :: "string \<Rightarrow> string \<Rightarrow> string \<Rightarrow> string \<Rightarrow> chip_style" where
  "styled on off t_on t_off = chip_default\<lparr>on_label := on, off_label := off, tone_on := t_on, tone_off := t_off\<rparr>"

definition bool_chip :: "chip_style \<Rightarrow> jsval \<Rightarrow> bool option \<Rightarrow> view" where
  "bool_chip st title v =
     (let t = (case v of None \<Rightarrow> tone_unknown st | Some b \<Rightarrow> if b then tone_on st else tone_off st);
          l = (case v of None \<Rightarrow> unknown_label st | Some b \<Rightarrow> if b then on_label st else off_label st) in
      Node ''span'' [(''title'', title), (''tone'', lit t)] [Node ''StatusDot'' [(''tone'', lit t)] [], tag ''span'' [label l]])"

text \<open>\<open>ReachChip\<close>: an undecided probe has no verdict.\<close>

definition reach_chip :: "chip_style \<Rightarrow> jsval \<Rightarrow> jsval \<Rightarrow> jsval \<Rightarrow> view" where
  "reach_chip st title decided reachable = (if decided \<noteq> JBool True
     then bool_chip (chip_default\<lparr>unknown_label := unknown_label st\<rparr>)
            (js_or title (lit ''The probe produced no usable verdict'')) None
     else bool_chip st title (Some (reachable = JBool True)))"

definition reach_style :: chip_style where
  "reach_style = \<lparr>on_label = ''Reachable'', off_label = ''Blocked'', unknown_label = ''Undecided'',
     tone_on = ''warning'', tone_off = ''success'', tone_unknown = ''muted''\<rparr>"

section \<open>Notices and sections\<close>

definition ops_notice :: "string \<Rightarrow> jstr \<Rightarrow> bool \<Rightarrow> view list \<Rightarrow> view list \<Rightarrow> view" where
  "ops_notice t title announced action body = Node ''div''
     [(''role'', lit (if t = ''danger'' then ''alert'' else ''note'')), (''aria-live'', if announced then lit ''polite'' else Undef),
      (''tone'', if table_get TONE_TEXT (lit t) \<noteq> None then lit t else lit ''info'')]
     [tag ''div'' [shown_if (title \<noteq> []) (tag ''p'' [Text title]), shown_if (body \<noteq> []) (tag ''div'' body)],
      shown_if (action \<noteq> []) (tag ''div'' action)]"

definition config_section :: "string \<Rightarrow> string \<Rightarrow> string \<Rightarrow> bool \<Rightarrow> view list \<Rightarrow> view" where
  "config_section i title description padded body = Node ''Card'' [(''id'', lit i)]
     [Node ''CardHeader'' [(''title'', lit title), (''description'', lit description)] [],
      tag (if padded then ''CardBody'' else ''div'') body]"

definition card_subsection :: "string \<Rightarrow> string \<Rightarrow> view list \<Rightarrow> view list \<Rightarrow> view" where
  "card_subsection title description actions body = tag ''div''
     (tag ''div'' [tag ''h3'' [label title], shown_if (description \<noteq> []) (tag ''p'' [label description]),
        shown_if (actions \<noteq> []) (tag ''div'' actions)] # body)"

definition config_panel :: "string \<Rightarrow> view list \<Rightarrow> view" where
  "config_panel title body = tag ''div'' [tag ''h3'' [label title], tag ''div'' body]"

section \<open>Definition lists and metric bands\<close>

datatype shown_value = Raw jsval | Seen view

record ditem =
  di_label :: string
  di_value :: shown_value
  di_mono :: bool
  di_hint :: jstr
  di_span :: string

definition item_of :: "string \<Rightarrow> shown_value \<Rightarrow> ditem" where
  "item_of l v = \<lparr>di_label = l, di_value = v, di_mono = False, di_hint = [], di_span = []\<rparr>"

definition mono_item :: "string \<Rightarrow> jsval \<Rightarrow> ditem" where
  "mono_item l v = (item_of l (Raw v))\<lparr>di_mono := True\<rparr>"

definition text_item :: "string \<Rightarrow> jstr \<Rightarrow> ditem" where "text_item l s = item_of l (Raw (Str s))"

definition chip_item :: "string \<Rightarrow> chip_style \<Rightarrow> jsval \<Rightarrow> ditem" where
  "chip_item l st v = item_of l (Seen (bool_chip st Undef (as_boolean v)))"

definition dash_view :: view where "dash_view = tag ''span'' [Text em_dash]"

definition missing :: "jsval \<Rightarrow> bool" where "missing v \<longleftrightarrow> nullish v \<or> v = Str []"

fun value_view :: "bool \<Rightarrow> shown_value \<Rightarrow> view" where
  "value_view m (Seen v) = (if m then tag ''span'' [v] else v)"
| "value_view m (Raw v) = (case v of JBool b \<Rightarrow> bool_chip chip_default Undef (Some b)
     | _ \<Rightarrow> if missing v then dash_view else if m then tag ''span'' [child v] else child v)"

definition ops_definition_list :: "ditem list \<Rightarrow> view" where
  "ops_definition_list ds = tag ''dl'' (map (\<lambda>d. Node ''div'' [(''span'', lit (di_span d))]
     [tag ''dt'' [label (di_label d)], tag ''dd'' [value_view (di_mono d) (di_value d)],
      shown_if (di_hint d \<noteq> []) (tag ''p'' [Text (di_hint d)])]) ds)"

record band_item =
  bi_label :: string
  bi_value :: jsval
  bi_tone :: jsval
  bi_suffix :: jsval
  bi_hint :: jsval

definition band_of :: "string \<Rightarrow> jsval \<Rightarrow> band_item" where
  "band_of l v = \<lparr>bi_label = l, bi_value = v, bi_tone = Undef, bi_suffix = Undef, bi_hint = Undef\<rparr>"

definition display_value :: "jsval \<Rightarrow> view" where
  "display_value v = (if missing v then Text em_dash
     else case as_number v of None \<Rightarrow> child v | Some n \<Rightarrow> Text (num_text n))"

definition metric_band :: "band_item list \<Rightarrow> view" where
  "metric_band bs = tag ''div'' (map (\<lambda>b. tag ''div'' [tag ''p'' [label (bi_label b)],
     tag ''div'' [Node ''span'' [(''tone'', if table_get TONE_TEXT (bi_tone b) \<noteq> None then bi_tone b else lit ''muted'')]
         [display_value (bi_value b)],
       shown_if (truthy (bi_suffix b)) (tag ''span'' [child (bi_suffix b)])],
     shown_if (truthy (bi_hint b)) (tag ''p'' [child (bi_hint b)])]) bs)"

section \<open>The configuration table\<close>

record column =
  cl_key :: string
  cl_label :: string
  cl_numeric :: bool
  cl_mono :: bool
  cl_muted :: bool
  cl_render :: "(jsval \<Rightarrow> view) option"

definition plain_col :: "string \<Rightarrow> string \<Rightarrow> column" where
  "plain_col k l = \<lparr>cl_key = k, cl_label = l, cl_numeric = False, cl_mono = False, cl_muted = False, cl_render = None\<rparr>"

definition mono_col :: "string \<Rightarrow> string \<Rightarrow> column" where
  "mono_col k l = (plain_col k l)\<lparr>cl_mono := True\<rparr>"

definition render_col :: "string \<Rightarrow> string \<Rightarrow> (jsval \<Rightarrow> view) \<Rightarrow> column" where
  "render_col k l f = (plain_col k l)\<lparr>cl_render := Some f\<rparr>"

definition default_value :: "jsval \<Rightarrow> view" where
  "default_value v = (case v of
     JBool b \<Rightarrow> bool_chip chip_default Undef (Some b)
   | Arr xs \<Rightarrow> if xs = [] then dash_view
       else tag ''span'' [Text (join_with (js '', '') (map (\<lambda>x. if nullish x then [] else to_str x) xs))]
   | _ \<Rightarrow> if missing v then dash_view else tag ''span'' [Text (to_str v)])"

definition cell_view :: "jsval \<Rightarrow> column \<Rightarrow> view" where
  "cell_view row c = Node ''TD'' [(''numeric'', JBool (cl_numeric c)), (''muted'', JBool (cl_muted c))]
     [case cl_render c of Some f \<Rightarrow> f row
      | None \<Rightarrow> (let d = default_value (opt_get row (cl_key c)) in if cl_mono c then tag ''span'' [d] else d)]"

record table_text =
  tt_label :: string
  tt_empty :: string
  tt_empty_text :: jsval

definition config_table :: "table_text \<Rightarrow> column list \<Rightarrow> jsval list \<Rightarrow> view" where
  "config_table tt cs rws = Node ''Table'' [(''aria-label'', lit (tt_label tt))]
     [tag ''THead'' [tag ''TR'' (map (\<lambda>c. Node ''TH'' [(''numeric'', JBool (cl_numeric c))] [label (cl_label c)]) cs)],
      tag ''tbody'' (if rws = [] then [Node ''TableEmpty'' [(''colSpan'', int_val (int (length cs))), (''title'', lit (tt_empty tt)),
          (''description'', tt_empty_text tt)] []]
        else map (\<lambda>r. tag ''TR'' (map (cell_view r) cs)) rws)]"

section \<open>Limits\<close>

definition if_number :: "(jsval \<Rightarrow> jstr) \<Rightarrow> jsval \<Rightarrow> shown_value" where
  "if_number f v = Raw (if as_number v = None then Undef else Str (f v))"

definition bytes_limit :: "jsval \<Rightarrow> shown_value" where "bytes_limit = if_number (format_bytes dash)"
definition duration_limit :: "jsval \<Rightarrow> shown_value" where "duration_limit = if_number (format_duration dash)"

definition quantity :: "jsval \<Rightarrow> string \<Rightarrow> shown_value" where
  "quantity v suffix = if_number (\<lambda>v. format_number False dash v @ [32] @ js suffix) v"

definition limits_grid :: "jsval \<Rightarrow> view" where
  "limits_grid limits = (let g = opt_get limits in ops_definition_list
     [(item_of ''Command output cap'' (bytes_limit (g ''command_output_bytes'')))\<lparr>di_hint := js ''Captured per command before truncation''\<rparr>,
      (item_of ''Artifact cap'' (bytes_limit (g ''artifact_bytes'')))\<lparr>di_hint := js ''Bounded evidence size per run''\<rparr>,
      item_of ''Worker concurrency'' (if_number (format_number False dash) (g ''worker_concurrency'')),
      item_of ''Agent timeout'' (duration_limit (g ''agent_timeout_ms'')),
      item_of ''Verification timeout'' (duration_limit (g ''verification_timeout_ms'')),
      item_of ''Total run timeout'' (duration_limit (g ''total_timeout_ms'')),
      item_of ''Sandbox idle timeout'' (duration_limit (g ''sandbox_idle_timeout_ms'')),
      item_of ''CPU per sandbox'' (quantity (g ''cpu_milli'') ''mCPU''),
      item_of ''Memory per sandbox'' (quantity (g ''memory_mib'') ''MiB''),
      item_of ''Disk per sandbox'' (quantity (g ''disk_mib'') ''MiB'')])"

section \<open>Harnesses and verification profiles\<close>

definition chip_in :: "jsval \<Rightarrow> string \<Rightarrow> chip_style \<Rightarrow> view" where
  "chip_in row k st = bool_chip st Undef (as_boolean (opt_get row k))"

definition pin_chips :: "jsval \<Rightarrow> view" where
  "pin_chips h = tag ''div'' [chip_in h ''binary_pinned'' (styled ''binary pinned'' ''binary floating'' ''success'' ''warning''),
     chip_in h ''runtime_pinned'' (styled ''runtime pinned'' ''runtime floating'' ''success'' ''muted'')]"

definition cache_chips :: "jsval \<Rightarrow> view" where
  "cache_chips h = tag ''div'' [chip_in h ''catalog_cache_configured'' (styled ''catalog cache'' ''no catalog cache'' ''info'' ''muted''),
     chip_in h ''provider_files_configured'' (styled ''provider files'' ''no provider files'' ''info'' ''muted'')]"

definition name_list :: "string \<Rightarrow> jsval list \<Rightarrow> view" where
  "name_list title ns = (if ns = [] then dash_view
     else tag ''div'' (map (\<lambda>n. Node ''span'' [(''title'', js_or (lit title) Undef)] [child n]) ns))"

definition td :: "view list \<Rightarrow> view" where "td vs = tag ''TD'' vs"
definition td_num :: "view list \<Rightarrow> view" where "td_num vs = Node ''TD'' [(''numeric'', JBool True)] vs"
definition td_muted :: "view list \<Rightarrow> view" where "td_muted vs = Node ''TD'' [(''muted'', JBool True)] vs"

definition outline_badge :: "jsval \<Rightarrow> view" where
  "outline_badge v = Node ''Badge'' [(''variant'', lit ''outline'')] [child v]"

definition harness_row :: "jsval \<Rightarrow> view" where
  "harness_row h = tag ''TR''
     [td [tag ''div'' [Text (text_or (opt_get h ''name'') dash)],
        if truthy (opt_get h ''binary'') then Node ''div'' [(''title'', opt_get h ''binary'')] [child (opt_get h ''binary'')]
        else tag ''div'' [label ''No binary path reported'']],
      td [if truthy (opt_get h ''type'') then outline_badge (opt_get h ''type'') else dash_view],
      td [tag ''div'' [if truthy (opt_get h ''model'') then tag ''span'' [child (opt_get h ''model'')] else dash_view,
        shown_if (truthy (opt_get h ''thinking_level'')) (Node ''Badge'' [(''variant'', lit ''muted''), (''title'', lit ''Thinking level'')]
          [label ''thinking '', child (opt_get h ''thinking_level'')])]],
      td_muted [Text (text_or (opt_get h ''provider'') dash)],
      td_num [Text (case as_number (opt_get h ''timeout_seconds'') of None \<Rightarrow> em_dash
        | Some n \<Rightarrow> format_duration dash (Num (num_mul n (num_int 1000))))],
      td [chip_in h ''preinstalled'' (styled ''Yes'' ''No'' ''success'' ''muted'')],
      td [pin_chips h], td [name_list [] (as_list (opt_get h ''packages''))], td [cache_chips h],
      td [name_list ''Environment variable name (value never returned)'' (as_list (opt_get h ''pass_env_names''))],
      td_muted [Text (text_or (opt_get h ''prompt_mode'') (js ''default''))]]"

definition table_head :: "string list \<Rightarrow> string list \<Rightarrow> view" where
  "table_head numeric ls = tag ''THead'' [tag ''TR''
     (map (\<lambda>l. Node ''TH'' [(''numeric'', JBool (l \<in> set numeric))] [label l]) ls)]"

definition table_empty :: "nat \<Rightarrow> string \<Rightarrow> jsval \<Rightarrow> view" where
  "table_empty n title description = Node ''TableEmpty'' [(''colSpan'', int_val (int n)), (''title'', lit title),
     (''description'', description)] []"

definition harness_table :: "jsval \<Rightarrow> string \<Rightarrow> view" where
  "harness_table hs empty_text = Node ''Table'' [(''aria-label'', lit ''Agent harness inventory'')]
     [table_head [''Timeout''] [''Harness'', ''Type'', ''Model'', ''Provider'', ''Timeout'', ''Preinstalled'', ''Pinning'', ''Packages'',
        ''Cache / provider files'', ''Pass env'', ''Prompt mode''],
      tag ''tbody'' (if as_list hs = [] then [table_empty 11 ''No harnesses configured''
          (js_or (lit empty_text) (lit ''factory.toml does not define any agent harnesses.''))]
        else map harness_row (as_list hs))]"

definition step_row :: "jsval \<Rightarrow> view" where
  "step_row s = tag ''TR''
     [td [tag ''div'' [Text (text_or (opt_get s ''id'') (js ''step''))],
        shown_if (truthy (opt_get s ''description'')) (tag ''p'' [child (opt_get s ''description'')]),
        shown_if (truthy (opt_get s ''dir'')) (Node ''p'' [(''title'', lit ''Working directory'')] [label ''cwd '', child (opt_get s ''dir'')])],
      td [tag ''span'' [Text (if as_list (opt_get s ''argv'') = [] then em_dash
        else join_with [32] (map (\<lambda>x. if nullish x then [] else to_str x) (as_list (opt_get s ''argv''))))]],
      td [chip_in s ''mandatory'' (styled ''Required'' ''Advisory'' ''info'' ''muted'')],
      td_num [Text (format_duration dash (opt_get s ''timeout_ms''))]]"

definition profile_view :: "jsval \<Rightarrow> view" where
  "profile_view p = (let steps = as_list (opt_get p ''steps''); n = length steps in
     tag ''div'' [tag ''div'' [tag ''span'' [Text (text_or (opt_get p ''name'') (js ''Unnamed profile''))],
         Node ''Badge'' [(''variant'', lit ''outline'')] [Text (dec_nat n @ js '' step'' @ (if n = 1 then [] else js ''s''))],
         tag ''span'' [label ''Runs before a change is accepted'']],
       Node ''Table'' [(''aria-label'', Str (js ''Verification profile '' @ text_or (opt_get p ''name'') [] @ js '' steps''))]
        [table_head [''Timeout''] [''Step'', ''Command'', ''Required'', ''Timeout''],
         tag ''tbody'' (if steps = [] then [table_empty 4 ''No steps'' (lit ''This profile has no verification steps.'')]
           else map step_row steps)]])"

definition verification_profiles :: "jsval \<Rightarrow> string \<Rightarrow> view" where
  "verification_profiles ps empty_text = (if as_list ps = [] then
       Node ''EmptyState'' [(''compact'', JBool True), (''title'', lit ''No verification profiles''),
         (''description'', js_or (lit empty_text) (lit ''factory.toml does not define a verification gate profile.''))] []
     else tag ''div'' (map profile_view (as_list ps)))"

section \<open>Section navigation\<close>

record observed =
  ob_target :: jstr
  ob_intersecting :: bool
  ob_ratio :: rat

text \<open>The observer's callback: the first of the visible sections with the greatest share.\<close>

definition ratio_order :: "observed \<Rightarrow> observed \<Rightarrow> int" where
  "ratio_order a b = (if ob_ratio b < ob_ratio a then - 1 else if ob_ratio a < ob_ratio b then 1 else 0)"

definition observe :: "observed list \<Rightarrow> jstr \<Rightarrow> jstr" where
  "observe os active = (case sort_cmp ratio_order (filter (\<lambda>e. ob_intersecting e \<and> ob_target e \<noteq> []) os) of
     [] \<Rightarrow> active | e # _ \<Rightarrow> ob_target e)"

definition nav_start :: "(jstr \<times> jstr) list \<Rightarrow> jstr" where
  "nav_start its = (case its of [] \<Rightarrow> [] | i # _ \<Rightarrow> fst i)"

text \<open>\<open>jump\<close>: nothing happens for an id that is not on the page.\<close>

definition jump :: "jstr set \<Rightarrow> jstr \<Rightarrow> jstr \<Rightarrow> jstr" where
  "jump on_page i active = (if i \<in> on_page then i else active)"

definition section_nav :: "string \<Rightarrow> (jstr \<times> jstr) list \<Rightarrow> jstr \<Rightarrow> view" where
  "section_nav l its active = (if its = [] then Blank
     else Node ''nav'' [(''aria-label'', lit l)] [tag ''div'' (map (\<lambda>(i, t). Node ''button''
       [(''type'', lit ''button''), (''aria-current'', if i = active then lit ''true'' else Undef)] [Text t]) its)])"

end
