(* ===== verification/Console_Settings.thy ===== *)
theory Console_Settings imports Console_Ops begin

text \<open>
  The settings page (\<open>pages/settings.jsx\<close>): the read-only projection of the operator's
  configuration, one definition per section. \<open>c\<close> is the answer of the catalog endpoint.
\<close>

section \<open>Helpers\<close>

definition SECTIONS :: "(string \<times> string) list" where
  "SECTIONS = [(''settings-infrastructure'', ''Infrastructure''), (''settings-repositories'', ''Repositories''),
     (''settings-scopes'', ''Scopes''), (''settings-harnesses'', ''Harnesses''), (''settings-models'', ''Models''),
     (''settings-egress'', ''Egress''), (''settings-workspaces'', ''Workspaces''), (''settings-budgets'', ''Budgets''),
     (''settings-verification'', ''Verification''), (''settings-review'', ''Review''), (''settings-hardening'', ''Hardening''),
     (''settings-intake'', ''Intake''), (''settings-sandbox'', ''Sandbox''), (''settings-limits'', ''Limits'')]"

definition code_list :: "jsval \<Rightarrow> string \<Rightarrow> view" where
  "code_list vs empty_label = (if as_list vs = [] then tag ''span'' [label empty_label]
     else tag ''div'' (map (\<lambda>v. Node ''Badge'' [(''variant'', lit ''outline'')] [Text (to_str v)]) (as_list vs)))"

definition muted :: "string \<Rightarrow> view" where "muted s = tag ''span'' [label s]"

definition repo_kind :: "jsval \<Rightarrow> string" where
  "repo_kind r = (let v = to_str (js_or r (Str [])) in
     if starts_with v (js ''local:'') then ''Local path'' else if starts_with v (js ''file:'') then ''File URL'' else ''Remote'')"

definition budget_cost :: "jsval \<Rightarrow> view" where
  "budget_cost v = (case as_number v of None \<Rightarrow> dash_view
     | Some n \<Rightarrow> if n = num_int 0 then muted ''No limit'' else tag ''span'' [Text (format_usd dash 2 (Num n))])"

definition budget_tokens :: "jsval \<Rightarrow> view" where
  "budget_tokens v = (case as_number v of None \<Rightarrow> dash_view
     | Some n \<Rightarrow> if num_le n (num_int 0) then muted ''No limit'' else tag ''span'' [Text (num_text n)])"

definition budget_wall_clock :: "jsval \<Rightarrow> view" where
  "budget_wall_clock v = (case as_number v of None \<Rightarrow> dash_view
     | Some n \<Rightarrow> if num_le n (num_int 0) then muted ''No limit'' else tag ''span'' [Text (format_duration dash (Num n))])"

definition settings_skeleton :: view where
  "settings_skeleton = tag ''div'' [tag ''Skeleton'' [], tag ''Skeleton'' [], tag ''Skeleton'' [],
     Node ''TableSkeleton'' [(''rows'', int_val 6), (''columns'', int_val 5)] [], tag ''div'' [tag ''Skeleton'' [], tag ''Skeleton'' []]]"

text \<open>\<open>asObject(v).k\<close>.\<close>

definition sub_object :: "jsval \<Rightarrow> string \<Rightarrow> jsval" where
  "sub_object c k = Obj (as_object (opt_get c k))"

definition name_col :: "string \<Rightarrow> string \<Rightarrow> column" where
  "name_col k l = render_col k l (\<lambda>r. tag ''span'' [Text (text_or (opt_get r k) dash)])"

definition or_muted :: "string \<Rightarrow> string \<Rightarrow> jsval \<Rightarrow> view" where
  "or_muted k m r = (if truthy (opt_get r k) then tag ''span'' [child (opt_get r k)] else muted m)"

definition codes_col :: "string \<Rightarrow> string \<Rightarrow> string \<Rightarrow> column" where
  "codes_col k l e = render_col k l (\<lambda>r. code_list (opt_get r k) e)"

definition chip_col :: "string \<Rightarrow> string \<Rightarrow> chip_style \<Rightarrow> column" where
  "chip_col k l st = render_col k l (\<lambda>r. chip_in r k st)"

definition hinted :: "string \<Rightarrow> ditem \<Rightarrow> ditem" where "hinted h d = d\<lparr>di_hint := js h\<rparr>"
definition wide :: "ditem \<Rightarrow> ditem" where "wide d = d\<lparr>di_span := ''full''\<rparr>"

definition texts_of :: "string \<Rightarrow> string \<Rightarrow> string \<Rightarrow> table_text" where
  "texts_of l e d = \<lparr>tt_label = l, tt_empty = e, tt_empty_text = lit d\<rparr>"

section \<open>The sections\<close>

definition about_card :: "clock \<Rightarrow> jsval \<Rightarrow> view" where
  "about_card ck c = tag ''Card''
     [Node ''CardHeader'' [(''title'', lit ''About this factory''),
        (''description'', lit ''Versions, schema and the configuration source for this console session.'')] [],
      metric_band [band_of ''Environment'' (opt_get c ''environment''), band_of ''Factory version'' (opt_get c ''factory_version''),
        band_of ''Console version'' (opt_get c ''console_version''),
        (band_of ''Config schema'' (opt_get c ''schema_version''))\<lparr>bi_hint := lit ''factory.toml schema version''\<rparr>],
      tag ''CardBody'' [ops_definition_list [mono_item ''Config path'' (opt_get c ''config_path''),
        hinted ''Configuration is loaded at server start; restart the factory to reload it.''
          (text_item ''Generated at'' (date_time_or ck (opt_get c ''generated_at'') em_dash))]]]"

definition infrastructure_section :: "jsval \<Rightarrow> view" where
  "infrastructure_section c =
     (let cube = sub_object c ''cube''; temporal = sub_object c ''temporal''; obs = sub_object c ''observability''; storage = sub_object c ''storage'';
          configured = styled ''Configured'' ''Not configured'' ''success'' in
      config_section ''settings-infrastructure'' ''Infrastructure''
        ''Redacted endpoints for sandbox, workflow, telemetry and evidence storage. Credential values are never returned.'' True
        [tag ''div''
          [config_panel ''CubeSandbox'' [ops_definition_list
             [mono_item ''API URL'' (opt_get cube ''api_url''), mono_item ''Template'' (opt_get cube ''template_id''),
              mono_item ''Proxy'' (opt_get cube ''proxy''), item_of ''Version'' (Raw (opt_get cube ''version'')),
              hinted ''Presence only; the credential value never leaves the server.''
                (chip_item ''Credentials'' (configured ''muted'') (opt_get cube ''credentials_configured''))]],
           config_panel ''Temporal'' [ops_definition_list
             [mono_item ''Host:port'' (opt_get temporal ''host_port''), mono_item ''Namespace'' (opt_get temporal ''namespace''),
              mono_item ''Task queue'' (opt_get temporal ''task_queue''),
              chip_item ''TLS'' (styled ''Enabled'' ''Disabled'' ''success'' ''warning'') (opt_get temporal ''tls''),
              hinted ''Environment variable name only.'' (mono_item ''API key env'' (opt_get temporal ''api_key_env'')),
              chip_item ''Payload keyring'' (configured ''muted'') (opt_get temporal ''payload_keyring_configured'')]],
           config_panel ''Observability'' [ops_definition_list
             [chip_item ''OTLP export'' (configured ''warning'') (opt_get obs ''otel_configured''),
              mono_item ''Service name'' (opt_get obs ''service_name'')]],
           config_panel ''Evidence storage'' [ops_definition_list
             [mono_item ''Data directory'' (opt_get storage ''data_dir''),
              text_item ''Runs on disk'' (format_number False em_dash (opt_get storage ''run_count'')),
              text_item ''Changes on disk'' (format_number False em_dash (opt_get storage ''change_count''))]]]])"

definition repositories_section :: "jsval \<Rightarrow> view" where
  "repositories_section c = config_section ''settings-repositories'' ''Repository allowlist''
     ''Repositories the factory will accept work for. Anything else is refused at run start.'' False
     [config_table (texts_of ''Repository allowlist'' ''No repositories allowlisted''
          ''The factory will refuse all work until at least one repository is configured.'')
        [render_col ''repository'' ''Repository'' (\<lambda>r. tag ''span'' [child (opt_get r ''repository'')]),
         render_col ''kind'' ''Kind'' (\<lambda>r. Node ''Badge'' [(''variant'', lit ''outline'')] [label (repo_kind (opt_get r ''repository''))])]
        (map (\<lambda>v. Obj [(js ''repository'', v)]) (as_list (opt_get c ''repositories'')))]"

definition scopes_section :: "jsval \<Rightarrow> view" where
  "scopes_section c = config_section ''settings-scopes'' ''Scopes''
     ''Tenancy boundaries. Unset fields inherit the global policy; a scope can narrow the policy but never widen it.'' False
     [config_table (texts_of ''Scopes'' ''No scopes configured'' ''A default scope is required before runs can start.'')
        [name_col ''name'' ''Scope'', render_col ''egress'' ''Egress'' (or_muted ''egress'' ''Inherited''),
         render_col ''model'' ''Model'' (or_muted ''model'' ''Inherited''),
         render_col ''workspace'' ''Workspace'' (or_muted ''workspace'' ''Inherited''),
         render_col ''budget'' ''Budget'' (or_muted ''budget'' ''No budget''),
         codes_col ''harnesses'' ''Harnesses'' ''All harnesses'',
         chip_col ''review'' ''Review'' ((styled ''Review required'' ''Review skipped'' ''info'' ''muted'')\<lparr>unknown_label := ''Inherit global''\<rparr>)]
        (as_list (opt_get c ''scopes''))]"

definition models_section :: "jsval \<Rightarrow> view" where
  "models_section c = config_section ''settings-models'' ''Models''
     ''Model catalog entries. API keys are referenced by environment variable name only.'' False
     [config_table (texts_of ''Model catalog'' ''No model catalog entries''
          ''Model resolution is inherited from scope and harness configuration; no explicit model catalog is configured.'')
        [name_col ''name'' ''Name'', render_col ''provider'' ''Provider'' (\<lambda>r. Text (text_or (opt_get r ''provider'') dash)),
         mono_col ''model'' ''Model'', mono_col ''base_url'' ''Base URL'', mono_col ''api_key_env'' ''API key env'',
         codes_col ''scopes'' ''Scopes'' ''Any scope'']
        (as_list (opt_get c ''models''))]"

definition egress_section :: "jsval \<Rightarrow> view" where
  "egress_section c = config_section ''settings-egress'' ''Egress policies''
     ''Named network policies the sandbox may be granted. Hosts are listed, never credentials.'' False
     [config_table (texts_of ''Egress policies'' ''No egress policies'' ''Sandboxes run without a named egress policy.'')
        [name_col ''name'' ''Policy'',
         chip_col ''allow_internet'' ''Internet'' ((styled ''Allowed'' ''Blocked'' ''warning'' ''success'')\<lparr>unknown_label := ''Not set''\<rparr>),
         codes_col ''allow_out'' ''Allow out'' ''Nothing'', codes_col ''deny_out'' ''Deny out'' ''Nothing'',
         (plain_col ''summary'' ''Summary'')\<lparr>cl_muted := True\<rparr>]
        (as_list (opt_get c ''egress''))]"

definition workspaces_section :: "jsval \<Rightarrow> view" where
  "workspaces_section c = (let yes = styled ''Yes'' ''No'' ''success'' ''muted'' in
     config_section ''settings-workspaces'' ''Workspaces''
     ''Sandbox workspace presets: templates, base packages and setup scripts.'' False
     [config_table (texts_of ''Workspaces'' ''No workspace presets''
          ''Runs use the default sandbox template without extra packages or setup scripts.'')
        [name_col ''name'' ''Workspace'', mono_col ''template'' ''Template'', codes_col ''base_packages'' ''Base packages'' ''None'',
         chip_col ''snapshot_configured'' ''Snapshot'' yes, chip_col ''repository_cache'' ''Repo cache'' yes,
         chip_col ''setup_script_configured'' ''Setup script'' yes]
        (as_list (opt_get c ''workspaces''))])"

definition num_col :: "string \<Rightarrow> string \<Rightarrow> (jsval \<Rightarrow> view) \<Rightarrow> column" where
  "num_col k l f = (render_col k l (\<lambda>r. f (opt_get r k)))\<lparr>cl_numeric := True\<rparr>"

definition budgets_section :: "jsval \<Rightarrow> view" where
  "budgets_section c = config_section ''settings-budgets'' ''Budgets'' ''Spend ceilings. A zero value disables that ceiling.'' False
     [config_table (texts_of ''Budgets'' ''No budgets configured'' ''Runs are not capped by a configured spend budget.'')
        [name_col ''name'' ''Budget'', num_col ''max_cost_usd'' ''Max cost'' budget_cost,
         num_col ''max_tokens'' ''Max tokens'' budget_tokens, num_col ''max_wall_clock_ms'' ''Max wall clock'' budget_wall_clock]
        (as_list (opt_get c ''budgets''))]"

definition review_section :: "jsval \<Rightarrow> view" where
  "review_section c = (let r = sub_object c ''review'' in
     config_section ''settings-review'' ''Human review''
     ''Global review gate. Scope-level overrides can change whether individual runs pause.'' True
     [shown_if (opt_get r ''enabled'' = JBool False) (ops_notice ''warning'' (js ''Review gate is disabled'') False []
        [label ''Runs will not pause for human approval, and review commands are unavailable until it is enabled.'']),
      ops_definition_list [chip_item ''Enabled'' (styled ''Enabled'' ''Disabled'' ''success'' ''warning'') (opt_get r ''enabled''),
        text_item ''Decision timeout'' (format_duration dash (opt_get r ''timeout_ms'')),
        hinted ''Checkpointing is honoured only when the sandbox provider supports suspend.''
          (chip_item ''Sandbox while paused'' (styled ''Checkpointed'' ''Kept live'' ''info'' ''muted'') (opt_get r ''suspend'')),
        wide (item_of ''Preview ports'' (Seen (code_list (Arr (map (\<lambda>p. Str (to_str p)) (as_list (opt_get r ''preview_ports'')))) ''None exposed'')))]])"

definition hardening_section :: "jsval \<Rightarrow> view" where
  "hardening_section c = (let h = sub_object c ''hardening''; enabled = styled ''Enabled'' ''Disabled'' ''success'' ''warning'' in
     config_section ''settings-hardening'' ''Hardening''
     ''Threat-model controls applied to every sandbox. These are configured intentions, not measured evidence.'' True
     [ops_definition_list
       [chip_item ''Egress probing'' enabled (opt_get h ''egress_probe_enabled''),
        chip_item ''Behavior monitoring'' enabled (opt_get h ''behavior_monitor_enabled''),
        item_of ''Trip severity'' (if truthy (opt_get h ''trip_severity'')
          then Seen (Node ''StatusPill'' [(''kind'', lit ''severity''), (''state'', opt_get h ''trip_severity''), (''size'', lit ''xs'')] [])
          else Raw Undef),
        chip_item ''Require non-root'' (styled ''Enforced'' ''Not enforced'' ''success'' ''warning'') (opt_get h ''require_non_root''),
        chip_item ''Open egress acknowledged'' (styled ''Acknowledged'' ''Strict'' ''warning'' ''success'') (opt_get h ''acknowledge_open_egress''),
        chip_item ''Gate self-modification'' (styled ''Allowed'' ''Blocked'' ''danger'' ''success'') (opt_get h ''allow_gate_self_modification''),
        chip_item ''Alert webhook'' (styled ''Configured'' ''Not configured'' ''success'' ''danger'') (opt_get h ''alert_webhook_configured''),
        text_item ''Alert timeout'' (format_duration dash (opt_get h ''alert_timeout_ms'')),
        wide (mono_item ''Egress canary URL'' (opt_get h ''egress_canary_url'')),
        wide (mono_item ''Metadata probe URL'' (opt_get h ''metadata_probe_url''))]])"

definition intake_section :: "jsval \<Rightarrow> view" where
  "intake_section c = (let i = sub_object c ''intake'' in
     config_section ''settings-intake'' ''Task intake''
     ''Bounded intake advisory: readiness, task type and ambiguity signals for incoming work.'' True
     [ops_definition_list [chip_item ''Enabled'' (styled ''Enabled'' ''Disabled'' ''success'' ''muted'') (opt_get i ''enabled''),
        mono_item ''Model'' (opt_get i ''model''), text_item ''Timeout'' (format_duration dash (opt_get i ''timeout_ms''))]])"

definition sandbox_section :: "jsval \<Rightarrow> view" where
  "sandbox_section c = (let s = sub_object c ''sandbox''; allowed = styled ''Allowed'' ''Closed'' ''warning'' ''success'' in
     config_section ''settings-sandbox'' ''Sandbox''
     ''Sandbox defaults. Attach and preview are closed by default; opening them is audited per run.'' True
     [ops_definition_list [chip_item ''Allow attach'' allowed (opt_get s ''allow_attach''),
        chip_item ''Allow preview'' allowed (opt_get s ''allow_preview''),
        chip_item ''Setup script'' (styled ''Configured'' ''Not configured'' ''info'' ''muted'') (opt_get s ''setup_script_configured''),
        item_of ''Base packages'' (Seen (code_list (opt_get s ''base_packages'') ''None'')),
        wide (item_of ''Runtime egress allow list'' (Seen (code_list (opt_get s ''runtime_allow_out'') ''Empty'')))]])"

section \<open>The page\<close>

definition settings_header :: "clock \<Rightarrow> jsval \<Rightarrow> bool \<Rightarrow> view" where
  "settings_header ck c refreshing = Node ''PageHeader''
     [(''eyebrow'', Str (js ''Governance '' @ middot @ js '' Settings'')), (''title'', lit ''Operator configuration''),
      (''description'', lit ''Read-only projection of the loaded factory configuration. Credentials and secret values are never returned by the console; mutating actions stay in the factory CLI.'')]
     [slot ''meta'' [Node ''Badge'' [(''variant'', lit ''outline'')] [label ''Read-only''],
        shown_if (truthy (opt_get c ''environment'')) (Node ''Badge'' [(''variant'', lit ''muted'')] [child (opt_get c ''environment'')]),
        tag ''span'' [label ''Schema v'', Text (text_or (opt_get c ''schema_version'') em_dash)], dot_sep,
        tag ''span'' [label ''Generated '', Text (date_time_or ck (opt_get c ''generated_at'') em_dash)]],
      slot ''actions'' [button [(''loading'', JBool refreshing)] ''Refresh'']]"

definition failed_notice :: "string \<Rightarrow> jstr \<Rightarrow> request_error \<Rightarrow> view" where
  "failed_notice t title e = ops_notice t title True [button [] ''Retry'']
     [child (error_text e ''The catalog endpoint could not be reached.'')]"

definition settings_footer :: "clock \<Rightarrow> jsval \<Rightarrow> view" where
  "settings_footer ck c = tag ''Card'' [tag ''CardBody''
     [tag ''span'' [Text (js ''Read-only '' @ middot @ js '' values redacted server-side'')],
      shown_if (text_or (opt_get c ''config_path'') [] \<noteq> []) (tag ''span'' [label ''Source '', tag ''span'' [Text (text_or (opt_get c ''config_path'') [])]]),
      tag ''span'' [label ''Schema v'', Text (text_or (opt_get c ''schema_version'') em_dash)],
      tag ''span'' [label ''Generated '', Text (date_time_or ck (opt_get c ''generated_at'') em_dash)],
      tag ''span'' [Node ''a'' [(''href'', lit ''#/operations'')] [label ''Open live operations'']]]]"

definition settings_body :: "clock \<Rightarrow> jsval \<Rightarrow> jstr \<Rightarrow> view list" where
  "settings_body ck c active =
     [about_card ck c, section_nav ''Configuration sections'' (map (\<lambda>(i, l). (js i, js l)) SECTIONS) active,
      infrastructure_section c, repositories_section c, scopes_section c,
      config_section ''settings-harnesses'' ''Agent harnesses''
        ''Configured agent adapters. Environment variable values are never returned; only names are shown.'' False
        [harness_table (opt_get c ''harnesses'') ''factory.toml does not define any agent harnesses.''],
      models_section c, egress_section c, workspaces_section c, budgets_section c,
      config_section ''settings-verification'' ''Verification profiles''
        ''Deterministic gates executed inside the sandbox after the agent. Mandatory steps must pass.'' True
        [verification_profiles (opt_get c ''verification_profiles'') ''factory.toml does not define a verification gate profile.''],
      review_section c, hardening_section c, intake_section c, sandbox_section c,
      config_section ''settings-limits'' ''Limits''
        ''Configured caps for command output, evidence, timeouts and sandbox resources.'' True [limits_grid (sub_object c ''limits'')],
      settings_footer ck c]"

definition settings_notices :: "jsval \<Rightarrow> request_error option \<Rightarrow> bool \<Rightarrow> view list" where
  "settings_notices data err_opt has_data =
     (let ws = as_list (opt_get data ''warnings''); n = length ws in
      [ops_notice ''info'' (js ''Read-only configuration'') False []
         [label ''This console exposes configuration for inspection only. It cannot modify '', tag ''span'' [label ''factory.toml''],
          label '', and credential values, model API keys and harness environment values are never returned '', Text em_dash,
          label '' only names and presence flags. To change configuration, edit '',
          tag ''span'' [label ''factory.toml''], label '' and restart the factory. Review decisions remain in the factory CLI.''],
       case err_opt of None \<Rightarrow> Blank
         | Some e \<Rightarrow> if has_data then failed_notice ''warning'' (js ''Live refresh failed '' @ em_dash @ js '' showing the last successful snapshot'') e
             else failed_notice ''danger'' (js ''Configuration could not be loaded'') e,
       shown_if (ws \<noteq> []) (ops_notice ''warning'' (dec_nat n @ js '' configuration warning'' @ (if n = 1 then [] else js ''s'')) False []
         [tag ''ul'' (map (\<lambda>w. tag ''li'' [child w]) ws)])])"

definition settings_page :: "clock \<Rightarrow> jsval \<Rightarrow> request_error option \<Rightarrow> bool \<Rightarrow> jstr \<Rightarrow> view" where
  "settings_page ck data err_opt loading active =
     (let has_data = truthy data in tag ''div'' [settings_header ck data (loading \<and> has_data),
        tag ''div'' (settings_notices data err_opt has_data
          @ [shown_if (\<not> has_data \<and> loading) settings_skeleton]
          @ (if has_data then settings_body ck data active else []))])"

end
