(* ===== verification/Console_Palette.thy ===== *)
theory Console_Palette imports Console_Lists begin

text \<open>
  The two menus that follow links of the API: the command palette
  (\<open>layout/command-palette.jsx\<close>) and the attention menu (\<open>layout/attention-menu.jsx\<close>),
  with \<open>layout/use-dismiss.js\<close> and \<open>layout/platform.js\<close>. \<open>encodeURIComponent\<close> throws on a
  lone surrogate; where an id is encoded, \<open>None\<close> is that exception.
\<close>

definition dot_join :: "jsval list \<Rightarrow> jstr" where
  "dot_join vs = join_with ([32] @ middot @ [32]) (map to_str (filter truthy vs))"

text \<open>\<open>v.a || v.b || ... || ""\<close>.\<close>

definition first_of :: "jsval \<Rightarrow> string list \<Rightarrow> jsval" where
  "first_of v ks = foldr (\<lambda>k r. js_or (opt_get v k) r) ks (Str [])"

section \<open>Search results\<close>

record entry =
  e_id :: jstr
  e_kind :: jstr
  e_title :: jsval
  e_subtitle :: jsval
  e_state :: jsval
  e_href :: jstr
  e_mono :: bool

definition nav_entry :: "jstr \<Rightarrow> nav_item \<Rightarrow> entry" where
  "nav_entry grp i = \<lparr>e_id = js ''nav:'' @ item_id i, e_kind = js ''nav'', e_title = Str (item_label i),
     e_subtitle = Str grp, e_state = Str [], e_href = js ''#/'' @ item_id i, e_mono = False\<rparr>"

definition STATIC_ENTRIES :: "entry list" where
  "STATIC_ENTRIES = concat (map (\<lambda>(g, is). map (nav_entry g) is) NAV_GROUPS)"

definition entry_from_run :: "clock \<Rightarrow> jnum \<Rightarrow> jsval \<Rightarrow> jsval" where
  "entry_from_run ck now raw = (let i = opt_get raw ''run_id'' in
     if \<not> truthy raw \<or> \<not> truthy i then Null
     else Obj [(js ''kind'', lit ''run''), (js ''id'', i), (js ''title'', i),
       (js ''subtitle'', Str (dot_join
          [Str (if truthy (opt_get raw ''repository'') then repo_label (opt_get raw ''repository'') else []),
           opt_get raw ''agent_harness'',
           Str (if truthy (opt_get raw ''started_at'') then time_ago ck now (opt_get raw ''started_at'') else [])])),
       (js ''status'', first_of raw [''factory_result'', ''state'', ''agent_result'']),
       (js ''href'', opt_get raw ''href'')])"

definition entry_from_change :: "jsval \<Rightarrow> jsval" where
  "entry_from_change raw = (let i = opt_get raw ''change_id'' in
     if \<not> truthy raw \<or> \<not> truthy i then Null
     else Obj [(js ''kind'', lit ''change''), (js ''id'', i), (js ''title'', i),
       (js ''subtitle'', Str (dot_join
          [Str (if truthy (opt_get raw ''repository'') then repo_label (opt_get raw ''repository'') else []),
           Str (truncate_text 64 (opt_get raw ''task_preview''))])),
       (js ''status'', first_of raw [''status'', ''last_result'']),
       (js ''href'', opt_get raw ''href'')])"

definition raw_entries :: "clock \<Rightarrow> jnum \<Rightarrow> jsval \<Rightarrow> jsval list" where
  "raw_entries ck now data = as_list (opt_get data ''results'')
     @ map (entry_from_run ck now) (as_list (opt_get data ''runs''))
     @ map entry_from_change (as_list (opt_get data ''changes''))"

definition raw_kind :: "jsval \<Rightarrow> jstr" where
  "raw_kind raw = to_lower (to_str (js_or (opt_get raw ''kind'') (Str [])))"

definition raw_id :: "jsval \<Rightarrow> jstr" where
  "raw_id raw = to_str (first_of raw [''id'', ''run_id'', ''change_id''])"

definition raw_key :: "jsval \<Rightarrow> jstr" where
  "raw_key raw = raw_kind raw @ [58] @ raw_id raw"

definition usable :: "jsval \<Rightarrow> bool" where
  "usable raw \<longleftrightarrow> truthy raw \<and> is_object raw \<and> raw_id raw \<noteq> []
     \<and> (raw_kind raw = js ''run'' \<or> raw_kind raw = js ''change'')"

definition result_entry :: "jsval \<Rightarrow> jstr \<Rightarrow> entry" where
  "result_entry raw link = (let title = js_or (opt_get raw ''title'') (Str (raw_id raw)) in
     \<lparr>e_id = raw_key raw, e_kind = raw_kind raw, e_title = title,
      e_subtitle = first_of raw [''subtitle'', ''description''], e_state = first_of raw [''status'', ''state''],
      e_href = normalize_href (opt_get raw ''href'') link, e_mono = (to_str title = raw_id raw)\<rparr>)"

definition collect_step :: "entry list option \<Rightarrow> jsval \<Rightarrow> entry list option" where
  "collect_step acc raw = (case acc of None \<Rightarrow> None
     | Some es \<Rightarrow> if \<not> usable raw \<or> raw_key raw \<in> set (map e_id es) then Some es
         else map_option (\<lambda>link. es @ [result_entry raw link]) (href_for (raw_kind raw) (raw_id raw)))"

definition collect_results :: "clock \<Rightarrow> jnum \<Rightarrow> jsval \<Rightarrow> (entry list \<times> entry list) option" where
  "collect_results ck now data =
     map_option (\<lambda>es. (filter (\<lambda>e. e_kind e = js ''run'') es, filter (\<lambda>e. e_kind e = js ''change'') es))
       (foldl collect_step (Some []) (raw_entries ck now data))"

section \<open>The palette\<close>

definition matches :: "jstr \<Rightarrow> entry \<Rightarrow> bool" where
  "matches lowered e \<longleftrightarrow> contains (to_lower (to_str (e_title e))) lowered
     \<or> contains (to_lower (to_str (e_subtitle e))) lowered"

definition nav_matches :: "jstr \<Rightarrow> entry list" where
  "nav_matches debounced_query = (let lowered = to_lower debounced_query in
     if lowered = [] then STATIC_ENTRIES else filter (matches lowered) STATIC_ENTRIES)"

definition palette_groups :: "jstr \<Rightarrow> entry list \<times> entry list \<Rightarrow> (string \<times> entry list) list" where
  "palette_groups debounced_query found = filter (\<lambda>(l, es). es \<noteq> [])
     ((''Navigate'', nav_matches debounced_query) #
      (if debounced_query = [] then [] else [(''Runs'', fst found), (''Changes'', snd found)]))"

text \<open>Consecutive numbers over all groups.\<close>

fun number_groups :: "nat \<Rightarrow> (string \<times> entry list) list \<Rightarrow> (string \<times> (nat \<times> entry) list) list" where
  "number_groups n [] = []"
| "number_groups n ((l, es) # gs) = (l, enumerate n es) # number_groups (n + length es) gs"

definition palette_items :: "(string \<times> entry list) list \<Rightarrow> entry list" where
  "palette_items gs = concat (map snd gs)"

record palette =
  pl_query :: jstr
  pl_active :: nat

datatype palette_act = Stay | Close | Go jstr

text \<open>\<open>activate\<close>: the palette closes, and the hash becomes the item's link.\<close>

definition activate :: "entry \<Rightarrow> palette_act" where
  "activate e = Go (normalize_href (Str (e_href e)) (js ''#/overview''))"

definition palette_key :: "entry list \<Rightarrow> string \<Rightarrow> palette \<Rightarrow> palette \<times> palette_act" where
  "palette_key its k p = (let n = length its; a = pl_active p in
     if k = ''ArrowDown'' \<or> k = ''ArrowUp'' then
       (if n = 0 then p else p\<lparr>pl_active := (if k = ''ArrowDown'' then a + 1 + n else a + n - 1) mod n\<rparr>, Stay)
     else if k = ''Home'' \<or> k = ''End'' then
       (if n = 0 then p else p\<lparr>pl_active := (if k = ''Home'' then 0 else n - 1)\<rparr>, Stay)
     else if k = ''Enter'' then (p, if a < n then activate (its ! a) else Stay)
     else if k = ''Escape'' then (p, Close)
     else (p, Stay))"

text \<open>The effects: on opening, on a new debounced query, and when the list got shorter.\<close>

definition palette_opened :: "palette \<Rightarrow> palette" where
  "palette_opened p = \<lparr>pl_query = [], pl_active = 0\<rparr>"

definition palette_searched :: "palette \<Rightarrow> palette" where
  "palette_searched p = p\<lparr>pl_active := 0\<rparr>"

definition palette_fit :: "entry list \<Rightarrow> palette \<Rightarrow> palette" where
  "palette_fit its p = (if length its \<le> pl_active p \<and> its \<noteq> [] then p\<lparr>pl_active := 0\<rparr> else p)"

definition palette_params :: "jstr \<Rightarrow> (jstr \<times> jsval) list" where
  "palette_params debounced_query = [(js ''q'', Str debounced_query), (js ''limit'', int_val 8)]"

definition palette_enabled :: "bool \<Rightarrow> jstr \<Rightarrow> bool" where
  "palette_enabled is_open debounced_query \<longleftrightarrow> is_open \<and> debounced_query \<noteq> []"

definition item_view :: "nat \<Rightarrow> nat \<times> entry \<Rightarrow> view" where
  "item_view active ie = (case ie of (i, e) \<Rightarrow>
     Node ''button'' [(''type'', lit ''button''), (''role'', lit ''option''), (''aria-selected'', JBool (i = active))]
       [tag ''span'' [tag ''span'' [child (e_title e)],
          shown_if (truthy (e_subtitle e)) (tag ''span'' [child (e_subtitle e)])],
        shown_if (e_kind e = js ''run'' \<and> truthy (e_state e))
          (Node ''StatusPill'' [(''kind'', lit ''run''), (''state'', e_state e), (''size'', lit ''xs'')] []),
        shown_if (e_kind e = js ''change'' \<and> truthy (e_state e))
          (Node ''StatusPill'' [(''kind'', lit ''change''), (''state'', e_state e), (''size'', lit ''xs'')] [])])"

definition group_view :: "nat \<Rightarrow> string \<times> (nat \<times> entry) list \<Rightarrow> view" where
  "group_view active g = Node ''div'' [(''role'', lit ''group''), (''aria-label'', lit (fst g))]
     (tag ''p'' [label (fst g)] # map (item_view active) (snd g))"

definition search_input :: "jstr \<Rightarrow> bool \<Rightarrow> bool \<Rightarrow> nat \<Rightarrow> view" where
  "search_input query searching has_results active = tag ''div''
     [Node ''input'' [(''type'', lit ''text''), (''role'', lit ''combobox''), (''aria-expanded'', lit ''true''),
        (''aria-activedescendant'', if has_results then Str (js ''-option-'' @ dec_nat active) else Undef),
        (''aria-autocomplete'', lit ''list''), (''aria-label'', lit ''Search runs, changes and pages''),
        (''value'', Str query), (''placeholder'', Str (js ''Search runs, changes and pages'' @ ellipsis))] [],
      shown_if searching (tag ''span'' []),
      if query \<noteq> [] then Node ''button'' [(''type'', lit ''button''), (''aria-label'', lit ''Clear search'')] []
      else Node ''span'' [(''aria-hidden'', lit ''true'')] [label ''esc'']]"

definition no_results :: "jstr \<Rightarrow> bool \<Rightarrow> view" where
  "no_results debounced_query failed = tag ''div''
     [tag ''p'' [Text (js ''No runs, changes or pages match '' @ quoted debounced_query)],
      tag ''p'' [label (if failed then ''Search is unavailable right now. Page shortcuts still work.''
        else ''Try a run id, change id, repository or page name.'')]]"

definition palette_footer :: "jstr \<Rightarrow> bool \<Rightarrow> jsval \<Rightarrow> nat \<Rightarrow> view" where
  "palette_footer debounced_query loading data n = tag ''div''
     [tag ''span'' [label ''navigate''], tag ''span'' [label ''open''],
      tag ''span'' [Node ''span'' [(''aria-hidden'', lit ''true'')] [label ''esc''], label ''close''],
      tag ''span'' [Text (if debounced_query = [] then js ''Runs '' @ middot @ js '' Changes '' @ middot @ js '' Pages''
        else if loading then js ''searching'' @ ellipsis
        else dec_nat n @ js '' result'' @ (if n = 1 then [] else js ''s'')
          @ (if is_finite (to_num (opt_get data ''duration_ms''))
             then [32] @ middot @ [32] @ to_str (opt_get data ''duration_ms'') @ js ''ms'' else []))]]"

definition searching_rows :: view where
  "searching_rows = Node ''div'' [(''role'', lit ''status''), (''aria-label'', lit ''Searching'')] (replicate 3 (tag ''div'' []))"

text \<open>The palette of an opened state: the answer of the search, its status, and the entries
  found in it.\<close>

definition command_palette :: "jstr \<Rightarrow> bool \<Rightarrow> bool \<Rightarrow> jsval \<Rightarrow> entry list \<times> entry list \<Rightarrow> palette \<Rightarrow> view" where
  "command_palette debounced_query loading failed data found p =
     (let gs = palette_groups debounced_query found; its = palette_items gs; searched = (debounced_query \<noteq> []) in
      Node ''div'' [] [Node ''div'' [(''aria-hidden'', lit ''true'')] [],
        Node ''div'' [(''role'', lit ''dialog''), (''aria-modal'', lit ''true''), (''aria-label'', lit ''Command palette'')]
          [search_input (pl_query p) (loading \<and> searched) (its \<noteq> []) (pl_active p),
           Node ''div'' [(''role'', lit ''listbox''), (''aria-label'', lit ''Command results'')]
             (if searched \<and> loading \<and> \<not> truthy data then [searching_rows]
              else if searched \<and> \<not> loading \<and> its = [] then [no_results debounced_query failed]
              else map (group_view (pl_active p)) (number_groups 0 gs)
                @ [shown_if (\<not> searched) (tag ''p'' [label ''Type to search the run and change index.''])]),
           palette_footer debounced_query loading data (length its)]])"

section \<open>The attention menu\<close>

definition attention_href :: "jsval \<Rightarrow> jstr option" where
  "attention_href i =
     (let explicit = first_of i [''href'', ''link'', ''url'']; run = first_of i [''run_id'', ''runID'', ''run''];
          change = first_of i [''change_id'', ''changeID'', ''change''] in
      if truthy explicit then Some (normalize_href explicit (js ''#/overview''))
      else if truthy run then href_for (js ''run'') (to_str run)
      else if truthy change then href_for (js ''change'') (to_str change)
      else Some (js ''#/reviews''))"

definition mentions :: "jstr \<Rightarrow> string list \<Rightarrow> bool" where
  "mentions kind ws \<longleftrightarrow> list_ex (\<lambda>w. contains kind (js w)) ws"

definition attention_tone :: "jsval \<Rightarrow> jstr \<Rightarrow> jstr" where
  "attention_tone i kind =
     (let severity = first_of i [''severity'', ''level'', ''max_severity''] in
      if truthy severity \<and> severity_tone severity \<noteq> js ''muted'' then severity_tone severity
      else if mentions kind [''security'', ''hardening'', ''egress''] then js ''security''
      else if mentions kind [''review'', ''paused'', ''awaiting''] then js ''warning''
      else if mentions kind [''cleanup'', ''sandbox''] then js ''warning''
      else js ''danger'')"

definition default_title :: "jstr \<Rightarrow> jstr" where
  "default_title kind = js (if mentions kind [''review'', ''paused''] then ''Run awaiting review''
     else if mentions kind [''security''] then ''Security finding''
     else if mentions kind [''cleanup'', ''sandbox''] then ''Sandbox cleanup needs attention''
     else ''Needs attention'')"

record attention =
  at_key :: jstr
  at_title :: jsval
  at_meta :: jsval
  at_href :: jstr
  at_tone :: jstr
  at_severity :: jsval
  at_time :: jsval

definition attention_of :: "jsval \<Rightarrow> nat \<Rightarrow> jstr \<Rightarrow> attention" where
  "attention_of i n link =
     (let kind = to_lower (to_str (first_of i [''kind'', ''type'', ''category'']));
          run = first_of i [''run_id'', ''runID'']; change = first_of i [''change_id'', ''changeID''];
          repository = Str (if truthy (opt_get i ''repository'') then repo_label (opt_get i ''repository'') else []) in
      \<lparr>at_key = (if kind = [] then js ''attention'' else kind) @ [58]
          @ to_str (js_or (js_or run change) (Str (dec_nat n))),
       at_title = js_or (first_of i [''title'', ''message'', ''summary'', ''label'']) (Str (default_title kind)),
       at_meta = js_or (first_of i [''description'', ''detail'']) (Str (dot_join [repository, js_or run change])),
       at_href = link, at_tone = attention_tone i kind,
       at_severity = first_of i [''severity'', ''max_severity''],
       at_time = first_of i [''at'', ''created_at'', ''timestamp'', ''since'']\<rparr>)"

text \<open>Outer \<open>None\<close>: thrown; inner \<open>None\<close>: not an object.\<close>

definition normalize_attention :: "jsval \<Rightarrow> nat \<Rightarrow> attention option option" where
  "normalize_attention i n = (if \<not> truthy i \<or> \<not> is_object i then Some None
     else map_option (\<lambda>link. Some (attention_of i n link)) (attention_href i))"

fun all_some :: "'a option list \<Rightarrow> 'a list option" where
  "all_some [] = Some []"
| "all_some (None # xs) = None"
| "all_some (Some x # xs) = map_option (Cons x) (all_some xs)"

definition attention_items :: "jsval \<Rightarrow> attention list option" where
  "attention_items data = map_option somes
     (all_some (map (\<lambda>(n, i). normalize_attention i n) (enumerate 0 (as_list (opt_get data ''attention'')))))"

definition finite_or_0 :: "jsval \<Rightarrow> jnum" where
  "finite_or_0 v = (if is_finite (to_num v) then to_num v else num_int 0)"

definition attention_count :: "jsval \<Rightarrow> jnum" where
  "attention_count v = num_min (num_or_0 v) (num_int 99)"

definition attention_row :: "clock \<Rightarrow> jnum \<Rightarrow> attention \<Rightarrow> view" where
  "attention_row ck now a = Node ''a'' [(''role'', lit ''menuitem''), (''href'', Str (at_href a))]
     [Node ''StatusDot'' [(''tone'', Str (at_tone a))] [],
      tag ''div'' [tag ''p'' [child (at_title a)], shown_if (truthy (at_meta a)) (tag ''p'' [child (at_meta a)])],
      tag ''div'' [shown_if (truthy (at_severity a)) (tag ''span'' [Text (title_case (at_severity a))]),
        shown_if (truthy (at_time a)) (tag ''span'' [Text (time_ago ck now (at_time a))])]]"

definition attention_skeleton :: view where
  "attention_skeleton = Node ''div'' [(''role'', lit ''status''), (''aria-label'', lit ''Loading attention queue'')]
     (replicate 3 (tag ''div'' []))"

definition attention_body :: "clock \<Rightarrow> jnum \<Rightarrow> attention list \<Rightarrow> bool \<Rightarrow> bool \<Rightarrow> view" where
  "attention_body ck now its loading failed =
     (if failed then tag ''div'' [tag ''p'' [label ''Attention feed unavailable''],
        tag ''p'' [label ''The overview endpoint did not answer. The rest of the console keeps working.''],
        Node ''button'' [(''type'', lit ''button'')] [label ''Retry'']]
      else if loading \<and> its = [] then attention_skeleton
      else if its = [] then tag ''div'' [tag ''p'' [label ''Nothing needs attention''],
        tag ''p'' [label ''Paused runs, security stops and review requests appear here.'']]
      else tag ''div'' (map (attention_row ck now) (take 12 its)))"

definition reviews_link :: "jsval \<Rightarrow> view" where
  "reviews_link reviews =
     (let pending = finite_or_0 (opt_get reviews ''value''); paused = finite_or_0 (opt_get reviews ''paused_live'');
          oldest = finite_or_0 (opt_get reviews ''oldest_wait_ms'') in
      Node ''a'' [(''href'', lit ''#/reviews''),
          (''title'', if positive paused then Str (num_to_string paused @ js '' paused run'' @ plural paused ''s'' @ js '' live'') else Undef)]
        [label ''Reviews'',
         Text (if positive pending then [32] @ middot @ [32] @ num_to_string pending @ js '' pending'' else []),
         Text (if positive oldest then [32] @ middot @ js '' oldest '' @ format_duration dash (Num oldest) else [])])"

definition attention_menu ::
  "clock \<Rightarrow> jnum \<Rightarrow> bool \<Rightarrow> attention list \<Rightarrow> bool \<Rightarrow> bool \<Rightarrow> jsval \<Rightarrow> jsval \<Rightarrow> jsval \<Rightarrow> view" where
  "attention_menu ck now is_open its loading failed health count_val reviews =
     (let n = attention_count count_val; tone = js_or (opt_get health ''tone'') (lit ''muted'') in
      tag ''div'' [Node ''button'' [(''type'', lit ''button''), (''aria-haspopup'', lit ''menu''), (''aria-expanded'', JBool is_open),
          (''aria-label'', Str (js ''Notifications'' @ (if positive n then js '': '' @ num_to_string n @ js '' needing attention'' else [])))]
        [if positive n then tag ''span'' [child (Num n)]
         else Node ''span'' [(''aria-hidden'', lit ''true''), (''tone'', tone)] []],
        shown_if is_open (Node ''div'' [(''role'', lit ''menu''), (''aria-label'', lit ''Attention and notifications'')]
          [tag ''div'' [Node ''StatusDot'' [(''tone'', tone), (''pulse'', JBool (tone = lit ''success''))] [],
             tag ''span'' [child (js_or (opt_get health ''label'') (lit ''Status unavailable''))], tag ''span'' [label ''Attention'']],
           attention_body ck now its loading failed,
           tag ''div'' [reviews_link reviews, Node ''a'' [(''href'', lit ''#/overview'')] [label ''Open overview'']]])])"

section \<open>Dismissing a panel\<close>

datatype dismiss_event = Down_outside | Down_inside | Doc_key string

text \<open>Whether the open panel is dismissed; nothing listens while it is closed.\<close>

fun dismisses :: "bool \<Rightarrow> dismiss_event \<Rightarrow> bool" where
  "dismisses is_open Down_outside = is_open"
| "dismisses is_open Down_inside = False"
| "dismisses is_open (Doc_key k) = (is_open \<and> k = ''Escape'')"

text \<open>The effect after a render: the new \<open>wasOpen\<close>, and whether the trigger is focused.\<close>

definition focus_effect :: "bool \<Rightarrow> bool \<Rightarrow> bool \<times> bool" where
  "focus_effect was_open is_open = (is_open, was_open \<and> \<not> is_open)"

definition is_mac :: "jstr \<Rightarrow> jstr \<Rightarrow> bool" where
  "is_mac platform user_agent \<longleftrightarrow> mentions (to_lower (platform @ [32] @ user_agent)) [''mac'', ''iphone'', ''ipad'', ''ipod'']"

definition modifier_key_label :: "jstr \<Rightarrow> jstr \<Rightarrow> jstr" where
  "modifier_key_label platform user_agent = (if is_mac platform user_agent then [8984] else js ''Ctrl'')"

end
