(* ===== verification/Console_Shell.thy ===== *)
theory Console_Shell imports Console_Palette Console_Ui begin

text \<open>
  The chrome of the console: global keys, overlays and health in \<open>layout/shell.jsx\<close>, the
  navigation of \<open>layout/sidebar.jsx\<close>, \<open>layout/topbar.jsx\<close> and \<open>layout/nav-icons.js\<close>, the operator
  menu, the shortcuts dialog, the login screen (\<open>pages/login.jsx\<close>), the error boundary and the
  routing of \<open>App.jsx\<close>.
\<close>

section \<open>The state of the shell\<close>

datatype overlay = Palette | Shortcuts | Nav

record shell =
  sh_overlay :: "overlay option"
  sh_attention :: bool
  sh_operator :: bool
  sh_pending :: bool \<comment> \<open>a \<open>g\<close> was typed\<close>
  sh_hash :: jstr

definition GO_VIEWS :: "jstr table" where
  "GO_VIEWS = table [(''o'', ''overview''), (''d'', ''dispatch''), (''r'', ''runs''), (''c'', ''changes''), (''v'', ''reviews''),
     (''s'', ''security''), (''p'', ''operations''), ('','', ''settings'')]"

definition NAV_SHORTCUTS :: "jstr table" where
  "NAV_SHORTCUTS = table [(''overview'', ''o''), (''dispatch'', ''d''), (''runs'', ''r''), (''changes'', ''c''), (''reviews'', ''v''),
     (''security'', ''s''), (''operations'', ''p''), (''settings'', '','')]"

record key_event =
  ke_key :: jstr
  ke_mod :: bool \<comment> \<open>Meta or Control\<close>
  ke_typing :: bool \<comment> \<open>\<open>isTypingTarget\<close> of the event's target\<close>

definition is_typing_target :: "bool \<Rightarrow> string \<Rightarrow> bool \<Rightarrow> bool" where
  "is_typing_target html_element tag_name editable \<longleftrightarrow>
     html_element \<and> (tag_name \<in> {''INPUT'', ''TEXTAREA'', ''SELECT''} \<or> editable)"

definition closed :: "shell \<Rightarrow> shell" where
  "closed s = s\<lparr>sh_overlay := None, sh_attention := False, sh_operator := False\<rparr>"

text \<open>The effect on a changed route.\<close>

definition route_effect :: "jstr \<Rightarrow> shell \<Rightarrow> shell" where
  "route_effect old s = (if route_from_hash (sh_hash s) = route_from_hash old then s else closed s)"

definition go_to :: "jstr \<Rightarrow> shell \<Rightarrow> shell" where
  "go_to v s = (case href_for v [] of Some h \<Rightarrow> route_effect (sh_hash s) (s\<lparr>sh_hash := h\<rparr>) | None \<Rightarrow> s)"

definition key_down :: "key_event \<Rightarrow> shell \<Rightarrow> shell" where
  "key_down e s =
     (let k = ke_key e; low = to_lower k in
      if ke_mod e \<and> low = js ''k'' then
        s\<lparr>sh_attention := False, sh_operator := False,
          sh_overlay := (if sh_overlay s = Some Palette then None else Some Palette)\<rparr>
      else if k = js ''Escape'' then (closed s)\<lparr>sh_pending := False\<rparr>
      else if sh_overlay s \<noteq> None \<or> sh_attention s \<or> sh_operator s then s
      else if ke_typing e then s\<lparr>sh_pending := False\<rparr>
      else if k = js ''/'' then s\<lparr>sh_overlay := Some Palette\<rparr>
      else if k = js ''?'' then s\<lparr>sh_overlay := Some Shortcuts\<rparr>
      else if low = js ''g'' then s\<lparr>sh_pending := True\<rparr>
      else if sh_pending s then
        (let s' = s\<lparr>sh_pending := False\<rparr> in
         case map_of GO_VIEWS low of Some v \<Rightarrow> go_to v s' | None \<Rightarrow> s')
      else s)"

datatype shell_event =
    Key_down key_event | Go_timeout | Open_overlay overlay | Close_overlay | Set_attention bool | Set_operator bool
  | Hash_change jstr

fun shell_step :: "shell \<Rightarrow> shell_event \<Rightarrow> shell" where
  "shell_step s (Key_down e) = key_down e s"
| "shell_step s Go_timeout = s\<lparr>sh_pending := False\<rparr>"
| "shell_step s (Open_overlay ov) = s\<lparr>sh_overlay := Some ov\<rparr>"
| "shell_step s Close_overlay = s\<lparr>sh_overlay := None\<rparr>"
| "shell_step s (Set_attention b) = s\<lparr>sh_attention := b\<rparr>"
| "shell_step s (Set_operator b) = s\<lparr>sh_operator := b\<rparr>"
| "shell_step s (Hash_change h) = route_effect (sh_hash s) (s\<lparr>sh_hash := h\<rparr>)"

section \<open>Health and counts\<close>

definition HEALTH :: "(jstr \<times> jstr \<times> jstr) list" where
  "HEALTH = map (\<lambda>(k, l, t). (js k, js l, js t))
     [(''operational'', ''Factory healthy'', ''success''), (''degraded'', ''Factory degraded'', ''warning''),
      (''attention'', ''Factory needs attention'', ''danger'')]"

definition health_meta :: "jsval \<Rightarrow> bool \<Rightarrow> bool \<Rightarrow> jstr \<times> jstr" where
  "health_meta data failed loading =
     (let st = to_lower (to_str (js_or (opt_get (opt_get data ''health'') ''status'') (Str []))) in
      if failed then (js ''Status unavailable'', js ''muted'')
      else if st = [] then (if \<not> truthy data \<and> loading then (js ''Checking status'' @ ellipsis, js ''muted'')
        else (js ''Health not reported'', js ''muted''))
      else case map_of HEALTH st of Some m \<Rightarrow> m | None \<Rightarrow> (js ''Factory '' @ st, js ''warning''))"

definition overview_reviews :: "jsval \<Rightarrow> jsval" where
  "overview_reviews data = js_or (opt_get (opt_get data ''kpis'') ''reviews'') (Obj [])"

definition reviews_pending :: "jsval \<Rightarrow> jnum" where
  "reviews_pending data = finite_or_0 (opt_get (overview_reviews data) ''value'')"

definition attention_badge :: "jsval \<Rightarrow> jnum" where
  "attention_badge data = (let n = length (as_list (opt_get data ''attention'')) in
     if n \<noteq> 0 then num_int (int n) else reviews_pending data)"

section \<open>The sidebar\<close>

definition ENVIRONMENT_LABEL :: "jstr table" where
  "ENVIRONMENT_LABEL = table [(''production'', ''Production''), (''staging'', ''Staging''), (''local'', ''Local''),
     (''development'', ''Development''), (''self_hosted'', ''Self-hosted'')]"

definition nav_link :: "jstr \<Rightarrow> nav_item \<Rightarrow> view" where
  "nav_link active i = tag ''li'' [Node ''a'' [(''href'', Str (js ''#/'' @ item_id i)),
       (''aria-current'', if active = item_id i then lit ''page'' else Undef)]
     [shown_if (active = item_id i) (Node ''span'' [(''aria-hidden'', lit ''true'')] []), tag ''span'' [Text (item_label i)],
      case map_of NAV_SHORTCUTS (item_id i) of None \<Rightarrow> Blank
      | Some k \<Rightarrow> Node ''span'' [(''aria-hidden'', lit ''true'')] [tag ''span'' [label ''g''], tag ''span'' [Text k]]]]"

definition nav_list :: "jstr \<Rightarrow> view" where
  "nav_list active = Node ''nav'' [(''aria-label'', lit ''Primary'')]
     (map (\<lambda>(l, its). tag ''div'' [tag ''p'' [Text l], Node ''ul'' [(''aria-label'', Str l)] (map (nav_link active) its)]) NAV_GROUPS)"

definition window_choices :: "choice list" where
  "window_choices = map (\<lambda>(i, l). \<lparr>c_value = Str i, c_label = Str l\<rparr>) WINDOW_OPTIONS"

definition theme_label :: "string \<Rightarrow> string" where
  "theme_label theme = (if theme = ''dark'' then ''Switch to light theme'' else ''Switch to dark theme'')"

definition mobile_controls :: "string \<Rightarrow> bool \<Rightarrow> jsval \<Rightarrow> view" where
  "mobile_controls theme auto w = tag ''div''
     [Node ''Select'' [(''label'', lit ''Time window''), (''ariaLabel'', lit ''Time window''), (''value'', w),
        (''options'', Arr (map choice_val window_choices))] [],
      tag ''div'' [Node ''button'' [(''type'', lit ''button''), (''aria-pressed'', JBool auto)] [tag ''span'' [label ''Auto-refresh'']],
        Node ''button'' [(''type'', lit ''button''), (''aria-label'', lit (theme_label theme))] []]]"

definition environment_label :: "jsval \<Rightarrow> jsval" where
  "environment_label session = (let env = opt_get session ''environment'' in
     case map_of ENVIRONMENT_LABEL (to_lower (to_str (js_or env (lit ''self-hosted'')))) of
       Some l \<Rightarrow> Str l | None \<Rightarrow> js_or env (lit ''Self-hosted''))"

definition system_card :: "jsval \<Rightarrow> jstr \<times> jstr \<Rightarrow> jnum \<Rightarrow> view" where
  "system_card session health pending =
     (let version = js_or (opt_get session ''factory_version'') (js_or (opt_get session ''version'') (lit ''unknown'')) in
      tag ''div'' [tag ''div'' [Node ''StatusDot'' [(''tone'', Str (snd health)), (''pulse'', JBool (snd health = js ''success''))] [],
          tag ''span'' [Text (fst health)], Node ''Badge'' [(''variant'', lit ''outline'')] [child (environment_label session)]],
        Node ''p'' [(''title'', Str (js ''factory '' @ to_str version))] [label ''factory '', child version],
        shown_if (positive pending) (Node ''a'' [(''href'', lit ''#/reviews'')]
          [tag ''span'' [child (Num pending), label (if pending = num_int 1 then '' review'' else '' reviews''), label '' awaiting decision'']])])"

definition sidebar_content ::
  "bool \<Rightarrow> jstr \<Rightarrow> jsval \<Rightarrow> jstr \<times> jstr \<Rightarrow> jnum \<Rightarrow> string \<Rightarrow> bool \<Rightarrow> jsval \<Rightarrow> view list" where
  "sidebar_content mobile active session health pending theme auto w =
     [tag ''div'' [tag ''div'' [tag ''p'' [label ''Factory Console''], tag ''p'' [label ''Engineering workspace'']],
        shown_if mobile (Node ''button'' [(''type'', lit ''button''), (''aria-label'', lit ''Close navigation'')] [])],
      nav_list active,
      tag ''div'' [shown_if mobile (mobile_controls theme auto w), system_card session health pending,
        Node ''button'' [(''type'', lit ''button'')] [label ''Shortcuts'', Node ''span'' [(''aria-hidden'', lit ''true'')] [label ''?'']]]]"

definition sidebar :: "bool \<Rightarrow> jstr \<Rightarrow> jsval \<Rightarrow> jstr \<times> jstr \<Rightarrow> jnum \<Rightarrow> string \<Rightarrow> bool \<Rightarrow> jsval \<Rightarrow> view" where
  "sidebar mobile_open vw session health pending theme auto w =
     (let content = \<lambda>m. sidebar_content m (active_nav_item vw) session health pending theme auto w in
      fragment [tag ''aside'' (content False),
        shown_if mobile_open (tag ''div'' [Node ''div'' [(''aria-hidden'', lit ''true'')] [],
          Node ''div'' [(''role'', lit ''dialog''), (''aria-modal'', lit ''true''), (''aria-label'', lit ''Navigation'')] (content True)])])"

section \<open>The top bar\<close>

definition breadcrumbs :: "route \<Rightarrow> view" where
  "breadcrumbs r =
     (let active = active_nav_item (route_view r); grp = List.find (\<lambda>(l, its). list_ex (\<lambda>i. item_id i = active) its) NAV_GROUPS;
          item = (case grp of None \<Rightarrow> None | Some (l, its) \<Rightarrow> List.find (\<lambda>i. item_id i = active) its);
          l = (case item of None \<Rightarrow> js ''Overview'' | Some i \<Rightarrow> item_label i);
          detail = (route_view r = js ''run'' \<or> route_view r = js ''change'') in
      fragment [Node ''nav'' [(''aria-label'', lit ''Breadcrumb'')] [tag ''ol''
          ([case grp of None \<Rightarrow> Blank | Some (gl, its) \<Rightarrow> tag ''li'' [Text gl], Node ''li'' [(''aria-hidden'', lit ''true'')] [],
            tag ''li'' [if detail then Node ''a'' [(''href'', Str (js ''#/'' @ active))] [Text l]
              else Node ''span'' [(''aria-current'', lit ''page'')] [Text l]]]
           @ (if detail then [Node ''li'' [(''aria-hidden'', lit ''true'')] [],
                tag ''li'' [Node ''span'' [(''title'', Str (route_id r))] [Text (route_id r)]]] else []))],
        tag ''span'' [Text l]])"

definition topbar :: "jstr \<Rightarrow> route \<Rightarrow> jsval \<Rightarrow> bool \<Rightarrow> bool \<Rightarrow> jstr \<Rightarrow> string \<Rightarrow> view \<Rightarrow> view \<Rightarrow> view" where
  "topbar modifier r w auto refreshing updated theme attention operator =
     (let icon_button = \<lambda>ps vs. Node ''button'' ((''type'', lit ''button'') # ps) vs in
      tag ''header'' [Node ''div'' [(''aria-hidden'', lit ''true'')] [], shown_if refreshing (Node ''div'' [(''aria-hidden'', lit ''true'')] [tag ''div'' []]),
        tag ''div''
         [icon_button [(''id'', lit ''console-nav-trigger''), (''aria-label'', lit ''Open navigation'')] [], tag ''div'' [breadcrumbs r],
          tag ''div''
           [icon_button [(''aria-label'', lit ''Open command palette''), (''aria-keyshortcuts'', lit ''Meta+K Control+K'')]
              [tag ''span'' [Text (js ''Jump to'' @ ellipsis)], Node ''span'' [(''aria-hidden'', lit ''true'')]
                 [Text (if modifier = [8984] then [8984] @ js ''K'' else js ''Ctrl K'')]],
            Node ''Select'' [(''ariaLabel'', lit ''Time window''), (''value'', w), (''options'', Arr (map choice_val window_choices))] [],
            icon_button [(''aria-label'', lit ''Refresh console data''),
                (''title'', Str (if updated \<noteq> [] then js ''Last updated '' @ updated else js ''Not yet synced''))]
              [tag ''span'' [Text (if updated \<noteq> [] then js ''Updated '' @ updated else js ''Not yet synced'')]],
            icon_button [(''aria-pressed'', JBool auto), (''aria-label'', lit (if auto then ''Disable auto-refresh'' else ''Enable auto-refresh'')),
                (''title'', lit (if auto then ''Auto-refresh is on (30s)'' else ''Auto-refresh is off''))]
              [shown_if auto (Node ''span'' [(''aria-hidden'', lit ''true'')] [])],
            attention,
            icon_button [(''aria-label'', lit (theme_label theme)), (''title'', lit (theme_label theme))] [],
            operator]]])"

section \<open>The operator menu\<close>

definition capability_list :: "jsval \<Rightarrow> jstr list" where
  "capability_list session = (case opt_get session ''capabilities'' of
     Arr xs \<Rightarrow> map to_str xs
   | Obj ps \<Rightarrow> map fst (filter (\<lambda>(k, v). v = JBool True) ps)
   | _ \<Rightarrow> [])"

definition meta_row :: "string \<Rightarrow> jsval \<Rightarrow> view" where
  "meta_row l v = tag ''div'' [tag ''dt'' [label l], Node ''dd'' [(''title'', v)] [child v]]"

definition uptime_label :: "jsval \<Rightarrow> jstr" where
  "uptime_label session = (let u = to_num (opt_get session ''uptime_seconds'') in
     if is_finite u then format_duration dash (Num (num_mul u (num_int 1000))) else js ''not reported'')"

definition capability_badges :: "jsval \<Rightarrow> view list" where
  "capability_badges session =
     (let cs = capability_list session; vis = take 4 cs; extra = length cs - length vis;
          one = \<lambda>vs. Node ''Badge'' [(''variant'', lit ''muted'')] vs in
      (if vis = [] then [one [label ''read-only'']] else map (\<lambda>c. one [Text c]) vis)
      @ [shown_if (0 < extra) (one [label ''+'', Text (dec_nat extra)])])"

definition operator_menu :: "bool \<Rightarrow> jsval \<Rightarrow> string \<Rightarrow> view" where
  "operator_menu is_open session theme =
     (let operator = js_or (opt_get session ''operator'') (Obj []);
          nm = js_or (opt_get operator ''name'') (lit ''Operator''); role = js_or (opt_get operator ''role'') (lit ''Read-only operator'');
          environment = js_or (opt_get session ''environment'') (lit ''self-hosted'') in
      tag ''div'' [Node ''button'' [(''type'', lit ''button''), (''aria-haspopup'', lit ''dialog''), (''aria-expanded'', JBool is_open),
          (''aria-label'', Str (js ''Operator menu: '' @ to_str nm))] [Node ''Avatar'' [(''name'', nm)] [], tag ''span'' [child nm]],
        shown_if is_open (Node ''div'' [(''role'', lit ''dialog''), (''aria-label'', lit ''Operator and session details'')]
          [tag ''div'' [Node ''Avatar'' [(''name'', nm)] [], tag ''div'' [tag ''p'' [child nm], tag ''p'' [child role],
             Node ''Badge'' [(''variant'', lit ''outline'')] [child environment]]],
           tag ''div'' [tag ''dl'' [meta_row ''Environment'' environment,
             meta_row ''Console'' (js_or (opt_get session ''version'') (lit ''unknown'')),
             meta_row ''Factory'' (js_or (opt_get session ''factory_version'') (lit ''unknown'')),
             meta_row ''Server time'' (js_or (opt_get session ''server_time'') (lit ''not reported'')),
             meta_row ''Uptime'' (Str (uptime_label session))]],
           tag ''div'' [tag ''p'' [label ''Capabilities''], tag ''div'' (capability_badges session)],
           tag ''div'' [Node ''button'' [(''type'', lit ''button'')] [label (theme_label theme)],
             Node ''button'' [(''type'', lit ''button'')] [label ''Keyboard shortcuts'', Node ''span'' [(''aria-hidden'', lit ''true'')] [label ''?'']]]])])"

section \<open>The shortcuts dialog\<close>

definition shortcut_row :: "jstr \<Rightarrow> jstr list \<Rightarrow> view" where
  "shortcut_row l ks = tag ''div'' [tag ''span'' [Text l],
     tag ''span'' (map (\<lambda>k. Node ''span'' [(''aria-hidden'', lit ''true'')] [Text k]) ks)]"

definition navigate_rows :: "view list" where
  "navigate_rows = map (\<lambda>i. shortcut_row (item_label i)
     [js ''g'', case map_of NAV_SHORTCUTS (item_id i) of Some k \<Rightarrow> k | None \<Rightarrow> js ''?'']) (concat (map snd NAV_GROUPS))"

definition shortcuts_dialog :: "bool \<Rightarrow> jstr \<Rightarrow> view" where
  "shortcuts_dialog is_open modifier = shown_if is_open (tag ''div'' [Node ''div'' [(''aria-hidden'', lit ''true'')] [],
     Node ''div'' [(''role'', lit ''dialog''), (''aria-modal'', lit ''true''), (''aria-labelledby'', lit ''shortcuts-title'')]
      [tag ''div'' [Node ''h2'' [(''id'', lit ''shortcuts-title'')] [label ''Keyboard shortcuts''],
         Node ''button'' [(''type'', lit ''button''), (''aria-label'', lit ''Close keyboard shortcuts'')] []],
       tag ''div''
        [tag ''p'' [label ''General''],
         tag ''div'' [shortcut_row (js ''Command palette'') [modifier, js ''K''], shortcut_row (js ''Search runs and changes'') [js ''/''],
           shortcut_row (js ''Show this reference'') [js ''?''], shortcut_row (js ''Close overlay or menu'') [js ''Esc'']],
         tag ''p'' [label ''Navigate''], tag ''div'' navigate_rows,
         tag ''p'' [label ''Command palette''],
         tag ''div'' [shortcut_row (js ''Move selection'') [[8593], [8595]], shortcut_row (js ''Open selected result'') [[8629]],
           shortcut_row (js ''Jump to first / last'') [js ''Home'', js ''End'']]],
       tag ''div'' [label ''Navigation shortcuts pause while you are typing in a field.'']]])"

section \<open>Login\<close>

record login_form =
  lf_token :: jstr
  lf_visible :: bool
  lf_busy :: bool

definition empty_login :: login_form where "empty_login = \<lparr>lf_token = [], lf_visible = False, lf_busy = False\<rparr>"

text \<open>\<open>submit\<close>: the token handed to \<open>onLogin\<close>, if any.\<close>

definition login_submit :: "login_form \<Rightarrow> login_form \<times> jstr option" where
  "login_submit f = (let v = trim (lf_token f) in
     if v = [] \<or> lf_busy f then (f, None) else (f\<lparr>lf_busy := True\<rparr>, Some v))"

definition login_settled :: "login_form \<Rightarrow> login_form" where "login_settled f = f\<lparr>lf_busy := False\<rparr>"
definition toggle_visible :: "login_form \<Rightarrow> login_form" where "toggle_visible f = f\<lparr>lf_visible := \<not> lf_visible f\<rparr>"

definition login_key :: "string \<Rightarrow> login_form \<Rightarrow> login_form" where
  "login_key k f = (if k = ''Escape'' then f\<lparr>lf_token := []\<rparr> else f)"

definition FEATURES :: "(string \<times> string) list" where
  "FEATURES =
    [(''Read-only by construction'', ''No mutation path exists from this surface. Decisions stay in the authenticated CLI.''),
     (''Evidence, not estimates'', ''Every metric derives from the durable run and change artifact store.''),
     (''Tab-scoped credentials'', ''The read token is held in sessionStorage for this browser tab only.'')]"

definition brand_lockup :: view where
  "brand_lockup = tag ''div'' [tag ''div'' [tag ''span'' [label ''ESF'']],
     tag ''div'' [tag ''p'' [label ''Engineering Software Factory''], tag ''p'' [label ''Enterprise operator console'']]]"

definition login_form_view :: "jstr \<Rightarrow> login_form \<Rightarrow> view" where
  "login_form_view problem f = tag ''form''
     [Node ''label'' [(''htmlFor'', lit ''console-token'')] [label ''Access token''],
      tag ''div''
       [Node ''Input'' [(''id'', lit ''console-token''), (''type'', lit (if lf_visible f then ''text'' else ''password'')), (''value'', Str (lf_token f)),
          (''autoComplete'', lit ''off''), (''placeholder'', lit ''32+ character read token''), (''aria-describedby'', lit ''token-help''),
          (''invalid'', JBool (problem \<noteq> []))] [],
        Node ''button'' [(''type'', lit ''button''), (''aria-label'', lit (if lf_visible f then ''Hide token'' else ''Show token'')),
          (''aria-pressed'', JBool (lf_visible f))] []],
      Node ''p'' [(''id'', lit ''token-help'')] [label ''Set with '', tag ''span'' [label ''--read-token-file''], label '' when starting '',
        tag ''span'' [label ''factory console''], label ''.''],
      shown_if (problem \<noteq> []) (Node ''div'' [(''role'', lit ''alert'')] [tag ''span'' [Text problem]]),
      Node ''Button'' [(''type'', lit ''submit''), (''loading'', JBool (lf_busy f)), (''disabled'', JBool (trim (lf_token f) = []))]
        [Text (if lf_busy f then js ''Verifying token'' @ ellipsis else js ''Enter console'')],
      tag ''div'' [tag ''span'' [label ''Enter''], label ''connects'', tag ''span'' [Text middot], tag ''span'' [label ''Esc''], label ''clears'']]"

definition login_screen :: "jstr \<Rightarrow> login_form \<Rightarrow> view" where
  "login_screen problem f = tag ''div'' [Node ''div'' [(''aria-hidden'', lit ''true'')] [], tag ''div''
     [tag ''section'' [brand_lockup,
        tag ''div'' [tag ''p'' [label ''Mission control''], tag ''h1'' [label ''Every run, change and decision in one evidence surface.''],
          tag ''p'' [Text (js ''Dense, keyboard-first control for platform admins, security reviewers and auditors. Read-only by design ''
            @ em_dash @ js '' nothing on this surface invents a number.'')],
          tag ''ul'' (map (\<lambda>(t, d). tag ''li'' [tag ''div'' [tag ''p'' [label t], tag ''p'' [label d]]]) FEATURES)],
        tag ''div'' [Node ''StatusDot'' [(''tone'', lit ''success''), (''pulse'', JBool True)] [],
          Text (js ''Loopback operator tool '' @ middot @ js '' read-only access '' @ middot @ js '' no telemetry'')]],
      tag ''section'' [tag ''div'' [brand_lockup], tag ''div''
        [tag ''div'' [tag ''p'' [label ''Operator console''], tag ''h2'' [label ''Unlock the factory console''],
           tag ''p'' [label ''Enter the console read token configured on the factory host. It is sent as a bearer credential and never placed in a URL.'']],
         login_form_view problem f,
         tag ''div'' [tag ''span'' [label ''The console is read-only. Review decisions and run cancellation remain in the authenticated '',
           tag ''span'' [label ''factory''], label '' CLI.'']],
         tag ''p'' [Text (js ''ESF Console '' @ middot @ js '' loopback operator surface '' @ middot @ js '' credentials stay in this tab'')]]]]]"

section \<open>The application\<close>

definition TITLES :: "jstr table" where
  "TITLES = table [(''overview'', ''Overview''), (''dispatch'', ''Dispatch''), (''runs'', ''Runs''), (''run'', ''Run detail''),
     (''changes'', ''Changes''), (''change'', ''Change detail''), (''reviews'', ''Reviews''), (''security'', ''Security''),
     (''operations'', ''Operations''), (''settings'', ''Settings'')]"

definition page_title :: "route \<Rightarrow> jstr" where
  "page_title r = (case map_of TITLES (route_view r) of Some t \<Rightarrow> t | None \<Rightarrow> js ''Overview'')"

text \<open>The component a route shows, with its property.\<close>

definition page_of :: "route \<Rightarrow> view" where
  "page_of r = (let v = route_view r in
     if v = js ''dispatch'' then tag ''DispatchPage'' [] else if v = js ''runs'' then tag ''RunsPage'' []
     else if v = js ''run'' then Node ''RunDetailPage'' [(''runID'', Str (route_id r))] []
     else if v = js ''changes'' then tag ''ChangesPage'' []
     else if v = js ''change'' then Node ''ChangeDetailPage'' [(''changeID'', Str (route_id r))] []
     else if v = js ''reviews'' then tag ''ReviewsPage'' [] else if v = js ''security'' then tag ''SecurityPage'' []
     else if v = js ''operations'' then tag ''OperationsPage'' [] else if v = js ''settings'' then tag ''SettingsPage'' []
     else tag ''OverviewPage'' [])"

definition THEME_KEY :: jstr where "THEME_KEY = js ''esf-console-theme''"

definition initial_theme :: "storage \<Rightarrow> string" where
  "initial_theme st = (case get_item st THEME_KEY of Inr v \<Rightarrow> if v = Some (js ''light'') then ''light'' else ''dark'' | Inl e \<Rightarrow> ''dark'')"

definition toggle_theme :: "string \<Rightarrow> string" where
  "toggle_theme t = (if t = ''dark'' then ''light'' else ''dark'')"

text \<open>The effect of a theme: the class of the document, and what is stored.\<close>

definition theme_effect :: "string \<Rightarrow> storage \<Rightarrow> bool \<times> storage" where
  "theme_effect t st = (t = ''dark'', set_item st THEME_KEY (js t))"

definition splash :: view where
  "splash = tag ''div'' [tag ''div'' [tag ''div'' [tag ''span'' [label ''ESF'']], tag ''div'' [tag ''div'' []],
     tag ''p'' [Text (js ''Connecting to the factory'' @ ellipsis)]]]"

definition page_fallback :: view where
  "page_fallback = tag ''div'' [tag ''div'' [], tag ''div'' [], tag ''div'' (replicate 4 (tag ''div'' [])), tag ''div'' []]"

text \<open>\<open>ErrorBoundary\<close>: the message of the error caught below it, or its children.\<close>

definition error_boundary :: "jstr option \<Rightarrow> view \<Rightarrow> view" where
  "error_boundary caught v = (case caught of None \<Rightarrow> v
     | Some m \<Rightarrow> tag ''div'' [tag ''div'' [tag ''h2'' [label ''This screen could not be rendered''],
         tag ''p'' [label ''The console caught an unexpected rendering error. The rest of the application is still available.''],
         tag ''pre'' [Text m], Node ''button'' [(''type'', lit ''button'')] [label ''Try again'']]])"

definition console_view :: "session \<Rightarrow> route \<Rightarrow> string \<Rightarrow> jstr option \<Rightarrow> login_form \<Rightarrow> view" where
  "console_view s r theme caught f = (case sess_status s of
     Loading \<Rightarrow> splash
   | Unauthenticated \<Rightarrow> login_screen (sess_error s) f
   | Authenticated \<Rightarrow> Node ''Shell'' [(''session'', case sess_data s of Some v \<Rightarrow> v | None \<Rightarrow> Null), (''theme'', lit theme)]
       [error_boundary caught (Node ''Suspense'' [] [slot ''fallback'' [page_fallback], page_of r])])"

section \<open>The composed chrome\<close>

definition health_val :: "jstr \<times> jstr \<Rightarrow> jsval" where
  "health_val h = Obj [(js ''label'', Str (fst h)), (js ''tone'', Str (snd h))]"

text \<open>
  \<open>updatedLabel\<close>: what the poll of the overview last answered, relative to the clock of the shell.
\<close>

definition updated_label :: "clock \<Rightarrow> jnum \<Rightarrow> jsval \<Rightarrow> jstr" where
  "updated_label ck now synced = (if truthy synced then time_ago ck now synced else [])"

text \<open>
  The shell around the page \<open>v\<close>; \<open>data\<close>, \<open>failed\<close>, \<open>loading\<close> and \<open>synced\<close> are the state of its poll of
  the overview. \<open>None\<close>: an attention link that cannot be encoded throws.
\<close>

definition shell_view ::
  "clock \<Rightarrow> jnum \<Rightarrow> jstr \<Rightarrow> jsval \<Rightarrow> string \<Rightarrow> jsval \<Rightarrow> bool \<Rightarrow> jsval \<Rightarrow> bool \<Rightarrow> bool \<Rightarrow> jsval \<Rightarrow> view \<Rightarrow> view \<Rightarrow> shell \<Rightarrow> view option" where
  "shell_view ck now modifier session theme w auto data failed loading synced palette v s =
     (let r = route_from_hash (sh_hash s); health = health_meta data failed loading;
          operator = operator_menu (sh_operator s) session theme in
      map_option (\<lambda>its.
        tag ''div'' [Node ''a'' [(''href'', lit ''#main-content'')] [label ''Skip to main content''],
          Node ''div'' [(''aria-hidden'', lit ''true'')] [],
          sidebar (sh_overlay s = Some Nav) (route_view r) session health (reviews_pending data) theme auto w,
          tag ''div'' [topbar modifier r w auto loading (updated_label ck now synced) theme
              (attention_menu ck now (sh_attention s) its loading failed (health_val health) (Num (attention_badge data)) (overview_reviews data))
              operator,
            Node ''main'' [(''id'', lit ''main-content''), (''tabIndex'', int_val (- 1))] [tag ''div'' [v]]],
          shown_if (sh_overlay s = Some Palette) palette,
          shortcuts_dialog (sh_overlay s = Some Shortcuts) modifier])
        (attention_items data))"

end
