(* ===== verification/Console_Shell_Facts.thy ===== *)
theory Console_Shell_Facts imports Console_Shell Console_Url_Facts begin

text \<open>
  What the global keys do: the sequences the sidebar and the shortcuts dialog print lead to the
  page they stand beside, and nothing else a key does moves the console to another page.
\<close>

lemma go_views_range: "map_of GO_VIEWS k = Some v \<Longrightarrow> v \<in> set PAGES"
  by (drule map_of_SomeD) (auto simp: GO_VIEWS_def table_def PAGES_def)

lemma href_page: "v \<in> set PAGES \<Longrightarrow> href_for v i = Some (js ''#/'' @ v)"
  by (auto simp: href_for_def PAGES_def js_def)

lemma tables_inverse:
  "list_all (\<lambda>(k, v). map_of NAV_SHORTCUTS v = Some k) GO_VIEWS"
  "list_all (\<lambda>(v, k). map_of GO_VIEWS k = Some v) NAV_SHORTCUTS"
  by code_simp+

lemma go_views_printed: "map_of NAV_SHORTCUTS v = Some k \<longleftrightarrow> map_of GO_VIEWS k = Some v"
  using tables_inverse by (auto dest!: map_of_SomeD simp: list_all_iff)

lemma page_routes: "list_all (\<lambda>p. route_from_hash (js ''#/'' @ p) = to_route p []) PAGES"
  by code_simp

lemma letters_plain:
  "list_all (\<lambda>(k, v). to_lower k = k \<and> k \<notin> {js ''Escape'', js ''/'', js ''?'', js ''g''}) GO_VIEWS"
  by code_simp

lemma g_plain: "to_lower (js ''g'') = js ''g'' \<and> js ''g'' \<notin> {js ''Escape'', js ''/'', js ''?'', js ''k''}"
  by code_simp

lemma shown_pages: "set (map item_id (concat (map snd NAV_GROUPS))) = set PAGES"
  by (auto simp: NAV_GROUPS_def nav_def PAGES_def)

lemma every_page_printed: "v \<in> set PAGES \<Longrightarrow> \<exists>k. map_of NAV_SHORTCUTS v = Some k"
  by (auto simp: PAGES_def NAV_SHORTCUTS_def table_def js_def)

section \<open>Steps\<close>

definition idle :: "shell \<Rightarrow> bool" where
  "idle s \<longleftrightarrow> sh_overlay s = None \<and> \<not> sh_attention s \<and> \<not> sh_operator s"

lemma closed_simps [simp]:
  "sh_hash (closed s) = sh_hash s" "sh_pending (closed s) = sh_pending s" "idle (closed s)"
  by (simp_all add: closed_def idle_def)

lemma route_effect_simps [simp]:
  "sh_hash (route_effect h s) = sh_hash s" "sh_pending (route_effect h s) = sh_pending s"
  "idle s \<Longrightarrow> idle (route_effect h s)"
  by (simp_all add: route_effect_def)

lemma go_to_page: "v \<in> set PAGES \<Longrightarrow> sh_hash (go_to v s) = js ''#/'' @ v \<and> sh_pending (go_to v s) = sh_pending s"
  by (simp add: go_to_def href_page)

lemma key_hash:
  "sh_hash (key_down e s) =
     (if sh_pending s \<and> idle s \<and> \<not> ke_typing e \<and> \<not> (ke_mod e \<and> to_lower (ke_key e) = js ''k'')
        \<and> ke_key e \<notin> {js ''Escape'', js ''/'', js ''?''} \<and> to_lower (ke_key e) \<noteq> js ''g''
      then (case map_of GO_VIEWS (to_lower (ke_key e)) of Some v \<Rightarrow> js ''#/'' @ v | None \<Rightarrow> sh_hash s)
      else sh_hash s)"
  by (auto simp: key_down_def Let_def idle_def go_to_page dest: go_views_range split: option.splits)

lemma key_pending:
  "sh_pending (key_down e s) \<Longrightarrow> sh_pending s \<or> (idle s \<and> \<not> ke_typing e \<and> to_lower (ke_key e) = js ''g'')"
  by (auto simp: key_down_def Let_def idle_def go_to_page dest: go_views_range split: option.splits if_splits)

section \<open>The printed sequences\<close>

definition press :: "jstr \<Rightarrow> shell_event" where
  "press k = Key_down \<lparr>ke_key = k, ke_mod = False, ke_typing = False\<rparr>"

lemma press_letter:
  assumes "map_of GO_VIEWS k = Some v"
  shows "to_lower k = k \<and> k \<notin> {js ''Escape'', js ''/'', js ''?'', js ''g''}"
  using map_of_SomeD [OF assms] letters_plain by (auto simp: list_all_iff)

text \<open>C40: Every entry of the navigation has a sequence printed beside it, and from a shell with
  nothing open, typing \<open>g\<close> and then that key brings the console to the entry's page, whatever was
  typed before.\<close>

theorem printed_shortcut_navigates:
  assumes "i \<in> set (concat (map snd NAV_GROUPS))" "sh_overlay s = None" "\<not> sh_attention s" "\<not> sh_operator s"
  shows "\<exists>k. map_of NAV_SHORTCUTS (item_id i) = Some k
    \<and> route_from_hash (sh_hash (foldl shell_step s [press (js ''g''), press k])) = to_route (item_id i) []"
proof -
  have v: "item_id i \<in> set PAGES" using assms(1) shown_pages by auto
  then obtain k where k: "map_of NAV_SHORTCUTS (item_id i) = Some k" using every_page_printed by blast
  then have g: "map_of GO_VIEWS k = Some (item_id i)" by (simp add: go_views_printed)
  have "key_down \<lparr>ke_key = js ''g'', ke_mod = False, ke_typing = False\<rparr> s = s\<lparr>sh_pending := True\<rparr>"
    using assms g_plain by (simp add: key_down_def)
  then have "sh_hash (foldl shell_step s [press (js ''g''), press k]) = js ''#/'' @ item_id i"
    using assms press_letter [OF g] g by (simp add: press_def key_hash idle_def)
  moreover have "route_from_hash (js ''#/'' @ item_id i) = to_route (item_id i) []"
    using v page_routes by (simp add: list_all_iff)
  ultimately show ?thesis using k by simp
qed

theorem printed_shortcut_navigates_witness:
  "\<exists>k. map_of NAV_SHORTCUTS (js ''runs'') = Some k
    \<and> route_from_hash (sh_hash (foldl shell_step \<lparr>sh_overlay = None, sh_attention = False, sh_operator = False, sh_pending = False,
        sh_hash = js ''#/changes/42''\<rparr> [press (js ''g''), press k])) = to_route (js ''runs'') []"
proof -
  have "nav ''runs'' ''Runs'' ''Play'' \<in> set (concat (map snd NAV_GROUPS))" by (simp add: NAV_GROUPS_def)
  from printed_shortcut_navigates [OF this, of "\<lparr>sh_overlay = None, sh_attention = False, sh_operator = False, sh_pending = False,
        sh_hash = js ''#/changes/42''\<rparr>"] show ?thesis by (simp add: nav_def)
qed

section \<open>No other key moves the console\<close>

text \<open>An event that is neither a navigation of the browser nor a \<open>g\<close> outside a field.\<close>

fun quiet :: "shell_event \<Rightarrow> bool" where
  "quiet (Key_down e) \<longleftrightarrow> ke_typing e \<or> to_lower (ke_key e) \<noteq> js ''g''"
| "quiet (Hash_change h) \<longleftrightarrow> False"
| "quiet _ \<longleftrightarrow> True"

lemma quiet_step:
  "quiet ev \<Longrightarrow> \<not> sh_pending s \<Longrightarrow> \<not> sh_pending (shell_step s ev) \<and> sh_hash (shell_step s ev) = sh_hash s"
  using key_pending by (cases ev) (auto simp: key_hash)

text \<open>Keys move the console only through a \<open>g\<close> typed outside a field: without one, no series of
  keys, opened and closed menus or elapsed timers changes the page; and a key typed into a field, or
  while an overlay or a menu is open, never does, even right after a \<open>g\<close>.\<close>

theorem keys_navigate_only_after_g:
  assumes "\<not> sh_pending s" "list_all quiet evs"
  shows "sh_hash (foldl shell_step s evs) = sh_hash s
    \<and> (\<forall>t e. ke_typing e \<or> sh_overlay t \<noteq> None \<or> sh_attention t \<or> sh_operator t
         \<longrightarrow> sh_hash (shell_step t (Key_down e)) = sh_hash t)"
proof -
  have "sh_hash (foldl shell_step s evs) = sh_hash s"
    using assms by (induction evs arbitrary: s) (simp_all add: quiet_step)
  then show ?thesis by (auto simp: key_hash idle_def)
qed

theorem keys_navigate_only_after_g_witness:
  "sh_hash (foldl shell_step \<lparr>sh_overlay = None, sh_attention = False, sh_operator = False, sh_pending = False,
      sh_hash = js ''#/runs''\<rparr> [Open_overlay Palette, Close_overlay, press (js ''o'')]) = js ''#/runs''"
proof -
  let ?s = "\<lparr>sh_overlay = None, sh_attention = False, sh_operator = False, sh_pending = False, sh_hash = js ''#/runs''\<rparr>"
  have "to_lower (js ''o'') \<noteq> js ''g''" by code_simp
  then have "\<not> sh_pending ?s" "list_all quiet [Open_overlay Palette, Close_overlay, press (js ''o'')]"
    by (simp_all add: press_def)
  from keys_navigate_only_after_g [OF this] show ?thesis by simp
qed

end
