(* ===== verification/Console_Kit.thy ===== *)
theory Console_Kit imports Console_Ui begin

text \<open>
  The elements that the screens name without expanding them (\<open>components/ui\<close>): tables, cards,
  loading placeholders, the spinner and the tooltip. \<open>rest\<close> are the properties a caller passes on;
  of the class names the ones the data choose are kept.
\<close>

section \<open>Tables\<close>

definition ALIGN :: "jstr table" where
  "ALIGN = table [(''left'', ''text-left''), (''center'', ''text-center''), (''right'', ''text-right'')]"

definition alignment :: "bool \<Rightarrow> jsval \<Rightarrow> jsval" where
  "alignment numeric a = Str (case table_get ALIGN (if numeric then lit ''right'' else a) of Some c \<Rightarrow> c | None \<Rightarrow> js ''text-left'')"

definition table_element :: "jsval \<Rightarrow> (string \<times> jsval) list \<Rightarrow> view list \<Rightarrow> view" where
  "table_element min_width rest vs = tag ''div'' [Node ''table'' (rest @ [(''minWidth'', if truthy min_width then min_width else Undef)]) vs]"

definition head_cell :: "bool \<Rightarrow> jsval \<Rightarrow> (string \<times> jsval) list \<Rightarrow> view list \<Rightarrow> view" where
  "head_cell numeric a rest vs = Node ''th'' ((''scope'', lit ''col'')
     # (''align'', alignment numeric (if a = Undef then lit ''left'' else a)) # rest) vs"

definition body_cell :: "bool \<Rightarrow> bool \<Rightarrow> jsval \<Rightarrow> (string \<times> jsval) list \<Rightarrow> view list \<Rightarrow> view" where
  "body_cell numeric muted a rest vs = Node ''td'' ((''align'', alignment numeric a)
     # (''tone'', lit (if muted then ''muted'' else ''foreground'')) # rest) vs"

definition head_element :: "(string \<times> jsval) list \<Rightarrow> view list \<Rightarrow> view" where "head_element rest vs = Node ''thead'' rest vs"
definition row_element :: "(string \<times> jsval) list \<Rightarrow> view list \<Rightarrow> view" where "row_element rest vs = Node ''tr'' rest vs"

text \<open>The row of an empty table: the caller's children, or an empty state.\<close>

definition empty_row :: "jsval \<Rightarrow> jsval \<Rightarrow> jsval \<Rightarrow> view list \<Rightarrow> view list \<Rightarrow> view" where
  "empty_row col_span title description action children = tag ''tr''
     [Node ''td'' [(''colSpan'', if col_span = Undef then int_val 1 else col_span)]
       [if children \<noteq> [] then tag ''div'' children
        else empty_state (if title = Undef then lit ''No results'' else title) description action]]"

definition table_toolbar :: "(string \<times> jsval) list \<Rightarrow> view list \<Rightarrow> view list \<Rightarrow> view" where
  "table_toolbar rest children actions = Node ''div'' rest
     [tag ''div'' children, shown_if (actions \<noteq> []) (tag ''div'' actions)]"

section \<open>Cards\<close>

definition card_element :: "string \<Rightarrow> (string \<times> jsval) list \<Rightarrow> view list \<Rightarrow> view" where
  "card_element as' rest vs = Node (if as' = [] then ''section'' else as') rest vs"

definition header_element :: "jsval \<Rightarrow> jsval \<Rightarrow> view list \<Rightarrow> view list \<Rightarrow> view" where
  "header_element title description actions children = tag ''div''
     [tag ''div'' [shown_if (truthy title) (tag ''div'' (tag ''h2'' [child title] # children)),
        shown_if (truthy description) (tag ''p'' [child description])],
      shown_if (actions \<noteq> []) (tag ''div'' actions)]"

definition body_element :: "(string \<times> jsval) list \<Rightarrow> view list \<Rightarrow> view" where "body_element rest vs = Node ''div'' rest vs"
definition footer_element :: "(string \<times> jsval) list \<Rightarrow> view list \<Rightarrow> view" where "footer_element rest vs = Node ''div'' rest vs"

section \<open>Placeholders\<close>

definition TEXT_WIDTHS :: "string list" where "TEXT_WIDTHS = [''100%'', ''92%'', ''78%'', ''86%'', ''64%'', ''71%'']"

definition text_width :: "nat \<Rightarrow> nat \<Rightarrow> string" where
  "text_width count i = (if Suc i = count \<and> 1 < count then TEXT_WIDTHS ! 2 else TEXT_WIDTHS ! (i mod length TEXT_WIDTHS))"

definition skeleton_text :: "nat \<Rightarrow> view" where
  "skeleton_text ls = (let count = max 1 ls in Node ''div'' [(''aria-hidden'', lit ''true'')]
     (map (\<lambda>i. Node ''div'' [(''width'', lit (text_width count i))] []) [0..<count]))"

text \<open>In percent; \<open>Math.round\<close> of a quotient.\<close>

definition column_width :: "nat \<Rightarrow> nat \<Rightarrow> int" where
  "column_width i columns = (if i = 0 then 26 else if int i = int columns - 1 then 12
     else max 12 \<lfloor>56 / of_int (max 1 (int columns - 2)) + (1 / 2 :: rat)\<rfloor>)"

definition bone :: "(string \<times> jsval) list \<Rightarrow> view" where
  "bone rest = Node ''div'' ((''aria-hidden'', lit ''true'') # rest) []"

definition percent :: "int \<Rightarrow> jsval" where "percent n = Str (num_to_string (num_int n) @ js ''%'')"

definition loading_box :: "string \<Rightarrow> view list \<Rightarrow> view" where
  "loading_box l vs = Node ''div'' [(''role'', lit ''status''), (''aria-label'', lit l)] vs"

definition table_skeleton :: "nat \<Rightarrow> nat \<Rightarrow> bool \<Rightarrow> view" where
  "table_skeleton rws columns show_header = loading_box ''Loading table''
     [shown_if show_header (tag ''div'' (replicate columns (bone []))),
      tag ''div'' (replicate rws (tag ''div'' (map (\<lambda>i. bone [(''width'', percent (column_width i columns))]) [0..<columns])))]"

definition BAR_HEIGHTS :: "int list" where "BAR_HEIGHTS = [42, 58, 35, 72, 64, 80, 56, 68, 48, 76, 60, 84]"

definition chart_skeleton :: "jsval \<Rightarrow> view" where
  "chart_skeleton height = loading_box ''Loading chart''
     [bone [], Node ''div'' [(''height'', if height = Undef then int_val 220 else height)] (map (\<lambda>b. bone [(''height'', percent b)]) BAR_HEIGHTS),
      tag ''div'' (replicate 3 (bone []))]"

definition kpi_skeleton :: view where
  "kpi_skeleton = loading_box ''Loading metric'' [tag ''div'' [bone [], bone []], bone [], bone [], bone []]"

section \<open>The spinner and the tooltip\<close>

definition spinner :: "jsval \<Rightarrow> view" where
  "spinner l = (let icon = Node ''LoaderCircle'' [(''aria-hidden'', lit ''true'')] [] in
     if \<not> truthy l then icon else Node ''span'' [(''role'', lit ''status''), (''aria-label'', l)] [icon])"

definition hint :: "jsval \<Rightarrow> string \<Rightarrow> view \<Rightarrow> view" where
  "hint l side v = (if \<not> truthy l then v else tag ''span''
     [v, Node ''span'' [(''role'', lit ''tooltip''), (''aria-hidden'', lit ''true''),
       (''side'', lit (if side \<in> {''top'', ''bottom'', ''left'', ''right''} then side else ''top''))] [child l]])"

definition tone_of :: "jstr table \<Rightarrow> jsval \<Rightarrow> jstr" where
  "tone_of m t = (case table_get m t of Some c \<Rightarrow> c | None \<Rightarrow> (case map_of m (js ''muted'') of Some c \<Rightarrow> c | None \<Rightarrow> []))"

definition tone_text :: "jsval \<Rightarrow> jstr" where "tone_text = tone_of TONE_TEXT"
definition tone_soft :: "jsval \<Rightarrow> jstr" where "tone_soft = tone_of TONE_SOFT"
definition tone_chip :: "jsval \<Rightarrow> jstr" where "tone_chip = tone_of TONE_CHIP"
definition tone_border :: "jsval \<Rightarrow> jstr" where "tone_border = tone_of TONE_BORDER"

lemma column_width_bounds: "12 \<le> column_width i columns \<and> column_width i columns \<le> 56"
  by (auto simp: column_width_def max_def floor_le_iff field_simps split: if_splits)

end
