(* ===== verification/Console_Palette_Facts.thy ===== *)
theory Console_Palette_Facts imports Console_Palette Console_Url_Facts "HOL-Library.Multiset" begin

text \<open>
  What the menus that follow links of the API promise: every link stays inside the page,
  the palette offers every usable search result once, and its keyboard always opens the
  option it highlights.
\<close>

section \<open>Links\<close>

definition inside :: "jstr \<Rightarrow> bool" where
  "inside h \<longleftrightarrow> starts_with h (js ''#'')"

lemma inside_js [simp]: "inside (js (CHR ''#'' # s))"
  by (simp add: inside_def starts_with_def js_Cons)

lemma inside_append [simp]: "inside (js (CHR ''#'' # s) @ t)"
  by (simp add: inside_def starts_with_def js_Cons)

lemma href_for_inside: "href_for v i = Some h \<Longrightarrow> inside h"
  by (auto simp: href_for_def split: if_splits)

lemma normalize_href_inside: "inside fb \<Longrightarrow> inside (normalize_href h fb)"
  by (auto simp: normalize_href_def Let_def) (auto simp: inside_def starts_with_def js_Cons)

lemma attention_href_inside: "attention_href i = Some h \<Longrightarrow> inside h"
  by (auto simp: attention_href_def Let_def normalize_href_inside href_for_inside split: if_splits)

lemma all_some_set: "all_some os = Some xs \<Longrightarrow> x \<in> set xs \<Longrightarrow> Some x \<in> set os"
  by (induction os arbitrary: xs rule: all_some.induct) auto

lemma attention_inside:
  assumes "attention_items data = Some ats" "a \<in> set ats"
  shows "inside (at_href a)"
proof -
  obtain os where "all_some (map (\<lambda>(n, i). normalize_attention i n) (enumerate 0 (as_list (opt_get data ''attention'')))) = Some os"
      "Some a \<in> set os"
    using assms by (auto simp: attention_items_def)
  then obtain n i where "normalize_attention i n = Some (Some a)"
    using all_some_set by fastforce
  then show ?thesis
    by (auto simp: normalize_attention_def attention_of_def Let_def attention_href_inside split: if_splits)
qed

section \<open>Search results\<close>

text \<open>What the loop over the raw entries keeps.\<close>

definition collected :: "jsval list \<Rightarrow> entry list \<Rightarrow> bool" where
  "collected raws es \<longleftrightarrow> distinct (map e_id es) \<and> set (map e_id es) = raw_key ` {r \<in> set raws. usable r}
     \<and> list_all (\<lambda>e. inside (e_href e) \<and> (e_kind e = js ''run'' \<or> e_kind e = js ''change'')) es"

lemma collect_step_simps [simp]:
  "collect_step None r = None"
  "collect_step (Some es) r = (if \<not> usable r \<or> raw_key r \<in> set (map e_id es) then Some es
     else map_option (\<lambda>link. es @ [result_entry r link]) (href_for (raw_kind r) (raw_id r)))"
  by (simp_all add: collect_step_def)

lemma result_entry_fields [simp]:
  "e_id (result_entry r link) = raw_key r" "e_kind (result_entry r link) = raw_kind r"
  "e_href (result_entry r link) = normalize_href (opt_get r ''href'') link"
  by (simp_all add: result_entry_def Let_def)

lemma usable_snoc: "raw_key ` {x \<in> set (raws @ [r]). usable x}
    = raw_key ` {x \<in> set raws. usable x} \<union> (if usable r then {raw_key r} else {})"
  by auto

lemma usable_kind: "usable r \<Longrightarrow> raw_kind r = js ''run'' \<or> raw_kind r = js ''change''"
  by (simp add: usable_def)

lemma collected_step:
  assumes "collected raws es" "collect_step (Some es) r = Some es'"
  shows "collected (raws @ [r]) es'"
proof (cases "\<not> usable r \<or> raw_key r \<in> set (map e_id es)")
  case True
  with assms show ?thesis unfolding collected_def usable_snoc by (auto split: if_splits)
next
  case False
  with assms(2) obtain link where "href_for (raw_kind r) (raw_id r) = Some link" "es' = es @ [result_entry r link]"
    by auto
  with False assms(1) usable_kind [of r] show ?thesis
    unfolding collected_def usable_snoc by (simp add: href_for_inside normalize_href_inside)
qed

lemma collected_all: "foldl collect_step (Some []) raws = Some es \<Longrightarrow> collected raws es"
proof (induction raws arbitrary: es rule: rev_induct)
  case (snoc r raws)
  then show ?case by (cases "foldl collect_step (Some []) raws") (auto intro: collected_step)
qed (simp add: collected_def)

lemma collect_fails: "foldl collect_step (Some []) raws = None \<Longrightarrow> list_ex (\<lambda>r. \<not> wf16 (raw_id r)) raws"
proof (induction raws rule: rev_induct)
  case (snoc r raws)
  show ?case
  proof (cases "foldl collect_step (Some []) raws")
    case (Some es)
    with snoc.prems have "encode_uri (raw_id r) = None" by (auto simp: href_for_def split: if_splits)
    then show ?thesis using encode_uri_wf [of "raw_id r"] by auto
  qed (use snoc.IH in auto)
qed simp

lemma split_kinds:
  assumes "list_all (\<lambda>e. inside (e_href e) \<and> (e_kind e = a \<or> e_kind e = b)) es" "a \<noteq> b"
  shows "mset (filter (\<lambda>e. e_kind e = a) es @ filter (\<lambda>e. e_kind e = b) es) = mset es"
  using assms by (induction es) auto

lemma collect_results_found:
  assumes "collect_results ck now data = Some (rs, cs)"
  obtains es where "collected (raw_entries ck now data) es" "mset (rs @ cs) = mset es"
proof -
  obtain es where es: "foldl collect_step (Some []) (raw_entries ck now data) = Some es"
      "rs = filter (\<lambda>e. e_kind e = js ''run'') es" "cs = filter (\<lambda>e. e_kind e = js ''change'') es"
    using assms by (auto simp: collect_results_def)
  have "collected (raw_entries ck now data) es" using collected_all [OF es(1)] .
  moreover from this have "mset (rs @ cs) = mset es"
    unfolding es(2,3) collected_def by (intro split_kinds) (simp_all add: js_def)
  ultimately show ?thesis by (rule that)
qed

text \<open>The links of the menus stay inside the page. Whatever links the API names, every
  link of a search result, of a page entry, of an opened entry and of the attention menu
  starts with "#", so following it only changes the route of the console.\<close>

theorem links_stay_inside:
  "(case collect_results ck now data of None \<Rightarrow> True | Some (rs, cs) \<Rightarrow> list_all (\<lambda>e. inside (e_href e)) (rs @ cs))
   \<and> list_all (\<lambda>e. inside (e_href e)) STATIC_ENTRIES
   \<and> (case activate e of Go h \<Rightarrow> inside h | Stay \<Rightarrow> False | Close \<Rightarrow> False)
   \<and> (case attention_items data of None \<Rightarrow> True | Some ats \<Rightarrow> list_all (\<lambda>a. inside (at_href a)) ats)"
proof (intro conjI)
  show "case collect_results ck now data of None \<Rightarrow> True | Some (rs, cs) \<Rightarrow> list_all (\<lambda>e. inside (e_href e)) (rs @ cs)"
  proof (cases "collect_results ck now data")
    case (Some p)
    then obtain rs cs where p: "collect_results ck now data = Some (rs, cs)" by (cases p) simp
    then obtain es where "collected (raw_entries ck now data) es" "mset (rs @ cs) = mset es"
      by (rule collect_results_found)
    then have "set (rs @ cs) = set es" "list_all (\<lambda>e. inside (e_href e) \<and> (e_kind e = js ''run'' \<or> e_kind e = js ''change'')) es"
      by (metis mset_eq_setD, simp add: collected_def)
    then have "list_all (\<lambda>e. inside (e_href e)) (rs @ cs)" unfolding list_all_iff by blast
    with p show ?thesis by simp
  qed simp
  show "list_all (\<lambda>e. inside (e_href e)) STATIC_ENTRIES"
    by (auto simp: STATIC_ENTRIES_def list_all_iff nav_entry_def)
  show "case activate e of Go h \<Rightarrow> inside h | Stay \<Rightarrow> False | Close \<Rightarrow> False"
    by (simp add: activate_def normalize_href_inside)
  show "case attention_items data of None \<Rightarrow> True | Some ats \<Rightarrow> list_all (\<lambda>a. inside (at_href a)) ats"
    by (auto simp: list_all_iff attention_inside split: option.splits)
qed

text \<open>The palette offers every usable search result exactly once, whichever of the three
  shapes of the answer it comes in; it fails only for an id that cannot be written into a
  link, a text with a lone surrogate.\<close>

theorem results_offered_once:
  "(case collect_results ck now data of
      None \<Rightarrow> list_ex (\<lambda>r. \<not> wf16 (raw_id r)) (raw_entries ck now data)
    | Some (rs, cs) \<Rightarrow> distinct (map e_id (rs @ cs))
        \<and> set (map e_id (rs @ cs)) = raw_key ` {r \<in> set (raw_entries ck now data). usable r})"
proof (cases "collect_results ck now data")
  case None
  then show ?thesis by (simp add: collect_results_def collect_fails)
next
  case (Some p)
  then obtain rs cs where p: "collect_results ck now data = Some (rs, cs)" by (cases p) simp
  then obtain es where es: "collected (raw_entries ck now data) es" "mset (rs @ cs) = mset es"
    by (rule collect_results_found)
  from es(2) have "mset (map e_id (rs @ cs)) = mset (map e_id es)" unfolding mset_map by (rule arg_cong)
  with es(1) show ?thesis
    unfolding p collected_def option.case prod.case by (metis mset_eq_imp_distinct_iff mset_eq_setD)
qed

section \<open>The keyboard\<close>

lemma numbered_items: "concat (map snd (number_groups n gs)) = enumerate n (palette_items gs)"
  by (induction n gs rule: number_groups.induct) (simp_all add: palette_items_def enumerate_append_eq)

lemma palette_key_range:
  "its \<noteq> [] \<Longrightarrow> pl_active p < length its \<Longrightarrow> pl_active (fst (palette_key its k p)) < length its"
  by (simp add: palette_key_def Let_def)

lemma palette_fit_range: "its \<noteq> [] \<Longrightarrow> pl_active (palette_fit its p) < length its"
  by (auto simp: palette_fit_def not_le)

lemma filter_enumerate:
  "filter (\<lambda>(j, x). j = i) (enumerate n xs) = (if n \<le> i \<and> i < n + length xs then [(i, xs ! (i - n))] else [])"
  by (induction xs arbitrary: n) (auto simp: nth_Cons' Suc_diff_Suc)

text \<open>The keyboard of the palette opens what it highlights. After any keys, and whatever
  the list was before, exactly one option is highlighted while there are options, and Enter
  opens that one; without options Enter does nothing.\<close>

theorem palette_keyboard:
  "(let its = palette_items gs; p' = foldl (\<lambda>p k. fst (palette_key its k p)) (palette_fit its p) ks in
     filter (\<lambda>(i, e). i = pl_active p') (concat (map snd (number_groups 0 gs)))
        = (if its = [] then [] else [(pl_active p', its ! pl_active p')])
     \<and> palette_key its ''Enter'' p' = (p', if its = [] then Stay else activate (its ! pl_active p')))"
proof -
  define its where "its = palette_items gs"
  define p' where "p' = foldl (\<lambda>p k. fst (palette_key its k p)) (palette_fit its p) ks"
  have "pl_active (foldl (\<lambda>p k. fst (palette_key its k p)) r ks) < length its"
    if "its \<noteq> []" "pl_active r < length its" for r
    using that
  proof (induction ks arbitrary: r)
    case (Cons k ks)
    from Cons.IH [OF Cons.prems(1) palette_key_range [OF Cons.prems]] show ?case by simp
  qed simp
  then have "its \<noteq> [] \<Longrightarrow> pl_active p' < length its" unfolding p'_def using palette_fit_range by blast
  then show ?thesis
    unfolding its_def [symmetric] Let_def p'_def [symmetric] numbered_items filter_enumerate
    by (auto simp: its_def [symmetric] palette_key_def Let_def)
qed

end
