(* ===== verification/Console_Run_Viewer.thy ===== *)
theory Console_Run_Viewer imports Console_Portfolio begin

text \<open>
  The run viewer, first half: the shared status signals (\<open>components/runs/signals.jsx\<close>), the header,
  the notices of a live or unrecorded run, the four summary cards, the metadata, the task, the
  conditions and the verification gates (\<open>run-detail-header.jsx\<close>, \<open>run-notices.jsx\<close>,
  \<open>run-summary.jsx\<close>, \<open>run-metadata.jsx\<close>, \<open>run-task.jsx\<close>, \<open>run-conditions.jsx\<close>,
  \<open>run-verification.jsx\<close>). Entries of lists are read as objects; on \<open>null\<close> the source throws.
\<close>

section \<open>Links and signals\<close>

definition run_href :: "jsval \<Rightarrow> jstr option" where "run_href i = href_for (js ''run'') (to_str i)"
definition change_href :: "jsval \<Rightarrow> jstr option" where "change_href i = href_for (js ''change'') (to_str i)"

text \<open>A link; an id that cannot be encoded throws.\<close>

definition link_to :: "jstr option \<Rightarrow> (string \<times> jsval) list \<Rightarrow> view list \<Rightarrow> view" where
  "link_to h ps vs = (case h of None \<Rightarrow> Invalid | Some u \<Rightarrow> Node ''a'' ((''href'', Str u) # ps) vs)"

definition or_dash :: "jsval \<Rightarrow> view" where "or_dash v = child (js_or v (Str dash))"

definition titled :: "jsval \<Rightarrow> view list \<Rightarrow> view" where "titled t vs = Node ''span'' [(''title'', t)] vs"

definition toned :: "jstr \<Rightarrow> string \<Rightarrow> view list \<Rightarrow> view" where
  "toned tone sz vs = Node ''Badge'' [(''variant'', Str tone), (''size'', lit sz)] vs"

definition dotted :: "jstr \<Rightarrow> string \<Rightarrow> jsval \<Rightarrow> view list \<Rightarrow> view" where
  "dotted tone sz t vs = Node ''Badge'' [(''variant'', Str tone), (''size'', lit sz), (''dot'', JBool True), (''title'', t)] vs"

definition pill :: "string \<Rightarrow> string \<Rightarrow> jsval \<Rightarrow> view" where
  "pill kind sz v = Node ''StatusPill'' [(''kind'', lit kind), (''state'', v), (''size'', lit sz)] []"

definition copy_of :: "jsval \<Rightarrow> string \<Rightarrow> string \<Rightarrow> view" where
  "copy_of v l sz = Node ''CopyButton'' [(''value'', v), (''label'', lit l), (''size'', lit sz)] []"

definition outcome_badge :: "jsval \<Rightarrow> view" where
  "outcome_badge v = (let m = outcome_meta v in
     dotted (snd m) ''sm'' (if truthy v then Str (js ''Recorded outcome: '' @ to_str v) else lit ''No outcome recorded'') [Text (fst m)])"

definition status_dot :: "jstr \<Rightarrow> view" where
  "status_dot tone = Node ''StatusDot'' [(''tone'', Str tone), (''size'', lit ''xs'')] []"

definition result_line :: "string \<Rightarrow> jsval \<Rightarrow> view" where
  "result_line l v = (let m = outcome_meta v in
     tag ''div'' [status_dot (snd m), tag ''span'' [label l], tag ''span'' [Text (fst m)]])"

definition result_split :: "jsval \<Rightarrow> view" where
  "result_split run = tag ''div'' [result_line ''Agent'' (opt_get run ''agent_result''),
     result_line ''Verify'' (opt_get run ''verification_result'')]"

definition cleanup_indicator :: "jsval \<Rightarrow> view" where
  "cleanup_indicator c = (let m = cleanup_meta c in
     titled (m_detail m) [status_dot (m_tone m), tag ''span'' [Text (m_label m)]])"

text \<open>The icon: a shield that is off, checked or alerting.\<close>

definition shield :: "jstr \<Rightarrow> string" where
  "shield tone = (if tone = js ''muted'' then ''ShieldOff'' else if tone = js ''success'' then ''ShieldCheck'' else ''ShieldAlert'')"

definition security_indicator :: "jsval \<Rightarrow> jsval \<Rightarrow> view" where
  "security_indicator h st = (let m = security_meta h st in
     titled (Str (m_label m @ [32] @ em_dash @ [32] @ to_str (m_detail m)))
       [tag (shield (m_tone m)) [], tag ''span'' [Text (m_label m)]])"

definition review_indicator :: "jsval \<Rightarrow> string \<Rightarrow> view" where
  "review_indicator run sz = (let m = review_meta run in dotted (m_tone m) sz (m_detail m) [Text (m_label m)])"

section \<open>Header\<close>

definition related_change :: "jsval \<Rightarrow> jsval" where
  "related_change d = js_or (opt_get (opt_get d ''change'') ''change_id'') (opt_get (opt_get d ''run'') ''change_id'')"

definition shows_review :: "jsval \<Rightarrow> bool" where
  "shows_review run \<longleftrightarrow> truthy (opt_get run ''review_configured'') \<or> truthy (opt_get run ''review_outcome'')
     \<or> opt_get run ''factory_result'' = lit ''PAUSED''"

definition run_detail_header :: "clock \<Rightarrow> jnum \<Rightarrow> jsval \<Rightarrow> bool \<Rightarrow> bool \<Rightarrow> bool \<Rightarrow> jsval \<Rightarrow> view" where
  "run_detail_header ck now d live patch_available busy updated_at =
     (let run = opt_get d ''run''; r = opt_get run; change = related_change d in
      Node ''PageHeader'' [(''backHref'', lit ''#/runs''), (''backLabel'', lit ''All runs''), (''eyebrow'', lit ''Run evidence''),
        (''description'', lit (if live
          then ''Live orchestration state from the workflow engine. The durable manifest, gates and patch are written when the run completes.''
          else ''Immutable run manifest with its conditions, verification gates, security evidence, deliverables and artifact trail.''))]
       [slot ''title'' [tag ''span'' [child (js_or (r ''run_id'') (lit ''Run''))]],
        slot ''meta''
         [shown_if (truthy (r ''factory_result'')) (Node ''StatusPill'' [(''kind'', lit ''run''), (''state'', r ''factory_result'')] []),
          shown_if live (dotted (js ''info'') ''sm'' Undef [label ''Live'']),
          shown_if (shows_review run) (review_indicator run ''sm''),
          shown_if (truthy (r ''run_id'')) (copy_of (r ''run_id'') ''run ID'' ''xs''),
          shown_if (truthy (r ''repository'')) (titled (r ''repository'') [Text (repo_label (r ''repository''))]),
          shown_if (truthy (r ''scope'')) (tag ''span'' [label ''Scope '', child (r ''scope'')]),
          shown_if (truthy (r ''agent_harness'')) (tag ''span'' [label ''Harness '', child (r ''agent_harness'')]),
          titled (or_undef (r ''started_at'')) [label ''Started '', Text (time_ago ck now (r ''started_at''))],
          tag ''span'' [label ''Duration '', Text (format_duration dash (r ''duration_ms''))],
          shown_if (truthy updated_at) (tag ''span'' [label ''Updated '', Text (time_ago ck now updated_at)])],
        slot ''actions''
         [shown_if (truthy change) (case change_href change of None \<Rightarrow> Invalid
            | Some u \<Rightarrow> Node ''Button'' [(''href'', Str u), (''title'', Str (js ''Change '' @ to_str change))]
                [label ''Change '', Text (short_sha 10 change)]),
          button [] ''Commands'',
          shown_if patch_available (button [(''loading'', JBool busy)] ''Download patch'')]])"

section \<open>Notices\<close>

definition notice_list :: "string \<Rightarrow> jsval list \<Rightarrow> view" where
  "notice_list t xs = tag ''Card'' [tag ''div'' [tag ''div'' [tag ''h2'' [label t], tag ''ul'' (map (\<lambda>w. tag ''li'' [child w]) xs)]]]"

definition run_notices :: "jsval \<Rightarrow> jsval \<Rightarrow> view" where
  "run_notices warnings budget = (let ws = as_list warnings; bs = as_list budget in
     if ws = [] \<and> bs = [] then Blank
     else tag ''div'' [shown_if (ws \<noteq> []) (notice_list ''Evidence warnings'' ws),
       shown_if (bs \<noteq> []) (notice_list ''Budget limits exceeded'' bs)])"

text \<open>\<open>String(v).replace(/_/g, " ")\<close>.\<close>

definition spaced :: "jstr \<Rightarrow> jstr" where "spaced s = map (\<lambda>c. if c = 95 then 32 else c) s"

definition live_time :: "clock \<Rightarrow> jnum \<Rightarrow> jsval \<Rightarrow> view" where
  "live_time ck now v = (if \<not> truthy v then Text dash
     else titled v [Text (format_duration dash (Num (num_sub now (date_ms ck v)))), label '' ago'',
       tag ''span'' [Text (middot @ [32]), Text (format_date_time ck dash v)]])"

definition banner_row :: "string \<Rightarrow> view \<Rightarrow> view" where
  "banner_row l v = tag ''div'' [tag ''dt'' [label l], tag ''dd'' [v]]"

definition live_run_banner :: "clock \<Rightarrow> jnum \<Rightarrow> jsval \<Rightarrow> jsval \<Rightarrow> view" where
  "live_run_banner ck now live run = (let l = opt_get live in
     if \<not> truthy live then Blank
     else tag ''Card'' [tag ''div'' [tag ''div''
      [tag ''div'' [tag ''h2'' [label ''Live orchestration state''], dotted (js ''info'') ''sm'' Undef [label ''No durable manifest yet'']],
       tag ''p'' [label ''This run is still executing, so its manifest, verification result, patch and artifact list are not written yet. The fields below are queried live from Temporal and are not a completed-run result.''],
       tag ''dl''
        [banner_row ''Workflow'' (if truthy (l ''workflow_id'') then titled (l ''workflow_id'') [child (l ''workflow_id'')] else Text dash),
         banner_row ''State'' (dotted (js ''info'') ''sm'' Undef [Text (spaced (to_str (js_or (l ''state'') (lit ''Unknown''))))]),
         banner_row ''Current step'' (or_dash (l ''current_step'')),
         banner_row ''Started'' (live_time ck now (l ''started_at'')),
         banner_row ''Sandbox'' (if truthy (l ''sandbox_id'') then tag ''span'' [titled (l ''sandbox_id'') [child (l ''sandbox_id'')],
             shown_if (truthy (l ''sandbox_destroyed'')) (small_badge ''muted'' ''destroyed'')] else Text dash),
         banner_row ''Repository'' (if truthy (opt_get run ''repository'')
           then titled (opt_get run ''repository'') [Text (repo_label (opt_get run ''repository''))] else Text dash),
         banner_row ''Harness'' (or_dash (opt_get run ''agent_harness'')),
         banner_row ''Change'' (if truthy (l ''change_id'')
           then link_to (change_href (l ''change_id'')) [] [Text (short_sha 12 (l ''change_id''))] else Text dash)],
       shown_if (truthy (l ''query_error'')) (tag ''p'' [label ''Live query error: '', child (l ''query_error'')])]]])"

definition no_manifest_notice :: view where
  "no_manifest_notice = tag ''Card'' [tag ''div'' [tag ''div'' [tag ''h2'' [label ''No durable manifest recorded''],
     tag ''p'' [label ''The console could not find a run manifest for this ID. Sections that depend on it are shown as unavailable rather than inferred from partial evidence.'']]]]"

section \<open>Summary cards\<close>

text \<open>The details are JSON values; one that is a string is also its own title.\<close>

definition summary_card :: "string \<Rightarrow> jstr \<Rightarrow> view \<Rightarrow> jsval list \<Rightarrow> view" where
  "summary_card l tone v details = tag ''Card'' [tag ''div''
     [Node ''div'' [(''tone'', Str tone)] [tag ''p'' [label l]], tag ''div'' [v],
      shown_if (details \<noteq> []) (tag ''div'' (map (\<lambda>d. Node ''p'' [(''title'', if is_str d then d else Undef)] [child d]) details))]]"

definition steps_of :: "jsval \<Rightarrow> jsval list" where "steps_of v = as_list (opt_get v ''steps'')"
definition passed_steps :: "jsval \<Rightarrow> nat" where
  "passed_steps v = length (filter (\<lambda>s. truthy (opt_get s ''passed'')) (steps_of v))"

definition count_text :: "nat \<Rightarrow> jstr" where "count_text n = format_number False dash (int_val (int n))"

definition factory_details :: "clock \<Rightarrow> jsval \<Rightarrow> jsval list" where
  "factory_details ck run = [Str (js ''Duration '' @ format_duration dash (opt_get run ''duration_ms''))]
     @ (if truthy (opt_get run ''started_at'') then [Str (js ''Started '' @ format_date_time ck dash (opt_get run ''started_at''))] else [])
     @ (if truthy (opt_get run ''error'') then [opt_get run ''error''] else [])"

definition agent_details :: "jsval \<Rightarrow> jsval list" where
  "agent_details run =
     (if truthy (opt_get run ''agent_harness'') then [Str (js ''Harness '' @ to_str (opt_get run ''agent_harness'')
        @ (if truthy (opt_get run ''agent_version'') then [32] @ middot @ [32] @ to_str (opt_get run ''agent_version'') else []))] else [])
     @ (if \<not> nullish (opt_get run ''tokens_in'') then [Str (js ''Tokens '' @ format_number False dash (opt_get run ''tokens_in'')
        @ js '' in / '' @ format_number False dash (opt_get run ''tokens_out'') @ js '' out'')] else [])"

definition verify_details :: "jsval \<Rightarrow> jsval list" where
  "verify_details v =
     (if truthy (opt_get v ''profile'') then [Str (js ''Profile '' @ to_str (opt_get v ''profile''))] else [])
     @ [if truthy (opt_get v ''available'')
        then Str (count_text (passed_steps v) @ js '' of '' @ count_text (length (steps_of v)) @ js '' gates passed'')
        else lit ''No verification result recorded'']"

definition cleanup_details :: "jsval \<Rightarrow> jsval list" where
  "cleanup_details c = [m_detail (cleanup_meta c)]
     @ (if opt_get c ''remaining_sandboxes'' \<noteq> Undef \<and> truthy (opt_get c ''outcome'')
        then [Str (js ''Sandboxes remaining: '' @ format_number False dash (opt_get c ''remaining_sandboxes''))] else [])"

definition run_summary_cards :: "clock \<Rightarrow> jsval \<Rightarrow> jsval \<Rightarrow> view" where
  "run_summary_cards ck run v =
     (if \<not> truthy run then Blank else let cl = opt_get run ''cleanup_result'' in tag ''div''
       [summary_card ''Factory outcome'' (run_state_tone (opt_get run ''factory_result''))
          (Node ''StatusPill'' [(''kind'', lit ''run''), (''state'', opt_get run ''factory_result'')] []) (factory_details ck run),
        summary_card ''Agent'' (snd (outcome_meta (opt_get run ''agent_result''))) (outcome_badge (opt_get run ''agent_result'')) (agent_details run),
        summary_card ''Verification'' (snd (outcome_meta (opt_get run ''verification_result'')))
          (outcome_badge (opt_get run ''verification_result'')) (verify_details v),
        summary_card ''Sandbox cleanup'' (m_tone (cleanup_meta cl))
          (Node ''StatusPill'' [(''kind'', lit ''cleanup''), (''state'', cl)] []) (cleanup_details cl)])"

section \<open>Metadata\<close>

text \<open>A row of the list: \<open>children || "-"\<close>; an element is never replaced.\<close>

definition meta_line :: "string \<Rightarrow> view list \<Rightarrow> view" where
  "meta_line l vs = tag ''div'' [tag ''dt'' [label l], tag ''dd'' vs]"

definition mono_value :: "jsval \<Rightarrow> view" where
  "mono_value v = (if \<not> truthy v then Text dash else titled v [child v])"

definition sha_value :: "jsval \<Rightarrow> view" where
  "sha_value v = (if \<not> truthy v then Text dash
     else tag ''span'' [titled v [Text (short_sha 12 v)], copy_of v ''SHA'' ''xs''])"

definition token_view :: "jsval \<Rightarrow> view" where
  "token_view v = (if nullish v then label ''Not reported'' else tag ''span'' [Text (format_number False dash v)])"

definition meta_section :: "string \<Rightarrow> view list \<Rightarrow> view" where
  "meta_section t vs = tag ''section'' [tag ''h3'' [label t], tag ''dl'' vs]"

definition identity_rows :: "jsval \<Rightarrow> view list" where
  "identity_rows d = (let run = opt_get d ''run''; m = opt_get (opt_get d ''manifest''); change = related_change d in
     [meta_line ''Run ID'' [tag ''span'' [mono_value (opt_get run ''run_id''),
        shown_if (truthy (opt_get run ''run_id'')) (copy_of (opt_get run ''run_id'') ''run ID'' ''xs'')]],
      meta_line ''Change'' [if truthy change then link_to (change_href change) [(''title'', change)] [child change]
        else label ''Not linked to a change''],
      meta_line ''Factory version'' [mono_value (m ''factory_version'')],
      meta_line ''Workflow'' [mono_value (m ''workflow_id'')],
      meta_line ''Workflow run'' [mono_value (m ''workflow_run_id'')],
      meta_line ''Task hash'' [sha_value (js_or (m ''task_hash'') (opt_get (opt_get d ''task'') ''task_hash''))]])"

definition input_rows :: "jsval \<Rightarrow> view list" where
  "input_rows run =
     [meta_line ''Repository'' [titled (opt_get run ''repository'') [or_dash (opt_get run ''repository'')]],
      meta_line ''Repository kind'' [or_dash (opt_get run ''repository_kind'')],
      meta_line ''Scope'' [or_dash (opt_get run ''scope'')],
      meta_line ''Requested revision'' [sha_value (opt_get run ''requested_revision'')],
      meta_line ''Baseline SHA'' [sha_value (opt_get run ''baseline_sha'')],
      meta_line ''Resulting SHA'' [sha_value (opt_get run ''resulting_sha_if_any'')]]"

definition environment_rows :: "jsval \<Rightarrow> jsval \<Rightarrow> view list" where
  "environment_rows run manifest = (let m = opt_get manifest in
     [meta_line ''Harness'' [mono_value (opt_get run ''agent_harness''),
        shown_if (truthy (opt_get run ''agent_version'')) (tag ''span'' [child (opt_get run ''agent_version'')])],
      meta_line ''Verification profile'' [or_dash (opt_get run ''verification_profile'')],
      meta_line ''Sandbox provider'' [or_dash (m ''sandbox_provider'')],
      meta_line ''Sandbox ID'' [mono_value (js_or (opt_get run ''sandbox_id'') (m ''sandbox_id''))],
      meta_line ''Sandbox template'' [mono_value (m ''sandbox_template'')],
      meta_line ''Cube version'' [mono_value (m ''cube_version_if_available'')],
      meta_line ''Workspace'' [mono_value (m ''workspace'')],
      meta_line ''Workspace digest'' [sha_value (m ''workspace_digest'')],
      meta_line ''Egress policy'' [mono_value (m ''egress_policy'')],
      meta_line ''Egress digest'' [sha_value (m ''egress_digest'')],
      meta_line ''Egress summary'' [or_dash (m ''egress_summary'')],
      meta_line ''Model digest'' [sha_value (m ''model_digest'')],
      meta_line ''Resource digest'' [sha_value (m ''resource_digest'')]])"

definition budget_line :: "jsval \<Rightarrow> view" where
  "budget_line d = (let bs = as_list (opt_get d ''budget_exceeded'') in
     if \<not> truthy (opt_get d ''manifest'') then label ''No budget evidence recorded''
     else if bs \<noteq> [] then tag ''span'' [label ''Exceeded: '', Text (join_with (js '', '') (map (\<lambda>v. if nullish v then [] else to_str v) bs))]
     else label ''No budget exceedance recorded'')"

definition optional_line :: "string \<Rightarrow> jsval \<Rightarrow> view list \<Rightarrow> view" where
  "optional_line l v vs = shown_if (truthy v) (meta_line l vs)"

definition accounting_rows :: "clock \<Rightarrow> jnum \<Rightarrow> jsval \<Rightarrow> view list" where
  "accounting_rows ck now d = (let run = opt_get d ''run''; r = opt_get run; m = opt_get (opt_get d ''manifest'') in
     [meta_line ''Started'' [titled (or_undef (r ''started_at'')) [Text (format_date_time ck dash (r ''started_at'')),
        shown_if (truthy (r ''started_at'')) (tag ''span'' [label ''('', Text (time_ago ck now (r ''started_at'')), label '')''])]],
      meta_line ''Completed'' [titled (or_undef (r ''completed_at''))
        [if truthy (r ''completed_at'') then Text (format_date_time ck dash (r ''completed_at'')) else label ''Not completed'']],
      meta_line ''Duration'' [Text (format_duration dash (r ''duration_ms''))],
      meta_line ''Tokens in'' [token_view (r ''tokens_in'')],
      meta_line ''Tokens out'' [token_view (r ''tokens_out'')],
      meta_line ''Inference cost'' [if nullish (r ''inference_cost'') then label ''Not reported''
        else Text (format_usd dash 2 (r ''inference_cost''))],
      meta_line ''Review'' [review_indicator run ''xs''],
      optional_line ''Reviewer note'' (r ''review_note'') [child (r ''review_note'')],
      optional_line ''Review error'' (r ''review_error'') [tag ''span'' [child (r ''review_error'')]],
      meta_line ''Budget'' [budget_line d],
      optional_line ''Preview result'' (m ''preview_result'') [Text (title_case (m ''preview_result''))],
      optional_line ''Suspend result'' (m ''suspend_result'') [Text (title_case (m ''suspend_result''))]])"

definition run_metadata_card :: "clock \<Rightarrow> jnum \<Rightarrow> jsval \<Rightarrow> view" where
  "run_metadata_card ck now d = (let run = opt_get d ''run''; manifest = opt_get d ''manifest'' in tag ''Card''
     [Node ''CardHeader'' [(''title'', lit ''Run metadata''),
        (''description'', lit ''Identity, inputs, execution environment and accounting as recorded in the run manifest.'')]
        [slot ''actions'' [shown_if (nullish (opt_get manifest ''hardening'')) (small_badge ''warning'' ''Hardening not recorded'')]],
      tag ''CardBody'' [meta_section ''Identity'' (identity_rows d), meta_section ''Repository & inputs'' (input_rows run),
        meta_section ''Execution environment'' (environment_rows run manifest),
        meta_section ''Lifecycle & accounting'' (accounting_rows ck now d)]])"

section \<open>Task\<close>

text \<open>A specification of more than 900 units collapses; \<open>expanded\<close> is the state of the card.\<close>

definition collapsible :: "jsval \<Rightarrow> bool" where
  "collapsible task \<longleftrightarrow> 900 < length (to_str (js_or (opt_get task ''task'') (Str [])))"

definition task_line :: "string \<Rightarrow> jsval \<Rightarrow> view" where
  "task_line l v = shown_if (truthy v) (tag ''span'' [label l, label '' '', tag ''span'' [child v]])"

definition task_body :: "clock \<Rightarrow> jnum \<Rightarrow> bool \<Rightarrow> jsval \<Rightarrow> view list" where
  "task_body ck now expanded task = (let t = opt_get task; spec = js_or (t ''task'') (Str []) in
     [tag ''div'' [task_line ''Harness'' (t ''agent_harness''), task_line ''Model'' (js_or (t ''agent_model'') (t ''model'')),
        task_line ''Egress'' (t ''egress_policy''), task_line ''Gates'' (t ''verification_profile''),
        shown_if (truthy (t ''recorded_at'')) (titled (Str (format_date_time ck dash (t ''recorded_at'')))
          [label ''Recorded '', Text (time_ago ck now (t ''recorded_at''))])],
      Node ''pre'' [(''clipped'', JBool (\<not> expanded \<and> collapsible task))] [child (js_or spec (lit ''The task specification is empty.''))],
      shown_if (collapsible task) (tag ''div''
        [Node ''Button'' [(''aria-expanded'', JBool expanded)] [label (if expanded then ''Collapse task'' else ''Show full task'')],
         tag ''span'' [Text (en_us (num_int (int (length (to_str spec))))), label '' characters'']]),
      shown_if (truthy (t ''truncated''))
        (tag ''p'' [label ''The recorded task was truncated by the console evidence limit; the original specification may be longer.''])])"

definition task_card :: "clock \<Rightarrow> jnum \<Rightarrow> bool \<Rightarrow> jsval \<Rightarrow> bool \<Rightarrow> view" where
  "task_card ck now expanded task live = (let t = opt_get task in tag ''Card''
     [Node ''CardHeader'' [(''title'', lit ''Task specification''),
        (''description'', lit ''The task text recorded in task.json, redacted and bounded by the factory.'')]
        [slot ''actions'' [shown_if (truthy (t ''truncated'')) (small_badge ''warning'' ''Truncated evidence''),
          shown_if (truthy (t ''task_hash'')) (toned (js ''muted'') ''xs'' [Text (take 12 (to_str (t ''task_hash'')))]),
          shown_if (truthy (t ''task'')) (copy_of (t ''task'') ''task specification'' ''sm'')]],
      tag ''CardBody'' (if \<not> truthy task
        then [compact_empty (if live then ''Task evidence not written yet'' else ''Task specification unavailable'')
          (lit (if live then ''The task specification is recorded when the durable run evidence is written.''
            else ''task.json is missing or unreadable for this run. Reference the evidence browser for whatever was collected.'')) []]
        else task_body ck now expanded task)])"

section \<open>Conditions\<close>

definition STATUS :: "jstr table" where
  "STATUS = table [(''True'', ''success''), (''False'', ''danger''), (''Unknown'', ''muted'')]"

text \<open>The pair of label and tone.\<close>

definition condition_status :: "jsval \<Rightarrow> jstr \<times> jstr" where
  "condition_status v = (case table_get STATUS v of Some t \<Rightarrow> (to_str v, t)
     | None \<Rightarrow> (title_case (js_or v (lit ''Unknown'')), js ''muted''))"

definition is_upper :: "nat \<Rightarrow> bool" where "is_upper c \<longleftrightarrow> 65 \<le> c \<and> c \<le> 90"
definition lower_or_digit :: "nat \<Rightarrow> bool" where "lower_or_digit c \<longleftrightarrow> 97 \<le> c \<and> c \<le> 122 \<or> is_digit c"

text \<open>\<open>replace(/([a-z0-9])([A-Z])/g, "$1 $2")\<close>: a match takes both letters.\<close>

fun break_words :: "jstr \<Rightarrow> jstr" where
  "break_words (a # b # s) = (if lower_or_digit a \<and> is_upper b then a # 32 # b # break_words s else a # break_words (b # s))"
| "break_words s = s"

definition condition_label :: "jsval \<Rightarrow> jstr" where
  "condition_label v = (if \<not> truthy v then js ''Condition'' else title_case (Str (unsnake (break_words (to_str v)))))"

definition condition_view :: "clock \<Rightarrow> jnum \<Rightarrow> bool \<Rightarrow> jsval \<Rightarrow> view" where
  "condition_view ck now final c = (let at_val = opt_get c ''last_transition_time''; m = condition_status (opt_get c ''status'') in
     tag ''li'' [tag ''div'' [Node ''span'' [(''tone'', Str (snd m))] [], shown_if (\<not> final) (tag ''span'' [])],
       tag ''div'' [tag ''div''
         [tag ''span'' [Text (condition_label (opt_get c ''type''))], dotted (snd m) ''xs'' Undef [Text (fst m)],
          shown_if (truthy (opt_get c ''reason'')) (tag ''span'' [child (opt_get c ''reason'')]),
          titled (if truthy at_val then Str (format_date_time ck dash at_val) else Undef)
            [Text (if truthy at_val then time_ago ck now at_val else dash)]],
        shown_if (truthy (opt_get c ''message'')) (tag ''p'' [child (opt_get c ''message'')])]])"

definition conditions_card :: "clock \<Rightarrow> jnum \<Rightarrow> jsval list \<Rightarrow> bool \<Rightarrow> view" where
  "conditions_card ck now cs live = (let n = length cs in tag ''Card''
     [Node ''CardHeader'' [(''title'', lit ''Conditions''), (''description'', lit (if live
        then ''Workflow step outcomes from the live Temporal query; durable conditions are written when the run completes.''
        else ''Per-step outcomes recorded in the durable run manifest, in lifecycle order.''))]
        [slot ''actions'' [shown_if live (dotted (js ''info'') ''sm'' Undef [label ''Live'']),
          toned (js ''muted'') ''xs'' [Text (dec_nat n), label '' condition'', label (if n = 1 then [] else ''s'')]]],
      tag ''CardBody'' [if cs = [] then compact_empty ''No conditions recorded'' (lit (if live
          then ''The live workflow has not reported step conditions yet.''
          else ''The manifest does not contain any step conditions for this run.'')) []
        else tag ''ol'' (map (\<lambda>(i, c). condition_view ck now (i = n - 1) c) (enumerate 0 cs))]])"

section \<open>Verification gates\<close>

text \<open>The pair of tone and label.\<close>

definition gate_status :: "jsval \<Rightarrow> string \<times> string" where
  "gate_status s = (if truthy (opt_get s ''timed_out'') then (''warning'', ''Timed out'')
     else if truthy (opt_get s ''passed'') then (''success'', ''Passed'') else (''danger'', ''Failed''))"

definition argv_text :: "jsval \<Rightarrow> jstr" where
  "argv_text s = join_with [32] (map (\<lambda>v. if nullish v then [] else to_str v) (as_list (opt_get s ''argv'')))"

definition output_button :: "jsval \<Rightarrow> string \<Rightarrow> view" where
  "output_button artifact l = shown_if (truthy artifact) (Node ''Button''
     [(''title'', Str (js ''Preview '' @ to_str artifact)), (''aria-label'', Str (js ''Preview '' @ to_str artifact))] [label l])"

definition gate_row :: "clock \<Rightarrow> jnum \<Rightarrow> jsval \<Rightarrow> view" where
  "gate_row ck now s = (let g = opt_get s in tag ''li'' [tag ''div''
     [Node ''span'' [(''tone'', lit (fst (gate_status s)))]
        [tag (if truthy (g ''timed_out'') then ''TimerOff'' else if truthy (g ''passed'') then ''CircleCheck'' else ''CircleX'') []],
      tag ''div''
       [tag ''div'' [tag ''span'' [child (g ''id'')],
          shown_if (truthy (g ''description'')) (tag ''span'' [child (g ''description'')]),
          small_badge (if truthy (g ''mandatory'') then ''outline'' else ''muted'') (if truthy (g ''mandatory'') then ''Mandatory'' else ''Optional''),
          shown_if (truthy (g ''timed_out'')) (small_badge ''warning'' ''Timed out'')],
        tag ''div'' [titled (Str (argv_text s)) [tag ''span'' [label ''$''], tag ''span'' [Text (argv_text s)]],
          tag ''span'' [label ''exit '', Node ''span'' [(''tone'', lit (if g ''exit_code'' = int_val 0 then ''success'' else ''danger''))] [child (g ''exit_code'')]],
          tag ''span'' [Text (format_duration dash (g ''duration_ms''))],
          shown_if (truthy (g ''completed_at'')) (titled (g ''completed_at'') [label ''finished '', Text (time_ago ck now (g ''completed_at''))])]],
      tag ''div'' [output_button (g ''stdout_artifact'') ''stdout'', output_button (g ''stderr_artifact'') ''stderr'']]])"

definition verification_card :: "clock \<Rightarrow> jnum \<Rightarrow> jsval \<Rightarrow> bool \<Rightarrow> view" where
  "verification_card ck now v live =
     (let available = truthy (opt_get v ''available''); steps = steps_of v; n = passed_steps v; ok = truthy (opt_get v ''passed'') in tag ''Card''
     [Node ''CardHeader'' [(''title'', lit ''Verification gates''),
        (''description'', lit ''Deterministic gate programs executed against the resulting tree.'')]
        [slot ''actions'' (if available
          then [dotted (js (if ok then ''success'' else ''danger'')) ''xs'' Undef [label (if ok then ''All gates passed'' else ''Gates failed'')],
            toned (js ''muted'') ''xs'' [Text (dec_nat n), label ''/'', Text (dec_nat (length steps)), label '' passed'']]
          else [small_badge ''warning'' ''Unavailable''])],
      tag ''CardBody'' (if \<not> available
        then [compact_empty (if live then ''Verification not available yet'' else ''No verification evidence'')
          (lit (if live then ''Gates run after the agent finishes; no verification result is written for this live run yet.''
            else ''verification/result.json is missing or unreadable for this run. Gate status cannot be judged from this evidence.'')) []]
        else [tag ''div'' [tag ''span'' [label ''Profile '', tag ''span'' [or_dash (opt_get v ''profile'')]],
            tag ''span'' [label ''Duration '', tag ''span'' [Text (format_duration dash (opt_get v ''duration_ms''))]],
            shown_if (truthy (opt_get v ''started_at'')) (titled (opt_get v ''started_at'') [label ''Started '', Text (time_ago ck now (opt_get v ''started_at''))]),
            tag ''span'' [Text (dec_nat n), label '' of '', Text (dec_nat (length steps)), label '' gates passed'']],
          if steps \<noteq> [] then tag ''ol'' (map (gate_row ck now) steps)
          else compact_empty ''No gate steps recorded'' (lit ''The verification result exists but contains no gate steps.'') []])])"

end
