(* ===== verification/Console_Change.thy ===== *)
theory Console_Change imports Console_Run_Viewer begin

text \<open>
  The detail page of a change (\<open>pages/change-detail.jsx\<close>) with its panels
  (\<open>components/flows/change-detail\<close>): the lineage of its activations, the review gate with the
  commands to copy, the task and the identity record. Entries of lists are read as objects; on
  \<open>null\<close> the source throws.
\<close>

section \<open>Pieces\<close>

definition status_pill_of :: "string \<Rightarrow> jsval \<Rightarrow> view" where
  "status_pill_of kind v = Node ''StatusPill'' [(''kind'', lit kind), (''state'', v)] []"

text \<open>A link written as a template over \<open>encodeURIComponent\<close>, which throws on a lone surrogate.\<close>

definition template_href :: "string \<Rightarrow> jsval \<Rightarrow> jstr option" where
  "template_href path i = map_option (\<lambda>t. js path @ t) (encode_uri (to_str i))"

definition size_of :: "jsval list \<Rightarrow> jstr" where "size_of xs = num_text (num_int (int (length xs)))"

definition several :: "nat \<Rightarrow> string \<Rightarrow> string" where "several n s = (if n = 1 then [] else s)"

section \<open>Activation lineage\<close>

definition review_cell :: "jsval \<Rightarrow> view" where
  "review_cell run = (if \<not> truthy (opt_get run ''review_configured'')
       then titled (lit ''Review was not configured for this run.'') [label ''Not required'']
     else if \<not> truthy (opt_get run ''review_outcome'') then tag ''span'' [label ''No outcome reported'']
     else status_pill_of ''review'' (opt_get run ''review_outcome''))"

definition resolved_in :: "jsval list \<Rightarrow> jsval \<Rightarrow> bool" where
  "resolved_in runs a \<longleftrightarrow> list_ex (\<lambda>r. strict_eq (opt_get r ''run_id'') (opt_get a ''run_id'')) runs"

definition resolved_activations :: "jsval \<Rightarrow> jsval \<Rightarrow> jsval list" where
  "resolved_activations change runs = filter (resolved_in (as_list runs)) (activations change)"

definition activation_row :: "clock \<Rightarrow> jnum \<Rightarrow> jsval \<Rightarrow> jsval \<Rightarrow> view" where
  "activation_row ck now change run =
     (let g = opt_get run; reason = activation_reason change (g ''run_id'') in tag ''TR''
     [tag ''TD'' [tag ''div'' [link_to (template_href ''#/runs/'' (g ''run_id'')) [(''title'', g ''run_id'')] [child (g ''run_id'')],
        tag ''span'' [Text (if truthy (g ''baseline_sha'') then js ''baseline '' @ short_sha 7 (g ''baseline_sha'') else js ''baseline not reported''),
          Text (case run_token_total run of None \<Rightarrow> [] | Some n \<Rightarrow> [32] @ middot @ [32] @ format_number False dash (Num n) @ js '' tok'')]]],
      tag ''TD'' [if truthy reason
        then Node ''Badge'' [(''variant'', lit ''outline''), (''size'', lit ''sm''), (''title'', Str (js ''Activation reason: '' @ to_str reason))] [child reason]
        else titled (lit ''This run is not referenced by the change activation lineage.'') [label ''Not in lineage'']],
      tag ''TD'' [status_pill_of ''run'' (g ''factory_result'')], tag ''TD'' [review_cell run],
      Node ''TD'' [(''muted'', JBool True)] [titled (or_undef (g ''agent_version'')) [or_dash (g ''agent_harness'')]],
      Node ''TD'' [(''numeric'', JBool True)] [Text (format_duration dash (g ''duration_ms''))],
      Node ''TD'' [(''muted'', JBool True)] [titled (Str (format_date_time ck dash (g ''started_at''))) [Text (time_ago ck now (g ''started_at''))]]])"

text \<open>The line below the table: the lost activations, or how many were resolved.\<close>

definition lineage_footer :: "jsval \<Rightarrow> jsval \<Rightarrow> view" where
  "lineage_footer change runs =
     (let lost = missing_activation_runs change runs; acts = activations change; n = length lost;
          ids = join_with (js '', '') (map (\<lambda>a. let i = opt_get a ''run_id'' in if nullish i then [] else to_str i) lost) in
      if lost \<noteq> [] then tag ''CardFooter''
        [tag ''span'' [Text (size_of lost), label '' activation'', label (if n = 1 then '' has'' else ''s have''), label '' no retained run evidence:''],
         titled (Str ids) [Text ids]]
      else if acts \<noteq> [] then tag ''CardFooter'' [tag ''span'' [Text (size_of (resolved_activations change runs)), label '' of '', Text (size_of acts),
         label '' activation'', label (several (length acts) ''s''), label '' resolved to retained run evidence.'']]
      else Blank)"

definition activation_table :: "clock \<Rightarrow> jnum \<Rightarrow> jsval \<Rightarrow> jsval \<Rightarrow> view" where
  "activation_table ck now change runs = (let rs = as_list runs in tag ''Card''
     [Node ''CardHeader'' [(''title'', lit ''Activation runs''),
        (''description'', lit ''Runs recorded for this change, newest first. Reasons come from the change activation lineage.'')]
        [slot ''actions'' [toned (js ''muted'') ''sm'' [Text (size_of rs), label '' '', label (if length rs = 1 then ''run'' else ''runs'')]]],
      tag ''Table''
       [tag ''THead'' [tag ''TR'' (map (\<lambda>l. Node ''TH'' [(''numeric'', JBool (l = ''Duration''))] [label l])
          [''Run'', ''Reason'', ''Result'', ''Review'', ''Harness'', ''Duration'', ''Started''])],
        tag ''tbody'' (if rs = [] then [Node ''TableEmpty'' [(''colSpan'', int_val 7), (''title'', lit ''No activation runs available''),
            (''description'', lit ''The change record references activations, but their run evidence is no longer retained in the artifact store.'')] []]
          else map (activation_row ck now change) rs)],
      lineage_footer change runs])"

section \<open>Task and identity\<close>

definition task_panel :: "jsval \<Rightarrow> view" where
  "task_panel change =
     (let preview = js_or (opt_get change ''task_preview'') (Str []); h = js_or (opt_get change ''task_hash'') (Str []) in tag ''Card''
     [Node ''CardHeader'' [(''title'', lit ''Task specification''),
        (''description'', lit ''Bounded preview recorded with the change. Full task text stays in the run evidence.'')]
        [slot ''actions'' [shown_if (ends_with (to_str preview) ellipsis) (tag ''span'' [label ''Truncated preview''])]],
      tag ''CardBody'' [if truthy preview then tag ''p'' [child preview]
        else compact_empty ''No task preview recorded''
          (lit ''The change artifact carries a task hash but no preview text. Use the run evidence for the full task specification.'') []],
      tag ''CardFooter'' [tag ''span'' [label ''Task hash''],
        if truthy h then fragment [titled h [child h], copy_of h ''task hash'' ''xs''] else tag ''span'' [label ''Not reported'']]])"

definition row_of :: "string \<Rightarrow> view \<Rightarrow> jsval \<Rightarrow> jsval \<Rightarrow> definition_row" where
  "row_of l v title copied = \<lparr>dr_label = l, dr_value = v, dr_title = title, dr_copy = copied\<rparr>"

definition sha_row :: "string \<Rightarrow> nat \<Rightarrow> jsval \<Rightarrow> jsval \<Rightarrow> definition_row" where
  "sha_row l n v copied = row_of l (Text (if truthy v then short_sha n v else not_reported)) (or_undef v) copied"

definition meta_rows :: "clock \<Rightarrow> jsval \<Rightarrow> jsval \<Rightarrow> definition_row list" where
  "meta_rows ck change runs = (let g = opt_get change; h = \<lambda>k. js_or (g k) (Str []); base = opt_get (latest_run runs) ''baseline_sha'' in
     [row_of ''Repository'' (Text (if truthy (g ''repository'') then repo_label (g ''repository'') else not_reported)) (or_undef (g ''repository'')) (h ''repository''),
      row_of ''Scope'' (child (js_or (g ''scope'') (Str not_reported))) Undef Undef,
      sha_row ''Requested rev'' 7 (g ''requested_revision'') (h ''requested_revision''),
      sha_row ''Baseline rev'' 7 base Undef,
      row_of ''Last run'' (child (js_or (g ''last_run_id'') (lit ''No runs''))) (or_undef (g ''last_run_id'')) (h ''last_run_id''),
      sha_row ''Task hash'' 12 (g ''task_hash'') (h ''task_hash''),
      row_of ''Created'' (Text (format_date_time ck dash (g ''created_at''))) (or_undef (g ''created_at'')) Undef,
      row_of ''Updated'' (Text (format_date_time ck dash (g ''updated_at''))) (or_undef (g ''updated_at'')) Undef])"

definition change_meta_panel :: "clock \<Rightarrow> jsval \<Rightarrow> jsval \<Rightarrow> view" where
  "change_meta_panel ck change runs =
     (let ev = truthy (opt_get change ''has_evidence''); n = length (as_list runs); acts = activations change in tag ''Card''
     [Node ''CardHeader'' [(''title'', lit ''Change record''), (''description'', lit ''Durable identities and timestamps from the change artifact.'')]
        [slot ''actions'' [dotted (js (if ev then ''success'' else ''warning'')) ''sm'' Undef [label (if ev then ''Evidence retained'' else ''No evidence'')]]],
      tag ''CardBody'' [definition_list (meta_rows ck change runs)],
      tag ''CardFooter'' [tag ''span'' [Text (dec_nat n), label '' run'', label (several n ''s''), Text (js '' resolved '' @ middot), label '' '',
        Text (dec_nat (length acts)), label '' activation'', label (if is_array (opt_get change ''activations'') \<and> length acts = 1 then [] else ''s''), label '' recorded'']]])"

section \<open>The review gate\<close>

definition review_fact :: "string \<Rightarrow> string \<Rightarrow> view \<Rightarrow> view" where
  "review_fact l title v = Node ''div'' [(''title'', lit title)] [tag ''p'' [label l], tag ''div'' [v]]"

text \<open>The commands are withheld exactly where the answer says that no live gate can take them.\<close>

definition decision_commands :: "bool \<Rightarrow> jsval \<Rightarrow> view" where
  "decision_commands pending review = (if opt_get review ''actionable'' = JBool False
     then tag ''p'' [tag ''span'' [label ''No live review gate.''], label '' '', child (js_or (opt_get review ''note'')
       (lit ''The activation has finished and no workflow is paused, so the CLI review signal has nothing to answer.''))]
     else tag ''div'' [command_row ''Approve'' (opt_get review ''approve_command'') ''success'' Undef,
       command_row ''Reject'' (opt_get review ''reject_command'') ''danger''
         (if pending then Str (js ''Replace the '' @ ellipsis @ js '' placeholder with a decision note.'') else Undef)])"

definition review_facts :: "jsval \<Rightarrow> view" where
  "review_facts review = (let configured = truthy (opt_get review ''configured''); enabled = truthy (opt_get review ''global_enabled'');
       pending = truthy (opt_get review ''pending''); outcome = js_or (opt_get review ''latest_outcome'') (Str []) in tag ''div''
     [review_fact ''Gate configured'' ''Whether a review gate applies to this change.''
        (small_badge (if configured then ''success'' else ''muted'') (if configured then ''Configured'' else ''Not configured'')),
      review_fact ''Global review'' ''factory.toml review.enabled for the whole factory.''
        (small_badge (if enabled then ''info'' else ''muted'') (if enabled then ''Enabled'' else ''Disabled'')),
      review_fact ''Decision pending'' ''Derived from the durable change status: IN_REVIEW means a decision is pending.''
        (dotted (js (if pending then ''warning'' else ''muted'')) ''xs'' Undef [label (if pending then ''Yes'' else ''No'')]),
      review_fact ''Latest outcome'' ''Recorded review outcome on the latest activation run, when the manifest reports one.''
        (if truthy outcome then pill ''review'' ''xs'' outcome else tag ''span'' [label ''Not reported''])])"

definition unconfigured_notice :: "bool \<Rightarrow> view" where
  "unconfigured_notice pending = (if pending
     then notice ''warning'' ''Review gate not configured in the loaded factory.toml''
       [label ''The durable change is in review, but the current configuration does not enable a review gate for this scope. Check the run evidence before copying a decision command.'']
     else notice ''muted'' ''Review was not enabled for this change''
       [label ''The change did not require a human gate. The commands are shown for completeness; confirm the run state in the evidence before using them.''])"

definition review_note_block :: "jsval \<Rightarrow> jsval \<Rightarrow> view" where
  "review_note_block latest outcome = (let note = opt_get latest ''review_note'' in
     shown_if (truthy note) (tag ''div'' [tag ''p'' [label ''Latest review note''], tag ''p'' [child note],
       tag ''p'' [label ''Recorded on run '', tag ''span'' [child (opt_get latest ''run_id'')],
         Text (if truthy outcome then [32] @ middot @ js '' outcome '' @ to_str outcome else [])]]))"

definition review_panel :: "clock \<Rightarrow> jsval \<Rightarrow> jsval \<Rightarrow> jsval \<Rightarrow> view" where
  "review_panel ck change review latest =
     (let pending = truthy (opt_get review ''pending''); since = Str (format_date_time ck dash (opt_get change ''updated_at'')) in tag ''Card''
     [Node ''CardHeader'' [(''title'', lit ''Human review''),
        (''description'', lit ''Decisions stay in the authenticated factory CLI; this console is a read-only evidence surface.'')]
        [slot ''actions'' [dotted (js (if pending then ''warning'' else ''muted'')) ''sm'' Undef
          [label (if pending then ''Decision pending'' else ''No decision pending'')]]],
      tag ''CardBody'' [review_facts review,
        if pending then tag ''p'' [label ''Waiting since '', titled since [child since],
          Text (js ''. Approve or reject from the CLI, then reload this page '' @ em_dash @ js '' the console cannot write.'')]
        else tag ''p'' [label ''The reference commands below remain the CLI entry points for a decision on this change.''],
        decision_commands pending review,
        review_note_block latest (js_or (opt_get review ''latest_outcome'') (Str [])),
        shown_if (\<not> truthy (opt_get review ''configured'')) (unconfigured_notice pending)],
      tag ''CardFooter'' [tag ''span'' [label ''Commands are copied to the clipboard, never executed by the console.'']]])"

section \<open>Warnings and totals\<close>

text \<open>\<open>/no run evidence|evidence is unavailable|pruned/i\<close> on the text of a warning.\<close>

definition about_evidence :: "jsval \<Rightarrow> bool" where
  "about_evidence w = (let s = to_lower (to_str w) in list_ex (\<lambda>p. contains s (js p))
     [''no run evidence'', ''evidence is unavailable'', ''pruned''])"

record warning_note =
  wn_title :: string
  wn_body :: jsval

definition missing_evidence_note :: "jsval \<Rightarrow> nat \<Rightarrow> warning_note" where
  "missing_evidence_note change n = \<lparr>wn_title = ''No retained run evidence'',
     wn_body = Str (js ''The durable change record reports has_evidence='' @ to_str (opt_get change ''has_evidence'') @ js '' and ''
       @ dec_nat n @ js '' resolved activation run'' @ js (several n ''s'')
       @ js ''. The change is still auditable, but gates, patch and run-level evidence cannot be shown here.'')\<rparr>"

definition warning_notes :: "jsval \<Rightarrow> jsval list \<Rightarrow> jsval list \<Rightarrow> warning_note list" where
  "warning_notes change warnings runs = (if \<not> truthy change then [] else
     map (\<lambda>w. \<lparr>wn_title = (if about_evidence w then ''No retained run evidence'' else ''Recorded warning''), wn_body = w\<rparr>) warnings
     @ (if (\<not> truthy (opt_get change ''has_evidence'') \<or> runs = []) \<and> \<not> list_ex about_evidence warnings
        then [missing_evidence_note change (length runs)] else []))"

text \<open>The first cell holds a pill in place of a text.\<close>

definition change_cells :: "clock \<Rightarrow> jnum \<Rightarrow> jsval \<Rightarrow> jsval list \<Rightarrow> view list" where
  "change_cells ck now change runs = (let g = opt_get change; sp = change_spend change in
     stat_box (stat_of ''Status'' [] (js ''durable lifecycle'')
         ''Durable change status from the change artifact. Review decisions never mutate it from the console.'')
       (status_pill_of ''change'' (g ''status'')) # map stat_cell
     [(stat_of ''Attempts'' (format_number False dash (g ''attempts'')) (js ''recorded activations'')
         ''Number of recorded activation attempts from the durable change record.'')
         \<lparr>st_tone := lit (if num_lt (num_int 1) (to_num (g ''attempts'')) then ''warning'' else [])\<rparr>,
      (stat_of ''Total tokens'' (tokens_label sp) (js ''aggregate'')
         ''Sum of total_tokens recorded on the change. Zero means not reported, never estimated.'')\<lparr>st_muted := (tokens sp = num_int 0)\<rparr>,
      (stat_of ''Total cost'' (cost_label sp) (js ''reported cost'')
         ''Sum of total_cost_usd recorded on the change. The console never estimates cost.'')\<lparr>st_muted := \<not> reported sp\<rparr>,
      stat_of ''Resolved runs'' (size_of runs) (count_noun (num_int (int (length (activations change)))) ''activation'' @ js '' recorded'')
         ''Activation runs resolved from the artifact store for this change.'',
      (stat_of ''Created'' (time_ago ck now (g ''created_at'')) (format_date ck dash (g ''created_at'')) [])
         \<lparr>st_hint := format_date_time ck dash (g ''created_at'')\<rparr>,
      (stat_of ''Updated'' (time_ago ck now (g ''updated_at'')) (format_date ck dash (g ''updated_at'')) [])
         \<lparr>st_hint := format_date_time ck dash (g ''updated_at'')\<rparr>])"

section \<open>The page\<close>

definition change_detail_skeleton :: view where
  "change_detail_skeleton = tag ''div'' [tag ''div'' (replicate 3 (tag ''div'' []) @ [tag ''div'' (replicate 3 (tag ''div'' []))]),
     tag ''div'' [stat_skeleton 7, tag ''div'' (replicate 2 (tag ''div'' []))]]"

definition change_not_found :: "jstr \<Rightarrow> view" where
  "change_not_found i = tag ''div''
     [Node ''PageHeader'' [(''eyebrow'', lit ''Change''), (''backHref'', lit ''#/changes''), (''backLabel'', lit ''All changes'')]
        [slot ''title'' [tag ''span'' [Text (if i = [] then js ''Unknown change'' else i)]]],
      tag ''Card'' [Node ''EmptyState'' [(''title'', lit ''Change not found''),
          (''description'', Str (if i = [] then js ''This route has no change identifier.''
            else js ''No durable change record matches '' @ quoted i @ js ''. It may have been pruned, or the link may be incorrect.''))]
        [slot ''action'' [tag ''div'' [Node ''Button'' [(''href'', lit ''#/changes'')] [label ''Back to changes''],
          Node ''Button'' [(''href'', lit ''#/reviews'')] [label ''Review queue'']]]]]]"

definition change_unreadable :: "jstr \<Rightarrow> request_error \<Rightarrow> view" where
  "change_unreadable i e = tag ''div''
     [Node ''PageHeader'' [(''eyebrow'', lit ''Change''), (''backHref'', lit ''#/changes''), (''backLabel'', lit ''All changes'')]
        [slot ''title'' [tag ''span'' [Text i]]],
      error_panel e ''The change record could not be loaded'' ''Retry'' True]"

definition change_header :: "clock \<Rightarrow> jnum \<Rightarrow> jstr \<Rightarrow> jsval \<Rightarrow> bool \<Rightarrow> jsval \<Rightarrow> bool \<Rightarrow> view" where
  "change_header ck now i data loading updated_at auto =
     (let change = opt_get data ''change''; g = opt_get change; name = js_or (g ''change_id'') (Str i); latest = latest_run (opt_get data ''runs'') in
     Node ''PageHeader'' [(''eyebrow'', lit ''Change''), (''backHref'', lit ''#/changes''), (''backLabel'', lit ''All changes''),
       (''description'', lit ''Lifecycle, activation lineage and the human review gate for one durable change.'')]
      [slot ''title'' [tag ''span'' [child name]],
       slot ''actions'' [refresh_control ck now (js_or (opt_get data ''generated_at'') updated_at) loading,
         if truthy latest then (case template_href ''#/runs/'' (opt_get latest ''run_id'') of None \<Rightarrow> Invalid
           | Some u \<Rightarrow> Node ''Button'' [(''href'', Str u)] [label ''Latest run'']) else Blank,
         copy_of name ''change ID'' ''md''],
       slot ''meta'' [status_pill_of ''change'' (g ''status''), tag ''span'' [titled (g ''repository'') [Text (repo_label (g ''repository''))]],
         toned (js ''muted'') ''sm'' [child (js_or (g ''scope'') (lit ''no scope''))],
         shown_if (truthy (g ''requested_revision'')) (titled (g ''requested_revision'') [label ''rev '', Text (short_sha 7 (g ''requested_revision''))]),
         shown_if (truthy (g ''last_result'')) (status_pill_of ''run'' (g ''last_result'')),
         titled (Str (format_date_time ck dash (g ''updated_at''))) [label ''Updated '', Text (time_ago ck now (g ''updated_at''))],
         shown_if auto (tag ''span'' [label ''Auto-refresh 30s''])]])"

definition stale_evidence :: "clock \<Rightarrow> jnum \<Rightarrow> jsval \<Rightarrow> request_error option \<Rightarrow> view" where
  "stale_evidence ck now data err_opt = (case err_opt of None \<Rightarrow> Blank | Some e \<Rightarrow> notice ''warning'' ''Refresh failed''
     [Text (error_message e), label '' Showing evidence generated '',
      Text (if truthy (opt_get data ''generated_at'') then time_ago ck now (opt_get data ''generated_at'') else js ''recently''), label ''.''])"

definition change_body :: "clock \<Rightarrow> jnum \<Rightarrow> jstr \<Rightarrow> jsval \<Rightarrow> request_error option \<Rightarrow> view" where
  "change_body ck now i data err_opt =
     (let change = opt_get data ''change''; runs = opt_get data ''runs''; rs = as_list runs; latest = latest_run runs;
          notes = warning_notes change (as_list (opt_get data ''warnings'')) rs in tag ''div''
     [shown_if (notes \<noteq> []) (Node ''div'' [(''role'', lit ''status'')]
        (map (\<lambda>n. notice ''warning'' (wn_title n) [child (wn_body n)]) notes)),
      shown_if (truthy (opt_get change ''rework_note'')) (notice ''info'' ''Rework requested'' [child (opt_get change ''rework_note'')]),
      stat_panel ''Change lifecycle and aggregate spend'' (change_cells ck now change rs),
      stale_evidence ck now data err_opt,
      tag ''div'' [tag ''div'' [activation_table ck now change runs, task_panel change],
        tag ''div'' [review_panel ck change (js_or (opt_get data ''review'') (Obj [])) latest, change_meta_panel ck change runs]],
      tag ''p'' [label ''Evidence source: '', tag ''span'' [label ''changes/'', child (js_or (opt_get change ''change_id'') (Str i)), label ''.json''],
        label '', the activation run manifests, and the loaded '', tag ''span'' [label ''factory.toml''],
        label '' review scope. Decisions remain in the factory CLI.'']])"

definition change_detail_page ::
  "clock \<Rightarrow> jnum \<Rightarrow> jstr \<Rightarrow> jsval \<Rightarrow> request_error option \<Rightarrow> bool \<Rightarrow> jsval \<Rightarrow> bool \<Rightarrow> view" where
  "change_detail_page ck now i data err_opt loading updated_at auto =
     (if i = [] then change_not_found []
      else case err_opt of
        Some e \<Rightarrow> if error_status e = Some 404 then change_not_found i
          else if \<not> truthy data then change_unreadable i e
          else if \<not> truthy (opt_get data ''change'') then change_not_found i
          else tag ''div'' [change_header ck now i data loading updated_at auto, change_body ck now i data err_opt]
      | None \<Rightarrow> if loading \<and> \<not> truthy data then change_detail_skeleton
          else if \<not> truthy (opt_get data ''change'') then change_not_found i
          else tag ''div'' [change_header ck now i data loading updated_at auto, change_body ck now i data err_opt])"

end
