(* ===== verification/Console_Security.thy ===== *)
theory Console_Security imports Console_Settings Console_Change begin

text \<open>
  The security screen (\<open>pages/security.jsx\<close>) with its tables (\<open>components/ops/security-tables.jsx\<close>)
  and the posture panel (\<open>components/ops/posture-panel.jsx\<close>). A count that the answer does not hold
  is \<open>None\<close> and is shown as a dash.
\<close>

section \<open>Counts\<close>

definition lowered :: "jsval \<Rightarrow> jstr" where "lowered v = to_lower (to_str (js_or v (Str [])))"

definition among :: "jstr \<Rightarrow> string list \<Rightarrow> bool" where "among s xs \<longleftrightarrow> s \<in> set (map js xs)"

definition count_val :: "jnum option \<Rightarrow> jsval" where
  "count_val n = (case n of None \<Rightarrow> Null | Some x \<Rightarrow> Num x)"

definition shown_count :: "jnum option \<Rightarrow> jstr" where "shown_count n = format_number False dash (count_val n)"

definition some_positive :: "jnum option \<Rightarrow> bool" where
  "some_positive n \<longleftrightarrow> (case n of None \<Rightarrow> False | Some x \<Rightarrow> positive x)"

definition tone_for :: "jnum option \<Rightarrow> string \<Rightarrow> string" where
  "tone_for n t = (if some_positive n then t else ''muted'')"

definition metric :: "bool \<Rightarrow> bool \<Rightarrow> jsval \<Rightarrow> view" where
  "metric danger good v = (case as_number v of None \<Rightarrow> dash_view
     | Some n \<Rightarrow> Node ''span'' [(''tone'', lit (if positive n then if danger then ''danger'' else ''foreground''
         else if good then ''success'' else ''foreground''))] [Text (num_text n)])"

definition numeric_tone :: "jsval \<Rightarrow> view" where
  "numeric_tone v = (case as_number v of None \<Rightarrow> dash_view
     | Some n \<Rightarrow> Node ''span'' [(''tone'', lit (if positive n then ''danger'' else ''muted''))] [Text (num_text n)])"

definition count_or_dash :: "jsval \<Rightarrow> jstr" where
  "count_or_dash v = (case as_number v of None \<Rightarrow> em_dash | Some n \<Rightarrow> num_text n)"

section \<open>Tables\<close>

definition run_link :: "view \<Rightarrow> jsval \<Rightarrow> view" where
  "run_link none i = (let v = text_or i [] in
     if v = [] then none else link_to (href_for (js ''run'') v) [(''title'', Str v)] [Text v])"

definition severity_cell :: "jsval \<Rightarrow> view" where
  "severity_cell v = (if truthy v then pill ''severity'' ''xs'' v else dash_view)"

definition files_badge :: "jsval list \<Rightarrow> view" where
  "files_badge fs = (if fs = [] then dash_view
     else Node ''Badge'' [(''variant'', lit ''danger''), (''size'', lit ''xs''),
         (''title'', Str (join_with [10] (map (\<lambda>x. if nullish x then [] else to_str x) fs)))]
       [Text (dec_nat (length fs)), label '' file'', label (several (length fs) ''s'')])"

definition finding_entry :: "clock \<Rightarrow> jnum \<Rightarrow> jsval \<Rightarrow> view" where
  "finding_entry ck now e = (let g = opt_get e in tag ''TR''
     [td [run_link dash_view (g ''run_id'')], td [pill ''run'' ''xs'' (g ''result'')],
      td [titled (Str (text_or (g ''repository'') [])) [Text (repo_label (g ''repository''))]],
      td_muted [tag ''span'' [Text (text_or (g ''agent_harness'') dash)]], td_muted [Text (text_or (g ''scope'') dash)],
      td_num [Node ''span'' [(''tone'', lit (tone_for (as_number (g ''findings'')) ''danger''))] [Text (count_or_dash (g ''findings''))]],
      td [severity_cell (g ''max_severity'')],
      td [case as_boolean (g ''tripped'') of None \<Rightarrow> dash_view
        | Some b \<Rightarrow> bool_chip (styled ''Tripped'' ''No'' ''danger'' ''muted'') Undef (Some b)],
      td [files_badge (as_list (g ''gate_modified''))], td_num [numeric_tone (g ''egress_issues'')],
      td [titled (Str (date_time_or ck (g ''finished_at'') dash)) [Text (time_ago_or ck now (g ''finished_at'') dash)]]])"

definition findings_table :: "clock \<Rightarrow> jnum \<Rightarrow> jsval list \<Rightarrow> jstr \<Rightarrow> view" where
  "findings_table ck now es empty_text = Node ''Table'' [(''aria-label'', lit ''Runs with security signals'')]
     [table_head [''Findings'', ''Egress issues''] [''Run'', ''Result'', ''Repository'', ''Harness'', ''Scope'', ''Findings'',
        ''Max severity'', ''Tripped'', ''Gate modified'', ''Egress issues'', ''Finished''],
      tag ''tbody'' (if es = [] then [table_empty 11 ''No runs with security signals'' (js_or (Str empty_text)
          (lit ''No run in this window produced a finding, security stop, gate modification or egress issue.''))]
        else map (finding_entry ck now) es)]"

definition rule_row :: "jsval \<Rightarrow> view" where
  "rule_row r = (let g = opt_get r in tag ''TR''
     [td [tag ''span'' [Text (text_or (g ''rule_id'') dash)]], td_muted [Text (text_or (g ''category'') dash)],
      td [severity_cell (g ''severity'')], td_num [Text (format_number False dash (g ''runs''))],
      td_num [Node ''span'' [(''tone'', lit (tone_for (as_number (g ''findings'')) ''danger''))] [Text (count_or_dash (g ''findings''))]]])"

definition rules_table :: "jsval list \<Rightarrow> view" where
  "rules_table rs = Node ''Table'' [(''aria-label'', lit ''Behavior rules aggregated across runs'')]
     [table_head [''Runs'', ''Findings''] [''Rule'', ''Category'', ''Severity'', ''Runs'', ''Findings''],
      tag ''tbody'' (if rs = [] then [table_empty 5 ''No behavior findings'' (lit ''No hardening rule fired across the inspected runs in this window.'')]
        else map rule_row rs)]"

definition uid_view :: "jsval \<Rightarrow> view" where
  "uid_view v = (case as_number v of None \<Rightarrow> dash_view
     | Some n \<Rightarrow> if n = num_int 0 then Node ''Badge'' [(''variant'', lit ''warning''), (''size'', lit ''xs''),
           (''title'', lit ''Agent ran with root uid inside the sandbox'')] [label ''uid 0 (root)'']
         else tag ''span'' [label ''uid '', child (Num n)])"

definition observation_row :: "jsval \<Rightarrow> view" where
  "observation_row o' = (let g = opt_get o' in tag ''TR''
     [td [run_link dash_view (g ''run_id'')], td [tag ''span'' [Text (text_or (g ''policy'') dash)]],
      td [bool_chip (styled ''Deny expected'' ''Allowed by policy'' ''warning'' ''muted'') Undef (as_boolean (g ''expect_deny''))],
      td [reach_chip (reach_style\<lparr>tone_on := if g ''expect_deny'' = JBool True then ''danger'' else ''info''\<rparr>)
        (lit ''Canary reachability measured inside the sandbox'') (g ''canary_decided'') (g ''canary_reachable'')],
      td [reach_chip (reach_style\<lparr>tone_on := ''danger''\<rparr>)
        (lit ''Cloud metadata endpoint reachability'') (g ''metadata_decided'') (g ''metadata_reachable'')],
      td [uid_view (g ''agent_uid'')], td_num [numeric_tone (g ''violations'')]])"

definition observations_table :: "jsval list \<Rightarrow> view" where
  "observations_table os = Node ''Table'' [(''aria-label'', lit ''Per-run egress probe observations'')]
     [table_head [''Violations''] [''Run'', ''Policy'', ''Expect deny'', ''Canary'', ''Metadata endpoint'', ''Agent UID'', ''Violations''],
      tag ''tbody'' (if os = [] then [table_empty 7 ''No egress observations'' (lit ''No run in this window recorded an egress probe result.'')]
        else map observation_row os)]"

definition alert_item :: "clock \<Rightarrow> jnum \<Rightarrow> jsval \<Rightarrow> view" where
  "alert_item ck now a = (let g = opt_get a in tag ''li'' [tag ''div''
     [tag ''div'' [tag ''div'' [pill ''severity'' ''xs'' (g ''severity''), tag ''span'' [Text (text_or (g ''kind'') dash)],
          bool_chip (styled ''Delivered'' ''Not delivered'' ''success'' ''danger'') Undef (as_boolean (g ''delivered''))],
        tag ''p'' [Text (text_or (g ''summary'') (js ''No summary recorded.''))],
        shown_if (truthy (g ''error'')) (tag ''p'' [label ''Delivery error: '', child (g ''error'')])],
      tag ''div'' [run_link dash_view (g ''run_id''), Node ''p'' [(''title'', Str (date_time_or ck (g ''at'') dash))]
        [Text (time_ago_or ck now (g ''at'') (js ''Time not recorded''))]]]])"

definition alerts_list :: "clock \<Rightarrow> jnum \<Rightarrow> jsval list \<Rightarrow> view" where
  "alerts_list ck now as = (if as = []
     then compact_empty ''No security alerts'' (lit ''No alert was recorded from run evidence in this window.'') []
     else tag ''ul'' (map (alert_item ck now) as))"

definition stop_row :: "clock \<Rightarrow> jnum \<Rightarrow> jsval \<Rightarrow> view" where
  "stop_row ck now s = (let g = opt_get s in tag ''TR''
     [td [run_link dash_view (g ''run_id'')], td [pill ''run'' ''xs'' (g ''factory_result'')],
      td [tag ''span'' [Text (text_or (g ''agent_harness'') dash)]],
      td [titled (Str (text_or (g ''repository'') [])) [Text (repo_label (g ''repository''))]],
      td_num [Text (format_duration dash (g ''duration_ms''))],
      td [titled (Str (format_date_time ck dash (g ''completed_at''))) [Text (time_ago_or ck now (g ''completed_at'') dash)]],
      td [pill ''cleanup'' ''xs'' (g ''cleanup_result'')]])"

definition stops_table :: "clock \<Rightarrow> jnum \<Rightarrow> jsval list \<Rightarrow> view" where
  "stops_table ck now ss = Node ''Table'' [(''aria-label'', lit ''Runs stopped for security reasons'')]
     [table_head [''Duration''] [''Run'', ''Result'', ''Harness'', ''Repository'', ''Duration'', ''Completed'', ''Cleanup''],
      tag ''tbody'' (if ss = [] then [table_empty 7 ''No security stops''
          (lit ''No run in this window was quarantined, tampered with or stopped for unverified egress.'')]
        else map (stop_row ck now) ss)]"

section \<open>The configured posture\<close>

definition posture_tile :: "string \<Rightarrow> view \<Rightarrow> jstr \<Rightarrow> view" where
  "posture_tile l chip note = tag ''div'' [tag ''div'' [tag ''p'' [label l], chip], tag ''p'' [Text note]]"

text \<open>The chip of a control that is reported as a flag.\<close>

definition flag_tile :: "jsval \<Rightarrow> string \<Rightarrow> string \<Rightarrow> chip_style \<Rightarrow> string \<Rightarrow> view" where
  "flag_tile source l k st note = posture_tile l (bool_chip st Undef (as_boolean (opt_get source k))) (js note)"

definition canary_url :: "jsval \<Rightarrow> jstr" where "canary_url source = text_or (opt_get source ''egress_canary_url'') []"

definition canary_configured :: "jsval \<Rightarrow> bool option" where
  "canary_configured source = (if has source ''egress_canary_url'' then Some (canary_url source \<noteq> []) else None)"

definition severity_tile :: "jsval \<Rightarrow> view" where
  "severity_tile source = (let s = text_or (opt_get source ''trip_severity'') [] in posture_tile ''Trip severity''
     (if s \<noteq> [] then status_pill_of ''severity'' (Str s) else bool_chip (chip_default\<lparr>unknown_label := ''Not reported''\<rparr>) Undef None)
     (if s \<noteq> [] then js ''Findings at '' @ s @ js '' or above quarantine the run.'' else js ''No trip threshold was reported.''))"

definition canary_tile :: "jsval \<Rightarrow> view" where
  "canary_tile source = posture_tile ''Egress canary target''
     (bool_chip ((styled ''Configured'' ''Not configured'' ''info'' ''warning'')\<lparr>unknown_label := ''Not reported''\<rparr>) Undef (canary_configured source))
     (if canary_url source \<noteq> [] then canary_url source
      else js (if canary_configured source = Some False then ''No canary URL is configured, so egress probing has no target.''
        else ''The canary target was not reported.''))"

definition posture_tiles :: "jsval \<Rightarrow> view list" where
  "posture_tiles source =
     [flag_tile source ''Egress probing'' ''egress_probe_enabled'' (styled ''Enabled'' ''Disabled'' ''success'' ''warning'')
        ''Canary and metadata probes run inside each sandbox to measure the network boundary.'',
      flag_tile source ''Behavior monitoring'' ''behavior_monitor_enabled'' (styled ''Enabled'' ''Disabled'' ''success'' ''warning'')
        ''Agent commands are scanned against the hardening rule set for every run.'',
      severity_tile source,
      flag_tile source ''Require non-root agent'' ''require_non_root'' (styled ''Enforced'' ''Not enforced'' ''success'' ''warning'')
        ''When not enforced, the agent may run as uid 0 inside the sandbox.'',
      flag_tile source ''Open egress acknowledgement'' ''acknowledge_open_egress'' (styled ''Acknowledged'' ''Strict'' ''warning'' ''success'')
        ''Acknowledged means open egress is an accepted posture; violations are still recorded.'',
      flag_tile source ''Gate self-modification'' ''allow_gate_self_modification'' (styled ''Allowed'' ''Blocked'' ''danger'' ''success'')
        ''When blocked, a patch that edits its own verification gates quarantines the run.'',
      flag_tile source ''Alert webhook'' ''alert_webhook_configured'' (styled ''Configured'' ''Not configured'' ''success'' ''danger'')
        ''Without a webhook, alerts are recorded in evidence but never delivered.'',
      canary_tile source]"

definition posture_panel :: "jsval \<Rightarrow> jnum option \<Rightarrow> jnum option \<Rightarrow> view" where
  "posture_panel source undelivered inspected = tag ''Card'' (if as_object source = []
     then [Node ''CardHeader'' [(''title'', lit ''Defense-in-depth posture''),
         (''description'', lit ''Operator-configured hardening controls from the factory configuration.'')] [],
       tag ''CardBody'' [ops_notice ''warning'' (js ''Posture not reported'') False []
         [label ''This security response did not include a posture block, so no control state is claimed.'']]]
     else [Node ''CardHeader'' [(''title'', lit ''Defense-in-depth posture''),
         (''description'', lit ''Operator-configured hardening controls. This is configuration, not a per-run measurement.'')]
         [slot ''actions'' [dotted (js ''security'') ''sm'' Undef [label ''Hardening posture'']]],
       tag ''div'' (posture_tiles source),
       tag ''CardFooter'' [tag ''span'' [Text (case inspected of None \<Rightarrow> js ''Coverage not reported''
           | Some n \<Rightarrow> num_text n @ js '' runs inspected in this window.'')],
         case undelivered of None \<Rightarrow> Blank | Some n \<Rightarrow> shown_if (positive n) (Node ''button'' [(''type'', lit ''button'')]
           [label ''View '', Text (num_text n), label '' undelivered alert'', label (if n = num_int 1 then [] else ''s'')])]])"

section \<open>The page\<close>

definition alert_delivery :: "jsval list \<Rightarrow> jnum option \<Rightarrow> string \<times> jstr" where
  "alert_delivery alerts undelivered = (if alerts = [] then (''outline'', js ''No alerts'')
     else if some_positive undelivered then (''danger'', shown_count undelivered @ js '' undelivered'')
     else (''success'', js ''All delivered''))"

definition webhook_note :: "jsval \<Rightarrow> string" where
  "webhook_note posture = (case opt_get posture ''alert_webhook_configured'' of
     JBool True \<Rightarrow> ''Alert webhook configured'' | JBool False \<Rightarrow> ''No alert webhook configured'' | _ \<Rightarrow> ''Alert delivery not reported'')"

record security_kpi =
  sk_label :: string
  sk_value :: "jnum option"
  sk_tone :: string
  sk_hint :: string
  sk_footer :: jsval

definition kpi_of :: "string \<Rightarrow> jnum option \<Rightarrow> string \<Rightarrow> string \<Rightarrow> security_kpi" where
  "kpi_of l v t h = \<lparr>sk_label = l, sk_value = v, sk_tone = tone_for v t, sk_hint = h, sk_footer = Undef\<rparr>"

definition security_kpis :: "jsval \<Rightarrow> security_kpi list" where
  "security_kpis r = (let n = \<lambda>k. as_number (opt_get r k) in
     [(kpi_of ''Inspected runs'' (n ''inspected'') [] ''Run manifests covered by the selected window'')\<lparr>sk_tone := ''info''\<rparr>,
      kpi_of ''Runs with findings'' (n ''runs_with_findings'') ''danger'' ''Runs with at least one behavior finding'',
      kpi_of ''Tripped'' (n ''tripped'') ''danger'' ''Runs quarantined by the behavior monitor'',
      kpi_of ''Blocked by agent'' (n ''blocked'') ''warning'' ''Agent used the documented stop signal'',
      kpi_of ''Gate tampered'' (n ''gate_tampered'') ''danger'' ''Patches that modified their own verification gates'',
      kpi_of ''Egress violations'' (n ''egress_violations'') ''security'' ''Sandbox boundary proved violated by evidence'',
      (kpi_of ''Alerts undelivered'' (n ''alerts_undelivered'') ''warning'' ''Recorded alerts without successful delivery'')
        \<lparr>sk_footer := lit (webhook_note (opt_get r ''posture''))\<rparr>])"

definition security_tile :: "security_kpi \<Rightarrow> view" where
  "security_tile k = Node ''KpiTile'' [(''label'', lit (sk_label k)), (''value'', Str (shown_count (sk_value k))), (''hint'', lit (sk_hint k)),
     (''tone'', lit (sk_tone k)), (''footer'', sk_footer k)] []"

definition egress_items :: "jsval \<Rightarrow> ditem list" where
  "egress_items e = (let g = opt_get e in
     [hinted ''Runs with a recorded egress probe'' (item_of ''Probed runs'' (Seen (metric False False (g ''probed'')))),
      hinted ''Expected under an allow policy; a violation only under a deny policy'' (item_of ''Canary reachable'' (Seen (metric False False (g ''canary_reachable'')))),
      hinted ''Cloud metadata endpoint reachable; evidence expects this to be blocked'' (item_of ''Metadata reachable'' (Seen (metric True True (g ''metadata_reachable'')))),
      hinted ''Observations where the policy intended to deny egress'' (item_of ''Denied expected'' (Seen (metric False False (g ''denied_expected'')))),
      hinted ''No usable verdict; never evidence of a healthy boundary'' (item_of ''Inconclusive'' (Seen (metric False False (g ''inconclusive'')))),
      hinted ''Violations proved by probe evidence'' (item_of ''Violations'' (Seen (metric True False (g ''violations''))))])"

definition coverage_label :: "clock \<Rightarrow> jsval \<Rightarrow> jsval \<Rightarrow> jstr" where
  "coverage_label ck r w = (let i = window_info_of ck (opt_get r ''window'') in if w_key i \<noteq> [] then w_label i else window_label w)"

definition coverage_hint :: "clock \<Rightarrow> window_info \<Rightarrow> jstr" where
  "coverage_hint ck i = (if truthy (w_start i) \<and> truthy (w_end i)
     then format_date_time ck dash (w_start i) @ arrow @ format_date_time ck dash (w_end i) else [])"

definition coverage_items :: "clock \<Rightarrow> jnum \<Rightarrow> jsval \<Rightarrow> jsval \<Rightarrow> ditem list" where
  "coverage_items ck now r w = (let x = opt_get (opt_get r ''index''); n = \<lambda>k. format_number False dash (x k); dot = [32] @ middot @ [32] in
     [(text_item ''Coverage window'' (coverage_label ck r w))\<lparr>di_hint := coverage_hint ck (window_info_of ck (opt_get r ''window''))\<rparr>,
      text_item ''Inspected runs'' (shown_count (as_number (opt_get r ''inspected''))),
      (text_item ''Evidence index'' (n ''runs'' @ js '' runs'' @ dot @ n ''changes'' @ js '' changes''))
        \<lparr>di_hint := js ''Refreshed '' @ time_ago_or ck now (x ''refreshed_at'') dash @ dot @ js ''scan '' @ format_duration dash (x ''scan_ms'')\<rparr>,
      hinted (if some_positive (as_number (x ''scan_errors'')) then ''The index skipped unreadable evidence'' else ''No scan errors reported'')
        (text_item ''Index scan errors'' (n ''scan_errors'')),
      (text_item ''Oldest / newest run'' (format_date_time ck dash (x ''oldest_run_at'') @ arrow @ format_date_time ck dash (x ''newest_run_at'')))
        \<lparr>di_span := ''2''\<rparr>,
      text_item ''Generated at'' (date_time_or ck (opt_get r ''generated_at'') dash)])"

definition dot_mark :: view where "dot_mark = tag ''span'' [Text middot]"

text \<open>The notice of a failed refresh or of a failed first load, which the two evidence screens share.\<close>

definition load_notice :: "string \<Rightarrow> string \<Rightarrow> bool \<Rightarrow> jsval \<Rightarrow> request_error option \<Rightarrow> view" where
  "load_notice title fb has_data updated_label err_opt = (case err_opt of None \<Rightarrow> Blank
     | Some e \<Rightarrow> if has_data
         then ops_notice ''warning'' (js ''Live refresh failed '' @ em_dash @ js '' showing the last successful snapshot'') True [button [] ''Retry'']
           [child (error_text e fb), label '' This view may be '', child (js_or updated_label (lit ''stale'')), label ''.'']
         else ops_notice ''danger'' (js title) True [button [] ''Retry''] [child (error_text e fb)])"

definition updated_ago :: "clock \<Rightarrow> jnum \<Rightarrow> jsval \<Rightarrow> jsval" where
  "updated_ago ck now u = (if truthy u then Str (time_ago ck now u) else Null)"

definition updated_view :: "jsval \<Rightarrow> view" where
  "updated_view l = shown_if (truthy l) (fragment [dot_mark, tag ''span'' [label ''Updated '', child l]])"

definition security_header :: "clock \<Rightarrow> jnum \<Rightarrow> jsval \<Rightarrow> jsval \<Rightarrow> bool \<Rightarrow> jsval \<Rightarrow> view" where
  "security_header ck now w data loading updated_at = Node ''PageHeader'' [(''eyebrow'', Str (js ''Governance '' @ middot @ js '' Security'')), (''title'', lit ''Security''),
     (''description'', Str (js ''Cross-run hardening evidence: behavior findings, gate integrity, agent stops, egress observations and alert delivery. Every figure is derived from stored run manifests ''
        @ em_dash @ js '' the console never estimates a security outcome.''))]
    [slot ''meta'' [dotted (js ''security'') ''sm'' Undef [Text (coverage_label ck data w)],
       tag ''span'' [label ''Inspected '', tag ''span'' [Text (shown_count (as_number (opt_get data ''inspected'')))], label '' runs''],
       dot_mark, tag ''span'' [label ''Generated '', Text (date_time_or ck (opt_get data ''generated_at'') dash)], updated_view (updated_ago ck now updated_at)],
     slot ''actions'' [button [(''loading'', JBool (loading \<and> truthy data))] ''Refresh'']]"

definition security_skeleton :: view where
  "security_skeleton = tag ''div'' [tag ''div'' (replicate 7 (tag ''KpiSkeleton'' [])),
     Node ''TableSkeleton'' [(''rows'', int_val 4), (''columns'', int_val 7)] [],
     tag ''div'' [Node ''TableSkeleton'' [(''rows'', int_val 4), (''columns'', int_val 5)] [],
       Node ''TableSkeleton'' [(''rows'', int_val 4), (''columns'', int_val 4)] []]]"

text \<open>A card with a title, a description and a badge.\<close>

definition headed :: "string \<Rightarrow> string \<Rightarrow> view list \<Rightarrow> view list \<Rightarrow> view" where
  "headed title description actions body = tag ''Card''
     (Node ''CardHeader'' [(''title'', lit title), (''description'', lit description)] [slot ''actions'' actions] # body)"

definition outlined :: "view list \<Rightarrow> view" where "outlined vs = toned (js ''outline'') ''sm'' vs"

text \<open>The sentence of the empty table: all inspected runs are called clean.\<close>

definition no_signal_text :: "jnum option \<Rightarrow> jstr" where
  "no_signal_text inspected = (case inspected of
     None \<Rightarrow> js ''The response did not report an inspected-run count or any security signals.''
   | Some n \<Rightarrow> js ''All '' @ num_text n @ js '' runs in this window are free of recorded security signals.'')"

definition signals_card :: "clock \<Rightarrow> jnum \<Rightarrow> jsval \<Rightarrow> view" where
  "signals_card ck now data = (let es = as_list (opt_get data ''entries'') in
     headed ''Runs with security signals'' ''Runs whose result, findings, gate integrity or egress probe produced a security signal. Newest first.''
       [outlined [Text (size_of es), label '' shown'']]
       [findings_table ck now es (no_signal_text (as_number (opt_get data ''inspected''))),
        tag ''CardFooter'' [label ''Aggregate counts cover every inspected run; this list is a bounded triage view (API cap 100).'']])"

definition rules_card :: "jsval list \<Rightarrow> view" where
  "rules_card rs = headed ''Behavior rules'' ''Findings aggregated by rule across every inspected run.''
     [outlined [Text (size_of rs), label '' rule'', label (several (length rs) ''s'')]]
     [rules_table rs, tag ''CardFooter'' [label ''Sorted by finding count, then rule id.'']]"

definition egress_card :: "jsval \<Rightarrow> view" where
  "egress_card e = headed ''Egress probe aggregate'' ''Measured sandbox network posture across probed runs.'' []
     [tag ''CardBody'' [ops_definition_list (egress_items e)],
      tag ''CardFooter'' [Text (js ''Inconclusive observations mean the probe produced no verdict '' @ em_dash @ js '' they are not a healthy result.'')]]"

text \<open>\<open>expanded\<close> is the state \<open>showAllObservations\<close>.\<close>

definition visible_observations :: "bool \<Rightarrow> jsval list \<Rightarrow> jsval list" where
  "visible_observations expanded os = (if expanded then os else take 20 os)"

definition observations_card :: "bool \<Rightarrow> jsval \<Rightarrow> view" where
  "observations_card expanded data = (let os = as_list (opt_get data ''egress_observations'') in
     headed ''Egress observations'' ''Per-run network probe results. Undecided outcomes are reported as undecided, never as passed.''
       [outlined [Text (size_of os), label '' of '', Text (format_number False dash (opt_get (opt_get data ''egress'') ''probed'')), label '' probed'']]
       [observations_table (visible_observations expanded os),
        shown_if (os \<noteq> []) (tag ''CardFooter''
          [shown_if (20 < length os) (Node ''Button'' [] [Text (if expanded then js ''Show fewer observations''
             else js ''Show all '' @ size_of os @ js '' observations'')]),
           tag ''span'' [label ''agent_uid 0 means the agent ran as root; undecided probes are not healthy evidence.'']])])"

definition alerts_card :: "clock \<Rightarrow> jnum \<Rightarrow> jsval \<Rightarrow> view" where
  "alerts_card ck now data = (let as = as_list (opt_get data ''alerts''); d = alert_delivery as (as_number (opt_get data ''alerts_undelivered'')) in
     headed ''Security alerts'' ''Alert records from run evidence with delivery status.'' [dotted (js (fst d)) ''sm'' Undef [Text (snd d)]]
       [alerts_list ck now as,
        tag ''CardFooter'' [label ''Delivery requires a configured hardening alert webhook; undelivered alerts remain in evidence only.'']])"

definition stops_card :: "clock \<Rightarrow> jnum \<Rightarrow> jsval list \<Rightarrow> view" where
  "stops_card ck now ss = headed ''Security stops'' ''Runs stopped by quarantine, gate tampering or unverified egress.''
     [outlined [Text (size_of ss), label '' run'', label (several (length ss) ''s'')]] [stops_table ck now ss]"

definition coverage_card :: "clock \<Rightarrow> jnum \<Rightarrow> jsval \<Rightarrow> jsval \<Rightarrow> view" where
  "coverage_card ck now data w = tag ''Card''
     [Node ''CardHeader'' [(''title'', lit ''Coverage and evidence sources''),
        (''description'', lit ''Every figure on this page is derived from stored run manifests; the console never estimates a security outcome.'')] [],
      tag ''CardBody'' [ops_definition_list (coverage_items ck now data w)],
      tag ''CardFooter'' [Text (js ''Source: runs/*/run.json hardening evidence '' @ middot @ js '' generated ''
        @ date_time_or ck (opt_get data ''generated_at'') dash)]]"

definition security_body :: "clock \<Rightarrow> jnum \<Rightarrow> jsval \<Rightarrow> bool \<Rightarrow> jsval \<Rightarrow> view" where
  "security_body ck now w expanded data = (let n = \<lambda>k. as_number (opt_get data k) in fragment
     [posture_panel (opt_get data ''posture'') (n ''alerts_undelivered'') (n ''inspected''),
      tag ''div'' (map security_tile (security_kpis data)),
      signals_card ck now data,
      tag ''div'' [rules_card (as_list (opt_get data ''rules'')), egress_card (opt_get data ''egress'')],
      observations_card expanded data,
      tag ''div'' [alerts_card ck now data, stops_card ck now (as_list (opt_get data ''stops''))],
      coverage_card ck now data w])"

definition security_page :: "clock \<Rightarrow> jnum \<Rightarrow> jsval \<Rightarrow> jsval \<Rightarrow> request_error option \<Rightarrow> bool \<Rightarrow> jsval \<Rightarrow> bool \<Rightarrow> view" where
  "security_page ck now w data err_opt loading updated_at expanded = tag ''div'' [security_header ck now w data loading updated_at,
     tag ''div'' [load_notice ''Security evidence could not be loaded'' ''The security endpoint could not be reached.''
         (truthy data) (updated_ago ck now updated_at) err_opt,
       shown_if (\<not> truthy data \<and> loading) security_skeleton,
       shown_if (truthy data) (security_body ck now w expanded data)]]"

end
