(* ===== verification/Console_Operations.thy ===== *)
theory Console_Operations imports Console_Security begin

text \<open>
  The operations screen (\<open>pages/operations.jsx\<close>): the cleanup evidence of sandboxes, the live inventory
  with its leak classification, the reachability probes, the configured infrastructure and the
  health of the evidence index.
\<close>

section \<open>States of probes and sandboxes\<close>

definition probe_state :: "jsval \<Rightarrow> string \<times> jstr" where
  "probe_state v = (let s = lowered v in
     if s = [] then (''muted'', js ''Not reported'')
     else (if among s [''reachable'', ''ok'', ''up''] then ''success''
       else if among s [''unreachable'', ''failed'', ''error'', ''timeout'', ''refused''] then ''danger'' else ''warning'', title_case (Str s)))"

definition sandbox_state :: "jsval \<Rightarrow> string \<times> jstr" where
  "sandbox_state v = (let s = lowered v in
     if s = [] then (''muted'', js ''Unknown'')
     else (if among s [''running'', ''active''] then ''success'' else if among s [''paused'', ''suspended''] then ''warning''
       else if among s [''error'', ''failed''] then ''danger'' else ''muted'', title_case (Str s)))"

definition state_badge :: "string \<times> jstr \<Rightarrow> view" where
  "state_badge s = dotted (js (fst s)) ''xs'' Undef [Text (snd s)]"

definition dated :: "clock \<Rightarrow> jnum \<Rightarrow> jsval \<Rightarrow> view" where
  "dated ck now v = titled (Str (date_time_or ck v dash)) [Text (time_ago_or ck now v dash)]"

definition probe_row :: "clock \<Rightarrow> jnum \<Rightarrow> jsval \<Rightarrow> view" where
  "probe_row ck now p = (let g = opt_get p in tag ''TR''
     [td [tag ''div'' [Text (text_or (g ''label'') (text_or (g ''id'') (js ''Probe'')))], tag ''div'' [Text (text_or (g ''id'') dash)],
        shown_if (truthy (g ''detail'')) (tag ''p'' [child (g ''detail'')])],
      td [tag ''span'' [Text (text_or (g ''target'') dash)]], td [state_badge (probe_state (g ''state''))],
      td_num [Text (case as_number (g ''latency_ms'') of None \<Rightarrow> em_dash | Some n \<Rightarrow> format_duration dash (Num n))],
      td [dated ck now (g ''checked_at'')]])"

definition probes_table :: "clock \<Rightarrow> jnum \<Rightarrow> jsval list \<Rightarrow> view" where
  "probes_table ck now ps = Node ''Table'' [(''aria-label'', lit ''Infrastructure reachability probes'')]
     [table_head [''Latency''] [''Probe'', ''Target'', ''State'', ''Latency'', ''Checked''],
      tag ''tbody'' (if ps = [] then [table_empty 5 ''No probes reported'' (lit ''No reachability probe results were returned in this response.'')]
        else map (probe_row ck now) ps)]"

section \<open>Cleanup evidence\<close>

definition unattributed_run :: "jsval \<Rightarrow> view" where
  "unattributed_run i = run_link (tag ''span'' [label ''unattributed'']) i"

definition failure_row :: "clock \<Rightarrow> jnum \<Rightarrow> jsval \<Rightarrow> view" where
  "failure_row ck now f = (let g = opt_get f in tag ''TR''
     [td [unattributed_run (g ''run_id'')], td [titled (Str (text_or (g ''sandbox_id'') [])) [Text (text_or (g ''sandbox_id'') dash)]],
      td [pill ''run'' ''xs'' (g ''factory_result'')],
      td [pill ''cleanup'' ''xs'' (Obj [(js ''outcome'', g ''outcome''), (js ''verified'', g ''verified'')])],
      td [chip_in f ''verified'' (styled ''Verified'' ''Unverified'' ''success'' ''danger'')],
      td_num [Node ''span'' [(''tone'', lit (tone_for (as_number (g ''remaining_sandboxes'')) ''danger''))]
        [Text (format_number False dash (g ''remaining_sandboxes''))]],
      td [dated ck now (g ''finished_at'')], td [titled (Str (text_or (g ''repository'') [])) [Text (text_or (g ''repository'') dash)]],
      td [if truthy (g ''error'') then titled (g ''error'') [child (g ''error'')] else dash_view]])"

text \<open>What the empty table of failures claims.\<close>

definition no_failures_text :: "jnum option \<Rightarrow> jnum option \<Rightarrow> string" where
  "no_failures_text failed with_sandbox =
     (if some_positive failed then ''Failure rows were not included in this response; use the aggregate counts above.''
      else if with_sandbox = Some (num_int 0) then ''No run in the evidence store recorded a sandbox, so there was no cleanup to verify.''
      else ''Every recorded run with a sandbox reported a verified cleanup.'')"

definition failures_table :: "clock \<Rightarrow> jnum \<Rightarrow> jsval list \<Rightarrow> jnum option \<Rightarrow> jnum option \<Rightarrow> view" where
  "failures_table ck now fs failed with_sandbox = Node ''Table'' [(''aria-label'', lit ''Recent sandbox cleanup failures'')]
     [table_head [''Remaining''] [''Run'', ''Sandbox'', ''Result'', ''Cleanup'', ''Verified'', ''Remaining'', ''Finished'', ''Repository'', ''Error''],
      tag ''tbody'' (if fs = [] then [table_empty 9 (if some_positive failed then ''Failure detail not returned'' else ''No cleanup failures'')
          (lit (no_failures_text failed with_sandbox))]
        else map (failure_row ck now) fs)]"

definition cleanup_verdict :: "jnum option \<Rightarrow> jnum option \<Rightarrow> string \<times> jstr" where
  "cleanup_verdict failed with_sandbox = (case failed of
     None \<Rightarrow> (''outline'', js ''Failure count not reported'')
   | Some n \<Rightarrow> if positive n then (''danger'', num_text n @ js '' failed'')
       else if with_sandbox = Some (num_int 0) then (''outline'', js ''No sandbox runs'') else (''success'', js ''All verified''))"

definition verified_rate :: "jnum option \<Rightarrow> jnum option \<Rightarrow> jnum option" where
  "verified_rate verified with_sandbox = (case (verified, with_sandbox) of
     (Some v, Some n) \<Rightarrow> if positive n then Some (num_div v n) else None | _ \<Rightarrow> None)"

definition band_hint :: "string \<Rightarrow> jsval \<Rightarrow> string \<Rightarrow> string \<Rightarrow> band_item" where
  "band_hint l v t h = (band_of l v)\<lparr>bi_tone := lit t, bi_hint := lit h\<rparr>"

definition cleanup_band :: "jsval \<Rightarrow> band_item list" where
  "cleanup_band c = (let n = \<lambda>k. as_number (opt_get c k) in
     [band_hint ''Runs with sandbox'' (count_val (n ''runs_with_sandbox'')) [] ''Runs that recorded a sandbox id'',
      band_hint ''Verified clean'' (count_val (n ''verified'')) (if n ''verified'' \<noteq> None then ''success'' else ''muted'')
        ''Cleanup verified with zero remaining sandboxes'',
      band_hint ''Failed'' (count_val (n ''failed'')) (tone_for (n ''failed'') ''danger'') ''Cleanup did not verify'',
      band_hint ''Remaining sandboxes'' (count_val (n ''remaining_total'')) (tone_for (n ''remaining_total'') ''danger'')
        ''Reported leftovers summed across runs''])"

definition rate_bar :: "jnum option \<Rightarrow> jnum option \<Rightarrow> view" where
  "rate_bar rate failed = tag ''CardBody''
     [tag ''div'' [tag ''div'' [tag ''p'' [label ''Verified cleanup rate''], tag ''p'' [label ''Share of sandbox runs whose cleanup was verified clean.'']],
        tag ''span'' [Text (format_percent 1 dash (count_val rate))]],
      Node ''div'' [(''role'', lit ''img''),
         (''aria-label'', Str (js ''Verified cleanup rate: '' @ format_percent 1 (js ''not reported'') (count_val rate)))]
       [Node ''div'' [(''tone'', lit (if some_positive failed then ''warning'' else ''success'')),
         (''width'', Str (num_to_string (math_round (num_mul (case rate of None \<Rightarrow> num_int 0 | Some r \<Rightarrow> r) (num_int 100))) @ js ''%''))] []]]"

definition cleanup_card :: "clock \<Rightarrow> jnum \<Rightarrow> jsval \<Rightarrow> view" where
  "cleanup_card ck now c = (let n = \<lambda>k. as_number (opt_get c k); fs = as_list (opt_get c ''recent_failures'');
       m = cleanup_verdict (n ''failed'') (n ''runs_with_sandbox'') in
     headed ''Sandbox cleanup'' ''Evidence-derived lifecycle outcome for every run that used a sandbox.'' [dotted (js (fst m)) ''sm'' Undef [Text (snd m)]]
       [metric_band (cleanup_band c), rate_bar (verified_rate (n ''verified'') (n ''runs_with_sandbox'')) (n ''failed''),
        card_subsection ''Recent cleanup failures'' ''Runs whose sandbox cleanup did not verify''
          [toned (js (if fs \<noteq> [] then ''warning'' else ''outline'')) ''xs'' [Text (size_of fs), label '' recorded'']]
          [failures_table ck now fs (n ''failed'') (n ''runs_with_sandbox'')]])"

section \<open>The live inventory\<close>

text \<open>A sandbox can only be classified where its own attribution and that of the whole query are known.\<close>

definition attribution_known :: "bool \<Rightarrow> jsval \<Rightarrow> bool" where
  "attribution_known available s \<longleftrightarrow> available \<and> opt_get s ''attribution_known'' = JBool True"

definition called_leaked :: "bool \<Rightarrow> jsval \<Rightarrow> bool" where
  "called_leaked available s \<longleftrightarrow> attribution_known available s \<and> opt_get s ''leaked'' = JBool True"

definition sandbox_flags :: "bool \<Rightarrow> jsval \<Rightarrow> view" where
  "sandbox_flags available s =
     (let known = attribution_known available s; leaked = called_leaked available s; active = (opt_get s ''active'' = JBool True) in tag ''div''
     [shown_if leaked (dotted (js ''danger'') ''xs'' Undef [label ''Leaked'']),
      shown_if (known \<and> active) (dotted (js ''info'') ''xs'' Undef [label ''Active'']),
      shown_if (\<not> known) (Node ''Badge'' [(''variant'', lit ''muted''), (''size'', lit ''xs''),
         (''title'', lit ''Workflow attribution unavailable; ownership is recorded but activity cannot be classified'')] [label ''Unattributed'']),
      shown_if (known \<and> \<not> leaked \<and> \<not> active) dash_view])"

definition sandbox_row :: "clock \<Rightarrow> jnum \<Rightarrow> bool \<Rightarrow> jsval \<Rightarrow> view" where
  "sandbox_row ck now available s = (let g = opt_get s in Node ''TR'' [(''highlighted'', JBool (called_leaked available s))]
     [td [tag ''div'' [Text (text_or (g ''id'') dash)],
        shown_if (truthy (g ''workflow_run_id'')) (Node ''div'' [(''title'', lit ''Temporal workflow run id'')] [label ''wf '', child (g ''workflow_run_id'')])],
      td [tag ''span'' [Text (text_or (g ''template'') dash)]], td [state_badge (sandbox_state (g ''state''))],
      td [dated ck now (g ''started_at'')], td [unattributed_run (g ''run_id'')],
      td [chip_in s ''factory_owned'' (styled ''Factory'' ''Unattributed'' ''info'' ''muted'')], td [sandbox_flags available s]])"

definition sandboxes_table :: "clock \<Rightarrow> jnum \<Rightarrow> bool \<Rightarrow> jsval list \<Rightarrow> view" where
  "sandboxes_table ck now available ss = Node ''Table'' [(''aria-label'', lit ''Live sandbox inventory'')]
     [table_head [] [''Sandbox'', ''Template'', ''State'', ''Started'', ''Run'', ''Ownership'', ''Flags''],
      tag ''tbody'' (if ss = [] then [table_empty 7 ''No sandboxes are running'' (lit ''The live CubeSandbox query returned an empty inventory.'')]
        else map (sandbox_row ck now available) ss)]"

definition attribution_available :: "jsval \<Rightarrow> bool" where
  "attribution_available live \<longleftrightarrow> opt_get live ''attribution_available'' = JBool True"

definition withheld :: "bool \<Rightarrow> jnum option \<Rightarrow> jsval" where
  "withheld available n = (if available then count_val n else lit ''Unknown'')"

definition live_band :: "jsval \<Rightarrow> band_item list" where
  "live_band live = (let n = \<lambda>k. as_number (opt_get live k); ok = attribution_available live in
     [(band_of ''Total'' (count_val (n ''total'')))\<lparr>bi_hint := lit ''All sandboxes reported by Cube''\<rparr>,
      band_hint ''Factory owned'' (count_val (n ''factory_owned'')) ''info'' ''Tagged with a factory run'',
      band_hint ''Active'' (withheld ok (n ''active'')) (if ok then ''info'' else ''muted'')
        (if ok then ''Sandboxes attached to a live run'' else ''Workflow attribution unavailable''),
      band_hint ''Leaked'' (withheld ok (n ''leaked'')) (if ok then tone_for (n ''leaked'') ''danger'' else ''muted'')
        (if ok then ''Factory-owned sandboxes without an active run'' else ''Withheld until workflow attribution is available'')])"

definition live_inventory :: "clock \<Rightarrow> jnum \<Rightarrow> jsval \<Rightarrow> view list" where
  "live_inventory ck now live = (let ok = attribution_available live in
     [metric_band (live_band live),
      shown_if (\<not> ok) (tag ''div'' [ops_notice ''warning'' (js ''Leak classification withheld'') False [] [child (js_or (opt_get live ''note'')
        (lit ''The console could not read open-workflow state, so a factory-owned sandbox cannot be called a leak. Sandboxes are listed with ownership only.''))]]),
      sandboxes_table ck now ok (as_list (opt_get live ''sandboxes''))])"

definition live_unavailable :: "jsval \<Rightarrow> view" where
  "live_unavailable live = tag ''CardBody'' [ops_notice ''warning'' (js ''Live sandbox inventory unavailable'') False []
     (if truthy (opt_get live ''error'') then [label ''The CubeSandbox query failed: '', tag ''span'' [child (opt_get live ''error'')]]
      else [label (if as_boolean (opt_get live ''available'') \<noteq> None
        then ''The console could not query CubeSandbox. Totals are withheld rather than reported as zero.''
        else ''This response did not report live inventory availability. Totals are withheld rather than reported as zero.'')])]"

definition live_footer :: "clock \<Rightarrow> jnum \<Rightarrow> jsval \<Rightarrow> view" where
  "live_footer ck now live = tag ''CardFooter'' [Text (js ''Live CubeSandbox query, bounded and cached by the console '' @ middot @ js '' checked ''),
     Text (time_ago_or ck now (opt_get live ''checked_at'') (js ''time not reported'')),
     Text (if attribution_available live then [] else [32] @ middot @ js '' workflow attribution unavailable''),
     Text (if truthy (opt_get live ''note'') then [32] @ middot @ [32] @ to_str (opt_get live ''note'') else [])]"

definition live_card :: "clock \<Rightarrow> jnum \<Rightarrow> jsval \<Rightarrow> view" where
  "live_card ck now live = headed ''Live sandbox inventory''
     (if attribution_available live
      then ''Point-in-time query of the CubeSandbox API. Leaked means a factory-owned sandbox with no active run.''
      else ''Point-in-time query of the CubeSandbox API. Leak classification needs live workflow attribution, which is unavailable right now.'')
     [chip_in live ''available'' (styled ''Query available'' ''Query unavailable'' ''success'' ''warning'')]
     ((if opt_get live ''available'' = JBool True then live_inventory ck now live else [live_unavailable live]) @ [live_footer ck now live])"

section \<open>Infrastructure\<close>

definition config_block :: "string \<Rightarrow> string \<Rightarrow> view list \<Rightarrow> view" where
  "config_block title description body = tag ''Card''
     [Node ''CardHeader'' [(''title'', lit title), (''description'', lit description)] [], tag ''CardBody'' body]"

definition config_items :: "string \<Rightarrow> string \<Rightarrow> ditem list \<Rightarrow> view" where
  "config_items title description ds = config_block title description [ops_definition_list ds]"

definition infrastructure_blocks :: "jsval \<Rightarrow> view" where
  "infrastructure_blocks i = (let c = opt_get (opt_get i ''cube''); t = opt_get (opt_get i ''temporal'');
       o' = opt_get (opt_get i ''observability''); s = opt_get (opt_get i ''storage'') in tag ''div''
     [config_items ''CubeSandbox'' ''Redacted sandbox provider configuration.''
        [mono_item ''API URL'' (c ''api_url''), mono_item ''Template'' (c ''template_id''), mono_item ''Proxy'' (c ''proxy''),
         item_of ''Version'' (Raw (c ''version'')),
         hinted ''Only presence is reported; credential values are never returned.''
           (chip_item ''Credentials'' (styled ''Configured'' ''Not configured'' ''success'' ''muted'') (c ''credentials_configured''))],
      config_items ''Temporal'' ''Workflow orchestration endpoint and namespace.''
        [mono_item ''Host:port'' (t ''host_port''), mono_item ''Namespace'' (t ''namespace''), mono_item ''Task queue'' (t ''task_queue''),
         chip_item ''TLS'' (styled ''Enabled'' ''Disabled'' ''success'' ''warning'') (t ''tls''),
         hinted ''Environment variable name only; the value is never returned.'' (mono_item ''API key env'' (t ''api_key_env'')),
         chip_item ''Payload keyring'' (styled ''Configured'' ''Not configured'' ''success'' ''muted'') (t ''payload_keyring_configured'')],
      config_items ''Observability'' ''OpenTelemetry export configuration.''
        [hinted ''When not configured, telemetry stays local to the factory.''
           (chip_item ''OTLP export'' (styled ''Configured'' ''Not configured'' ''success'' ''warning'') (o' ''otel_configured'')),
         mono_item ''Service name'' (o' ''service_name'')],
      config_items ''Evidence storage'' ''Durable artifact store backing every console number.''
        [wide (mono_item ''Data directory'' (s ''data_dir'')), text_item ''Runs on disk'' (format_number False dash (s ''run_count'')),
         text_item ''Changes on disk'' (format_number False dash (s ''change_count''))]])"

definition catalog_cards :: "clock \<Rightarrow> jnum \<Rightarrow> jsval \<Rightarrow> view list" where
  "catalog_cards ck now r = (let ps = as_list (opt_get r ''probes''); hs = opt_get r ''harnesses''; vs = opt_get r ''verification_profiles'' in
     [headed ''Reachability probes'' ''Bounded TCP probes to configured dependencies. A successful handshake is reachability, not a health claim.''
        [outlined [Text (size_of ps), label '' probe'', label (several (length ps) ''s'')]]
        [probes_table ck now ps,
         tag ''CardFooter'' [Text (js ''Executed at request time '' @ middot @ [32]), Text (date_time_or ck (opt_get r ''generated_at'') dash)]],
      headed ''Agent harnesses'' ''Configured agent adapters, their pinning posture and the environment variable names they receive.''
        [outlined [Text (size_of (as_list hs)), label '' configured'']]
        [harness_table hs [], tag ''CardFooter'' [label ''Environment variable values are never returned; only names are shown.'']],
      headed ''Verification gates'' ''Deterministic gate steps executed inside the sandbox after the agent.''
        [outlined [Text (size_of (as_list vs)), label '' profile'', label (several (length (as_list vs)) ''s'')]]
        [tag ''CardBody'' [verification_profiles vs []], tag ''CardFooter'' [label ''Mandatory steps must pass before a change is accepted.'']],
      config_block ''Execution limits'' ''Effective worker and sandbox limits applied by this factory.'' [limits_grid (opt_get r ''limits'')]])"

definition review_gate_block :: "jsval \<Rightarrow> view" where
  "review_gate_block v = config_block ''Review gate'' ''Configured human review behaviour.''
     [shown_if (opt_get v ''enabled'' = JBool False) (ops_notice ''warning'' (js ''Review gate is disabled'') False []
        [label ''Runs will not pause for human approval, and no review decision can be recorded.'']),
      ops_definition_list
        [chip_item ''Enabled'' (styled ''Enabled'' ''Disabled'' ''success'' ''warning'') (opt_get v ''enabled''),
         text_item ''Decision timeout'' (format_duration dash (opt_get v ''timeout_ms'')),
         hinted ''Checkpointing is honoured only when the sandbox provider supports suspend.''
           (chip_item ''Suspend sandbox while paused'' (styled ''Checkpointed'' ''Kept live'' ''info'' ''muted'') (opt_get v ''suspend''))]]"

definition hardening_items :: "jsval \<Rightarrow> ditem list" where
  "hardening_items h = (let g = opt_get h in
     [chip_item ''Egress probing'' (styled ''Enabled'' ''Disabled'' ''success'' ''warning'') (g ''egress_probe_enabled''),
      chip_item ''Behavior monitoring'' (styled ''Enabled'' ''Disabled'' ''success'' ''warning'') (g ''behavior_monitor_enabled''),
      item_of ''Trip severity'' (if truthy (g ''trip_severity'') then Seen (pill ''severity'' ''xs'' (g ''trip_severity'')) else Raw Undef),
      chip_item ''Require non-root'' (styled ''Enforced'' ''Not enforced'' ''success'' ''warning'') (g ''require_non_root''),
      chip_item ''Open egress acknowledged'' (styled ''Acknowledged'' ''Strict'' ''warning'' ''success'') (g ''acknowledge_open_egress''),
      chip_item ''Gate self-modification'' (styled ''Allowed'' ''Blocked'' ''danger'' ''success'') (g ''allow_gate_self_modification''),
      chip_item ''Alert webhook'' (styled ''Configured'' ''Not configured'' ''success'' ''danger'') (g ''alert_webhook_configured''),
      text_item ''Alert timeout'' (format_duration dash (g ''alert_timeout_ms'')),
      wide (mono_item ''Egress canary'' (g ''egress_canary_url'')), wide (mono_item ''Metadata probe'' (g ''metadata_probe_url''))])"

section \<open>Data health and the page\<close>

definition index_items :: "clock \<Rightarrow> jnum \<Rightarrow> jsval \<Rightarrow> jsval \<Rightarrow> ditem list" where
  "index_items ck now x generated_at = (let g = opt_get x in
     [text_item ''Runs indexed'' (format_number False dash (g ''runs'')), text_item ''Changes indexed'' (format_number False dash (g ''changes'')),
      (text_item ''Last refresh'' (time_ago_or ck now (g ''refreshed_at'') dash))\<lparr>di_hint := date_time_or ck (g ''refreshed_at'') not_reported\<rparr>,
      text_item ''Scan duration'' (format_duration dash (g ''scan_ms'')),
      item_of ''Scan errors'' (Seen (Node ''span'' [(''tone'', lit (if some_positive (as_number (g ''scan_errors'')) then ''warning'' else ''foreground''))]
        [Text (format_number False dash (g ''scan_errors''))])),
      text_item ''Oldest run'' (date_time_or ck (g ''oldest_run_at'') dash), text_item ''Newest run'' (date_time_or ck (g ''newest_run_at'') dash),
      text_item ''Response generated'' (date_time_or ck generated_at dash)])"

definition data_health_card :: "clock \<Rightarrow> jnum \<Rightarrow> jsval \<Rightarrow> jsval \<Rightarrow> view" where
  "data_health_card ck now d generated_at =
     (let reported = (as_object d \<noteq> []); x = opt_get d ''index''; notes = as_list (opt_get d ''notes''); dot = [32] @ middot @ [32] in
     headed ''Evidence data health'' ''Readability and freshness of the artifact index that backs every operations number.''
       [chip_in d ''storage_readable'' (styled ''Store readable'' ''Store unreadable'' ''success'' ''danger'')]
       [tag ''CardBody''
         [shown_if (\<not> reported) (ops_notice ''warning'' (js ''Data health not reported'') False []
            [label ''This response did not include a data-health block, so storage readability and index freshness are not claimed.'']),
          shown_if (truthy (opt_get d ''storage_error'')) (ops_notice ''danger'' (js ''Storage read error'') False []
            [tag ''span'' [child (opt_get d ''storage_error'')]]),
          ops_definition_list (index_items ck now x generated_at),
          if notes \<noteq> [] then tag ''div'' [tag ''p'' [label ''Data notes''],
              tag ''ul'' (map (\<lambda>n. tag ''li'' [tag ''span'' [Text en_dash], tag ''span'' [child n]]) notes)]
          else tag ''p'' [label ''No data-health notes were reported.'']],
        tag ''CardFooter'' [Text (if reported
          then js ''Index refreshed '' @ time_ago_or ck now (opt_get x ''refreshed_at'') dash @ dot @ js ''scan ''
            @ format_duration dash (opt_get x ''scan_ms'') @ dot @ format_number False dash (opt_get x ''scan_errors'') @ js '' scan errors''
          else js ''Data-health block not returned in this response.'')]])"

definition operations_header :: "clock \<Rightarrow> jnum \<Rightarrow> jsval \<Rightarrow> bool \<Rightarrow> jsval \<Rightarrow> view" where
  "operations_header ck now r loading updated_at = Node ''PageHeader'' [(''eyebrow'', Str (js ''Governance '' @ middot @ js '' Operations'')), (''title'', lit ''Operations''),
     (''description'', Str (js ''Sandbox cleanup evidence, live sandbox inventory, infrastructure reachability and the configured execution catalog. Probes measure reachability ''
        @ em_dash @ js '' they are not health claims, and unavailable live data is never shown as zero.''))]
    [slot ''meta'' [shown_if (truthy (opt_get r ''environment'')) (outlined [child (opt_get r ''environment'')]),
       tag ''span'' [label ''Generated '', Text (date_time_or ck (opt_get r ''generated_at'') dash)], dot_mark,
       tag ''span'' [label ''Live inventory checked '',
         Text (time_ago_or ck now (opt_get (opt_get r ''live_sandboxes'') ''checked_at'') (js ''not reported''))],
       updated_view (updated_ago ck now updated_at)],
     slot ''actions'' [button [(''loading'', JBool (loading \<and> truthy r))] ''Refresh'']]"

definition operations_skeleton :: view where
  "operations_skeleton = tag ''div'' [tag ''Skeleton'' [], tag ''div'' (replicate 2 (tag ''Skeleton'' [])), tag ''Skeleton'' [],
     Node ''TableSkeleton'' [(''rows'', int_val 5), (''columns'', int_val 6)] []]"

definition warnings_notice :: "jsval list \<Rightarrow> view" where
  "warnings_notice ws = shown_if (ws \<noteq> []) (ops_notice ''warning''
     (dec_nat (length ws) @ js '' configuration warning'' @ js (several (length ws) ''s'')) False []
     [tag ''ul'' (map (\<lambda>w. tag ''li'' [child w]) ws)])"

definition operations_body :: "clock \<Rightarrow> jnum \<Rightarrow> jsval \<Rightarrow> view" where
  "operations_body ck now r = fragment
     ([cleanup_card ck now (opt_get r ''cleanup''), live_card ck now (opt_get r ''live_sandboxes''), infrastructure_blocks (opt_get r ''infrastructure'')]
      @ catalog_cards ck now r
      @ [tag ''div'' [review_gate_block (opt_get r ''review''),
           config_items ''Hardening posture'' ''Per-run sandbox and behavior monitoring configuration.'' (hardening_items (opt_get r ''hardening''))],
         data_health_card ck now (opt_get r ''data_health'') (opt_get r ''generated_at'')])"

definition operations_page :: "clock \<Rightarrow> jnum \<Rightarrow> jsval \<Rightarrow> request_error option \<Rightarrow> bool \<Rightarrow> jsval \<Rightarrow> view" where
  "operations_page ck now data err_opt loading updated_at = tag ''div'' [operations_header ck now data loading updated_at,
     tag ''div'' [load_notice ''Operations data could not be loaded'' ''The operations endpoint could not be reached.''
         (truthy data) (updated_ago ck now updated_at) err_opt,
       warnings_notice (as_list (opt_get data ''warnings'')),
       shown_if (\<not> truthy data \<and> loading) operations_skeleton,
       shown_if (truthy data) (operations_body ck now data)]]"

end
