(* ===== verification/Console_Overview.thy ===== *)
theory Console_Overview imports Console_Security Console_Charts begin

text \<open>
  The overview screen (\<open>pages/overview.jsx\<close>) with its cards (\<open>components/overview\<close>): the ten key
  figures, the loading, error and empty states, the attention list, the health, security and
  throughput cards and the catalog strip. \<open>now\<close> is the state of the page that ticks every fifteen
  seconds, \<open>wall\<close> what \<open>Date.now()\<close> gives while rendering.
\<close>

section \<open>Key figures\<close>

definition KPI_LABELS :: "string list" where
  "KPI_LABELS = [''Runs started'', ''Success rate'', ''In flight'', ''Reviews pending'', ''Security stops'', ''Cleanup verified'',
     ''p50 duration'', ''p95 duration'', ''Tokens'', ''Cost'']"

definition withdrawn :: "jsval \<Rightarrow> bool" where "withdrawn k \<longleftrightarrow> \<not> truthy k \<or> opt_get k ''available'' = JBool False"

definition unavailable :: "string \<Rightarrow> view" where "unavailable l = tag ''span'' [label l]"

datatype delta_mode = Plain | Of_duration | Of_security | Neutral

definition delta_tone :: "delta_mode \<Rightarrow> jnum \<Rightarrow> string" where
  "delta_tone m n = (case m of Neutral \<Rightarrow> ''muted'' | Of_security \<Rightarrow> if positive n then ''danger'' else ''success''
     | Of_duration \<Rightarrow> if positive n then ''warning'' else ''success'' | Plain \<Rightarrow> [])"

definition delta_arg :: "delta_mode \<Rightarrow> jsval \<Rightarrow> jsval" where
  "delta_arg m k = (let raw = opt_get k ''delta_pct''; n = to_num raw; s = format_delta 1 (js ''%'') (Num n) in
     if withdrawn k \<or> nullish raw \<or> \<not> is_finite n \<or> s = [] then Null
     else if m = Plain then Str s else Obj [(js ''value'', Str s), (js ''tone'', lit (delta_tone m n))])"

definition note_or :: "jsval \<Rightarrow> string \<Rightarrow> jstr" where
  "note_or k fb = truncate_text 96 (js_or (opt_get k ''note'') (lit fb))"

definition comparison_hint :: "jsval \<Rightarrow> jstr" where
  "comparison_hint k = (if withdrawn k then note_or k ''Not reported by the factory API.''
     else if nullish (opt_get k ''delta_pct'') then js ''No comparable previous window''
     else js ''Previous window: '' @ format_number False dash (opt_get k ''previous''))"

definition figure :: "string \<Rightarrow> (jsval \<Rightarrow> jstr) \<Rightarrow> jsval \<Rightarrow> view" where
  "figure l f k = (if withdrawn k then unavailable l else Text (f (opt_get k ''value'')))"

definition percent_value :: "jsval \<Rightarrow> view" where "percent_value = figure ''Unavailable'' (format_percent 1 dash)"
definition duration_value :: "jsval \<Rightarrow> view" where "duration_value = figure ''Unavailable'' (format_duration dash)"

definition spark_values :: "(jsval \<Rightarrow> jnum) \<Rightarrow> jsval list \<Rightarrow> jnum list" where
  "spark_values f ps = filter is_finite (map f ps)"

definition total_spark :: "jsval list \<Rightarrow> jnum list" where "total_spark = spark_values (\<lambda>p. point_num p ''total'')"
definition security_spark :: "jsval list \<Rightarrow> jnum list" where "security_spark = spark_values (\<lambda>p. point_num p ''security'')"

definition success_spark :: "jsval list \<Rightarrow> jnum list" where
  "success_spark ps = spark_values (\<lambda>p. num_div (point_num p ''succeeded'') (point_num p ''total''))
     (filter (\<lambda>p. positive (point_num p ''total'')) ps)"

definition duration_spark :: "jsval list \<Rightarrow> jnum list" where
  "duration_spark ps = filter positive (spark_values (\<lambda>p. point_num p ''p50_duration_ms'') ps)"

record tile =
  t_label :: string
  t_value :: view
  t_hint :: jsval
  t_delta :: jsval
  t_tone :: string
  t_spark :: "jnum list"
  t_href :: jsval
  t_footer :: "view list"

definition tile_of :: "nat \<Rightarrow> view \<Rightarrow> jstr \<Rightarrow> jsval \<Rightarrow> tile" where
  "tile_of n v h d = \<lparr>t_label = KPI_LABELS ! n, t_value = v, t_hint = Str h, t_delta = d, t_tone = ''muted'', t_spark = [],
     t_href = Undef, t_footer = []\<rparr>"

definition tile_view :: "tile \<Rightarrow> view" where
  "tile_view t = Node ''KpiTile'' [(''label'', lit (t_label t)), (''hint'', t_hint t), (''delta'', t_delta t), (''tone'', lit (t_tone t)),
     (''spark'', Arr (map Num (t_spark t))), (''href'', t_href t)] [slot ''value'' [t_value t], slot ''footer'' (t_footer t)]"

definition kpi :: "jsval \<Rightarrow> string \<Rightarrow> jsval" where
  "kpi data k = js_or (opt_get (opt_get data ''kpis'') k) (Obj [])"

definition sample_hint :: "jsval \<Rightarrow> string \<Rightarrow> string \<Rightarrow> jstr" where
  "sample_hint k fb what = (if withdrawn k then note_or k fb else format_number False dash (opt_get k ''sample'') @ js what)"

definition in_flight_tile :: "jsval \<Rightarrow> tile" where
  "in_flight_tile k = (let n = num_or_0 (opt_get k ''value''); paused = num_or_0 (opt_get k ''paused'') in
     (tile_of 2 (if withdrawn k then unavailable ''Unavailable'' else Text (num_text n))
       (if withdrawn k then note_or k ''Live orchestration state is unavailable.''
        else if positive paused then num_text paused @ js '' paused for human review'' else js ''Live orchestration workflows'') Undef)
     \<lparr>t_tone := (if \<not> withdrawn k \<and> positive n then ''info'' else ''muted'')\<rparr>)"

definition reviews_tile :: "jsval \<Rightarrow> tile" where
  "reviews_tile k = (let n = num_or_0 (opt_get k ''value''); wait = num_or_0 (opt_get k ''oldest_wait_ms''); live = num_or_0 (opt_get k ''paused_live'') in
     (tile_of 3 (Text (num_text n)) [] Undef)
     \<lparr>t_hint := js_or (opt_get k ''note'') (lit ''Changes waiting for a human decision''), t_tone := (if positive n then ''warning'' else ''muted''),
      t_href := lit ''#/reviews'',
      t_footer := [tag ''span'' [label ''Oldest wait '', tag ''span'' [Text (if positive n \<and> positive wait then format_duration dash (Num wait) else em_dash)]],
        shown_if (positive live) (tag ''span'' [child (Num live), label '' live paused''])]\<rparr>)"

definition security_stops_tile :: "jsval \<Rightarrow> jsval list \<Rightarrow> tile" where
  "security_stops_tile k ps = (let n = to_num (opt_get k ''value''); sample = opt_get k ''sample'' in
     (tile_of 4 (figure ''Unavailable'' (format_number False dash) k)
       (if positive n then js ''Among '' @ format_number False dash sample @ js '' runs in this window''
        else if positive (to_num sample) then js ''No security stop among '' @ format_number False dash sample @ js '' runs''
        else js ''No runs evaluated in this window'') (delta_arg Of_security k))
     \<lparr>t_tone := (if positive n then ''danger'' else ''muted''), t_spark := security_spark ps, t_href := lit ''#/security''\<rparr>)"

definition lead_tiles :: "jsval \<Rightarrow> jsval list \<Rightarrow> tile list" where
  "lead_tiles data ps = (let runs = kpi data ''runs''; success = kpi data ''success_rate'' in
     [(tile_of 0 (figure ''Unavailable'' (format_number False dash) runs)
         (if withdrawn runs then note_or runs ''Run counts are unavailable.'' else comparison_hint runs) (delta_arg Plain runs))
        \<lparr>t_tone := ''primary'', t_spark := total_spark ps, t_href := lit ''#/runs''\<rparr>,
      (tile_of 1 (percent_value success) (sample_hint success ''No finished runs in this window.'' '' finished runs'') (delta_arg Plain success))
        \<lparr>t_tone := (if withdrawn success then ''muted'' else ''success''), t_spark := success_spark ps\<rparr>,
      in_flight_tile (kpi data ''in_flight''), reviews_tile (kpi data ''reviews'')])"

definition more_tiles :: "jsval \<Rightarrow> jsval list \<Rightarrow> tile list" where
  "more_tiles data ps = (let cleanup = kpi data ''cleanup_verified_rate''; p50 = kpi data ''p50_duration_ms''; p95 = kpi data ''p95_duration_ms'';
       tk = kpi data ''tokens''; c = kpi data ''cost_usd'' in
     [security_stops_tile (kpi data ''security_stops'') ps,
      (tile_of 5 (percent_value cleanup) (sample_hint cleanup ''No cleanup evidence in this window.'' '' runs with cleanup evidence'') (delta_arg Plain cleanup))
        \<lparr>t_tone := (if withdrawn cleanup then ''muted'' else ''success''), t_href := lit ''#/operations''\<rparr>,
      (tile_of 6 (duration_value p50) (sample_hint p50 ''No duration samples in this window.'' '' duration samples'') (delta_arg Of_duration p50))
        \<lparr>t_spark := duration_spark ps\<rparr>,
      tile_of 7 (duration_value p95) (sample_hint p95 ''No duration samples in this window.'' '' duration samples'') (delta_arg Of_duration p95),
      tile_of 8 (figure ''Not reported'' (format_number True dash) tk)
        (sample_hint tk ''No harness reported token usage.'' '' runs reported token usage'') (delta_arg Neutral tk),
      tile_of 9 (figure ''Not reported'' (format_usd not_reported 2) c)
        (sample_hint c ''No harness reported inference cost.'' '' runs reported inference cost'') (delta_arg Neutral c)])"

definition series_points :: "jsval \<Rightarrow> jsval list" where "series_points data = as_list (opt_get (opt_get data ''series'') ''points'')"

definition kpi_grid :: "jsval \<Rightarrow> view" where
  "kpi_grid data = (let ps = series_points data in Node ''section'' [(''aria-label'', lit ''Key factory metrics'')]
     [tag ''div'' (map tile_view (lead_tiles data ps)),
      tag ''details'' [tag ''summary'' [label ''Performance & resources'',
          tag ''span'' [Text (middot @ js '' Security, cleanup, latency and spend'')]],
        tag ''div'' (map tile_view (more_tiles data ps))]])"

section \<open>Loading, error and empty states\<close>

definition overview_skeleton :: view where
  "overview_skeleton = (let boxes = \<lambda>n rows. tag ''Card'' [tag ''div'' (replicate n (tag ''Skeleton'' [])),
        tag ''CardBody'' [Node ''SkeletonText'' [(''lines'', int_val rows)] []]];
       chart = Node ''ChartSkeleton'' [(''height'', int_val 224)] [] in
     Node ''div'' [(''role'', lit ''status''), (''aria-label'', lit ''Loading factory overview'')]
       [tag ''div'' (replicate 4 (tag ''KpiSkeleton'' [])), tag ''Skeleton'' [], tag ''div'' [chart, chart],
        Node ''TableSkeleton'' [(''rows'', int_val 6), (''columns'', int_val 6)] [],
        tag ''div'' (replicate 3 (boxes 2 6)), tag ''div'' [boxes 1 7, boxes 1 7]])"

definition technical_text :: "request_error \<Rightarrow> jstr" where
  "technical_text e = join_with ([32] @ middot @ [32]) (filter (\<lambda>s. s \<noteq> [])
     [if truthy (status_val e) then js ''HTTP '' @ to_str (status_val e) else [],
      if truthy (code_val e) then js ''code '' @ to_str (code_val e) else []])"

definition link_button :: "string \<Rightarrow> string \<Rightarrow> view" where
  "link_button href l = Node ''Button'' [(''href'', lit href)] [label l]"

definition overview_error :: "request_error \<Rightarrow> bool \<Rightarrow> view" where
  "overview_error e busy = Node ''Card'' [(''role'', lit ''alert'')] [tag ''CardBody'' [tag ''div''
     [tag ''h2'' [label ''The overview could not be loaded''],
      tag ''p'' [child (error_text e ''The console could not reach the factory API.''),
        label '' The rest of the console remains available; runs, changes and other screens are unaffected.''],
      shown_if (technical_text e \<noteq> []) (tag ''p'' [Text (technical_text e)]),
      tag ''div'' [button [(''loading'', JBool busy)] ''Retry'', link_button ''#/runs'' ''Open runs ledger'']]]]"

definition format_ago :: "clock \<Rightarrow> jnum \<Rightarrow> jsval \<Rightarrow> jstr" where
  "format_ago ck wall v = (if date_ms ck v = NaN then js ''at an unknown time'' else time_ago ck wall v)"

definition scan_errors :: "jsval \<Rightarrow> jnum" where "scan_errors ix = num_or_0 (opt_get ix ''scan_errors'')"

definition plural_of :: "jnum \<Rightarrow> string \<Rightarrow> string \<Rightarrow> jstr" where
  "plural_of n one many = js (if n = num_int 1 then one else many)"

definition stale_banner :: "clock \<Rightarrow> jnum \<Rightarrow> jsval \<Rightarrow> view" where
  "stale_banner ck wall ix = (let n = scan_errors ix; g = opt_get ix in
     shown_if (truthy (g ''stale'')) (Node ''div'' [(''role'', lit ''alert'')]
       [tag ''p'' [tag ''span'' [label ''Evidence index is stale.''], label '' '',
          child (js_or (g ''scan_error'') (Str (js ''The last scan could not read '' @ num_to_string n @ js '' evidence entr'' @ plural_of n ''y'' ''ies'' @ js ''.''))),
          label '' Numbers below come from the last complete scan'',
          Text (if truthy (g ''refreshed_at'') then js '' ('' @ format_number False dash (g ''runs'') @ js '' runs, refreshed ''
             @ format_ago ck wall (g ''refreshed_at'') @ js '')'' else []), label ''.''],
        button [] ''Retry'']))"

definition refresh_failure_banner :: "request_error \<Rightarrow> jsval \<Rightarrow> jstr \<Rightarrow> view" where
  "refresh_failure_banner e updated_at updated_label = Node ''div'' [(''role'', lit ''status'')]
     [tag ''p'' [tag ''span'' [label ''Refresh failed.''], label '' '',
        Text (if truthy updated_at then js ''Showing the last successful snapshot from '' @ updated_label @ js ''. '' else js ''No snapshot has been received yet. ''),
        child (error_text e ''The factory API did not answer.'')],
      button [] ''Retry'']"

definition empty_evidence :: "jsval \<Rightarrow> view" where
  "empty_evidence ix = (let n = scan_errors ix in tag ''Card'' [tag ''CardBody''
     [Node ''EmptyState'' [(''title'', lit ''No factory evidence yet''),
        (''description'', lit ''The console reads run manifests and change records from the configured evidence store. Once the factory records its first run, the metrics, charts and attention queue fill in automatically.'')]
        [slot ''action'' [tag ''div'' [link_button ''#/operations'' ''Open operations'', link_button ''#/runs'' ''Open runs ledger'']]],
      shown_if (positive n) (tag ''p'' [child (js_or (opt_get ix ''scan_error'')
        (Str (num_to_string n @ js '' evidence file'' @ plural_of n '''' ''s'' @ js '' could not be read during the last index scan.'')))])]])"

definition window_suggestions :: "jsval \<Rightarrow> (string \<times> string) list" where
  "window_suggestions w = filter (\<lambda>o'. lit (fst o') \<noteq> w) [(''30d'', ''Last 30 days''), (''all'', ''All time'')]"

definition window_empty_notice :: "jsval \<Rightarrow> jstr \<Rightarrow> jnum \<Rightarrow> view" where
  "window_empty_notice w nm stored = Node ''div'' [(''role'', lit ''status'')]
     [tag ''p'' [tag ''span'' [label ''No runs started in '', Text (to_lower nm), label ''.''], label '' '',
        Text (if positive stored then js ''The evidence store still holds '' @ num_text stored @ js '' run'' @ plural_of stored '''' ''s''
            @ js '' from other periods; widen the window to see them.''
          else js ''The store has not recorded run evidence yet.'')],
      tag ''div'' (map (\<lambda>o'. button [] (snd o')) (window_suggestions w))]"

definition scan_error_badge :: "jnum \<Rightarrow> view" where
  "scan_error_badge n = shown_if (truthy (Num n))
     (dotted (js ''warning'') ''xs'' (lit ''Evidence files that could not be read during the last index scan'')
       [child (Num n), label '' scan error'', Text (plural_of n '''' ''s'')])"

section \<open>What needs attention\<close>

definition attention_severity :: "jsval \<Rightarrow> jstr \<times> jstr" where
  "attention_severity v = (let k = lowered v; t = severity_tone (Str k) in
     (case map_of (table [(''critical'', ''Critical''), (''warning'', ''Warning''), (''info'', ''Info'')]) k of
        Some l \<Rightarrow> l | None \<Rightarrow> title_case (js_or (Str k) (lit ''Notice'')), known_tone t))"

definition kind_label :: "jsval \<Rightarrow> jstr" where
  "kind_label v = (case table_get (table [(''failed_run'', ''Failed run''), (''security_stop'', ''Security stop''),
       (''cleanup_failure'', ''Cleanup failure''), (''budget_exceeded'', ''Budget exceeded''), (''review_pending'', ''Review pending''),
       (''paused_run'', ''Paused run'')]) v of Some l \<Rightarrow> l | None \<Rightarrow> title_case (js_or v (lit ''Attention'')))"

definition attention_detail :: "bool \<Rightarrow> jsval \<Rightarrow> view \<Rightarrow> view" where
  "attention_detail c t v = shown_if c (fragment [dot_sep, titled t [v]])"

definition attention_entry :: "clock \<Rightarrow> jnum \<Rightarrow> jsval \<Rightarrow> view" where
  "attention_entry ck now i = (let g = opt_get i; sv = attention_severity (g ''severity''); detail = js_or (g ''detail'') (Str []);
       repo = (if truthy (g ''repository'') then repo_label (g ''repository'') else []) in
     tag ''li'' [Node ''a'' [(''href'', Str (normalize_href (g ''href'') (js ''#/overview'')))]
       [Node ''StatusDot'' [(''tone'', Str (snd sv))] [],
        tag ''div'' [tag ''div'' [tag ''p'' [child (g ''title'')], titled (Str (format_date_time ck dash (g ''at''))) [Text (time_ago ck now (g ''at''))]],
          shown_if (truthy detail) (Node ''p'' [(''title'', detail)] [child detail]),
          tag ''div'' [Node ''span'' [(''tone'', Str (snd sv))] [Text (fst sv)], dot_sep, tag ''span'' [Text (kind_label (g ''kind''))],
            attention_detail (repo \<noteq> [] \<and> Str repo \<noteq> detail) (g ''repository'') (Text repo),
            attention_detail (truthy (g ''run_id'')) (g ''run_id'') (child (g ''run_id'')),
            attention_detail (truthy (g ''change_id'') \<and> \<not> truthy (g ''run_id'')) (g ''change_id'') (child (g ''change_id''))]]]])"

definition critical_items :: "jsval list \<Rightarrow> nat" where
  "critical_items xs = length (filter (\<lambda>i. to_lower (to_str (opt_get i ''severity'')) = js ''critical'') xs)"

definition panel_tone :: "jsval list \<Rightarrow> string" where
  "panel_tone xs = (if 0 < critical_items xs then ''danger'' else if xs \<noteq> [] then ''warning'' else ''muted'')"

definition plain_count :: "nat \<Rightarrow> jstr" where "plain_count n = num_to_string (num_int (int n))"

definition attention_text :: "jsval list \<Rightarrow> jstr" where
  "attention_text xs = (let n = length xs in
     if n = 0 then js ''Failures, security stops and decisions waiting on a human''
     else plain_count n @ js '' item'' @ js (several n ''s'') @ [32] @ middot @ [32]
       @ (if 0 < critical_items xs then plain_count (critical_items xs) @ js '' critical'' else js ''newest first''))"

definition card_header :: "string \<Rightarrow> jstr \<Rightarrow> view list \<Rightarrow> view" where
  "card_header title description actions = Node ''CardHeader'' [(''title'', lit title), (''description'', Str description)] [slot ''actions'' actions]"

definition attention_panel :: "clock \<Rightarrow> jnum \<Rightarrow> jsval \<Rightarrow> view" where
  "attention_panel ck now v = (let xs = as_list v in tag ''Card''
     [card_header ''Needs attention'' (attention_text xs) [link_button ''#/reviews'' ''Review queue''],
      tag ''div'' [if xs \<noteq> [] then tag ''ul'' (map (attention_entry ck now) xs)
        else Node ''EmptyState'' [(''title'', lit ''Nothing needs attention''),
          (''description'', lit ''No failed runs, security stops, cleanup anomalies, budget overruns or pending reviews were returned for the current workspace.'')] []],
      tag ''CardFooter'' [tag ''span'' [label ''Ordered by severity, then most recent''],
        if xs \<noteq> [] then dotted (js (panel_tone xs)) ''xs'' Undef [label (if 0 < critical_items xs then ''Critical present'' else ''Advisory'')]
        else tag ''span'' [label ''Queue clear'']]])"

section \<open>Health and security\<close>

definition health_status :: "jsval \<Rightarrow> string \<times> string \<times> string" where
  "health_status v = switch (Str (lowered v))
     [([''operational''], (''Operational'', ''success'', ''Every health check passed.'')),
      ([''degraded''], (''Degraded'', ''warning'', ''At least one check or probe needs review.'')),
      ([''attention''], (''Needs attention'', ''danger'', ''At least one health check is reporting an error.''))]
     (''Unknown'', ''muted'', ''Health was not reported.'')"

definition check_meta :: "jsval \<Rightarrow> string \<times> string" where
  "check_meta v = switch (Str (lowered v)) [([''ok''], (''OK'', ''success'')), ([''warn''], (''Warn'', ''warning'')),
     ([''error''], (''Error'', ''danger'')), ([''disabled''], (''Disabled'', ''muted''))] (''Unknown'', ''muted'')"

definition reach_meta :: "jsval \<Rightarrow> string \<times> string" where
  "reach_meta v = switch (Str (lowered v)) [([''reachable''], (''Reachable'', ''success'')),
     ([''unreachable''], (''Unreachable'', ''danger''))] (''Unknown'', ''muted'')"

definition unmeasured_checks :: "jsval list \<Rightarrow> nat" where
  "unmeasured_checks cs = length (filter (\<lambda>c. among (lowered (opt_get c ''state'')) [''unknown'', ''disabled'']) cs)"

definition health_text :: "jsval \<Rightarrow> jstr" where
  "health_text h = (let m = health_status (opt_get h ''status''); n = unmeasured_checks (as_list (opt_get h ''checks'')) in
     if fst m = ''Operational'' \<and> 0 < n
     then js ''Measured checks passed. '' @ plain_count n @ js '' live check'' @ js (if n = 1 then '' is'' else ''s are'')
       @ js '' disabled or unknown, so they are not reported as passing.''
     else js (snd (snd m)))"

definition state_text :: "string \<times> string \<Rightarrow> view" where
  "state_text m = Node ''span'' [(''tone'', lit (snd m))] [label (fst m)]"

definition latency_note :: "jsval \<Rightarrow> view" where
  "latency_note p = shown_if (positive (to_num (opt_get p ''latency_ms'')))
     (tag ''span'' [Text (format_number False dash (opt_get p ''latency_ms'')), label ''ms''])"

definition health_check_row :: "jsval \<Rightarrow> view" where
  "health_check_row c = (let m = check_meta (opt_get c ''state'') in tag ''li''
     [Node ''StatusDot'' [(''tone'', lit (snd m))] [],
      tag ''div'' [tag ''div'' [tag ''p'' [child (js_or (opt_get c ''label'') (opt_get c ''id''))], state_text m],
        tag ''div'' [tag ''p'' [child (js_or (opt_get c ''detail'') (lit ''No detail reported.''))], latency_note c]]])"

definition health_probe_row :: "jsval \<Rightarrow> view" where
  "health_probe_row p = (let m = reach_meta (opt_get p ''state''); target = opt_get p ''target'' in tag ''li''
     [status_dot (js (snd m)), tag ''span'' [child (js_or (opt_get p ''label'') (opt_get p ''id''))],
      titled target [child target], state_text m, latency_note p])"

definition health_footer :: "clock \<Rightarrow> jnum \<Rightarrow> jsval \<Rightarrow> view" where
  "health_footer ck wall ix = (let g = opt_get ix; at' = g ''refreshed_at'' in tag ''CardFooter''
     [titled (if truthy at' then Str (format_date_time ck dash at') else Undef)
        [label ''Index refreshed '', Text (if truthy at' then time_ago ck wall at' else em_dash),
         Text (if positive (to_num (g ''scan_ms'')) then [32] @ middot @ js '' scan '' @ format_number False dash (g ''scan_ms'') @ js ''ms'' else []),
         Text (if truthy (Num (to_num (g ''runs''))) \<or> truthy (Num (to_num (g ''changes'')))
           then [32] @ middot @ [32] @ format_number False dash (js_or (g ''runs'') (Num (num_int 0))) @ js '' runs / ''
             @ format_number False dash (js_or (g ''changes'') (Num (num_int 0))) @ js '' changes'' else [])],
      shown_if (positive (scan_errors ix)) (scan_error_badge (scan_errors ix)), link_button ''#/operations'' ''Operations''])"

definition health_panel :: "clock \<Rightarrow> jnum \<Rightarrow> jsval \<Rightarrow> view" where
  "health_panel ck wall h = (let m = health_status (opt_get h ''status''); cs = as_list (opt_get h ''checks''); ps = as_list (opt_get h ''probes'') in
     tag ''Card'' [card_header ''System health'' (health_text h) [dotted (js (fst (snd m))) ''xs'' Undef [label (fst m)]],
       tag ''CardBody''
         [if cs \<noteq> [] then Node ''ul'' [(''aria-label'', lit ''Factory health checks'')] (map health_check_row cs)
          else tag ''p'' [label ''No health checks were returned for this workspace.''],
          tag ''div'' [tag ''div'' [tag ''p'' [label ''Reachability probes''], tag ''p'' [label ''TCP dial from the console host'']],
            if ps \<noteq> [] then Node ''ul'' [(''aria-label'', lit ''Reachability probes'')] (map health_probe_row ps)
            else tag ''p'' [label ''No probe targets are configured for this deployment.''],
            tag ''p'' [label ''Reachability is a bounded probe, not a health claim about the target service.'']]],
       health_footer ck wall (js_or (opt_get h ''index'') (Obj []))])"

definition security_stat :: "string \<Rightarrow> jsval \<Rightarrow> string \<Rightarrow> string \<Rightarrow> view" where
  "security_stat l v t hint = (let n = num_or_0 v in Node ''div'' [(''title'', lit hint)]
     [tag ''dt'' [label l],
      Node ''dd'' [(''tone'', lit (if positive n \<and> t \<noteq> ''muted'' then t else ''foreground''))] [Text (num_text n)]])"

definition security_figure :: "string \<Rightarrow> jnum \<Rightarrow> string \<Rightarrow> jstr \<Rightarrow> view" where
  "security_figure l n t hint = tag ''div'' [tag ''p'' [label l],
     Node ''p'' [(''tone'', lit (if positive n then t else ''foreground''))] [Text (num_text n)], tag ''p'' [Text hint]]"

definition stops_badge :: "jnum \<Rightarrow> view" where
  "stops_badge n = dotted (js (if positive n then ''danger'' else ''success'')) ''xs'' Undef
     [Text (if positive n then num_text n @ js '' stop'' @ plural_of n '''' ''s'' else js ''No stops'')]"

definition top_rule_row :: "jsval \<Rightarrow> view" where
  "top_rule_row r = (let g = opt_get r in tag ''li''
     [status_dot (severity_tone (g ''severity'')), titled (g ''rule_id'') [child (js_or (g ''rule_id'') (lit ''unnamed rule''))],
      shown_if (truthy (g ''category'')) (tag ''span'' [child (g ''category'')]),
      tag ''span'' [Text (format_number False dash (g ''findings'')), label '' finding'', Text (plural_of (num_or_0 (g ''findings'')) '''' ''s'')]])"

definition security_stats :: "jsval \<Rightarrow> view list" where
  "security_stats d = (let g = opt_get d in
     [security_stat ''Runs inspected'' (g ''runs_scanned'') ''muted'' ''Runs scanned by the cross-run threat report (full evidence store).'',
      security_stat ''Tripped'' (g ''tripped'') ''danger'' ''Runs tripped by the behavior monitor (full evidence store).'',
      security_stat ''Blocked'' (g ''blocked'') ''danger'' ''Runs blocked by the agent harness (full evidence store).'',
      security_stat ''Gate tampered'' (g ''gate_tampered'') ''danger'' ''Runs where the verification gate appears modified (full evidence store).'',
      security_stat ''Egress violations'' (g ''egress_violations'') ''danger'' ''Recorded egress violations (full evidence store).'',
      security_stat ''Alerts undelivered'' (g ''alerts_undelivered'') ''warning'' ''Security alerts that could not be delivered (full evidence store).''])"

definition security_panel :: "jsval \<Rightarrow> view" where
  "security_panel v = (let d = js_or v (Obj []); g = opt_get d; stops = num_or_0 (g ''stops_in_window'');
       rules = as_list (g ''top_rules'') in
     tag ''Card'' [card_header ''Security posture'' (js ''Hardening, egress and gate-integrity evidence'') [stops_badge stops],
       tag ''CardBody''
         [tag ''div'' [security_figure ''Stops in window'' stops ''danger''
              (js (if positive stops then ''Security terminal states in this window'' else ''No security terminal state in this window'')),
            security_figure ''With findings'' (num_or_0 (g ''runs_with_findings'')) ''warning''
              (js ''Across '' @ num_text (num_or_0 (g ''runs_scanned'')) @ js '' inspected runs'')],
          tag ''dl'' (security_stats d),
          tag ''div'' [tag ''p'' [label ''Top rules''],
            if rules \<noteq> [] then tag ''ul'' (map top_rule_row rules)
            else tag ''p'' [label ''No hardening rule fired across the inspected runs.'']]],
       tag ''CardFooter'' [tag ''span'' [Text (js ''Threat report spans the full store '' @ middot @ js '' stops are counted in the window'')],
         link_button ''#/security'' ''Security report'']])"

section \<open>Runs, throughput and outcomes\<close>

definition recent_run_row :: "clock \<Rightarrow> jnum \<Rightarrow> jsval \<Rightarrow> view" where
  "recent_run_row ck now r = (let g = opt_get r in tag ''TR''
     [td [link_to (template_href ''#/runs/'' (g ''run_id'')) [(''title'', g ''run_id'')] [child (g ''run_id'')]],
      td [pill ''run'' ''xs'' (g ''factory_result'')],
      td_muted [titled (g ''agent_harness'') [or_dash (g ''agent_harness'')]],
      td_muted [titled (g ''repository'') [Text (repo_label (g ''repository''))]],
      Node ''TD'' [(''numeric'', JBool True), (''muted'', JBool True)]
        [Text (if nullish (g ''duration_ms'') then em_dash else format_duration dash (g ''duration_ms''))],
      td_muted [titled (Str (format_date_time ck dash (g ''started_at''))) [Text (time_ago ck now (g ''started_at''))]]])"

definition recent_runs_card :: "clock \<Rightarrow> jnum \<Rightarrow> jsval \<Rightarrow> view" where
  "recent_runs_card ck now v = (let rs = as_list v in tag ''Card''
     [card_header ''Recent runs'' (js ''Newest activations in the evidence store'') [link_button ''#/runs'' ''All runs''],
      tag ''CardBody'' [Node ''Table'' [(''aria-label'', lit ''Recent runs'')]
        [table_head [''Duration''] [''Run'', ''Status'', ''Harness'', ''Repository'', ''Duration'', ''Started''],
         tag ''tbody'' (if rs \<noteq> [] then map (recent_run_row ck now) rs
           else [table_empty 6 ''No runs recorded'' (lit ''Activations appear here as soon as the factory writes a run manifest.'')])]],
      tag ''CardFooter'' [tag ''span'' [label ''Newest activations are shown regardless of the selected window.''],
        link_button ''#/runs'' ''Open runs ledger'']])"

text \<open>\<open>toLowerCase\<close> of a window name that is no text throws.\<close>

definition with_text :: "jsval \<Rightarrow> (jstr \<Rightarrow> view) \<Rightarrow> view" where
  "with_text v f = (case v of Str s \<Rightarrow> f s | _ \<Rightarrow> Invalid)"

definition window_name :: "jsval \<Rightarrow> jsval" where
  "window_name data = js_or (opt_get (opt_get data ''window'') ''label'') (lit ''the selected window'')"

definition peak_point :: "jsval list \<Rightarrow> jsval" where
  "peak_point ps = foldl (\<lambda>best p. if \<not> truthy best then p
     else if num_lt (point_num best ''total'') (point_num p ''total'') then p else best) Null ps"

definition granularity_of :: "jsval \<Rightarrow> jsval" where
  "granularity_of data = js_or (opt_get (opt_get data ''series'') ''granularity'') (lit ''day'')"

definition bucket_unit :: "jsval \<Rightarrow> jstr" where
  "bucket_unit v = (case table_get UNIT_LABEL v of Some u \<Rightarrow> u | None \<Rightarrow> js ''bucket'')"

definition bucket_name :: "jsval \<Rightarrow> jstr" where
  "bucket_name v = (case table_get (table [(''hour'', ''hourly''), (''day'', ''daily''), (''month'', ''monthly'')]) v of
     Some u \<Rightarrow> u | None \<Rightarrow> js ''bucketed'')"

definition throughput_label :: "jsval list \<Rightarrow> jsval \<Rightarrow> jstr \<Rightarrow> jstr" where
  "throughput_label ps gran nm = (let n = \<lambda>k. num_text (sum_key k ps) in
     if positive (sum_key ''total'' ps)
     then js ''Stacked bar chart of '' @ n ''total'' @ js '' runs by '' @ bucket_unit gran @ js '' for '' @ nm @ js ''. '' @ bucket_name gran
       @ js '' buckets: '' @ n ''succeeded'' @ js '' succeeded, '' @ n ''failed'' @ js '' failed, '' @ n ''security'' @ js '' security stops, ''
       @ n ''other'' @ js '' other.''
     else js ''No runs were recorded by '' @ bucket_unit gran @ js '' for '' @ nm @ js ''.'')"

definition throughput_body :: "jsval list \<Rightarrow> jsval \<Rightarrow> jstr \<Rightarrow> view list" where
  "throughput_body ps gran nm = [stacked_chart_legend ps,
     tag ''div'' [if positive (sum_key ''total'' ps)
       then Node ''StackedBarChart'' [(''points'', Arr ps), (''granularity'', gran), (''height'', int_val 232),
         (''ariaLabel'', Str (throughput_label ps gran nm))] []
       else Node ''EmptyState'' [(''title'', lit ''No runs in this window''),
         (''description'', Str (js ''The factory did not start a run in '' @ to_lower nm
           @ js ''. Widen the window or check the runs ledger for earlier evidence.''))] []]]"

definition throughput_card :: "jsval \<Rightarrow> view" where
  "throughput_card data = with_text (window_name data) (\<lambda>nm.
     let ps = series_points data; gran = granularity_of data; n = sum_key ''total'' ps; peak = peak_point ps; k = point_num peak ''total'' in
     tag ''Card'' [card_header ''Run throughput''
         (if positive n then num_text n @ js '' runs started in '' @ to_lower nm
          else js ''Per-'' @ bucket_unit gran @ js '' run volume for '' @ to_lower nm)
         [toned (js ''muted'') ''xs'' [Text (title_case gran), label '' buckets'']],
       tag ''CardBody'' (throughput_body ps gran nm),
       tag ''CardFooter'' [tag ''span'' (if positive k
           then [label ''Peak '', tag ''span'' [Text (num_text k)], label '' on '', child (opt_get peak ''label'')]
           else [label ''No activity to summarise'']),
         link_button ''#/runs'' ''Open runs'']])"

definition outcomes_card :: "jsval \<Rightarrow> view" where
  "outcomes_card data = (let os = as_list (opt_get data ''outcomes''); n = sum_key ''count'' os in
     tag ''Card'' [card_header ''Outcome mix'' (js ''Factory results recorded in this window'')
         [toned (js (if positive n then ''outline'' else ''muted'')) ''xs'' [Text (num_text n), label '' results'']],
       tag ''CardBody'' [if positive n then Node ''OutcomeDonut'' [(''outcomes'', Arr os), (''total'', Num n)] []
         else with_text (window_name data) (\<lambda>nm. Node ''EmptyState'' [(''title'', lit ''No results in this window''),
           (''description'', Str (js ''No terminal factory results were recorded in '' @ to_lower nm @ js ''.''))] [])],
       tag ''CardFooter'' [tag ''span'' [Text (js ''Grouped by factory result '' @ middot @ js '' shares are of all results returned'')],
         link_button ''#/runs'' ''Runs'']])"

section \<open>Breakdowns and the catalog\<close>

definition breakdown_card :: "string \<Rightarrow> jstr \<Rightarrow> jsval list \<Rightarrow> (jsval \<Rightarrow> jsval) \<Rightarrow> string \<Rightarrow> string \<Rightarrow> view \<Rightarrow> string \<Rightarrow> string \<Rightarrow> view" where
  "breakdown_card title description entries label_of empty_label note extras href href_label = tag ''Card''
     [Node ''CardHeader'' [(''title'', lit title), (''description'', Str description)] [],
      tag ''CardBody'' [breakdown_bars entries label_of (js empty_label) Undef],
      tag ''CardFooter'' [shown_if (extras \<noteq> Blank) (tag ''span'' [extras]), tag ''span'' [label note],
        shown_if (href \<noteq> []) (link_button href (if href_label = [] then ''Open'' else href_label))]]"

definition CATALOG_ITEMS :: "(string \<times> string) list" where
  "CATALOG_ITEMS = [(''harnesses'', ''Harnesses''), (''repositories'', ''Repositories''), (''verification_profiles'', ''Verification profiles''),
     (''budgets'', ''Budgets''), (''scopes'', ''Scopes''), (''egress_policies'', ''Egress policies'')]"

definition catalog_strip :: "jsval \<Rightarrow> view" where
  "catalog_strip v = (let counts = js_or v (Obj []) in tag ''Card'' [tag ''div''
     [tag ''div'' [tag ''p'' [label ''Configured resources''],
        tag ''p'' [label ''Redacted view of '', tag ''span'' [label ''factory.toml''], label ''. Credential values are never returned by the API.'']],
      tag ''div'' (map (\<lambda>i. Node ''a'' [(''href'', lit ''#/settings''), (''title'', Str (js (snd i) @ js '' configured in factory.toml''))]
        [tag ''span'' [label (snd i)],
         tag ''span'' [Text (let n = opt_get counts (fst i) in if nullish n then em_dash else format_number False dash n)]]) CATALOG_ITEMS),
      link_button ''#/settings'' ''Settings'']])"

section \<open>The page\<close>

definition environment_key :: "jsval \<Rightarrow> jstr" where
  "environment_key session = to_lower (to_str (js_or (opt_get session ''environment'') (lit ''self-hosted'')))"

definition environment_badge :: "jsval \<Rightarrow> view" where
  "environment_badge session = (let k = environment_key session in
     Node ''Badge'' [(''variant'', lit ''outline''), (''size'', lit ''sm''),
       (''dot'', Str (js (switch (Str k) [([''production''], ''warning''), ([''staging'', ''development''], ''info'')] ''muted'')))]
       [Text (case map_of (table [(''production'', ''Production''), (''staging'', ''Staging''), (''development'', ''Development''),
          (''local'', ''Local''), (''self_hosted'', ''Self-hosted'')]) k of Some l \<Rightarrow> l | None \<Rightarrow> title_case (Str k))])"

definition health_chip :: "jsval \<Rightarrow> bool \<Rightarrow> view" where
  "health_chip v loading =
     (case switch (Str (lowered v)) [([''operational''], Some (''Factory operational'', ''success'')),
        ([''degraded''], Some (''Factory degraded'', ''warning'')), ([''attention''], Some (''Factory needs attention'', ''danger''))] None of
      None \<Rightarrow> tag ''span'' [Node ''StatusDot'' [(''tone'', lit ''muted'')] [],
        Text (if loading then js ''Checking status'' @ ellipsis else js ''Health not reported'')]
    | Some (l, t) \<Rightarrow> Node ''a'' [(''href'', lit ''#/operations''), (''title'', lit ''Open operations and infrastructure health''), (''tone'', lit t)]
        [Node ''StatusDot'' [(''tone'', lit t), (''pulse'', JBool (t = ''danger''))] [], label l])"

definition coverage_text :: "clock \<Rightarrow> jsval \<Rightarrow> jstr" where
  "coverage_text ck w = (let s = opt_get w ''start''; e = opt_get w ''end'' in
     if \<not> truthy e then js ''window unavailable''
     else if \<not> truthy s then js ''all recorded evidence through '' @ format_date ck dash e
     else format_date ck dash s @ [32] @ en_dash @ [32] @ format_date ck dash e)"

definition scopes_summary :: "jsval list \<Rightarrow> view" where
  "scopes_summary ss = (let runs = \<lambda>s. format_number False dash (opt_get s ''runs'') in
     shown_if (ss \<noteq> []) (titled (Str (join_with ([32] @ middot @ [32]) (map (\<lambda>s. to_str (opt_get s ''name'') @ js '': '' @ runs s @ js '' runs'') ss)))
       (label ''Scopes: '' # map (\<lambda>(i, s). tag ''span'' [Text (if 0 < i then [32] @ middot @ [32] else []),
          child (opt_get s ''name''), label '' '', tag ''span'' [Text (runs s)]]) (enumerate 0 ss))))"

definition store_runs :: "jsval \<Rightarrow> jnum" where "store_runs data = num_or_0 (opt_get (opt_get data ''index'') ''runs'')"

definition shown_window :: "jsval \<Rightarrow> jsval \<Rightarrow> jsval" where
  "shown_window data w = js_or (opt_get (opt_get data ''window'') ''label'') (Str (window_label w))"

definition overview_header :: "clock \<Rightarrow> jnum \<Rightarrow> jsval \<Rightarrow> jsval \<Rightarrow> jsval \<Rightarrow> bool \<Rightarrow> jsval \<Rightarrow> bool \<Rightarrow> view" where
  "overview_header ck now w session data loading updated_at auto = (let first = loading \<and> \<not> truthy data; ix = opt_get data ''index'' in
     Node ''PageHeader'' [(''eyebrow'', lit ''Workspace overview''), (''title'', lit ''Factory overview''),
       (''description'', Str (if truthy data then js ''Run activity, review decisions and factory health. '' @ to_str (shown_window data w) @ js ''.''
          else js ''Run activity, review decisions and factory health in one place.''))]
      [slot ''meta'' [environment_badge session, health_chip (opt_get (opt_get data ''health'') ''status'') first,
         tag ''span'' [child (shown_window data w)],
         titled (if truthy updated_at then Str (format_date_time ck dash updated_at) else lit ''The overview has not synced yet'')
           [Text (if truthy updated_at then js ''Updated '' @ time_ago ck now updated_at
              else if loading then js ''Syncing'' @ ellipsis else js ''Not yet synced'')],
         tag ''span'' [label (if auto then ''Updating every 30s'' else ''Updates paused'')],
         shown_if (truthy ix) (tag ''span'' [Text (num_text (store_runs data)), Text (js '' runs '' @ middot @ [32]),
           Text (num_text (num_or_0 (opt_get ix ''changes''))), label '' changes indexed''])],
       slot ''actions'' [link_button ''#/runs'' ''Explore runs'',
         button [(''disabled'', JBool first), (''aria-label'', lit ''Refresh overview data'')] ''Refresh'']])"

definition breakdown_cards :: "jsval \<Rightarrow> jstr \<Rightarrow> view list" where
  "breakdown_cards data nm = (let hs = as_list (opt_get data ''harnesses'') in
     [breakdown_card ''Harnesses'' (js ''Agent harness volume in '' @ to_lower nm) hs (\<lambda>i. js_or (opt_get i ''name'') (lit ''unassigned''))
        ''No harness recorded runs in this window.'' ''Bars scale to the busiest harness''
        (shown_if (hs \<noteq> []) (Text (size_of hs @ js '' harness'' @ js (several (length hs) ''es'') @ js '' with runs''))) ''#/operations'' ''Operations'',
      breakdown_card ''Repositories'' (js ''Repository volume in '' @ to_lower nm) (as_list (opt_get data ''repositories''))
        (\<lambda>i. Str (repo_label (opt_get i ''name''))) ''No repository recorded runs in this window.'' ''Bars scale to the busiest repository''
        (scopes_summary (as_list (opt_get data ''scopes''))) ''#/runs'' ''Runs''])"

definition overview_body :: "clock \<Rightarrow> jnum \<Rightarrow> jnum \<Rightarrow> jsval \<Rightarrow> jsval \<Rightarrow> view" where
  "overview_body ck now wall w data = with_text (shown_window data w) (\<lambda>nm. tag ''div''
     [kpi_grid data,
      shown_if (sum_key ''total'' (series_points data) = num_int 0) (window_empty_notice w nm (store_runs data)),
      tag ''div'' [throughput_card data, attention_panel ck now (opt_get data ''attention'')],
      recent_runs_card ck now (opt_get data ''recent_runs''),
      tag ''div'' [tag ''h2'' [label ''Factory insights''], tag ''span'' [label ''Results, infrastructure and security'']],
      tag ''div'' ([outcomes_card data, health_panel ck wall (opt_get data ''health''), security_panel (opt_get data ''security'')]
        @ breakdown_cards data nm),
      catalog_strip (opt_get data ''catalog''),
      tag ''p'' [label ''Evidence coverage: '', Text (coverage_text ck (opt_get data ''window'')), label ''.'',
        Text (if w = lit ''all'' then [] else js '' Deltas compare with the preceding equal-length window.''),
        label '' Read-only view of recorded evidence and live orchestration state.'']])"

definition overview_page :: "clock \<Rightarrow> jnum \<Rightarrow> jnum \<Rightarrow> jsval \<Rightarrow> jsval \<Rightarrow> jsval \<Rightarrow> request_error option \<Rightarrow> bool \<Rightarrow> jsval \<Rightarrow> bool \<Rightarrow> view" where
  "overview_page ck now wall w session data err_opt loading updated_at auto = tag ''div''
     [overview_header ck now w session data loading updated_at auto,
      shown_if (truthy data) (stale_banner ck wall (opt_get data ''index'')),
      case err_opt of None \<Rightarrow> Blank
      | Some e \<Rightarrow> shown_if (truthy data) (refresh_failure_banner e updated_at
          (let l = (if truthy updated_at then time_ago ck now updated_at else []) in if l = [] then js ''the last successful poll'' else l)),
      if loading \<and> \<not> truthy data then overview_skeleton
      else case (err_opt, truthy data) of
        (Some e, False) \<Rightarrow> overview_error e loading
      | _ \<Rightarrow> if truthy data \<and> store_runs data = num_int 0 then empty_evidence (opt_get data ''index'')
             else overview_body ck now wall w data]"

end
