(* ===== verification/Console_Run_Evidence.thy ===== *)
theory Console_Run_Evidence imports Console_Run_Viewer begin

text \<open>
  The run viewer, second half: the security evidence (\<open>run-security.jsx\<close>), the evidence browser
  and its preview dialog (\<open>run-artifacts.jsx\<close>, \<open>evidence-modal.jsx\<close>), the audit trail, the operator
  commands and the related records (\<open>run-audit.jsx\<close>, \<open>run-commands.jsx\<close>, \<open>run-related.jsx\<close>), the runs
  table with its toolbar and totals (\<open>run-table.jsx\<close>, \<open>runs-toolbar.jsx\<close>, \<open>runs-stats.jsx\<close>) and
  the page (\<open>pages/run-detail.jsx\<close>).
\<close>

section \<open>Security evidence\<close>

definition security_part :: "string \<Rightarrow> jstr \<Rightarrow> view \<Rightarrow> view list \<Rightarrow> view" where
  "security_part t description status vs = tag ''div''
     [tag ''div'' [tag ''div'' [tag ''h3'' [label t], tag ''p'' [Text description]], tag ''div'' [status]], tag ''div'' vs]"

text \<open>The pair of tone and label of a probe.\<close>

definition probe_verdict :: "jsval \<Rightarrow> string \<times> string" where
  "probe_verdict o' = (if opt_get o' ''decided'' = JBool False then (''muted'', ''Undecided'')
     else if truthy (opt_get o' ''reachable'') then (''warning'', ''Reachable'') else (''success'', ''Blocked''))"

definition probe_observation :: "string \<Rightarrow> jsval \<Rightarrow> view" where
  "probe_observation l o' = (let m = probe_verdict o' in
     if \<not> truthy o' then Blank
     else tag ''div'' [tag ''div'' [tag ''span'' [label l], dotted (js (fst m)) ''xs'' Undef [label (snd m)]],
       Node ''p'' [(''title'', opt_get o' ''url'')] [or_dash (opt_get o' ''url'')],
       shown_if (truthy (opt_get o' ''detail'')) (tag ''p'' [child (opt_get o' ''detail'')]),
       shown_if (opt_get o' ''decided'' = JBool False)
         (tag ''p'' [label ''The probe could not decide reachability; undecided probes never fail a run.''])])"

record strip_item =
  si_label :: string
  si_value :: jstr
  si_tone :: jstr

definition strip_of :: "string \<Rightarrow> jstr \<Rightarrow> string \<Rightarrow> strip_item" where
  "strip_of l v t = \<lparr>si_label = l, si_value = v, si_tone = js t\<rparr>"

definition count_item :: "string \<Rightarrow> jsval \<Rightarrow> string \<Rightarrow> strip_item" where
  "count_item l v t = strip_of l (format_number False dash (js_or v (int_val 0))) (if positive (to_num v) then t else ''success'')"

definition strip_items :: "jsval \<Rightarrow> strip_item list" where
  "strip_items h = (let b = \<lambda>k. truthy (opt_get h k) in
     [strip_of ''Tripped'' (js (if b ''tripped'' then ''Yes'' else ''No'')) (if b ''tripped'' then ''danger'' else ''success''),
      count_item ''Findings'' (opt_get h ''findings'') ''warning'',
      count_item ''Egress violations'' (opt_get h ''egress_violations'') ''danger'',
      strip_of ''Gate checked'' (js (if b ''gate_checked'' then ''Yes'' else ''No'')) (if b ''gate_checked'' then ''success'' else ''warning''),
      strip_of ''Gate self-mod'' (js (if b ''gate_allowed'' then ''Allowed'' else ''Denied'')) (if b ''gate_allowed'' then ''warning'' else ''muted'')]
     @ (if b ''max_severity'' then [\<lparr>si_label = ''Max severity'', si_value = title_case (opt_get h ''max_severity''),
          si_tone = severity_tone (opt_get h ''max_severity'')\<rparr>] else []))"

definition hardening_strip :: "jsval \<Rightarrow> view" where
  "hardening_strip h = tag ''div'' (map (\<lambda>i. tag ''div'' [tag ''p'' [label (si_label i)],
     Node ''p'' [(''tone'', Str (si_tone i))] [Text (si_value i)]]) (strip_items h))"

definition joined :: "jsval \<Rightarrow> jstr" where
  "joined v = join_with (js '', '') (map (\<lambda>x. if nullish x then [] else to_str x) (as_list v))"

definition texts :: "jsval \<Rightarrow> view list" where "texts v = map (\<lambda>x. tag ''li'' [child x]) (as_list v)"

definition hardening_block :: "jsval \<Rightarrow> view" where
  "hardening_block h = shown_if (truthy h) (tag ''div'' [hardening_strip h,
     shown_if (as_list (opt_get h ''gate_modified'') \<noteq> [])
       (tag ''p'' [label ''Modified gate paths: '', tag ''span'' [Text (joined (opt_get h ''gate_modified''))]])])"

text \<open>\<open>durationNS\<close> inside a text, where \<open>null\<close> is written out.\<close>

definition ns_text :: "jsval \<Rightarrow> jstr" where
  "ns_text v = (case duration_ns v of Some t \<Rightarrow> t | None \<Rightarrow> js ''null'')"

definition ns_child :: "jsval \<Rightarrow> view" where
  "ns_child v = (case duration_ns v of Some t \<Rightarrow> Text t | None \<Rightarrow> Blank)"

definition probe_part :: "clock \<Rightarrow> jnum \<Rightarrow> jsval \<Rightarrow> view" where
  "probe_part ck now p = (let g = opt_get p; deny = truthy (g ''expect_deny'') in
     if \<not> truthy p then Blank
     else security_part ''Egress probe''
       (js ''Policy '' @ to_str (js_or (g ''policy'') (Str dash)) @ [32] @ middot @ js '' probed '' @ time_ago ck now (g ''probed_at'')
          @ (if truthy (g ''duration'') then [32] @ middot @ [32] @ ns_text (g ''duration'') else []))
       (small_badge (if deny then ''info'' else ''muted'') (if deny then ''Internet expected blocked'' else ''Internet expected allowed''))
       [tag ''div'' [probe_observation ''Canary'' (g ''canary''), probe_observation ''Metadata'' (g ''metadata'')],
        tag ''div'' [tag ''span'' [label ''Agent identity '', tag ''span''
            [if nullish (g ''agent_uid'') then label ''unknown'' else child (g ''agent_uid''),
             Text (if truthy (g ''agent_user'') then js '' ('' @ to_str (g ''agent_user'') @ js '')'' else [])]],
          shown_if (truthy (g ''probed_at'')) (titled (g ''probed_at'') [label ''Probed '', Text (time_ago ck now (g ''probed_at''))]),
          shown_if (truthy (g ''duration'')) (tag ''span'' [label ''Duration '', ns_child (g ''duration'')])],
        if as_list (g ''violations'') \<noteq> [] then tag ''ul'' (texts (g ''violations''))
        else tag ''p'' [label ''No egress invariant violations recorded.''],
        shown_if (as_list (g ''notes'') \<noteq> []) (tag ''ul'' (texts (g ''notes''))),
        shown_if (truthy (g ''raw'')) (tag ''details'' [tag ''summary'' [label ''Show raw probe output''], tag ''pre'' [child (g ''raw'')]])])"

definition severity_badge :: "jsval \<Rightarrow> view" where
  "severity_badge v = toned (severity_tone v) ''xs'' [Text (title_case v)]"

definition finding_row :: "jsval \<Rightarrow> view" where
  "finding_row f = tag ''li'' [tag ''div'' [severity_badge (opt_get f ''severity''), tag ''span'' [child (opt_get f ''rule_id'')],
       tag ''span'' [child (opt_get f ''category'')], tag ''span'' [child (opt_get f ''stream''), label '':'', child (opt_get f ''line'')]],
     shown_if (truthy (opt_get f ''excerpt'')) (Node ''p'' [(''title'', opt_get f ''excerpt'')] [child (opt_get f ''excerpt'')])]"

text \<open>The pair of tone and label of the behavior scan.\<close>

definition behavior_status :: "jsval \<Rightarrow> string \<times> string" where
  "behavior_status b = (if truthy (opt_get b ''tripped'') then (''danger'', ''Tripped'')
     else if as_list (opt_get b ''findings'') \<noteq> [] then (''warning'', ''Findings'') else (''success'', ''Clean''))"

definition behavior_part :: "jsval \<Rightarrow> view" where
  "behavior_part sec = (let b = opt_get sec ''behavior''; e = opt_get sec ''behavior_error''; fs = as_list (opt_get b ''findings'');
       m = behavior_status b in
     if \<not> truthy b \<and> \<not> truthy e then Blank
     else security_part ''Behavior scan'' (js ''Deterministic rules over the agent output streams.'')
       (if truthy b then dotted (js (fst m)) ''xs'' Undef [label (snd m)] else small_badge ''warning'' ''Scan error'')
       [shown_if (truthy e) (tag ''p'' [child e]),
        shown_if (truthy b) (tag ''div'' [tag ''span'' [label ''Ruleset '', tag ''span'' [or_dash (opt_get b ''ruleset_version'')]],
          tag ''span'' [label ''Scanned lines '', tag ''span'' [Text (format_number False dash (js_or (opt_get b ''scanned_lines'') (int_val 0)))]],
          shown_if (truthy (opt_get b ''max_severity'')) (tag ''span'' [label ''Max severity '', severity_badge (opt_get b ''max_severity'')])]),
        if fs \<noteq> [] then tag ''ul'' (map finding_row fs)
        else shown_if (truthy b) (tag ''p'' [label (if truthy (opt_get b ''tripped'')
          then ''The behavior scan tripped but recorded no finding rows.'' else ''No behavior findings recorded.'')])])"

definition gate_verdict :: "jsval \<Rightarrow> string \<times> string" where
  "gate_verdict g = (if \<not> truthy (opt_get g ''checked'') then (''muted'', ''Not checked'')
     else if as_list (opt_get g ''modified'') \<noteq> [] then (''danger'', ''Modified'') else (''success'', ''Unmodified''))"

definition gate_part :: "jsval \<Rightarrow> view" where
  "gate_part g = (let m = gate_verdict g; allowed = truthy (opt_get g ''allowed'') in
     if \<not> truthy g then Blank
     else security_part ''Gate integrity'' (js ''Whether the agent'' @ [39] @ js ''s patch touched the deterministic gates that judge it.'')
       (dotted (js (fst m)) ''xs'' Undef [label (snd m)])
       [tag ''div'' [tag ''span'' [label ''Method '', tag ''span'' [or_dash (opt_get g ''method'')]],
          tag ''span'' [label ''Self-modification '', tag ''span'' [label (if allowed then ''allowed'' else ''denied'')]]],
        shown_if (as_list (opt_get g ''gate_paths'') \<noteq> []) (tag ''div'' (map (\<lambda>p. tag ''span'' [child p]) (as_list (opt_get g ''gate_paths'')))),
        if as_list (opt_get g ''modified'') \<noteq> [] then tag ''p'' [label ''Modified: '', tag ''span'' [Text (joined (opt_get g ''modified''))]]
        else tag ''p'' [label ''No configured gate paths were modified.'']])"

definition alert_row :: "clock \<Rightarrow> jnum \<Rightarrow> jsval \<Rightarrow> view" where
  "alert_row ck now a = (let delivered = truthy (opt_get a ''delivered'') in tag ''li''
     [tag ''div'' [severity_badge (opt_get a ''severity''), tag ''span'' [child (opt_get a ''kind'')],
        dotted (js (if delivered then ''success'' else ''danger'')) ''xs'' Undef [label (if delivered then ''Delivered'' else ''Not delivered'')],
        titled (opt_get a ''at'') [Text (time_ago ck now (opt_get a ''at''))]],
      shown_if (truthy (opt_get a ''summary'')) (tag ''p'' [child (opt_get a ''summary'')]),
      shown_if (truthy (opt_get a ''error'')) (tag ''p'' [child (opt_get a ''error'')])])"

definition alerts_part :: "clock \<Rightarrow> jnum \<Rightarrow> jsval list \<Rightarrow> view" where
  "alerts_part ck now as = (let n = length as in
     if as = [] then Blank
     else security_part ''Security alerts'' (js ''Delivery is best effort; the record keeps undelivered alerts visible.'')
       (toned (js (if list_all (\<lambda>a. truthy (opt_get a ''delivered'')) as then ''success'' else ''warning'')) ''xs''
          [Text (dec_nat n), label '' alert'', label (if n = 1 then [] else ''s'')])
       [tag ''ul'' (map (alert_row ck now) as)])"

definition security_card :: "clock \<Rightarrow> jnum \<Rightarrow> jsval \<Rightarrow> jsval \<Rightarrow> view" where
  "security_card ck now run sec =
     (let h = opt_get run ''hardening''; m = security_meta h (opt_get run ''factory_result''); g = opt_get sec; as = as_list (g ''alerts'') in
      tag ''Card'' [Node ''CardHeader'' [(''title'', lit ''Security''), (''icon'', lit (shield (m_tone m))),
          (''description'', lit ''Hardening evidence recorded for this run: egress probe, behavior scan, gate integrity and alerts.'')]
          [slot ''actions'' [dotted (m_tone m) ''xs'' (m_detail m) [Text (m_label m)]]],
        tag ''CardBody'' (if \<not> truthy sec
          then [compact_empty ''Hardening not measured'' (lit ''No hardening evidence is recorded for this run. This is not a clean result; it means the security controls did not report.'') []]
          else [hardening_block h, probe_part ck now (g ''egress_probe''), behavior_part sec, gate_part (g ''gate_integrity''), alerts_part ck now as,
            shown_if (\<not> truthy (g ''egress_probe'') \<and> \<not> truthy (g ''behavior'') \<and> \<not> truthy (g ''gate_integrity'') \<and> as = [])
              (compact_empty ''No hardening sections recorded'' (lit ''The hardening evidence block exists but contains no egress, behavior, gate or alert records.'') [])])])"

section \<open>The evidence browser\<close>

definition KINDS :: "jstr list" where "KINDS = map js [''text'', ''json'', ''log'', ''patch'', ''other'']"

definition present_kinds :: "jsval list \<Rightarrow> jstr list" where
  "present_kinds arts = filter (\<lambda>k. Str k \<in> set (map (\<lambda>a. opt_get a ''kind'') arts)) KINDS"

definition evidence_filter :: "jstr \<Rightarrow> jstr \<Rightarrow> jsval list \<Rightarrow> jsval list" where
  "evidence_filter search_text kind arts = (let needle = to_lower (trim search_text) in
     filter (\<lambda>a. (needle = [] \<or> contains (to_lower (to_str (js_or (opt_get a ''path'') (Str [])))) needle)
       \<and> (kind = [] \<or> opt_get a ''kind'' = Str kind)) arts)"

definition previewable :: "jsval \<Rightarrow> bool" where "previewable a \<longleftrightarrow> truthy (opt_get a ''previewable'')"

definition kind_options :: "jsval list \<Rightarrow> choice list" where
  "kind_options arts = \<lparr>c_value = Str [], c_label = lit ''All kinds''\<rparr>
     # map (\<lambda>k. \<lparr>c_value = Str k, c_label = Str (artifact_kind_label (Str k))\<rparr>) (present_kinds arts)"

definition artifact_row :: "jsval \<Rightarrow> view" where
  "artifact_row a = tag ''TR''
     [tag ''TD'' [Node ''button'' [(''type'', lit ''button''), (''disabled'', JBool (\<not> previewable a)), (''title'', opt_get a ''path'')] [child (opt_get a ''path'')],
        shown_if (truthy (opt_get a ''error'')) (titled (opt_get a ''error'') [child (opt_get a ''error'')])],
      tag ''TD'' [toned (artifact_kind_variant (opt_get a ''kind'')) ''xs'' [Text (artifact_kind_label (opt_get a ''kind''))]],
      Node ''TD'' [(''numeric'', JBool True)] [Text (format_bytes dash (opt_get a ''bytes''))],
      Node ''TD'' [(''align'', lit ''right'')] [if previewable a then button [] ''Preview''
        else Node ''Badge'' [(''variant'', lit ''muted''), (''size'', lit ''xs''),
          (''title'', lit ''Binary content or a path outside the console preview allowlist.'')] [label ''Not previewable'']]]"

definition heads :: "string list \<Rightarrow> view" where
  "heads ls = tag ''THead'' [tag ''TR'' (map (\<lambda>l. tag ''TH'' [label l]) ls)]"

definition evidence_browser_card :: "jsval list \<Rightarrow> jstr \<Rightarrow> jstr \<Rightarrow> view" where
  "evidence_browser_card arts search_text kind =
     (let n = length arts; kept = evidence_filter search_text kind arts in tag ''Card''
     [Node ''CardHeader'' [(''title'', lit ''Evidence browser''),
        (''description'', lit ''Bounded evidence files collected from the run directory. Previewable files are read through the console artifact endpoint.'')]
        [slot ''actions'' [toned (js ''muted'') ''xs'' [Text (count_text n), label '' file'', label (if n = 1 then [] else ''s''), Text ([32] @ middot @ [32]),
           Text (count_text (length (filter previewable arts))), label '' previewable'']]],
      tag ''CardBody''
       [tag ''div'' [Node ''SearchInput'' [(''value'', Str search_text), (''placeholder'', Str (js ''Filter evidence paths'' @ ellipsis)),
            (''aria-label'', lit ''Filter evidence paths'')] [],
          Node ''Select'' [(''ariaLabel'', lit ''Filter evidence by kind''), (''value'', Str kind), (''options'', Arr (map choice_val (kind_options arts)))] [],
          tag ''span'' [Text (count_text (length kept)), label '' of '', Text (count_text n)]],
        tag ''Table'' [heads [''Evidence'', ''Kind'', ''Size'', ''Preview''], tag ''tbody'' (if kept = []
          then [Node ''TableEmpty'' [(''colSpan'', int_val 4), (''title'', lit (if arts = [] then ''No evidence files'' else ''No evidence matches this filter'')),
            (''description'', lit (if arts = [] then ''No artifacts were collected in this run directory.''
              else ''Clear the path or kind filter to see the rest of the evidence.''))] []]
          else map artifact_row kept)]],
      tag ''CardFooter'' [tag ''span'' [label ''Only allowlisted text evidence is previewable; reads are bounded by the console. Empty or binary files are reported rather than rendered.'']]])"

section \<open>Fetching one document\<close>

text \<open>
  The patch of the page and the content of the preview dialog are fetched by an effect that aborts
  the request of the previous run. \<open>fe_current\<close> is the request of the last run whose \<open>cancelled\<close> is not
  set, requests are numbered by \<open>fe_next\<close>.
\<close>

record 'a fetch =
  fe_data :: "'a option"
  fe_loading :: bool
  fe_error :: "request_error option"
  fe_current :: "nat option"
  fe_next :: nat

definition no_fetch :: "bool \<Rightarrow> 'a fetch" where
  "no_fetch loading = \<lparr>fe_data = None, fe_loading = loading, fe_error = None, fe_current = None, fe_next = 0\<rparr>"

definition begin_fetch :: "'a fetch \<Rightarrow> 'a fetch" where
  "begin_fetch f = f\<lparr>fe_data := None, fe_loading := True, fe_error := None, fe_current := Some (fe_next f), fe_next := fe_next f + 1\<rparr>"

definition settle_fetch :: "nat \<Rightarrow> request_error + 'a \<Rightarrow> 'a fetch \<Rightarrow> 'a fetch" where
  "settle_fetch i r f = (if fe_current f \<noteq> Some i then f
     else case r of Inr v \<Rightarrow> f\<lparr>fe_data := Some v, fe_loading := False, fe_error := None\<rparr>
       | Inl e \<Rightarrow> if e = Aborted then f else f\<lparr>fe_data := None, fe_loading := False, fe_error := Some e\<rparr>)"

text \<open>The effect of the page runs whenever the run, the availability of its patch, the refresh of the
  workspace or the retry counter changes; the dialog's when it opens, changes its file or retries.\<close>

definition patch_effect :: "bool \<Rightarrow> 'a fetch \<Rightarrow> 'a fetch" where
  "patch_effect wanted f = (if wanted then begin_fetch f
     else f\<lparr>fe_data := None, fe_loading := False, fe_error := None, fe_current := None\<rparr>)"

definition preview_effect :: "bool \<Rightarrow> 'a fetch \<Rightarrow> 'a fetch" where
  "preview_effect is_open f = (if is_open then begin_fetch f else f\<lparr>fe_current := None\<rparr>)"

datatype 'a fetch_event = Patch_effect bool | Preview_effect bool | Settled nat "request_error + 'a" | Unmounted

fun fetch_step :: "'a fetch \<Rightarrow> 'a fetch_event \<Rightarrow> 'a fetch" where
  "fetch_step f (Patch_effect wanted) = patch_effect wanted f"
| "fetch_step f (Preview_effect is_open) = preview_effect is_open f"
| "fetch_step f (Settled i r) = settle_fetch i r f"
| "fetch_step f Unmounted = f\<lparr>fe_current := None\<rparr>"

section \<open>The dialog\<close>

text \<open>Where the keyboard focus is: on the panel, on one of its \<open>n\<close> focusable elements or elsewhere.\<close>

datatype focus = On_panel | On_item nat | Elsewhere

text \<open>Where \<open>Tab\<close> is sent; \<open>None\<close> leaves the key to the browser.\<close>

definition trap_tab :: "nat \<Rightarrow> bool \<Rightarrow> focus \<Rightarrow> focus option" where
  "trap_tab n shift f =
     (if n = 0 then None
      else if f = On_panel then Some (On_item (if shift then n - 1 else 0))
      else if shift \<and> f = On_item 0 then Some (On_item (n - 1))
      else if \<not> shift \<and> f = On_item (n - 1) then Some (On_item 0) else None)"

definition modal_view :: "bool \<Rightarrow> view \<Rightarrow> jstr \<Rightarrow> view \<Rightarrow> view \<Rightarrow> view list \<Rightarrow> view" where
  "modal_view is_open title description actions footer vs = shown_if is_open (tag ''div'' [tag ''div'' [],
     Node ''div'' [(''role'', lit ''dialog''), (''aria-modal'', lit ''true''), (''tabIndex'', int_val (- 1))]
      [tag ''div'' [tag ''div'' [tag ''div'' [tag ''h2'' [title]],
           shown_if (description \<noteq> []) (Node ''p'' [(''title'', Str description)] [Text description])],
         shown_if (actions \<noteq> Blank) (tag ''div'' [actions]),
         Node ''button'' [(''type'', lit ''button''), (''aria-label'', lit ''Close dialog'')] []],
       tag ''div'' vs, tag ''div'' [footer]]])"

definition preview_content :: "jsval fetch \<Rightarrow> view" where
  "preview_content f = (let d = (case fe_data f of Some v \<Rightarrow> v | None \<Rightarrow> Null); g = opt_get d in
     if fe_loading f then tag ''div'' [Node ''Spinner'' [(''size'', lit ''sm'')] [], Text (js ''Loading evidence'' @ ellipsis)]
     else case fe_error f of
       Some e \<Rightarrow> Node ''EmptyState'' [(''title'', lit ''Evidence could not be previewed''),
         (''description'', error_text e ''The evidence file could not be read.'')] []
     | None \<Rightarrow> tag ''div''
        [tag ''div'' [titled (g ''path'') [child (g ''path'')], toned (artifact_kind_variant (g ''kind'')) ''xs'' [Text (artifact_kind_label (g ''kind''))],
           tag ''span'' [Text (format_bytes dash (g ''bytes''))], shown_if (truthy (g ''truncated'')) (small_badge ''warning'' ''Truncated preview'')],
         if truthy (g ''content'') then tag ''pre'' [child (g ''content'')] else tag ''div'' [label ''This evidence file is empty.'']])"

text \<open>The dialog for the file \<open>path\<close> of a run; an empty path keeps it closed.\<close>

definition artifact_preview_modal :: "jstr \<Rightarrow> jstr \<Rightarrow> jstr \<Rightarrow> jsval fetch \<Rightarrow> view" where
  "artifact_preview_modal run_id path lab f =
     (let content = opt_get (case fe_data f of Some v \<Rightarrow> v | None \<Rightarrow> Null) ''content'' in
      modal_view (run_id \<noteq> [] \<and> path \<noteq> []) (tag ''span'' [Text (if path = [] then js ''Evidence'' else path)])
        (if lab \<noteq> [] \<and> lab \<noteq> path then lab @ [32] @ middot @ [32] @ run_id else js ''Run '' @ run_id)
        (shown_if (truthy content) (copy_of content ''evidence content'' ''sm''))
        (tag ''div'' [tag ''span'' [label ''Evidence previews are bounded and read-only.''],
          tag ''div'' [shown_if (fe_error f \<noteq> None) (button [] ''Retry''), button [] ''Close'']])
        [preview_content f])"

section \<open>Audit trail, commands and related records\<close>

definition ACTION_VARIANTS :: "jstr table" where
  "ACTION_VARIANTS = table [(''attach'', ''info''), (''preview'', ''info''), (''suspend'', ''muted''), (''resume'', ''muted''),
     (''review-decision'', ''security'')]"

definition OUTCOME_VARIANTS :: "jstr table" where
  "OUTCOME_VARIANTS = table [(''SUCCESS'', ''success''), (''FAILED'', ''danger''), (''SKIPPED'', ''muted''), (''ATTEMPTED'', ''info'')]"

definition variant_of :: "jstr table \<Rightarrow> jsval \<Rightarrow> jstr" where
  "variant_of t v = (case table_get t v of Some x \<Rightarrow> x | None \<Rightarrow> js ''outline'')"

definition audit_row :: "clock \<Rightarrow> jnum \<Rightarrow> jsval \<Rightarrow> view" where
  "audit_row ck now e = (let g = opt_get e; detail = describe_audit_detail (g ''detail'') in tag ''TR''
     [Node ''TD'' [(''title'', if truthy (g ''at'') then Str (format_date_time ck dash (g ''at'')) else Undef)] [Text (time_ago ck now (g ''at''))],
      tag ''TD'' [toned (variant_of ACTION_VARIANTS (g ''action'')) ''xs'' [child (js_or (g ''action'') (lit ''unknown''))]],
      tag ''TD'' [or_dash (g ''actor'')],
      tag ''TD'' [dotted (variant_of OUTCOME_VARIANTS (Str (to_upper (to_str (js_or (g ''outcome'') (Str [])))))) ''xs'' Undef
        [Text (title_case (js_or (g ''outcome'') (lit ''unknown'')))]],
      tag ''TD'' [if detail \<noteq> [] then titled (Str detail) [Text detail] else tag ''span'' [Text dash],
        shown_if (truthy (g ''error'')) (titled (g ''error'') [child (g ''error'')])]])"

definition audit_card :: "clock \<Rightarrow> jnum \<Rightarrow> jsval list \<Rightarrow> view" where
  "audit_card ck now es = (let n = length es in tag ''Card''
     [Node ''CardHeader'' [(''title'', lit ''Audit trail''),
        (''description'', lit ''Privileged operator actions recorded for this run. Command output is not stored in the audit trail.'')]
        [slot ''actions'' [toned (js ''muted'') ''xs'' [Text (dec_nat n), label '' action'', label (if n = 1 then [] else ''s'')]]],
      tag ''CardBody'' [tag ''Table'' [heads [''When'', ''Action'', ''Actor'', ''Outcome'', ''Detail''], tag ''tbody'' (if es = []
        then [Node ''TableEmpty'' [(''colSpan'', int_val 5), (''title'', lit ''No audit actions recorded''),
          (''description'', lit ''No attach, preview, suspend, resume or review decisions were recorded for this run.'')] []]
        else map (audit_row ck now) es)]]])"

text \<open>Key, label, purpose and whether the command answers a review.\<close>

definition COMMANDS :: "(string \<times> string \<times> string \<times> bool) list" where
  "COMMANDS =
    [(''approve_command'', ''Approve review'', ''Record a positive human review decision for this run.'', True),
     (''reject_command'', ''Reject review'', ''Record a rejection with a required note.'', True),
     (''cancel_command'', ''Cancel run'', ''Request cancellation of an in-flight workflow.'', False),
     (''describe_command'', ''Describe run'', ''Read the authoritative run description from the CLI.'', False),
     (''logs_command'', ''Stream logs'', ''Follow the workflow log stream for this run.'', False)]"

definition offered_commands :: "jsval \<Rightarrow> (string \<times> string \<times> string \<times> bool) list" where
  "offered_commands actions = filter (\<lambda>(k, _). truthy (opt_get actions k)) COMMANDS"

definition command_item :: "bool \<Rightarrow> jsval \<Rightarrow> string \<times> string \<times> string \<times> bool \<Rightarrow> view" where
  "command_item pending actions c = (case c of (k, l, purpose, review) \<Rightarrow> tag ''li'' [tag ''div''
     [tag ''div'' [tag ''div'' [tag ''span'' [label l],
          shown_if (pending \<and> review) (dotted (js ''warning'') ''xs'' Undef [label ''Pending decision''])],
        tag ''p'' [child (opt_get actions k)], tag ''p'' [label purpose]],
      copy_of (opt_get actions k) l ''xs'']])"

definition operator_commands_card :: "jsval \<Rightarrow> view" where
  "operator_commands_card d = (let run = opt_get d ''run''; actions = opt_get d ''actions''; cs = offered_commands actions in
     if cs = [] then Blank
     else Node ''Card'' [(''id'', lit ''operator-commands'')]
      [Node ''CardHeader'' [(''title'', lit ''Operator commands''),
         (''description'', lit ''Copy and run these in the authenticated factory CLI. The console never executes actions.'')]
         [slot ''actions'' [review_indicator run ''sm'']],
       tag ''CardBody'' [tag ''ul'' (map (command_item (is_review_pending run) actions) cs)],
       tag ''CardFooter'' [tag ''span'' [label ''Read-only console: review and cancel decisions remain CLI actions in this round.''],
         shown_if (truthy (opt_get run ''review_note'')) (tag ''span'' [label ''Reviewer note: '', child (opt_get run ''review_note'')]),
         shown_if (truthy (opt_get run ''review_error'')) (tag ''span'' [label ''Review error: '', child (opt_get run ''review_error'')])]])"

definition spend_line :: "string \<Rightarrow> jsval \<Rightarrow> (jsval \<Rightarrow> jstr) \<Rightarrow> view" where
  "spend_line l v f = tag ''div'' [tag ''dt'' [label l], tag ''dd'' [Text (if positive (to_num v) then f v else not_reported)]]"

definition related_change_card :: "clock \<Rightarrow> jnum \<Rightarrow> jsval \<Rightarrow> jsval \<Rightarrow> view" where
  "related_change_card ck now change run =
     (let i = js_or (opt_get change ''change_id'') (opt_get run ''change_id''); g = opt_get change in
      if \<not> truthy i then Blank
      else tag ''Card'' [Node ''CardHeader'' [(''title'', lit ''Related change''), (''description'', lit ''The durable work item this run is an activation of.'')]
          [slot ''actions'' [shown_if (truthy (g ''status'')) (pill ''change'' ''xs'' (g ''status''))]],
        tag ''CardBody'' [link_to (change_href i) [(''title'', i)] [child i],
          if truthy change then tag ''dl''
           [tag ''div'' [tag ''dt'' [label ''Attempts''], tag ''dd'' [Text (format_number False dash (g ''attempts''))]],
            tag ''div'' [tag ''dt'' [label ''Updated''], Node ''dd'' [(''title'', g ''updated_at'')] [Text (time_ago ck now (g ''updated_at''))]],
            spend_line ''Tokens'' (g ''total_tokens'') (format_number False dash),
            spend_line ''Cost'' (g ''total_cost_usd'') (format_usd dash 2)]
          else tag ''p'' [label ''The change summary is not present in this response; the link resolves through the change detail screen.'']]])"

definition previews_card :: "jsval \<Rightarrow> view" where
  "previews_card v = (let ps = as_list v in
     if ps = [] then Blank
     else tag ''Card'' [Node ''CardHeader'' [(''title'', lit ''Review previews''),
         (''description'', lit ''Ingress URLs published for human review from the run sandbox.'')]
         [slot ''actions'' [toned (js ''muted'') ''xs'' [Text (dec_nat (length ps))]]],
       tag ''CardBody'' (map (\<lambda>p. Node ''a'' [(''href'', opt_get p ''url''), (''target'', lit ''_blank''), (''rel'', lit ''noreferrer noopener'')]
           [toned (js ''info'') ''xs'' [label '':'', child (opt_get p ''port'')], titled (opt_get p ''url'') [child (opt_get p ''url'')]]) ps
         @ [tag ''p'' [label ''Previews are a deliberate exposure of the sandbox; availability after the run is not guaranteed.'']])])"

section \<open>Tables of runs\<close>

definition run_row :: "clock \<Rightarrow> jnum \<Rightarrow> jsval \<Rightarrow> view" where
  "run_row ck now run = (let g = opt_get run; h = run_href (g ''run_id'') in tag ''TR''
     [tag ''TD'' [link_to h [(''title'', g ''run_id'')] [child (g ''run_id'')],
        tag ''div'' [titled (g ''repository'') [Text (repo_label (g ''repository''))],
          shown_if (truthy (g ''repository_kind'')) (tag ''span'' [Text (middot @ [32]), child (g ''repository_kind'')]),
          shown_if (truthy (g ''change_id'')) (link_to (change_href (g ''change_id''))
            [(''title'', Str (js ''Change '' @ to_str (g ''change_id'')))] [label ''change''])]],
      tag ''TD'' [Node ''StatusPill'' [(''kind'', lit ''run''), (''state'', g ''factory_result'')] [],
        shown_if (truthy (g ''error'')) (Node ''p'' [(''title'', g ''error'')] [child (g ''error'')])],
      tag ''TD'' [titled (or_undef (g ''agent_harness'')) [or_dash (g ''agent_harness'')],
        shown_if (truthy (g ''agent_version'')) (titled (g ''agent_version'') [child (g ''agent_version'')])],
      tag ''TD'' [result_split run],
      Node ''TD'' [(''numeric'', JBool True)] [Text (format_duration dash (g ''duration_ms''))],
      tag ''TD'' [titled (or_undef (g ''started_at'')) [Text (time_ago ck now (g ''started_at''))],
        tag ''span'' [Text (format_date ck dash (g ''started_at''))]],
      tag ''TD'' [cleanup_indicator (g ''cleanup_result'')],
      tag ''TD'' [security_indicator (g ''hardening'') (g ''factory_result'')],
      tag ''TD'' [review_indicator run ''xs''],
      tag ''TD'' [link_to h [(''aria-label'', Str (js ''Open run '' @ to_str (g ''run_id'')))] []]])"

text \<open>A click on the row follows the link unless it is on a control of its own.\<close>

definition row_click :: "bool \<Rightarrow> jsval \<Rightarrow> jstr \<Rightarrow> jstr option" where
  "row_click on_control run h = (if on_control then Some h
     else map_option (\<lambda>u. if h \<noteq> u then u else h) (run_href (opt_get run ''run_id'')))"

definition runs_table :: "clock \<Rightarrow> jnum \<Rightarrow> jsval list \<Rightarrow> view \<Rightarrow> view" where
  "runs_table ck now runs none = tag ''Table''
     [tag ''THead'' [tag ''TR'' (map (\<lambda>l. tag ''TH'' [label l])
        [''Run'', ''Status'', ''Harness'', ''Agent / verification'', ''Duration'', ''Started'', ''Cleanup'', ''Security'', ''Review'']
        @ [tag ''TH'' [tag ''span'' [label ''Open'']]])],
      tag ''tbody'' (if runs \<noteq> [] then map (run_row ck now) runs else [none])]"

definition related_runs_table :: "clock \<Rightarrow> jnum \<Rightarrow> jsval list \<Rightarrow> view" where
  "related_runs_table ck now runs = tag ''Table'' [heads [''Run'', ''Result'', ''Duration'', ''Started''],
     tag ''tbody'' (map (\<lambda>run. let g = opt_get run in tag ''TR''
       [tag ''TD'' [link_to (run_href (g ''run_id'')) [(''title'', g ''run_id'')] [child (g ''run_id'')],
          titled (g ''repository'') [Text (repo_label (g ''repository''))]],
        tag ''TD'' [pill ''run'' ''xs'' (g ''factory_result'')],
        Node ''TD'' [(''numeric'', JBool True)] [Text (format_duration dash (g ''duration_ms''))],
        Node ''TD'' [(''title'', if truthy (g ''started_at'') then Str (format_date_time ck dash (g ''started_at'')) else Undef)]
          [Text (time_ago ck now (g ''started_at''))]]) runs)]"

definition related_runs_card :: "clock \<Rightarrow> jnum \<Rightarrow> jsval list \<Rightarrow> view" where
  "related_runs_card ck now runs = tag ''Card''
     [Node ''CardHeader'' [(''title'', lit ''Related runs''), (''description'', lit ''Other activations in the same change lineage.'')]
        [slot ''actions'' [toned (js ''muted'') ''xs'' [Text (dec_nat (length runs))]]],
      tag ''CardBody'' [if runs \<noteq> [] then related_runs_table ck now runs
        else compact_empty ''No related runs'' (lit ''This run is not part of a multi-attempt change lineage.'') []]]"

text \<open>The toolbar over the values its page hands to it.\<close>

definition toolbar_select :: "string \<Rightarrow> jsval \<Rightarrow> choice list \<Rightarrow> view" where
  "toolbar_select l v cs = Node ''Select'' [(''ariaLabel'', lit l), (''value'', v), (''options'', Arr (map choice_val cs))] []"

definition sort_choices :: "choice list" where
  "sort_choices = map (\<lambda>(v, l). \<lparr>c_value = Str v, c_label = Str l\<rparr>) SORT_OPTIONS"

definition runs_toolbar :: "jnum \<Rightarrow> jstr \<Rightarrow> run_query \<Rightarrow> state_choice list \<Rightarrow> choice list \<Rightarrow> choice list \<Rightarrow> choice list \<Rightarrow> nat \<Rightarrow> view" where
  "runs_toolbar total_runs search_text q states harnesses repositories scopes active = tag ''TableToolbar''
     [slot ''actions'' [Node ''span'' [(''aria-live'', lit ''polite'')]
        [Text (num_text total_runs), label '' run'', Text (plural total_runs ''s'')]],
      Node ''SearchInput'' [(''value'', Str search_text), (''placeholder'', Str (js ''Search run, repository, SHA'' @ ellipsis)),
        (''aria-label'', lit ''Search runs'')] [],
      Node ''FacetMultiSelect'' [(''label'', lit ''State''), (''options'', Arr (map state_choice_val states)), (''values'', Arr (q_states q))] [],
      toolbar_select ''Filter by harness'' (q_harness q) harnesses, toolbar_select ''Filter by repository'' (q_repository q) repositories,
      toolbar_select ''Filter by scope'' (q_scope q) scopes, toolbar_select ''Sort runs'' (q_sort q) sort_choices,
      button [(''disabled'', JBool (active = 0))] ''Clear filters'']"

definition active_filter_chips :: "chip list \<Rightarrow> view" where
  "active_filter_chips cs = shown_if (cs \<noteq> []) (Node ''div'' [(''aria-label'', lit ''Active run filters'')]
     (tag ''span'' [label ''Filters'']
      # map (\<lambda>c. tag ''span'' [titled (js_or (chip_title c) (Str (chip_label c))) [Text (chip_label c)],
          Node ''button'' [(''type'', lit ''button''), (''aria-label'', Str (js ''Remove filter '' @ chip_label c))] []]) cs
      @ [Node ''button'' [(''type'', lit ''button'')] [label ''Clear all'']]))"

record stat_cell_data =
  sc_label :: string
  sc_value :: jstr
  sc_hint :: jstr
  sc_tone :: string

definition succeeded_count :: "jsval \<Rightarrow> jnum" where
  "succeeded_count data = to_num (js_or (case List.find (\<lambda>f. f_value f = lit ''SUCCEEDED'') (facets_of data ''states'') of
     Some f \<Rightarrow> f_count f | None \<Rightarrow> Undef) (int_val 0))"

definition not_succeeded :: "jsval \<Rightarrow> jnum" where
  "not_succeeded data = num_max (num_int 0) (num_sub (sum_facet_counts (facets_of data ''states'')) (succeeded_count data))"

definition success_hint :: "jsval \<Rightarrow> jstr" where
  "success_hint data = (let n = sum_facet_counts (facets_of data ''states'') in
     if positive n then format_percent 1 dash (Num (num_div (succeeded_count data) n)) @ js '' of window'' else js ''No runs recorded'')"

definition facet_size :: "jsval \<Rightarrow> string \<Rightarrow> jstr" where
  "facet_size data k = count_text (length (facets_of data k))"

definition runs_stats_cells :: "clock \<Rightarrow> jnum \<Rightarrow> jsval \<Rightarrow> jsval \<Rightarrow> bool \<Rightarrow> stat_cell_data list" where
  "runs_stats_cells ck now data w search_active =
     (let index = opt_get data ''index''; errs = num_or_0 (opt_get index ''scan_errors''); dot = [32] @ middot @ [32] in
      [\<lparr>sc_label = ''Runs in view'', sc_value = num_text (sum_facet_counts (facets_of data ''states'')),
         sc_hint = (if truthy w then window_label w else js ''Selected window'') @ dot
           @ js (if search_active then ''search applied'' else ''before facet filters''), sc_tone = []\<rparr>,
       \<lparr>sc_label = ''Succeeded'', sc_value = num_text (succeeded_count data), sc_hint = success_hint data, sc_tone = ''success''\<rparr>,
       \<lparr>sc_label = ''Not succeeded'', sc_value = num_text (not_succeeded data), sc_hint = js ''Failed, cancelled, or security-stopped'',
         sc_tone = (if positive (not_succeeded data) then ''warning'' else [])\<rparr>,
       \<lparr>sc_label = ''Repositories'', sc_value = facet_size data ''repositories'',
         sc_hint = facet_size data ''harnesses'' @ js '' harnesses, '' @ facet_size data ''scopes'' @ js '' scopes'', sc_tone = []\<rparr>,
       \<lparr>sc_label = ''Evidence index'', sc_value = (if truthy index then format_number False dash (opt_get index ''runs'') else dash),
         sc_hint = (if truthy index then js ''Refreshed '' @ time_ago ck now (opt_get index ''refreshed_at'')
             @ (if errs \<noteq> num_int 0 then dot @ num_text errs @ js '' scan errors'' else [])
           else js ''Index metadata unavailable''),
         sc_tone = (if positive errs then ''warning'' else [])\<rparr>])"

definition runs_stats :: "clock \<Rightarrow> jnum \<Rightarrow> jsval \<Rightarrow> bool \<Rightarrow> jsval \<Rightarrow> bool \<Rightarrow> view" where
  "runs_stats ck now data loading w search_active =
     (if loading \<and> \<not> truthy data then tag ''Card'' [tag ''div'' (replicate 5 (tag ''div'' (replicate 3 (tag ''Skeleton'' []))))]
      else tag ''Card'' [tag ''div'' (map (\<lambda>c. tag ''div'' [tag ''p'' [label (sc_label c)],
        Node ''p'' [(''tone'', lit (sc_tone c))] [Text (sc_value c)], Node ''p'' [(''title'', Str (sc_hint c))] [Text (sc_hint c)]])
        (runs_stats_cells ck now data w search_active))])"

section \<open>The page\<close>

text \<open>The live state shown in place of a manifest: only where the answer says there is none.\<close>

definition live_run :: "jsval \<Rightarrow> jsval" where
  "live_run data = (if truthy data \<and> opt_get data ''manifest'' = Null \<and> truthy (opt_get data ''live'') then opt_get data ''live'' else Null)"

definition patch_available :: "jsval \<Rightarrow> bool" where
  "patch_available data \<longleftrightarrow> truthy (opt_get (opt_get data ''patch'') ''available'')"

text \<open>The delay between polls; \<open>live\<close> is the state \<open>livePoll\<close>, which an effect sets from the answer.\<close>

definition detail_poll_ms :: "bool \<Rightarrow> bool \<Rightarrow> nat" where
  "detail_poll_ms auto live = (if auto then if live then 10000 else 60000 else 0)"

definition live_poll :: "jsval \<Rightarrow> bool" where "live_poll data \<longleftrightarrow> truthy (live_run data)"

text \<open>\<open>downloadPatch\<close>: what the browser is handed, and the toast; \<open>u\<close> numbers the object URL.\<close>

definition patch_download :: "nat \<Rightarrow> jstr \<Rightarrow> request_error + nat list \<Rightarrow> dom_act list \<times> jsval" where
  "patch_download u run_id r = (let name = run_id @ js ''.patch'' in case r of
     Inr bytes \<Rightarrow> (download_blob u name (Some bytes),
       Obj [(js ''tone'', lit ''success''), (js ''title'', lit ''Patch downloaded''), (js ''message'', Str name)])
   | Inl e \<Rightarrow> ([], Obj [(js ''tone'', lit ''danger''), (js ''title'', lit ''Patch download failed''),
       (js ''message'', error_text e ''The patch could not be read from the console API.'')]))"

definition detail_skeleton :: "jstr \<Rightarrow> view" where
  "detail_skeleton run_id = tag ''div''
     [Node ''PageHeader'' [(''backHref'', lit ''#/runs''), (''backLabel'', lit ''All runs''), (''eyebrow'', lit ''Run evidence''),
        (''description'', Str (js ''Loading the durable run manifest and evidence'' @ ellipsis))] [slot ''title'' [tag ''span'' [Text run_id]]],
      tag ''div'' (replicate 4 (tag ''Card'' [tag ''div'' (replicate 3 (tag ''Skeleton'' []))])),
      tag ''Card'' [tag ''div'' [Node ''SkeletonText'' [(''lines'', int_val 4)] []]],
      tag ''div'' [tag ''div'' (replicate 2 (tag ''Card'' [tag ''div'' [Node ''SkeletonText'' [(''lines'', int_val 6)] []]])),
        tag ''div'' [tag ''Card'' [tag ''div'' [Node ''SkeletonText'' [(''lines'', int_val 5)] []]]]]]"

definition detail_failed :: "request_error \<Rightarrow> view" where
  "detail_failed e = (let missing_run = (error_status e = Some 404) in tag ''div''
     [Node ''PageHeader'' [(''backHref'', lit ''#/runs''), (''backLabel'', lit ''All runs''), (''eyebrow'', lit ''Run evidence''),
        (''title'', lit (if missing_run then ''Run not found'' else ''Run evidence unavailable'')),
        (''description'', if missing_run then lit ''No durable evidence or live workflow matches this run ID.''
          else error_text e ''The run evidence could not be loaded.'')] [],
      tag ''Card'' [if missing_run then Node ''EmptyState'' [(''title'', lit ''Nothing recorded for this run ID''),
          (''description'', lit ''The run may have been pruned from the evidence store, the ID may be mistyped, or the link may point at another factory environment.'')]
          [slot ''action'' [Node ''Button'' [(''href'', lit ''#/runs'')] [label ''Back to runs'']]]
        else Node ''EmptyState'' [(''title'', lit ''Run evidence could not be loaded''),
          (''description'', error_text e ''The console server did not respond.'')]
          [slot ''action'' [tag ''div'' [Node ''Button'' [(''href'', lit ''#/runs'')] [label ''Back to runs''], button [] ''Try again'']]]]])"

definition detail_cards :: "clock \<Rightarrow> jnum \<Rightarrow> bool \<Rightarrow> jsval \<Rightarrow> jstr \<Rightarrow> jstr \<Rightarrow> view" where
  "detail_cards ck now expanded data search_text kind = (let g = opt_get data; live = truthy (live_run data) in tag ''div''
     [tag ''div'' [task_card ck now expanded (g ''task'') live, conditions_card ck now (as_list (g ''conditions'')) live,
        verification_card ck now (g ''verification'') live, security_card ck now (g ''run'') (g ''security''),
        evidence_browser_card (as_list (g ''artifacts'')) search_text kind, tag ''PatchCard'' [], audit_card ck now (as_list (g ''audit''))],
      tag ''div'' [operator_commands_card data, related_change_card ck now (g ''change'') (g ''run''),
        previews_card (g ''previews''), related_runs_card ck now (as_list (g ''related_runs''))]])"

definition run_detail_page ::
  "clock \<Rightarrow> jnum \<Rightarrow> jstr \<Rightarrow> jsval \<Rightarrow> request_error option \<Rightarrow> bool \<Rightarrow> jsval \<Rightarrow> bool \<Rightarrow> bool \<Rightarrow> jstr \<Rightarrow> jstr \<Rightarrow> jstr \<Rightarrow> jstr
    \<Rightarrow> jsval fetch \<Rightarrow> view" where
  "run_detail_page ck now run_id data err_opt loading updated_at downloading expanded search_text kind path lab preview =
     (case (truthy data, loading, err_opt) of
       (False, False, Some e) \<Rightarrow> detail_failed e
     | (False, _, _) \<Rightarrow> detail_skeleton run_id
     | (True, _, _) \<Rightarrow> (let g = opt_get data; live = live_run data in tag ''div''
        [run_detail_header ck now data (truthy live) (patch_available data) downloading updated_at,
         case err_opt of None \<Rightarrow> Blank | Some e \<Rightarrow> Node ''div'' [(''role'', lit ''status'')]
           [tag ''span'' [label ''The latest refresh failed: '', Text (error_message e)], button [] ''Retry''],
         if truthy live then live_run_banner ck now live (g ''run'') else shown_if (\<not> truthy (g ''manifest'')) no_manifest_notice,
         run_notices (g ''warnings'') (g ''budget_exceeded''), run_summary_cards ck (g ''run'') (g ''verification''),
         run_metadata_card ck now data, detail_cards ck now expanded data search_text kind,
         artifact_preview_modal run_id path lab preview]))"

end
