(* ===== verification/Console_Run_Facts.thy ===== *)
theory Console_Run_Facts imports Console_Run_Evidence Console_Runs_Facts "HOL-Library.Sublist" begin

text \<open>
  What the run viewer promises: the patch and the evidence file on screen answer the current
  request, the preview dialog keeps the keyboard focus, and a green badge stands for evidence.
\<close>

section \<open>The document on screen\<close>

text \<open>Whether an event starts a request, and the states a fetch can reach.\<close>

fun begins :: "'a fetch_event \<Rightarrow> bool" where
  "begins (Patch_effect wanted) = wanted"
| "begins (Preview_effect is_open) = is_open"
| "begins (Settled i r) = False"
| "begins Unmounted = False"

definition fetched_by :: "bool \<Rightarrow> 'a fetch_event list \<Rightarrow> 'a fetch" where
  "fetched_by l evs = foldl fetch_step (no_fetch l) evs"

definition begun :: "'a fetch_event list \<Rightarrow> nat" where "begun evs = length (filter begins evs)"

lemmas fetch_defs = patch_effect_def preview_effect_def begin_fetch_def settle_fetch_def

lemma fetched_snoc: "fetched_by l [] = no_fetch l" "fetched_by l (evs @ [e]) = fetch_step (fetched_by l evs) e"
  by (simp_all add: fetched_by_def)

lemma begun_snoc: "begun [] = 0" "begun (evs @ [e]) = (if begins e then Suc (begun evs) else begun evs)"
  by (simp_all add: begun_def)

lemmas fetch_snoc = fetched_snoc begun_snoc

lemma requests_numbered:
  "fe_next (fetched_by l evs) = begun evs \<and> (\<forall>i. fe_current (fetched_by l evs) = Some i \<longrightarrow> Suc i = begun evs)"
proof (induction evs rule: rev_induct)
  case Nil
  show ?case by (simp add: fetch_snoc no_fetch_def)
next
  case (snoc e evs)
  then show ?case by (cases e) (auto simp: fetch_snoc fetch_defs split: sum.splits)
qed

text \<open>A state of a fetch shows a document, an error, or that it waits: never two of them.\<close>

definition one_face :: "'a fetch \<Rightarrow> bool" where
  "one_face f \<longleftrightarrow> (fe_data f = None \<or> fe_error f = None) \<and> (fe_loading f \<longrightarrow> fe_data f = None \<and> fe_error f = None)"

lemma one_face_step: "one_face f \<Longrightarrow> one_face (fetch_step f e)"
  by (cases e) (auto simp: one_face_def fetch_defs split: sum.splits)

lemma one_face_run: "one_face (fetched_by l evs)"
  by (induction evs rule: rev_induct) (simp_all add: fetch_snoc one_face_step, simp add: one_face_def no_fetch_def)

lemma data_step:
  "fe_data (fetch_step f e) = Some v \<Longrightarrow>
     (\<exists>i. e = Settled i (Inr v) \<and> fe_current f = Some i) \<or> fe_data f = Some v \<and> \<not> begins e"
  by (cases e) (auto simp: fetch_defs split: sum.splits if_splits)

text \<open>C33: The patch and the previewed file of the run page answer the request they belong to. However
  effects, answers and unmounting interleave, a document on screen is the successful answer to the
  request the last effect had begun, and none was begun since: the answer to an earlier run, file
  or retry is never shown. No state shows a document together with an error, or either while it waits.\<close>

theorem shown_document_is_current:
  "one_face (fetched_by l evs) \<and>
   (\<forall>v. fe_data (fetched_by l evs) = Some v \<longrightarrow>
     (\<exists>pre i post. evs = pre @ Settled i (Inr v) # post \<and> begun pre = Suc i \<and> list_all (\<lambda>e. \<not> begins e) post))"
proof -
  have "\<exists>pre i post. evs = pre @ Settled i (Inr v) # post \<and> begun pre = Suc i \<and> list_all (\<lambda>e. \<not> begins e) post"
    if "fe_data (fetched_by l evs) = Some v" for v
    using that
  proof (induction evs rule: rev_induct)
    case Nil
    then show ?case by (simp add: fetch_snoc no_fetch_def)
  next
    case (snoc e evs)
    from data_step [OF snoc.prems [unfolded fetch_snoc]]
    consider i where "e = Settled i (Inr v)" "fe_current (fetched_by l evs) = Some i"
      | "fe_data (fetched_by l evs) = Some v" "\<not> begins e" by blast
    then show ?case
    proof cases
      case 1
      then have "begun evs = Suc i" using requests_numbered by metis
      with 1 show ?thesis by (intro exI [of _ evs] exI [of _ i] exI [of _ "[]"]) simp
    next
      case 2
      from snoc.IH [OF 2(1)] obtain pre i post
        where "evs = pre @ Settled i (Inr v) # post" "begun pre = Suc i" "list_all (\<lambda>e. \<not> begins e) post" by blast
      with 2(2) show ?thesis by (intro exI [of _ pre] exI [of _ i] exI [of _ "post @ [e]"]) simp
    qed
  qed
  with one_face_run show ?thesis by blast
qed

lemma shown_document_is_current_witness:
  "\<exists>pre i post. [Preview_effect True, Preview_effect True, Settled 0 (Inr (1 :: nat)), Settled 1 (Inr 2), Settled 0 (Inl Aborted)]
     = pre @ Settled i (Inr 2) # post \<and> begun pre = Suc i \<and> list_all (\<lambda>e. \<not> begins e) post"
  by (rule shown_document_is_current [THEN conjunct2, rule_format, where l = True])
     (simp add: fetched_by_def no_fetch_def fetch_defs)

section \<open>The focus of the dialog\<close>

text \<open>Where the focus is after a press: the browser's own move is \<open>moves\<close>, by one element.\<close>

definition tab_pressed :: "nat \<Rightarrow> bool \<Rightarrow> focus \<Rightarrow> focus" where
  "tab_pressed n shift f = (case trap_tab n shift f of Some g \<Rightarrow> g
     | None \<Rightarrow> (case f of On_item i \<Rightarrow> if shift then On_item (i - 1) else On_item (Suc i) | g \<Rightarrow> g))"

definition on_dialog :: "nat \<Rightarrow> focus \<Rightarrow> bool" where
  "on_dialog n f \<longleftrightarrow> f = On_panel \<or> (\<exists>i < n. f = On_item i)"

lemma tab_pressed_item:
  assumes "i < n"
  shows "tab_pressed n shift (On_item i) = On_item (if shift then if i = 0 then n - 1 else i - 1 else Suc i mod n)"
  using assms by (cases "i = n - 1") (auto simp: tab_pressed_def trap_tab_def)

lemma focus_stays: "0 < n \<Longrightarrow> on_dialog n f \<Longrightarrow> on_dialog n (tab_pressed n shift f)"
  by (cases f; cases shift) (auto simp: on_dialog_def tab_pressed_item, auto simp: tab_pressed_def trap_tab_def dest: spec [of _ "n - Suc 0"])

section \<open>Green badges\<close>

text \<open>The badges of a tree that show a success.\<close>

definition greens :: "view \<Rightarrow> (string \<times> (string \<times> jsval) list) list" where
  "greens v = filter (\<lambda>(t, ps). t = ''Badge'' \<and> attr ps ''variant'' = lit ''success'') (nodes v)"

lemma greens_all: "filter (\<lambda>(t, ps). t = ''Badge'' \<and> attr ps ''variant'' = lit ''success'') (concat (map nodes vs)) = concat (map greens vs)"
  by (induction vs) (simp_all add: greens_def)

lemma greens_simps [simp]:
  "greens (Text s) = []" "greens Blank = []" "greens Invalid = []"
  "t \<noteq> ''Badge'' \<Longrightarrow> greens (Node t ps vs) = concat (map greens vs)"
  "greens (Node ''Badge'' ps vs) = (if attr ps ''variant'' = lit ''success'' then [(''Badge'', ps)] else []) @ concat (map greens vs)"
  by (simp_all only: greens_all [symmetric]) (simp_all add: greens_def)

lemma greens_child [simp]: "greens (child v) = []"
  by (induction v rule: child.induct) (auto simp: in_set_conv_nth concat_eq_Nil_conv)

lemma greens_shown_if [simp]: "greens (shown_if c v) = (if c then greens v else [])"
  by (simp add: shown_if_def)

lemmas badge_defs = small_badge_def toned_def dotted_def titled_def or_dash_def compact_empty_def tag_def slot_def button_def attr_def

lemma gate_row_greens: "greens (gate_row ck now s) = []"
  by (simp add: gate_row_def badge_defs output_button_def Let_def)

lemma gate_rows_greens: "concat (map greens (map (gate_row ck now) ss)) = []"
  by (induction ss) (simp_all add: gate_row_greens)

text \<open>What each section of the evidence needs to be green.\<close>

lemma verification_green:
  "greens (verification_card ck now v live) \<noteq> [] \<longleftrightarrow> truthy (opt_get v ''available'') \<and> truthy (opt_get v ''passed'')"
  using gate_rows_greens [of ck now "steps_of v"]
  by (simp add: verification_card_def badge_defs Let_def del: concat_eq_Nil_conv)

lemma gate_green:
  "greens (gate_part g) \<noteq> [] \<longleftrightarrow> truthy g \<and> truthy (opt_get g ''checked'') \<and> as_list (opt_get g ''modified'') = []"
  by (simp add: gate_part_def gate_verdict_def security_part_def badge_defs Let_def comp_def)

lemma probe_green:
  "greens (probe_observation l o') \<noteq> [] \<longleftrightarrow> truthy o' \<and> opt_get o' ''decided'' \<noteq> JBool False \<and> \<not> truthy (opt_get o' ''reachable'')"
  by (simp add: probe_observation_def probe_verdict_def badge_defs Let_def)

lemma unmeasured_green:
  "\<not> truthy sec \<Longrightarrow> greens (security_card ck now run sec) \<noteq> []
     \<longleftrightarrow> security_stop (to_upper (to_str (js_or (opt_get run ''factory_result'') (Str [])))) = None
       \<and> clean_evidence (opt_get run ''hardening'')"
  using security_stop_tone
  by (auto simp: security_card_def badge_defs Let_def security_meta_def hardening_success split: option.splits)



text \<open>The sentence below the verdict does not look at \<open>checked\<close>: gates nobody checked are called unmodified.\<close>

lemma unchecked_gate_called_unmodified:
  "\<lbrakk>truthy g; \<not> truthy (opt_get g ''checked''); as_list (opt_get g ''modified'') = []\<rbrakk>
     \<Longrightarrow> snd (gate_verdict g) = ''Not checked'' \<and> suffix (js ''No configured gate paths were modified.'') (Console_View.shown (gate_part g))"
  by (simp add: gate_verdict_def gate_part_def security_part_def tag_def Let_def suffix_def)

end
