(* ===== verification/Console_Pages_Facts.thy ===== *)
theory Console_Pages_Facts imports Console_Operations Console_Overview Console_Run_Facts begin

text \<open>
  What the pages of the console promise: the security screen is green only where a control or a
  probe says so, a sandbox is called a leak only where its attribution is known, a change offers
  exactly the decision commands of its answer, and the overview shows no figure it was not given.
\<close>

section \<open>Marks in a tree\<close>

definition carries :: "(string \<times> (string \<times> jsval) list \<Rightarrow> bool) \<Rightarrow> view \<Rightarrow> bool" where
  "carries P v \<longleftrightarrow> list_ex P (nodes v)"

lemma carries_simps [simp]:
  "carries P (Text s) = False" "carries P Blank = False" "carries P Invalid = False"
  "carries P (Node t ps vs) \<longleftrightarrow> P (t, ps) \<or> list_ex (carries P) vs"
  by (auto simp: carries_def list_ex_iff)

lemma carries_shown_if [simp]: "carries P (shown_if c v) \<longleftrightarrow> c \<and> carries P v"
  by (simp add: shown_if_def)

lemma carries_child: "\<not> P ([], []) \<Longrightarrow> \<not> carries P (child v)"
  by (induction v rule: child.induct) (auto simp: list_ex_iff)

text \<open>A chip, a badge, a dot or a figure in the colour of success.\<close>

definition green :: "string \<times> (string \<times> jsval) list \<Rightarrow> bool" where
  "green n \<longleftrightarrow> attr (snd n) ''variant'' = lit ''success'' \<or> attr (snd n) ''tone'' = lit ''success''"

lemma attr_simps [simp]: "attr [] k = Undef" "attr ((j, v) # ps) k = (if k = j then v else attr ps k)"
  by (simp_all add: attr_def)

lemma green_child [simp]: "\<not> carries green (child v)"
  by (rule carries_child) (simp add: green_def)

lemmas plain_defs = tag_def slot_def fragment_def button_def titled_def toned_def dotted_def or_dash_def outlined_def headed_def
  td_def td_num_def td_muted_def dash_view_def table_head_def table_empty_def compact_empty_def status_pill_of_def pill_def
  link_to_def run_link_def severity_cell_def

section \<open>The security screen\<close>

lemma green_run_link [simp]: "\<not> carries green none \<Longrightarrow> \<not> carries green (run_link none i)"
  by (simp add: run_link_def link_to_def green_def Let_def split: option.splits)

lemma green_chip: "carries green (bool_chip st title v)
    \<longleftrightarrow> (case v of None \<Rightarrow> tone_unknown st | Some b \<Rightarrow> if b then tone_on st else tone_off st) = ''success''"
  by (simp add: bool_chip_def Let_def tag_def green_def)

lemma green_reach: "carries green (reach_chip (reach_style\<lparr>tone_on := t\<rparr>) title decided reachable)
    \<longleftrightarrow> decided = JBool True \<and> (if reachable = JBool True then t = ''success'' else True)"
  by (simp add: reach_chip_def green_chip reach_style_def chip_default_def)

lemma list_ex_none: "(\<And>x. \<not> P (f x)) \<Longrightarrow> \<not> list_ex P (map f xs)"
  by (induction xs) auto

lemma list_ex_map: "list_ex P (map f xs) \<longleftrightarrow> (\<exists>x \<in> set xs. P (f x))"
  by (simp add: list_ex_iff)

lemma tone_for_green: "tone_for n t = ''success'' \<longleftrightarrow> some_positive n \<and> t = ''success''"
  by (simp add: tone_for_def)

lemma green_severity_cell [simp]: "\<not> carries green (severity_cell v)"
  by (simp add: severity_cell_def pill_def dash_view_def tag_def green_def)

lemma green_dash_view [simp]: "\<not> carries green dash_view"
  by (simp add: dash_view_def tag_def green_def)

lemma green_numeric [simp]: "\<not> carries green (numeric_tone v)"
  by (simp add: numeric_tone_def green_def split: option.splits)

lemma green_files [simp]: "\<not> carries green (files_badge fs)"
  by (simp add: files_badge_def green_def)

lemma green_finding [simp]: "\<not> carries green (finding_entry ck now e)"
  by (simp add: finding_entry_def td_def td_num_def td_muted_def tag_def titled_def pill_def green_def green_chip tone_for_green styled_def
    chip_default_def Let_def split: option.splits)

lemma green_rule [simp]: "\<not> carries green (rule_row r)"
  by (simp add: rule_row_def td_def td_num_def td_muted_def tag_def green_def tone_for_green Let_def)

lemma green_stop [simp]: "\<not> carries green (stop_row ck now s)"
  by (simp add: stop_row_def td_def td_num_def tag_def titled_def pill_def green_def Let_def)

text \<open>A probe that gave a verdict and did not reach its target, and an alert that was delivered.\<close>

definition probe_blocked :: "jsval \<Rightarrow> bool" where
  "probe_blocked o' \<longleftrightarrow> opt_get o' ''canary_decided'' = JBool True \<and> opt_get o' ''canary_reachable'' \<noteq> JBool True
     \<or> opt_get o' ''metadata_decided'' = JBool True \<and> opt_get o' ''metadata_reachable'' \<noteq> JBool True"

lemma green_uid [simp]: "\<not> carries green (uid_view v)"
  by (simp add: uid_view_def tag_def green_def split: option.splits)

lemma green_observation: "carries green (observation_row o') \<longleftrightarrow> probe_blocked o'"
  by (simp add: observation_row_def td_def td_num_def tag_def green_def green_reach green_chip styled_def chip_default_def
    probe_blocked_def Let_def split: option.splits)

lemma green_alert: "carries green (alert_item ck now a) \<longleftrightarrow> opt_get a ''delivered'' = JBool True"
  by (simp add: alert_item_def tag_def pill_def green_def green_chip styled_def chip_default_def as_boolean_def Let_def
    split: jsval.splits)

lemma green_head [simp]: "\<not> carries green (table_head ns ls)" "\<not> carries green (table_empty n t d)"
  by (auto simp: table_head_def table_empty_def tag_def green_def list_ex_iff)

lemma green_table:
  "list_ex (carries green) (if xs = [] then [table_empty n t d] else map f xs) \<longleftrightarrow> (\<exists>x \<in> set xs. carries green (f x))"
  by (simp add: list_ex_map)

lemma green_signals [simp]: "\<not> carries green (signals_card ck now data)"
  by (simp add: signals_card_def headed_def outlined_def toned_def findings_table_def tag_def slot_def green_def green_table Let_def)

lemma green_rules [simp]: "\<not> carries green (rules_card rs)"
  by (simp add: rules_card_def headed_def outlined_def toned_def rules_table_def tag_def slot_def green_def green_table)

lemma green_stops [simp]: "\<not> carries green (stops_card ck now ss)"
  by (simp add: stops_card_def headed_def outlined_def toned_def stops_table_def tag_def slot_def green_def green_table)

lemma green_observations: "carries green (observations_card expanded data)
    \<longleftrightarrow> (\<exists>o' \<in> set (visible_observations expanded (as_list (opt_get data ''egress_observations''))). probe_blocked o')"
  by (simp add: observations_card_def headed_def outlined_def toned_def observations_table_def tag_def slot_def green_def green_table
    green_observation Let_def)

lemma delivery_green: "fst (alert_delivery as n) = ''success'' \<longleftrightarrow> as \<noteq> [] \<and> \<not> some_positive n"
  by (simp add: alert_delivery_def)

lemma green_alerts: "carries green (alerts_card ck now data) \<longleftrightarrow> (let as = as_list (opt_get data ''alerts'') in
    as \<noteq> [] \<and> \<not> some_positive (as_number (opt_get data ''alerts_undelivered'')) \<or> (\<exists>a \<in> set as. opt_get a ''delivered'' = JBool True))"
  by (auto simp: alerts_card_def headed_def dotted_def alerts_list_def compact_empty_def tag_def slot_def green_def list_ex_map
    green_alert delivery_green Let_def)

lemma green_items: "carries green (ops_definition_list ds) \<longleftrightarrow> (\<exists>d \<in> set ds. carries green (value_view (di_mono d) (di_value d)))"
  by (simp add: ops_definition_list_def tag_def green_def list_ex_map)

lemma green_metric: "carries green (metric danger good v)
    \<longleftrightarrow> good \<and> (\<exists>n. as_number v = Some n \<and> \<not> positive n)"
  by (simp add: metric_def green_def split: option.splits)

lemma green_egress: "carries green (egress_card e)
    \<longleftrightarrow> (\<exists>n. as_number (opt_get e ''metadata_reachable'') = Some n \<and> \<not> positive n)"
  by (simp add: egress_card_def headed_def tag_def slot_def green_def green_items egress_items_def hinted_def item_of_def
    green_metric Let_def)

lemma green_text_item: "\<not> carries green (value_view (di_mono (text_item l s)) (di_value (text_item l s)))"
  by (simp add: text_item_def item_of_def)

lemma green_coverage [simp]: "\<not> carries green (coverage_card ck now data w)"
  by (simp add: coverage_card_def tag_def green_def green_items coverage_items_def hinted_def text_item_def item_of_def Let_def)

text \<open>The flags of the posture with the value that is shown in green.\<close>

definition SAFE_FLAGS :: "(string \<times> bool) list" where
  "SAFE_FLAGS = [(''egress_probe_enabled'', True), (''behavior_monitor_enabled'', True), (''require_non_root'', True),
     (''acknowledge_open_egress'', False), (''allow_gate_self_modification'', False), (''alert_webhook_configured'', True)]"

lemma green_flag: "carries green (flag_tile source l k (styled on off t_on t_off) note)
    \<longleftrightarrow> (\<exists>b. opt_get source k = JBool b \<and> (if b then t_on else t_off) = ''success'')"
  by (simp add: flag_tile_def posture_tile_def tag_def green_def green_chip styled_def chip_default_def as_boolean_def
    split: jsval.splits) blast

lemma green_severity [simp]: "\<not> carries green (severity_tile source)" "\<not> carries green (canary_tile source)"
  by (simp_all add: severity_tile_def canary_tile_def posture_tile_def status_pill_of_def tag_def green_def green_chip styled_def
    chip_default_def Let_def split: option.splits)

lemma green_tiles: "list_ex (carries green) (posture_tiles source) \<longleftrightarrow> (\<exists>(k, b) \<in> set SAFE_FLAGS. opt_get source k = JBool b)"
  by (auto simp: posture_tiles_def green_flag SAFE_FLAGS_def)

lemma flag_of_object: "opt_get source k = JBool b \<Longrightarrow> as_object source \<noteq> []"
  by (cases source) (auto simp: opt_get_def as_object_def lookup_def split: if_splits)

lemma green_posture: "carries green (posture_panel source u i) \<longleftrightarrow> (\<exists>(k, b) \<in> set SAFE_FLAGS. opt_get source k = JBool b)"
  using flag_of_object [of source]
  by (auto simp: posture_panel_def tag_def slot_def dotted_def ops_notice_def green_def green_tiles split: option.splits)

lemma green_tile [simp]: "sk_tone k \<noteq> ''success'' \<Longrightarrow> \<not> carries green (security_tile k)"
  by (simp add: security_tile_def green_def)

lemma green_kpis [simp]: "\<not> list_ex (carries green) (map security_tile (security_kpis data))"
  by (simp add: security_kpis_def kpi_of_def tone_for_green Let_def)


section \<open>The live inventory\<close>

text \<open>A row that is highlighted, and one that carries a flag.\<close>

definition highlighted :: "string \<times> (string \<times> jsval) list \<Rightarrow> bool" where
  "highlighted n \<longleftrightarrow> attr (snd n) ''highlighted'' = JBool True"

lemma no_highlight [simp]: "\<not> carries highlighted (child v)" "\<not> carries highlighted (bool_chip st t b)"
  "\<not> carries highlighted (unattributed_run i)" "\<not> carries highlighted (table_head ns ls)"
  "\<not> carries highlighted (table_empty n s d)" "\<not> carries highlighted (ops_notice tone title c [] [child v])"
  "\<not> carries highlighted (metric_band bs)" "\<not> carries highlighted (sandbox_flags ok sb)"
  "\<not> carries highlighted (live_unavailable live)" "\<not> carries highlighted (live_footer ck now live)"
  by (auto intro!: carries_child simp: highlighted_def bool_chip_def unattributed_run_def run_link_def link_to_def tag_def table_head_def table_empty_def
    ops_notice_def metric_band_def display_value_def sandbox_flags_def dotted_def dash_view_def live_unavailable_def live_footer_def
    list_ex_iff Let_def split: option.splits)

lemma highlighted_row: "carries highlighted (sandbox_row ck now ok s) \<longleftrightarrow> called_leaked ok s"
  by (simp add: sandbox_row_def td_def tag_def titled_def dated_def state_badge_def dotted_def chip_in_def Let_def)
     (simp add: highlighted_def)

lemma highlighted_table: "carries highlighted (sandboxes_table ck now ok ss) \<longleftrightarrow> (\<exists>s \<in> set ss. called_leaked ok s)"
  by (simp add: sandboxes_table_def tag_def list_ex_map highlighted_row) (simp add: highlighted_def)

lemma highlighted_live: "carries highlighted (live_card ck now live) \<longleftrightarrow> opt_get live ''available'' = JBool True
    \<and> (\<exists>s \<in> set (as_list (opt_get live ''sandboxes'')). called_leaked (attribution_available live) s)"
  by (simp add: live_card_def headed_def live_inventory_def tag_def slot_def chip_in_def highlighted_table Let_def)
     (simp add: highlighted_def)

text \<open>What the flags of a row and the figures above the table say.\<close>

lemma unattributed_flags: "\<not> attribution_known ok s \<Longrightarrow> Console_View.shown (sandbox_flags ok s) = js ''Unattributed''"
  by (simp add: sandbox_flags_def called_leaked_def tag_def dotted_def)

lemma withheld_figures: "\<not> attribution_available live \<Longrightarrow>
   map bi_value (drop 2 (live_band live)) = [lit ''Unknown'', lit ''Unknown'']"
  by (simp add: live_band_def withheld_def band_hint_def band_of_def Let_def)



section \<open>The decision on a change\<close>

text \<open>The values that the copy buttons of a tree copy.\<close>

definition copied :: "view \<Rightarrow> jsval list" where
  "copied v = map (\<lambda>n. attr (snd n) ''value'') (filter (\<lambda>n. fst n = ''CopyButton'') (nodes v))"

lemma copied_simps [simp]:
  "copied (Text s) = []" "copied Blank = []" "copied Invalid = []"
  "t \<noteq> ''CopyButton'' \<Longrightarrow> copied (Node t ps vs) = concat (map copied vs)"
  "copied (Node ''CopyButton'' ps vs) = attr ps ''value'' # concat (map copied vs)"
  by (simp_all add: copied_def [abs_def] filter_concat map_concat comp_def)

lemma copied_child [simp]: "copied (child v) = []"
  by (induction v rule: child.induct) (auto simp: in_set_conv_nth concat_eq_Nil_conv)

lemma copied_shown_if [simp]: "copied (shown_if c v) = (if c then copied v else [])"
  by (simp add: shown_if_def)

lemma copied_command: "copied (command_row l cmd t hint) = (if truthy cmd then [cmd] else [])"
  by (simp add: command_row_def tag_def)

lemma copied_facts: "copied (review_facts review) = []"
  by (simp add: review_facts_def review_fact_def small_badge_def dotted_def pill_def tag_def Let_def)

text \<open>The review panel of a change offers exactly the decision commands of the answer: what its copy
  buttons copy is the approve and then the reject command, each unchanged and each only if the answer
  gives it, and nothing at all when the answer says that no live gate can take a decision. No other
  part of the panel can be copied.\<close>

theorem commands_on_offer:
  "copied (review_panel ck change review latest) = (if opt_get review ''actionable'' = JBool False then []
     else filter truthy [opt_get review ''approve_command'', opt_get review ''reject_command''])"
  by (simp add: review_panel_def decision_commands_def copied_command copied_facts review_note_block_def unconfigured_notice_def
    notice_def titled_def dotted_def tag_def slot_def Let_def)

section \<open>The figures of the overview\<close>

definition KPI_KEYS :: "string list" where
  "KPI_KEYS = [''runs'', ''success_rate'', ''in_flight'', ''reviews'', ''security_stops'', ''cleanup_verified_rate'', ''p50_duration_ms'',
     ''p95_duration_ms'', ''tokens'', ''cost_usd'']"

definition key_tiles :: "jsval \<Rightarrow> tile list" where
  "key_tiles data = lead_tiles data (series_points data) @ more_tiles data (series_points data)"

definition speaks :: "tile \<Rightarrow> bool" where
  "speaks t \<longleftrightarrow> t_value t \<notin> {unavailable ''Unavailable'', unavailable ''Not reported''} \<or> t_delta t \<notin> {Null, Undef}"

lemma withdrawn_figure: "withdrawn k \<Longrightarrow> figure l f k = unavailable l"
  by (simp add: figure_def)

lemma withdrawn_delta: "withdrawn k \<Longrightarrow> delta_arg m k = Null"
  by (simp add: delta_arg_def Let_def)

lemmas quiet_defs = speaks_def tile_of_def percent_value_def duration_value_def withdrawn_figure withdrawn_delta

lemma quiet_tiles:
  "withdrawn (kpi data ''runs'') \<Longrightarrow> \<not> speaks (lead_tiles data ps ! 0)"
  "withdrawn (kpi data ''success_rate'') \<Longrightarrow> \<not> speaks (lead_tiles data ps ! 1)"
  "withdrawn (kpi data ''in_flight'') \<Longrightarrow> \<not> speaks (lead_tiles data ps ! 2)"
  "withdrawn (kpi data ''security_stops'') \<Longrightarrow> \<not> speaks (more_tiles data ps ! 0)"
  "withdrawn (kpi data ''cleanup_verified_rate'') \<Longrightarrow> \<not> speaks (more_tiles data ps ! 1)"
  "withdrawn (kpi data ''p50_duration_ms'') \<Longrightarrow> \<not> speaks (more_tiles data ps ! 2)"
  "withdrawn (kpi data ''p95_duration_ms'') \<Longrightarrow> \<not> speaks (more_tiles data ps ! 3)"
  "withdrawn (kpi data ''tokens'') \<Longrightarrow> \<not> speaks (more_tiles data ps ! 4)"
  "withdrawn (kpi data ''cost_usd'') \<Longrightarrow> \<not> speaks (more_tiles data ps ! 5)"
  by (simp_all add: lead_tiles_def more_tiles_def in_flight_tile_def security_stops_tile_def quiet_defs Let_def)

definition kpi_node :: "string \<times> (string \<times> jsval) list \<Rightarrow> bool" where "kpi_node n \<longleftrightarrow> fst n = ''KpiTile''"

lemma kpi_nodes [simp]: "kpi_node (t, ps) \<longleftrightarrow> t = ''KpiTile''" "\<not> carries kpi_node (child v)"
  by (auto intro!: carries_child simp: kpi_node_def)

lemma kpi_grid_shown: "carries kpi_node (kpi_grid data)"
  by (simp add: kpi_grid_def lead_tiles_def tile_view_def tag_def Let_def)

lemma kpi_body: "carries kpi_node (overview_body ck now wall w data) \<longleftrightarrow> (\<exists>nm. shown_window data w = Str nm)"
  by (cases "shown_window data w") (simp_all add: overview_body_def with_text_def tag_def kpi_grid_shown)

lemma kpi_header [simp]: "\<not> carries kpi_node (overview_header ck now w session data loading upd auto)"
  by (simp add: overview_header_def environment_badge_def health_chip_def slot_def titled_def tag_def link_button_def button_def Let_def
    split: option.splits)

lemma kpi_states [simp]: "\<not> carries kpi_node overview_skeleton" "\<not> carries kpi_node (overview_error e b)"
  "\<not> carries kpi_node (empty_evidence ix)" "\<not> carries kpi_node (stale_banner ck wall ix)" "\<not> carries kpi_node (refresh_failure_banner e u l)"
  by (simp_all add: overview_skeleton_def overview_error_def empty_evidence_def stale_banner_def refresh_failure_banner_def
    link_button_def button_def slot_def tag_def Let_def numeral_eq_Suc)

lemma overview_figures: "carries kpi_node (overview_page ck now wall w session data err_opt loading upd auto) \<longleftrightarrow>
    (truthy data \<and> store_runs data \<noteq> num_int 0 \<or> \<not> truthy data \<and> \<not> loading \<and> err_opt = None) \<and> (\<exists>nm. shown_window data w = Str nm)"
  by (auto simp: overview_page_def tag_def kpi_body Let_def split: option.splits bool.splits)

lemma available_false: "opt_get (opt_get (opt_get data ''kpis'') k) ''available'' = JBool False \<Longrightarrow> withdrawn (kpi data k)"
  by (cases "opt_get (opt_get data ''kpis'') k") (simp_all add: withdrawn_def kpi_def js_or_def opt_get_def [of _ "''available''"] split: if_splits)



end
