(* ===== verification/Console_Links_Facts.thy ===== *)
theory Console_Links_Facts imports Console_Palette_Facts Console_Pages_Facts begin

text \<open>
  Where the pages lead: every link that the change, security, operations and overview pages render,
  whatever the answer of the API holds, stays inside the console.
\<close>

section \<open>Links\<close>

definition outward :: "jsval \<Rightarrow> bool" where "outward v \<longleftrightarrow> \<not> nullish v \<and> \<not> inside (to_str v)"

definition leads_out :: "string \<times> (string \<times> jsval) list \<Rightarrow> bool" where
  "leads_out n \<longleftrightarrow> outward (attr (snd n) ''href'') \<or> outward (attr (snd n) ''backHref'')"

lemma outward_simps [simp]: "\<not> outward Undef" "outward (Str s) \<longleftrightarrow> \<not> inside s"
  by (simp_all add: outward_def)

lemma leads_out_pair [simp]: "leads_out (t, ps) \<longleftrightarrow> outward (attr ps ''href'') \<or> outward (attr ps ''backHref'')"
  by (simp add: leads_out_def)

lemma child_inside [simp]: "\<not> carries leads_out (child v)"
  by (rule carries_child) simp

lemma template_inside: "template_href (CHR ''#'' # p) i = Some u \<Longrightarrow> inside u"
  by (auto simp: template_href_def)

lemma link_to_inside [simp]:
  "\<not> carries leads_out (link_to h ps vs) \<longleftrightarrow> (\<forall>u. h = Some u \<longrightarrow> inside u \<and> \<not> outward (attr ps ''backHref'') \<and> \<not> list_ex (carries leads_out) vs)"
  by (auto simp: link_to_def split: option.splits)

lemma parts_inside [simp]:
  "\<not> carries leads_out (status_pill_of k v)" "\<not> carries leads_out (pill k z v)" "\<not> carries leads_out (copy_of v l z)"
  "\<not> carries leads_out (command_row l cmd tn hint)" "\<not> carries leads_out dash_view" "\<not> carries leads_out (table_head ns ls)"
  "\<not> carries leads_out (table_empty n ttl d)" "\<not> carries leads_out (bool_chip st title known)" "\<not> carries leads_out (small_badge bt bs')"
  "\<not> carries leads_out (severity_cell v)" "\<not> carries leads_out (numeric_tone v)" "\<not> carries leads_out (files_badge vs)"
  "\<not> carries leads_out (metric_band bs)" "\<not> carries leads_out (uid_view v)" "\<not> carries leads_out (or_dash v)"
  by (auto simp: status_pill_of_def pill_def copy_of_def command_row_def dash_view_def table_head_def table_empty_def bool_chip_def
    small_badge_def severity_cell_def numeric_tone_def files_badge_def metric_band_def display_value_def uid_view_def or_dash_def
    tag_def list_ex_iff Let_def split: option.splits)

lemma run_link_inside [simp]: "\<not> carries leads_out none \<Longrightarrow> \<not> carries leads_out (run_link none i)"
  by (auto simp: run_link_def Let_def dest: href_for_inside)

lemma toned_inside [simp]:
  "carries leads_out (toned t z vs) \<longleftrightarrow> list_ex (carries leads_out) vs"
  "carries leads_out (dotted t z h vs) \<longleftrightarrow> list_ex (carries leads_out) vs"
  "carries leads_out (titled h vs) \<longleftrightarrow> list_ex (carries leads_out) vs"
  "carries leads_out (tag s vs) \<longleftrightarrow> list_ex (carries leads_out) vs"
  "carries leads_out (slot s vs) \<longleftrightarrow> list_ex (carries leads_out) vs"
  "carries leads_out (fragment vs) \<longleftrightarrow> list_ex (carries leads_out) vs"
  "carries leads_out (td vs) \<longleftrightarrow> list_ex (carries leads_out) vs"
  "carries leads_out (td_num vs) \<longleftrightarrow> list_ex (carries leads_out) vs"
  "carries leads_out (td_muted vs) \<longleftrightarrow> list_ex (carries leads_out) vs"
  "carries leads_out (outlined vs) \<longleftrightarrow> list_ex (carries leads_out) vs"
  "carries leads_out (headed a b vs ws) \<longleftrightarrow> list_ex (carries leads_out) vs \<or> list_ex (carries leads_out) ws"
  "carries leads_out (compact_empty a description vs) \<longleftrightarrow> list_ex (carries leads_out) vs"
  "carries leads_out (ops_notice a ttl announced vs ws) \<longleftrightarrow> list_ex (carries leads_out) vs \<or> list_ex (carries leads_out) ws"
  "carries leads_out (notice a nt vs) \<longleftrightarrow> list_ex (carries leads_out) vs"
  by (auto simp: toned_def dotted_def titled_def tag_def slot_def fragment_def td_def td_num_def td_muted_def outlined_def headed_def
    compact_empty_def ops_notice_def notice_def)

lemma rows_inside [simp]: "(\<And>x. \<not> carries leads_out (f x)) \<Longrightarrow> \<not> list_ex (carries leads_out) (map f xs)"
  by (simp add: list_ex_none)

section \<open>The pages\<close>

lemma change_rows_inside [simp]: "\<not> carries leads_out (activation_row ck now c r)"
  by (auto simp: activation_row_def review_cell_def Let_def dest: template_inside)

lemma change_cards_inside [simp]:
  "\<not> carries leads_out (activation_table ck now change runs)" "\<not> carries leads_out (task_panel change)"
  "\<not> carries leads_out (change_meta_panel ck change runs)" "\<not> carries leads_out (review_panel ck change review latest)"
  by (simp_all add: activation_table_def lineage_footer_def task_panel_def change_meta_panel_def definition_list_def meta_rows_def row_of_def
    sha_row_def review_panel_def review_facts_def review_fact_def decision_commands_def review_note_block_def unconfigured_notice_def
    list_ex_map Let_def)

lemma stat_strip_inside [simp]: "\<not> carries leads_out (stat_skeleton n)" "\<not> carries leads_out v \<Longrightarrow> \<not> carries leads_out (stat_box s v)"
  "\<not> carries leads_out (stat_cell s)"
  by (auto simp: stat_skeleton_def stat_box_def stat_cell_def list_ex_iff)

lemma change_page_inside: "\<not> carries leads_out (change_detail_page ck now i data err_opt loading upd auto)"
  by (auto simp: change_detail_page_def change_body_def change_header_def change_not_found_def change_unreadable_def change_detail_skeleton_def
    error_panel_def refresh_control_def stale_evidence_def change_cells_def stat_panel_def button_def list_ex_map numeral_eq_Suc Let_def
    dest: template_inside split: option.splits)

lemma security_rows_inside [simp]:
  "\<not> carries leads_out (finding_entry ck now e)" "\<not> carries leads_out (rule_row r)" "\<not> carries leads_out (observation_row o')"
  "\<not> carries leads_out (alert_item ck now a)" "\<not> carries leads_out (stop_row ck now s)"
  by (auto simp: finding_entry_def rule_row_def observation_row_def reach_chip_def alert_item_def stop_row_def Let_def split: option.splits)

lemma items_inside: "carries leads_out (ops_definition_list ds) \<longleftrightarrow> (\<exists>d \<in> set ds. carries leads_out (value_view (di_mono d) (di_value d)))"
  by (simp add: ops_definition_list_def list_ex_map)

lemma value_inside [simp]: "\<not> carries leads_out (value_view m (Raw v))" "carries leads_out (value_view m (Seen v')) \<longleftrightarrow> carries leads_out v'"
  by (cases v) auto

lemma security_cards_inside [simp]:
  "\<not> carries leads_out (posture_panel source u i)" "\<not> carries leads_out (signals_card ck now data)" "\<not> carries leads_out (rules_card rs)"
  "\<not> carries leads_out (egress_card e)" "\<not> carries leads_out (observations_card expanded data)" "\<not> carries leads_out (alerts_card ck now data)"
  "\<not> carries leads_out (stops_card ck now ss)" "\<not> carries leads_out (coverage_card ck now data w)"
  by (auto simp: posture_panel_def posture_tiles_def flag_tile_def posture_tile_def severity_tile_def canary_tile_def
    signals_card_def findings_table_def rules_card_def rules_table_def egress_card_def items_inside egress_items_def hinted_def item_of_def
    metric_def observations_card_def observations_table_def alerts_card_def alerts_list_def stops_card_def stops_table_def
    coverage_card_def coverage_items_def text_item_def list_ex_iff Let_def split: option.splits)

lemma security_tile_inside [simp]: "\<not> carries leads_out (security_tile k)"
  by (simp add: security_tile_def)

lemma notices_inside [simp]: "\<not> carries leads_out (load_notice title fb d l err_opt)" "\<not> carries leads_out (updated_view v)"
  by (auto simp: load_notice_def updated_view_def dot_mark_def button_def split: option.splits)

lemma security_page_inside: "\<not> carries leads_out (security_page ck now w data err_opt loading upd expanded)"
  by (simp add: security_page_def security_header_def security_skeleton_def security_body_def dot_mark_def button_def list_ex_none
    numeral_eq_Suc Let_def)

lemma chip_in_inside [simp]: "\<not> carries leads_out (chip_in r k st)"
  by (simp add: chip_in_def)

text \<open>An item whose value leads nowhere.\<close>

definition quiet :: "ditem \<Rightarrow> bool" where "quiet d \<longleftrightarrow> \<not> carries leads_out (value_view (di_mono d) (di_value d))"

lemma items_quiet: "list_all quiet ds \<Longrightarrow> \<not> carries leads_out (ops_definition_list ds)"
  by (auto simp: items_inside list_all_iff quiet_def)

lemma quiet_items [simp]: "quiet (chip_item l st v)" "quiet (mono_item l v)" "quiet (text_item l s)" "quiet (item_of l (Raw v))"
  "quiet (item_of l (if_number f v))" "quiet (hinted h d) \<longleftrightarrow> quiet d" "quiet (wide d) \<longleftrightarrow> quiet d" "quiet (di_hint_update g d) \<longleftrightarrow> quiet d"
  "quiet (item_of l (Seen v')) \<longleftrightarrow> \<not> carries leads_out v'"
  by (simp_all add: quiet_def chip_item_def mono_item_def text_item_def item_of_def hinted_def wide_def if_number_def del: value_view.simps(2))

lemma config_inside [simp]: "list_all quiet ds \<Longrightarrow> \<not> carries leads_out (config_items a b ds)"
  by (simp add: config_items_def config_block_def items_quiet)

lemma limits_inside [simp]: "\<not> carries leads_out (limits_grid l)"
  unfolding limits_grid_def Let_def by (rule items_quiet) (simp add: bytes_limit_def duration_limit_def quantity_def)

lemma infrastructure_inside [simp]: "\<not> carries leads_out (infrastructure_blocks i)" "\<not> carries leads_out (review_gate_block v)"
    "list_all quiet (hardening_items h)"
  by (simp_all add: infrastructure_blocks_def review_gate_block_def config_block_def hardening_items_def items_quiet Let_def)

lemma index_quiet [simp]: "list_all quiet (index_items ck now x g)"
  by (simp add: index_items_def Let_def)

lemma lists_inside [simp]: "\<not> carries leads_out (name_list t ns)" "\<not> carries leads_out (pin_chips h)" "\<not> carries leads_out (cache_chips h)"
  "\<not> carries leads_out (outline_badge v)" "\<not> carries leads_out (state_badge st)" "\<not> carries leads_out (dated ck now v)"
  "\<not> carries leads_out (unattributed_run v)" "\<not> carries leads_out (sandbox_flags ok sb)"
  by (simp_all add: name_list_def pin_chips_def cache_chips_def outline_badge_def state_badge_def dated_def unattributed_run_def
    sandbox_flags_def list_ex_none Let_def)

lemma catalog_rows_inside [simp]:
  "\<not> carries leads_out (harness_row h)" "\<not> carries leads_out (step_row s)" "\<not> carries leads_out (probe_row ck now p)"
  "\<not> carries leads_out (failure_row ck now f)" "\<not> carries leads_out (sandbox_row ck now ok sb)"
  by (simp_all add: harness_row_def step_row_def probe_row_def failure_row_def sandbox_row_def Let_def)

lemma catalog_tables_inside [simp]: "\<not> carries leads_out (probes_table ck now ps)" "\<not> carries leads_out (harness_table hs e)"
  "\<not> carries leads_out (profile_view p)" "\<not> carries leads_out (verification_profiles vs e)"
  by (simp_all add: probes_table_def harness_table_def profile_view_def verification_profiles_def Let_def)

lemma catalog_inside [simp]: "\<not> list_ex (carries leads_out) (catalog_cards ck now r)"
  by (simp add: catalog_cards_def config_block_def Let_def)

lemma sandbox_tables_inside [simp]: "\<not> carries leads_out (failures_table ck now fs n m)" "\<not> carries leads_out (sandboxes_table ck now ok ss)"
  by (simp_all add: failures_table_def sandboxes_table_def)

lemma sandbox_cards_inside [simp]: "\<not> carries leads_out (cleanup_card ck now c)" "\<not> carries leads_out (live_card ck now live)"
  "\<not> carries leads_out (data_health_card ck now d g)"
  by (simp_all add: cleanup_card_def rate_bar_def card_subsection_def live_card_def live_inventory_def live_unavailable_def
    live_footer_def data_health_card_def items_quiet Let_def)

lemma operations_page_inside: "\<not> carries leads_out (operations_page ck now data err_opt loading upd)"
  by (simp add: operations_page_def operations_header_def operations_skeleton_def operations_body_def warnings_notice_def dot_mark_def
    button_def numeral_eq_Suc Let_def)

lemma link_button_inside [simp]: "\<not> carries leads_out (link_button (CHR ''#'' # h) l)" "\<not> carries leads_out (button ps s)
    \<longleftrightarrow> \<not> outward (attr ps ''href'') \<and> \<not> outward (attr ps ''backHref'')"
  by (simp_all add: link_button_def button_def)

lemma overview_states_inside [simp]: "\<not> carries leads_out overview_skeleton" "\<not> carries leads_out (overview_error e b)"
  "\<not> carries leads_out (stale_banner ck wall ix)" "\<not> carries leads_out (refresh_failure_banner e u l)"
  "\<not> carries leads_out (empty_evidence ix)" "\<not> carries leads_out (window_empty_notice w nm n)"
  by (simp_all add: overview_skeleton_def overview_error_def stale_banner_def refresh_failure_banner_def empty_evidence_def
    window_empty_notice_def list_ex_none numeral_eq_Suc Let_def)

lemma attention_inside' [simp]: "\<not> carries leads_out (attention_entry ck now i)"
  by (simp add: attention_entry_def attention_detail_def dot_sep_def normalize_href_inside Let_def)

lemma top_rule_inside [simp]: "\<not> carries leads_out (top_rule_row r)" "\<not> carries leads_out (health_check_row c)"
  "\<not> carries leads_out (health_probe_row p)" "\<not> carries leads_out (scan_error_badge n)"
  by (simp_all add: top_rule_row_def health_check_row_def health_probe_row_def scan_error_badge_def state_text_def latency_note_def
    status_dot_def Let_def)

lemma recent_inside [simp]: "\<not> carries leads_out (recent_run_row ck now r)"
  by (auto simp: recent_run_row_def Let_def dest: template_inside)

lemma tiles_inside: "list_all (\<lambda>t. \<not> carries leads_out (tile_view t)) (lead_tiles data ps @ more_tiles data ps)"
  by (simp add: lead_tiles_def more_tiles_def tile_view_def in_flight_tile_def reviews_tile_def security_stops_tile_def tile_of_def
    percent_value_def duration_value_def figure_def unavailable_def Let_def)

lemma kpi_grid_inside [simp]: "\<not> carries leads_out (kpi_grid data)"
  using tiles_inside [of data "series_points data"]
  by (simp add: kpi_grid_def list_ex_map list_all_iff Let_def)

lemma overview_cards_inside [simp]: "\<not> carries leads_out (throughput_card data)" "\<not> carries leads_out (attention_panel ck now v)"
  "\<not> carries leads_out (recent_runs_card ck now v)" "\<not> carries leads_out (outcomes_card data)" "\<not> carries leads_out (health_panel ck wall h)"
  "\<not> carries leads_out (security_panel v)" "\<not> carries leads_out (catalog_strip v)"
  by (simp_all add: throughput_card_def throughput_body_def stacked_chart_legend_def THROUGHPUT_SERIES_def with_text_def attention_panel_def
    card_header_def recent_runs_card_def outcomes_card_def health_panel_def health_footer_def security_panel_def security_figure_def
    security_stats_def security_stat_def stops_badge_def catalog_strip_def list_ex_none Let_def split: jsval.splits)

lemma bars_inside [simp]: "\<not> carries leads_out (breakdown_bars es f l c)"
  by (simp add: breakdown_bars_def bar_header_def bar_row_def list_ex_none Let_def)

lemma breakdown_inside [simp]: "\<not> list_ex (carries leads_out) (breakdown_cards data nm)"
  by (simp add: breakdown_cards_def breakdown_card_def scopes_summary_def list_ex_map Let_def split: prod.splits)

lemma overview_page_inside: "\<not> carries leads_out (overview_page ck now wall w session data err_opt loading upd auto)"
  by (simp add: overview_page_def overview_header_def environment_badge_def health_chip_def overview_body_def with_text_def Let_def
    split: option.splits bool.splits jsval.splits)

end
