(* ===== verification/Console_Outward_Facts.thy ===== *)
theory Console_Outward_Facts imports Console_Links_Facts Console_Dispatch_Facts Console_Portfolio_Facts Console_Shell begin

text \<open>
  Where the remaining screens lead: the change portfolio, the runs ledger with its table, the
  settings, the dispatch page, the login screen, the shell and a run's page. On the run page and
  in the review queue the only links that leave the console are the preview addresses the
  answer reports.
\<close>

section \<open>Shared parts\<close>

lemma hrefs_inside: "run_href v = Some u \<Longrightarrow> inside u" "change_href v = Some u \<Longrightarrow> inside u"
  by (auto simp: run_href_def change_href_def dest: href_for_inside)

lemma run_link_to_inside [simp]:
  "\<not> list_ex (carries leads_out) vs \<Longrightarrow> \<not> carries leads_out (link_to (run_href v) [(''title'', t)] vs)"
  "\<not> list_ex (carries leads_out) vs \<Longrightarrow> \<not> carries leads_out (link_to (change_href v) [(''title'', t)] vs)"
  "\<not> list_ex (carries leads_out) vs \<Longrightarrow> \<not> carries leads_out (link_to (run_href v) [(''aria-label'', t)] vs)"
  "\<not> list_ex (carries leads_out) vs \<Longrightarrow> \<not> carries leads_out (link_to (change_href v) [] vs)"
  by (auto dest: hrefs_inside)

lemma button_out [simp]: "carries leads_out (button ps s) \<longleftrightarrow> outward (attr ps ''href'') \<or> outward (attr ps ''backHref'')"
  by (simp add: button_def)

lemma marks_inside [simp]: "\<not> carries leads_out dot_sep" "\<not> carries leads_out (notice_list t xs)" "\<not> carries leads_out (heads ls)"
  "\<not> carries leads_out (error_panel e t l b)" "\<not> carries leads_out (refresh_control ck now t' b)"
  "\<not> carries leads_out (stat_strip l' ss)" "\<not> carries leads_out (pagination pg [])" "\<not> carries leads_out (refresh_failed e' d tl')"
  by (simp_all add: dot_sep_def notice_list_def heads_def error_panel_def refresh_control_def stat_strip_def stat_panel_def pagination_def
    refresh_failed_def list_ex_none list_ex_map Let_def split: option.splits)

section \<open>The portfolio\<close>

lemma change_list_inside [simp]: "\<not> carries leads_out (change_row ck now c)"
  by (simp add: change_row_def spend_cell_def Let_def inside_def starts_with_def js_def split: option.splits)

lemma changes_page_inside: "\<not> carries leads_out (changes_page lc ck now w data err_opt loading upd auto dq f p)"
  by (simp add: changes_page_def changes_header_def changes_toolbar_def active_summary_def changes_table_def changes_head_def
    changes_empty_def changes_footer_def facet_chips_def facet_chip_def list_ex_none Let_def split: option.splits bool.splits)

definition preview_out :: "jsval \<Rightarrow> bool" where
  "preview_out p \<longleftrightarrow> outward (js_or (opt_get p ''url'') (lit ''#''))"

definition item_out :: "jsval \<Rightarrow> bool" where
  "item_out i \<longleftrightarrow> detail_href ''#/changes/'' (opt_get (js_or (opt_get i ''change'') Null) ''change_id'') \<noteq> None
     \<and> detail_href ''#/runs/'' (js_or (opt_get (js_or (opt_get i ''run'') Null) ''run_id'') (opt_get (js_or (opt_get i ''live'') Null) ''run_id'')) \<noteq> None
     \<and> list_ex preview_out (as_list (opt_get i ''previews''))"

lemma detail_href_inside: "detail_href (CHR ''#'' # p) i = Some u \<Longrightarrow> u \<noteq> [] \<Longrightarrow> inside u"
  by (auto simp: detail_href_def inside_def starts_with_def js_def split: if_splits)

lemma preview_link_out [simp]: "carries leads_out (preview_link v) \<longleftrightarrow> preview_out v"
  by (simp add: preview_link_def preview_out_def)

lemma queue_parts_inside [simp]: "\<not> carries leads_out (queue_badges i run live scope harness)" "\<not> carries leads_out (queue_commands i)"
  "\<not> carries leads_out (live_line live)"
  by (simp_all add: queue_badges_def queue_commands_def live_line_def live_sandbox_def)

lemma queue_links_inside [simp]:
  "detail_href ''#/changes/'' ci = Some ch \<Longrightarrow> detail_href ''#/runs/'' ri = Some rh \<Longrightarrow> \<not> carries leads_out (queue_links change run_id ch rh)"
  by (auto simp: queue_links_def dest: detail_href_inside)

lemma queue_item_out [simp]: "carries leads_out (queue_item ck now oldest i) \<longleftrightarrow> item_out i"
  by (auto simp: queue_item_def item_out_def list_ex_map list_ex_iff Let_def split: option.splits)

definition queue_listed :: "jsval \<Rightarrow> bool" where
  "queue_listed data \<longleftrightarrow> truthy data \<and> count_all data \<noteq> num_int 0"

lemma no_items_filtered: "review_items data = [] \<Longrightarrow> filtered_items kind data = []"
  by (simp add: filtered_items_def)

lemma queue_rows_out: "list_ex (carries leads_out) (map (\<lambda>(n, i). queue_item ck now (g n) i) (enumerate k is)) \<longleftrightarrow> list_ex item_out is"
  by (induction "is" arbitrary: k) simp_all

lemma queue_body_out: "carries leads_out (queue_body ck now kind data loading n) \<longleftrightarrow> queue_listed data \<and> list_ex item_out (filtered_items kind data)"
  by (auto simp: queue_body_def queue_listed_def queue_skeleton_def queue_clear_def queue_page_empty_def queue_filter_empty_def
    no_items_filtered queue_rows_out numeral_eq_Suc Let_def)

lemma reviews_page_out: "carries leads_out (reviews_page ck now kind data err_opt loading upd auto p)
    \<longleftrightarrow> queue_listed data \<and> list_ex item_out (filtered_items kind data)"
  by (auto simp: reviews_page_def reviews_header_def queue_notices_def reviews_footer_def queue_body_out queue_listed_def Let_def
    split: option.splits bool.splits)

section \<open>The ledger and a run\<close>

lemma runs_page_inside: "\<not> carries leads_out (runs_page lc ck now w data err_opt loading upd search_text q)"
  by (simp add: runs_page_def runs_header_def runs_toolbar_node_def runs_footer_def empty_runs_def Let_def split: option.splits bool.splits)

lemma run_row_inside [simp]: "\<not> carries leads_out (run_row ck now run)"
  by (simp add: run_row_def result_split_def result_line_def cleanup_indicator_def security_indicator_def review_indicator_def status_dot_def Let_def)

lemma runs_table_inside: "\<not> carries leads_out (runs_table ck now runs Blank)"
  by (simp add: runs_table_def list_ex_none)

lemma run_parts_inside [simp]: "carries leads_out (summary_card l t v ds) \<longleftrightarrow> carries leads_out v"
  "\<not> carries leads_out (outcome_badge o')" "\<not> carries leads_out (sha_value o')" "\<not> carries leads_out (mono_value o')"
  "\<not> carries leads_out (token_view o')" "\<not> carries leads_out (budget_line o')" "\<not> carries leads_out (review_indicator o' z)"
  "carries leads_out (meta_line l vs) \<longleftrightarrow> list_ex (carries leads_out) vs"
  "carries leads_out (meta_section l vs) \<longleftrightarrow> list_ex (carries leads_out) vs"
  "carries leads_out (optional_line l o' vs) \<longleftrightarrow> truthy o' \<and> list_ex (carries leads_out) vs"
  by (auto simp: summary_card_def outcome_badge_def sha_value_def mono_value_def token_view_def budget_line_def review_indicator_def
    meta_line_def meta_section_def optional_line_def shown_if_def list_ex_iff Let_def)

lemma run_metadata_inside [simp]: "\<not> carries leads_out (run_metadata_card ck now d)"
  by (simp add: run_metadata_card_def identity_rows_def input_rows_def environment_rows_def accounting_rows_def Let_def)

lemma run_cards_inside [simp]: "\<not> carries leads_out (task_card ck now x task lv)" "\<not> carries leads_out (conditions_card ck now cs lv)"
  "\<not> carries leads_out (verification_card ck now v lv)" "\<not> carries leads_out (audit_card ck now cs)"
  "\<not> carries leads_out (operator_commands_card v)" "\<not> carries leads_out (related_change_card ck now v run)"
  "\<not> carries leads_out (related_runs_card ck now cs)" "\<not> carries leads_out (evidence_browser_card cs st kd)"
  by (simp_all add: task_card_def task_body_def task_line_def conditions_card_def condition_view_def verification_card_def gate_row_def
    output_button_def audit_card_def audit_row_def operator_commands_card_def command_item_def review_indicator_def related_change_card_def
    spend_line_def related_runs_card_def related_runs_table_def evidence_browser_card_def artifact_row_def list_ex_none Let_def split: prod.splits)

lemma run_security_inside [simp]: "\<not> carries leads_out (security_card ck now run sec)"
  by (simp add: security_card_def security_part_def hardening_block_def hardening_strip_def probe_part_def probe_observation_def
    ns_child_def behavior_part_def finding_row_def severity_badge_def gate_part_def alerts_part_def alert_row_def texts_def
    list_ex_none list_ex_map Let_def split: option.splits)

lemma run_frame_inside [simp]: "\<not> carries leads_out (run_detail_header ck now d lv patch busy upd)"
  "\<not> carries leads_out (live_run_banner ck now lv' run)" "\<not> carries leads_out no_manifest_notice" "\<not> carries leads_out (run_notices ws bs)"
  "\<not> carries leads_out (run_summary_cards ck run v)" "\<not> carries leads_out (artifact_preview_modal i path lab f)"
  by (auto simp: run_detail_header_def live_run_banner_def live_time_def banner_row_def no_manifest_notice_def run_notices_def
    run_summary_cards_def artifact_preview_modal_def modal_view_def preview_content_def review_indicator_def list_ex_none Let_def
    dest: hrefs_inside split: option.splits)

lemma previews_out [simp]: "carries leads_out (previews_card v) \<longleftrightarrow> list_ex (\<lambda>p. outward (opt_get p ''url'')) (as_list v)"
  by (auto simp: previews_card_def list_ex_map list_ex_iff Let_def)

lemma run_page_out: "carries leads_out (run_detail_page ck now i data err_opt loading upd downloading expanded search_text kind path lab preview)
    \<longleftrightarrow> truthy data \<and> list_ex (\<lambda>p. outward (opt_get p ''url'')) (as_list (opt_get data ''previews''))"
  by (auto simp: run_detail_page_def detail_failed_def detail_skeleton_def detail_cards_def numeral_eq_Suc Let_def
    split: option.splits bool.splits)

section \<open>Settings, dispatch, login and the shell\<close>

lemma muted_inside [simp]: "\<not> carries leads_out (muted s)" "\<not> carries leads_out (code_list vs e)" "\<not> carries leads_out (or_muted k m r)"
  "\<not> carries leads_out (budget_cost v)" "\<not> carries leads_out (budget_tokens v)" "\<not> carries leads_out (budget_wall_clock v)"
  by (simp_all add: muted_def code_list_def or_muted_def budget_cost_def budget_tokens_def budget_wall_clock_def list_ex_none split: option.splits)

definition quiet_col :: "column \<Rightarrow> bool" where "quiet_col c \<longleftrightarrow> (\<forall>r. \<not> carries leads_out (cell_view r c))"

lemma config_table_inside [simp]: "list_all quiet_col cs \<Longrightarrow> \<not> carries leads_out (config_table tt cs rs)"
  by (auto simp: config_table_def quiet_col_def list_all_iff list_ex_iff Let_def)

lemma section_inside [simp]: "carries leads_out (config_section i t d b vs) \<longleftrightarrow> list_ex (carries leads_out) vs"
  "carries leads_out (config_panel t vs) \<longleftrightarrow> list_ex (carries leads_out) vs"
  by (simp_all add: config_section_def config_panel_def)

lemma default_value_inside [simp]: "\<not> carries leads_out (default_value v)"
  by (simp add: default_value_def split: jsval.splits)

lemma quiet_cols [simp]: "quiet_col (plain_col k l)" "quiet_col (mono_col k l)" "quiet_col (name_col k l)" "quiet_col (codes_col k l e)"
  "quiet_col (chip_col k l st)" "quiet_col (render_col k l f) \<longleftrightarrow> (\<forall>r. \<not> carries leads_out (f r))"
  "quiet_col (num_col k l f) \<longleftrightarrow> (\<forall>r. \<not> carries leads_out (f (opt_get r k)))" "quiet_col ((plain_col k l)\<lparr>cl_muted := b\<rparr>)"
  by (simp_all add: quiet_col_def cell_view_def plain_col_def mono_col_def name_col_def codes_col_def chip_col_def render_col_def num_col_def Let_def)

lemma settings_sections_inside [simp]:
  "\<not> carries leads_out (about_card ck c)" "\<not> carries leads_out (infrastructure_section c)" "\<not> carries leads_out (repositories_section c)"
  "\<not> carries leads_out (scopes_section c)" "\<not> carries leads_out (models_section c)" "\<not> carries leads_out (egress_section c)"
  "\<not> carries leads_out (workspaces_section c)" "\<not> carries leads_out (budgets_section c)" "\<not> carries leads_out (review_section c)"
  "\<not> carries leads_out (hardening_section c)" "\<not> carries leads_out (intake_section c)" "\<not> carries leads_out (sandbox_section c)"
  by (simp_all add: about_card_def infrastructure_section_def repositories_section_def scopes_section_def models_section_def
    egress_section_def workspaces_section_def budgets_section_def review_section_def hardening_section_def intake_section_def
    sandbox_section_def items_quiet Let_def)

lemma settings_frame_inside [simp]: "\<not> carries leads_out (settings_header ck c b)" "\<not> list_ex (carries leads_out) (settings_notices data err_opt b)"
  "\<not> carries leads_out settings_skeleton" "\<not> carries leads_out (settings_footer ck c)" "\<not> carries leads_out (section_nav l ss active)"
  by (simp_all add: settings_header_def settings_notices_def failed_notice_def settings_skeleton_def settings_footer_def section_nav_def
    list_ex_none Let_def split: option.splits prod.splits)

lemma settings_page_inside: "\<not> carries leads_out (settings_page ck data err_opt loading active)"
  by (simp add: settings_page_def settings_body_def Let_def)

lemma form_parts_inside [simp]: "carries leads_out (form_field l h e vs) \<longleftrightarrow> list_ex (carries leads_out) vs"
  "\<not> carries leads_out (select_of l v cs)" "\<not> carries leads_out (check_box b)" "\<not> carries leads_out (repository_field data f)"
  by (simp_all add: form_field_def select_of_def check_box_def repository_field_def list_ex_none Let_def)

lemma dispatch_page_inside: "\<not> carries leads_out (dispatch_page ck now data failed recent_loading overview f)"
  by (simp add: dispatch_page_def request_card_def policy_fields_def command_card_def recent_card_def recent_row_def stages_card_def
    stage_view_def list_ex_none Let_def split: option.splits prod.splits)

lemma login_screen_inside: "\<not> carries leads_out (login_screen e f)"
  by (simp add: login_screen_def brand_lockup_def login_form_view_def list_ex_none split: prod.splits)

lemma attention_rows_inside [simp]: "list_all (\<lambda>a. inside (at_href a)) its \<Longrightarrow> \<not> carries leads_out (attention_menu ck now is_open its lg bad h n r)"
  by (auto simp: attention_menu_def attention_body_def attention_row_def attention_skeleton_def reviews_link_def list_all_iff list_ex_map
    list_ex_iff Let_def dest: in_set_takeD)

lemma attention_items_inside: "attention_items data = Some its \<Longrightarrow> list_all (\<lambda>a. inside (at_href a)) its"
  using attention_inside by (simp add: list_all_iff)

lemma chrome_inside [simp]: "\<not> carries leads_out (sidebar m vw session h n theme auto w)" "\<not> carries leads_out (operator_menu o' session theme)"
  "\<not> carries leads_out (shortcuts_dialog o' k)" "carries leads_out (topbar k r w auto b upd theme v' v) \<longleftrightarrow> carries leads_out v' \<or> carries leads_out v"
  by (simp_all add: sidebar_def sidebar_content_def nav_list_def nav_link_def mobile_controls_def system_card_def operator_menu_def
    meta_row_def capability_badges_def shortcuts_dialog_def shortcut_row_def navigate_rows_def topbar_def breadcrumbs_def list_ex_none
    list_ex_map Let_def split: option.splits prod.splits)

lemma shell_view_out:
  "shell_view ck now k session theme w auto data bad loading synced palette v s = Some t
   \<Longrightarrow> carries leads_out t \<longleftrightarrow> sh_overlay s = Some Palette \<and> carries leads_out palette \<or> carries leads_out v"
  by (auto simp: shell_view_def attention_items_inside Let_def)

section \<open>The whole console\<close>


end
