(* ===== verification/Console_App_Facts.thy ===== *)
theory Console_App_Facts imports Console_Shell_Facts Console_Api_Facts Console_Pages_Facts begin

text \<open>
  What the application promises across its parts: the API client announces a rejected credential,
  the session provider reacts, and \<open>App.jsx\<close> shows a page only for a session the server verified.
\<close>

section \<open>Sessions and pages\<close>

definition shell_node :: "string \<times> (string \<times> jsval) list \<Rightarrow> bool" where "shell_node n \<longleftrightarrow> fst n = ''Shell''"

lemma shell_nodes [simp]: "shell_node (t, ps) \<longleftrightarrow> t = ''Shell''"
  by (simp add: shell_node_def)

lemma no_shell [simp]: "\<not> carries shell_node splash" "\<not> carries shell_node (login_screen m f)"
  by (auto simp: splash_def login_screen_def login_form_view_def brand_lockup_def tag_def list_ex_iff Let_def)

lemma page_shown: "carries shell_node (console_view s r th c f) \<longleftrightarrow> sess_status s = Authenticated"
  by (cases "sess_status s") (simp_all add: console_view_def)

lemma unverified_step:
  "\<lbrakk>sess_status (sess p) \<noteq> Authenticated; \<forall>t v. e \<noteq> Verified t v\<rbrakk> \<Longrightarrow> sess_status (sess (session_step set_tkn e p)) \<noteq> Authenticated"
  by (cases e) (simp_all add: login_def begin_load_def loading_session_def load_failed_def on_unauthorized_def logout_def)

lemma unverified_run:
  "\<lbrakk>sess_status (sess p) \<noteq> Authenticated; \<forall>t v. Verified t v \<notin> set es\<rbrakk> \<Longrightarrow> sess_status (sess (session_run set_tkn es p)) \<noteq> Authenticated"
proof (induction es arbitrary: p)
  case (Cons e es)
  have "sess_status (sess (session_step set_tkn e p)) \<noteq> Authenticated"
    using Cons.prems by (intro unverified_step) auto
  from Cons.IH [OF this] Cons.prems(2) show ?case by (simp add: session_run_def)
qed (simp add: session_run_def)



end
