(* ===== verification/Console_Wiring.thy ===== *)
theory Console_Wiring imports Console_Run_Evidence Console_Shell begin

text \<open>
  How the screens are wired to the console API: what each page, the shell and the command
  palette read through \<open>useApi\<close> (path, parameters, when it is enabled, how often it polls, which
  refresh counter restarts it), the requests a run page sends on demand, the requests that
  result, and the change portfolio as a system of its filters, its pager and its data hook.
\<close>

section \<open>What is read\<close>

text \<open>The arguments of \<open>useApi\<close>; \<open>rd_nonce\<close> is the refresh counter of the workspace where the
  page lists it as a dependency.\<close>

record api_read =
  rd_path :: jstr
  rd_params :: "(jstr \<times> jsval) list"
  rd_enabled :: bool
  rd_poll :: nat
  rd_nonce :: "nat option"

definition poll_every :: "nat \<Rightarrow> workspace \<Rightarrow> nat" where
  "poll_every ms ws = (if truthy (ws_auto_refresh ws) then ms else 0)"

definition page_read :: "string \<Rightarrow> (jstr \<times> jsval) list \<Rightarrow> nat \<Rightarrow> workspace \<Rightarrow> api_read" where
  "page_read p ps ms ws = \<lparr>rd_path = js p, rd_params = ps, rd_enabled = True, rd_poll = poll_every ms ws, rd_nonce = Some (ws_nonce ws)\<rparr>"

definition window_param :: "workspace \<Rightarrow> (jstr \<times> jsval) list" where
  "window_param ws = [(js ''window'', ws_window ws)]"

definition overview_read :: "workspace \<Rightarrow> api_read" where "overview_read ws = page_read ''/overview'' (window_param ws) 30000 ws"
definition security_read :: "workspace \<Rightarrow> api_read" where "security_read ws = page_read ''/security'' (window_param ws) 30000 ws"
definition operations_read :: "workspace \<Rightarrow> api_read" where "operations_read ws = page_read ''/operations'' [] 30000 ws"
definition settings_read :: "workspace \<Rightarrow> api_read" where "settings_read ws = page_read ''/catalog'' [] 30000 ws"

definition runs_read :: "workspace \<Rightarrow> run_query \<Rightarrow> api_read" where
  "runs_read ws q = page_read ''/runs'' (run_params (ws_window ws) q) 20000 ws"

definition changes_read :: "workspace \<Rightarrow> jstr \<Rightarrow> change_filters \<Rightarrow> pager \<Rightarrow> api_read" where
  "changes_read ws dq f p = page_read ''/changes'' (change_params dq (ws_window ws) f p) 30000 ws"

definition reviews_read :: "workspace \<Rightarrow> string \<Rightarrow> pager \<Rightarrow> api_read" where
  "reviews_read ws kind p = page_read ''/reviews'' (review_params kind p) 15000 ws"

text \<open>The dispatch page does not use the workspace.\<close>

definition dispatch_reads :: "api_read list" where
  "dispatch_reads =
     [\<lparr>rd_path = js ''/catalog'', rd_params = [], rd_enabled = True, rd_poll = 60000, rd_nonce = None\<rparr>,
      \<lparr>rd_path = js ''/overview'', rd_params = [(js ''window'', lit ''7d'')], rd_enabled = True, rd_poll = 60000, rd_nonce = None\<rparr>]"

text \<open>The two detail pages; \<open>None\<close> is the \<open>URIError\<close> of \<open>encodeURIComponent\<close>.\<close>

definition run_read :: "workspace \<Rightarrow> jstr \<Rightarrow> bool \<Rightarrow> api_read option" where
  "run_read ws i live = map_option (\<lambda>t. \<lparr>rd_path = js ''/runs/'' @ t, rd_params = [], rd_enabled = (i \<noteq> []),
     rd_poll = detail_poll_ms (truthy (ws_auto_refresh ws)) live, rd_nonce = Some (ws_nonce ws)\<rparr>) (encode_uri i)"

definition change_read :: "workspace \<Rightarrow> jstr \<Rightarrow> api_read option" where
  "change_read ws i = map_option (\<lambda>p. \<lparr>rd_path = p, rd_params = [], rd_enabled = (i \<noteq> []), rd_poll = poll_every 30000 ws,
     rd_nonce = Some (ws_nonce ws)\<rparr>) (if i = [] then Some [] else map_option (\<lambda>t. js ''/changes/'' @ t) (encode_uri i))"

definition chrome_read :: "workspace \<Rightarrow> api_read" where
  "chrome_read ws = (overview_read ws)\<lparr>rd_nonce := None\<rparr>"

definition search_read :: "bool \<Rightarrow> jstr \<Rightarrow> api_read" where
  "search_read is_open dq = \<lparr>rd_path = js ''/search'', rd_params = [(js ''q'', Str dq), (js ''limit'', int_val 8)],
     rd_enabled = (is_open \<and> dq \<noteq> []), rd_poll = 0, rd_nonce = None\<rparr>"

text \<open>The state of the pages that their requests depend on.\<close>

record page_state =
  pst_query :: jstr
  pst_filters :: change_filters
  pst_changes :: pager
  pst_kind :: string
  pst_reviews :: pager
  pst_runs :: run_query
  pst_live :: bool

definition page_reads :: "workspace \<Rightarrow> page_state \<Rightarrow> route \<Rightarrow> api_read list option" where
  "page_reads ws s r = (let v = route_view r in
     if v = js ''dispatch'' then Some dispatch_reads
     else if v = js ''runs'' then Some [runs_read ws (pst_runs s)]
     else if v = js ''run'' then map_option (\<lambda>x. [x]) (run_read ws (route_id r) (pst_live s))
     else if v = js ''changes'' then Some [changes_read ws (pst_query s) (pst_filters s) (pst_changes s)]
     else if v = js ''change'' then map_option (\<lambda>x. [x]) (change_read ws (route_id r))
     else if v = js ''reviews'' then Some [reviews_read ws (pst_kind s) (pst_reviews s)]
     else if v = js ''security'' then Some [security_read ws]
     else if v = js ''operations'' then Some [operations_read ws]
     else if v = js ''settings'' then Some [settings_read ws]
     else Some [overview_read ws])"

definition console_reads :: "workspace \<Rightarrow> page_state \<Rightarrow> bool \<Rightarrow> jstr \<Rightarrow> route \<Rightarrow> api_read list option" where
  "console_reads ws s palette_open dq r = map_option (\<lambda>xs. chrome_read ws # search_read palette_open dq # xs) (page_reads ws s r)"

section \<open>What is sent\<close>

text \<open>The effect of \<open>useApi\<close> runs again when one of its dependencies changes; \<open>nonce\<close> is its own
  counter. The request parses the parameters back from their text.\<close>

definition params_key :: "api_read \<Rightarrow> jstr option" where "params_key r = stringify (Obj (rd_params r))"

definition effect_key :: "nat \<Rightarrow> api_read \<Rightarrow> jstr \<times> jstr option \<times> bool \<times> nat \<times> nat \<times> nat option" where
  "effect_key nonce r = (rd_path r, params_key r, rd_enabled r, rd_poll r, nonce, rd_nonce r)"

definition sent_params :: "api_read \<Rightarrow> (jstr \<times> jsval) list" where
  "sent_params r = (case params_key r of None \<Rightarrow> [] | Some t \<Rightarrow> (case json_parse t of Some (Obj ps) \<Rightarrow> ps | _ \<Rightarrow> []))"

definition load_request :: "(jstr \<Rightarrow> jstr) \<Rightarrow> token_state \<Rightarrow> api_read \<Rightarrow> sent_request" where
  "load_request pathname tk r = build_request pathname tk (rd_path r) (api_get_options (sent_params r))"

text \<open>The request that verifies a token.\<close>

definition session_request :: "(jstr \<Rightarrow> jstr) \<Rightarrow> token_state \<Rightarrow> jstr \<Rightarrow> sent_request" where
  "session_request pathname tk candidate = build_request pathname tk (js ''/session'') (verify_options candidate)"

text \<open>What a run page sends on demand: the text of the patch, one evidence file, the download.\<close>

definition patch_request :: "(jstr \<Rightarrow> jstr) \<Rightarrow> token_state \<Rightarrow> jstr \<Rightarrow> sent_request option" where
  "patch_request pathname tk i = map_option (\<lambda>t. build_request pathname tk (js ''/runs/'' @ t @ js ''/patch'') (api_text_options []))
     (encode_uri i)"

definition artifact_request :: "(jstr \<Rightarrow> jstr) \<Rightarrow> token_state \<Rightarrow> jstr \<Rightarrow> jsval \<Rightarrow> sent_request option" where
  "artifact_request pathname tk i p = map_option (\<lambda>t. build_request pathname tk (js ''/runs/'' @ t @ js ''/artifacts'')
     (api_get_options [(js ''path'', p)])) (encode_uri i)"

text \<open>The path of the download has a query of its own; \<open>url.search\<close> gives it back.\<close>

definition download_request :: "(jstr \<Rightarrow> jstr) \<Rightarrow> token_state \<Rightarrow> jstr \<Rightarrow> sent_request option" where
  "download_request pathname tk i = map_option (\<lambda>t.
     \<lparr>sent_url = pathname (BASE @ js ''/runs/'' @ t @ js ''/patch'') @ js ''?download=true'', sent_method = js ''GET'',
      sent_headers = request_headers tk (js ''application/octet-stream'') None\<rparr>) (encode_uri i)"

end
