(* ===== verification/Console_Wiring_Facts.thy ===== *)
theory Console_Wiring_Facts imports Console_Wiring Console_Url_Facts begin

text \<open>
  What the wiring of the screens promises: whatever the address bar holds, every request of the
  console reads one of the endpoints of the console API, and the id of a run or change stays one segment
  of its path; and which reads the refresh switch and the refresh button reach.
\<close>

section \<open>Decoded hashes\<close>

lemma two_byte_unit: "194 \<le> a \<Longrightarrow> a < 224 \<Longrightarrow> is_cont b \<Longrightarrow> (a - 192) * 64 + (b - 128) < (2048::nat)"
  by (auto simp: is_cont_def)

lemma three_byte_unit:
  assumes "224 \<le> a" "a < 240" "second_ok a b" "is_cont c"
  shows "(a - 224) * 4096 + (b - 128) * 64 + (c - 128) < (65536::nat)"
    "\<not> is_high ((a - 224) * 4096 + (b - 128) * 64 + (c - 128))" "\<not> is_low ((a - 224) * 4096 + (b - 128) * 64 + (c - 128))"
proof -
  let ?v = "(a - 224) * 4096 + (b - 128) * 64 + (c - 128)"
  have bc: "b - 128 < 64" "c - 128 < 64" "a = 237 \<longrightarrow> b - 128 < 32" using assms by (auto simp: second_ok_def is_cont_def)
  consider "a - 224 \<le> 12" | "a = 237" | "14 \<le> a - 224" "a - 224 \<le> 15" using assms by linarith
  then have "?v < 55296 \<or> 57344 \<le> ?v \<and> ?v < 65536" using bc by cases auto
  then show "?v < 65536" "\<not> is_high ?v" "\<not> is_low ?v" by (auto simp: is_high_def is_low_def)
qed

lemma four_byte_units:
  assumes "240 \<le> a" "a < 245" "second_ok a b" "is_cont c" "is_cont d" "wf16 t"
  shows "wf16 (code_units ((a - 240) * 262144 + (b - 128) * 4096 + (c - 128) * 64 + (d - 128)) @ t)"
proof -
  define v where "v = (a - 240) * 262144 + (b - 128) * 4096 + (c - 128) * 64 + (d - 128)"
  have bs: "b - 128 < 64" "c - 128 < 64" "d - 128 < 64" "a = 240 \<longrightarrow> 16 \<le> b - 128" "a = 244 \<longrightarrow> b - 128 < 16"
    using assms by (auto simp: second_ok_def is_cont_def)
  consider "a = 240" | "1 \<le> a - 240" "a - 240 \<le> 3" | "a = 244" using assms by linarith
  then have "65536 \<le> v \<and> v < 1114112" unfolding v_def using bs by cases auto
  then show ?thesis using assms(6) unfolding v_def [symmetric] by (auto simp: code_units_def is_high_def is_low_def)
qed

lemma join_pieces_wf: "(\<forall>c. Unit c \<in> set ps \<longrightarrow> c < 128) \<Longrightarrow> join_pieces ps = Some t \<Longrightarrow> wf16 t"
proof (induction ps arbitrary: t rule: join_pieces.induct)
  case (2 c ps)
  then show ?case by (auto simp: is_high_def is_low_def)
next
  case (3 a ps)
  consider "a < 128" | "194 \<le> a" "a < 224" | "224 \<le> a" "a < 240" | "240 \<le> a" "a < 245"
    using "3.prems"(2) by (fastforce split: if_splits)
  then show ?case
  proof cases
    case 1
    with 3 show ?thesis by (auto simp: is_high_def is_low_def)
  next
    case 2
    then obtain b qs u where "ps = Byte b # qs" "is_cont b" "join_pieces qs = Some u" "t = ((a - 192) * 64 + (b - 128)) # u"
      using "3.prems"(2) by (auto split: list.splits piece.splits if_splits)
    with 2 "3.IH"(2) "3.prems"(1) two_byte_unit [OF 2, of b] show ?thesis by (auto simp: is_high_def is_low_def)
  next
    case b: 3
    then obtain b c qs u where "ps = Byte b # Byte c # qs" "second_ok a b" "is_cont c" "join_pieces qs = Some u"
        "t = ((a - 224) * 4096 + (b - 128) * 64 + (c - 128)) # u"
      using "3.prems"(2) by (auto split: list.splits piece.splits if_splits)
    with b "3.IH"(3) "3.prems"(1) three_byte_unit [OF b, of b c] show ?thesis by auto
  next
    case b: 4
    then obtain b c d qs u where "ps = Byte b # Byte c # Byte d # qs" "second_ok a b" "is_cont c" "is_cont d" "join_pieces qs = Some u"
        "t = code_units ((a - 240) * 262144 + (b - 128) * 4096 + (c - 128) * 64 + (d - 128)) @ u"
      using "3.prems"(2) by (auto split: list.splits piece.splits if_splits)
    with b "3.IH"(4) "3.prems"(1) four_byte_units [OF b, of b c d u] show ?thesis by auto
  qed
qed simp

lemma pieces_units: "pieces s = Some ps \<Longrightarrow> Unit c \<in> set ps \<Longrightarrow> c \<in> set s"
proof (induction s arbitrary: ps rule: pieces.induct)
  case (2 a s)
  then show ?case by (fastforce split: if_splits list.splits option.splits)
qed simp

lemma decode_uri_wf: "\<forall>c \<in> set s. c < 128 \<Longrightarrow> decode_uri s = Some t \<Longrightarrow> wf16 t"
  using join_pieces_wf pieces_units by (fastforce simp: decode_uri_def split: option.splits)

lemma strip_hash_set: "set (strip_hash h) \<subseteq> set h"
  by (auto simp: strip_hash_def split: list.splits if_splits)

lemma strip_trailing_set: "set (strip_trailing c s) \<subseteq> set s"
  by (auto simp: strip_trailing_def dest: set_dropWhileD)

lemma split_on_set: "w \<in> set (split_on c s) \<Longrightarrow> x \<in> set w \<Longrightarrow> x \<in> set s"
proof (induction c s arbitrary: w rule: split_on.induct)
  case (2 c y xs)
  from "2.prems" have "x \<in> set w \<Longrightarrow> x \<noteq> y \<Longrightarrow> \<exists>u \<in> set (split_on c xs). x \<in> set u"
    by (cases "split_on c xs") (auto split: if_splits)
  with 2 show ?case by fastforce
qed simp

lemma join_with_set: "x \<in> set (join_with sep ws) \<Longrightarrow> x \<in> set sep \<or> (\<exists>w \<in> set ws. x \<in> set w)"
  by (induction sep ws rule: join_with.induct) auto

lemma route_id_cases: "route_id (route_from_hash h) = [] \<or>
    (\<exists>s. decode_uri s = Some (route_id (route_from_hash h)) \<and> (\<forall>c \<in> set s. c = 47 \<or> c \<in> set h))"
proof -
  define v where "v = strip_trailing 47 (strip_hash h)"
  have "c = 47 \<or> c \<in> set h" if "c \<in> set (join_with [47] (tl (split_on 47 v)))" for c
  proof -
    have "c = 47 \<or> c \<in> set v"
      using join_with_set [OF that] split_on_set [of _ 47 v c] list.set_sel(2) [of "split_on 47 v"] by auto
    then show ?thesis using strip_hash_set [of h] strip_trailing_set [of 47 "strip_hash h"] unfolding v_def by blast
  qed
  then show ?thesis
    unfolding route_from_hash_def Let_def v_def [symmetric] by (auto simp: to_route_def split: option.splits)
qed

lemma route_id_wf: "\<forall>c \<in> set h. c < 128 \<Longrightarrow> wf16 (route_id (route_from_hash h))"
proof -
  assume a: "\<forall>c \<in> set h. c < 128"
  from route_id_cases [of h] show ?thesis
  proof
    assume "\<exists>s. decode_uri s = Some (route_id (route_from_hash h)) \<and> (\<forall>c \<in> set s. c = 47 \<or> c \<in> set h)"
    then obtain s where s: "decode_uri s = Some (route_id (route_from_hash h))" "\<forall>c \<in> set s. c = 47 \<or> c \<in> set h" by blast
    then have "\<forall>c \<in> set s. c < 128" using a by auto
    then show ?thesis using s(1) decode_uri_wf by blast
  qed simp
qed

lemma route_id_valid: "route_view (route_from_hash h) \<in> {js ''run'', js ''change''} \<Longrightarrow> valid_detail_id (route_id (route_from_hash h))"
proof -
  have "js ''overview'' \<notin> {js ''run'', js ''change''}" "js ''runs'' \<notin> {js ''run'', js ''change''}" "js ''changes'' \<notin> {js ''run'', js ''change''}"
      "p \<in> set PAGES \<Longrightarrow> p \<notin> {js ''run'', js ''change''}" for p
    by (auto simp: PAGES_def)
  then show "route_view (route_from_hash h) \<in> {js ''run'', js ''change''} \<Longrightarrow> valid_detail_id (route_id (route_from_hash h))"
    by (auto simp: route_from_hash_def to_route_def Let_def split: if_splits)
qed

section \<open>Requests beneath the API\<close>

text \<open>One segment that the URL parser leaves alone: no separator, no escape of a dot segment.\<close>

definition safe_segment :: "jstr \<Rightarrow> bool" where
  "safe_segment s \<longleftrightarrow> s \<noteq> [] \<and> list_all uri_char s \<and> decode_uri s \<notin> {Some (js ''.''), Some (js ''..'')}"

definition parsed_as_is :: "jstr \<Rightarrow> bool" where
  "parsed_as_is p \<longleftrightarrow> hd (split_on 47 p) = [] \<and> list_all safe_segment (tl (split_on 47 p))"

text \<open>The endpoints the console reads.\<close>

definition ENDPOINTS :: "jstr list" where
  "ENDPOINTS = map js [''overview'', ''catalog'', ''runs'', ''changes'', ''reviews'', ''security'', ''operations'', ''search'', ''session'']"

definition api_path :: "jstr \<Rightarrow> bool" where
  "api_path p \<longleftrightarrow> (case split_on 47 p of
     [a, b] \<Rightarrow> a = [] \<and> b \<in> set ENDPOINTS
   | [a, b, i] \<Rightarrow> a = [] \<and> (b = js ''runs'' \<or> b = js ''changes'') \<and> safe_segment i
   | [a, b, i, d] \<Rightarrow> a = [] \<and> b = js ''runs'' \<and> safe_segment i \<and> (d = js ''patch'' \<or> d = js ''artifacts'')
   | _ \<Rightarrow> False)"

definition beneath_api :: "sent_request \<Rightarrow> bool" where
  "beneath_api q \<longleftrightarrow> (let p = takeWhile (\<lambda>c. c \<noteq> 63) (sent_url q) in
     sent_method q = js ''GET'' \<and> starts_with p BASE \<and> api_path (drop (length BASE) p))"

lemma safe_encoded:
  assumes "valid_detail_id i" "wf16 i"
  obtains t where "encode_uri i = Some t" "safe_segment t"
proof -
  obtain t where t: "encode_uri i = Some t" using encode_uri_wf [OF assms(2)] by auto
  have "decode_uri t = Some i" by (rule decode_encode_uri [OF assms(2) t])
  moreover have "t \<noteq> []" using encode_uri_not_Nil [OF t] assms(1) by (simp add: valid_detail_id_def)
  ultimately have "safe_segment t"
    using encode_uri_chars [OF assms(2) t] assms(1) by (auto simp: safe_segment_def list_all_iff valid_detail_id_def)
  with t show ?thesis by (rule that)
qed

lemma safe_words: "safe_segment (js ''api'')" "safe_segment (js ''v1'')" "safe_segment (js ''console'')" "safe_segment (js ''patch'')"
  "safe_segment (js ''artifacts'')" "b \<in> set ENDPOINTS \<Longrightarrow> safe_segment b"
  by (auto simp: safe_segment_def ENDPOINTS_def js_def decode_uri_def uri_char_def uri_plain_def is_alpha_def is_digit_def)

lemma seg_no_slash: "safe_segment s \<Longrightarrow> 47 \<notin> set s \<and> 63 \<notin> set s"
  by (auto simp: safe_segment_def list_all_iff)

lemma split_path: "list_all safe_segment ss \<Longrightarrow> split_on 47 (concat (map (\<lambda>s. 47 # s) ss)) = [] # ss"
proof (induction ss)
  case (Cons s ss)
  then have s: "47 \<notin> set s" by (simp add: seg_no_slash)
  show ?case
  proof (cases ss)
    case Nil
    then show ?thesis using s by (simp add: split_on_no_sep)
  next
    case (Cons u us)
    have "split_on 47 (s @ concat (map (\<lambda>s. 47 # s) ss)) = s # tl (split_on 47 (concat (map (\<lambda>s. 47 # s) ss)))"
      using s Cons by (simp add: split_on_append)
    then show ?thesis using Cons.IH Cons.prems by simp
  qed
qed simp

definition path_of :: "jstr list \<Rightarrow> jstr" where "path_of ss = concat (map (\<lambda>s. 47 # s) ss)"

lemma plain_base: "list_all safe_segment ss \<Longrightarrow> parsed_as_is (BASE @ path_of ss)"
proof -
  assume a: "list_all safe_segment ss"
  have "BASE @ path_of ss = concat (map (\<lambda>s. 47 # s) (js ''api'' # js ''v1'' # js ''console'' # ss))"
    by (simp add: BASE_def path_of_def js_def)
  then show ?thesis using a split_path [of "js ''api'' # js ''v1'' # js ''console'' # ss"] by (simp add: parsed_as_is_def safe_words)
qed

text \<open>The browser's URL parser leaves such paths alone; then a request for one stays beneath the API.\<close>

definition keeps_paths :: "(jstr \<Rightarrow> jstr) \<Rightarrow> bool" where
  "keeps_paths pathname \<longleftrightarrow> (\<forall>p. parsed_as_is p \<longrightarrow> pathname p = p)"

lemma sent_beneath:
  assumes url: "keeps_paths pathname" and ss: "list_all safe_segment ss" "api_path (path_of ss)"
    and q: "sent_method q = js ''GET''" "sent_url q = pathname (BASE @ path_of ss) @ t" "t = [] \<or> hd t = 63"
  shows "beneath_api q"
proof -
  have u: "sent_url q = (BASE @ path_of ss) @ t" using url plain_base [OF ss(1)] q(2) by (simp add: keeps_paths_def)
  have "63 \<notin> set (path_of ss)" using ss(1) by (auto simp: path_of_def list_all_iff dest: seg_no_slash)
  then have "\<forall>c \<in> set (BASE @ path_of ss). c \<noteq> 63" by (auto simp: BASE_def js_def)
  then have "takeWhile (\<lambda>c. c \<noteq> 63) (sent_url q) = BASE @ path_of ss"
    unfolding u using q(3) by (cases t) (auto simp: takeWhile_append2)
  then show ?thesis using q(1) ss(2) by (simp add: beneath_api_def starts_with_def Let_def)
qed

lemma query_head: "query_text q = [] \<or> hd (query_text q) = 63"
  by (simp add: query_text_def)

lemma built_beneath:
  assumes "keeps_paths pathname" "list_all safe_segment ss" "api_path (path_of ss)" "req_method o' = js ''GET''"
  shows "beneath_api (build_request pathname tk (path_of ss) o')"
  using assms query_head by (intro sent_beneath [OF _ assms(2,3)]) (auto simp: build_request_def build_url_def)

lemma get_methods [simp]: "req_method (api_get_options ps) = js ''GET''" "req_method (api_text_options ps) = js ''GET''"
  "req_method (verify_options t) = js ''GET''"
  by (simp_all add: api_get_options_def api_text_options_def verify_options_def default_options_def)

lemma built_endpoint: "keeps_paths pathname \<Longrightarrow> b \<in> set ENDPOINTS \<Longrightarrow> req_method o' = js ''GET'' \<Longrightarrow> beneath_api (build_request pathname tk (path_of [b]) o')"
proof (rule built_beneath)
  assume b: "b \<in> set ENDPOINTS"
  then show ok: "list_all safe_segment [b]" by (simp add: safe_words)
  then show "api_path (path_of [b])" using b by (simp add: api_path_def path_of_def split_on_no_sep seg_no_slash)
qed

lemma endpoint_read:
  assumes "keeps_paths pathname" "rd_path r = path_of [b]" "b \<in> set ENDPOINTS"
  shows "beneath_api (load_request pathname tk r)"
  unfolding load_request_def assms(2) by (rule built_endpoint [OF assms(1,3)]) simp

lemma session_beneath: "keeps_paths pathname \<Longrightarrow> beneath_api (session_request pathname tk t)"
proof -
  have "js ''/session'' = path_of [js ''session'']" "js ''session'' \<in> set ENDPOINTS" by (simp_all add: path_of_def ENDPOINTS_def js_def)
  then show "keeps_paths pathname \<Longrightarrow> beneath_api (session_request pathname tk t)"
    unfolding session_request_def by (simp only: built_endpoint get_methods)
qed

lemma segment_paths:
  assumes "safe_segment t"
  shows "list_all safe_segment [js ''runs'', t]" "api_path (path_of [js ''runs'', t])" "list_all safe_segment [js ''changes'', t]"
    "api_path (path_of [js ''changes'', t])" "list_all safe_segment [js ''runs'', t, js ''patch'']" "api_path (path_of [js ''runs'', t, js ''patch''])"
    "list_all safe_segment [js ''runs'', t, js ''artifacts'']" "api_path (path_of [js ''runs'', t, js ''artifacts''])"
proof -
  have w: "safe_segment (js ''runs'')" "safe_segment (js ''changes'')" by (rule safe_words(6), simp add: ENDPOINTS_def)+
  note ok = w safe_words assms
  show "list_all safe_segment [js ''runs'', t]" "list_all safe_segment [js ''changes'', t]"
      "list_all safe_segment [js ''runs'', t, js ''patch'']" "list_all safe_segment [js ''runs'', t, js ''artifacts'']" using ok by simp_all
  then show "api_path (path_of [js ''runs'', t])" "api_path (path_of [js ''changes'', t])" "api_path (path_of [js ''runs'', t, js ''patch''])"
      "api_path (path_of [js ''runs'', t, js ''artifacts''])"
    using assms unfolding api_path_def path_of_def by (simp_all only: split_path list.case) simp_all
qed

lemma detail_paths:
  assumes "keeps_paths pathname" "valid_detail_id i" "wf16 i"
  shows "case run_read ws i live of None \<Rightarrow> False | Some r \<Rightarrow> beneath_api (load_request pathname tk r)"
    "case change_read ws i of None \<Rightarrow> False | Some r \<Rightarrow> beneath_api (load_request pathname tk r)"
    "case patch_request pathname tk i of None \<Rightarrow> False | Some q \<Rightarrow> beneath_api q"
    "case artifact_request pathname tk i p of None \<Rightarrow> False | Some q \<Rightarrow> beneath_api q"
    "case download_request pathname tk i of None \<Rightarrow> False | Some q \<Rightarrow> beneath_api q"
proof -
  obtain t where t: "encode_uri i = Some t" "safe_segment t" by (rule safe_encoded [OF assms(2,3)])
  have i: "i \<noteq> []" using assms(2) by (simp add: valid_detail_id_def)
  have p: "js ''/runs/'' @ t = path_of [js ''runs'', t]" "js ''/changes/'' @ t = path_of [js ''changes'', t]"
      "js ''/runs/'' @ t @ js ''/patch'' = path_of [js ''runs'', t, js ''patch'']"
      "js ''/runs/'' @ t @ js ''/artifacts'' = path_of [js ''runs'', t, js ''artifacts'']"
    by (simp_all add: path_of_def js_def)
  note b = built_beneath [OF assms(1)]
  note ok = b [OF segment_paths(1,2) [OF t(2)]] b [OF segment_paths(3,4) [OF t(2)]] b [OF segment_paths(5,6) [OF t(2)]]
    b [OF segment_paths(7,8) [OF t(2)]]
  show "case run_read ws i live of None \<Rightarrow> False | Some r \<Rightarrow> beneath_api (load_request pathname tk r)"
    "case change_read ws i of None \<Rightarrow> False | Some r \<Rightarrow> beneath_api (load_request pathname tk r)"
    "case patch_request pathname tk i of None \<Rightarrow> False | Some q \<Rightarrow> beneath_api q"
    "case artifact_request pathname tk i p of None \<Rightarrow> False | Some q \<Rightarrow> beneath_api q"
    using i by (simp_all add: run_read_def change_read_def load_request_def patch_request_def artifact_request_def t(1) p ok)
  show "case download_request pathname tk i of None \<Rightarrow> False | Some q \<Rightarrow> beneath_api q"
    using segment_paths [OF t(2)] by (auto simp: download_request_def t(1) p intro!: sent_beneath [OF assms(1), of "[js ''runs'', t, js ''patch'']"]) (simp_all add: js_def)
qed

lemma page_paths: "rd_path (overview_read ws) = path_of [js ''overview'']" "rd_path (security_read ws) = path_of [js ''security'']"
  "rd_path (operations_read ws) = path_of [js ''operations'']" "rd_path (settings_read ws) = path_of [js ''catalog'']"
  "rd_path (runs_read ws q) = path_of [js ''runs'']" "rd_path (changes_read ws dq f p) = path_of [js ''changes'']"
  "rd_path (reviews_read ws kind p) = path_of [js ''reviews'']" "rd_path (chrome_read ws) = path_of [js ''overview'']"
  "rd_path (search_read b dq) = path_of [js ''search'']"
  by (simp_all add: overview_read_def security_read_def operations_read_def settings_read_def runs_read_def changes_read_def
    reviews_read_def chrome_read_def search_read_def page_read_def path_of_def js_def)

text \<open>The page reads one endpoint each.\<close>

definition reads_endpoint :: "api_read \<Rightarrow> bool" where "reads_endpoint r \<longleftrightarrow> (\<exists>b \<in> set ENDPOINTS. rd_path r = path_of [b])"

lemma endpoint_words: "js ''overview'' \<in> set ENDPOINTS" "js ''catalog'' \<in> set ENDPOINTS" "js ''runs'' \<in> set ENDPOINTS" "js ''changes'' \<in> set ENDPOINTS"
  "js ''reviews'' \<in> set ENDPOINTS" "js ''security'' \<in> set ENDPOINTS" "js ''operations'' \<in> set ENDPOINTS" "js ''search'' \<in> set ENDPOINTS"
  by (simp_all add: ENDPOINTS_def)

lemma reads_endpointI: "rd_path r = path_of [b] \<Longrightarrow> b \<in> set ENDPOINTS \<Longrightarrow> reads_endpoint r"
  by (auto simp: reads_endpoint_def)

lemma pages_read_endpoints: "reads_endpoint (overview_read ws)" "reads_endpoint (security_read ws)" "reads_endpoint (operations_read ws)"
  "reads_endpoint (settings_read ws)" "reads_endpoint (runs_read ws q)" "reads_endpoint (changes_read ws dq f p)"
  "reads_endpoint (reviews_read ws kind p)" "reads_endpoint (chrome_read ws)" "reads_endpoint (search_read b dq)"
  by (rule reads_endpointI, rule page_paths, rule endpoint_words)+

lemma dispatch_endpoints: "list_all reads_endpoint dispatch_reads"
proof -
  have "js ''/catalog'' = path_of [js ''catalog'']" "js ''/overview'' = path_of [js ''overview'']" by (simp_all add: path_of_def js_def)
  then show ?thesis
    unfolding dispatch_reads_def list.pred_inject by (intro conjI TrueI reads_endpointI [OF _ endpoint_words(2)] reads_endpointI [OF _ endpoint_words(1)]) simp_all
qed

lemma endpoint_beneath: "keeps_paths pathname \<Longrightarrow> reads_endpoint r \<Longrightarrow> beneath_api (load_request pathname tk r)"
  using endpoint_read unfolding reads_endpoint_def by blast

lemma page_beneath:
  assumes "keeps_paths pathname" "\<forall>c \<in> set h. c < 128"
  shows "case page_reads ws s (route_from_hash h) of None \<Rightarrow> False | Some rs \<Rightarrow> list_all (\<lambda>r. beneath_api (load_request pathname tk r)) rs"
proof -
  let ?r = "route_from_hash h"
  have "route_view ?r = js ''run'' \<or> route_view ?r = js ''change'' \<Longrightarrow> valid_detail_id (route_id ?r)"
    using route_id_valid [of h] by blast
  note detail = detail_paths(1,2) [OF assms(1) this route_id_wf [OF assms(2)], where tk = tk and ws = ws]
  note page = pages_read_endpoints(1-7) [THEN endpoint_beneath [OF assms(1)]]
  have disp: "list_all (\<lambda>r. beneath_api (load_request pathname tk r)) dispatch_reads"
    using dispatch_endpoints endpoint_beneath [OF assms(1)] by (auto simp: list_all_iff)
  consider (run) "route_view ?r = js ''run''" | (change) "route_view ?r = js ''change''"
    | (other) "route_view ?r \<noteq> js ''run''" "route_view ?r \<noteq> js ''change''" by blast
  then show ?thesis
  proof cases
    case run
    then show ?thesis using detail(1) [of "pst_live s"] by (auto simp: page_reads_def Let_def split: option.splits)
  next
    case change
    then show ?thesis using detail(2) by (auto simp: page_reads_def Let_def split: option.splits)
  next
    case other
    then show ?thesis using page disp by (simp add: page_reads_def Let_def)
  qed
qed


definition odd_hash :: jstr where "odd_hash = js ''#/runs/a%3Fb%23c''"

lemma odd_route: "route_from_hash odd_hash = to_route (js ''run'') (js ''a?b#c'')"
  by code_simp


section \<open>Refreshing\<close>

text \<open>With the refresh switch off the shell, the palette and every page but the dispatch page stop polling;
  the dispatch page reads no setting of the workspace, so that neither the switch nor the refresh button
  reaches its reads.\<close>

lemma switch_off:
  assumes "\<not> truthy (ws_auto_refresh ws)"
  shows "case console_reads ws s is_open dq r of None \<Rightarrow> True
    | Some rs \<Rightarrow> list_all (\<lambda>x. rd_poll x = 0) rs \<longleftrightarrow> route_view r \<noteq> js ''dispatch''"
  using assms
  by (auto simp: console_reads_def page_reads_def chrome_read_def search_read_def overview_read_def security_read_def operations_read_def
    settings_read_def runs_read_def changes_read_def reviews_read_def page_read_def poll_every_def run_read_def change_read_def
    detail_poll_ms_def dispatch_reads_def Let_def split: option.splits)

lemma dispatch_ignores_workspace: "page_reads ws s (to_route (js ''dispatch'') []) = page_reads ws' s' (to_route (js ''dispatch'') [])"
  by (simp add: page_reads_def to_route_def)

text \<open>The refresh button runs the read of every other page again.\<close>

lemma refresh_reaches:
  assumes "route_view r \<noteq> js ''dispatch''" "page_reads ws s r = Some rs" "page_reads (refresh_all ws) s r = Some rs'"
  shows "list_all2 (\<lambda>x y. effect_key n x \<noteq> effect_key n y) rs rs'"
  using assms
  by (auto simp: page_reads_def refresh_all_def overview_read_def security_read_def operations_read_def settings_read_def runs_read_def
    changes_read_def reviews_read_def page_read_def run_read_def change_read_def effect_key_def Let_def split: if_splits)

end
