(* ===== verification/Console_Listing.thy ===== *)
theory Console_Listing imports Console_Wiring Console_Api_Facts begin

text \<open>
  The change portfolio at work: its filters, its cursor pager and its data hook as one system. A
  render that changes the parameters of the request runs the effect of \<open>useApi\<close> again; filters,
  paging, answers, failures, polls and refreshes interleave freely. The list of requests and of the
  cursors handed out are kept beside the state; the code has no such lists.
\<close>

record listing =
  li_query :: jstr
  li_window :: jsval
  li_filters :: change_filters
  li_pager :: pager
  li_hook :: hook
  li_asked :: "(nat \<times> jstr \<times> jstr) list"  \<comment> \<open>number, filter key and cursor of every request\<close>
  li_shown :: "nat option"  \<comment> \<open>the request whose answer is shown\<close>
  li_handed :: "(jstr \<times> jstr) list"  \<comment> \<open>filter key and next cursor of every answer taken\<close>

definition li_key :: "listing \<Rightarrow> jstr" where "li_key l = change_filter_key (li_query l) (li_window l) (li_filters l)"
definition li_cursor :: "listing \<Rightarrow> jstr" where "li_cursor l = p_cursor (current_pager (li_key l) (li_pager l))"

definition li_params :: "listing \<Rightarrow> jsval" where
  "li_params l = Obj (change_params (li_query l) (li_window l) (li_filters l) (li_pager l))"

definition run_again :: "listing \<Rightarrow> listing" where
  "run_again l = (let h = run_effect_hook True (cleanup_run (request_id (li_hook l)) (li_hook l)) in
     l\<lparr>li_hook := h, li_asked := li_asked l @ [(request_id h, li_key l, li_cursor l)]\<rparr>)"

text \<open>The render of \<open>l\<close> after that of \<open>old\<close>.\<close>

definition rendered :: "listing \<Rightarrow> listing \<Rightarrow> listing" where
  "rendered old l = (if stringify (li_params l) = stringify (li_params old) then l else run_again l)"

definition mounted :: "jstr \<Rightarrow> jsval \<Rightarrow> change_filters \<Rightarrow> listing" where
  "mounted dq w f = (let k = change_filter_key dq w f; h = run_effect_hook True (init_hook True) in
     \<lparr>li_query = dq, li_window = w, li_filters = f, li_pager = first_page k, li_hook = h,
      li_asked = [(request_id h, k, [])], li_shown = None, li_handed = []\<rparr>)"

definition set_filters :: "jstr \<Rightarrow> jsval \<Rightarrow> change_filters \<Rightarrow> listing \<Rightarrow> listing" where
  "set_filters dq w f l = rendered l (l\<lparr>li_query := dq, li_window := w, li_filters := f,
     li_pager := sync_pager (change_filter_key dq w f) (li_pager l)\<rparr>)"

text \<open>\<open>page.next_cursor\<close> of an answer.\<close>

definition next_cursor_of :: "jsval \<Rightarrow> jstr" where
  "next_cursor_of v = (case opt_get (opt_get v ''page'') ''next_cursor'' of Str c \<Rightarrow> c | _ \<Rightarrow> [])"

definition offered_cursor :: "listing \<Rightarrow> jstr" where
  "offered_cursor l = (case hook_data (shown (li_hook l)) of None \<Rightarrow> [] | Some v \<Rightarrow> next_cursor_of v)"

definition next_enabled :: "listing \<Rightarrow> bool" where
  "next_enabled l \<longleftrightarrow> \<not> hook_loading (shown (li_hook l)) \<and> offered_cursor l \<noteq> []"

definition prev_enabled :: "listing \<Rightarrow> bool" where
  "prev_enabled l \<longleftrightarrow> \<not> hook_loading (shown (li_hook l)) \<and> can_prev (li_key l) (li_pager l)"

definition click_next :: "listing \<Rightarrow> listing" where
  "click_next l = rendered l (l\<lparr>li_pager := go_next (li_key l) (offered_cursor l) (li_pager l)\<rparr>)"

definition click_prev :: "listing \<Rightarrow> listing" where
  "click_prev l = rendered l (l\<lparr>li_pager := go_prev (li_key l) (li_pager l)\<rparr>)"

definition key_asked :: "listing \<Rightarrow> nat \<Rightarrow> jstr option" where
  "key_asked l n = map_option fst (map_of (li_asked l) n)"

definition answered :: "bool \<Rightarrow> nat \<Rightarrow> jsval \<Rightarrow> listing \<Rightarrow> listing" where
  "answered polling i v l = (let l' = l\<lparr>li_hook := settle_load polling i (Inr v) (li_hook l)\<rparr> in
     if ignored i (li_hook l) then l'
     else l'\<lparr>li_shown := Some i, li_handed := (case key_asked l i of None \<Rightarrow> li_handed l | Some k \<Rightarrow> (k, next_cursor_of v) # li_handed l)\<rparr>)"

definition failed_load :: "bool \<Rightarrow> nat \<Rightarrow> request_error \<Rightarrow> listing \<Rightarrow> listing" where
  "failed_load polling i e l = l\<lparr>li_hook := settle_load polling i (Inl e) (li_hook l)\<rparr>"

text \<open>A failure is harmless when it is not shown, or when the data on the screen answer a request for
  the same filters.\<close>

definition harmless :: "nat \<Rightarrow> request_error \<Rightarrow> listing \<Rightarrow> bool" where
  "harmless i e l \<longleftrightarrow> e = Aborted \<or> ignored i (li_hook l)
     \<or> (case li_shown l of None \<Rightarrow> True | Some n \<Rightarrow> key_asked l n = key_asked l i)"

inductive listing_reach :: "bool \<Rightarrow> bool \<Rightarrow> listing \<Rightarrow> bool" for polling any_failure where
  mount: "json_ok (li_params (mounted dq w f)) \<Longrightarrow> listing_reach polling any_failure (mounted dq w f)"
| filters: "listing_reach polling any_failure l \<Longrightarrow> json_ok (li_params (set_filters dq w f l))
    \<Longrightarrow> listing_reach polling any_failure (set_filters dq w f l)"
| next_page: "listing_reach polling any_failure l \<Longrightarrow> next_enabled l \<Longrightarrow> json_ok (li_params (click_next l))
    \<Longrightarrow> listing_reach polling any_failure (click_next l)"
| prev_page: "listing_reach polling any_failure l \<Longrightarrow> prev_enabled l \<Longrightarrow> json_ok (li_params (click_prev l))
    \<Longrightarrow> listing_reach polling any_failure (click_prev l)"
| refresh: "listing_reach polling any_failure l \<Longrightarrow> listing_reach polling any_failure (run_again l)"
| answer: "listing_reach polling any_failure l \<Longrightarrow> i \<in> set (in_flight (li_hook l))
    \<Longrightarrow> listing_reach polling any_failure (answered polling i v l)"
| failure: "listing_reach polling any_failure l \<Longrightarrow> i \<in> set (in_flight (li_hook l)) \<Longrightarrow> any_failure \<or> harmless i e l
    \<Longrightarrow> listing_reach polling any_failure (failed_load polling i e l)"
| timer: "listing_reach polling any_failure l \<Longrightarrow> t \<in> set (timers (li_hook l))
    \<Longrightarrow> listing_reach polling any_failure (l\<lparr>li_hook := fire hidden t (li_hook l)\<rparr>)"

end
