(* ===== verification/Console_Listing_Facts.thy ===== *)
theory Console_Listing_Facts imports Console_Listing Console_Lists_Facts begin

text \<open>
  What paging promises: a cursor is sent only with the filters whose answer handed it out, as long as
  no request for new filters fails while the old answer is shown; with such a failure the
  old answer's cursor goes out with the new filters.
\<close>

section \<open>Parameters and keys\<close>

lemma stringify_inj: "json_ok v \<Longrightarrow> json_ok w \<Longrightarrow> stringify v = stringify w \<Longrightarrow> v = w"
  using json_parse_stringify [of v _ "[]"] json_parse_stringify [of w _ "[]"] json_ok_stringify [of v] json_ok_stringify [of w]
  by (auto simp: jws_def)

lemma same_params: "li_params l = li_params m \<Longrightarrow> li_key l = li_key m \<and> li_cursor l = li_cursor m"
  by (auto simp: li_params_def change_params_def li_key_def li_cursor_def change_filter_key_def inj_map_eq_map inj_def)

section \<open>The invariant\<close>

definition handed :: "listing \<Rightarrow> jstr \<Rightarrow> jstr \<Rightarrow> bool" where
  "handed l k c \<longleftrightarrow> c = [] \<or> (k, c) \<in> set (li_handed l)"

definition numbered_ok :: "listing \<Rightarrow> bool" where
  "numbered_ok l \<longleftrightarrow> (\<forall>a \<in> set (li_asked l). fst a \<le> request_id (li_hook l)) \<and> key_asked l (request_id (li_hook l)) = Some (li_key l)"

definition shown_ok :: "listing \<Rightarrow> bool" where
  "shown_ok l \<longleftrightarrow> (case hook_data (shown (li_hook l)) of None \<Rightarrow> True
     | Some v \<Rightarrow> \<exists>n k. li_shown l = Some n \<and> key_asked l n = Some k \<and> handed l k (next_cursor_of v))"

definition current_ok :: "listing \<Rightarrow> bool" where
  "current_ok l \<longleftrightarrow> (case li_shown l of None \<Rightarrow> True | Some n \<Rightarrow> key_asked l n = Some (li_key l))"

definition pages_ok :: "listing \<Rightarrow> bool" where
  "pages_ok l \<longleftrightarrow> p_key (li_pager l) = li_key l \<and> (\<forall>c \<in> set (p_cursor (li_pager l) # p_history (li_pager l)). handed l (li_key l) c)"

definition asked_ok :: "listing \<Rightarrow> bool" where
  "asked_ok l \<longleftrightarrow> (\<forall>(n, k, c) \<in> set (li_asked l). handed l k c)"

definition listing_ok :: "listing \<Rightarrow> bool" where
  "listing_ok l \<longleftrightarrow> json_ok (li_params l) \<and> numbered_ok l \<and> shown_ok l \<and> (hook_loading (shown (li_hook l)) \<or> current_ok l) \<and> pages_ok l \<and> asked_ok l"

lemmas listing_parts = listing_ok_def numbered_ok_def shown_ok_def current_ok_def pages_ok_def asked_ok_def handed_def

lemma run_again_simps [simp]:
  "li_query (run_again l) = li_query l" "li_window (run_again l) = li_window l" "li_filters (run_again l) = li_filters l"
  "li_pager (run_again l) = li_pager l" "li_shown (run_again l) = li_shown l" "li_handed (run_again l) = li_handed l"
  "li_key (run_again l) = li_key l" "li_cursor (run_again l) = li_cursor l" "li_params (run_again l) = li_params l"
  "request_id (li_hook (run_again l)) = request_id (li_hook l) + 1" "hook_loading (shown (li_hook (run_again l)))"
  "hook_data (shown (li_hook (run_again l))) = hook_data (shown (li_hook l))"
  "li_asked (run_again l) = li_asked l @ [(request_id (li_hook l) + 1, li_key l, li_cursor l)]"
  by (simp_all add: run_again_def Let_def run_effect_hook_def load_def cleanup_run_def li_key_def li_cursor_def li_params_def)

lemma map_of_number: "\<forall>a \<in> set xs. fst a \<le> (m::nat) \<Longrightarrow>
    map_of (xs @ [(Suc m, y)]) n = (if n = Suc m then Some y else map_of xs n)"
  by (induction xs) (auto simp del: map_of_append)

lemma key_asked_again: "\<forall>a \<in> set (li_asked l). fst a \<le> request_id (li_hook l) \<Longrightarrow>
    key_asked (run_again l) n = (if n = Suc (request_id (li_hook l)) then Some (li_key l) else key_asked l n)"
  by (simp add: key_asked_def map_of_number del: map_of_append)

lemma key_asked_bound: "\<forall>a \<in> set (li_asked l). fst a \<le> m \<Longrightarrow> key_asked l n = Some k \<Longrightarrow> n \<le> m"
  by (force simp: key_asked_def dest: map_of_SomeD)

text \<open>A run of the effect: the filters may have changed, the data not yet.\<close>

lemma run_again_ok:
  assumes "json_ok (li_params l)" "\<forall>a \<in> set (li_asked l). fst a \<le> request_id (li_hook l)" "shown_ok l" "pages_ok l" "asked_ok l"
  shows "listing_ok (run_again l)"
proof -
  have "numbered_ok (run_again l)" using assms(2) by (auto simp: numbered_ok_def key_asked_again)
  moreover have "shown_ok (run_again l)"
    using assms(2,3) by (auto simp: shown_ok_def key_asked_again handed_def split: option.splits) (fastforce dest: key_asked_bound)+
  moreover have "handed l (li_key l) (li_cursor l)" using assms(4) by (simp add: pages_ok_def li_cursor_def)
  then have "asked_ok (run_again l)" using assms(5) by (auto simp: asked_ok_def handed_def)
  moreover have "pages_ok (run_again l)" using assms(4) by (simp add: pages_ok_def handed_def)
  ultimately show ?thesis using assms(1) by (simp add: listing_ok_def)
qed

text \<open>A render: filters and pager changed, the rest did not.\<close>

lemma rendered_ok:
  assumes old: "listing_ok old" and ps: "json_ok (li_params l)" and pg: "pages_ok l"
    and same: "li_hook l = li_hook old" "li_asked l = li_asked old" "li_shown l = li_shown old" "li_handed l = li_handed old"
  shows "listing_ok (rendered old l)"
proof -
  have k: "key_asked l = key_asked old" "handed l = handed old"
    using same by (simp_all add: key_asked_def handed_def fun_eq_iff)
  have parts: "\<forall>a \<in> set (li_asked l). fst a \<le> request_id (li_hook l)" "shown_ok l" "asked_ok l"
    using old same k by (simp_all add: listing_ok_def numbered_ok_def shown_ok_def asked_ok_def split: option.splits)
  show ?thesis
  proof (cases "stringify (li_params l) = stringify (li_params old)")
    case True
    with ps old have "li_key l = li_key old" using stringify_inj same_params unfolding listing_ok_def by blast
    with True ps pg parts old same k show ?thesis
      by (simp add: rendered_def listing_ok_def numbered_ok_def current_ok_def split: option.splits)
  next
    case False
    with ps pg parts show ?thesis by (simp add: rendered_def run_again_ok)
  qed
qed

section \<open>Every step\<close>

lemma mounted_ok: "json_ok (li_params (mounted dq w f)) \<Longrightarrow> listing_ok (mounted dq w f)"
  by (simp add: listing_parts mounted_def Let_def run_effect_hook_def init_hook_def load_def key_asked_def li_key_def first_page_def)

lemma pages_current: "pages_ok l \<Longrightarrow> current_pager (li_key l) (li_pager l) = li_pager l"
  by (simp add: pages_ok_def)

lemma filters_ok:
  assumes "listing_ok l" "json_ok (li_params (set_filters dq w f l))"
  shows "listing_ok (set_filters dq w f l)"
proof -
  let ?m = "l\<lparr>li_query := dq, li_window := w, li_filters := f, li_pager := sync_pager (change_filter_key dq w f) (li_pager l)\<rparr>"
  have "pages_ok ?m" using assms(1) by (auto simp: listing_parts sync_pager_def first_page_def li_key_def)
  moreover have "json_ok (li_params ?m)" using assms(2) by (simp add: set_filters_def rendered_def split: if_splits)
  ultimately show ?thesis unfolding set_filters_def by (intro rendered_ok [OF assms(1)]) simp_all
qed

lemma next_ok:
  assumes "listing_ok l" "next_enabled l" "json_ok (li_params (click_next l))"
  shows "listing_ok (click_next l)"
proof -
  let ?m = "l\<lparr>li_pager := go_next (li_key l) (offered_cursor l) (li_pager l)\<rparr>"
  have "handed l (li_key l) (offered_cursor l)"
    using assms(1,2) by (auto simp: listing_ok_def shown_ok_def current_ok_def next_enabled_def offered_cursor_def split: option.splits)
  then have "pages_ok ?m" using assms(1) pages_current
    by (auto simp: listing_ok_def pages_ok_def go_next_def li_key_def handed_def)
  moreover have "json_ok (li_params ?m)" using assms(3) by (simp add: click_next_def rendered_def split: if_splits)
  ultimately show ?thesis unfolding click_next_def by (intro rendered_ok [OF assms(1)]) simp_all
qed

lemma prev_ok:
  assumes "listing_ok l" "json_ok (li_params (click_prev l))"
  shows "listing_ok (click_prev l)"
proof -
  let ?m = "l\<lparr>li_pager := go_prev (li_key l) (li_pager l)\<rparr>"
  have "pages_ok ?m" using assms(1) pages_current
    by (auto simp: listing_ok_def pages_ok_def go_prev_def li_key_def handed_def first_page_def Let_def dest: in_set_butlastD)
  moreover have "json_ok (li_params ?m)" using assms(2) by (simp add: click_prev_def rendered_def split: if_splits)
  ultimately show ?thesis unfolding click_prev_def by (intro rendered_ok [OF assms(1)]) simp_all
qed

lemma refresh_ok: "listing_ok l \<Longrightarrow> listing_ok (run_again l)"
  by (rule run_again_ok) (simp_all add: listing_ok_def numbered_ok_def)

lemma update_keys [simp]:
  "li_key (l\<lparr>li_hook := h\<rparr>) = li_key l" "li_params (l\<lparr>li_hook := h\<rparr>) = li_params l" "key_asked (l\<lparr>li_hook := h\<rparr>) = key_asked l"
  "handed (l\<lparr>li_hook := h\<rparr>) = handed l"
  "li_key (l\<lparr>li_shown := n, li_handed := hs\<rparr>) = li_key l" "li_params (l\<lparr>li_shown := n, li_handed := hs\<rparr>) = li_params l"
  "key_asked (l\<lparr>li_shown := n, li_handed := hs\<rparr>) = key_asked l"
  by (auto simp: li_key_def li_params_def key_asked_def handed_def fun_eq_iff)

text \<open>A change of the hook that shows what was shown, or at most hides the loading mark.\<close>

lemma hook_ok:
  assumes "listing_ok l" "request_id h = request_id (li_hook l)" "hook_data (shown h) = hook_data (shown (li_hook l))"
    and "hook_loading (shown h) \<or> \<not> hook_loading (shown (li_hook l)) \<or> current_ok l"
  shows "listing_ok (l\<lparr>li_hook := h\<rparr>)"
proof -
  have "current_ok (l\<lparr>li_hook := h\<rparr>) = current_ok l" "pages_ok (l\<lparr>li_hook := h\<rparr>) = pages_ok l"
      "asked_ok (l\<lparr>li_hook := h\<rparr>) = asked_ok l" "shown_ok (l\<lparr>li_hook := h\<rparr>) = shown_ok l"
    using assms(3) by (simp_all add: current_ok_def pages_ok_def asked_ok_def shown_ok_def split: option.split)
  then show ?thesis using assms by (auto simp: listing_ok_def numbered_ok_def)
qed

lemma shown_schedule [simp]: "shown (schedule p i h) = shown h" "request_id (schedule p i h) = request_id h"
  by (simp_all add: schedule_def)

lemma answered_ok:
  assumes "listing_ok l"
  shows "listing_ok (answered polling i v l)"
proof (cases "ignored i (li_hook l)")
  case True
  then have "answered polling i v l = l\<lparr>li_hook := (li_hook l)\<lparr>in_flight := remove1 i (in_flight (li_hook l))\<rparr>\<rparr>"
    by (simp add: answered_def settle_load_def Let_def)
  then show ?thesis using assms by (auto intro!: hook_ok)
next
  case False
  then have i: "i = request_id (li_hook l)" by (simp add: ignored_def)
  then have k: "key_asked l i = Some (li_key l)" using assms by (simp add: listing_ok_def numbered_ok_def)
  define h where "h = settle_load polling i (Inr v) (li_hook l)"
  have h: "request_id h = i" "hook_data (shown h) = Some v" "\<not> hook_loading (shown h)"
    using False i by (simp_all add: h_def settle_load_def Let_def)
  have l': "answered polling i v l = l\<lparr>li_hook := h, li_shown := Some i, li_handed := (li_key l, next_cursor_of v) # li_handed l\<rparr>"
    using False k by (simp add: answered_def h_def Let_def)
  show ?thesis using assms k h i unfolding l'
    by (auto simp: listing_ok_def numbered_ok_def shown_ok_def current_ok_def pages_ok_def asked_ok_def handed_def li_key_def li_params_def key_asked_def)
qed

lemma failed_ok:
  assumes "listing_ok l" "harmless i e l"
  shows "listing_ok (failed_load polling i e l)"
proof (cases "e = Aborted \<or> ignored i (li_hook l)")
  case True
  then have "failed_load polling i e l = l\<lparr>li_hook := (li_hook l)\<lparr>in_flight := remove1 i (in_flight (li_hook l))\<rparr>\<rparr>"
    by (auto simp: failed_load_def settle_load_def Let_def)
  then show ?thesis using assms(1) by (auto intro!: hook_ok)
next
  case False
  then have "i = request_id (li_hook l)" by (simp add: ignored_def)
  then have "current_ok l" using False assms by (simp add: harmless_def listing_ok_def numbered_ok_def current_ok_def split: option.splits)
  then show ?thesis using False unfolding failed_load_def
    by (intro hook_ok [OF assms(1)]) (simp_all add: settle_load_def Let_def)
qed

lemma timer_ok: "listing_ok l \<Longrightarrow> listing_ok (l\<lparr>li_hook := fire hid t (li_hook l)\<rparr>)"
  by (rule hook_ok) (auto simp: fire_def load_def Let_def split: timer.split)

lemma reached_ok: "listing_reach polling False l \<Longrightarrow> listing_ok l"
proof (induction rule: listing_reach.induct)
  case (mount dq w f)
  then show ?case by (rule mounted_ok)
next
  case (filters l dq w f)
  then show ?case by (intro filters_ok)
next
  case (next_page l)
  then show ?case by (intro next_ok)
next
  case (prev_page l)
  then show ?case by (intro prev_ok)
next
  case (refresh l)
  then show ?case by (intro refresh_ok)
next
  case (answer l i v)
  then show ?case by (intro answered_ok)
next
  case (failure l i e)
  then show ?case by (intro failed_ok) simp_all
next
  case (timer l t hid)
  then show ?case by (intro timer_ok)
qed

section \<open>A key names its filters\<close>

definition no_bar :: "jstr \<Rightarrow> bool" where "no_bar s \<longleftrightarrow> 124 \<notin> set s"

text \<open>Statuses, repositories and scopes as the page offers them.\<close>

definition offered_filters :: "jsval \<Rightarrow> change_filters \<Rightarrow> bool" where
  "offered_filters w f \<longleftrightarrow> no_bar (to_str w) \<and> no_bar (cf_repository f) \<and> no_bar (cf_scope f) \<and> no_bar (cf_sort f)
     \<and> no_bar (num_to_string (cf_limit f)) \<and> list_all (\<lambda>s. no_bar s \<and> 44 \<notin> set s \<and> s \<noteq> []) (cf_statuses f)"

lemma after_last_bar: "no_bar x \<Longrightarrow> takeWhile (\<lambda>c. c \<noteq> 124) (rev (a @ 124 # x)) = rev x"
  by (auto simp: no_bar_def takeWhile_tail)

lemma last_bar:
  assumes "no_bar x" "no_bar y" "a @ 124 # x = b @ 124 # y"
  shows "a = b \<and> x = y"
proof -
  have "rev x = rev y" using after_last_bar [OF assms(1), of a] after_last_bar [OF assms(2), of b] assms(3) by metis
  then show ?thesis using assms(3) by simp
qed

lemma join_chars: "c \<in> set (join_with [d] xs) \<Longrightarrow> c = d \<or> (\<exists>x \<in> set xs. c \<in> set x)"
  by (induction "[d]" xs rule: join_with.induct) auto

lemma join_Nil: fixes zs :: "jstr list" shows "\<forall>x \<in> set zs. x \<noteq> [] \<Longrightarrow> join_with [44] zs = [] \<longleftrightarrow> zs = []"
  by (cases "([44::nat], zs)" rule: join_with.cases) auto

lemma join_inj:
  fixes xs ys :: "jstr list"
  assumes a: "\<forall>x \<in> set xs \<union> set ys. 44 \<notin> set x \<and> x \<noteq> []" and j: "join_with [44] xs = join_with [44] ys"
  shows "xs = ys"
proof (cases "xs = [] \<or> ys = []")
  case True
  then show ?thesis using a j join_Nil [of xs] join_Nil [of ys] by auto
next
  case False
  then have "split_on 44 (join_with [44] xs) = xs" "split_on 44 (join_with [44] ys) = ys"
    using a by (simp_all add: split_on_join)
  then show ?thesis using j by metis
qed

lemma filter_key_inj:
  assumes "change_filter_key dq w f = change_filter_key dq' w' f'" "offered_filters w f" "offered_filters w' f'"
  shows "dq = dq' \<and> to_str w = to_str w' \<and> cf_statuses f = cf_statuses f' \<and> cf_repository f = cf_repository f'
    \<and> cf_scope f = cf_scope f' \<and> cf_sort f = cf_sort f' \<and> num_to_string (cf_limit f) = num_to_string (cf_limit f')"
proof -
  have st: "no_bar (join_with [44] (cf_statuses g))" if "offered_filters v g" for v g
    using that by (auto simp: offered_filters_def list_all_iff no_bar_def dest: join_chars)
  have key: "change_filter_key a v g = (((((a @ 124 # join_with [44] (cf_statuses g)) @ 124 # cf_repository g) @ 124 # cf_scope g)
      @ 124 # cf_sort g) @ 124 # num_to_string (cf_limit g)) @ 124 # to_str v" for a v g
    by (simp add: change_filter_key_def join_with_Cons)
  note bars = assms(2,3) [unfolded offered_filters_def] st [OF assms(2)] st [OF assms(3)]
  note e1 = assms(1) [unfolded key]
  have e2: "((((dq @ 124 # join_with [44] (cf_statuses f)) @ 124 # cf_repository f) @ 124 # cf_scope f) @ 124 # cf_sort f) @ 124 # num_to_string (cf_limit f)
      = ((((dq' @ 124 # join_with [44] (cf_statuses f')) @ 124 # cf_repository f') @ 124 # cf_scope f') @ 124 # cf_sort f') @ 124 # num_to_string (cf_limit f')
      \<and> to_str w = to_str w'" by (rule last_bar [OF _ _ e1]) (use bars in blast)+
  have e3: "(((dq @ 124 # join_with [44] (cf_statuses f)) @ 124 # cf_repository f) @ 124 # cf_scope f) @ 124 # cf_sort f
      = (((dq' @ 124 # join_with [44] (cf_statuses f')) @ 124 # cf_repository f') @ 124 # cf_scope f') @ 124 # cf_sort f'
      \<and> num_to_string (cf_limit f) = num_to_string (cf_limit f')" by (rule last_bar [OF _ _ conjunct1 [OF e2]]) (use bars in blast)+
  have e4: "((dq @ 124 # join_with [44] (cf_statuses f)) @ 124 # cf_repository f) @ 124 # cf_scope f
      = ((dq' @ 124 # join_with [44] (cf_statuses f')) @ 124 # cf_repository f') @ 124 # cf_scope f' \<and> cf_sort f = cf_sort f'"
    by (rule last_bar [OF _ _ conjunct1 [OF e3]]) (use bars in blast)+
  have e5: "(dq @ 124 # join_with [44] (cf_statuses f)) @ 124 # cf_repository f
      = (dq' @ 124 # join_with [44] (cf_statuses f')) @ 124 # cf_repository f' \<and> cf_scope f = cf_scope f'"
    by (rule last_bar [OF _ _ conjunct1 [OF e4]]) (use bars in blast)+
  have e6: "dq @ 124 # join_with [44] (cf_statuses f) = dq' @ 124 # join_with [44] (cf_statuses f') \<and> cf_repository f = cf_repository f'"
    by (rule last_bar [OF _ _ conjunct1 [OF e5]]) (use bars in blast)+
  have e7: "dq = dq' \<and> join_with [44] (cf_statuses f) = join_with [44] (cf_statuses f')"
    by (rule last_bar [OF _ _ conjunct1 [OF e6]]) (use bars in blast)+
  have "cf_statuses f = cf_statuses f'"
    using bars conjunct2 [OF e7] by (intro join_inj) (auto simp: list_all_iff)
  with e2 e3 e4 e5 e6 e7 show ?thesis by simp
qed

section \<open>Cursors and filters\<close>

text \<open>C35: A cursor is sent only with the filters it was handed out for. Whatever the order of filter
  changes, paging, answers, polls, refreshes and failures, every request with a cursor is one
  whose filter key an answer with exactly that next cursor had been asked with, and the same
  holds for the cursor of the next request; provided no request for new filters fails while the
  answer for the old ones is on the screen.\<close>

theorem cursor_belongs_to_filters:
  assumes "listing_reach polling False l"
  shows "list_all (\<lambda>(n, k, c). c = [] \<or> (k, c) \<in> set (li_handed l)) (li_asked l)
    \<and> (li_cursor l = [] \<or> (li_key l, li_cursor l) \<in> set (li_handed l))"
proof -
  have ok: "listing_ok l" by (rule reached_ok [OF assms])
  then have "li_cursor l = [] \<or> (li_key l, li_cursor l) \<in> set (li_handed l)"
    using pages_current by (auto simp: listing_ok_def pages_ok_def handed_def li_cursor_def)
  with ok show ?thesis by (auto simp: listing_ok_def asked_ok_def handed_def list_all_iff)
qed

lemma params_ok: "json_ok (li_params l) \<longleftrightarrow> json_ok (li_window l) \<and> json_ok (Str (li_query l))
    \<and> (\<forall>s \<in> set (cf_statuses (li_filters l)). json_ok (Str s)) \<and> json_ok (Str (cf_repository (li_filters l)))
    \<and> json_ok (Str (cf_scope (li_filters l))) \<and> json_ok (Str (cf_sort (li_filters l))) \<and> num_ok (cf_limit (li_filters l))
    \<and> json_ok (Str (li_cursor l))"
  by (simp add: li_params_def li_cursor_def li_key_def change_params_def js_def ball_Un conj_ac)

lemma rendered_again:
  "json_ok (li_params l) \<Longrightarrow> json_ok (li_params old) \<Longrightarrow> li_key l \<noteq> li_key old \<or> li_cursor l \<noteq> li_cursor old \<Longrightarrow> rendered old l = run_again l"
  using stringify_inj same_params unfolding rendered_def by metis

text \<open>The portfolio with an answer of more than one page.\<close>

definition next_answer :: jsval where
  "next_answer = Obj [(js ''page'', Obj [(js ''next_cursor'', lit ''25'')])]"

definition first_listing :: listing where
  "first_listing = answered True 1 next_answer (mounted [] (lit ''30d'') initial_filters)"

abbreviation "first_key \<equiv> change_filter_key [] (lit ''30d'') initial_filters"

lemma next_answer_cursor [simp]: "next_cursor_of next_answer = js ''25''"
  by (simp add: next_cursor_of_def next_answer_def)

lemma first_listing_parts:
  "li_query first_listing = []" "li_window first_listing = lit ''30d''" "li_filters first_listing = initial_filters"
  "li_pager first_listing = first_page first_key" "li_asked first_listing = [(1, first_key, [])]" "li_handed first_listing = [(first_key, js ''25'')]"
  "shown (li_hook first_listing) = \<lparr>hook_data = Some next_answer, hook_error = None, hook_loading = False\<rparr>"
  "request_id (li_hook first_listing) = 1"
  by (simp_all add: first_listing_def mounted_def answered_def settle_load_def ignored_def run_effect_hook_def init_hook_def load_def
    key_asked_def schedule_def Let_def)

lemma initial_ok: "li_query l = [] \<Longrightarrow> li_window l = lit ''30d'' \<Longrightarrow> li_filters l = initial_filters \<Longrightarrow>
    json_ok (li_params l) \<longleftrightarrow> json_ok (Str (li_cursor l))"
  using num_ok_int [of 25] by (simp add: params_ok initial_filters_def js_def)

lemma first_reached: "listing_reach True b first_listing"
proof -
  have "json_ok (li_params (mounted [] (lit ''30d'') initial_filters))"
    by (subst initial_ok) (simp_all add: mounted_def li_cursor_def li_key_def current_pager_def first_page_def Let_def)
  then show ?thesis unfolding first_listing_def
    by (intro listing_reach.answer listing_reach.mount) (simp_all add: mounted_def run_effect_hook_def load_def init_hook_def Let_def)
qed

lemma first_key: "li_key first_listing = first_key" "li_cursor first_listing = []" "json_ok (li_params first_listing)"
proof -
  show c: "li_cursor first_listing = []" by (simp add: li_key_def li_cursor_def first_listing_parts current_pager_def first_page_def)
  show "json_ok (li_params first_listing)" by (subst initial_ok) (simp_all add: first_listing_parts c)
qed (simp add: li_key_def first_listing_parts)

definition second_listing :: listing where "second_listing = click_next first_listing"

lemma second_listing: "li_asked second_listing = [(1, first_key, []), (2, first_key, js ''25'')]"
    "json_ok (li_params second_listing)" "next_enabled first_listing"
proof -
  let ?m = "first_listing\<lparr>li_pager := go_next first_key (js ''25'') (first_page first_key)\<rparr>"
  have k1: "li_key ?m = first_key" "li_cursor ?m = js ''25''"
    by (simp_all add: li_key_def li_cursor_def first_listing_parts go_next_def current_pager_def)
  moreover from this have "json_ok (li_params ?m)" by (subst initial_ok) (simp_all add: first_listing_parts js_def)
  ultimately have k: "li_key ?m = first_key" "li_cursor ?m = js ''25''" "json_ok (li_params ?m)" by simp_all
  have o: "offered_cursor first_listing = js ''25''" by (simp add: offered_cursor_def first_listing_parts)
  then have "second_listing = rendered first_listing ?m"
    by (simp add: second_listing_def click_next_def first_key first_listing_parts)
  also have "\<dots> = run_again ?m" using k first_key by (intro rendered_again) simp_all
  finally have s: "second_listing = run_again ?m" .
  show "li_asked second_listing = [(1, first_key, []), (2, first_key, js ''25'')]"
    unfolding s using k by (simp add: first_listing_parts)
  show "json_ok (li_params second_listing)" unfolding s using k by simp
  show "next_enabled first_listing" using o by (simp add: next_enabled_def first_listing_parts)
qed

theorem cursor_belongs_to_filters_witness:
  "(2, first_key, js ''25'') \<in> set (li_asked second_listing) \<and> (first_key, js ''25'') \<in> set (li_handed second_listing)"
proof -
  have "listing_reach True False second_listing"
    unfolding second_listing_def using second_listing first_reached by (intro listing_reach.next_page) (simp_all add: second_listing_def)
  from cursor_belongs_to_filters [OF this] show ?thesis by (simp add: second_listing)
qed

text \<open>The failure the theorem excludes: an answer is on the screen, the status filter changes, the
  request for it fails. The button Next is enabled and sends the cursor of the old filters with
  the new ones, so that the first page of the new list is skipped.\<close>

definition failed_listing :: listing where
  "failed_listing = failed_load True 2 (Api network_error) (set_filters [] (lit ''30d'') (toggle_status (js ''DONE'') initial_filters) first_listing)"

abbreviation "done_key \<equiv> change_filter_key [] (lit ''30d'') (toggle_status (js ''DONE'') initial_filters)"

lemma cursor_of_other_filters:
  "listing_reach True True failed_listing \<and> next_enabled failed_listing
   \<and> (3, done_key, js ''25'') \<in> set (li_asked (click_next failed_listing)) \<and> li_handed (click_next failed_listing) = [(first_key, js ''25'')]
   \<and> done_key \<noteq> first_key"
proof -
  let ?f = "toggle_status (js ''DONE'') initial_filters"
  let ?m = "first_listing\<lparr>li_query := [], li_window := lit ''30d'', li_filters := ?f, li_pager := sync_pager done_key (first_page first_key)\<rparr>"
  have ne: "done_key \<noteq> first_key"
    by (simp add: change_filter_key_def toggle_status_def initial_filters_def join_with_Cons js_def)
  have sp: "sync_pager done_key (first_page first_key) = first_page done_key"
    using ne by (auto simp: sync_pager_def first_page_def)
  have m: "li_key ?m = done_key" "li_cursor ?m = []"
    unfolding sp by (simp_all add: li_key_def li_cursor_def current_pager_def first_page_def)
  have ok: "json_ok (li_params l)" if "li_query l = []" "li_window l = lit ''30d''" "li_filters l = ?f" "json_ok (Str (li_cursor l))" for l
    using that num_ok_int [of 25] by (simp add: params_ok initial_filters_def toggle_status_def js_def)
  have s: "set_filters [] (lit ''30d'') ?f first_listing = run_again ?m"
    unfolding set_filters_def first_listing_parts using m ne by (intro rendered_again [OF ok first_key(3)]) (simp_all add: first_key)
  let ?g = "failed_load True 2 (Api network_error) (run_again ?m)"
  have g: "failed_listing = ?g" by (simp add: failed_listing_def s)
  have fl: "in_flight (li_hook (run_again ?m)) = [2]" "alive (li_hook (run_again ?m))" "2 \<notin> set (stopped_runs (li_hook (run_again ?m)))"
    by (simp_all add: run_again_def run_effect_hook_def load_def cleanup_run_def first_listing_parts Let_def)
      (simp_all add: first_listing_def mounted_def answered_def settle_load_def ignored_def run_effect_hook_def init_hook_def load_def schedule_def Let_def)
  have reach: "listing_reach True True (run_again ?m)"
    using listing_reach.filters [OF first_reached [of True], of "[]" "lit ''30d''" ?f] m ok [of ?m] by (simp add: s)
  then have reached: "listing_reach True True failed_listing"
    unfolding g using fl by (intro listing_reach.failure) simp_all
  have h: "shown (li_hook ?g) = \<lparr>hook_data = Some next_answer, hook_error = Some (Api network_error), hook_loading = False\<rparr>"
      "request_id (li_hook ?g) = 2"
    using fl by (simp_all add: failed_load_def settle_load_def ignored_def first_listing_parts Let_def)
  have p: "li_key ?g = done_key" "li_cursor ?g = []" "json_ok (li_params ?g)" "li_pager ?g = first_page done_key"
      "li_asked ?g = [(1, first_key, []), (2, done_key, [])]" "li_handed ?g = [(first_key, js ''25'')]"
    using m ok [of ?m] by (simp_all add: failed_load_def li_cursor_def first_listing_parts sp)
  have o: "offered_cursor ?g = js ''25''" by (simp add: offered_cursor_def h)
  let ?n = "?g\<lparr>li_pager := go_next done_key (js ''25'') (first_page done_key)\<rparr>"
  have n1: "li_key ?n = done_key" "li_cursor ?n = js ''25''"
    using p(1) by (simp_all add: li_key_def li_cursor_def go_next_def current_pager_def)
  moreover have "json_ok (li_params ?n)" using n1 by (intro ok) (simp_all add: failed_load_def js_def)
  ultimately have "click_next ?g = run_again ?n"
    unfolding click_next_def p o using p by (intro rendered_again) simp_all
  then have "li_asked (click_next ?g) = [(1, first_key, []), (2, done_key, []), (3, done_key, js ''25'')]"
      "li_handed (click_next ?g) = [(first_key, js ''25'')]"
    using n1 p h by simp_all
  then show ?thesis using reached ne h o unfolding g by (simp add: next_enabled_def)
qed

text \<open>The runs ledger does not even wait: its Next button looks only at the answer on the screen, and after
  a change of the filters it sends that answer's cursor with the new ones.\<close>

lemma ledger_cursor_of_other_filters:
  "let w = lit ''30d''; q = change_query (Set_harness (lit ''pi'')) (initial_query w) in
     lookup (run_params w q) (js ''cursor'') = Undef
   \<and> (''Button'', [(''disabled'', JBool False), (''aria-label'', lit ''Next page'')]) \<in> set (nodes (runs_footer next_answer (run_page_of next_answer w q) q))
   \<and> lookup (run_params w (next_page next_answer q)) (js ''cursor'') = lit ''25''"
proof -
  have n: "num_or_0 (opt_get (opt_get next_answer ''page'') ''next_cursor'') = num_int 25"
    by code_simp
  have s: "num_to_string (Fin 25) = js ''25''" by code_simp
  have t: "truthy (opt_get (opt_get next_answer ''page'') ''next_cursor'')" by (simp add: next_answer_def js_def)
  show ?thesis
    using t by (simp add: initial_query_def cursor_param effective_offset_def next_page_def n s runs_footer_def button_def tag_def Let_def)
qed

end
