(* ===== verification/Console_Dialog.thy ===== *)
theory Console_Dialog imports Console_Run_Evidence begin

text \<open>
  The life of the evidence dialog (\<open>Modal\<close> in \<open>runs/evidence-modal.jsx\<close>): the effect that takes the focus, the
  scrolling of the page and the keyboard, its cleanup, and what happens in between. Elements
  of the page are numbers; the focusable elements of the panel are given in their order.
\<close>

record page_doc =
  pd_focus :: nat
  pd_overflow :: jstr
  pd_listening :: bool  \<comment> \<open>the dialog's own listener for keys\<close>

record dialog =
  dg_focus :: nat  \<comment> \<open>\<open>previousFocus\<close>\<close>
  dg_overflow :: jstr  \<comment> \<open>\<open>previousOverflow\<close> of the running effect\<close>
  dg_timer :: bool
  dg_closed :: nat  \<comment> \<open>calls of \<open>onClose\<close>\<close>

type_synonym screen_dialog = "page_doc \<times> dialog"

definition dialog_effect :: "screen_dialog \<Rightarrow> screen_dialog" where
  "dialog_effect s = (case s of (d, m) \<Rightarrow>
     (d\<lparr>pd_overflow := js ''hidden'', pd_listening := True\<rparr>, m\<lparr>dg_focus := pd_focus d, dg_overflow := pd_overflow d, dg_timer := True\<rparr>))"

definition dialog_cleanup :: "screen_dialog \<Rightarrow> screen_dialog" where
  "dialog_cleanup s = (case s of (d, m) \<Rightarrow>
     (d\<lparr>pd_listening := False, pd_overflow := dg_overflow m, pd_focus := dg_focus m\<rparr>, m\<lparr>dg_timer := False\<rparr>))"

text \<open>A key while the dialog is open: \<open>Escape\<close> asks to close, \<open>Tab\<close> stays among the panel's elements.\<close>

definition focus_in :: "nat \<Rightarrow> nat list \<Rightarrow> nat \<Rightarrow> focus" where
  "focus_in panel els e = (if e = panel then On_panel
     else case List.find (\<lambda>i. els ! i = e) [0..<length els] of Some i \<Rightarrow> On_item i | None \<Rightarrow> Elsewhere)"

definition place :: "nat \<Rightarrow> nat list \<Rightarrow> nat \<Rightarrow> focus \<Rightarrow> nat" where
  "place panel els e f = (case f of On_panel \<Rightarrow> panel | On_item i \<Rightarrow> els ! i | Elsewhere \<Rightarrow> e)"

definition dialog_key :: "nat \<Rightarrow> nat list \<Rightarrow> string \<Rightarrow> bool \<Rightarrow> screen_dialog \<Rightarrow> screen_dialog" where
  "dialog_key panel els k shift s = (case s of (d, m) \<Rightarrow>
     if \<not> pd_listening d then s
     else if k = ''Escape'' then (d, m\<lparr>dg_closed := dg_closed m + 1\<rparr>)
     else if k \<noteq> ''Tab'' then s
     else (case trap_tab (length els) shift (focus_in panel els (pd_focus d)) of None \<Rightarrow> s
       | Some f \<Rightarrow> (d\<lparr>pd_focus := place panel els (pd_focus d) f\<rparr>, m)))"

text \<open>A new \<open>onClose\<close> runs the cleanup and the effect again.\<close>

datatype dialog_event = Focus_timer | Dialog_key "nat list" string bool | Focus_moves nat | New_callback

fun dialog_step :: "nat \<Rightarrow> dialog_event \<Rightarrow> screen_dialog \<Rightarrow> screen_dialog" where
  "dialog_step panel Focus_timer (d, m) = (if dg_timer m then (d\<lparr>pd_focus := panel\<rparr>, m\<lparr>dg_timer := False\<rparr>) else (d, m))"
| "dialog_step panel (Dialog_key els k shift) s = dialog_key panel els k shift s"
| "dialog_step panel (Focus_moves e) (d, m) = (d\<lparr>pd_focus := e\<rparr>, m)"
| "dialog_step panel New_callback s = dialog_effect (dialog_cleanup s)"

section \<open>What was taken is given back\<close>

definition holds_back :: "page_doc \<Rightarrow> screen_dialog \<Rightarrow> bool" where
  "holds_back d0 s \<longleftrightarrow> dg_focus (snd s) = pd_focus d0 \<and> dg_overflow (snd s) = pd_overflow d0 \<and> pd_overflow (fst s) = js ''hidden'' \<and> pd_listening (fst s)"

lemma dialog_keeps: "holds_back d0 s \<Longrightarrow> holds_back d0 (dialog_step panel e s)"
  by (cases "(panel, e, s)" rule: dialog_step.cases)
    (auto simp: holds_back_def dialog_key_def dialog_effect_def dialog_cleanup_def split: option.splits prod.splits)

text \<open>However long the dialog is open and whatever happens meanwhile, closing or unmounting it gives the page its
  focus and its scrolling back and takes its listener away; as long as it is open the page does not scroll.\<close>

lemma dialog_gives_back:
  assumes "\<not> pd_listening d"
  shows "(let s = foldl (\<lambda>s e. dialog_step panel e s) (dialog_effect (d, m)) es in
     pd_overflow (fst s) = js ''hidden'' \<and> fst (dialog_cleanup s) = d)"
proof -
  have "holds_back d (dialog_effect (d, m))" by (simp add: holds_back_def dialog_effect_def)
  then have h: "holds_back d (foldl (\<lambda>s e. dialog_step panel e s) (dialog_effect (d, m)) es)"
    by (induction es rule: rev_induct) (auto intro: dialog_keeps)
  then show ?thesis using assms
    by (cases "foldl (\<lambda>s e. dialog_step panel e s) (dialog_effect (d, m)) es") (auto simp: holds_back_def dialog_cleanup_def Let_def)
qed

text \<open>\<open>Tab\<close> never leaves the panel: from the panel or one of its elements it goes to one of them, where it is sent at all.\<close>

lemma tab_stays_inside:
  assumes "pd_listening d" "els \<noteq> []" "trap_tab (length els) shift (focus_in panel els (pd_focus d)) \<noteq> None"
  shows "pd_focus (fst (dialog_key panel els ''Tab'' shift (d, m))) \<in> set els"
  using assms by (auto simp: dialog_key_def trap_tab_def place_def split: if_splits)

end
