(* ===== verification/Spec2Isabelle.thy ===== *)
theory Spec2Isabelle imports
  Pi_System Repo_Tools_Facts Console_Url_Facts Console_Api_Facts Console_Format_Facts Console_Runs_Facts
  Console_Lists_Facts Console_Dispatch_Facts Console_Portfolio_Facts Console_Ui_Facts
  Console_Settings Console_Shell_Facts Console_Kit Console_Outward_Facts Console_App_Facts
  Console_Wiring_Facts Console_Listing_Facts Console_Dialog
begin

text \<open>
  A verification development for the Engineering Software Factory (ESF): the JavaScript that runs
  inside and around the factory. Two programs are modelled in full detail, the Pi agent that
  carries out one task in a sandbox (\<open>agents/pi\<close>) and the operator console in the browser
  (\<open>internal/console/web/src\<close>), with the repository's own scripts beside them.

  \<^bold>\<open>How the parts interact.\<close> The factory starts \<open>runner.mjs\<close> in a sandbox. As supervisor it reads the
  request, takes the lock of the state directory (\<open>protocol.mjs\<close>), launches \<open>runner.mjs engine\<close> as a
  child (\<open>supervisor.mjs\<close>), receives its numbered messages, decides after a crash whether a second
  engine may be started, and writes the receipts the factory reads. The engine (\<open>engine.mjs\<close>) drives
  the pi libraries and derives audit events from their conversation views. The console polls the
  factory's read-only API (\<open>lib/api.js\<close>, \<open>lib/hooks.js\<close>), holds a token per tab (\<open>lib/session.jsx\<close>),
  routes by the hash (\<open>routes.js\<close>) and derives what its screens show from the JSON it got.

  \<^bold>\<open>The language.\<close> Values, numbers, dates and strings are those of JavaScript, built once and shared.

  \<^bold>\<open>Theories and sources.\<close>

  \<^item> \<open>Prelude\<close>: JavaScript strings as lists of 16-bit code units (\<open>jstr\<close>), string operations, stable
    sorting (the locale \<open>comparator\<close>), results \<open>error + 'a\<close> with \<open>bind_r\<close>, \<open>check\<close>, \<open>every_r\<close>.
  \<^item> \<open>Js_Number\<close>, \<open>Js_Value\<close>, \<open>Js_Date\<close>, \<open>Utf8\<close>: doubles as the rationals they stand for with rounding to
    even, the value type of JSON with the coercions of the source, ISO dates, and UTF-8 and base64.
    \<open>Json_Roundtrip\<close> proves \<open>JSON.parse (JSON.stringify v) = v\<close> for the values the program prints.
  \<^item> \<open>Pi_Protocol\<close> (\<open>protocol.mjs\<close>), \<open>Pi_Supervisor\<close> (\<open>supervisor.mjs\<close>), \<open>Pi_Engine\<close> (\<open>engine.mjs\<close>),
    \<open>Pi_Runner\<close> (\<open>runner.mjs\<close>): the directory is a map from names to nodes whose every write may fail at
    any byte; the supervisor is a record threaded through its handlers, with what happens to it (messages,
    exits, signals, timers) as a list of events; the engine is a function of the views its parameters
    show it. \<open>Pi_System\<close> composes the engine's channel, two queues and the supervisor's handler into a
    step relation (\<open>sys_step\<close>, \<open>reachable\<close>) and proves its invariants by rule induction.
  \<^item> \<open>Repo_Tools\<close>: \<open>.github/scripts/issue-triage.cjs\<close>, \<open>agents/pi/notices.mjs\<close>, \<open>agents/pi/export-catalog.mjs\<close>.
  \<^item> \<open>Console_Url\<close> (\<open>routes.js\<close> and the query builder), \<open>Console_Api\<close> (\<open>lib/api.js\<close>, \<open>lib/session.jsx\<close>,
    \<open>lib/workspace.jsx\<close>, \<open>lib/hooks.js\<close>), \<open>Console_Format\<close> (\<open>lib/format.js\<close>): the logic below every screen.
  \<^item> \<open>Console_Runs\<close>, \<open>Console_Flows\<close>: the status vocabulary and derivations of runs, changes and reviews.
  \<^item> \<open>Console_View\<close>: the tree a component returns. \<open>Console_Charts\<close>, \<open>Console_Lists\<close>, \<open>Console_Palette\<close>,
    \<open>Console_Dispatch\<close>, \<open>Console_Portfolio\<close>, \<open>Console_Ui\<close>, \<open>Console_Ops\<close>, \<open>Console_Settings\<close>,
    \<open>Console_Shell\<close>: the screens and components, each with its state as a record, one function per
    handler, and the view it renders. \<open>Console_Run_Viewer\<close> and \<open>Console_Run_Evidence\<close> are the page of one
    run with its fetches and its preview dialog, \<open>Console_Change\<close> the page of one change, \<open>Console_Security\<close>
    the threat report, \<open>Console_Operations\<close> the sandbox and infrastructure screen, \<open>Console_Overview\<close> the
    start page; \<open>Console_Kit\<close> holds the elements they name without expanding them.

  \<^item> \<open>Console_Wiring\<close>: what every page, the shell and the palette read through \<open>useApi\<close> and the requests that
    result (\<open>page_reads\<close>, \<open>load_request\<close>). \<open>Console_Listing\<close> runs the change portfolio as one system of
    filters, cursor pager and data hook (\<open>listing_reach\<close>), and \<open>Console_Dialog\<close> is the life of the evidence
    dialog: the focus, scrolling and keys it takes and gives back.

  Each component's facts are in the theory of its name with \<open>_Facts\<close>; those of the run pages are in
  \<open>Console_Run_Facts\<close>, those of the change, security, operations and overview pages in
  \<open>Console_Pages_Facts\<close>, where the links of all screens lead in \<open>Console_Links_Facts\<close> and \<open>Console_Outward_Facts\<close>,
  and what API client, session and application promise together in \<open>Console_App_Facts\<close>.

  \<^bold>\<open>What the lemmas show.\<close>

  \<^item> Pi agent: the supervisor's log refines a protocol of at most two launches (C1, C11); exit code,
    receipts and usage tell the truth (C2, C3, C9); recovery happens only when nothing can be running
    (C4, C14); one owner per state directory, given back at the end (C5, C10), over the interface
    \<open>exclusive_lock\<close>; receipts are written atomically and read back (C6, C7); a message that breaks the
    protocol stops the run (C12); and an engine's promise is resolved only after the supervisor recorded
    its message (C13).
  \<^item> Engine and scripts: tool calls are bracketed, open work is replayed, every way out closes the
    harness; issue text stays data and only an open, unlabelled issue is labelled.
  \<^item> Console logic: links, queries and diffs round trip; routes are well typed; session and token agree
    over the interface \<open>token_store\<close>, and a rejected credential ends the session and takes every page off
    the screen; a hook never goes back to older data; every request, for any hash, is a read of one endpoint of
    the console API, and its URL does not depend on a token.
  \<^item> Console screens: nothing is called a success, or a queue clear, without its evidence; filters restart
    paging and the pager is equivalent to a stack; a cursor goes out only with the filters it was handed
    out for, except after a failed load, where a lemma shows the contrary; links stay inside the
    console but for reported previews; the palette's keys and the global keys do what is printed and nothing else; the dispatch page's command is read by a POSIX
    shell as exactly its form, and only an allowed one is handed out; toasts are bounded.
  \<^item> Evidence pages: the patch or file on the run page answers the current request; on the run and
    security pages green stands for reported evidence, characterised over the whole tree; a sandbox is
    called a leak only where its attribution is known; a change offers exactly the reported decision
    commands; the overview shows no figure it was not given.

  \<^bold>\<open>Bounds and fuel.\<close> JSON texts are parsed with their length as fuel, which the round trip shows to be
  enough; the walk to the licence of a bundled file has the length of its path as fuel, and every further
  step shortens it. The supervisor's loop is measured by the restarts left, at most one. Splitting and
  scanning loops are measured by the rest of the text. The tick loop of a chart's axis is a partial
  function into \<open>option\<close>, as a step that no longer changes the value would not end. Everything else
  recurses structurally.

  \<^bold>\<open>Parameters.\<close> Code outside \<open>src/\<close> is an argument: the pi libraries (the views, usage and events they
  produce), SHA-256, the file system's inode numbers and free bytes, the network and GitHub, the URL
  parser of the platform (a hypothesis says it leaves paths of safe segments as they are), the time zone and the legacy date parser (\<open>clock\<close>), and \<open>localeCompare\<close> (an order
  per call). Properties that rely on one state it as a hypothesis or hold for all of them.

  \<^bold>\<open>Limits of the model.\<close> Reads of a property see own properties only, not those of \<open>Object.prototype\<close>.
  Positive and negative zero are one number. Case mapping is that of ASCII. \<open>Math.log10\<close> is exact.
  \<open>x || []\<close> on a response is read as the empty list when the value is not an array; where the source
  throws on a null entry the model answers \<open>Invalid\<close> or reads it as an object without properties. Views
  leave out class names, icons, keys, refs and handlers, and name a child component with its properties
  instead of expanding it. Focus and scrolling are modelled for the evidence dialog only. In
  \<open>Console_Listing\<close> the effects of a render run with it, before the next event.

  \<^bold>\<open>Not modelled.\<close> The class names of buttons, badges and fields. The bundled \<open>agents/pi/dist\<close> and \<open>internal/console/web/dist\<close> are
  generated from the sources above. The Go factory, its Python tools and the build configuration are in
  other languages or are declarative. Unit tests are not part of the program.
\<close>

end
